(* ===== verification/Prelude.thy ===== *)
theory Prelude
  imports Main "HOL-Library.Word"
begin

text \<open>
  Shared vocabulary of the development: the machine integers and byte strings of the Rust
  sources, the outcome type of fallible code (a value, an error, or a panic), the
  little-endian representation of integers in memory, and the parameters that stand for
  third-party crates, with the facts the sources rely on.
\<close>

unbundle bit_operations_syntax

section \<open>Machine integers and byte strings\<close>

type_synonym u8 = "8 word"
type_synonym u16 = "16 word"
type_synonym u32 = "32 word"
type_synonym u64 = "64 word"

text \<open>
  The signed integers \<open>i32\<close> and \<open>i64\<close> are the same bit patterns, read with \<open>sint\<close>. A value
  of type \<open>usize\<close> that is a length or an offset of memory is a \<^typ>\<open>nat\<close>.
\<close>

type_synonym i32 = "32 word"
type_synonym i64 = "64 word"
type_synonym bytes = "u8 list"

section \<open>Outcomes of fallible code\<close>

text \<open>
  A Rust function that returns \<open>Result<T, E>\<close> either returns \<open>Ok\<close>, returns \<open>Err\<close>, or
  panics (\<open>assert!\<close>, \<open>expect\<close>, \<open>unreachable!\<close>, an index out of bounds).
\<close>

datatype ('e, 'a) result = Ok 'a | Err 'e | Panic

text \<open>The \<open>?\<close> operator: continue with the value, or leave with the error or the panic.\<close>

fun and_then :: "('e, 'a) result \<Rightarrow> ('a \<Rightarrow> ('e, 'b) result) \<Rightarrow> ('e, 'b) result" where
  "and_then (Ok x) f = f x"
| "and_then (Err e) f = Err e"
| "and_then Panic f = Panic"

text \<open>\<open>Option::ok_or\<close>, and \<open>Result::expect\<close>, which panics on an error.\<close>

fun ok_or :: "'a option \<Rightarrow> 'e \<Rightarrow> ('e, 'a) result" where
  "ok_or None e = Err e"
| "ok_or (Some x) e = Ok x"

fun expect :: "('e, 'a) result \<Rightarrow> ('f, 'a) result" where
  "expect (Ok x) = Ok x"
| "expect (Err e) = Panic"
| "expect Panic = Panic"

text \<open>\<open>bool::then_some\<close>.\<close>

definition then_some :: "bool \<Rightarrow> 'a \<Rightarrow> 'a option" where
  "then_some b x = (if b then Some x else None)"

lemma then_some_simps [simp]:
  "then_some True x = Some x" "then_some False x = None"
  by (simp_all add: then_some_def)

lemma and_then_eq_Ok:
  "and_then r f = Ok y \<longleftrightarrow> (\<exists>x. r = Ok x \<and> f x = Ok y)"
  by (cases r) auto

lemma and_then_eq_Err:
  "and_then r f = Err e \<longleftrightarrow> r = Err e \<or> (\<exists>x. r = Ok x \<and> f x = Err e)"
  by (cases r) auto

lemma and_then_eq_Panic:
  "and_then r f = Panic \<longleftrightarrow> r = Panic \<or> (\<exists>x. r = Ok x \<and> f x = Panic)"
  by (cases r) auto

lemma ok_or_eq:
  "ok_or v e = Ok x \<longleftrightarrow> v = Some x"
  "ok_or v e = Err e' \<longleftrightarrow> v = None \<and> e' = e"
  "ok_or v e \<noteq> Panic"
  by (cases v; auto)+

lemma expect_eq:
  "expect r = Ok x \<longleftrightarrow> r = Ok x"
  "expect r \<noteq> Err e"
  "expect r = Panic \<longleftrightarrow> (\<forall>x. r \<noteq> Ok x)"
  by (cases r; auto)+

lemmas result_eqs = and_then_eq_Ok and_then_eq_Err and_then_eq_Panic ok_or_eq expect_eq

section \<open>Integers in memory\<close>

text \<open>
  The sources read and write integers in native byte order. The model fixes a little-endian
  target, as the byte-level unit tests of the repository do.
\<close>

primrec le_enc :: "nat \<Rightarrow> 'a::len word \<Rightarrow> bytes" where
  "le_enc 0 w = []"
| "le_enc (Suc n) w = ucast w # le_enc n (drop_bit 8 w)"

primrec le_dec :: "bytes \<Rightarrow> 'a::len word" where
  "le_dec [] = 0"
| "le_dec (b # bs) = ucast b OR push_bit 8 (le_dec bs)"

lemma le_enc_numeral [simp]:
  "le_enc (numeral n) w = ucast w # le_enc (pred_numeral n) (drop_bit 8 w)"
  by (simp add: numeral_eq_Suc)

lemma length_le_enc [simp]: "length (le_enc n w) = n"
  by (induction n arbitrary: w) auto

lemma le_dec_enc_take: "le_dec (le_enc n w) = take_bit (8 * n) w"
proof (induction n arbitrary: w)
  case 0
  show ?case by simp
next
  case (Suc n)
  show ?case
    by (rule bit_word_eqI) (auto simp: Suc.IH bit_simps)
qed

lemma le_dec_enc:
  assumes "LENGTH('a) = 8 * n"
  shows "le_dec (le_enc n (w :: 'a::len word)) = w"
  unfolding le_dec_enc_take assms [symmetric] by (rule take_bit_length_eq)

lemma le_dec_take: "take_bit (8 * length bs) (le_dec bs :: 'a::len word) = le_dec bs"
proof (induction bs)
  case Nil
  show ?case by simp
next
  case (Cons b bs)
  show ?case
  proof (rule bit_word_eqI)
    fix n assume n: "n < LENGTH('a)"
    have "bit (le_dec bs :: 'a word) (n - 8) \<Longrightarrow> n - 8 < 8 * length bs"
      by (subst (asm) Cons.IH [symmetric]) (simp add: bit_simps)
    with n show "bit (take_bit (8 * length (b # bs)) (le_dec (b # bs)) :: 'a word) n
        \<longleftrightarrow> bit (le_dec (b # bs) :: 'a word) n"
      by (auto simp: bit_simps dest: bit_imp_le_length)
  qed
qed

lemma le_dec_Cons_split:
  fixes cs :: bytes
  assumes "8 * Suc (length cs) \<le> LENGTH('a)"
  shows "ucast (le_dec (b # cs) :: 'a::len word) = b"
    and "drop_bit 8 (le_dec (b # cs) :: 'a word) = le_dec cs"
proof -
  show "ucast (le_dec (b # cs) :: 'a word) = b"
    by (rule bit_word_eqI) (use assms in \<open>auto simp: bit_simps\<close>)
  show "drop_bit 8 (le_dec (b # cs) :: 'a word) = le_dec cs"
  proof (rule bit_word_eqI)
    fix k assume k: "k < LENGTH('a)"
    have "bit (le_dec cs :: 'a word) k \<Longrightarrow> k < 8 * length cs"
      by (subst (asm) le_dec_take [symmetric]) (simp add: bit_simps)
    then show "bit (drop_bit 8 (le_dec (b # cs) :: 'a word)) k = bit (le_dec cs :: 'a word) k"
      using k assms by (auto simp: bit_simps dest: bit_imp_le_length)
  qed
qed

lemma le_enc_dec:
  "8 * length bs \<le> LENGTH('a) \<Longrightarrow> le_enc (length bs) (le_dec bs :: 'a::len word) = bs"
proof (induction bs)
  case Nil
  show ?case by simp
next
  case (Cons b cs)
  then show ?case
    using le_dec_Cons_split [where 'a = 'a, of cs b] by (simp del: le_dec.simps)
qed

text \<open>Equality of words bit by bit, for the simplifier, and masks as bounds.\<close>

lemma u32_eqI:
  assumes "list_all (\<lambda>n. bit x n = bit y n)
    [0, 1, 2, 3, 4, 5, 6, 7, 8, 9, 10, 11, 12, 13, 14, 15, 16, 17, 18, 19, 20, 21, 22, 23, 24,
    25, 26, 27, 28, 29, 30, 31]"
  shows "x = (y :: u32)"
  using assms by (intro bit_word_eqI) (auto simp: less_Suc_eq numeral_eq_Suc)

lemma u64_eqI:
  assumes "list_all (\<lambda>n. bit x n = bit y n)
    [0, 1, 2, 3, 4, 5, 6, 7, 8, 9, 10, 11, 12, 13, 14, 15, 16, 17, 18, 19, 20, 21, 22, 23, 24,
    25, 26, 27, 28, 29, 30, 31, 32, 33, 34, 35, 36, 37, 38, 39, 40, 41, 42, 43, 44, 45, 46, 47,
    48, 49, 50, 51, 52, 53, 54, 55, 56, 57, 58, 59, 60, 61, 62, 63]"
  shows "x = (y :: u64)"
  using assms by (intro bit_word_eqI) (auto simp: less_Suc_eq numeral_eq_Suc)

lemma and_mask_eq_self_iff: "w AND mask n = w \<longleftrightarrow> unat w < 2 ^ n" for w :: "'a::len word"
proof -
  have "w AND mask n = w \<longleftrightarrow> take_bit n (unat w) = unat w"
    by (metis take_bit_eq_mask unsigned_take_bit_eq unsigned_word_eqI)
  then show ?thesis by (simp add: take_bit_nat_eq_self_iff)
qed

section \<open>Flag sets\<close>

text \<open>
  A type declared with \<open>bitflags!\<close> is a transparent integer; its set operators are the bitwise
  operators, and \<open>contains\<close> asks for every bit of its argument.
\<close>

definition flags_contains :: "'a::len word \<Rightarrow> 'a word \<Rightarrow> bool" where
  "flags_contains self other \<longleftrightarrow> self AND other = other"

definition flags_remove :: "'a::len word \<Rightarrow> 'a word \<Rightarrow> 'a word" where
  "flags_remove self other = self AND NOT other"

lemma flags_contains_bit:
  "flags_contains a b \<longleftrightarrow> (\<forall>n. bit b n \<longrightarrow> bit a n)"
proof
  assume "flags_contains a b"
  then show "\<forall>n. bit b n \<longrightarrow> bit a n"
    unfolding flags_contains_def by (metis bit_and_iff)
next
  assume "\<forall>n. bit b n \<longrightarrow> bit a n"
  then show "flags_contains a b"
    unfolding flags_contains_def by (intro bit_word_eqI) (auto simp: bit_simps)
qed

lemma flags_contains_and [simp]: "flags_contains m (x AND m)"
  by (simp add: flags_contains_bit bit_simps)

lemma flags_contains_trans:
  "flags_contains a b \<Longrightarrow> flags_contains b c \<Longrightarrow> flags_contains a c"
  by (simp add: flags_contains_bit)

section \<open>Third-party crates\<close>

text \<open>
  Code that is not part of the repository, and the build profile, enter the model as a record.
  \<^item> \<open>truncate32\<close> and \<open>truncate64\<close>: \<open>from_bits_truncate\<close> of a \<open>bitflags\<close> type whose declared
    flags have the given union; \<open>xattr_truncate\<close> the same for \<open>rustix::fs::XattrFlags\<close>, whose
    flags are declared by \<open>rustix\<close>.
  \<^item> \<open>cast_ok size align addr len\<close>: whether \<open>zerocopy\<close>'s \<open>try_ref_from_bytes\<close> accepts a slice
    of \<open>len\<close> bytes at address \<open>addr\<close> as a value of that size and alignment, for a type
    without invalid bit patterns.
  \<^item> \<open>page_size\<close>: \<open>rustix::param::page_size()\<close>.
  \<^item> \<open>overflow_checks\<close>: the build profile, whether integer overflow panics (debug) or wraps
    around (release).
  \<^item> \<open>pid_valid\<close>: the numbers that \<open>rustix::process::Pid::from_raw\<close> accepts.
  \<^item> \<open>libc_major\<close>, \<open>libc_minor\<close>, \<open>libc_makedev\<close>: the device number functions of the C library.
\<close>

record extern =
  truncate32 :: "u32 \<Rightarrow> u32 \<Rightarrow> u32"
  truncate64 :: "u64 \<Rightarrow> u64 \<Rightarrow> u64"
  xattr_truncate :: "u32 \<Rightarrow> u32"
  cast_ok :: "nat \<Rightarrow> nat \<Rightarrow> nat \<Rightarrow> nat \<Rightarrow> bool"
  page_size :: nat
  overflow_checks :: bool
  pid_valid :: "i32 \<Rightarrow> bool"
  libc_major :: "u64 \<Rightarrow> u32"
  libc_minor :: "u64 \<Rightarrow> u32"
  libc_makedev :: "u32 \<Rightarrow> u32 \<Rightarrow> u64"

text \<open>
  What the crates document: unknown bits are dropped; a cast succeeds when the length is the
  size of the type and the address is aligned; a page is a power of two of at least 4096 and
  at most 65536 bytes; a process identifier is positive; \<open>major\<close> and \<open>minor\<close> take apart what \<open>makedev\<close> has put together.
\<close>

definition bitflags_ok :: "extern \<Rightarrow> bool" where
  "bitflags_ok X \<longleftrightarrow> (\<forall>m x. truncate32 X m x = x AND m) \<and> (\<forall>m x. truncate64 X m x = x AND m)"

definition zerocopy_ok :: "extern \<Rightarrow> bool" where
  "zerocopy_ok X \<longleftrightarrow>
     (\<forall>size align addr len. cast_ok X size align addr len \<longleftrightarrow> len = size \<and> addr mod align = 0)"

definition page_size_ok :: "extern \<Rightarrow> bool" where
  "page_size_ok X \<longleftrightarrow> page_size X \<in> {4096, 8192, 16384, 32768, 65536}"

definition pid_ok :: "extern \<Rightarrow> bool" where
  "pid_ok X \<longleftrightarrow> (\<forall>raw. pid_valid X raw \<longleftrightarrow> 0 < sint raw)"

definition libc_dev_ok :: "extern \<Rightarrow> bool" where
  "libc_dev_ok X \<longleftrightarrow>
     (\<forall>major minor. libc_major X (libc_makedev X major minor) = major \<and>
                    libc_minor X (libc_makedev X major minor) = minor)"

lemma truncate_simps:
  assumes "bitflags_ok X"
  shows "truncate32 X m x = x AND m" "truncate64 X m' x' = x' AND m'"
  using assms by (simp_all add: bitflags_ok_def)

lemma cast_ok_iff:
  assumes "zerocopy_ok X"
  shows "cast_ok X n align addr len \<longleftrightarrow> len = n \<and> addr mod align = 0"
  using assms by (simp add: zerocopy_ok_def)

text \<open>An instance at which the hypotheses hold: a page of 4096 bytes, device numbers as in
  the GNU C library.\<close>

definition linux_extern :: extern where
  "linux_extern =
     \<lparr> truncate32 = (\<lambda>m x. x AND m), truncate64 = (\<lambda>m x. x AND m),
       xattr_truncate = (\<lambda>x. x),
       cast_ok = (\<lambda>size align addr len. len = size \<and> addr mod align = 0),
       page_size = 4096, overflow_checks = False,
       pid_valid = (\<lambda>raw. 0 < sint raw),
       libc_major = (\<lambda>d. ucast (drop_bit 8 d AND 0xFFF) OR ucast (drop_bit 32 d AND 0xFFFFF000)),
       libc_minor = (\<lambda>d. ucast (d AND 0xFF) OR ucast (drop_bit 12 d AND 0xFFFFFF00)),
       libc_makedev = (\<lambda>major minor.
         push_bit 32 (ucast major AND 0xFFFFF000) OR push_bit 8 (ucast major AND 0xFFF) OR
         push_bit 12 (ucast minor AND 0xFFFFFF00) OR (ucast minor AND 0xFF)) \<rparr>"

lemma linux_extern_ok [simp]:
  "bitflags_ok linux_extern" "zerocopy_ok linux_extern" "page_size_ok linux_extern"
  "pid_ok linux_extern"
  by (simp_all add: bitflags_ok_def zerocopy_ok_def page_size_ok_def pid_ok_def linux_extern_def)

lemma linux_extern_dev_ok [simp]: "libc_dev_ok linux_extern"
  unfolding libc_dev_ok_def
  by (intro allI conjI; rule u32_eqI) (simp_all add: bit_simps linux_extern_def)

end
