(* ===== verification/Platform.thy ===== *)
theory Platform
  imports Prelude
begin

text \<open>
  The platform the model is fixed to: the C library constants the sources name, with their
  values on \<open>x86_64-unknown-linux-gnu\<close>, the operating system errors, and the standard
  library's \<open>Duration\<close>.
\<close>

named_theorems libc_const "values of the C library constants"

section \<open>Constants of the C library\<close>

definition S_IFMT :: u32 where [libc_const]: "S_IFMT = 0xF000"
definition S_IFSOCK :: u32 where [libc_const]: "S_IFSOCK = 0xC000"
definition S_IFLNK :: u32 where [libc_const]: "S_IFLNK = 0xA000"
definition S_IFREG :: u32 where [libc_const]: "S_IFREG = 0x8000"
definition S_IFBLK :: u32 where [libc_const]: "S_IFBLK = 0x6000"
definition S_IFDIR :: u32 where [libc_const]: "S_IFDIR = 0x4000"
definition S_IFCHR :: u32 where [libc_const]: "S_IFCHR = 0x2000"
definition S_IFIFO :: u32 where [libc_const]: "S_IFIFO = 0x1000"

definition S_ISUID :: u32 where [libc_const]: "S_ISUID = 0x800"
definition S_ISGID :: u32 where [libc_const]: "S_ISGID = 0x400"
definition S_ISVTX :: u32 where [libc_const]: "S_ISVTX = 0x200"
definition S_IRUSR :: u32 where [libc_const]: "S_IRUSR = 0x100"
definition S_IWUSR :: u32 where [libc_const]: "S_IWUSR = 0x80"
definition S_IXUSR :: u32 where [libc_const]: "S_IXUSR = 0x40"
definition S_IRGRP :: u32 where [libc_const]: "S_IRGRP = 0x20"
definition S_IWGRP :: u32 where [libc_const]: "S_IWGRP = 0x10"
definition S_IXGRP :: u32 where [libc_const]: "S_IXGRP = 0x8"
definition S_IROTH :: u32 where [libc_const]: "S_IROTH = 0x4"
definition S_IWOTH :: u32 where [libc_const]: "S_IWOTH = 0x2"
definition S_IXOTH :: u32 where [libc_const]: "S_IXOTH = 0x1"

definition DT_UNKNOWN :: u8 where [libc_const]: "DT_UNKNOWN = 0"
definition DT_FIFO :: u8 where [libc_const]: "DT_FIFO = 1"
definition DT_CHR :: u8 where [libc_const]: "DT_CHR = 2"
definition DT_DIR :: u8 where [libc_const]: "DT_DIR = 4"
definition DT_BLK :: u8 where [libc_const]: "DT_BLK = 6"
definition DT_REG :: u8 where [libc_const]: "DT_REG = 8"
definition DT_LNK :: u8 where [libc_const]: "DT_LNK = 10"
definition DT_SOCK :: u8 where [libc_const]: "DT_SOCK = 12"

definition POLLIN :: u32 where [libc_const]: "POLLIN = 0x1"
definition POLLOUT :: u32 where [libc_const]: "POLLOUT = 0x4"
definition POLLERR :: u32 where [libc_const]: "POLLERR = 0x8"
definition POLLHUP :: u32 where [libc_const]: "POLLHUP = 0x10"
definition POLLNVAL :: u32 where [libc_const]: "POLLNVAL = 0x20"
definition POLLRDHUP :: u32 where [libc_const]: "POLLRDHUP = 0x2000"

definition F_RDLCK :: i32 where [libc_const]: "F_RDLCK = 0"
definition F_WRLCK :: i32 where [libc_const]: "F_WRLCK = 1"
definition F_UNLCK :: i32 where [libc_const]: "F_UNLCK = 2"

definition LOCK_SH :: i32 where [libc_const]: "LOCK_SH = 1"
definition LOCK_EX :: i32 where [libc_const]: "LOCK_EX = 2"
definition LOCK_NB :: i32 where [libc_const]: "LOCK_NB = 4"
definition LOCK_UN :: i32 where [libc_const]: "LOCK_UN = 8"

definition SEEK_SET :: i32 where [libc_const]: "SEEK_SET = 0"
definition SEEK_CUR :: i32 where [libc_const]: "SEEK_CUR = 1"
definition SEEK_END :: i32 where [libc_const]: "SEEK_END = 2"
definition SEEK_DATA :: i32 where [libc_const]: "SEEK_DATA = 3"
definition SEEK_HOLE :: i32 where [libc_const]: "SEEK_HOLE = 4"

definition RENAME_NOREPLACE :: u32 where [libc_const]: "RENAME_NOREPLACE = 1"
definition RENAME_EXCHANGE :: u32 where [libc_const]: "RENAME_EXCHANGE = 2"
definition RENAME_WHITEOUT :: u32 where [libc_const]: "RENAME_WHITEOUT = 4"

definition FALLOC_FL_KEEP_SIZE :: u32 where [libc_const]: "FALLOC_FL_KEEP_SIZE = 0x1"
definition FALLOC_FL_PUNCH_HOLE :: u32 where [libc_const]: "FALLOC_FL_PUNCH_HOLE = 0x2"
definition FALLOC_FL_COLLAPSE_RANGE :: u32 where [libc_const]: "FALLOC_FL_COLLAPSE_RANGE = 0x8"
definition FALLOC_FL_ZERO_RANGE :: u32 where [libc_const]: "FALLOC_FL_ZERO_RANGE = 0x10"
definition FALLOC_FL_INSERT_RANGE :: u32 where [libc_const]: "FALLOC_FL_INSERT_RANGE = 0x20"
definition FALLOC_FL_UNSHARE_RANGE :: u32 where [libc_const]: "FALLOC_FL_UNSHARE_RANGE = 0x40"

definition O_ACCMODE :: i32 where [libc_const]: "O_ACCMODE = 3"
definition O_RDONLY :: i32 where [libc_const]: "O_RDONLY = 0"
definition O_WRONLY :: i32 where [libc_const]: "O_WRONLY = 1"
definition O_RDWR :: i32 where [libc_const]: "O_RDWR = 2"
definition O_TRUNC :: u32 where [libc_const]: "O_TRUNC = 0x200"
definition O_APPEND :: u32 where [libc_const]: "O_APPEND = 0x400"
definition O_NONBLOCK :: u32 where [libc_const]: "O_NONBLOCK = 0x800"
definition O_NDELAY :: u32 where [libc_const]: "O_NDELAY = 0x800"
definition O_DSYNC :: u32 where [libc_const]: "O_DSYNC = 0x1000"
definition O_ASYNC :: u32 where [libc_const]: "O_ASYNC = 0x2000"
definition O_DIRECT :: u32 where [libc_const]: "O_DIRECT = 0x4000"
definition O_LARGEFILE :: u32 where [libc_const]: "O_LARGEFILE = 0"
definition O_DIRECTORY :: u32 where [libc_const]: "O_DIRECTORY = 0x10000"
definition O_NOFOLLOW :: u32 where [libc_const]: "O_NOFOLLOW = 0x20000"
definition O_NOATIME :: u32 where [libc_const]: "O_NOATIME = 0x40000"
definition O_CLOEXEC :: u32 where [libc_const]: "O_CLOEXEC = 0x80000"
definition O_SYNC :: u32 where [libc_const]: "O_SYNC = 0x101000"
definition O_PATH :: u32 where [libc_const]: "O_PATH = 0x200000"
definition O_TMPFILE :: u32 where [libc_const]: "O_TMPFILE = 0x410000"

text \<open>\<open>str::as_bytes\<close> of a literal.\<close>

definition as_bytes :: "string \<Rightarrow> bytes" where
  "as_bytes s = map of_char s"

section \<open>Errors of the operating system and of the standard library\<close>

definition EPERM :: i32 where [libc_const]: "EPERM = 1"
definition ENOENT :: i32 where [libc_const]: "ENOENT = 2"
definition EINTR :: i32 where [libc_const]: "EINTR = 4"
definition ENODEV :: i32 where [libc_const]: "ENODEV = 19"
definition EINVAL :: i32 where [libc_const]: "EINVAL = 22"
definition EPROTO :: i32 where [libc_const]: "EPROTO = 71"
definition EEXIST :: i32 where [libc_const]: "EEXIST = 17"
definition ENOTDIR :: i32 where [libc_const]: "ENOTDIR = 20"
definition EISDIR :: i32 where [libc_const]: "EISDIR = 21"
definition ENOTEMPTY :: i32 where [libc_const]: "ENOTEMPTY = 39"
definition ENOSYS :: i32 where [libc_const]: "ENOSYS = 38"
definition ENODATA :: i32 where [libc_const]: "ENODATA = 61"
definition ERANGE :: i32 where [libc_const]: "ERANGE = 34"
definition EOPNOTSUPP :: i32 where [libc_const]: "EOPNOTSUPP = 95"
definition EACCES :: i32 where [libc_const]: "EACCES = 13"
definition ENAMETOOLONG :: i32 where [libc_const]: "ENAMETOOLONG = 36"

text \<open>
  An \<open>io::Error\<close> either carries an error number of the operating system or a kind of the
  standard library; \<open>Errno::from_io_error\<close> recovers the former.
\<close>

datatype io_error_kind = KindOther | InvalidData | NotFound | UnexpectedEofKind | WouldBlock
  | InvalidInput | WriteZero

datatype io_error = OsError i32 | CustomError io_error_kind

fun errno_from_io_error :: "io_error \<Rightarrow> i32 option" where
  "errno_from_io_error (OsError e) = Some e"
| "errno_from_io_error (CustomError k) = None"

section \<open>Durations\<close>

text \<open>
  \<open>std::time::Duration\<close>: seconds and nanoseconds below \<open>10^9\<close>. The constructor carries
  excess nanoseconds into the seconds and panics when the seconds overflow.
\<close>

record duration =
  as_secs :: u64
  subsec_nanos :: u32

abbreviation nanos_per_sec :: u32 where
  "nanos_per_sec \<equiv> 1000000000"

definition duration_new :: "u64 \<Rightarrow> u32 \<Rightarrow> ('e, duration) result" where
  "duration_new secs nanos =
     (if nanos < nanos_per_sec then Ok \<lparr>as_secs = secs, subsec_nanos = nanos\<rparr>
      else if unat secs + unat (nanos div nanos_per_sec) < 2 ^ 64
      then Ok \<lparr>as_secs = secs + ucast (nanos div nanos_per_sec),
               subsec_nanos = nanos mod nanos_per_sec\<rparr>
      else Panic)"

definition duration_zero :: duration where
  "duration_zero = \<lparr>as_secs = 0, subsec_nanos = 0\<rparr>"

definition duration_wf :: "duration \<Rightarrow> bool" where
  "duration_wf d \<longleftrightarrow> subsec_nanos d < nanos_per_sec"

lemma duration_new_wf: "duration_new s n = Ok d \<Longrightarrow> duration_wf d"
proof (cases "n < nanos_per_sec")
  case False
  have "n mod nanos_per_sec < nanos_per_sec" by (rule word_mod_less_divisor) simp
  with False show "duration_new s n = Ok d \<Longrightarrow> duration_wf d"
    by (auto simp: duration_new_def duration_wf_def split: if_splits)
qed (auto simp: duration_new_def duration_wf_def)

lemma duration_new_not_Err: "duration_new s n \<noteq> Err e"
  by (simp add: duration_new_def)

lemma duration_new_same:
  "duration_wf d \<Longrightarrow> duration_new (as_secs d) (subsec_nanos d) = Ok d"
  by (simp add: duration_new_def duration_wf_def)

lemma duration_new_Panic:
  "duration_new s n = Panic \<longleftrightarrow> 2 ^ 64 \<le> unat s + unat n div 10 ^ 9"
proof (cases "n < nanos_per_sec")
  case True
  then have "unat n div 10 ^ 9 = 0" by (simp add: word_less_nat_alt)
  moreover have "unat s < 2 ^ 64" using unsigned_less [of s, where 'a = nat] by simp
  ultimately show ?thesis using True by (simp add: duration_new_def)
next
  case False
  then show ?thesis by (auto simp: duration_new_def unat_div_distrib)
qed

end
