(* ===== verification/Abi_Const.thy ===== *)
theory Abi_Const
  imports Prelude
begin

text \<open>
  The constants, opcodes and notification codes of the FUSE application binary interface
  (\<open>crates/polyfuse-kernel/src/lib.rs\<close>). An \<open>enum\<close> with explicit discriminants is a datatype
  with its discriminant function and the partial inverse that \<open>try_transmute!\<close> computes.
\<close>

named_theorems abi_const "values of the interface constants"

section \<open>Constants\<close>

definition FUSE_KERNEL_VERSION :: u32 where [abi_const]: "FUSE_KERNEL_VERSION = 7"
definition FUSE_KERNEL_MINOR_VERSION :: u32 where [abi_const]: "FUSE_KERNEL_MINOR_VERSION = 44"
definition FUSE_MIN_READ_BUFFER :: u32 where [abi_const]: "FUSE_MIN_READ_BUFFER = 8192"
definition FUSE_DEV_IOC_CLONE :: u64 where [abi_const]: "FUSE_DEV_IOC_CLONE = 0x8004E500"
definition FATTR_MODE :: u32 where [abi_const]: "FATTR_MODE = push_bit 0 1"
definition FATTR_UID :: u32 where [abi_const]: "FATTR_UID = push_bit 1 1"
definition FATTR_GID :: u32 where [abi_const]: "FATTR_GID = push_bit 2 1"
definition FATTR_SIZE :: u32 where [abi_const]: "FATTR_SIZE = push_bit 3 1"
definition FATTR_ATIME :: u32 where [abi_const]: "FATTR_ATIME = push_bit 4 1"
definition FATTR_MTIME :: u32 where [abi_const]: "FATTR_MTIME = push_bit 5 1"
definition FATTR_FH :: u32 where [abi_const]: "FATTR_FH = push_bit 6 1"
definition FATTR_ATIME_NOW :: u32 where [abi_const]: "FATTR_ATIME_NOW = push_bit 7 1"
definition FATTR_MTIME_NOW :: u32 where [abi_const]: "FATTR_MTIME_NOW = push_bit 8 1"
definition FATTR_LOCKOWNER :: u32 where [abi_const]: "FATTR_LOCKOWNER = push_bit 9 1"
definition FATTR_CTIME :: u32 where [abi_const]: "FATTR_CTIME = push_bit 10 1"
definition FATTR_KILL_SUIDGID :: u32 where [abi_const]: "FATTR_KILL_SUIDGID = push_bit 11 1"
definition FOPEN_DIRECT_IO :: u32 where [abi_const]: "FOPEN_DIRECT_IO = push_bit 0 1"
definition FOPEN_KEEP_CACHE :: u32 where [abi_const]: "FOPEN_KEEP_CACHE = push_bit 1 1"
definition FOPEN_NONSEEKABLE :: u32 where [abi_const]: "FOPEN_NONSEEKABLE = push_bit 2 1"
definition FOPEN_CACHE_DIR :: u32 where [abi_const]: "FOPEN_CACHE_DIR = push_bit 3 1"
definition FOPEN_STREAM :: u32 where [abi_const]: "FOPEN_STREAM = push_bit 4 1"
definition FOPEN_NOFLUSH :: u32 where [abi_const]: "FOPEN_NOFLUSH = push_bit 5 1"
definition FOPEN_PARALLEL_DIRECT_WRITES :: u32 where [abi_const]: "FOPEN_PARALLEL_DIRECT_WRITES = push_bit 6 1"
definition FOPEN_PASSTHROUGH :: u32 where [abi_const]: "FOPEN_PASSTHROUGH = push_bit 7 1"
definition FUSE_ASYNC_READ :: u32 where [abi_const]: "FUSE_ASYNC_READ = 1"
definition FUSE_POSIX_LOCKS :: u32 where [abi_const]: "FUSE_POSIX_LOCKS = push_bit 1 1"
definition FUSE_ATOMIC_O_TRUNC :: u32 where [abi_const]: "FUSE_ATOMIC_O_TRUNC = push_bit 3 1"
definition FUSE_EXPORT_SUPPORT :: u32 where [abi_const]: "FUSE_EXPORT_SUPPORT = push_bit 4 1"
definition FUSE_BIG_WRITES :: u32 where [abi_const]: "FUSE_BIG_WRITES = push_bit 5 1"
definition FUSE_DONT_MASK :: u32 where [abi_const]: "FUSE_DONT_MASK = push_bit 6 1"
definition FUSE_SPLICE_WRITE :: u32 where [abi_const]: "FUSE_SPLICE_WRITE = push_bit 7 1"
definition FUSE_SPLICE_MOVE :: u32 where [abi_const]: "FUSE_SPLICE_MOVE = push_bit 8 1"
definition FUSE_SPLICE_READ :: u32 where [abi_const]: "FUSE_SPLICE_READ = push_bit 9 1"
definition FUSE_FLOCK_LOCKS :: u32 where [abi_const]: "FUSE_FLOCK_LOCKS = push_bit 10 1"
definition FUSE_AUTO_INVAL_DATA :: u32 where [abi_const]: "FUSE_AUTO_INVAL_DATA = push_bit 12 1"
definition FUSE_DO_READDIRPLUS :: u32 where [abi_const]: "FUSE_DO_READDIRPLUS = push_bit 13 1"
definition FUSE_READDIRPLUS_AUTO :: u32 where [abi_const]: "FUSE_READDIRPLUS_AUTO = push_bit 14 1"
definition FUSE_ASYNC_DIO :: u32 where [abi_const]: "FUSE_ASYNC_DIO = push_bit 15 1"
definition FUSE_WRITEBACK_CACHE :: u32 where [abi_const]: "FUSE_WRITEBACK_CACHE = push_bit 16 1"
definition FUSE_NO_OPEN_SUPPORT :: u32 where [abi_const]: "FUSE_NO_OPEN_SUPPORT = push_bit 17 1"
definition FUSE_PARALLEL_DIROPS :: u32 where [abi_const]: "FUSE_PARALLEL_DIROPS = push_bit 18 1"
definition FUSE_HANDLE_KILLPRIV :: u32 where [abi_const]: "FUSE_HANDLE_KILLPRIV = push_bit 19 1"
definition FUSE_POSIX_ACL :: u32 where [abi_const]: "FUSE_POSIX_ACL = push_bit 20 1"
definition FUSE_ABORT_ERROR :: u32 where [abi_const]: "FUSE_ABORT_ERROR = push_bit 21 1"
definition FUSE_MAX_PAGES :: u32 where [abi_const]: "FUSE_MAX_PAGES = push_bit 22 1"
definition FUSE_CACHE_SYMLINKS :: u32 where [abi_const]: "FUSE_CACHE_SYMLINKS = push_bit 23 1"
definition FUSE_NO_OPENDIR_SUPPORT :: u32 where [abi_const]: "FUSE_NO_OPENDIR_SUPPORT = push_bit 24 1"
definition FUSE_EXPLICIT_INVAL_DATA :: u32 where [abi_const]: "FUSE_EXPLICIT_INVAL_DATA = push_bit 25 1"
definition FUSE_HANDLE_KILLPRIV_V2 :: u32 where [abi_const]: "FUSE_HANDLE_KILLPRIV_V2 = push_bit 28 1"
definition FUSE_SETXATTR_EXT :: u32 where [abi_const]: "FUSE_SETXATTR_EXT = push_bit 29 1"
definition FUSE_INIT_EXT :: u32 where [abi_const]: "FUSE_INIT_EXT = push_bit 30 1"
definition FUSE_SECURITY_CTX :: u64 where [abi_const]: "FUSE_SECURITY_CTX = push_bit 32 1"
definition FUSE_CREATE_SUPP_GROUP :: u64 where [abi_const]: "FUSE_CREATE_SUPP_GROUP = push_bit 34 1"
definition FUSE_HAS_EXPIRE_ONLY :: u64 where [abi_const]: "FUSE_HAS_EXPIRE_ONLY = push_bit 35 1"
definition FUSE_DIRECT_IO_ALLOW_MMAP :: u64 where [abi_const]: "FUSE_DIRECT_IO_ALLOW_MMAP = push_bit 36 1"
definition FUSE_PASSTHROUGH :: u64 where [abi_const]: "FUSE_PASSTHROUGH = push_bit 37 1"
definition FUSE_NO_EXPORT_SUPPORT :: u64 where [abi_const]: "FUSE_NO_EXPORT_SUPPORT = push_bit 38 1"
definition FUSE_HAS_RESEND :: u64 where [abi_const]: "FUSE_HAS_RESEND = push_bit 39 1"
definition FUSE_ALLOW_IDMAP :: u64 where [abi_const]: "FUSE_ALLOW_IDMAP = push_bit 40 1"
definition FUSE_OVER_IO_URING :: u64 where [abi_const]: "FUSE_OVER_IO_URING = push_bit 41 1"
definition FUSE_REQUEST_TIMEOUT :: u64 where [abi_const]: "FUSE_REQUEST_TIMEOUT = push_bit 42 1"
definition FUSE_RELEASE_FLUSH :: u32 where [abi_const]: "FUSE_RELEASE_FLUSH = push_bit 0 1"
definition FUSE_RELEASE_FLOCK_UNLOCK :: u32 where [abi_const]: "FUSE_RELEASE_FLOCK_UNLOCK = push_bit 1 1"
definition FUSE_GETATTR_FH :: u32 where [abi_const]: "FUSE_GETATTR_FH = 1"
definition FUSE_LK_FLOCK :: u32 where [abi_const]: "FUSE_LK_FLOCK = push_bit 0 1"
definition FUSE_WRITE_CACHE :: u32 where [abi_const]: "FUSE_WRITE_CACHE = push_bit 0 1"
definition FUSE_WRITE_LOCKOWNER :: u32 where [abi_const]: "FUSE_WRITE_LOCKOWNER = push_bit 1 1"
definition FUSE_WRITE_KILL_SUIDGID :: u32 where [abi_const]: "FUSE_WRITE_KILL_SUIDGID = push_bit 2 1"
definition FUSE_READ_LOCKOWNER :: u32 where [abi_const]: "FUSE_READ_LOCKOWNER = push_bit 1 1"
definition FUSE_POLL_SCHEDULE_NOTIFY :: u32 where [abi_const]: "FUSE_POLL_SCHEDULE_NOTIFY = push_bit 0 1"
definition FUSE_FSYNC_FDATASYNC :: u32 where [abi_const]: "FUSE_FSYNC_FDATASYNC = push_bit 0 1"
definition FUSE_OPEN_KILL_SUIDGID :: u32 where [abi_const]: "FUSE_OPEN_KILL_SUIDGID = push_bit 0 1"
definition FUSE_SETXATTR_ACL_KILL_SGID :: u32 where [abi_const]: "FUSE_SETXATTR_ACL_KILL_SGID = push_bit 0 1"
definition FUSE_COMPAT_MKNOD_IN_SIZE :: nat where [abi_const]: "FUSE_COMPAT_MKNOD_IN_SIZE = 8"
definition FUSE_COMPAT_WRITE_IN_SIZE :: nat where [abi_const]: "FUSE_COMPAT_WRITE_IN_SIZE = 24"
definition FUSE_COMPAT_SETXATTR_IN_SIZE :: nat where [abi_const]: "FUSE_COMPAT_SETXATTR_IN_SIZE = 8"
definition FUSE_COMPAT_ATTR_OUT_SIZE :: nat where [abi_const]: "FUSE_COMPAT_ATTR_OUT_SIZE = 96"
definition FUSE_COMPAT_ENTRY_OUT_SIZE :: nat where [abi_const]: "FUSE_COMPAT_ENTRY_OUT_SIZE = 120"
definition FUSE_COMPAT_INIT_OUT_SIZE :: nat where [abi_const]: "FUSE_COMPAT_INIT_OUT_SIZE = 8"
definition FUSE_COMPAT_22_INIT_OUT_SIZE :: nat where [abi_const]: "FUSE_COMPAT_22_INIT_OUT_SIZE = 24"
definition FUSE_COMPAT_STATFS_SIZE :: nat where [abi_const]: "FUSE_COMPAT_STATFS_SIZE = 48"

section \<open>Opcodes\<close>

datatype fuse_opcode =
    FUSE_LOOKUP | FUSE_FORGET | FUSE_GETATTR | FUSE_SETATTR
  | FUSE_READLINK | FUSE_SYMLINK | FUSE_MKNOD | FUSE_MKDIR
  | FUSE_UNLINK | FUSE_RMDIR | FUSE_RENAME | FUSE_LINK
  | FUSE_OPEN | FUSE_READ | FUSE_WRITE | FUSE_STATFS
  | FUSE_RELEASE | FUSE_FSYNC | FUSE_SETXATTR | FUSE_GETXATTR
  | FUSE_LISTXATTR | FUSE_REMOVEXATTR | FUSE_FLUSH | FUSE_INIT
  | FUSE_OPENDIR | FUSE_READDIR | FUSE_RELEASEDIR | FUSE_FSYNCDIR
  | FUSE_GETLK | FUSE_SETLK | FUSE_SETLKW | FUSE_ACCESS
  | FUSE_CREATE | FUSE_INTERRUPT | FUSE_BMAP | FUSE_DESTROY
  | FUSE_IOCTL | FUSE_POLL | FUSE_NOTIFY_REPLY | FUSE_BATCH_FORGET
  | FUSE_FALLOCATE | FUSE_READDIRPLUS | FUSE_RENAME2 | FUSE_LSEEK
  | FUSE_COPY_FILE_RANGE | FUSE_SETUPMAPPING | FUSE_REMOVEMAPPING | FUSE_SYNCFS
  | FUSE_TMPFILE | FUSE_STATX | CUSE_INIT

fun opcode_value :: "fuse_opcode \<Rightarrow> u32" where
  "opcode_value FUSE_LOOKUP = 1"
| "opcode_value FUSE_FORGET = 2"
| "opcode_value FUSE_GETATTR = 3"
| "opcode_value FUSE_SETATTR = 4"
| "opcode_value FUSE_READLINK = 5"
| "opcode_value FUSE_SYMLINK = 6"
| "opcode_value FUSE_MKNOD = 8"
| "opcode_value FUSE_MKDIR = 9"
| "opcode_value FUSE_UNLINK = 10"
| "opcode_value FUSE_RMDIR = 11"
| "opcode_value FUSE_RENAME = 12"
| "opcode_value FUSE_LINK = 13"
| "opcode_value FUSE_OPEN = 14"
| "opcode_value FUSE_READ = 15"
| "opcode_value FUSE_WRITE = 16"
| "opcode_value FUSE_STATFS = 17"
| "opcode_value FUSE_RELEASE = 18"
| "opcode_value FUSE_FSYNC = 20"
| "opcode_value FUSE_SETXATTR = 21"
| "opcode_value FUSE_GETXATTR = 22"
| "opcode_value FUSE_LISTXATTR = 23"
| "opcode_value FUSE_REMOVEXATTR = 24"
| "opcode_value FUSE_FLUSH = 25"
| "opcode_value FUSE_INIT = 26"
| "opcode_value FUSE_OPENDIR = 27"
| "opcode_value FUSE_READDIR = 28"
| "opcode_value FUSE_RELEASEDIR = 29"
| "opcode_value FUSE_FSYNCDIR = 30"
| "opcode_value FUSE_GETLK = 31"
| "opcode_value FUSE_SETLK = 32"
| "opcode_value FUSE_SETLKW = 33"
| "opcode_value FUSE_ACCESS = 34"
| "opcode_value FUSE_CREATE = 35"
| "opcode_value FUSE_INTERRUPT = 36"
| "opcode_value FUSE_BMAP = 37"
| "opcode_value FUSE_DESTROY = 38"
| "opcode_value FUSE_IOCTL = 39"
| "opcode_value FUSE_POLL = 40"
| "opcode_value FUSE_NOTIFY_REPLY = 41"
| "opcode_value FUSE_BATCH_FORGET = 42"
| "opcode_value FUSE_FALLOCATE = 43"
| "opcode_value FUSE_READDIRPLUS = 44"
| "opcode_value FUSE_RENAME2 = 45"
| "opcode_value FUSE_LSEEK = 46"
| "opcode_value FUSE_COPY_FILE_RANGE = 47"
| "opcode_value FUSE_SETUPMAPPING = 48"
| "opcode_value FUSE_REMOVEMAPPING = 49"
| "opcode_value FUSE_SYNCFS = 50"
| "opcode_value FUSE_TMPFILE = 51"
| "opcode_value FUSE_STATX = 52"
| "opcode_value CUSE_INIT = 4096"

definition fuse_opcode_list :: "fuse_opcode list" where
  "fuse_opcode_list =
     [FUSE_LOOKUP, FUSE_FORGET, FUSE_GETATTR, FUSE_SETATTR,
      FUSE_READLINK, FUSE_SYMLINK, FUSE_MKNOD, FUSE_MKDIR,
      FUSE_UNLINK, FUSE_RMDIR, FUSE_RENAME, FUSE_LINK,
      FUSE_OPEN, FUSE_READ, FUSE_WRITE, FUSE_STATFS,
      FUSE_RELEASE, FUSE_FSYNC, FUSE_SETXATTR, FUSE_GETXATTR,
      FUSE_LISTXATTR, FUSE_REMOVEXATTR, FUSE_FLUSH, FUSE_INIT,
      FUSE_OPENDIR, FUSE_READDIR, FUSE_RELEASEDIR, FUSE_FSYNCDIR,
      FUSE_GETLK, FUSE_SETLK, FUSE_SETLKW, FUSE_ACCESS,
      FUSE_CREATE, FUSE_INTERRUPT, FUSE_BMAP, FUSE_DESTROY,
      FUSE_IOCTL, FUSE_POLL, FUSE_NOTIFY_REPLY, FUSE_BATCH_FORGET,
      FUSE_FALLOCATE, FUSE_READDIRPLUS, FUSE_RENAME2, FUSE_LSEEK,
      FUSE_COPY_FILE_RANGE, FUSE_SETUPMAPPING, FUSE_REMOVEMAPPING, FUSE_SYNCFS,
      FUSE_TMPFILE, FUSE_STATX, CUSE_INIT]"

definition opcode_from_raw :: "u32 \<Rightarrow> fuse_opcode option" where
  "opcode_from_raw w = find (\<lambda>c. opcode_value c = w) fuse_opcode_list"

lemma opcode_from_raw_value [simp]: "opcode_from_raw (opcode_value c) = Some c"
  by (cases c) (simp_all add: opcode_from_raw_def fuse_opcode_list_def)

lemma opcode_from_raw_Some: "opcode_from_raw w = Some c \<longleftrightarrow> w = opcode_value c"
proof
  assume "opcode_from_raw w = Some c"
  then show "w = opcode_value c" by (auto simp: opcode_from_raw_def find_Some_iff)
qed simp


section \<open>Notification codes\<close>

datatype fuse_notify_code =
    FUSE_NOTIFY_POLL | FUSE_NOTIFY_INVAL_INODE | FUSE_NOTIFY_INVAL_ENTRY | FUSE_NOTIFY_STORE
  | FUSE_NOTIFY_RETRIEVE | FUSE_NOTIFY_DELETE | FUSE_NOTIFY_RESEND | FUSE_NOTIFY_INC_EPOCH

fun notify_code_value :: "fuse_notify_code \<Rightarrow> u32" where
  "notify_code_value FUSE_NOTIFY_POLL = 1"
| "notify_code_value FUSE_NOTIFY_INVAL_INODE = 2"
| "notify_code_value FUSE_NOTIFY_INVAL_ENTRY = 3"
| "notify_code_value FUSE_NOTIFY_STORE = 4"
| "notify_code_value FUSE_NOTIFY_RETRIEVE = 5"
| "notify_code_value FUSE_NOTIFY_DELETE = 6"
| "notify_code_value FUSE_NOTIFY_RESEND = 7"
| "notify_code_value FUSE_NOTIFY_INC_EPOCH = 8"

definition fuse_notify_code_list :: "fuse_notify_code list" where
  "fuse_notify_code_list =
     [FUSE_NOTIFY_POLL, FUSE_NOTIFY_INVAL_INODE, FUSE_NOTIFY_INVAL_ENTRY, FUSE_NOTIFY_STORE,
      FUSE_NOTIFY_RETRIEVE, FUSE_NOTIFY_DELETE, FUSE_NOTIFY_RESEND, FUSE_NOTIFY_INC_EPOCH]"

definition notify_code_from_raw :: "u32 \<Rightarrow> fuse_notify_code option" where
  "notify_code_from_raw w = find (\<lambda>c. notify_code_value c = w) fuse_notify_code_list"

lemma notify_code_from_raw_value [simp]: "notify_code_from_raw (notify_code_value c) = Some c"
  by (cases c) (simp_all add: notify_code_from_raw_def fuse_notify_code_list_def)

lemma notify_code_from_raw_Some: "notify_code_from_raw w = Some c \<longleftrightarrow> w = notify_code_value c"
proof
  assume "notify_code_from_raw w = Some c"
  then show "w = notify_code_value c" by (auto simp: notify_code_from_raw_def find_Some_iff)
qed simp

end
