(* ===== verification/Types.thy ===== *)
theory Types
  imports Platform Abi_Const
begin

text \<open>
  The common types of the library (\<open>src/types.rs\<close>): identifiers, device numbers, file modes,
  file attributes, and the conversions from the structures of the C library.
\<close>

section \<open>Identifiers\<close>

text \<open>\<open>define_id_type!\<close>: \<open>from_raw\<close> is the constructor, \<open>into_raw\<close> the selector.\<close>

datatype RequestID = RequestID (RequestID_into_raw: u64)
datatype NotifyID = NotifyID (NotifyID_into_raw: u64)
datatype FileID = FileID (FileID_into_raw: u64)
datatype PollWakeupID = PollWakeupID (PollWakeupID_into_raw: u64)
datatype LockOwnerID = LockOwnerID (LockOwnerID_value: u64)

text \<open>A node identifier is a nonzero integer (\<open>NonZeroU64\<close>).\<close>

typedef NodeID = "{w :: u64. w \<noteq> 0}"
  morphisms NodeID_into_raw NodeID_from_raw_unchecked
  by (rule exI [where x = 1]) simp

definition NodeID_from_raw :: "u64 \<Rightarrow> NodeID option" where
  "NodeID_from_raw value =
     (if value = 0 then None else Some (NodeID_from_raw_unchecked value))"

definition NodeID_ROOT :: NodeID where
  "NodeID_ROOT = NodeID_from_raw_unchecked 1"

lemma NodeID_into_raw_nonzero [simp]: "NodeID_into_raw n \<noteq> 0"
  using NodeID_into_raw [of n] by simp

lemma NodeID_from_raw_into_raw [simp]: "NodeID_from_raw (NodeID_into_raw n) = Some n"
  by (simp add: NodeID_from_raw_def NodeID_into_raw_inverse)

lemma NodeID_from_raw_zero [simp]: "NodeID_from_raw 0 = None"
  by (simp add: NodeID_from_raw_def)

lemma NodeID_ROOT_raw [simp]:
  "NodeID_into_raw NodeID_ROOT = 1" "NodeID_from_raw 1 = Some NodeID_ROOT"
  by (simp_all add: NodeID_ROOT_def NodeID_from_raw_def NodeID_from_raw_unchecked_inverse)

lemma NodeID_from_raw_Some: "NodeID_from_raw w = Some n \<longleftrightarrow> w = NodeID_into_raw n"
  by (auto simp: NodeID_from_raw_def NodeID_into_raw_inverse NodeID_from_raw_unchecked_inverse)

lemma NodeID_from_raw_None: "NodeID_from_raw w = None \<longleftrightarrow> w = 0"
  by (simp add: NodeID_from_raw_def)

section \<open>Device numbers\<close>

datatype DeviceID = DeviceID_from_kernel_dev (DeviceID_into_kernel_dev: u32)

definition DeviceID_MAJOR_MAX :: u32 where "DeviceID_MAJOR_MAX = 0xFFF"
definition DeviceID_MINOR_MAX :: u32 where "DeviceID_MINOR_MAX = 0xFFFFF"

definition DeviceID_new :: "u32 \<Rightarrow> u32 \<Rightarrow> ('e, DeviceID) result" where
  "DeviceID_new major minor =
     (if \<not> major \<le> DeviceID_MAJOR_MAX then Panic
      else if \<not> minor \<le> DeviceID_MINOR_MAX then Panic
      else Ok (DeviceID_from_kernel_dev
        ((minor AND 0xFF) OR push_bit 8 (major AND 0xFFF) OR push_bit 12 (minor AND 0xFFF00))))"

definition DeviceID_major :: "DeviceID \<Rightarrow> u32" where
  "DeviceID_major d = drop_bit 8 (DeviceID_into_kernel_dev d) AND 0xFFF"

definition DeviceID_minor :: "DeviceID \<Rightarrow> u32" where
  "DeviceID_minor d =
     (DeviceID_into_kernel_dev d AND 0xFF) OR (drop_bit 12 (DeviceID_into_kernel_dev d) AND 0xFFF00)"

definition DeviceID_from_userspace_dev :: "extern \<Rightarrow> u64 \<Rightarrow> ('e, DeviceID) result" where
  "DeviceID_from_userspace_dev X rdev = DeviceID_new (libc_major X rdev) (libc_minor X rdev)"

definition DeviceID_into_userspace_dev :: "extern \<Rightarrow> DeviceID \<Rightarrow> u64" where
  "DeviceID_into_userspace_dev X d = libc_makedev X (DeviceID_major d) (DeviceID_minor d)"

text \<open>The range tests of the constructor say that the mask loses nothing.\<close>

lemma device_range:
  "major \<le> DeviceID_MAJOR_MAX \<longleftrightarrow> major AND 0xFFF = major"
  "minor \<le> DeviceID_MINOR_MAX \<longleftrightarrow> minor AND 0xFFFFF = minor"
proof -
  have "(0xFFF :: u32) = mask 12" "(0xFFFFF :: u32) = mask 20"
    by (simp_all add: mask_eq_exp_minus_1)
  then show "major \<le> DeviceID_MAJOR_MAX \<longleftrightarrow> major AND 0xFFF = major"
    "minor \<le> DeviceID_MINOR_MAX \<longleftrightarrow> minor AND 0xFFFFF = minor"
    using and_mask_eq_self_iff [of major 12] and_mask_eq_self_iff [of minor 20]
    by (auto simp: DeviceID_MAJOR_MAX_def DeviceID_MINOR_MAX_def word_le_nat_alt)
qed

lemma DeviceID_major_new:
  "DeviceID_major (DeviceID_from_kernel_dev
     ((minor AND 0xFF) OR push_bit 8 (major AND 0xFFF) OR push_bit 12 (minor AND 0xFFF00)))
   = major AND 0xFFF"
  by (rule u32_eqI) (simp add: bit_simps DeviceID_major_def)

lemma DeviceID_minor_new:
  "DeviceID_minor (DeviceID_from_kernel_dev
     ((minor AND 0xFF) OR push_bit 8 (major AND 0xFFF) OR push_bit 12 (minor AND 0xFFF00)))
   = minor AND 0xFFFFF"
  by (rule u32_eqI) (simp add: bit_simps DeviceID_minor_def)

lemma DeviceID_new_parts:
  assumes "DeviceID_new major minor = Ok d"
  shows "DeviceID_major d = major" "DeviceID_minor d = minor"
proof -
  have d: "d = DeviceID_from_kernel_dev
      ((minor AND 0xFF) OR push_bit 8 (major AND 0xFFF) OR push_bit 12 (minor AND 0xFFF00))"
    and r: "major \<le> DeviceID_MAJOR_MAX" "minor \<le> DeviceID_MINOR_MAX"
    using assms by (auto simp: DeviceID_new_def split: if_splits)
  show "DeviceID_major d = major"
    using r(1) unfolding d DeviceID_major_new device_range .
  show "DeviceID_minor d = minor"
    using r(2) unfolding d DeviceID_minor_new device_range .
qed

lemma DeviceID_parts_range:
  "DeviceID_major d \<le> DeviceID_MAJOR_MAX" "DeviceID_minor d \<le> DeviceID_MINOR_MAX"
proof -
  show "DeviceID_major d \<le> DeviceID_MAJOR_MAX"
    unfolding device_range DeviceID_major_def by (simp add: and.assoc)
  show "DeviceID_minor d \<le> DeviceID_MINOR_MAX"
    unfolding device_range DeviceID_minor_def
    by (rule u32_eqI) (simp add: bit_simps)
qed

lemma DeviceID_new_major_minor:
  "DeviceID_new (DeviceID_major d) (DeviceID_minor d) = Ok d"
proof -
  have "(DeviceID_minor d AND 0xFF) OR push_bit 8 (DeviceID_major d AND 0xFFF) OR
        push_bit 12 (DeviceID_minor d AND 0xFFF00) = DeviceID_into_kernel_dev d"
    unfolding DeviceID_major_def DeviceID_minor_def
    by (rule u32_eqI) (simp add: bit_simps)
  then show ?thesis
    using DeviceID_parts_range [of d] by (simp add: DeviceID_new_def)
qed

section \<open>File modes\<close>

datatype FileType =
  Regular | Directory | CharacterDevice | BlockDevice | SymbolicLink | Fifo | Socket

definition FileType_from_raw :: "u32 \<Rightarrow> FileType option" where
  "FileType_from_raw raw =
     (let t = raw AND S_IFMT in
      if t = S_IFREG then Some Regular
      else if t = S_IFDIR then Some Directory
      else if t = S_IFCHR then Some CharacterDevice
      else if t = S_IFBLK then Some BlockDevice
      else if t = S_IFLNK then Some SymbolicLink
      else if t = S_IFIFO then Some Fifo
      else if t = S_IFSOCK then Some Socket
      else None)"

definition FileType_from_dirent_type :: "u8 \<Rightarrow> FileType option" where
  "FileType_from_dirent_type typ =
     (if typ = DT_BLK then Some BlockDevice
      else if typ = DT_CHR then Some CharacterDevice
      else if typ = DT_DIR then Some Directory
      else if typ = DT_FIFO then Some Fifo
      else if typ = DT_LNK then Some SymbolicLink
      else if typ = DT_REG then Some Regular
      else if typ = DT_SOCK then Some Socket
      else None)"

fun FileType_into_raw :: "FileType \<Rightarrow> u32" where
  "FileType_into_raw Regular = S_IFREG"
| "FileType_into_raw Directory = S_IFDIR"
| "FileType_into_raw CharacterDevice = S_IFCHR"
| "FileType_into_raw BlockDevice = S_IFBLK"
| "FileType_into_raw SymbolicLink = S_IFLNK"
| "FileType_into_raw Fifo = S_IFIFO"
| "FileType_into_raw Socket = S_IFSOCK"

text \<open>\<open>FilePermissions\<close> is a \<open>bitflags!\<close> type; \<open>FilePermissions_all\<close> is the union of its flags.\<close>

type_synonym FilePermissions = u32

definition FilePermissions_all :: FilePermissions where
  "FilePermissions_all =
     S_IRUSR OR S_IRGRP OR S_IROTH OR S_IWUSR OR S_IWGRP OR S_IWOTH OR
     S_IXUSR OR S_IXGRP OR S_IXOTH OR S_ISUID OR S_ISGID OR S_ISVTX"

definition FilePermissions_READ :: FilePermissions where
  "FilePermissions_READ = S_IRUSR OR S_IRGRP OR S_IROTH"

definition FilePermissions_WRITE :: FilePermissions where
  "FilePermissions_WRITE = S_IWUSR OR S_IWGRP OR S_IWOTH"

definition FilePermissions_EXEC :: FilePermissions where
  "FilePermissions_EXEC = S_IXUSR OR S_IXGRP OR S_IXOTH"

definition FilePermissions_MASK :: FilePermissions where
  "FilePermissions_MASK = FilePermissions_READ OR FilePermissions_WRITE OR FilePermissions_EXEC"

datatype FileMode = FileMode_from_raw (FileMode_into_raw: u32)

definition FileMode_new :: "FileType \<Rightarrow> FilePermissions \<Rightarrow> FileMode" where
  "FileMode_new typ perm = FileMode_from_raw (FileType_into_raw typ OR perm)"

definition FileMode_file_type :: "FileMode \<Rightarrow> FileType option" where
  "FileMode_file_type m = FileType_from_raw (FileMode_into_raw m)"

definition FileMode_permissions :: "extern \<Rightarrow> FileMode \<Rightarrow> FilePermissions" where
  "FileMode_permissions X m = truncate32 X FilePermissions_all (FileMode_into_raw m)"

type_synonym PollEvents = u32

definition PollEvents_all :: PollEvents where
  "PollEvents_all = POLLIN OR POLLOUT OR POLLRDHUP OR POLLERR OR POLLHUP OR POLLNVAL"

lemma permission_masks:
  "FilePermissions_all = 0xFFF" "FilePermissions_MASK = 0x1FF" "S_IFMT = 0xF000"
  by (simp_all add: FilePermissions_all_def FilePermissions_MASK_def FilePermissions_READ_def
      FilePermissions_WRITE_def FilePermissions_EXEC_def libc_const)

lemma FileType_from_raw_into_raw_or:
  assumes "p AND S_IFMT = 0"
  shows "FileType_from_raw (FileType_into_raw t OR p) = Some t"
proof -
  have "(FileType_into_raw t OR p) AND S_IFMT = FileType_into_raw t"
    using assms by (cases t) (simp_all add: bit.conj_disj_distrib2 libc_const)
  then show ?thesis
    by (cases t) (simp_all add: FileType_from_raw_def libc_const)
qed

lemma FileType_from_raw_into_raw: "FileType_from_raw (FileType_into_raw t) = Some t"
  using FileType_from_raw_into_raw_or [of 0 t] by simp

lemma FileType_from_raw_Some:
  "FileType_from_raw raw = Some t \<longleftrightarrow> raw AND S_IFMT = FileType_into_raw t"
  by (cases t) (auto simp: FileType_from_raw_def Let_def libc_const split: if_splits)

lemma permissions_disjoint:
  assumes "flags_contains FilePermissions_all p"
  shows "p AND S_IFMT = 0"
proof -
  have "p AND S_IFMT = (p AND 0xFFF) AND 0xF000"
    using assms by (simp add: flags_contains_def permission_masks and.commute)
  also have "\<dots> = 0" by (simp add: and.assoc)
  finally show ?thesis .
qed

section \<open>File attributes\<close>

record FileAttr =
  FileAttr_ino :: NodeID
  FileAttr_size :: u64
  FileAttr_mode :: FileMode
  FileAttr_nlink :: u32
  FileAttr_uid :: u32
  FileAttr_gid :: u32
  FileAttr_rdev :: DeviceID
  FileAttr_blksize :: u32
  FileAttr_blocks :: u64
  FileAttr_atime :: duration
  FileAttr_mtime :: duration
  FileAttr_ctime :: duration

definition FileAttr_new :: FileAttr where
  "FileAttr_new =
     \<lparr> FileAttr_ino = NodeID_ROOT, FileAttr_size = 0,
       FileAttr_mode = FileMode_new Regular FilePermissions_READ,
       FileAttr_nlink = 1, FileAttr_uid = 0, FileAttr_gid = 0,
       FileAttr_rdev = DeviceID_from_kernel_dev 0, FileAttr_blksize = 0, FileAttr_blocks = 0,
       FileAttr_atime = duration_zero, FileAttr_mtime = duration_zero,
       FileAttr_ctime = duration_zero \<rparr>"

text \<open>\<open>DeviceID::new(0, 0)\<close> in \<open>FileAttr::new\<close> is evaluated at compile time.\<close>

lemma FileAttr_new_rdev: "DeviceID_new 0 0 = Ok (FileAttr_rdev FileAttr_new)"
  by (simp add: DeviceID_new_def FileAttr_new_def DeviceID_MAJOR_MAX_def DeviceID_MINOR_MAX_def)

datatype TryIntoFileAttrError = TryInto_InvalidNodeID | TryInto_Num

text \<open>The fields of \<open>libc::stat\<close> and of \<open>std::fs::Metadata\<close> that the conversions read.\<close>

record libc_stat =
  st_ino :: u64
  st_size :: i64
  st_mode :: u32
  st_nlink :: u64
  st_uid :: u32
  st_gid :: u32
  st_rdev :: u64
  st_blksize :: i64
  st_blocks :: i64
  st_atime :: i64
  st_atime_nsec :: i64
  st_mtime :: i64
  st_mtime_nsec :: i64
  st_ctime :: i64
  st_ctime_nsec :: i64

record metadata =
  md_ino :: u64
  md_size :: u64
  md_mode :: u32
  md_nlink :: u64
  md_uid :: u32
  md_gid :: u32
  md_rdev :: u64
  md_blksize :: u64
  md_blocks :: u64
  md_atime :: i64
  md_atime_nsec :: i64
  md_mtime :: i64
  md_mtime_nsec :: i64
  md_ctime :: i64
  md_ctime_nsec :: i64

text \<open>\<open>u32::try_from\<close> on \<open>u64\<close> and on \<open>i64\<close>.\<close>

definition u32_try_from_u64 :: "u64 \<Rightarrow> (TryIntoFileAttrError, u32) result" where
  "u32_try_from_u64 n = (if unat n < 2 ^ 32 then Ok (ucast n) else Err TryInto_Num)"

definition u32_try_from_i64 :: "i64 \<Rightarrow> (TryIntoFileAttrError, u32) result" where
  "u32_try_from_i64 n =
     (if 0 \<le> sint n \<and> sint n < 2 ^ 32 then Ok (ucast n) else Err TryInto_Num)"

definition FileAttr_try_from_stat ::
    "extern \<Rightarrow> libc_stat \<Rightarrow> (TryIntoFileAttrError, FileAttr) result" where
  "FileAttr_try_from_stat X st =
     and_then (ok_or (NodeID_from_raw (st_ino st)) TryInto_InvalidNodeID) (\<lambda>ino.
     and_then (u32_try_from_u64 (st_nlink st)) (\<lambda>nlink.
     and_then (DeviceID_from_userspace_dev X (st_rdev st)) (\<lambda>rdev.
     and_then (u32_try_from_i64 (st_blksize st)) (\<lambda>blksize.
     and_then (duration_new (st_atime st) (ucast (st_atime_nsec st))) (\<lambda>atime.
     and_then (duration_new (st_mtime st) (ucast (st_mtime_nsec st))) (\<lambda>mtime.
     and_then (duration_new (st_ctime st) (ucast (st_ctime_nsec st))) (\<lambda>ctime.
     Ok \<lparr> FileAttr_ino = ino, FileAttr_size = st_size st,
          FileAttr_mode = FileMode_from_raw (st_mode st), FileAttr_nlink = nlink,
          FileAttr_uid = st_uid st, FileAttr_gid = st_gid st, FileAttr_rdev = rdev,
          FileAttr_blksize = blksize, FileAttr_blocks = st_blocks st,
          FileAttr_atime = atime, FileAttr_mtime = mtime, FileAttr_ctime = ctime \<rparr>)))))))"

definition FileAttr_try_from_metadata ::
    "extern \<Rightarrow> metadata \<Rightarrow> (TryIntoFileAttrError, FileAttr) result" where
  "FileAttr_try_from_metadata X m =
     and_then (ok_or (NodeID_from_raw (md_ino m)) TryInto_InvalidNodeID) (\<lambda>ino.
     and_then (u32_try_from_u64 (md_nlink m)) (\<lambda>nlink.
     and_then (DeviceID_from_userspace_dev X (md_rdev m)) (\<lambda>rdev.
     and_then (u32_try_from_u64 (md_blksize m)) (\<lambda>blksize.
     and_then (duration_new (md_atime m) (ucast (md_atime_nsec m))) (\<lambda>atime.
     and_then (duration_new (md_mtime m) (ucast (md_mtime_nsec m))) (\<lambda>mtime.
     and_then (duration_new (md_ctime m) (ucast (md_ctime_nsec m))) (\<lambda>ctime.
     Ok \<lparr> FileAttr_ino = ino, FileAttr_size = md_size m,
          FileAttr_mode = FileMode_from_raw (md_mode m), FileAttr_nlink = nlink,
          FileAttr_uid = md_uid m, FileAttr_gid = md_gid m, FileAttr_rdev = rdev,
          FileAttr_blksize = blksize, FileAttr_blocks = md_blocks m,
          FileAttr_atime = atime, FileAttr_mtime = mtime, FileAttr_ctime = ctime \<rparr>)))))))"

definition FileAttr_wf :: "FileAttr \<Rightarrow> bool" where
  "FileAttr_wf a \<longleftrightarrow>
     duration_wf (FileAttr_atime a) \<and> duration_wf (FileAttr_mtime a) \<and> duration_wf (FileAttr_ctime a)"

lemma FileAttr_try_from_stat_wf:
  "FileAttr_try_from_stat X st = Ok a \<Longrightarrow> FileAttr_wf a"
  by (auto simp: FileAttr_try_from_stat_def FileAttr_wf_def result_eqs dest: duration_new_wf)

section \<open>File system statistics and file locks\<close>

record Statfs =
  Statfs_bsize :: u32
  Statfs_frsize :: u32
  Statfs_blocks :: u64
  Statfs_bfree :: u64
  Statfs_bavail :: u64
  Statfs_files :: u64
  Statfs_ffree :: u64
  Statfs_namelen :: u32

record libc_statvfs =
  f_bsize :: u64
  f_frsize :: u64
  f_blocks :: u64
  f_bfree :: u64
  f_bavail :: u64
  f_files :: u64
  f_ffree :: u64
  f_namemax :: u64

definition Statfs_try_from_statvfs :: "libc_statvfs \<Rightarrow> Statfs" where
  "Statfs_try_from_statvfs st =
     \<lparr> Statfs_bsize = ucast (f_bsize st), Statfs_frsize = ucast (f_frsize st),
       Statfs_blocks = f_blocks st, Statfs_bfree = f_bfree st, Statfs_bavail = f_bavail st,
       Statfs_files = f_files st, Statfs_ffree = f_ffree st,
       Statfs_namelen = ucast (f_namemax st) \<rparr>"

text \<open>\<open>rustix::process::Pid\<close> wraps a raw identifier that \<open>from_raw\<close> has accepted.\<close>

datatype Pid = Pid (Pid_as_raw: i32)

definition Pid_from_raw :: "extern \<Rightarrow> i32 \<Rightarrow> Pid option" where
  "Pid_from_raw X raw = (if pid_valid X raw then Some (Pid raw) else None)"

record FileLock =
  FileLock_typ :: u32
  FileLock_start :: u64
  FileLock_end :: u64
  FileLock_pid :: Pid

end
