(* ===== verification/Pod.thy ===== *)
theory Pod
  imports Prelude
begin

text \<open>
  Plain old data: the memory representation of the \<open>#[repr(C)]\<close> structures that travel between
  the kernel and the library. A structure is described by a codec, built from the codecs of its
  fields; the locale \<open>plain_old_data\<close> states what the rest of the development relies on, and
  each structure of the kernel interface is an interpretation of it.
\<close>

section \<open>Codecs\<close>

text \<open>
  \<open>pod_layout\<close> lists size and alignment of the fields of a structure in declaration order,
  \<open>pod_wf\<close> holds of the values of the Rust type (an array field has its declared length).
\<close>

record 'a pod =
  pod_size :: nat
  pod_align :: nat
  pod_layout :: "(nat \<times> nat) list"
  pod_enc :: "'a \<Rightarrow> bytes"
  pod_dec :: "bytes \<Rightarrow> 'a"
  pod_wf :: "'a \<Rightarrow> bool"

text \<open>An integer of \<open>n\<close> bytes, aligned to its size.\<close>

definition word_pod :: "nat \<Rightarrow> 'a::len word pod" where
  "word_pod n =
     \<lparr> pod_size = n, pod_align = n, pod_layout = [(n, n)],
       pod_enc = le_enc n, pod_dec = le_dec, pod_wf = (\<lambda>_. True) \<rparr>"

definition u8_pod :: "u8 pod" where "u8_pod = word_pod 1"
definition u16_pod :: "u16 pod" where "u16_pod = word_pod 2"
definition u32_pod :: "u32 pod" where "u32_pod = word_pod 4"
definition u64_pod :: "u64 pod" where "u64_pod = word_pod 8"
definition i32_pod :: "i32 pod" where "i32_pod = word_pod 4"
definition i64_pod :: "i64 pod" where "i64_pod = word_pod 8"

text \<open>An array \<open>[T; n]\<close> as a list.\<close>

primrec chunks :: "nat \<Rightarrow> nat \<Rightarrow> bytes \<Rightarrow> bytes list" where
  "chunks s 0 bs = []"
| "chunks s (Suc n) bs = take s bs # chunks s n (drop s bs)"

definition pod_array :: "nat \<Rightarrow> 'a pod \<Rightarrow> 'a list pod" where
  "pod_array n p =
     \<lparr> pod_size = n * pod_size p, pod_align = pod_align p,
       pod_layout = replicate n (pod_size p, pod_align p),
       pod_enc = (\<lambda>xs. concat (map (pod_enc p) xs)),
       pod_dec = (\<lambda>bs. map (pod_dec p) (chunks (pod_size p) n bs)),
       pod_wf = (\<lambda>xs. length xs = n \<and> list_all (pod_wf p) xs) \<rparr>"

text \<open>A sequence of fields, and the structure made of it.\<close>

definition pod_nil :: "unit pod" where
  "pod_nil =
     \<lparr> pod_size = 0, pod_align = 1, pod_layout = [],
       pod_enc = (\<lambda>_. []), pod_dec = (\<lambda>_. ()), pod_wf = (\<lambda>_. True) \<rparr>"

definition pod_cons :: "'a pod \<Rightarrow> 'b pod \<Rightarrow> ('a \<times> 'b) pod" where
  "pod_cons p q =
     \<lparr> pod_size = pod_size p + pod_size q, pod_align = max (pod_align p) (pod_align q),
       pod_layout = (pod_size p, pod_align p) # pod_layout q,
       pod_enc = (\<lambda>(x, y). pod_enc p x @ pod_enc q y),
       pod_dec = (\<lambda>bs. (pod_dec p (take (pod_size p) bs), pod_dec q (drop (pod_size p) bs))),
       pod_wf = (\<lambda>(x, y). pod_wf p x \<and> pod_wf q y) \<rparr>"

definition pod_struct :: "('t \<Rightarrow> 'a) \<Rightarrow> ('a \<Rightarrow> 't) \<Rightarrow> 't pod \<Rightarrow> 'a pod" where
  "pod_struct mk un p =
     \<lparr> pod_size = pod_size p, pod_align = pod_align p, pod_layout = pod_layout p,
       pod_enc = (\<lambda>x. pod_enc p (un x)), pod_dec = (\<lambda>bs. mk (pod_dec p bs)),
       pod_wf = (\<lambda>x. pod_wf p (un x)) \<rparr>"

lemmas pod_defs = word_pod_def u8_pod_def u16_pod_def u32_pod_def u64_pod_def i32_pod_def
  i64_pod_def pod_array_def pod_nil_def pod_cons_def pod_struct_def

lemma pod_sel:
  "pod_size u8_pod = 1" "pod_size u16_pod = 2" "pod_size u32_pod = 4" "pod_size u64_pod = 8"
  "pod_size i32_pod = 4" "pod_size i64_pod = 8" "pod_size (pod_array n p) = n * pod_size p"
  "pod_size pod_nil = 0" "pod_size (pod_cons p q) = pod_size p + pod_size q"
  "pod_size (pod_struct mk un t) = pod_size t"
  "pod_align u8_pod = 1" "pod_align u16_pod = 2" "pod_align u32_pod = 4" "pod_align u64_pod = 8"
  "pod_align i32_pod = 4" "pod_align i64_pod = 8" "pod_align (pod_array n p) = pod_align p"
  "pod_align pod_nil = 1" "pod_align (pod_cons p q) = max (pod_align p) (pod_align q)"
  "pod_align (pod_struct mk un t) = pod_align t"
  "pod_layout pod_nil = []"
  "pod_layout (pod_cons p q) = (pod_size p, pod_align p) # pod_layout q"
  "pod_layout (pod_struct mk un t) = pod_layout t"
  "pod_wf u8_pod a" "pod_wf u16_pod b" "pod_wf u32_pod c" "pod_wf u64_pod d"
  "pod_wf i32_pod c" "pod_wf i64_pod d"
  "pod_wf (pod_array n p) xs \<longleftrightarrow> length xs = n \<and> list_all (pod_wf p) xs"
  "pod_wf pod_nil u" "pod_wf (pod_cons p q) (x, y) \<longleftrightarrow> pod_wf p x \<and> pod_wf q y"
  "pod_wf (pod_struct mk un t) z \<longleftrightarrow> pod_wf t (un z)"
  by (simp_all add: pod_defs)

text \<open>
  The C layout: each field starts at the next multiple of its alignment, and the whole is
  rounded up to the alignment of the structure.
\<close>

definition align_up :: "nat \<Rightarrow> nat \<Rightarrow> nat" where
  "align_up n a = (n + a - 1) div a * a"

fun repr_c_end :: "nat \<Rightarrow> (nat \<times> nat) list \<Rightarrow> nat" where
  "repr_c_end off [] = off"
| "repr_c_end off ((s, a) # fs) = repr_c_end (align_up off a + s) fs"

definition repr_c_size :: "(nat \<times> nat) list \<Rightarrow> nat" where
  "repr_c_size fs = align_up (repr_c_end 0 fs) (fold max (map snd fs) 1)"

text \<open>
  \<open>zerocopy\<close>'s \<open>try_ref_from_bytes\<close> and \<open>try_ref_from_prefix\<close>: the bytes of a slice at an
  address, or its leading bytes, seen as a value of a type.
\<close>

definition try_ref_from_bytes :: "extern \<Rightarrow> 'a pod \<Rightarrow> nat \<Rightarrow> bytes \<Rightarrow> 'a option" where
  "try_ref_from_bytes X p addr bs =
     (if cast_ok X (pod_size p) (pod_align p) addr (length bs) then Some (pod_dec p bs) else None)"

definition try_ref_from_prefix :: "extern \<Rightarrow> 'a pod \<Rightarrow> nat \<Rightarrow> bytes \<Rightarrow> 'a option" where
  "try_ref_from_prefix X p addr bs =
     (if pod_size p \<le> length bs then try_ref_from_bytes X p addr (take (pod_size p) bs) else None)"

section \<open>The interface\<close>

text \<open>
  What the library relies on for a type it casts from and to bytes: an encoding of fixed
  length that is inverted by decoding, in both directions.
\<close>

locale plain_old_data =
  fixes p :: "'a pod"
  assumes enc_length: "pod_wf p x \<Longrightarrow> length (pod_enc p x) = pod_size p"
    and dec_enc: "pod_wf p x \<Longrightarrow> pod_dec p (pod_enc p x) = x"
    and enc_dec: "length bs = pod_size p \<Longrightarrow> pod_enc p (pod_dec p bs) = bs"
    and wf_dec: "length bs = pod_size p \<Longrightarrow> pod_wf p (pod_dec p bs)"
begin

lemma enc_inject:
  "pod_wf p x \<Longrightarrow> pod_wf p y \<Longrightarrow> pod_enc p x = pod_enc p y \<Longrightarrow> x = y"
  by (metis dec_enc)

lemma take_enc: "pod_wf p x \<Longrightarrow> take (pod_size p) (pod_enc p x @ bs) = pod_enc p x"
  by (simp add: enc_length)

lemma drop_enc: "pod_wf p x \<Longrightarrow> drop (pod_size p) (pod_enc p x @ bs) = bs"
  by (simp add: enc_length)

lemma try_ref_enc:
  assumes "zerocopy_ok X" and "pod_wf p x" and "addr mod pod_align p = 0"
  shows "try_ref_from_bytes X p addr (pod_enc p x) = Some x"
    "try_ref_from_prefix X p addr (pod_enc p x @ rest) = Some x"
  using assms
  by (simp_all add: try_ref_from_bytes_def try_ref_from_prefix_def cast_ok_iff enc_length dec_enc)

lemma enc_ex_iff:
  "(\<exists>x. pod_wf p x \<and> bs = pod_enc p x) \<longleftrightarrow> length bs = pod_size p"
  using enc_length enc_dec wf_dec by metis

end

text \<open>
  A structure declared with \<open>#[repr(C)]\<close> whose fields leave no padding, as \<open>IntoBytes\<close> demands:
  the C layout has the size of the concatenated fields.
\<close>

locale repr_c_struct = plain_old_data +
  assumes no_padding: "repr_c_size (pod_layout p) = pod_size p"

named_theorems pod_intro "codecs that satisfy the interface"

lemma plain_old_data_word:
  assumes "LENGTH('a) = 8 * n"
  shows "plain_old_data (word_pod n :: 'a::len word pod)"
proof
  fix bs :: bytes
  assume "length bs = pod_size (word_pod n :: 'a word pod)"
  then show "pod_enc (word_pod n) (pod_dec (word_pod n) bs :: 'a word) = bs"
    using assms le_enc_dec [where 'a = 'a, of bs] by (simp add: word_pod_def)
qed (use assms in \<open>auto simp: word_pod_def le_dec_enc\<close>)

lemma plain_old_data_ints [pod_intro]:
  "plain_old_data u8_pod" "plain_old_data u16_pod" "plain_old_data u32_pod"
  "plain_old_data u64_pod" "plain_old_data i32_pod" "plain_old_data i64_pod"
  unfolding u8_pod_def u16_pod_def u32_pod_def u64_pod_def i32_pod_def i64_pod_def
  by (rule plain_old_data_word, simp)+

lemma length_chunks [simp]: "length (chunks s n bs) = n"
  by (induction n arbitrary: bs) auto

lemma chunks_length: "length bs = n * s \<Longrightarrow> list_all (\<lambda>x. length x = s) (chunks s n bs)"
  by (induction n arbitrary: bs) simp_all

lemma plain_old_data_array [pod_intro]:
  assumes "plain_old_data p"
  shows "plain_old_data (pod_array n p)"
proof -
  have enc_len: "length (concat (map (pod_enc p) xs)) = length xs * pod_size p"
    if "list_all (pod_wf p) xs" for xs
    using that by (induction xs) (simp_all add: plain_old_data.enc_length [OF assms])
  have dec: "map (pod_dec p) (chunks (pod_size p) (length xs) (concat (map (pod_enc p) xs))) = xs"
    if "list_all (pod_wf p) xs" for xs
    using that
    by (induction xs)
      (simp_all add: plain_old_data.enc_length [OF assms] plain_old_data.dec_enc [OF assms])
  have enc: "concat (map (pod_enc p) (map (pod_dec p) (chunks (pod_size p) n bs))) = bs"
    if "length bs = n * pod_size p" for bs
    using that
    by (induction n arbitrary: bs) (simp_all add: plain_old_data.enc_dec [OF assms])
  have wf: "list_all (pod_wf p) (map (pod_dec p) (chunks (pod_size p) n bs))"
    if "length bs = n * pod_size p" for bs
    using chunks_length [OF that] by (simp add: list_all_iff plain_old_data.wf_dec [OF assms])
  show ?thesis
    by unfold_locales (use enc_len dec enc wf in \<open>auto simp: pod_array_def simp del: map_map\<close>)
qed

lemma plain_old_data_nil [pod_intro]: "plain_old_data pod_nil"
  by unfold_locales (auto simp: pod_nil_def)

lemma plain_old_data_cons [pod_intro]:
  assumes p: "plain_old_data p" and q: "plain_old_data q"
  shows "plain_old_data (pod_cons p q)"
  by unfold_locales
    (auto simp: pod_cons_def plain_old_data.enc_length [OF p] plain_old_data.enc_length [OF q]
      plain_old_data.dec_enc [OF p] plain_old_data.dec_enc [OF q] plain_old_data.enc_dec [OF p]
      plain_old_data.enc_dec [OF q] plain_old_data.wf_dec [OF p] plain_old_data.wf_dec [OF q])

lemma plain_old_data_struct:
  assumes "plain_old_data p" and "\<And>x. mk (un x) = x" and "\<And>t. un (mk t) = t"
  shows "plain_old_data (pod_struct mk un p)"
  by unfold_locales
    (auto simp: pod_struct_def assms plain_old_data.enc_length [OF assms(1)]
      plain_old_data.dec_enc [OF assms(1)] plain_old_data.enc_dec [OF assms(1)]
      plain_old_data.wf_dec [OF assms(1)])

lemma repr_c_structI:
  assumes "plain_old_data p" and "\<And>x. mk (un x) = x" and "\<And>t. un (mk t) = t"
    and "repr_c_size (pod_layout p) = pod_size p"
  shows "repr_c_struct (pod_struct mk un p)"
  using plain_old_data_struct [OF assms(1-3)] assms(4)
  by (simp add: repr_c_struct_def repr_c_struct_axioms_def pod_struct_def)

lemmas repr_c_simps = pod_sel repr_c_size_def align_up_def

end
