(* ===== verification/Abi_Request.thy ===== *)
theory Abi_Request
  imports Pod Abi_Const
begin

text \<open>
  The structures the kernel sends (\<open>crates/polyfuse-kernel/src/lib.rs\<close>): a record per structure,
  with the fields in declaration order, and its codec. A field of \<open>fuse_x\<close> has the prefix \<open>x_\<close>.
  Each structure is an interpretation of the interface \<open>repr_c_struct\<close>.
\<close>

named_theorems pod_sizes "sizes and alignments of the interface structures"

record fuse_file_lock =
  file_lock_start :: u64
  file_lock_end :: u64
  file_lock_typ :: u32
  file_lock_pid :: u32

definition fuse_file_lock_pod :: "fuse_file_lock pod" where
  "fuse_file_lock_pod =
     pod_struct
       (\<lambda>(start, end, typ, pid, _).
         \<lparr>file_lock_start = start, file_lock_end = end, file_lock_typ = typ, file_lock_pid = pid\<rparr>)
       (\<lambda>r.
         (file_lock_start r, file_lock_end r, file_lock_typ r, file_lock_pid r, ()))
       (pod_cons u64_pod (pod_cons u64_pod (pod_cons u32_pod (pod_cons u32_pod pod_nil))))"

interpretation fuse_file_lock: repr_c_struct fuse_file_lock_pod
  unfolding fuse_file_lock_pod_def
  by (rule repr_c_structI, (intro pod_intro)[1]) (auto simp: repr_c_simps pod_sizes)

lemma fuse_file_lock_size [pod_sizes]:
  "pod_size fuse_file_lock_pod = 24" "pod_align fuse_file_lock_pod = 8"
  "pod_wf fuse_file_lock_pod r"
  by (simp_all add: fuse_file_lock_pod_def pod_sel pod_sizes)

lemmas [pod_intro] = fuse_file_lock.plain_old_data_axioms

record fuse_in_header =
  in_header_len :: u32
  in_header_opcode :: u32
  in_header_unique :: u64
  in_header_nodeid :: u64
  in_header_uid :: u32
  in_header_gid :: u32
  in_header_pid :: u32
  in_header_total_extlen :: u16
  in_header_padding :: u16

definition fuse_in_header_pod :: "fuse_in_header pod" where
  "fuse_in_header_pod =
     pod_struct
       (\<lambda>(len, opcode, unique, nodeid, uid, gid, pid, total_extlen, padding, _).
         \<lparr>in_header_len = len, in_header_opcode = opcode, in_header_unique = unique,
         in_header_nodeid = nodeid, in_header_uid = uid, in_header_gid = gid,
         in_header_pid = pid, in_header_total_extlen = total_extlen, in_header_padding = padding\<rparr>)
       (\<lambda>r.
         (in_header_len r, in_header_opcode r, in_header_unique r, in_header_nodeid r,
         in_header_uid r, in_header_gid r, in_header_pid r, in_header_total_extlen r,
         in_header_padding r, ()))
       (pod_cons u32_pod (pod_cons u32_pod (pod_cons u64_pod (pod_cons u64_pod (
         pod_cons u32_pod (pod_cons u32_pod (pod_cons u32_pod (pod_cons u16_pod (
         pod_cons u16_pod pod_nil)))))))))"

interpretation fuse_in_header: repr_c_struct fuse_in_header_pod
  unfolding fuse_in_header_pod_def
  by (rule repr_c_structI, (intro pod_intro)[1]) (auto simp: repr_c_simps pod_sizes)

lemma fuse_in_header_size [pod_sizes]:
  "pod_size fuse_in_header_pod = 40" "pod_align fuse_in_header_pod = 8"
  "pod_wf fuse_in_header_pod r"
  by (simp_all add: fuse_in_header_pod_def pod_sel pod_sizes)

lemmas [pod_intro] = fuse_in_header.plain_old_data_axioms

record fuse_init_in_compat_35 =
  init_in_compat_35_major :: u32
  init_in_compat_35_minor :: u32
  init_in_compat_35_max_readahead :: u32
  init_in_compat_35_flags :: u32

definition fuse_init_in_compat_35_pod :: "fuse_init_in_compat_35 pod" where
  "fuse_init_in_compat_35_pod =
     pod_struct
       (\<lambda>(major, minor, max_readahead, flags, _).
         \<lparr>init_in_compat_35_major = major, init_in_compat_35_minor = minor,
         init_in_compat_35_max_readahead = max_readahead, init_in_compat_35_flags = flags\<rparr>)
       (\<lambda>r.
         (init_in_compat_35_major r, init_in_compat_35_minor r, init_in_compat_35_max_readahead r,
         init_in_compat_35_flags r, ()))
       (pod_cons u32_pod (pod_cons u32_pod (pod_cons u32_pod (pod_cons u32_pod pod_nil))))"

interpretation fuse_init_in_compat_35: repr_c_struct fuse_init_in_compat_35_pod
  unfolding fuse_init_in_compat_35_pod_def
  by (rule repr_c_structI, (intro pod_intro)[1]) (auto simp: repr_c_simps pod_sizes)

lemma fuse_init_in_compat_35_size [pod_sizes]:
  "pod_size fuse_init_in_compat_35_pod = 16" "pod_align fuse_init_in_compat_35_pod = 4"
  "pod_wf fuse_init_in_compat_35_pod r"
  by (simp_all add: fuse_init_in_compat_35_pod_def pod_sel pod_sizes)

lemmas [pod_intro] = fuse_init_in_compat_35.plain_old_data_axioms

record fuse_init_in =
  init_in_major :: u32
  init_in_minor :: u32
  init_in_max_readahead :: u32
  init_in_flags :: u32
  init_in_flags2 :: u32
  init_in_unused :: "u32 list"

definition fuse_init_in_pod :: "fuse_init_in pod" where
  "fuse_init_in_pod =
     pod_struct
       (\<lambda>(major, minor, max_readahead, flags, flags2, unused, _).
         \<lparr>init_in_major = major, init_in_minor = minor, init_in_max_readahead = max_readahead,
         init_in_flags = flags, init_in_flags2 = flags2, init_in_unused = unused\<rparr>)
       (\<lambda>r.
         (init_in_major r, init_in_minor r, init_in_max_readahead r, init_in_flags r,
         init_in_flags2 r, init_in_unused r, ()))
       (pod_cons u32_pod (pod_cons u32_pod (pod_cons u32_pod (pod_cons u32_pod (
         pod_cons u32_pod (pod_cons (pod_array 11 u32_pod) pod_nil))))))"

interpretation fuse_init_in: repr_c_struct fuse_init_in_pod
  unfolding fuse_init_in_pod_def
  by (rule repr_c_structI, (intro pod_intro)[1]) (auto simp: repr_c_simps pod_sizes)

lemma fuse_init_in_size [pod_sizes]:
  "pod_size fuse_init_in_pod = 64" "pod_align fuse_init_in_pod = 4"
  by (simp_all add: fuse_init_in_pod_def pod_sel pod_sizes)

lemmas [pod_intro] = fuse_init_in.plain_old_data_axioms

record fuse_forget_in =
  forget_in_nlookup :: u64

definition fuse_forget_in_pod :: "fuse_forget_in pod" where
  "fuse_forget_in_pod =
     pod_struct
       (\<lambda>(nlookup, _).
         \<lparr>forget_in_nlookup = nlookup\<rparr>)
       (\<lambda>r.
         (forget_in_nlookup r, ()))
       (pod_cons u64_pod pod_nil)"

interpretation fuse_forget_in: repr_c_struct fuse_forget_in_pod
  unfolding fuse_forget_in_pod_def
  by (rule repr_c_structI, (intro pod_intro)[1]) (auto simp: repr_c_simps pod_sizes)

lemma fuse_forget_in_size [pod_sizes]:
  "pod_size fuse_forget_in_pod = 8" "pod_align fuse_forget_in_pod = 8"
  "pod_wf fuse_forget_in_pod r"
  by (simp_all add: fuse_forget_in_pod_def pod_sel pod_sizes)

lemmas [pod_intro] = fuse_forget_in.plain_old_data_axioms

record fuse_getattr_in =
  getattr_in_getattr_flags :: u32
  getattr_in_dummy :: u32
  getattr_in_fh :: u64

definition fuse_getattr_in_pod :: "fuse_getattr_in pod" where
  "fuse_getattr_in_pod =
     pod_struct
       (\<lambda>(getattr_flags, dummy, fh, _).
         \<lparr>getattr_in_getattr_flags = getattr_flags, getattr_in_dummy = dummy, getattr_in_fh = fh\<rparr>)
       (\<lambda>r.
         (getattr_in_getattr_flags r, getattr_in_dummy r, getattr_in_fh r, ()))
       (pod_cons u32_pod (pod_cons u32_pod (pod_cons u64_pod pod_nil)))"

interpretation fuse_getattr_in: repr_c_struct fuse_getattr_in_pod
  unfolding fuse_getattr_in_pod_def
  by (rule repr_c_structI, (intro pod_intro)[1]) (auto simp: repr_c_simps pod_sizes)

lemma fuse_getattr_in_size [pod_sizes]:
  "pod_size fuse_getattr_in_pod = 16" "pod_align fuse_getattr_in_pod = 8"
  "pod_wf fuse_getattr_in_pod r"
  by (simp_all add: fuse_getattr_in_pod_def pod_sel pod_sizes)

lemmas [pod_intro] = fuse_getattr_in.plain_old_data_axioms

record fuse_setattr_in =
  setattr_in_valid :: u32
  setattr_in_padding :: u32
  setattr_in_fh :: u64
  setattr_in_size :: u64
  setattr_in_lock_owner :: u64
  setattr_in_atime :: u64
  setattr_in_mtime :: u64
  setattr_in_ctime :: u64
  setattr_in_atimensec :: u32
  setattr_in_mtimensec :: u32
  setattr_in_ctimensec :: u32
  setattr_in_mode :: u32
  setattr_in_unused4 :: u32
  setattr_in_uid :: u32
  setattr_in_gid :: u32
  setattr_in_unused5 :: u32

definition fuse_setattr_in_pod :: "fuse_setattr_in pod" where
  "fuse_setattr_in_pod =
     pod_struct
       (\<lambda>(valid, padding, fh, size, lock_owner, atime, mtime, ctime, atimensec, mtimensec, ctimensec, mode, unused4, uid, gid, unused5, _).
         \<lparr>setattr_in_valid = valid, setattr_in_padding = padding, setattr_in_fh = fh,
         setattr_in_size = size, setattr_in_lock_owner = lock_owner, setattr_in_atime = atime,
         setattr_in_mtime = mtime, setattr_in_ctime = ctime, setattr_in_atimensec = atimensec,
         setattr_in_mtimensec = mtimensec, setattr_in_ctimensec = ctimensec,
         setattr_in_mode = mode, setattr_in_unused4 = unused4, setattr_in_uid = uid,
         setattr_in_gid = gid, setattr_in_unused5 = unused5\<rparr>)
       (\<lambda>r.
         (setattr_in_valid r, setattr_in_padding r, setattr_in_fh r, setattr_in_size r,
         setattr_in_lock_owner r, setattr_in_atime r, setattr_in_mtime r, setattr_in_ctime r,
         setattr_in_atimensec r, setattr_in_mtimensec r, setattr_in_ctimensec r,
         setattr_in_mode r, setattr_in_unused4 r, setattr_in_uid r, setattr_in_gid r,
         setattr_in_unused5 r, ()))
       (pod_cons u32_pod (pod_cons u32_pod (pod_cons u64_pod (pod_cons u64_pod (
         pod_cons u64_pod (pod_cons u64_pod (pod_cons u64_pod (pod_cons u64_pod (
         pod_cons u32_pod (pod_cons u32_pod (pod_cons u32_pod (pod_cons u32_pod (
         pod_cons u32_pod (pod_cons u32_pod (pod_cons u32_pod (pod_cons u32_pod pod_nil))))))))))))))))"

interpretation fuse_setattr_in: repr_c_struct fuse_setattr_in_pod
  unfolding fuse_setattr_in_pod_def
  by (rule repr_c_structI, (intro pod_intro)[1]) (auto simp: repr_c_simps pod_sizes)

lemma fuse_setattr_in_size [pod_sizes]:
  "pod_size fuse_setattr_in_pod = 88" "pod_align fuse_setattr_in_pod = 8"
  "pod_wf fuse_setattr_in_pod r"
  by (simp_all add: fuse_setattr_in_pod_def pod_sel pod_sizes)

lemmas [pod_intro] = fuse_setattr_in.plain_old_data_axioms

record fuse_mknod_in_compat_11 =
  mknod_in_compat_11_mode :: u32
  mknod_in_compat_11_rdev :: u32

definition fuse_mknod_in_compat_11_pod :: "fuse_mknod_in_compat_11 pod" where
  "fuse_mknod_in_compat_11_pod =
     pod_struct
       (\<lambda>(mode, rdev, _).
         \<lparr>mknod_in_compat_11_mode = mode, mknod_in_compat_11_rdev = rdev\<rparr>)
       (\<lambda>r.
         (mknod_in_compat_11_mode r, mknod_in_compat_11_rdev r, ()))
       (pod_cons u32_pod (pod_cons u32_pod pod_nil))"

interpretation fuse_mknod_in_compat_11: repr_c_struct fuse_mknod_in_compat_11_pod
  unfolding fuse_mknod_in_compat_11_pod_def
  by (rule repr_c_structI, (intro pod_intro)[1]) (auto simp: repr_c_simps pod_sizes)

lemma fuse_mknod_in_compat_11_size [pod_sizes]:
  "pod_size fuse_mknod_in_compat_11_pod = 8" "pod_align fuse_mknod_in_compat_11_pod = 4"
  "pod_wf fuse_mknod_in_compat_11_pod r"
  by (simp_all add: fuse_mknod_in_compat_11_pod_def pod_sel pod_sizes)

lemmas [pod_intro] = fuse_mknod_in_compat_11.plain_old_data_axioms

record fuse_mknod_in =
  mknod_in_mode :: u32
  mknod_in_rdev :: u32
  mknod_in_umask :: u32
  mknod_in_padding :: u32

definition fuse_mknod_in_pod :: "fuse_mknod_in pod" where
  "fuse_mknod_in_pod =
     pod_struct
       (\<lambda>(mode, rdev, umask, padding, _).
         \<lparr>mknod_in_mode = mode, mknod_in_rdev = rdev, mknod_in_umask = umask,
         mknod_in_padding = padding\<rparr>)
       (\<lambda>r.
         (mknod_in_mode r, mknod_in_rdev r, mknod_in_umask r, mknod_in_padding r, ()))
       (pod_cons u32_pod (pod_cons u32_pod (pod_cons u32_pod (pod_cons u32_pod pod_nil))))"

interpretation fuse_mknod_in: repr_c_struct fuse_mknod_in_pod
  unfolding fuse_mknod_in_pod_def
  by (rule repr_c_structI, (intro pod_intro)[1]) (auto simp: repr_c_simps pod_sizes)

lemma fuse_mknod_in_size [pod_sizes]:
  "pod_size fuse_mknod_in_pod = 16" "pod_align fuse_mknod_in_pod = 4"
  "pod_wf fuse_mknod_in_pod r"
  by (simp_all add: fuse_mknod_in_pod_def pod_sel pod_sizes)

lemmas [pod_intro] = fuse_mknod_in.plain_old_data_axioms

record fuse_mkdir_in =
  mkdir_in_mode :: u32
  mkdir_in_umask :: u32

definition fuse_mkdir_in_pod :: "fuse_mkdir_in pod" where
  "fuse_mkdir_in_pod =
     pod_struct
       (\<lambda>(mode, umask, _).
         \<lparr>mkdir_in_mode = mode, mkdir_in_umask = umask\<rparr>)
       (\<lambda>r.
         (mkdir_in_mode r, mkdir_in_umask r, ()))
       (pod_cons u32_pod (pod_cons u32_pod pod_nil))"

interpretation fuse_mkdir_in: repr_c_struct fuse_mkdir_in_pod
  unfolding fuse_mkdir_in_pod_def
  by (rule repr_c_structI, (intro pod_intro)[1]) (auto simp: repr_c_simps pod_sizes)

lemma fuse_mkdir_in_size [pod_sizes]:
  "pod_size fuse_mkdir_in_pod = 8" "pod_align fuse_mkdir_in_pod = 4"
  "pod_wf fuse_mkdir_in_pod r"
  by (simp_all add: fuse_mkdir_in_pod_def pod_sel pod_sizes)

lemmas [pod_intro] = fuse_mkdir_in.plain_old_data_axioms

record fuse_rename_in =
  rename_in_newdir :: u64

definition fuse_rename_in_pod :: "fuse_rename_in pod" where
  "fuse_rename_in_pod =
     pod_struct
       (\<lambda>(newdir, _).
         \<lparr>rename_in_newdir = newdir\<rparr>)
       (\<lambda>r.
         (rename_in_newdir r, ()))
       (pod_cons u64_pod pod_nil)"

interpretation fuse_rename_in: repr_c_struct fuse_rename_in_pod
  unfolding fuse_rename_in_pod_def
  by (rule repr_c_structI, (intro pod_intro)[1]) (auto simp: repr_c_simps pod_sizes)

lemma fuse_rename_in_size [pod_sizes]:
  "pod_size fuse_rename_in_pod = 8" "pod_align fuse_rename_in_pod = 8"
  "pod_wf fuse_rename_in_pod r"
  by (simp_all add: fuse_rename_in_pod_def pod_sel pod_sizes)

lemmas [pod_intro] = fuse_rename_in.plain_old_data_axioms

record fuse_link_in =
  link_in_oldnodeid :: u64

definition fuse_link_in_pod :: "fuse_link_in pod" where
  "fuse_link_in_pod =
     pod_struct
       (\<lambda>(oldnodeid, _).
         \<lparr>link_in_oldnodeid = oldnodeid\<rparr>)
       (\<lambda>r.
         (link_in_oldnodeid r, ()))
       (pod_cons u64_pod pod_nil)"

interpretation fuse_link_in: repr_c_struct fuse_link_in_pod
  unfolding fuse_link_in_pod_def
  by (rule repr_c_structI, (intro pod_intro)[1]) (auto simp: repr_c_simps pod_sizes)

lemma fuse_link_in_size [pod_sizes]:
  "pod_size fuse_link_in_pod = 8" "pod_align fuse_link_in_pod = 8"
  "pod_wf fuse_link_in_pod r"
  by (simp_all add: fuse_link_in_pod_def pod_sel pod_sizes)

lemmas [pod_intro] = fuse_link_in.plain_old_data_axioms

record fuse_open_in =
  open_in_flags :: u32
  open_in_open_flags :: u32

definition fuse_open_in_pod :: "fuse_open_in pod" where
  "fuse_open_in_pod =
     pod_struct
       (\<lambda>(flags, open_flags, _).
         \<lparr>open_in_flags = flags, open_in_open_flags = open_flags\<rparr>)
       (\<lambda>r.
         (open_in_flags r, open_in_open_flags r, ()))
       (pod_cons u32_pod (pod_cons u32_pod pod_nil))"

interpretation fuse_open_in: repr_c_struct fuse_open_in_pod
  unfolding fuse_open_in_pod_def
  by (rule repr_c_structI, (intro pod_intro)[1]) (auto simp: repr_c_simps pod_sizes)

lemma fuse_open_in_size [pod_sizes]:
  "pod_size fuse_open_in_pod = 8" "pod_align fuse_open_in_pod = 4"
  "pod_wf fuse_open_in_pod r"
  by (simp_all add: fuse_open_in_pod_def pod_sel pod_sizes)

lemmas [pod_intro] = fuse_open_in.plain_old_data_axioms

record fuse_read_in =
  read_in_fh :: u64
  read_in_offset :: u64
  read_in_size :: u32
  read_in_read_flags :: u32
  read_in_lock_owner :: u64
  read_in_flags :: u32
  read_in_padding :: u32

definition fuse_read_in_pod :: "fuse_read_in pod" where
  "fuse_read_in_pod =
     pod_struct
       (\<lambda>(fh, offset, size, read_flags, lock_owner, flags, padding, _).
         \<lparr>read_in_fh = fh, read_in_offset = offset, read_in_size = size,
         read_in_read_flags = read_flags, read_in_lock_owner = lock_owner, read_in_flags = flags,
         read_in_padding = padding\<rparr>)
       (\<lambda>r.
         (read_in_fh r, read_in_offset r, read_in_size r, read_in_read_flags r,
         read_in_lock_owner r, read_in_flags r, read_in_padding r, ()))
       (pod_cons u64_pod (pod_cons u64_pod (pod_cons u32_pod (pod_cons u32_pod (
         pod_cons u64_pod (pod_cons u32_pod (pod_cons u32_pod pod_nil)))))))"

interpretation fuse_read_in: repr_c_struct fuse_read_in_pod
  unfolding fuse_read_in_pod_def
  by (rule repr_c_structI, (intro pod_intro)[1]) (auto simp: repr_c_simps pod_sizes)

lemma fuse_read_in_size [pod_sizes]:
  "pod_size fuse_read_in_pod = 40" "pod_align fuse_read_in_pod = 8"
  "pod_wf fuse_read_in_pod r"
  by (simp_all add: fuse_read_in_pod_def pod_sel pod_sizes)

lemmas [pod_intro] = fuse_read_in.plain_old_data_axioms

record fuse_write_in_compat_8 =
  write_in_compat_8_fh :: u64
  write_in_compat_8_offset :: u64
  write_in_compat_8_size :: u32
  write_in_compat_8_write_flags :: u32

definition fuse_write_in_compat_8_pod :: "fuse_write_in_compat_8 pod" where
  "fuse_write_in_compat_8_pod =
     pod_struct
       (\<lambda>(fh, offset, size, write_flags, _).
         \<lparr>write_in_compat_8_fh = fh, write_in_compat_8_offset = offset,
         write_in_compat_8_size = size, write_in_compat_8_write_flags = write_flags\<rparr>)
       (\<lambda>r.
         (write_in_compat_8_fh r, write_in_compat_8_offset r, write_in_compat_8_size r,
         write_in_compat_8_write_flags r, ()))
       (pod_cons u64_pod (pod_cons u64_pod (pod_cons u32_pod (pod_cons u32_pod pod_nil))))"

interpretation fuse_write_in_compat_8: repr_c_struct fuse_write_in_compat_8_pod
  unfolding fuse_write_in_compat_8_pod_def
  by (rule repr_c_structI, (intro pod_intro)[1]) (auto simp: repr_c_simps pod_sizes)

lemma fuse_write_in_compat_8_size [pod_sizes]:
  "pod_size fuse_write_in_compat_8_pod = 24" "pod_align fuse_write_in_compat_8_pod = 8"
  "pod_wf fuse_write_in_compat_8_pod r"
  by (simp_all add: fuse_write_in_compat_8_pod_def pod_sel pod_sizes)

lemmas [pod_intro] = fuse_write_in_compat_8.plain_old_data_axioms

record fuse_write_in =
  write_in_fh :: u64
  write_in_offset :: u64
  write_in_size :: u32
  write_in_write_flags :: u32
  write_in_lock_owner :: u64
  write_in_flags :: u32
  write_in_padding :: u32

definition fuse_write_in_pod :: "fuse_write_in pod" where
  "fuse_write_in_pod =
     pod_struct
       (\<lambda>(fh, offset, size, write_flags, lock_owner, flags, padding, _).
         \<lparr>write_in_fh = fh, write_in_offset = offset, write_in_size = size,
         write_in_write_flags = write_flags, write_in_lock_owner = lock_owner,
         write_in_flags = flags, write_in_padding = padding\<rparr>)
       (\<lambda>r.
         (write_in_fh r, write_in_offset r, write_in_size r, write_in_write_flags r,
         write_in_lock_owner r, write_in_flags r, write_in_padding r, ()))
       (pod_cons u64_pod (pod_cons u64_pod (pod_cons u32_pod (pod_cons u32_pod (
         pod_cons u64_pod (pod_cons u32_pod (pod_cons u32_pod pod_nil)))))))"

interpretation fuse_write_in: repr_c_struct fuse_write_in_pod
  unfolding fuse_write_in_pod_def
  by (rule repr_c_structI, (intro pod_intro)[1]) (auto simp: repr_c_simps pod_sizes)

lemma fuse_write_in_size [pod_sizes]:
  "pod_size fuse_write_in_pod = 40" "pod_align fuse_write_in_pod = 8"
  "pod_wf fuse_write_in_pod r"
  by (simp_all add: fuse_write_in_pod_def pod_sel pod_sizes)

lemmas [pod_intro] = fuse_write_in.plain_old_data_axioms

record fuse_flush_in =
  flush_in_fh :: u64
  flush_in_unused :: u32
  flush_in_padding :: u32
  flush_in_lock_owner :: u64

definition fuse_flush_in_pod :: "fuse_flush_in pod" where
  "fuse_flush_in_pod =
     pod_struct
       (\<lambda>(fh, unused, padding, lock_owner, _).
         \<lparr>flush_in_fh = fh, flush_in_unused = unused, flush_in_padding = padding,
         flush_in_lock_owner = lock_owner\<rparr>)
       (\<lambda>r.
         (flush_in_fh r, flush_in_unused r, flush_in_padding r, flush_in_lock_owner r, ()))
       (pod_cons u64_pod (pod_cons u32_pod (pod_cons u32_pod (pod_cons u64_pod pod_nil))))"

interpretation fuse_flush_in: repr_c_struct fuse_flush_in_pod
  unfolding fuse_flush_in_pod_def
  by (rule repr_c_structI, (intro pod_intro)[1]) (auto simp: repr_c_simps pod_sizes)

lemma fuse_flush_in_size [pod_sizes]:
  "pod_size fuse_flush_in_pod = 24" "pod_align fuse_flush_in_pod = 8"
  "pod_wf fuse_flush_in_pod r"
  by (simp_all add: fuse_flush_in_pod_def pod_sel pod_sizes)

lemmas [pod_intro] = fuse_flush_in.plain_old_data_axioms

record fuse_release_in =
  release_in_fh :: u64
  release_in_flags :: u32
  release_in_release_flags :: u32
  release_in_lock_owner :: u64

definition fuse_release_in_pod :: "fuse_release_in pod" where
  "fuse_release_in_pod =
     pod_struct
       (\<lambda>(fh, flags, release_flags, lock_owner, _).
         \<lparr>release_in_fh = fh, release_in_flags = flags, release_in_release_flags = release_flags,
         release_in_lock_owner = lock_owner\<rparr>)
       (\<lambda>r.
         (release_in_fh r, release_in_flags r, release_in_release_flags r,
         release_in_lock_owner r, ()))
       (pod_cons u64_pod (pod_cons u32_pod (pod_cons u32_pod (pod_cons u64_pod pod_nil))))"

interpretation fuse_release_in: repr_c_struct fuse_release_in_pod
  unfolding fuse_release_in_pod_def
  by (rule repr_c_structI, (intro pod_intro)[1]) (auto simp: repr_c_simps pod_sizes)

lemma fuse_release_in_size [pod_sizes]:
  "pod_size fuse_release_in_pod = 24" "pod_align fuse_release_in_pod = 8"
  "pod_wf fuse_release_in_pod r"
  by (simp_all add: fuse_release_in_pod_def pod_sel pod_sizes)

lemmas [pod_intro] = fuse_release_in.plain_old_data_axioms

record fuse_fsync_in =
  fsync_in_fh :: u64
  fsync_in_fsync_flags :: u32
  fsync_in_padding :: u32

definition fuse_fsync_in_pod :: "fuse_fsync_in pod" where
  "fuse_fsync_in_pod =
     pod_struct
       (\<lambda>(fh, fsync_flags, padding, _).
         \<lparr>fsync_in_fh = fh, fsync_in_fsync_flags = fsync_flags, fsync_in_padding = padding\<rparr>)
       (\<lambda>r.
         (fsync_in_fh r, fsync_in_fsync_flags r, fsync_in_padding r, ()))
       (pod_cons u64_pod (pod_cons u32_pod (pod_cons u32_pod pod_nil)))"

interpretation fuse_fsync_in: repr_c_struct fuse_fsync_in_pod
  unfolding fuse_fsync_in_pod_def
  by (rule repr_c_structI, (intro pod_intro)[1]) (auto simp: repr_c_simps pod_sizes)

lemma fuse_fsync_in_size [pod_sizes]:
  "pod_size fuse_fsync_in_pod = 16" "pod_align fuse_fsync_in_pod = 8"
  "pod_wf fuse_fsync_in_pod r"
  by (simp_all add: fuse_fsync_in_pod_def pod_sel pod_sizes)

lemmas [pod_intro] = fuse_fsync_in.plain_old_data_axioms

record fuse_getxattr_in =
  getxattr_in_size :: u32
  getxattr_in_padding :: u32

definition fuse_getxattr_in_pod :: "fuse_getxattr_in pod" where
  "fuse_getxattr_in_pod =
     pod_struct
       (\<lambda>(size, padding, _).
         \<lparr>getxattr_in_size = size, getxattr_in_padding = padding\<rparr>)
       (\<lambda>r.
         (getxattr_in_size r, getxattr_in_padding r, ()))
       (pod_cons u32_pod (pod_cons u32_pod pod_nil))"

interpretation fuse_getxattr_in: repr_c_struct fuse_getxattr_in_pod
  unfolding fuse_getxattr_in_pod_def
  by (rule repr_c_structI, (intro pod_intro)[1]) (auto simp: repr_c_simps pod_sizes)

lemma fuse_getxattr_in_size [pod_sizes]:
  "pod_size fuse_getxattr_in_pod = 8" "pod_align fuse_getxattr_in_pod = 4"
  "pod_wf fuse_getxattr_in_pod r"
  by (simp_all add: fuse_getxattr_in_pod_def pod_sel pod_sizes)

lemmas [pod_intro] = fuse_getxattr_in.plain_old_data_axioms

record fuse_setxattr_in_compat_32 =
  setxattr_in_compat_32_size :: u32
  setxattr_in_compat_32_flags :: u32

definition fuse_setxattr_in_compat_32_pod :: "fuse_setxattr_in_compat_32 pod" where
  "fuse_setxattr_in_compat_32_pod =
     pod_struct
       (\<lambda>(size, flags, _).
         \<lparr>setxattr_in_compat_32_size = size, setxattr_in_compat_32_flags = flags\<rparr>)
       (\<lambda>r.
         (setxattr_in_compat_32_size r, setxattr_in_compat_32_flags r, ()))
       (pod_cons u32_pod (pod_cons u32_pod pod_nil))"

interpretation fuse_setxattr_in_compat_32: repr_c_struct fuse_setxattr_in_compat_32_pod
  unfolding fuse_setxattr_in_compat_32_pod_def
  by (rule repr_c_structI, (intro pod_intro)[1]) (auto simp: repr_c_simps pod_sizes)

lemma fuse_setxattr_in_compat_32_size [pod_sizes]:
  "pod_size fuse_setxattr_in_compat_32_pod = 8" "pod_align fuse_setxattr_in_compat_32_pod = 4"
  "pod_wf fuse_setxattr_in_compat_32_pod r"
  by (simp_all add: fuse_setxattr_in_compat_32_pod_def pod_sel pod_sizes)

lemmas [pod_intro] = fuse_setxattr_in_compat_32.plain_old_data_axioms

record fuse_setxattr_in =
  setxattr_in_size :: u32
  setxattr_in_flags :: u32
  setxattr_in_setxattr_flags :: u32
  setxattr_in_padding :: u32

definition fuse_setxattr_in_pod :: "fuse_setxattr_in pod" where
  "fuse_setxattr_in_pod =
     pod_struct
       (\<lambda>(size, flags, setxattr_flags, padding, _).
         \<lparr>setxattr_in_size = size, setxattr_in_flags = flags,
         setxattr_in_setxattr_flags = setxattr_flags, setxattr_in_padding = padding\<rparr>)
       (\<lambda>r.
         (setxattr_in_size r, setxattr_in_flags r, setxattr_in_setxattr_flags r,
         setxattr_in_padding r, ()))
       (pod_cons u32_pod (pod_cons u32_pod (pod_cons u32_pod (pod_cons u32_pod pod_nil))))"

interpretation fuse_setxattr_in: repr_c_struct fuse_setxattr_in_pod
  unfolding fuse_setxattr_in_pod_def
  by (rule repr_c_structI, (intro pod_intro)[1]) (auto simp: repr_c_simps pod_sizes)

lemma fuse_setxattr_in_size [pod_sizes]:
  "pod_size fuse_setxattr_in_pod = 16" "pod_align fuse_setxattr_in_pod = 4"
  "pod_wf fuse_setxattr_in_pod r"
  by (simp_all add: fuse_setxattr_in_pod_def pod_sel pod_sizes)

lemmas [pod_intro] = fuse_setxattr_in.plain_old_data_axioms

record fuse_lk_in =
  lk_in_fh :: u64
  lk_in_owner :: u64
  lk_in_lk :: fuse_file_lock
  lk_in_lk_flags :: u32
  lk_in_padding :: u32

definition fuse_lk_in_pod :: "fuse_lk_in pod" where
  "fuse_lk_in_pod =
     pod_struct
       (\<lambda>(fh, owner, lk, lk_flags, padding, _).
         \<lparr>lk_in_fh = fh, lk_in_owner = owner, lk_in_lk = lk, lk_in_lk_flags = lk_flags,
         lk_in_padding = padding\<rparr>)
       (\<lambda>r.
         (lk_in_fh r, lk_in_owner r, lk_in_lk r, lk_in_lk_flags r, lk_in_padding r, ()))
       (pod_cons u64_pod (pod_cons u64_pod (pod_cons fuse_file_lock_pod (pod_cons u32_pod (
         pod_cons u32_pod pod_nil)))))"

interpretation fuse_lk_in: repr_c_struct fuse_lk_in_pod
  unfolding fuse_lk_in_pod_def
  by (rule repr_c_structI, (intro pod_intro)[1]) (auto simp: repr_c_simps pod_sizes)

lemma fuse_lk_in_size [pod_sizes]:
  "pod_size fuse_lk_in_pod = 48" "pod_align fuse_lk_in_pod = 8"
  "pod_wf fuse_lk_in_pod r"
  by (simp_all add: fuse_lk_in_pod_def pod_sel pod_sizes)

lemmas [pod_intro] = fuse_lk_in.plain_old_data_axioms

record fuse_access_in =
  access_in_mask :: u32
  access_in_padding :: u32

definition fuse_access_in_pod :: "fuse_access_in pod" where
  "fuse_access_in_pod =
     pod_struct
       (\<lambda>(mask, padding, _).
         \<lparr>access_in_mask = mask, access_in_padding = padding\<rparr>)
       (\<lambda>r.
         (access_in_mask r, access_in_padding r, ()))
       (pod_cons u32_pod (pod_cons u32_pod pod_nil))"

interpretation fuse_access_in: repr_c_struct fuse_access_in_pod
  unfolding fuse_access_in_pod_def
  by (rule repr_c_structI, (intro pod_intro)[1]) (auto simp: repr_c_simps pod_sizes)

lemma fuse_access_in_size [pod_sizes]:
  "pod_size fuse_access_in_pod = 8" "pod_align fuse_access_in_pod = 4"
  "pod_wf fuse_access_in_pod r"
  by (simp_all add: fuse_access_in_pod_def pod_sel pod_sizes)

lemmas [pod_intro] = fuse_access_in.plain_old_data_axioms

record fuse_create_in =
  create_in_flags :: u32
  create_in_mode :: u32
  create_in_umask :: u32
  create_in_open_flags :: u32

definition fuse_create_in_pod :: "fuse_create_in pod" where
  "fuse_create_in_pod =
     pod_struct
       (\<lambda>(flags, mode, umask, open_flags, _).
         \<lparr>create_in_flags = flags, create_in_mode = mode, create_in_umask = umask,
         create_in_open_flags = open_flags\<rparr>)
       (\<lambda>r.
         (create_in_flags r, create_in_mode r, create_in_umask r, create_in_open_flags r, ()))
       (pod_cons u32_pod (pod_cons u32_pod (pod_cons u32_pod (pod_cons u32_pod pod_nil))))"

interpretation fuse_create_in: repr_c_struct fuse_create_in_pod
  unfolding fuse_create_in_pod_def
  by (rule repr_c_structI, (intro pod_intro)[1]) (auto simp: repr_c_simps pod_sizes)

lemma fuse_create_in_size [pod_sizes]:
  "pod_size fuse_create_in_pod = 16" "pod_align fuse_create_in_pod = 4"
  "pod_wf fuse_create_in_pod r"
  by (simp_all add: fuse_create_in_pod_def pod_sel pod_sizes)

lemmas [pod_intro] = fuse_create_in.plain_old_data_axioms

record fuse_bmap_in =
  bmap_in_block :: u64
  bmap_in_blocksize :: u32
  bmap_in_padding :: u32

definition fuse_bmap_in_pod :: "fuse_bmap_in pod" where
  "fuse_bmap_in_pod =
     pod_struct
       (\<lambda>(block, blocksize, padding, _).
         \<lparr>bmap_in_block = block, bmap_in_blocksize = blocksize, bmap_in_padding = padding\<rparr>)
       (\<lambda>r.
         (bmap_in_block r, bmap_in_blocksize r, bmap_in_padding r, ()))
       (pod_cons u64_pod (pod_cons u32_pod (pod_cons u32_pod pod_nil)))"

interpretation fuse_bmap_in: repr_c_struct fuse_bmap_in_pod
  unfolding fuse_bmap_in_pod_def
  by (rule repr_c_structI, (intro pod_intro)[1]) (auto simp: repr_c_simps pod_sizes)

lemma fuse_bmap_in_size [pod_sizes]:
  "pod_size fuse_bmap_in_pod = 16" "pod_align fuse_bmap_in_pod = 8"
  "pod_wf fuse_bmap_in_pod r"
  by (simp_all add: fuse_bmap_in_pod_def pod_sel pod_sizes)

lemmas [pod_intro] = fuse_bmap_in.plain_old_data_axioms

record fuse_init_in_out_compat_3 =
  init_in_out_compat_3_major :: u32
  init_in_out_compat_3_minor :: u32

definition fuse_init_in_out_compat_3_pod :: "fuse_init_in_out_compat_3 pod" where
  "fuse_init_in_out_compat_3_pod =
     pod_struct
       (\<lambda>(major, minor, _).
         \<lparr>init_in_out_compat_3_major = major, init_in_out_compat_3_minor = minor\<rparr>)
       (\<lambda>r.
         (init_in_out_compat_3_major r, init_in_out_compat_3_minor r, ()))
       (pod_cons u32_pod (pod_cons u32_pod pod_nil))"

interpretation fuse_init_in_out_compat_3: repr_c_struct fuse_init_in_out_compat_3_pod
  unfolding fuse_init_in_out_compat_3_pod_def
  by (rule repr_c_structI, (intro pod_intro)[1]) (auto simp: repr_c_simps pod_sizes)

lemma fuse_init_in_out_compat_3_size [pod_sizes]:
  "pod_size fuse_init_in_out_compat_3_pod = 8" "pod_align fuse_init_in_out_compat_3_pod = 4"
  "pod_wf fuse_init_in_out_compat_3_pod r"
  by (simp_all add: fuse_init_in_out_compat_3_pod_def pod_sel pod_sizes)

lemmas [pod_intro] = fuse_init_in_out_compat_3.plain_old_data_axioms

record fuse_poll_in =
  poll_in_fh :: u64
  poll_in_kh :: u64
  poll_in_flags :: u32
  poll_in_events :: u32

definition fuse_poll_in_pod :: "fuse_poll_in pod" where
  "fuse_poll_in_pod =
     pod_struct
       (\<lambda>(fh, kh, flags, events, _).
         \<lparr>poll_in_fh = fh, poll_in_kh = kh, poll_in_flags = flags, poll_in_events = events\<rparr>)
       (\<lambda>r.
         (poll_in_fh r, poll_in_kh r, poll_in_flags r, poll_in_events r, ()))
       (pod_cons u64_pod (pod_cons u64_pod (pod_cons u32_pod (pod_cons u32_pod pod_nil))))"

interpretation fuse_poll_in: repr_c_struct fuse_poll_in_pod
  unfolding fuse_poll_in_pod_def
  by (rule repr_c_structI, (intro pod_intro)[1]) (auto simp: repr_c_simps pod_sizes)

lemma fuse_poll_in_size [pod_sizes]:
  "pod_size fuse_poll_in_pod = 24" "pod_align fuse_poll_in_pod = 8"
  "pod_wf fuse_poll_in_pod r"
  by (simp_all add: fuse_poll_in_pod_def pod_sel pod_sizes)

lemmas [pod_intro] = fuse_poll_in.plain_old_data_axioms

record fuse_interrupt_in =
  interrupt_in_unique :: u64

definition fuse_interrupt_in_pod :: "fuse_interrupt_in pod" where
  "fuse_interrupt_in_pod =
     pod_struct
       (\<lambda>(unique, _).
         \<lparr>interrupt_in_unique = unique\<rparr>)
       (\<lambda>r.
         (interrupt_in_unique r, ()))
       (pod_cons u64_pod pod_nil)"

interpretation fuse_interrupt_in: repr_c_struct fuse_interrupt_in_pod
  unfolding fuse_interrupt_in_pod_def
  by (rule repr_c_structI, (intro pod_intro)[1]) (auto simp: repr_c_simps pod_sizes)

lemma fuse_interrupt_in_size [pod_sizes]:
  "pod_size fuse_interrupt_in_pod = 8" "pod_align fuse_interrupt_in_pod = 8"
  "pod_wf fuse_interrupt_in_pod r"
  by (simp_all add: fuse_interrupt_in_pod_def pod_sel pod_sizes)

lemmas [pod_intro] = fuse_interrupt_in.plain_old_data_axioms

record fuse_fallocate_in =
  fallocate_in_fh :: u64
  fallocate_in_offset :: u64
  fallocate_in_length :: u64
  fallocate_in_mode :: u32
  fallocate_in_padding :: u32

definition fuse_fallocate_in_pod :: "fuse_fallocate_in pod" where
  "fuse_fallocate_in_pod =
     pod_struct
       (\<lambda>(fh, offset, length, mode, padding, _).
         \<lparr>fallocate_in_fh = fh, fallocate_in_offset = offset, fallocate_in_length = length,
         fallocate_in_mode = mode, fallocate_in_padding = padding\<rparr>)
       (\<lambda>r.
         (fallocate_in_fh r, fallocate_in_offset r, fallocate_in_length r, fallocate_in_mode r,
         fallocate_in_padding r, ()))
       (pod_cons u64_pod (pod_cons u64_pod (pod_cons u64_pod (pod_cons u32_pod (
         pod_cons u32_pod pod_nil)))))"

interpretation fuse_fallocate_in: repr_c_struct fuse_fallocate_in_pod
  unfolding fuse_fallocate_in_pod_def
  by (rule repr_c_structI, (intro pod_intro)[1]) (auto simp: repr_c_simps pod_sizes)

lemma fuse_fallocate_in_size [pod_sizes]:
  "pod_size fuse_fallocate_in_pod = 32" "pod_align fuse_fallocate_in_pod = 8"
  "pod_wf fuse_fallocate_in_pod r"
  by (simp_all add: fuse_fallocate_in_pod_def pod_sel pod_sizes)

lemmas [pod_intro] = fuse_fallocate_in.plain_old_data_axioms

record fuse_batch_forget_in =
  batch_forget_in_count :: u32
  batch_forget_in_dummy :: u32

definition fuse_batch_forget_in_pod :: "fuse_batch_forget_in pod" where
  "fuse_batch_forget_in_pod =
     pod_struct
       (\<lambda>(count, dummy, _).
         \<lparr>batch_forget_in_count = count, batch_forget_in_dummy = dummy\<rparr>)
       (\<lambda>r.
         (batch_forget_in_count r, batch_forget_in_dummy r, ()))
       (pod_cons u32_pod (pod_cons u32_pod pod_nil))"

interpretation fuse_batch_forget_in: repr_c_struct fuse_batch_forget_in_pod
  unfolding fuse_batch_forget_in_pod_def
  by (rule repr_c_structI, (intro pod_intro)[1]) (auto simp: repr_c_simps pod_sizes)

lemma fuse_batch_forget_in_size [pod_sizes]:
  "pod_size fuse_batch_forget_in_pod = 8" "pod_align fuse_batch_forget_in_pod = 4"
  "pod_wf fuse_batch_forget_in_pod r"
  by (simp_all add: fuse_batch_forget_in_pod_def pod_sel pod_sizes)

lemmas [pod_intro] = fuse_batch_forget_in.plain_old_data_axioms

record fuse_forget_one =
  forget_one_nodeid :: u64
  forget_one_nlookup :: u64

definition fuse_forget_one_pod :: "fuse_forget_one pod" where
  "fuse_forget_one_pod =
     pod_struct
       (\<lambda>(nodeid, nlookup, _).
         \<lparr>forget_one_nodeid = nodeid, forget_one_nlookup = nlookup\<rparr>)
       (\<lambda>r.
         (forget_one_nodeid r, forget_one_nlookup r, ()))
       (pod_cons u64_pod (pod_cons u64_pod pod_nil))"

interpretation fuse_forget_one: repr_c_struct fuse_forget_one_pod
  unfolding fuse_forget_one_pod_def
  by (rule repr_c_structI, (intro pod_intro)[1]) (auto simp: repr_c_simps pod_sizes)

lemma fuse_forget_one_size [pod_sizes]:
  "pod_size fuse_forget_one_pod = 16" "pod_align fuse_forget_one_pod = 8"
  "pod_wf fuse_forget_one_pod r"
  by (simp_all add: fuse_forget_one_pod_def pod_sel pod_sizes)

lemmas [pod_intro] = fuse_forget_one.plain_old_data_axioms

record fuse_rename2_in =
  rename2_in_newdir :: u64
  rename2_in_flags :: u32
  rename2_in_padding :: u32

definition fuse_rename2_in_pod :: "fuse_rename2_in pod" where
  "fuse_rename2_in_pod =
     pod_struct
       (\<lambda>(newdir, flags, padding, _).
         \<lparr>rename2_in_newdir = newdir, rename2_in_flags = flags, rename2_in_padding = padding\<rparr>)
       (\<lambda>r.
         (rename2_in_newdir r, rename2_in_flags r, rename2_in_padding r, ()))
       (pod_cons u64_pod (pod_cons u32_pod (pod_cons u32_pod pod_nil)))"

interpretation fuse_rename2_in: repr_c_struct fuse_rename2_in_pod
  unfolding fuse_rename2_in_pod_def
  by (rule repr_c_structI, (intro pod_intro)[1]) (auto simp: repr_c_simps pod_sizes)

lemma fuse_rename2_in_size [pod_sizes]:
  "pod_size fuse_rename2_in_pod = 16" "pod_align fuse_rename2_in_pod = 8"
  "pod_wf fuse_rename2_in_pod r"
  by (simp_all add: fuse_rename2_in_pod_def pod_sel pod_sizes)

lemmas [pod_intro] = fuse_rename2_in.plain_old_data_axioms

record fuse_lseek_in =
  lseek_in_fh :: u64
  lseek_in_offset :: u64
  lseek_in_whence :: u32
  lseek_in_padding :: u32

definition fuse_lseek_in_pod :: "fuse_lseek_in pod" where
  "fuse_lseek_in_pod =
     pod_struct
       (\<lambda>(fh, offset, whence, padding, _).
         \<lparr>lseek_in_fh = fh, lseek_in_offset = offset, lseek_in_whence = whence,
         lseek_in_padding = padding\<rparr>)
       (\<lambda>r.
         (lseek_in_fh r, lseek_in_offset r, lseek_in_whence r, lseek_in_padding r, ()))
       (pod_cons u64_pod (pod_cons u64_pod (pod_cons u32_pod (pod_cons u32_pod pod_nil))))"

interpretation fuse_lseek_in: repr_c_struct fuse_lseek_in_pod
  unfolding fuse_lseek_in_pod_def
  by (rule repr_c_structI, (intro pod_intro)[1]) (auto simp: repr_c_simps pod_sizes)

lemma fuse_lseek_in_size [pod_sizes]:
  "pod_size fuse_lseek_in_pod = 24" "pod_align fuse_lseek_in_pod = 8"
  "pod_wf fuse_lseek_in_pod r"
  by (simp_all add: fuse_lseek_in_pod_def pod_sel pod_sizes)

lemmas [pod_intro] = fuse_lseek_in.plain_old_data_axioms

record fuse_copy_file_range_in =
  copy_file_range_in_fh_in :: u64
  copy_file_range_in_off_in :: u64
  copy_file_range_in_nodeid_out :: u64
  copy_file_range_in_fh_out :: u64
  copy_file_range_in_off_out :: u64
  copy_file_range_in_len :: u64
  copy_file_range_in_flags :: u64

definition fuse_copy_file_range_in_pod :: "fuse_copy_file_range_in pod" where
  "fuse_copy_file_range_in_pod =
     pod_struct
       (\<lambda>(fh_in, off_in, nodeid_out, fh_out, off_out, len, flags, _).
         \<lparr>copy_file_range_in_fh_in = fh_in, copy_file_range_in_off_in = off_in,
         copy_file_range_in_nodeid_out = nodeid_out, copy_file_range_in_fh_out = fh_out,
         copy_file_range_in_off_out = off_out, copy_file_range_in_len = len,
         copy_file_range_in_flags = flags\<rparr>)
       (\<lambda>r.
         (copy_file_range_in_fh_in r, copy_file_range_in_off_in r,
         copy_file_range_in_nodeid_out r, copy_file_range_in_fh_out r,
         copy_file_range_in_off_out r, copy_file_range_in_len r, copy_file_range_in_flags r, ()))
       (pod_cons u64_pod (pod_cons u64_pod (pod_cons u64_pod (pod_cons u64_pod (
         pod_cons u64_pod (pod_cons u64_pod (pod_cons u64_pod pod_nil)))))))"

interpretation fuse_copy_file_range_in: repr_c_struct fuse_copy_file_range_in_pod
  unfolding fuse_copy_file_range_in_pod_def
  by (rule repr_c_structI, (intro pod_intro)[1]) (auto simp: repr_c_simps pod_sizes)

lemma fuse_copy_file_range_in_size [pod_sizes]:
  "pod_size fuse_copy_file_range_in_pod = 56" "pod_align fuse_copy_file_range_in_pod = 8"
  "pod_wf fuse_copy_file_range_in_pod r"
  by (simp_all add: fuse_copy_file_range_in_pod_def pod_sel pod_sizes)

lemmas [pod_intro] = fuse_copy_file_range_in.plain_old_data_axioms

record fuse_notify_retrieve_in =
  notify_retrieve_in_dummy1 :: u64
  notify_retrieve_in_offset :: u64
  notify_retrieve_in_size :: u32
  notify_retrieve_in_dummy2 :: u32
  notify_retrieve_in_dummy3 :: u64
  notify_retrieve_in_dummy4 :: u64

definition fuse_notify_retrieve_in_pod :: "fuse_notify_retrieve_in pod" where
  "fuse_notify_retrieve_in_pod =
     pod_struct
       (\<lambda>(dummy1, offset, size, dummy2, dummy3, dummy4, _).
         \<lparr>notify_retrieve_in_dummy1 = dummy1, notify_retrieve_in_offset = offset,
         notify_retrieve_in_size = size, notify_retrieve_in_dummy2 = dummy2,
         notify_retrieve_in_dummy3 = dummy3, notify_retrieve_in_dummy4 = dummy4\<rparr>)
       (\<lambda>r.
         (notify_retrieve_in_dummy1 r, notify_retrieve_in_offset r, notify_retrieve_in_size r,
         notify_retrieve_in_dummy2 r, notify_retrieve_in_dummy3 r, notify_retrieve_in_dummy4 r, ()))
       (pod_cons u64_pod (pod_cons u64_pod (pod_cons u32_pod (pod_cons u32_pod (
         pod_cons u64_pod (pod_cons u64_pod pod_nil))))))"

interpretation fuse_notify_retrieve_in: repr_c_struct fuse_notify_retrieve_in_pod
  unfolding fuse_notify_retrieve_in_pod_def
  by (rule repr_c_structI, (intro pod_intro)[1]) (auto simp: repr_c_simps pod_sizes)

lemma fuse_notify_retrieve_in_size [pod_sizes]:
  "pod_size fuse_notify_retrieve_in_pod = 40" "pod_align fuse_notify_retrieve_in_pod = 8"
  "pod_wf fuse_notify_retrieve_in_pod r"
  by (simp_all add: fuse_notify_retrieve_in_pod_def pod_sel pod_sizes)

lemmas [pod_intro] = fuse_notify_retrieve_in.plain_old_data_axioms

end
