(* ===== verification/Header.thy ===== *)
theory Header
  imports Types Abi_Request
begin

text \<open>
  The header of a request (\<open>InHeader\<close> of \<open>src/buf.rs\<close>): a view of \<open>fuse_in_header\<close> that
  interprets the raw numbers.
\<close>

type_synonym InHeader = fuse_in_header
type_synonym Uid = u32
type_synonym Gid = u32

definition InHeader_len :: "InHeader \<Rightarrow> u32" where
  "InHeader_len self = in_header_len self"

definition InHeader_nodeid :: "InHeader \<Rightarrow> NodeID option" where
  "InHeader_nodeid self = NodeID_from_raw (in_header_nodeid self)"

definition InHeader_unique :: "InHeader \<Rightarrow> RequestID" where
  "InHeader_unique self = RequestID (in_header_unique self)"

definition InHeader_opcode :: "InHeader \<Rightarrow> (u32, fuse_opcode) result" where
  "InHeader_opcode self =
     (case opcode_from_raw (in_header_opcode self) of
        Some opcode \<Rightarrow> Ok opcode
      | None \<Rightarrow> Err (in_header_opcode self))"

definition InHeader_is_special_request :: "InHeader \<Rightarrow> bool" where
  "InHeader_is_special_request self \<longleftrightarrow>
     in_header_opcode self \<in>
       {opcode_value FUSE_INIT, opcode_value FUSE_FORGET, opcode_value FUSE_BATCH_FORGET,
        opcode_value FUSE_INTERRUPT, opcode_value FUSE_DESTROY, opcode_value FUSE_NOTIFY_REPLY}"

definition InHeader_uid :: "InHeader \<Rightarrow> Uid option" where
  "InHeader_uid self =
     (if InHeader_is_special_request self then None else Some (in_header_uid self))"

definition InHeader_gid :: "InHeader \<Rightarrow> Gid option" where
  "InHeader_gid self =
     (if InHeader_is_special_request self then None else Some (in_header_gid self))"

definition InHeader_pid :: "extern \<Rightarrow> InHeader \<Rightarrow> Pid option" where
  "InHeader_pid X self =
     (if InHeader_is_special_request self then None else Pid_from_raw X (in_header_pid self))"

text \<open>How many bytes of the message after the header belong to the argument of the operation;
  the rest is the data of a write or of a retrieved cache.\<close>

definition InHeader_arg_len :: "InHeader \<Rightarrow> nat" where
  "InHeader_arg_len self =
     (case InHeader_opcode self of
        Ok FUSE_WRITE \<Rightarrow> pod_size fuse_write_in_pod
      | Ok FUSE_NOTIFY_REPLY \<Rightarrow> pod_size fuse_notify_retrieve_in_pod
      | Ok opcode \<Rightarrow> unat (in_header_len self) - pod_size fuse_in_header_pod
      | _ \<Rightarrow> 0)"

lemma opcode_value_eq: "opcode_value a = opcode_value b \<longleftrightarrow> a = b"
  by (metis opcode_from_raw_value option.inject)

lemma opcode_value_image: "opcode_value a \<in> opcode_value ` A \<longleftrightarrow> a \<in> A"
  by (auto simp: opcode_value_eq)

lemma InHeader_opcode_Ok:
  "InHeader_opcode self = Ok opcode \<longleftrightarrow> in_header_opcode self = opcode_value opcode"
  by (auto simp: InHeader_opcode_def opcode_from_raw_Some opcode_from_raw_value split: option.splits)
    (metis opcode_from_raw_value option.inject)

lemma InHeader_opcode_cases:
  obtains opcode where "InHeader_opcode self = Ok opcode"
  | "InHeader_opcode self = Err (in_header_opcode self)"
  by (cases "opcode_from_raw (in_header_opcode self)") (auto simp: InHeader_opcode_def)

lemma InHeader_arg_len_other:
  assumes "InHeader_opcode self = Ok opcode" "opcode \<noteq> FUSE_WRITE" "opcode \<noteq> FUSE_NOTIFY_REPLY"
  shows "InHeader_arg_len self = unat (in_header_len self) - 40"
  using assms by (cases opcode) (simp_all add: InHeader_arg_len_def pod_sizes)

end
