(* ===== verification/Decoder.thy ===== *)
theory Decoder
  imports Abi_Request
begin

text \<open>
  The cursor over the argument of a request (\<open>src/op/decoder.rs\<close>). The model keeps the address
  of the remaining bytes, which decides whether they can be viewed as a structure in place.
\<close>

datatype DecodeError =
    UnexpectedEof | MissingNulCharacter | Unaligned | InvalidNodeID | InvalidFlockType
  | InvalidPid | UnknownLseekWhence

record decoder =
  dec_addr :: nat
  dec_bytes :: bytes

definition Decoder_new :: "nat \<Rightarrow> bytes \<Rightarrow> decoder" where
  "Decoder_new addr bs = \<lparr> dec_addr = addr, dec_bytes = bs \<rparr>"

text \<open>
  An operation returns what it fetched and the decoder behind it. An error ends decoding: every
  caller passes it on with \<open>?\<close>, so the decoder it leaves behind is not observed.
\<close>

definition fetch_bytes :: "nat \<Rightarrow> decoder \<Rightarrow> (DecodeError, bytes \<times> decoder) result" where
  "fetch_bytes count d =
     (if length (dec_bytes d) < count then Err UnexpectedEof
      else Ok (take count (dec_bytes d),
               \<lparr> dec_addr = dec_addr d + count, dec_bytes = drop count (dec_bytes d) \<rparr>))"

definition fetch :: "extern \<Rightarrow> 'a pod \<Rightarrow> decoder \<Rightarrow> (DecodeError, 'a \<times> decoder) result" where
  "fetch X p d =
     and_then (fetch_bytes (pod_size p) d) (\<lambda>(bs, d').
     and_then (ok_or (try_ref_from_bytes X p (dec_addr d) bs) Unaligned) (\<lambda>x. Ok (x, d')))"

definition fetch_array ::
    "extern \<Rightarrow> 'a pod \<Rightarrow> nat \<Rightarrow> decoder \<Rightarrow> (DecodeError, 'a list \<times> decoder) result" where
  "fetch_array X p count d =
     and_then (fetch_bytes (pod_size p * count) d) (\<lambda>(bs, d').
     and_then (ok_or (try_ref_from_bytes X (pod_array count p) (dec_addr d) bs) Unaligned) (\<lambda>x.
     Ok (x, d')))"

text \<open>\<open>Iterator::position\<close> of the first element equal to the given one.\<close>

fun position :: "'a \<Rightarrow> 'a list \<Rightarrow> nat option" where
  "position y [] = None"
| "position y (x # xs) = (if x = y then Some 0 else map_option Suc (position y xs))"

definition fetch_str :: "decoder \<Rightarrow> (DecodeError, bytes \<times> decoder) result" where
  "fetch_str d =
     and_then (ok_or (position 0 (dec_bytes d)) MissingNulCharacter) (\<lambda>len.
     and_then (expect (fetch_bytes (len + 1) d)) (\<lambda>(bs, d').
     Ok (take (length bs - 1) bs, d')))"

section \<open>Lemmas\<close>

lemma position_Some:
  "position y xs = Some n \<longleftrightarrow> n < length xs \<and> xs ! n = y \<and> y \<notin> set (take n xs)"
proof (induction xs arbitrary: n)
  case Nil
  show ?case by simp
next
  case (Cons x xs)
  then show ?case by (cases n) auto
qed

lemma position_None: "position y xs = None \<longleftrightarrow> y \<notin> set xs"
  by (induction xs) auto

lemma position_append [simp]: "y \<notin> set xs \<Longrightarrow> position y (xs @ y # ys) = Some (length xs)"
  by (induction xs) auto

text \<open>What an operation fetches is what stands at the front of the input, and it always succeeds
  on such an input.\<close>

lemma fetch_bytes_Ok:
  "fetch_bytes n d = Ok (bs, d') \<longleftrightarrow>
     length bs = n \<and> dec_bytes d = bs @ dec_bytes d' \<and> dec_addr d' = dec_addr d + n"
proof
  assume "fetch_bytes n d = Ok (bs, d')"
  then show "length bs = n \<and> dec_bytes d = bs @ dec_bytes d' \<and> dec_addr d' = dec_addr d + n"
    by (auto simp: fetch_bytes_def split: if_splits)
next
  assume "length bs = n \<and> dec_bytes d = bs @ dec_bytes d' \<and> dec_addr d' = dec_addr d + n"
  then show "fetch_bytes n d = Ok (bs, d')"
    by (cases d') (auto simp: fetch_bytes_def)
qed

lemma fetch_bytes_errors:
  "fetch_bytes n d = Err e \<longleftrightarrow> e = UnexpectedEof \<and> length (dec_bytes d) < n"
  "fetch_bytes n d \<noteq> Panic"
  by (auto simp: fetch_bytes_def)

lemma fetch_str_Ok:
  "fetch_str d = Ok (s, d') \<longleftrightarrow>
     0 \<notin> set s \<and> dec_bytes d = s @ 0 # dec_bytes d' \<and> dec_addr d' = dec_addr d + length s + 1"
proof
  assume "fetch_str d = Ok (s, d')"
  then obtain n bs where n: "position 0 (dec_bytes d) = Some n"
    and f: "fetch_bytes (n + 1) d = Ok (bs, d')" and s: "s = take (length bs - 1) bs"
    by (auto simp: fetch_str_def result_eqs)
  from f have bs: "length bs = Suc n" "dec_bytes d = bs @ dec_bytes d'"
    and addr: "dec_addr d' = dec_addr d + (n + 1)"
    by (simp_all add: fetch_bytes_Ok)
  from n bs have "bs ! n = 0" "0 \<notin> set (take n bs)"
    by (auto simp: position_Some nth_append)
  moreover from this bs(1) have "bs = take n bs @ [0]"
    using take_Suc_conv_app_nth [of n bs] by simp
  ultimately show "0 \<notin> set s \<and> dec_bytes d = s @ 0 # dec_bytes d' \<and>
      dec_addr d' = dec_addr d + length s + 1"
    using bs addr s by (metis (no_types) add.assoc append.assoc append_Cons append_Nil diff_Suc_1
        length_append_singleton nat.inject)
next
  assume *: "0 \<notin> set s \<and> dec_bytes d = s @ 0 # dec_bytes d' \<and> dec_addr d' = dec_addr d + length s + 1"
  then have "fetch_bytes (length s + 1) d = Ok (s @ [0], d')"
    by (simp add: fetch_bytes_Ok)
  with * show "fetch_str d = Ok (s, d')" by (simp add: fetch_str_def)
qed

lemma fetch_str_errors:
  "fetch_str d = Err e \<longleftrightarrow> e = MissingNulCharacter \<and> 0 \<notin> set (dec_bytes d)"
  "fetch_str d \<noteq> Panic"
proof -
  have "(fetch_str d = Err e \<longleftrightarrow> e = MissingNulCharacter \<and> 0 \<notin> set (dec_bytes d)) \<and>
      fetch_str d \<noteq> Panic"
  proof (cases "position 0 (dec_bytes d)")
    case None
    then have "0 \<notin> set (dec_bytes d)" by (simp add: position_None)
    with None show ?thesis by (auto simp: fetch_str_def)
  next
    case (Some n)
    then have "n < length (dec_bytes d)" "0 \<in> set (dec_bytes d)"
      by (auto simp: position_Some in_set_conv_nth)
    with Some show ?thesis by (simp add: fetch_str_def fetch_bytes_def)
  qed
  then show "fetch_str d = Err e \<longleftrightarrow> e = MissingNulCharacter \<and> 0 \<notin> set (dec_bytes d)"
    "fetch_str d \<noteq> Panic" by blast+
qed

lemma fetch_errors:
  assumes "zerocopy_ok X"
  shows "fetch X p d = Err UnexpectedEof \<longleftrightarrow> length (dec_bytes d) < pod_size p"
    and "fetch X p d = Err Unaligned \<longleftrightarrow> pod_size p \<le> length (dec_bytes d) \<and> dec_addr d mod pod_align p \<noteq> 0"
    and "fetch X p d = Err e \<Longrightarrow> e = UnexpectedEof \<or> e = Unaligned"
    and "fetch X p d \<noteq> Panic"
  using assms
  by (auto simp: fetch_def result_eqs fetch_bytes_errors try_ref_from_bytes_def cast_ok_iff fetch_bytes_def
      split: if_splits)

lemma fetch_array_eq: "fetch_array X p n d = fetch X (pod_array n p) d"
  by (simp add: fetch_array_def fetch_def pod_sel mult.commute)

text \<open>Fetching from an input that is cut short.\<close>

lemma fetch_str_take:
  assumes "0 \<notin> set s"
  shows "fetch_str \<lparr> dec_addr = addr, dec_bytes = take n (s @ 0 # rest) \<rparr> =
    (if n \<le> length s then Err MissingNulCharacter
     else Ok (s, \<lparr> dec_addr = addr + length s + 1, dec_bytes = take (n - length s - 1) rest \<rparr>))"
proof (cases "n \<le> length s")
  case True
  then have "0 \<notin> set (take n (s @ 0 # rest))" using assms by (auto dest: in_set_takeD)
  with True show ?thesis by (simp add: fetch_str_errors)
next
  case False
  then have "take n (s @ 0 # rest) = s @ 0 # take (n - length s - 1) rest"
    by (cases "n - length s") auto
  with False assms show ?thesis by (simp add: fetch_str_Ok)
qed

lemma fetch_bytes_take:
  "k = length bs \<Longrightarrow> fetch_bytes k \<lparr> dec_addr = addr, dec_bytes = take n bs \<rparr> =
    (if n < k then Err UnexpectedEof
     else Ok (bs, \<lparr> dec_addr = addr + k, dec_bytes = [] \<rparr>))"
  by (simp add: fetch_bytes_def)

text \<open>Bytes behind what is fetched do not matter.\<close>

lemma fetch_append:
  "fetch_bytes n d = Ok (bs, d') \<Longrightarrow>
     fetch_bytes n (d\<lparr>dec_bytes := dec_bytes d @ ys\<rparr>) = Ok (bs, d'\<lparr>dec_bytes := dec_bytes d' @ ys\<rparr>)"
  "fetch X p d = Ok (x, d') \<Longrightarrow>
     fetch X p (d\<lparr>dec_bytes := dec_bytes d @ ys\<rparr>) = Ok (x, d'\<lparr>dec_bytes := dec_bytes d' @ ys\<rparr>)"
  "fetch_str d = Ok (s, d') \<Longrightarrow>
     fetch_str (d\<lparr>dec_bytes := dec_bytes d @ ys\<rparr>) = Ok (s, d'\<lparr>dec_bytes := dec_bytes d' @ ys\<rparr>)"
  by (auto simp: fetch_bytes_Ok fetch_str_Ok) (auto simp: fetch_def result_eqs fetch_bytes_Ok)

context plain_old_data
begin

lemma fetch_Ok:
  assumes "zerocopy_ok X"
  shows "fetch X p d = Ok (x, d') \<longleftrightarrow>
    pod_wf p x \<and> dec_addr d mod pod_align p = 0 \<and> dec_bytes d = pod_enc p x @ dec_bytes d' \<and>
    dec_addr d' = dec_addr d + pod_size p"
  using enc_length enc_dec dec_enc wf_dec assms
  by (auto simp: fetch_def result_eqs fetch_bytes_Ok try_ref_from_bytes_def cast_ok_iff)

lemma fetch_take:
  assumes "zerocopy_ok X" and "pod_wf p x" and "addr mod pod_align p = 0"
  shows "fetch X p \<lparr> dec_addr = addr, dec_bytes = take n (pod_enc p x @ rest) \<rparr> =
    (if n < pod_size p then Err UnexpectedEof
     else Ok (x, \<lparr> dec_addr = addr + pod_size p, dec_bytes = take (n - pod_size p) rest \<rparr>))"
  using assms
  by (auto simp: fetch_Ok fetch_errors enc_length)

lemma fetch_enc:
  assumes "zerocopy_ok X" and "pod_wf p x" and "addr mod pod_align p = 0"
  shows "fetch X p \<lparr> dec_addr = addr, dec_bytes = pod_enc p x @ rest \<rparr> =
    Ok (x, \<lparr> dec_addr = addr + pod_size p, dec_bytes = rest \<rparr>)"
  using assms by (simp add: fetch_Ok)

end

end
