(* ===== verification/Op.thy ===== *)
theory Op
  imports Header Decoder
begin

text \<open>
  The operations requested by the kernel (\<open>src/op.rs\<close>): one record per operation, the flags and
  enumerations in them, and the type \<open>Operation\<close>.
\<close>

section \<open>Flags and enumerations\<close>

type_synonym RenameFlags = u32
type_synonym OpenInFlags = u32
type_synonym OpenFlags = u32
type_synonym WriteInFlags = u32
type_synonym ReleaseFlags = u32
type_synonym SetxattrInFlags = u32
type_synonym FallocateFlags = u32
type_synonym XattrFlags = u32

definition FUSE_INT_REQ_BIT :: u64 where "FUSE_INT_REQ_BIT = 1"

definition RenameFlags_all :: RenameFlags where
  "RenameFlags_all = RENAME_EXCHANGE OR RENAME_NOREPLACE OR RENAME_WHITEOUT"

definition OpenInFlags_all :: OpenInFlags where
  "OpenInFlags_all = FUSE_OPEN_KILL_SUIDGID"

definition OpenFlags_all :: OpenFlags where
  "OpenFlags_all =
     O_CLOEXEC OR O_DIRECTORY OR O_NOFOLLOW OR O_TMPFILE OR O_TRUNC OR O_APPEND OR O_ASYNC OR
     O_DIRECT OR O_DSYNC OR O_LARGEFILE OR O_NOATIME OR O_NONBLOCK OR O_NDELAY OR O_PATH OR O_SYNC"

definition WriteInFlags_all :: WriteInFlags where
  "WriteInFlags_all = FUSE_WRITE_CACHE OR FUSE_WRITE_KILL_SUIDGID"

definition ReleaseFlags_all :: ReleaseFlags where
  "ReleaseFlags_all = FUSE_RELEASE_FLUSH OR FUSE_RELEASE_FLOCK_UNLOCK"

definition SetxattrInFlags_all :: SetxattrInFlags where
  "SetxattrInFlags_all = FUSE_SETXATTR_ACL_KILL_SGID"

definition FallocateFlags_all :: FallocateFlags where
  "FallocateFlags_all =
     FALLOC_FL_KEEP_SIZE OR FALLOC_FL_UNSHARE_RANGE OR FALLOC_FL_PUNCH_HOLE OR
     FALLOC_FL_COLLAPSE_RANGE OR FALLOC_FL_ZERO_RANGE OR FALLOC_FL_INSERT_RANGE"

datatype AccessMode = ReadOnly | WriteOnly | ReadWrite

fun AccessMode_into_raw :: "AccessMode \<Rightarrow> i32" where
  "AccessMode_into_raw ReadOnly = O_RDONLY"
| "AccessMode_into_raw WriteOnly = O_WRONLY"
| "AccessMode_into_raw ReadWrite = O_RDWR"

datatype OpenOptions = OpenOptions_from_raw (OpenOptions_raw: u32)

definition OpenOptions_access_mode :: "OpenOptions \<Rightarrow> AccessMode option" where
  "OpenOptions_access_mode self =
     (let m = OpenOptions_raw self AND O_ACCMODE in
      if m = O_RDONLY then Some ReadOnly
      else if m = O_WRONLY then Some WriteOnly
      else if m = O_RDWR then Some ReadWrite
      else None)"

definition OpenOptions_flags :: "extern \<Rightarrow> OpenOptions \<Rightarrow> OpenFlags" where
  "OpenOptions_flags X self = truncate32 X OpenFlags_all (OpenOptions_raw self)"

definition OpenOptions_set_flags :: "OpenFlags \<Rightarrow> OpenOptions \<Rightarrow> OpenOptions" where
  "OpenOptions_set_flags flags self =
     OpenOptions_from_raw ((OpenOptions_raw self AND NOT OpenFlags_all) OR flags)"

text \<open>The standard library's \<open>std::fs::OpenOptions\<close>, as far as the conversion sets it.\<close>

record std_open_options =
  std_read :: bool
  std_write :: bool
  std_custom_flags :: i32

definition OpenOptions_into_std :: "extern \<Rightarrow> OpenOptions \<Rightarrow> std_open_options" where
  "OpenOptions_into_std X src =
     \<lparr> std_read = (OpenOptions_access_mode src \<in> {Some ReadOnly, Some ReadWrite}),
       std_write = (OpenOptions_access_mode src \<in> {Some WriteOnly, Some ReadWrite}),
       std_custom_flags = OpenOptions_flags X src \<rparr>"

datatype ReaddirMode = ReaddirMode_Normal | ReaddirMode_Plus

datatype FlockOp =
    FlockOp_Shared | FlockOp_SharedNonblock | FlockOp_Exclusive | FlockOp_ExclusiveNonblock
  | FlockOp_Unlock

fun FlockOp_into_raw :: "FlockOp \<Rightarrow> i32" where
  "FlockOp_into_raw FlockOp_Shared = LOCK_SH"
| "FlockOp_into_raw FlockOp_SharedNonblock = LOCK_SH OR LOCK_NB"
| "FlockOp_into_raw FlockOp_Exclusive = LOCK_EX"
| "FlockOp_into_raw FlockOp_ExclusiveNonblock = LOCK_EX OR LOCK_NB"
| "FlockOp_into_raw FlockOp_Unlock = LOCK_UN"

datatype Whence = Whence_Set | Whence_Current | Whence_End | Whence_Data | Whence_Hole

datatype SetAttrTime = Timespec duration | Now

section \<open>Forgets\<close>

datatype Forget = Forget (Forget_raw: fuse_forget_one)

definition Forget_ino :: "Forget \<Rightarrow> ('e, NodeID) result" where
  "Forget_ino self = expect (ok_or (NodeID_from_raw (forget_one_nodeid (Forget_raw self))) ())"

definition Forget_nlookup :: "Forget \<Rightarrow> u64" where
  "Forget_nlookup self = forget_one_nlookup (Forget_raw self)"

datatype Forgets = Forgets_Single Forget | Forgets_Batch "Forget list"

fun Forgets_deref :: "Forgets \<Rightarrow> Forget list" where
  "Forgets_deref (Forgets_Single forget) = [forget]"
| "Forgets_deref (Forgets_Batch forgets) = forgets"

section \<open>Operations\<close>

record NotifyReply =
  NotifyReply_unique :: NotifyID
  NotifyReply_ino :: NodeID
  NotifyReply_offset :: u64
  NotifyReply_size :: u32

record Interrupt =
  Interrupt_unique :: RequestID

record Lookup =
  Lookup_parent :: NodeID
  Lookup_name :: bytes

record Getattr =
  Getattr_ino :: NodeID
  Getattr_fh :: "FileID option"

record Setattr =
  Setattr_ino :: NodeID
  Setattr_fh :: "FileID option"
  Setattr_mode :: "FileMode option"
  Setattr_uid :: "Uid option"
  Setattr_gid :: "Gid option"
  Setattr_size :: "u64 option"
  Setattr_atime :: "SetAttrTime option"
  Setattr_mtime :: "SetAttrTime option"
  Setattr_ctime :: "duration option"
  Setattr_lock_owner :: "LockOwnerID option"
  Setattr_kill_suidgid :: bool

record Readlink =
  Readlink_ino :: NodeID

record Symlink =
  Symlink_parent :: NodeID
  Symlink_name :: bytes
  Symlink_link :: bytes

record Mknod =
  Mknod_parent :: NodeID
  Mknod_name :: bytes
  Mknod_mode :: FileMode
  Mknod_rdev :: DeviceID
  Mknod_umask :: FilePermissions

record Mkdir =
  Mkdir_parent :: NodeID
  Mkdir_name :: bytes
  Mkdir_permissions :: FilePermissions
  Mkdir_umask :: FilePermissions

record Unlink =
  Unlink_parent :: NodeID
  Unlink_name :: bytes

record Rmdir =
  Rmdir_parent :: NodeID
  Rmdir_name :: bytes

record Rename =
  Rename_parent :: NodeID
  Rename_name :: bytes
  Rename_newparent :: NodeID
  Rename_newname :: bytes
  Rename_flags :: RenameFlags

record Link =
  Link_ino :: NodeID
  Link_newparent :: NodeID
  Link_newname :: bytes

record Open =
  Open_ino :: NodeID
  Open_options :: OpenOptions
  Open_flags :: OpenInFlags

record Read =
  Read_ino :: NodeID
  Read_fh :: FileID
  Read_offset :: u64
  Read_size :: u32
  Read_options :: OpenOptions
  Read_lock_owner :: "LockOwnerID option"

record Write =
  Write_ino :: NodeID
  Write_fh :: FileID
  Write_offset :: u64
  Write_size :: u32
  Write_options :: OpenOptions
  Write_lock_owner :: "LockOwnerID option"
  Write_flags :: WriteInFlags

record Release =
  Release_ino :: NodeID
  Release_fh :: FileID
  Release_options :: OpenOptions
  Release_lock_owner :: LockOwnerID
  Release_flags :: ReleaseFlags

record Statfs_op =
  Statfs_op_ino :: NodeID

record Fsync =
  Fsync_ino :: NodeID
  Fsync_fh :: FileID
  Fsync_datasync :: bool

record Setxattr =
  Setxattr_ino :: NodeID
  Setxattr_name :: bytes
  Setxattr_value :: bytes
  Setxattr_flags :: XattrFlags
  Setxattr_extra_flags :: SetxattrInFlags

record Getxattr =
  Getxattr_ino :: NodeID
  Getxattr_name :: bytes
  Getxattr_size :: u32

record Listxattr =
  Listxattr_ino :: NodeID
  Listxattr_size :: u32

record Removexattr =
  Removexattr_ino :: NodeID
  Removexattr_name :: bytes

record Flush =
  Flush_ino :: NodeID
  Flush_fh :: FileID
  Flush_lock_owner :: LockOwnerID

record Opendir =
  Opendir_ino :: NodeID
  Opendir_options :: OpenOptions

record Readdir =
  Readdir_ino :: NodeID
  Readdir_fh :: FileID
  Readdir_offset :: u64
  Readdir_size :: u32
  Readdir_mode :: ReaddirMode

record Releasedir =
  Releasedir_ino :: NodeID
  Releasedir_fh :: FileID
  Releasedir_options :: OpenOptions

record Fsyncdir =
  Fsyncdir_ino :: NodeID
  Fsyncdir_fh :: FileID
  Fsyncdir_datasync :: bool

record Getlk =
  Getlk_ino :: NodeID
  Getlk_fh :: FileID
  Getlk_owner :: LockOwnerID
  Getlk_file_lock :: FileLock

record Setlk =
  Setlk_ino :: NodeID
  Setlk_fh :: FileID
  Setlk_file_lock :: FileLock
  Setlk_sleep :: bool

record Flock =
  Flock_ino :: NodeID
  Flock_fh :: FileID
  Flock_owner :: LockOwnerID
  Flock_op :: FlockOp

record Access =
  Access_ino :: NodeID
  Access_mask :: FilePermissions

record Create =
  Create_parent :: NodeID
  Create_name :: bytes
  Create_mode :: FileMode
  Create_umask :: FilePermissions
  Create_open_options :: OpenOptions

record Bmap =
  Bmap_ino :: NodeID
  Bmap_block :: u64
  Bmap_blocksize :: u32

record Fallocate =
  Fallocate_ino :: NodeID
  Fallocate_fh :: FileID
  Fallocate_offset :: u64
  Fallocate_length :: u64
  Fallocate_mode :: FallocateFlags

record CopyFileRange =
  CopyFileRange_ino_in :: NodeID
  CopyFileRange_fh_in :: FileID
  CopyFileRange_offset_in :: u64
  CopyFileRange_ino_out :: NodeID
  CopyFileRange_fh_out :: FileID
  CopyFileRange_offset_out :: u64
  CopyFileRange_length :: u64
  CopyFileRange_flags :: u64

record Poll =
  Poll_ino :: NodeID
  Poll_fh :: FileID
  Poll_events :: PollEvents
  Poll_kh :: "PollWakeupID option"

record Lseek =
  Lseek_ino :: NodeID
  Lseek_fh :: FileID
  Lseek_offset :: u64
  Lseek_whence :: Whence

datatype Operation =
    Lookup Lookup | Getattr Getattr | Setattr Setattr | Readlink Readlink | Symlink Symlink
  | Mknod Mknod | Mkdir Mkdir | Unlink Unlink | Rmdir Rmdir | Rename Rename | Link Link
  | Open Open | Read Read | Write Write | Release Release | Statfs Statfs_op | Fsync Fsync
  | Setxattr Setxattr | Getxattr Getxattr | Listxattr Listxattr | Removexattr Removexattr
  | Flush Flush | Opendir Opendir | Readdir Readdir | Releasedir Releasedir | Fsyncdir Fsyncdir
  | Getlk Getlk | Setlk Setlk | Flock Flock | Access Access | Create Create | Bmap Bmap
  | Fallocate Fallocate | CopyFileRange CopyFileRange | Poll Poll | Lseek Lseek
  | Forget_op Forgets | Interrupt Interrupt | NotifyReply NotifyReply
  | Unsupported

section \<open>Lemmas\<close>

lemma AccessMode_roundtrip:
  "OpenOptions_access_mode (OpenOptions_from_raw (AccessMode_into_raw m)) = Some m"
  by (cases m) (simp_all add: OpenOptions_access_mode_def libc_const)

lemma OpenFlags_O_ACCMODE: "OpenFlags_all AND O_ACCMODE = 0"
  by (simp add: OpenFlags_all_def libc_const)

lemma Forget_ino_Ok: "Forget_ino f = Ok n \<longleftrightarrow> forget_one_nodeid (Forget_raw f) = NodeID_into_raw n"
  by (simp add: Forget_ino_def expect_eq ok_or_eq NodeID_from_raw_Some)

end
