(* ===== verification/Fs.thy ===== *)
theory Fs
  imports Op "HOL-Library.Mapping"
begin

text \<open>
  What the filesystems under \<open>examples_disabled\<close> have in common. They implement a trait
  \<open>Filesystem\<close> of an earlier version of the library, which is not part of the repository: the value
  that a handler passes to \<open>req.reply\<close> is a term of the datatype \<open>fs_reply\<close>, and \<open>req.reply\<close>
  itself and the buffer of directory entries are parameters. The crates \<open>dashmap\<close> and \<open>slab\<close>
  are modelled as their documentation describes them.
\<close>

section \<open>Replies\<close>

record EntryOut =
  EntryOut_ino :: "NodeID option"
  EntryOut_attr :: FileAttr
  EntryOut_generation :: u64
  EntryOut_entry_valid :: "duration option"
  EntryOut_attr_valid :: "duration option"

record AttrOut =
  AttrOut_attr :: FileAttr
  AttrOut_valid :: "duration option"

record OpenOut =
  OpenOut_fh :: FileID
  OpenOut_open_flags :: u32
  OpenOut_backing_id :: i32

text \<open>\<open>'b\<close> is the type \<open>ReaddirOut\<close>.\<close>

datatype 'b fs_reply =
    Reply_EntryOut EntryOut
  | Reply_AttrOut AttrOut
  | Reply_OpenOut OpenOut
  | Reply_ReaddirOut 'b
  | Reply_WriteOut u32
  | Reply_XattrOut u32
  | Reply_StatfsOut Statfs
  | Reply_Raw bytes
  | Reply_Unit

type_synonym ('b, 'r) req_reply = "'b fs_reply \<Rightarrow> (io_error, 'r) result"

record 'b ReaddirOut =
  ReaddirOut_new :: "nat \<Rightarrow> 'b"
  ReaddirOut_push_entry :: "'b \<Rightarrow> bytes \<Rightarrow> NodeID \<Rightarrow> FileType option \<Rightarrow> u64 \<Rightarrow> bool \<times> 'b"

text \<open>A buffer that is always full.\<close>

definition no_readdir :: "unit ReaddirOut" where
  "no_readdir = \<lparr> ReaddirOut_new = (\<lambda>_. ()), ReaddirOut_push_entry = (\<lambda>_ _ _ _ _. (True, ())) \<rparr>"

section \<open>Handlers\<close>

text \<open>
  A handler on a state \<open>'s\<close>: \<open>None\<close> means that the thread blocks forever on a lock that it holds
  itself. \<open>or_err\<close> is \<open>ok_or(errno)?\<close> in a handler.
\<close>

type_synonym ('s, 'r) handled = "((io_error, 'r) result \<times> 's) option"

definition or_err :: "'a option \<Rightarrow> i32 \<Rightarrow> 's \<Rightarrow> ('a \<Rightarrow> ('s, 'r) handled) \<Rightarrow> ('s, 'r) handled" where
  "or_err v errno self f =
     (case v of None \<Rightarrow> Some (Err (OsError errno), self) | Some x \<Rightarrow> f x)"

text \<open>\<open>+=\<close> and \<open>-=\<close> on an unsigned integer, \<open>None\<close> being the panic of a build with overflow checks.\<close>

definition add_assign :: "extern \<Rightarrow> 'a::len word \<Rightarrow> 'a word \<Rightarrow> 'a word option" where
  "add_assign X a b =
     (if overflow_checks X \<and> \<not> unat a + unat b < 2 ^ LENGTH('a) then None else Some (a + b))"

definition sub_assign :: "extern \<Rightarrow> 'a::len word \<Rightarrow> 'a word \<Rightarrow> 'a word option" where
  "sub_assign X a b = (if overflow_checks X \<and> \<not> b \<le> a then None else Some (a - b))"

definition or_panic :: "'a option \<Rightarrow> 's \<Rightarrow> ('a \<Rightarrow> ('s, 'r) handled) \<Rightarrow> ('s, 'r) handled" where
  "or_panic v self f = (case v of None \<Rightarrow> Some (Panic, self) | Some x \<Rightarrow> f x)"

definition saturating_sub :: "'a::len word \<Rightarrow> 'a word \<Rightarrow> 'a word" where
  "saturating_sub a b = (if b \<le> a then a - b else 0)"

section \<open>Locks of a concurrent map\<close>

text \<open>
  A \<open>DashMap\<close> is split into shards by the hash of the key, with a lock for readers and writers
  per shard. A reference or an entry holds the lock of its shard, so that asking for another one
  blocks forever when it is in the same shard, unless both are for reading.
\<close>

type_synonym shards = "NodeID \<Rightarrow> nat"

datatype guard = ReadGuard NodeID | WriteGuard NodeID

fun blocks_write :: "shards \<Rightarrow> NodeID \<Rightarrow> guard \<Rightarrow> bool" where
  "blocks_write shard key (ReadGuard held) \<longleftrightarrow> shard held = shard key"
| "blocks_write shard key (WriteGuard held) \<longleftrightarrow> shard held = shard key"

definition lock_write :: "shards \<Rightarrow> guard list \<Rightarrow> NodeID \<Rightarrow> 'x option \<Rightarrow> 'x option" where
  "lock_write shard held key r = (if list_ex (blocks_write shard key) held then None else r)"

section \<open>Constants\<close>

definition XATTR_CREATE :: u32 where [libc_const]: "XATTR_CREATE = 1"
definition XATTR_REPLACE :: u32 where [libc_const]: "XATTR_REPLACE = 2"

section \<open>Lemmas\<close>

lemma lookup_mapping [simp]:
  "Mapping.lookup (Mapping.update k v m) = (Mapping.lookup m)(k \<mapsto> v)"
  "Mapping.lookup (Mapping.delete k m) = (Mapping.lookup m)(k := None)"
  "Mapping.lookup Mapping.empty = Map.empty"
  by (transfer; simp)+

named_theorems handler "outcomes of handlers"

lemma or_err_simps [simp]:
  "or_err None e s f = Some (Err (OsError e), s)"
  "or_err (Some x) e s f = f x"
  by (simp_all add: or_err_def)

lemma or_panic_simps [simp]:
  "or_panic None s f = Some (Panic, s)"
  "or_panic (Some x) s f = f x"
  by (simp_all add: or_panic_def)

lemma or_err_eq [handler]:
  "or_err v e s f = Some (r, s') \<longleftrightarrow>
     (v = None \<and> r = Err (OsError e) \<and> s' = s) \<or> (\<exists>x. v = Some x \<and> f x = Some (r, s'))"
  by (cases v) auto

lemma or_panic_eq [handler]:
  "or_panic v s f = Some (r, s') \<longleftrightarrow>
     (v = None \<and> r = Panic \<and> s' = s) \<or> (\<exists>x. v = Some x \<and> f x = Some (r, s'))"
  by (cases v) auto

lemma lock_write_eq [handler]:
  "lock_write shard held key r = Some x \<longleftrightarrow> \<not> list_ex (blocks_write shard key) held \<and> r = Some x"
  by (simp add: lock_write_def)

lemma add_assign_Some:
  "unat a + unat b < 2 ^ LENGTH('a) \<Longrightarrow> add_assign X a b = Some (a + b)" for a b :: "'a::len word"
  by (simp add: add_assign_def)

lemma add_assign_SomeD: "add_assign X a b = Some c \<Longrightarrow> c = a + b"
  by (simp add: add_assign_def split: if_splits)

lemma unat_add_1:
  fixes a :: "'a::len word"
  shows "unat a + 1 < 2 ^ LENGTH('a) \<Longrightarrow> unat (a + 1) = unat a + 1"
  by (simp add: unat_word_ariths)

lemma unat_saturating_sub: "unat (saturating_sub a b) = unat a - unat b"
  by (simp add: saturating_sub_def unat_sub word_le_nat_alt)

end
