(* ===== verification/Memfs.thy ===== *)
theory Memfs
  imports Fs
begin

text \<open>
  The in-memory filesystem \<open>examples_disabled/memfs.rs\<close>: a table of inodes with directories as
  maps from names to inode numbers, extended attributes, and file contents. A node stays in the
  table as long as a directory or the kernel refers to it. Handlers run one after the other; one
  that waits for a lock of its own does not return.
\<close>

section \<open>Inodes\<close>

record mem_Directory =
  dir_children :: "(bytes, NodeID) mapping"
  dir_parent :: "NodeID option"

datatype INodeKind =
    INodeKind_RegularFile bytes
  | INodeKind_Directory mem_Directory
  | INodeKind_Symlink bytes

record mem_INode =
  inode_attr :: FileAttr
  inode_xattrs :: "(bytes, bytes) mapping"
  inode_refcount :: u64
  inode_links :: u64
  inode_kind :: INodeKind

record mem_INodeTable =
  tbl_map :: "(NodeID, mem_INode) mapping"
  tbl_next_ino :: u64

definition mem_INodeTable_new :: mem_INodeTable where
  "mem_INodeTable_new = \<lparr> tbl_map = Mapping.empty, tbl_next_ino = 1 \<rparr>"

definition as_file :: "mem_INode \<Rightarrow> bytes option" where
  "as_file self = (case inode_kind self of INodeKind_RegularFile contents \<Rightarrow> Some contents | _ \<Rightarrow> None)"

definition as_dir :: "mem_INode \<Rightarrow> mem_Directory option" where
  "as_dir self = (case inode_kind self of INodeKind_Directory dir \<Rightarrow> Some dir | _ \<Rightarrow> None)"

definition as_symlink :: "mem_INode \<Rightarrow> bytes option" where
  "as_symlink self = (case inode_kind self of INodeKind_Symlink link \<Rightarrow> Some link | _ \<Rightarrow> None)"

section \<open>The state\<close>

record mem_DirEntry =
  mde_name :: bytes
  mde_ino :: NodeID
  mde_typ :: "FileType option"
  mde_off :: u64

record mem_DirHandle =
  mdh_entries :: "mem_DirEntry list"
  mdh_offset :: nat

record MemFS =
  mem_inodes :: mem_INodeTable
  mem_dir_handles :: "(nat, mem_DirHandle) mapping"
  mem_poisoned :: bool
  mem_ttl :: duration

abbreviation inode_at :: "MemFS \<Rightarrow> NodeID \<Rightarrow> mem_INode option" where
  "inode_at self ino \<equiv> Mapping.lookup (tbl_map (mem_inodes self)) ino"

definition set_inode :: "NodeID \<Rightarrow> mem_INode \<Rightarrow> MemFS \<Rightarrow> MemFS" where
  "set_inode ino inode self =
     self\<lparr> mem_inodes := mem_inodes self\<lparr> tbl_map := Mapping.update ino inode (tbl_map (mem_inodes self)) \<rparr> \<rparr>"

definition remove_inode :: "NodeID \<Rightarrow> MemFS \<Rightarrow> MemFS" where
  "remove_inode ino self =
     self\<lparr> mem_inodes := mem_inodes self\<lparr> tbl_map := Mapping.delete ino (tbl_map (mem_inodes self)) \<rparr> \<rparr>"

text \<open>Replacing the children of a directory node.\<close>

definition set_children :: "mem_Directory \<Rightarrow> (bytes, NodeID) mapping \<Rightarrow> mem_INode \<Rightarrow> mem_INode" where
  "set_children dir children inode = inode\<lparr> inode_kind := INodeKind_Directory (dir\<lparr> dir_children := children \<rparr>) \<rparr>"

text \<open>
  \<open>vacant_entry\<close>: the counter is advanced in any case. The entry holds a lock for writing, which
  the caller may already hold; \<open>None\<close> inside the result is a number that is taken.
\<close>

definition vacant_entry ::
    "shards \<Rightarrow> guard list \<Rightarrow> MemFS \<Rightarrow> ((io_error, NodeID option) result \<times> MemFS) option" where
  "vacant_entry shard held self =
     (let ino = tbl_next_ino (mem_inodes self);
          self = self\<lparr> mem_inodes := mem_inodes self\<lparr> tbl_next_ino := ino + 1 \<rparr> \<rparr>
      in or_panic (NodeID_from_raw ino) self (\<lambda>ino.
         lock_write shard held ino
           (Some (Ok (if inode_at self ino = None then Some ino else None), self))))"

text \<open>
  The entries of a directory, given its children in the order in which the hash map iterates over
  them.
\<close>

fun collect_children :: "u64 \<Rightarrow> (bytes \<times> NodeID) list \<Rightarrow> mem_DirEntry list" where
  "collect_children offset [] = []"
| "collect_children offset ((name, ino) # rest) =
     \<lparr> mde_name = name, mde_ino = ino, mde_typ = None, mde_off = offset \<rparr> #
     collect_children (offset + 1) rest"

definition collect_entries :: "mem_Directory \<Rightarrow> (bytes \<times> NodeID) list \<Rightarrow> FileAttr \<Rightarrow> mem_DirEntry list" where
  "collect_entries self children attr =
     \<lparr> mde_name = [46], mde_ino = FileAttr_ino attr, mde_typ = Some Directory, mde_off = 1 \<rparr> #
     \<lparr> mde_name = [46, 46],
       mde_ino = (case dir_parent self of None \<Rightarrow> FileAttr_ino attr | Some parent \<Rightarrow> parent),
       mde_typ = Some Directory, mde_off = 2 \<rparr> #
     collect_children 3 children"

section \<open>Creating and removing nodes\<close>

definition mem_root :: mem_INode where
  "mem_root =
     \<lparr> inode_attr = FileAttr_new
         \<lparr> FileAttr_ino := NodeID_ROOT, FileAttr_nlink := 2,
           FileAttr_mode := FileMode_new Directory (FilePermissions_READ OR FilePermissions_EXEC OR S_IWUSR) \<rparr>,
       inode_xattrs = Mapping.empty, inode_refcount = (- 1) div 2, inode_links = (- 1) div 2,
       inode_kind = INodeKind_Directory \<lparr> dir_children = Mapping.empty, dir_parent = None \<rparr> \<rparr>"

definition MemFS_empty :: MemFS where
  "MemFS_empty =
     \<lparr> mem_inodes = mem_INodeTable_new, mem_dir_handles = Mapping.empty, mem_poisoned = False,
       mem_ttl = \<lparr> as_secs = 60 * 60 * 24, subsec_nanos = 0 \<rparr> \<rparr>"

definition MemFS_new :: "shards \<Rightarrow> ((io_error, unit) result \<times> MemFS) option" where
  "MemFS_new shard =
     (case vacant_entry shard [] MemFS_empty of
        Some (Ok (Some ino), self) \<Rightarrow> Some (Ok (), set_inode ino mem_root self)
      | Some (Ok None, self) \<Rightarrow> Some (Panic, self)
      | Some (Err e, self) \<Rightarrow> Some (Err e, self)
      | Some (Panic, self) \<Rightarrow> Some (Panic, self)
      | None \<Rightarrow> None)"

text \<open>\<open>make_node\<close>: the new entry of the directory is written before the node itself.\<close>

definition make_node ::
    "shards \<Rightarrow> NodeID \<Rightarrow> bytes \<Rightarrow> (NodeID \<Rightarrow> mem_INode) \<Rightarrow> MemFS \<Rightarrow> (MemFS, EntryOut) handled" where
  "make_node shard parent name f self =
     or_err (inode_at self parent) ENOENT self (\<lambda>pnode.
     or_err (as_dir pnode) ENOTDIR self (\<lambda>dir.
     if Mapping.lookup (dir_children dir) name \<noteq> None then Some (Err (OsError EEXIST), self)
     else
       case vacant_entry shard [WriteGuard parent] self of
         Some (Ok (Some ino), self) \<Rightarrow>
           let inode = f ino;
               out = \<lparr> EntryOut_ino = Some ino, EntryOut_attr = inode_attr inode, EntryOut_generation = 0,
                       EntryOut_entry_valid = Some (mem_ttl self), EntryOut_attr_valid = None \<rparr>;
               self = set_inode parent (set_children dir (Mapping.update name ino (dir_children dir)) pnode) self
           in Some (Ok out, set_inode ino inode self)
       | Some (Ok None, self) \<Rightarrow> Some (Panic, self)
       | Some (Err e, self) \<Rightarrow> Some (Err e, self)
       | Some (Panic, self) \<Rightarrow> Some (Panic, self)
       | None \<Rightarrow> None))"

definition unlink_node ::
    "shards \<Rightarrow> NodeID \<Rightarrow> bytes \<Rightarrow> MemFS \<Rightarrow> (MemFS, unit) handled" where
  "unlink_node shard parent name self =
     or_err (inode_at self parent) ENOENT self (\<lambda>pnode.
     or_err (as_dir pnode) ENOTDIR self (\<lambda>dir.
     or_err (Mapping.lookup (dir_children dir) name) ENOENT self (\<lambda>ino.
     lock_write shard [WriteGuard parent] ino (
     or_panic (inode_at self ino) self (\<lambda>inode.
     if (case as_dir inode of Some d \<Rightarrow> \<not> Mapping.is_empty (dir_children d) | None \<Rightarrow> False)
     then Some (Err (OsError ENOTEMPTY), self)
     else
       let self = set_inode parent (set_children dir (Mapping.delete name (dir_children dir)) pnode) self;
           inode = inode
             \<lparr> inode_links := saturating_sub (inode_links inode) 1,
               inode_attr := (inode_attr inode)
                 \<lparr> FileAttr_nlink := saturating_sub (FileAttr_nlink (inode_attr inode)) 1 \<rparr> \<rparr>
       in Some (Ok (), set_inode ino inode self))))))"

section \<open>Handlers\<close>

definition mem_lookup ::
    "extern \<Rightarrow> shards \<Rightarrow> ('b, 'r) req_reply \<Rightarrow> MemFS \<Rightarrow> Lookup \<Rightarrow> (MemFS, 'r) handled" where
  "mem_lookup X shard reply self op =
     or_err (inode_at self (Lookup_parent op)) ENOENT self (\<lambda>pnode.
     or_err (as_dir pnode) ENOTDIR self (\<lambda>dir.
     or_err (Mapping.lookup (dir_children dir) (Lookup_name op)) ENOENT self (\<lambda>child_ino.
     lock_write shard [ReadGuard (Lookup_parent op)] child_ino (
     or_panic (inode_at self child_ino) self (\<lambda>child.
     or_panic (add_assign X (inode_refcount child) 1) self (\<lambda>refcount.
     Some (reply (Reply_EntryOut
             \<lparr> EntryOut_ino = Some child_ino, EntryOut_attr = inode_attr child, EntryOut_generation = 0,
               EntryOut_entry_valid = Some (mem_ttl self), EntryOut_attr_valid = Some (mem_ttl self) \<rparr>),
           set_inode child_ino (child\<lparr> inode_refcount := refcount \<rparr>) self)))))))"

text \<open>\<open>forget\<close>: the entry of the map is locked anew for every element.\<close>

definition mem_forget_one :: "NodeID \<Rightarrow> u64 \<Rightarrow> MemFS \<Rightarrow> MemFS" where
  "mem_forget_one ino nlookup self =
     (case inode_at self ino of
        None \<Rightarrow> self
      | Some inode \<Rightarrow>
          let inode = inode\<lparr> inode_refcount := saturating_sub (inode_refcount inode) nlookup \<rparr> in
          if inode_refcount inode = 0 \<and> inode_links inode = 0 then remove_inode ino self
          else set_inode ino inode self)"

fun mem_forget :: "MemFS \<Rightarrow> Forget list \<Rightarrow> (io_error, unit) result \<times> MemFS" where
  "mem_forget self [] = (Ok (), self)"
| "mem_forget self (forget # forgets) =
     (case Forget_ino forget of
        Ok ino \<Rightarrow> mem_forget (mem_forget_one ino (Forget_nlookup forget) self) forgets
      | Err e \<Rightarrow> (Err e, self)
      | Panic \<Rightarrow> (Panic, self))"

definition mem_getattr :: "('b, 'r) req_reply \<Rightarrow> MemFS \<Rightarrow> Getattr \<Rightarrow> (MemFS, 'r) handled" where
  "mem_getattr reply self op =
     or_err (inode_at self (Getattr_ino op)) ENOENT self (\<lambda>inode.
     Some (reply (Reply_AttrOut \<lparr> AttrOut_attr = inode_attr inode, AttrOut_valid = Some (mem_ttl self) \<rparr>), self))"

text \<open>
  \<open>now\<close> is the time since the epoch, or \<open>None\<close> when the clock is set to an earlier time. The
  attributes are assigned one after the other, so that a panic leaves the earlier ones changed.
\<close>

fun to_duration :: "duration option \<Rightarrow> SetAttrTime \<Rightarrow> duration option" where
  "to_duration now (Timespec ts) = Some ts"
| "to_duration now Now = now"

definition set_attr :: "NodeID \<Rightarrow> mem_INode \<Rightarrow> FileAttr \<Rightarrow> MemFS \<Rightarrow> MemFS" where
  "set_attr ino inode attr self = set_inode ino (inode\<lparr> inode_attr := attr \<rparr>) self"

definition assign :: "'v option \<Rightarrow> ('v \<Rightarrow> FileAttr \<Rightarrow> FileAttr) \<Rightarrow> FileAttr \<Rightarrow> FileAttr" where
  "assign v f attr = (case v of Some x \<Rightarrow> f x attr | None \<Rightarrow> attr)"

definition assign_time ::
    "duration option \<Rightarrow> SetAttrTime option \<Rightarrow> (duration \<Rightarrow> FileAttr \<Rightarrow> FileAttr) \<Rightarrow> FileAttr \<Rightarrow> FileAttr option" where
  "assign_time now v f attr =
     (case v of Some t \<Rightarrow> map_option (\<lambda>d. f d attr) (to_duration now t) | None \<Rightarrow> Some attr)"

definition mem_setattr ::
    "duration option \<Rightarrow> ('b, 'r) req_reply \<Rightarrow> MemFS \<Rightarrow> Setattr \<Rightarrow> (MemFS, 'r) handled" where
  "mem_setattr now reply self op =
     or_err (inode_at self (Setattr_ino op)) ENOENT self (\<lambda>inode.
     let attr = inode_attr inode;
         attr = assign (Setattr_mode op) (\<lambda>mode attr. attr\<lparr> FileAttr_mode := mode \<rparr>) attr;
         attr = assign (Setattr_uid op) (\<lambda>uid attr. attr\<lparr> FileAttr_uid := uid \<rparr>) attr;
         attr = assign (Setattr_gid op) (\<lambda>gid attr. attr\<lparr> FileAttr_gid := gid \<rparr>) attr;
         attr = assign (Setattr_size op) (\<lambda>sz attr. attr\<lparr> FileAttr_size := sz \<rparr>) attr
     in or_panic (assign_time now (Setattr_atime op) (\<lambda>t attr. attr\<lparr> FileAttr_atime := t \<rparr>) attr)
          (set_attr (Setattr_ino op) inode attr self) (\<lambda>attr.
        or_panic (assign_time now (Setattr_mtime op) (\<lambda>t attr. attr\<lparr> FileAttr_mtime := t \<rparr>) attr)
          (set_attr (Setattr_ino op) inode attr self) (\<lambda>attr.
        let attr = assign (Setattr_ctime op) (\<lambda>t attr. attr\<lparr> FileAttr_ctime := t \<rparr>) attr
        in Some (reply (Reply_AttrOut \<lparr> AttrOut_attr = attr, AttrOut_valid = Some (mem_ttl self) \<rparr>),
                 set_attr (Setattr_ino op) inode attr self))))"

definition mem_readlink :: "('b, 'r) req_reply \<Rightarrow> MemFS \<Rightarrow> Readlink \<Rightarrow> (MemFS, 'r) handled" where
  "mem_readlink reply self op =
     or_err (inode_at self (Readlink_ino op)) ENOENT self (\<lambda>inode.
     or_err (as_symlink inode) EINVAL self (\<lambda>link.
     Some (reply (Reply_Raw link), self)))"

text \<open>
  \<open>self.dir_handles.lock().unwrap()\<close>: the guard lives until the end of the function. A panic while it
  is held poisons the mutex, and locking a mutex that is poisoned panics.
\<close>

definition lock_dir_handles :: "MemFS \<Rightarrow> (MemFS, 'r) handled \<Rightarrow> (MemFS, 'r) handled" where
  "lock_dir_handles self body =
     (if mem_poisoned self then Some (Panic, self)
      else
        case body of
          Some (Panic, self) \<Rightarrow> Some (Panic, self\<lparr> mem_poisoned := True \<rparr>)
        | _ \<Rightarrow> body)"

text \<open>\<open>key\<close> is the key that \<open>Slab::insert\<close> chooses, \<open>children\<close> the order of the hash map.\<close>

definition mem_opendir ::
    "nat \<Rightarrow> (bytes \<times> NodeID) list \<Rightarrow> ('b, 'r) req_reply \<Rightarrow> MemFS \<Rightarrow> Opendir \<Rightarrow> (MemFS, 'r) handled" where
  "mem_opendir key children reply self op =
     or_err (inode_at self (Opendir_ino op)) ENOENT self (\<lambda>inode.
     if FileAttr_nlink (inode_attr inode) = 0 then Some (Err (OsError ENOENT), self)
     else
     or_err (as_dir inode) ENOTDIR self (\<lambda>dir.
     lock_dir_handles self (
     let handle = \<lparr> mdh_entries = collect_entries dir children (inode_attr inode), mdh_offset = 0 \<rparr>
     in Some (reply (Reply_OpenOut
                \<lparr> OpenOut_fh = FileID (of_nat key), OpenOut_open_flags = 0, OpenOut_backing_id = 0 \<rparr>),
              self\<lparr> mem_dir_handles := Mapping.update key handle (mem_dir_handles self) \<rparr>))))"

text \<open>The loop of \<open>readdir\<close>: the buffer and the number of entries that were pushed.\<close>

fun push_entries_until_full ::
    "'b ReaddirOut \<Rightarrow> mem_DirEntry list \<Rightarrow> 'b \<Rightarrow> nat \<Rightarrow> 'b \<times> nat" where
  "push_entries_until_full R [] buf offset = (buf, offset)"
| "push_entries_until_full R (entry # entries) buf offset =
     (let (full, buf) = ReaddirOut_push_entry R buf (mde_name entry) (mde_ino entry) (mde_typ entry) (mde_off entry)
      in if full then (buf, offset) else push_entries_until_full R entries buf (offset + 1))"

definition mem_readdir ::
    "'b ReaddirOut \<Rightarrow> ('b, 'r) req_reply \<Rightarrow> MemFS \<Rightarrow> Readdir \<Rightarrow> (MemFS, 'r) handled" where
  "mem_readdir R reply self op =
     (if Readdir_mode op = ReaddirMode_Plus then Some (Err (OsError ENOSYS), self)
      else
        lock_dir_handles self (
        let key = unat (FileID_into_raw (Readdir_fh op)) in
        or_err (Mapping.lookup (mem_dir_handles self) key) EINVAL self (\<lambda>dir.
        let (buf, offset) =
              push_entries_until_full R (drop (unat (Readdir_offset op)) (mdh_entries dir))
                (ReaddirOut_new R (unat (Readdir_size op))) (mdh_offset dir)
        in Some (reply (Reply_ReaddirOut buf),
                 self\<lparr> mem_dir_handles :=
                   Mapping.update key (dir\<lparr> mdh_offset := offset \<rparr>) (mem_dir_handles self) \<rparr>))))"

text \<open>\<open>Slab::remove\<close> panics on a key that is not in use.\<close>

definition mem_releasedir :: "('b, 'r) req_reply \<Rightarrow> MemFS \<Rightarrow> Releasedir \<Rightarrow> (MemFS, 'r) handled" where
  "mem_releasedir reply self op =
     lock_dir_handles self (
     let key = unat (FileID_into_raw (Releasedir_fh op)) in
     or_panic (Mapping.lookup (mem_dir_handles self) key) self (\<lambda>_.
     Some (reply Reply_Unit, self\<lparr> mem_dir_handles := Mapping.delete key (mem_dir_handles self) \<rparr>)))"

text \<open>\<open>let out = \<dots>?; req.reply(\<dots>)\<close> after a call that changes the state.\<close>

definition then_reply ::
    "(MemFS, 'a) handled \<Rightarrow> ('a \<Rightarrow> (io_error, 'r) result) \<Rightarrow> (MemFS, 'r) handled" where
  "then_reply h reply = map_option (\<lambda>(r, self). (and_then r reply, self)) h"

definition mem_mknod ::
    "shards \<Rightarrow> ('b, 'r) req_reply \<Rightarrow> MemFS \<Rightarrow> Mknod \<Rightarrow> (MemFS, 'r) handled" where
  "mem_mknod shard reply self op =
     (if FileMode_file_type (Mknod_mode op) \<noteq> Some Regular then Some (Err (OsError EOPNOTSUPP), self)
      else
        then_reply
          (make_node shard (Mknod_parent op) (Mknod_name op) (\<lambda>ino.
             \<lparr> inode_attr = FileAttr_new
                 \<lparr> FileAttr_ino := ino, FileAttr_nlink := 1, FileAttr_mode := Mknod_mode op \<rparr>,
               inode_xattrs = Mapping.empty, inode_refcount = 1, inode_links = 1,
               inode_kind = INodeKind_RegularFile [] \<rparr>) self)
          (\<lambda>out. reply (Reply_EntryOut out)))"

definition mem_mkdir ::
    "shards \<Rightarrow> ('b, 'r) req_reply \<Rightarrow> MemFS \<Rightarrow> Mkdir \<Rightarrow> (MemFS, 'r) handled" where
  "mem_mkdir shard reply self op =
     then_reply
       (make_node shard (Mkdir_parent op) (Mkdir_name op) (\<lambda>ino.
          \<lparr> inode_attr = FileAttr_new
              \<lparr> FileAttr_ino := ino, FileAttr_nlink := 2,
                FileAttr_mode := FileMode_new Directory (Mkdir_permissions op) \<rparr>,
            inode_xattrs = Mapping.empty, inode_refcount = 1, inode_links = 1,
            inode_kind = INodeKind_Directory
              \<lparr> dir_children = Mapping.empty, dir_parent = Some (Mkdir_parent op) \<rparr> \<rparr>) self)
       (\<lambda>out. reply (Reply_EntryOut out))"

definition mem_symlink ::
    "shards \<Rightarrow> ('b, 'r) req_reply \<Rightarrow> MemFS \<Rightarrow> Symlink \<Rightarrow> (MemFS, 'r) handled" where
  "mem_symlink shard reply self op =
     then_reply
       (make_node shard (Symlink_parent op) (Symlink_name op) (\<lambda>ino.
          \<lparr> inode_attr = FileAttr_new
              \<lparr> FileAttr_ino := ino, FileAttr_nlink := 1,
                FileAttr_mode := FileMode_new SymbolicLink
                  (FilePermissions_READ OR FilePermissions_WRITE OR FilePermissions_EXEC) \<rparr>,
            inode_xattrs = Mapping.empty, inode_refcount = 1, inode_links = 1,
            inode_kind = INodeKind_Symlink (Symlink_link op) \<rparr>) self)
       (\<lambda>out. reply (Reply_EntryOut out))"

text \<open>
  The three counters are incremented after the new entry was inserted; each may panic on its own.
  \<open>debug\<close> says whether \<open>debug_assert!\<close> is compiled in.
\<close>

definition mem_link ::
    "extern \<Rightarrow> bool \<Rightarrow> shards \<Rightarrow> ('b, 'r) req_reply \<Rightarrow> MemFS \<Rightarrow> Link \<Rightarrow> (MemFS, 'r) handled" where
  "mem_link X debug shard reply self op =
     or_err (inode_at self (Link_ino op)) ENOENT self (\<lambda>inode.
     if debug \<and> Link_ino op = Link_newparent op then Some (Panic, self)
     else
     lock_write shard [WriteGuard (Link_ino op)] (Link_newparent op) (
     or_err (inode_at self (Link_newparent op)) ENOENT self (\<lambda>pnode.
     or_err (as_dir pnode) ENOTDIR self (\<lambda>dir.
     if Mapping.lookup (dir_children dir) (Link_newname op) \<noteq> None then Some (Err (OsError EEXIST), self)
     else
       let self = set_inode (Link_newparent op)
             (set_children dir (Mapping.update (Link_newname op) (Link_ino op) (dir_children dir)) pnode) self
       in or_panic (add_assign X (inode_links inode) 1) self (\<lambda>links.
          let inode = inode\<lparr> inode_links := links \<rparr>; self = set_inode (Link_ino op) inode self
          in or_panic (add_assign X (FileAttr_nlink (inode_attr inode)) 1) self (\<lambda>nlink.
          let inode = inode\<lparr> inode_attr := (inode_attr inode)\<lparr> FileAttr_nlink := nlink \<rparr> \<rparr>;
              self = set_inode (Link_ino op) inode self
          in or_panic (add_assign X (inode_refcount inode) 1) self (\<lambda>refcount.
          let inode = inode\<lparr> inode_refcount := refcount \<rparr> in
          Some (reply (Reply_EntryOut
                  \<lparr> EntryOut_ino = Some (Link_ino op), EntryOut_attr = inode_attr inode,
                    EntryOut_generation = 0, EntryOut_entry_valid = Some (mem_ttl self),
                    EntryOut_attr_valid = None \<rparr>),
                set_inode (Link_ino op) inode self))))))))"

definition mem_unlink ::
    "shards \<Rightarrow> ('b, 'r) req_reply \<Rightarrow> MemFS \<Rightarrow> Unlink \<Rightarrow> (MemFS, 'r) handled" where
  "mem_unlink shard reply self op =
     then_reply (unlink_node shard (Unlink_parent op) (Unlink_name op) self) (\<lambda>_. reply Reply_Unit)"

definition mem_rmdir ::
    "shards \<Rightarrow> ('b, 'r) req_reply \<Rightarrow> MemFS \<Rightarrow> Rmdir \<Rightarrow> (MemFS, 'r) handled" where
  "mem_rmdir shard reply self op =
     then_reply (unlink_node shard (Rmdir_parent op) (Rmdir_name op) self) (\<lambda>_. reply Reply_Unit)"

text \<open>Between two directories, the entry for the new name is found before the old one is removed.\<close>

definition mem_rename ::
    "shards \<Rightarrow> ('b, 'r) req_reply \<Rightarrow> MemFS \<Rightarrow> Rename \<Rightarrow> (MemFS, 'r) handled" where
  "mem_rename shard reply self op =
     (if Rename_flags op \<noteq> 0 then Some (Err (OsError EINVAL), self)
      else
      or_err (inode_at self (Rename_parent op)) ENOENT self (\<lambda>pnode.
      or_err (as_dir pnode) ENOTDIR self (\<lambda>dir.
      if Rename_newparent op = Rename_parent op then
        or_err (Mapping.lookup (dir_children dir) (Rename_name op)) ENOENT self (\<lambda>ino.
        if Mapping.lookup (dir_children dir) (Rename_newname op) \<noteq> None then Some (Err (OsError EEXIST), self)
        else
          let children = Mapping.update (Rename_newname op) ino (dir_children dir) in
          or_panic (Mapping.lookup children (Rename_name op))
            (set_inode (Rename_parent op) (set_children dir children pnode) self) (\<lambda>_.
          Some (reply Reply_Unit,
            set_inode (Rename_parent op)
              (set_children dir (Mapping.delete (Rename_name op) children) pnode) self)))
      else
        lock_write shard [WriteGuard (Rename_parent op)] (Rename_newparent op) (
        or_err (inode_at self (Rename_newparent op)) ENOENT self (\<lambda>npnode.
        or_err (as_dir npnode) ENOTDIR self (\<lambda>newdir.
        if Mapping.lookup (dir_children newdir) (Rename_newname op) \<noteq> None
        then Some (Err (OsError EEXIST), self)
        else
        or_err (Mapping.lookup (dir_children dir) (Rename_name op)) ENOENT self (\<lambda>ino.
        let self = set_inode (Rename_parent op)
              (set_children dir (Mapping.delete (Rename_name op) (dir_children dir)) pnode) self
        in Some (reply Reply_Unit,
             set_inode (Rename_newparent op)
               (set_children newdir (Mapping.update (Rename_newname op) ino (dir_children newdir)) npnode)
               self))))))))"

section \<open>Extended attributes and contents\<close>

definition mem_getxattr ::
    "('b, 'r) req_reply \<Rightarrow> MemFS \<Rightarrow> Getxattr \<Rightarrow> (MemFS, 'r) handled" where
  "mem_getxattr reply self op =
     or_err (inode_at self (Getxattr_ino op)) ENOENT self (\<lambda>inode.
     or_err (Mapping.lookup (inode_xattrs inode) (Getxattr_name op)) ENODATA self (\<lambda>value.
     if Getxattr_size op = 0 then Some (reply (Reply_XattrOut (of_nat (length value))), self)
     else if Getxattr_size op < of_nat (length value) then Some (Err (OsError ERANGE), self)
     else Some (reply (Reply_Raw value), self)))"

definition set_xattrs :: "NodeID \<Rightarrow> mem_INode \<Rightarrow> (bytes, bytes) mapping \<Rightarrow> MemFS \<Rightarrow> MemFS" where
  "set_xattrs ino inode xattrs self = set_inode ino (inode\<lparr> inode_xattrs := xattrs \<rparr>) self"

definition mem_setxattr ::
    "('b, 'r) req_reply \<Rightarrow> MemFS \<Rightarrow> Setxattr \<Rightarrow> (MemFS, 'r) handled" where
  "mem_setxattr reply self op =
     (let create = flags_contains (Setxattr_flags op) XATTR_CREATE;
          replace = flags_contains (Setxattr_flags op) XATTR_REPLACE
      in if create \<and> replace then Some (Err (OsError EINVAL), self)
         else
         or_err (inode_at self (Setxattr_ino op)) ENOENT self (\<lambda>inode.
         let xattrs = inode_xattrs inode in
         case Mapping.lookup xattrs (Setxattr_name op) of
           Some _ \<Rightarrow>
             if create then Some (Err (OsError EEXIST), self)
             else Some (reply Reply_Unit,
               set_xattrs (Setxattr_ino op) inode
                 (Mapping.update (Setxattr_name op) (Setxattr_value op) xattrs) self)
         | None \<Rightarrow>
             if replace then Some (Err (OsError ENODATA), self)
             else Some (reply Reply_Unit,
               set_xattrs (Setxattr_ino op) inode
                 (Mapping.update (Setxattr_name op) (if create then [] else Setxattr_value op) xattrs) self)))"

text \<open>
  \<open>names\<close> are the keys in the order of the hash map. The lengths are added up as \<open>u32\<close>, before
  the names themselves are compared with the size.
\<close>

fun sum_lengths :: "extern \<Rightarrow> bytes list \<Rightarrow> u32 \<Rightarrow> u32 option" where
  "sum_lengths X [] acc = Some acc"
| "sum_lengths X (name # names) acc =
     (case add_assign X (of_nat (length name)) 1 of
        None \<Rightarrow> None
      | Some n \<Rightarrow>
          (case add_assign X acc n of None \<Rightarrow> None | Some acc \<Rightarrow> sum_lengths X names acc))"

definition mem_listxattr ::
    "extern \<Rightarrow> bytes list \<Rightarrow> ('b, 'r) req_reply \<Rightarrow> MemFS \<Rightarrow> Listxattr \<Rightarrow> (MemFS, 'r) handled" where
  "mem_listxattr X names reply self op =
     or_err (inode_at self (Listxattr_ino op)) ENOENT self (\<lambda>inode.
     or_panic (sum_lengths X names 0) self (\<lambda>total_len.
     if Listxattr_size op = 0 then Some (reply (Reply_XattrOut total_len), self)
     else if Listxattr_size op < total_len then Some (Err (OsError ERANGE), self)
     else Some (reply (Reply_Raw (concat (map (\<lambda>name. name @ [0]) names))), self)))"

definition mem_removexattr ::
    "('b, 'r) req_reply \<Rightarrow> MemFS \<Rightarrow> Removexattr \<Rightarrow> (MemFS, 'r) handled" where
  "mem_removexattr reply self op =
     or_err (inode_at self (Removexattr_ino op)) ENOENT self (\<lambda>inode.
     or_err (Mapping.lookup (inode_xattrs inode) (Removexattr_name op)) ENODATA self (\<lambda>_.
     Some (reply Reply_Unit,
       set_xattrs (Removexattr_ino op) inode
         (Mapping.delete (Removexattr_name op) (inode_xattrs inode)) self)))"

definition mem_read :: "('b, 'r) req_reply \<Rightarrow> MemFS \<Rightarrow> Read \<Rightarrow> (MemFS, 'r) handled" where
  "mem_read reply self op =
     or_err (inode_at self (Read_ino op)) ENOENT self (\<lambda>inode.
     or_err (as_file inode) EINVAL self (\<lambda>content.
     let content = (if unat (Read_offset op) \<le> length content then drop (unat (Read_offset op)) content else [])
     in Some (reply (Reply_Raw (take (min (length content) (unat (Read_size op))) content)), self)))"

text \<open>
  \<open>data\<close> is \<open>read_exact\<close> on the data of the request: from the contents of the buffer before to
  those after. The contents of the file are extended, and written in part, even if it fails. A
  vector cannot be longer than \<open>isize::MAX\<close>.
\<close>

definition mem_write ::
    "extern \<Rightarrow> (bytes \<Rightarrow> (io_error, unit) result \<times> bytes) \<Rightarrow> ('b, 'r) req_reply \<Rightarrow> MemFS \<Rightarrow> Write \<Rightarrow>
      (MemFS, 'r) handled" where
  "mem_write X data reply self op =
     or_err (inode_at self (Write_ino op)) ENOENT self (\<lambda>inode.
     or_err (as_file inode) EINVAL self (\<lambda>content.
     or_panic (add_assign X (Write_offset op) (ucast (Write_size op))) self (\<lambda>last.
     let offset = unat (Write_offset op); size = unat (Write_size op);
         len = max (length content) (unat last)
     in if 2 ^ 63 \<le> len then Some (Panic, self)
        else
          let content = content @ replicate (len - length content) 0;
              put = (\<lambda>content self. set_inode (Write_ino op)
                (inode\<lparr> inode_kind := INodeKind_RegularFile content \<rparr>) self)
          in if unat last < offset then Some (Panic, put content self)
             else
               let (r, bs) = data (take size (drop offset content));
                   content = take offset content @ bs @ drop (unat last) content;
                   self = put content self
               in case r of
                    Ok _ \<Rightarrow>
                      Some (reply (Reply_WriteOut (Write_size op)),
                        set_inode (Write_ino op)
                          (inode\<lparr> inode_kind := INodeKind_RegularFile content,
                                  inode_attr := (inode_attr inode)\<lparr> FileAttr_size := last \<rparr> \<rparr>) self)
                  | Err e \<Rightarrow> Some (Err e, self)
                  | Panic \<Rightarrow> Some (Panic, self))))"

end
