(* ===== verification/Runs.thy ===== *)
theory Runs
  imports Main
begin

text \<open>
  Runs of a state machine: sequences of steps with their events, and invariants of steps that carry
  over to runs. Counters of fixed width make some invariants hold only for a bounded number of
  steps, so that an invariant may depend on the number of steps so far.
\<close>

inductive run_of :: "('s \<Rightarrow> 'e \<Rightarrow> 's \<Rightarrow> bool) \<Rightarrow> 's \<Rightarrow> 'e list \<Rightarrow> 's \<Rightarrow> bool" for step where
  run_Nil: "run_of step s [] s"
| run_step: "run_of step s es s' \<Longrightarrow> step s' e s'' \<Longrightarrow> run_of step s (es @ [e]) s''"

locale counted_machine =
  fixes step :: "'s \<Rightarrow> 'e \<Rightarrow> 's \<Rightarrow> bool" and inv :: "nat \<Rightarrow> 's \<Rightarrow> bool" and bound :: nat
  assumes inv_step: "step s e s' \<Longrightarrow> inv n s \<Longrightarrow> n < bound \<Longrightarrow> inv (Suc n) s'"
begin

lemma run_inv:
  assumes "run_of step s es s'" and "inv 0 s" and "length es \<le> bound"
  shows "inv (length es) s'"
  using assms
proof (induction rule: run_of.induct)
  case (run_step s es s' e s'')
  then have "inv (length es) s'" by simp
  with run_step show ?case using inv_step by simp
qed simp

end

end
