(* ===== verification/Memfs_Inv.thy ===== *)
theory Memfs_Inv
  imports Memfs Runs
begin

text \<open>
  The invariant of the in-memory filesystem, and that every handler keeps it. The state is seen as a
  map from names (a directory and a name in it) to nodes, next to the nodes themselves; a node
  has at least as many links as there are names for it. Counters have a fixed width, so that the
  invariant depends on the number of requests so far.
\<close>

section \<open>Names\<close>

definition mem_names :: "MemFS \<Rightarrow> NodeID \<times> bytes \<Rightarrow> NodeID option" where
  "mem_names self = (\<lambda>(d, n).
     case inode_at self d of
       None \<Rightarrow> None
     | Some inode \<Rightarrow> (case as_dir inode of None \<Rightarrow> None | Some dir \<Rightarrow> Mapping.lookup (dir_children dir) n))"

definition refs :: "('k \<Rightarrow> 'v option) \<Rightarrow> 'v \<Rightarrow> 'k set" where
  "refs f i = {k. f k = Some i}"

definition node_ok :: "nat \<Rightarrow> nat \<Rightarrow> NodeID \<Rightarrow> mem_INode \<Rightarrow> bool" where
  "node_ok n c i inode \<longleftrightarrow>
     c + (if i = NodeID_ROOT then 2 ^ 63 - 1 else 0) \<le> unat (inode_links inode) \<and>
     unat (inode_links inode) < 2 ^ 63 + n \<and> unat (inode_refcount inode) < 2 ^ 63 + n \<and>
     unat (FileAttr_nlink (inode_attr inode)) \<le> 2 + n \<and>
     (\<forall>content. as_file inode = Some content \<longrightarrow> length content < 2 ^ 63)"

definition table_inv ::
    "nat \<Rightarrow> (NodeID \<times> bytes \<Rightarrow> NodeID option) \<Rightarrow> (NodeID \<Rightarrow> mem_INode option) \<Rightarrow> u64 \<Rightarrow> bool" where
  "table_inv n names nodes next \<longleftrightarrow>
     finite (dom names) \<and> (\<forall>k i. names k = Some i \<longrightarrow> nodes i \<noteq> None) \<and> 1 < unat next \<and> unat next \<le> 2 + n \<and>
     (\<forall>i inode. nodes i = Some inode \<longrightarrow>
        unat (NodeID_into_raw i) < unat next \<and> node_ok n (card (refs names i)) i inode) \<and>
     (\<exists>inode. nodes NodeID_ROOT = Some inode \<and> as_dir inode \<noteq> None)"

definition mem_inv :: "nat \<Rightarrow> MemFS \<Rightarrow> bool" where
  "mem_inv n self \<longleftrightarrow>
     table_inv n (mem_names self) (Mapping.lookup (tbl_map (mem_inodes self))) (tbl_next_ino (mem_inodes self))"

lemma finite_refs: "finite (dom f) \<Longrightarrow> finite (refs f i)"
  by (erule rev_finite_subset) (auto simp: refs_def)

lemma card_refs_add:
  assumes "finite (dom f)" and "f k = None"
  shows "card (refs (f(k \<mapsto> j)) i) = card (refs f i) + (if i = j then 1 else 0)"
proof -
  have "refs (f(k \<mapsto> j)) i = (if i = j then insert k (refs f i) else refs f i)"
    using assms(2) by (auto simp: refs_def)
  moreover have "k \<notin> refs f i" using assms(2) by (simp add: refs_def)
  ultimately show ?thesis using finite_refs [OF assms(1), of i] by (cases "i = j") simp_all
qed

lemma card_refs_del:
  assumes "finite (dom f)" and "f k = Some j"
  shows "card (refs (f(k := None)) i) + (if i = j then 1 else 0) = card (refs f i)"
proof -
  have r: "refs (f(k := None)) i = (if i = j then refs f i - {k} else refs f i)"
    using assms(2) by (auto simp: refs_def)
  show ?thesis
  proof (cases "i = j")
    case True
    with assms(2) have "k \<in> refs f i" by (simp add: refs_def)
    with finite_refs [OF assms(1), of i] have "0 < card (refs f i)" by (metis card_gt_0_iff empty_iff)
    with r True \<open>k \<in> refs f i\<close> show ?thesis by (simp add: card_Diff_singleton)
  qed (simp add: r)
qed

lemma card_refs_mono:
  "finite (dom f) \<Longrightarrow> g \<subseteq>\<^sub>m f \<Longrightarrow> card (refs g i) \<le> card (refs f i)"
  by (rule card_mono [OF finite_refs]) (auto simp: refs_def map_le_def dom_def)

lemma node_okD:
  assumes "node_ok n c i inode"
  shows "c \<le> unat (inode_links inode)" "unat (inode_links inode) < 2 ^ 63 + n"
    "unat (inode_refcount inode) < 2 ^ 63 + n" "unat (FileAttr_nlink (inode_attr inode)) \<le> 2 + n"
    "as_file inode = Some content \<Longrightarrow> length content < 2 ^ 63"
  using assms by (auto simp: node_ok_def)

lemma node_ok_mono:
  assumes "node_ok n c i inode" and "n \<le> m" and "c' \<le> c"
  shows "node_ok m c' i inode"
  using assms by (auto simp: node_ok_def)

text \<open>The table after the changes that handlers make.\<close>

lemma table_inv_node:
  assumes "table_inv n names nodes next" and "nodes i = Some inode"
  shows "unat (NodeID_into_raw i) < unat next" "node_ok n (card (refs names i)) i inode"
  using assms by (simp_all add: table_inv_def)

lemma table_invD:
  assumes "table_inv n names nodes next"
  shows "finite (dom names)" "names k = Some i \<Longrightarrow> nodes i \<noteq> None" "1 < unat next" "unat next \<le> 2 + n"
    "\<exists>inode. nodes NodeID_ROOT = Some inode \<and> as_dir inode \<noteq> None"
  using assms unfolding table_inv_def by blast+

lemma table_invI:
  assumes "finite (dom names)" and "\<And>k i. names k = Some i \<Longrightarrow> nodes i \<noteq> None"
    and "1 < unat next" and "unat next \<le> 2 + n"
    and "\<And>i inode. nodes i = Some inode \<Longrightarrow> unat (NodeID_into_raw i) < unat next"
    and "\<And>i inode. nodes i = Some inode \<Longrightarrow> node_ok n (card (refs names i)) i inode"
    and "\<exists>inode. nodes NodeID_ROOT = Some inode \<and> as_dir inode \<noteq> None"
  shows "table_inv n names nodes next"
  using assms unfolding table_inv_def by blast

lemma table_inv_mono:
  assumes inv: "table_inv n names nodes next" and "n \<le> m"
  shows "table_inv m names nodes next"
  using table_invD [OF inv] table_inv_node [OF inv] node_ok_mono [OF _ assms(2) order_refl] \<open>n \<le> m\<close>
  by (intro table_invI) simp_all

text \<open>Changing a node, and perhaps the names, so that the nodes of the table stay the same.\<close>

lemma table_inv_change:
  assumes inv: "table_inv n names nodes next" and j: "nodes j = Some inode" and "n \<le> m"
    and dir: "as_dir inode' = None \<longleftrightarrow> as_dir inode = None"
    and "node_ok m (card (refs names' j)) j inode'"
    and fin: "finite (dom names')" and sub: "\<And>k i. names' k = Some i \<Longrightarrow> i \<noteq> j \<Longrightarrow> nodes i \<noteq> None"
    and card: "\<And>i. i \<noteq> j \<Longrightarrow> card (refs names' i) \<le> card (refs names i)"
  shows "table_inv m names' (nodes(j \<mapsto> inode')) next"
proof (rule table_invI)
  show "node_ok m (card (refs names' i)) i node" if "(nodes(j \<mapsto> inode')) i = Some node" for i node
  proof (cases "i = j")
    case True
    with that assms(5) show ?thesis by simp
  next
    case False
    with that node_ok_mono [OF table_inv_node(2) [OF inv] \<open>n \<le> m\<close> card [OF False], of node]
    show ?thesis by simp
  qed
  show "\<exists>inode. (nodes(j \<mapsto> inode')) NodeID_ROOT = Some inode \<and> as_dir inode \<noteq> None"
    using table_invD(5) [OF inv] j dir by auto
  show "(nodes(j \<mapsto> inode')) i \<noteq> None" if "names' k = Some i" for k i
    using sub [OF that] by simp
  show "unat (NodeID_into_raw i) < unat next" if "(nodes(j \<mapsto> inode')) i = Some node" for i node
    using that table_inv_node(1) [OF inv] j by (auto split: if_splits)
qed (use fin table_invD(3,4) [OF inv] \<open>n \<le> m\<close> in simp_all)

lemma table_inv_touch:
  assumes "table_inv n names nodes next" and "nodes i = Some inode" and "n \<le> m"
    and "as_dir inode' = None \<longleftrightarrow> as_dir inode = None"
    and "node_ok m (card (refs names i)) i inode'"
  shows "table_inv m names (nodes(i \<mapsto> inode')) next"
  using table_inv_change [OF assms] table_invD(1,2) [OF assms(1)] by blast

text \<open>A new name for a node that is in the table, or for a new one.\<close>

lemma table_inv_add:
  assumes inv: "table_inv n names nodes next" and k: "names k = None" and j: "nodes j = Some inode"
    and m: "n \<le> m" and dir: "as_dir inode' = None \<longleftrightarrow> as_dir inode = None"
    and ok: "node_ok m (card (refs names j) + 1) j inode'"
  shows "table_inv m (names(k \<mapsto> j)) (nodes(j \<mapsto> inode')) next"
proof -
  note fin = table_invD(1) [OF inv]
  have c: "card (refs (names(k \<mapsto> j)) i) = card (refs names i) + (if i = j then 1 else 0)" for i
    by (rule card_refs_add [OF fin k])
  show ?thesis
  proof (rule table_inv_change [OF inv j m dir])
    show "nodes i \<noteq> None" if "(names(k \<mapsto> j)) x = Some i" "i \<noteq> j" for x i
      using that table_invD(2) [OF inv, of x i] by (simp split: if_splits)
  qed (use ok fin in \<open>simp_all add: c\<close>)
qed

lemma table_inv_new:
  assumes inv: "table_inv n names nodes next" and k: "names k = None"
    and raw: "NodeID_from_raw next = Some j" and bound: "unat next + 1 < 2 ^ 64"
    and ok: "node_ok (Suc n) 1 j inode'"
  shows "table_inv (Suc n) (names(k \<mapsto> j)) (nodes(j \<mapsto> inode')) (next + 1)" "nodes j = None"
proof -
  have next1: "unat (next + 1) = unat next + 1" using bound by (simp add: unat_add_1)
  have raw: "unat (NodeID_into_raw j) = unat next" using raw by (simp add: NodeID_from_raw_Some)
  note fin = table_invD(1) [OF inv]
  have c: "card (refs (names(k \<mapsto> j)) i) = card (refs names i) + (if i = j then 1 else 0)" for i
    by (rule card_refs_add [OF fin k])
  show j: "nodes j = None" using table_inv_node(1) [OF inv, of j] raw by (cases "nodes j") auto
  then have empty: "refs names j = {}" using table_invD(2) [OF inv] by (fastforce simp: refs_def)
  show "table_inv (Suc n) (names(k \<mapsto> j)) (nodes(j \<mapsto> inode')) (next + 1)"
  proof (rule table_invI)
    show "node_ok (Suc n) (card (refs (names(k \<mapsto> j)) i)) i node" if "(nodes(j \<mapsto> inode')) i = Some node" for i node
      using that ok empty node_ok_mono [OF table_inv_node(2) [OF inv], of i node "Suc n"]
      by (cases "i = j") (simp_all add: c)
    show "(nodes(j \<mapsto> inode')) i \<noteq> None" if "(names(k \<mapsto> j)) x = Some i" for x i
      using that table_invD(2) [OF inv, of x i] by (simp split: if_splits)
    show "unat (NodeID_into_raw i) < unat (next + 1)" if "(nodes(j \<mapsto> inode')) i = Some node" for i node
      using that table_inv_node(1) [OF inv, of i] raw next1 by (cases "i = j") auto
    show "\<exists>inode. (nodes(j \<mapsto> inode')) NodeID_ROOT = Some inode \<and> as_dir inode \<noteq> None"
      using table_invD(5) [OF inv] j by auto
  qed (use fin table_invD(3,4) [OF inv] next1 in simp_all)
qed

lemma table_inv_del:
  assumes inv: "table_inv n names nodes next" and k: "names k = Some j" and j: "nodes j = Some inode"
    and m: "n \<le> m" and dir: "as_dir inode' = None \<longleftrightarrow> as_dir inode = None"
    and ok: "\<And>c. card (refs names j) = c + 1 \<Longrightarrow> node_ok m c j inode'"
  shows "table_inv m (names(k := None)) (nodes(j \<mapsto> inode')) next"
proof -
  note fin = table_invD(1) [OF inv]
  have c: "card (refs (names(k := None)) i) + (if i = j then 1 else 0) = card (refs names i)" for i
    by (rule card_refs_del [OF fin k])
  show ?thesis
  proof (rule table_inv_change [OF inv j m dir])
    show "node_ok m (card (refs (names(k := None)) j)) j inode'" using c [of j] by (simp add: ok)
    show "nodes i \<noteq> None" if "(names(k := None)) x = Some i" for x i
      using that table_invD(2) [OF inv, of x i] by (simp split: if_splits)
    show "card (refs (names(k := None)) i) \<le> card (refs names i)" for i using c [of i] by simp
  qed (use fin in simp)
qed

lemma table_inv_move:
  assumes inv: "table_inv n names nodes next" and k: "names k = Some j" and k': "names k' = None" and "n \<le> m"
  shows "table_inv m (names(k := None, k' \<mapsto> j)) nodes next"
proof -
  let ?f = "names(k := None)"
  have fin: "finite (dom names)" "finite (dom ?f)" using inv by (simp_all add: table_inv_def)
  have f: "?f k' = None" using k k' by auto
  have c: "card (refs (?f(k' \<mapsto> j)) i) = card (refs names i)" for i
    using card_refs_add [where f = ?f, OF fin(2) f, of j i] card_refs_del [OF fin(1) k, of i] by presburger
  show ?thesis
  proof (rule table_invI)
    show "nodes i \<noteq> None" if "(?f(k' \<mapsto> j)) y = Some i" for i y
      using that k table_invD(2) [OF inv, of k] table_invD(2) [OF inv, of y] by (auto split: if_splits)
    show "node_ok m (card (refs (?f(k' \<mapsto> j)) i)) i node" if "nodes i = Some node" for i node
      unfolding c by (rule node_ok_mono [OF table_inv_node(2) [OF inv that] \<open>n \<le> m\<close> order_refl])
    show "finite (dom (?f(k' \<mapsto> j)))" using fin(2) by simp
  qed (use table_invD(3-5) [OF inv] table_inv_node(1) [OF inv] \<open>n \<le> m\<close> in simp_all)
qed

lemma map_leI: "(\<And>x y. f x = Some y \<Longrightarrow> g x = Some y) \<Longrightarrow> f \<subseteq>\<^sub>m g"
  by (auto simp: map_le_def)

text \<open>Removing a node that no directory refers to, with all the names in it.\<close>

lemma table_inv_remove:
  assumes inv: "table_inv n names nodes next" and j: "nodes j = Some inode" and "inode_links inode = 0"
    and "n \<le> m"
  shows "table_inv m (\<lambda>(d, x). if d = j then None else names (d, x)) (nodes(j := None)) next"
proof -
  let ?names = "\<lambda>(d, x). if d = j then None else names (d, x)"
  note fin = table_invD(1) [OF inv] and ok = table_inv_node(2) [OF inv j]
  have sub: "names x = Some i \<and> fst x \<noteq> j" if "?names x = Some i" for x i
    using that by (cases x; cases "fst x = j") simp_all
  have le: "?names \<subseteq>\<^sub>m names"
    by (intro map_leI) (rule sub [THEN conjunct1])
  have "card (refs names j) = 0" using node_okD(1) [OF ok] assms(3) by simp
  then have empty: "refs names j = {}" using finite_refs [OF fin] by simp
  have "j \<noteq> NodeID_ROOT"
  proof
    assume "j = NodeID_ROOT"
    with ok assms(3) show False by (simp add: node_ok_def)
  qed
  show ?thesis
  proof (rule table_invI)
    show "finite (dom ?names)"
      by (rule finite_subset [OF map_le_implies_dom_le [OF le] fin])
    show "(nodes(j := None)) i \<noteq> None" if "?names x = Some i" for x i
    proof -
      have "x \<in> refs names i" using sub [OF that] by (simp add: refs_def)
      with empty have "i \<noteq> j" by blast
      with sub [OF that] table_invD(2) [OF inv, of x i] show ?thesis by simp
    qed
    show "node_ok m (card (refs ?names i)) i node" if "(nodes(j := None)) i = Some node" for i node
      using that node_ok_mono [OF table_inv_node(2) [OF inv] \<open>n \<le> m\<close> card_refs_mono [OF fin le]]
      by (simp split: if_splits)
    show "\<exists>inode. (nodes(j := None)) NodeID_ROOT = Some inode \<and> as_dir inode \<noteq> None"
      using table_invD(5) [OF inv] \<open>j \<noteq> NodeID_ROOT\<close> by simp
    show "unat (NodeID_into_raw i) < unat next" if "(nodes(j := None)) i = Some node" for i node
      using that table_inv_node(1) [OF inv, of i node] by (simp split: if_splits)
  qed (use table_invD(3,4) [OF inv] \<open>n \<le> m\<close> in simp_all)
qed

section \<open>The state after a change\<close>

lemma lookup_set_inode [simp]:
  "Mapping.lookup (tbl_map (mem_inodes (set_inode i inode self))) =
     (Mapping.lookup (tbl_map (mem_inodes self)))(i \<mapsto> inode)"
  "tbl_next_ino (mem_inodes (set_inode i inode self)) = tbl_next_ino (mem_inodes self)"
  "mem_ttl (set_inode i inode self) = mem_ttl self"
  "mem_dir_handles (set_inode i inode self) = mem_dir_handles self"
  "mem_poisoned (set_inode i inode self) = mem_poisoned self"
  by (simp_all add: set_inode_def fun_eq_iff)

lemma lookup_remove_inode [simp]:
  "Mapping.lookup (tbl_map (mem_inodes (remove_inode i self))) =
     (Mapping.lookup (tbl_map (mem_inodes self)))(i := None)"
  "tbl_next_ino (mem_inodes (remove_inode i self)) = tbl_next_ino (mem_inodes self)"
  "mem_poisoned (remove_inode i self) = mem_poisoned self"
  by (simp_all add: remove_inode_def fun_eq_iff)

lemma as_dir_simps [simp]:
  "as_dir (set_children dir children inode) = Some (dir\<lparr> dir_children := children \<rparr>)"
  "as_dir (inode\<lparr> inode_attr := attr \<rparr>) = as_dir inode"
  "as_dir (inode\<lparr> inode_xattrs := xattrs \<rparr>) = as_dir inode"
  "as_dir (inode\<lparr> inode_refcount := n \<rparr>) = as_dir inode"
  "as_dir (inode\<lparr> inode_links := n \<rparr>) = as_dir inode"
  "as_dir (inode\<lparr> inode_kind := INodeKind_RegularFile content \<rparr>) = None"
  by (simp_all add: as_dir_def set_children_def)

lemma as_file_simps [simp]:
  "as_file (set_children dir children inode) = None"
  "as_file (inode\<lparr> inode_attr := attr \<rparr>) = as_file inode"
  "as_file (inode\<lparr> inode_xattrs := xattrs \<rparr>) = as_file inode"
  "as_file (inode\<lparr> inode_refcount := n \<rparr>) = as_file inode"
  "as_file (inode\<lparr> inode_links := n \<rparr>) = as_file inode"
  "as_file (inode\<lparr> inode_kind := INodeKind_RegularFile content \<rparr>) = Some content"
  by (simp_all add: as_file_def set_children_def)

lemma set_children_sel [simp]:
  "inode_attr (set_children dir children inode) = inode_attr inode"
  "inode_links (set_children dir children inode) = inode_links inode"
  "inode_refcount (set_children dir children inode) = inode_refcount inode"
  by (simp_all add: set_children_def)

lemma as_file_dir: "as_file inode = Some content \<Longrightarrow> as_dir inode = None"
  by (auto simp: as_file_def as_dir_def split: INodeKind.splits)

lemma mem_names_eq:
  "mem_names self (d, x) =
     (case inode_at self d of
        None \<Rightarrow> None
      | Some inode \<Rightarrow> (case as_dir inode of None \<Rightarrow> None | Some dir \<Rightarrow> Mapping.lookup (dir_children dir) x))"
  by (simp add: mem_names_def)

lemma mem_names_cong:
  "tbl_map (mem_inodes s) = tbl_map (mem_inodes s') \<Longrightarrow> mem_names s = mem_names s'"
  by (simp add: mem_names_def)

lemma mem_names_touch:
  assumes "inode_at self i = Some inode" and "as_dir inode' = as_dir inode"
  shows "mem_names (set_inode i inode' self) = mem_names self"
  using assms by (auto simp: fun_eq_iff mem_names_eq)

lemma mem_names_add:
  assumes "inode_at self p = Some pnode" and "as_dir pnode = Some dir"
  shows "mem_names (set_inode p (set_children dir (Mapping.update x i (dir_children dir)) pnode) self) =
    (mem_names self)((p, x) \<mapsto> i)"
  using assms by (auto simp: fun_eq_iff mem_names_eq)

lemma mem_names_del:
  assumes "inode_at self p = Some pnode" and "as_dir pnode = Some dir"
  shows "mem_names (set_inode p (set_children dir (Mapping.delete x (dir_children dir)) pnode) self) =
    (mem_names self)((p, x) := None)"
  using assms by (auto simp: fun_eq_iff mem_names_eq)

definition no_children :: "mem_INode \<Rightarrow> bool" where
  "no_children inode \<longleftrightarrow> (case as_dir inode of None \<Rightarrow> True | Some dir \<Rightarrow> dir_children dir = Mapping.empty)"

lemma mem_names_new:
  assumes "inode_at self i = None" and "no_children inode"
  shows "mem_names (set_inode i inode self) = mem_names self"
  using assms by (auto simp: fun_eq_iff mem_names_eq no_children_def split: option.splits)

lemma mem_names_remove:
  "mem_names (remove_inode i self) = (\<lambda>(d, x). if d = i then None else mem_names self (d, x))"
  by (auto simp: fun_eq_iff mem_names_eq)

lemma mem_inv_touch:
  assumes "mem_inv n self" and "inode_at self i = Some inode" and "as_dir inode' = as_dir inode"
    and "node_ok (Suc n) (card (refs (mem_names self) i)) i inode'"
  shows "mem_inv (Suc n) (set_inode i inode' self)"
  using table_inv_touch [where nodes = "Mapping.lookup (tbl_map (mem_inodes self))", OF _ assms(2) _ _ assms(4)]
    assms by (simp add: mem_inv_def mem_names_touch)

lemma mem_inv_Suc: "mem_inv n self \<Longrightarrow> mem_inv (Suc n) self"
  by (simp add: mem_inv_def table_inv_mono)

lemma mem_inv_handles:
  "mem_inv n (self\<lparr> mem_dir_handles := h \<rparr>) \<longleftrightarrow> mem_inv n self"
  using mem_names_cong [of "self\<lparr> mem_dir_handles := h \<rparr>" self] by (simp add: mem_inv_def)

lemma mem_inv_node:
  "mem_inv n self \<Longrightarrow> inode_at self i = Some inode \<Longrightarrow> node_ok n (card (refs (mem_names self) i)) i inode"
  unfolding mem_inv_def by (rule table_inv_node)

lemma table_inv_set_children:
  assumes inv: "table_inv n names nodes next" and p: "nodes p = Some pnode" and "as_dir pnode = Some dir"
  shows "table_inv n names (nodes(p \<mapsto> set_children dir children pnode)) next"
  by (rule table_inv_touch [OF inv p order_refl])
    (use assms(3) table_inv_node(2) [OF inv p] in \<open>simp_all add: node_ok_def\<close>)

section \<open>Creating and removing nodes\<close>

lemma vacant_entry_eq:
  assumes "mem_inv n self" and "n < 2 ^ 31"
  obtains i where "NodeID_from_raw (tbl_next_ino (mem_inodes self)) = Some i" "inode_at self i = None"
    "\<And>held. vacant_entry shard held self =
       (if list_ex (blocks_write shard i) held then None
        else Some (Ok (Some i),
          self\<lparr> mem_inodes := mem_inodes self\<lparr> tbl_next_ino := tbl_next_ino (mem_inodes self) + 1 \<rparr> \<rparr>))"
proof -
  note inv = assms(1) [unfolded mem_inv_def]
  have "tbl_next_ino (mem_inodes self) \<noteq> 0" using table_invD(3) [OF inv] by auto
  then obtain i where i: "NodeID_from_raw (tbl_next_ino (mem_inodes self)) = Some i"
    by (cases "NodeID_from_raw (tbl_next_ino (mem_inodes self))") (auto simp: NodeID_from_raw_None)
  then have "inode_at self i = None"
    using table_inv_node(1) [OF inv, of i] by (cases "inode_at self i") (auto simp: NodeID_from_raw_Some)
  with i show ?thesis
    by (intro that [OF i]) (simp_all add: vacant_entry_def lock_write_def)
qed

text \<open>What the nodes that are created have in common.\<close>

definition fresh_node :: "mem_INode \<Rightarrow> bool" where
  "fresh_node inode \<longleftrightarrow>
     no_children inode \<and> inode_links inode = 1 \<and> inode_refcount inode = 1 \<and>
     FileAttr_nlink (inode_attr inode) \<in> {1, 2} \<and> as_file inode \<in> {None, Some []}"

lemma fresh_node_ok: "fresh_node inode \<Longrightarrow> i \<noteq> NodeID_ROOT \<Longrightarrow> node_ok (Suc n) 1 i inode"
  by (auto simp: fresh_node_def node_ok_def)

lemma make_node_cases:
  assumes "make_node shard p x f self = Some (r, self')" and inv: "mem_inv n self" and n: "n < 2 ^ 31"
    and fresh: "\<And>i. fresh_node (f i)"
  obtains e where "r = Err e" "self' = self"
  | i where "r = Ok \<lparr> EntryOut_ino = Some i, EntryOut_attr = inode_attr (f i), EntryOut_generation = 0,
        EntryOut_entry_valid = Some (mem_ttl self), EntryOut_attr_valid = None \<rparr>"
      "inode_at self i = None" "inode_at self' i = Some (f i)" "mem_names self (p, x) = None"
      "mem_names self' = (mem_names self)((p, x) \<mapsto> i)" "mem_inv (Suc n) self'"
proof -
  let ?next = "tbl_next_ino (mem_inodes self)" and ?nodes = "Mapping.lookup (tbl_map (mem_inodes self))"
  from vacant_entry_eq [OF inv n] obtain i where
    i: "NodeID_from_raw ?next = Some i" "inode_at self i = None" and
    v: "\<And>held. vacant_entry shard held self =
       (if list_ex (blocks_write shard i) held then None
        else Some (Ok (Some i), self\<lparr> mem_inodes := mem_inodes self\<lparr> tbl_next_ino := ?next + 1 \<rparr> \<rparr>))" by blast
  let ?s1 = "self\<lparr> mem_inodes := mem_inodes self\<lparr> tbl_next_ino := ?next + 1 \<rparr> \<rparr>"
  consider "\<exists>e. r = Err e \<and> self' = self"
    | pnode dir where "inode_at self p = Some pnode" "as_dir pnode = Some dir"
      "Mapping.lookup (dir_children dir) x = None"
      "r = Ok \<lparr> EntryOut_ino = Some i, EntryOut_attr = inode_attr (f i), EntryOut_generation = 0,
        EntryOut_entry_valid = Some (mem_ttl self), EntryOut_attr_valid = None \<rparr>"
      "self' = set_inode i (f i)
        (set_inode p (set_children dir (Mapping.update x i (dir_children dir)) pnode) ?s1)"
    using assms(1) by (auto simp: make_node_def handler v Let_def split: if_splits)
  then show ?thesis
  proof cases
    case 1
    then show ?thesis using that(1) by blast
  next
    case 2
    have k: "mem_names self (p, x) = None" using 2 by (simp add: mem_names_eq)
    have "p \<noteq> i" using 2(1) i(2) by auto
    have s1: "mem_names ?s1 = mem_names self" by (rule mem_names_cong) simp
    have "mem_names (set_inode p (set_children dir (Mapping.update x i (dir_children dir)) pnode) ?s1) =
        (mem_names self)((p, x) \<mapsto> i)"
      using mem_names_add [of ?s1 p pnode dir x i] 2(1,2) by (simp add: s1)
    moreover have "inode_at (set_inode p (set_children dir (Mapping.update x i (dir_children dir)) pnode) ?s1) i = None"
      using i(2) \<open>p \<noteq> i\<close> by simp
    ultimately have names: "mem_names self' = (mem_names self)((p, x) \<mapsto> i)"
      using mem_names_new fresh [of i] 2(5) by (simp add: fresh_node_def)
    note tinv = inv [unfolded mem_inv_def]
    have "i \<noteq> NodeID_ROOT" using table_invD(5) [OF tinv] i(2) by auto
    have "unat ?next + 1 < 2 ^ 64" using table_invD(4) [OF tinv] n by simp
    from table_inv_new(1) [OF tinv k i(1) this fresh_node_ok [OF fresh \<open>i \<noteq> NodeID_ROOT\<close>]]
    have "table_inv (Suc n) ((mem_names self)((p, x) \<mapsto> i)) (?nodes(i \<mapsto> f i)) (?next + 1)" .
    from table_inv_set_children [OF this, of p pnode dir] 2(1,2) \<open>p \<noteq> i\<close>
    have "mem_inv (Suc n) self'"
      unfolding mem_inv_def names by (simp add: 2(5) fun_upd_twist)
    with that(2) 2 i names k show ?thesis by simp
  qed
qed

lemma mem_inv_names: "mem_inv n self \<Longrightarrow> mem_names self k = Some i \<Longrightarrow> inode_at self i \<noteq> None"
  unfolding mem_inv_def by (rule table_invD)

lemma mem_names_child:
  "inode_at self p = Some pnode \<Longrightarrow> as_dir pnode = Some dir \<Longrightarrow>
    mem_names self (p, x) = Mapping.lookup (dir_children dir) x"
  by (simp add: mem_names_eq)

lemma unlink_node_cases:
  assumes "unlink_node shard p x self = Some (r, self')" and inv: "mem_inv n self"
  obtains e where "r = Err e" "self' = self"
  | i inode where "r = Ok ()" "mem_names self (p, x) = Some i" "inode_at self i = Some inode"
      "\<forall>y. mem_names self (i, y) = None"
      "mem_names self' = (mem_names self)((p, x) := None)" "mem_inv (Suc n) self'"
proof -
  let ?nodes = "Mapping.lookup (tbl_map (mem_inodes self))"
  let ?upd = "\<lambda>inode. inode
    \<lparr> inode_links := saturating_sub (inode_links inode) 1,
      inode_attr := (inode_attr inode)\<lparr> FileAttr_nlink := saturating_sub (FileAttr_nlink (inode_attr inode)) 1 \<rparr> \<rparr>"
  consider "\<exists>e. r = Err e \<and> self' = self"
    | pnode dir i where "inode_at self p = Some pnode" "as_dir pnode = Some dir"
      "Mapping.lookup (dir_children dir) x = Some i" "r = Panic" "inode_at self i = None"
    | pnode dir i inode where "inode_at self p = Some pnode" "as_dir pnode = Some dir"
      "Mapping.lookup (dir_children dir) x = Some i" "shard p \<noteq> shard i" "inode_at self i = Some inode"
      "\<not> (case as_dir inode of Some d \<Rightarrow> \<not> Mapping.is_empty (dir_children d) | None \<Rightarrow> False)" "r = Ok ()"
      "self' = set_inode i (?upd inode)
        (set_inode p (set_children dir (Mapping.delete x (dir_children dir)) pnode) self)"
    using assms(1) by (auto simp: unlink_node_def handler Let_def split: if_splits)
  then show ?thesis
  proof cases
    case 1
    then show ?thesis using that(1) by blast
  next
    case 2
    then have "mem_names self (p, x) = Some i" by (simp add: mem_names_child)
    with mem_inv_names [OF inv] 2 show ?thesis by blast
  next
    case 3
    have k: "mem_names self (p, x) = Some i" using 3 by (simp add: mem_names_child)
    have "p \<noteq> i" using 3(4) by auto
    have empty: "\<forall>y. mem_names self (i, y) = None"
      using 3(5,6) by (auto simp: mem_names_eq Mapping.is_empty_def keys_dom_lookup split: option.splits)
    have names: "mem_names self' = (mem_names self)((p, x) := None)"
      using mem_names_del [OF 3(1,2), of x] \<open>p \<noteq> i\<close>
        mem_names_touch [where i = i and inode = inode and inode' = "?upd inode" and
          self = "set_inode p (set_children dir (Mapping.delete x (dir_children dir)) pnode) self"] 3(5,8)
      by simp
    note tinv = inv [unfolded mem_inv_def]
    have "node_ok (Suc n) c i (?upd inode)" if "card (refs (mem_names self) i) = c + 1" for c
      using table_inv_node(2) [OF tinv 3(5)] that
      by (auto simp: node_ok_def unat_saturating_sub)
    from table_inv_del [OF tinv k 3(5) _ _ this]
    have "table_inv (Suc n) ((mem_names self)((p, x) := None)) (?nodes(i \<mapsto> ?upd inode)) (tbl_next_ino (mem_inodes self))"
      by simp
    from table_inv_set_children [OF this, of p pnode dir] 3(1,2) \<open>p \<noteq> i\<close>
    have "mem_inv (Suc n) self'"
      unfolding mem_inv_def names by (simp add: 3(8) fun_upd_twist)
    with that(2) 3 names k empty show ?thesis by simp
  qed
qed

lemma mem_link_cases:
  assumes "mem_link X debug shard reply self op = Some (r, self')" and inv: "mem_inv n self" and n: "n < 2 ^ 31"
  obtains e where "r = Err e" "self' = self"
  | "r = Panic" "self' = self" "debug" "Link_ino op = Link_newparent op"
  | out where "r = reply out" "mem_names self (Link_newparent op, Link_newname op) = None"
      "mem_names self' = (mem_names self)((Link_newparent op, Link_newname op) \<mapsto> Link_ino op)"
      "mem_inv (Suc n) self'"
proof -
  let ?nodes = "Mapping.lookup (tbl_map (mem_inodes self))"
  let ?i = "Link_ino op" and ?p = "Link_newparent op" and ?x = "Link_newname op"
  let ?upd = "\<lambda>inode. inode
    \<lparr> inode_links := inode_links inode + 1,
      inode_attr := (inode_attr inode)\<lparr> FileAttr_nlink := FileAttr_nlink (inode_attr inode) + 1 \<rparr>,
      inode_refcount := inode_refcount inode + 1 \<rparr>"
  note tinv = inv [unfolded mem_inv_def]
  have bounds: "unat (inode_links inode) + 1 < 2 ^ 64" "unat (FileAttr_nlink (inode_attr inode)) + 1 < 2 ^ 32"
    "unat (inode_refcount inode) + 1 < 2 ^ 64" if "?nodes ?i = Some inode" for inode
    using node_okD(2-4) [OF table_inv_node(2) [OF tinv that]] n by simp_all
  have counts: "add_assign X (inode_links inode) 1 = Some (inode_links inode + 1)"
    "add_assign X (FileAttr_nlink (inode_attr inode)) 1 = Some (FileAttr_nlink (inode_attr inode) + 1)"
    "add_assign X (inode_refcount inode) 1 = Some (inode_refcount inode + 1)" if "?nodes ?i = Some inode" for inode
    using bounds [OF that] by (simp_all add: add_assign_Some)
  have set2: "set_inode i a (set_inode i b s) = set_inode i a s" for i a b s
    by (simp add: set_inode_def update_update)
  consider "\<exists>e. r = Err e \<and> self' = self"
    | "r = Panic" "self' = self" "debug" "Link_ino op = Link_newparent op"
    | inode pnode dir out where "?nodes ?i = Some inode" "shard ?i \<noteq> shard ?p" "inode_at self ?p = Some pnode"
      "as_dir pnode = Some dir" "Mapping.lookup (dir_children dir) ?x = None" "r = reply out"
      "self' = set_inode ?i (?upd inode)
        (set_inode ?p (set_children dir (Mapping.update ?x ?i (dir_children dir)) pnode) self)"
    using assms(1) by (auto simp: mem_link_def handler Let_def counts set2 split: if_splits)
  then show ?thesis
  proof cases
    case 1
    then show ?thesis using that(1) by blast
  next
    case 2
    then show ?thesis by (rule that(2))
  next
    case 3
    have k: "mem_names self (?p, ?x) = None" using 3 by (simp add: mem_names_child)
    have "?p \<noteq> ?i" using 3(2) by auto
    have names: "mem_names self' = (mem_names self)((?p, ?x) \<mapsto> ?i)"
      using mem_names_add [OF 3(3,4), of ?x ?i] \<open>?p \<noteq> ?i\<close>
        mem_names_touch [where i = ?i and inode = inode and inode' = "?upd inode" and
          self = "set_inode ?p (set_children dir (Mapping.update ?x ?i (dir_children dir)) pnode) self"] 3(1,7)
      by simp
    have "node_ok (Suc n) (card (refs (mem_names self) ?i) + 1) ?i (?upd inode)"
      using table_inv_node(2) [OF tinv 3(1)] bounds [OF 3(1)] by (auto simp: node_ok_def unat_add_1)
    from table_inv_add [OF tinv k 3(1) _ _ this]
    have "table_inv (Suc n) ((mem_names self)((?p, ?x) \<mapsto> ?i)) (?nodes(?i \<mapsto> ?upd inode)) (tbl_next_ino (mem_inodes self))"
      by simp
    from table_inv_set_children [OF this, of ?p pnode dir] 3(3,4) \<open>?p \<noteq> ?i\<close>
    have "mem_inv (Suc n) self'"
      unfolding mem_inv_def names by (simp add: 3(7) fun_upd_twist)
    with that(3) 3 names k show ?thesis by blast
  qed
qed

lemma mem_rename_cases:
  assumes "mem_rename shard reply self op = Some (r, self')" and inv: "mem_inv n self"
  obtains e where "r = Err e" "self' = self"
  | i where "r = reply Reply_Unit" "mem_names self (Rename_parent op, Rename_name op) = Some i"
      "mem_names self (Rename_newparent op, Rename_newname op) = None"
      "mem_names self' = (mem_names self)((Rename_parent op, Rename_name op) := None,
         (Rename_newparent op, Rename_newname op) \<mapsto> i)"
      "mem_inv (Suc n) self'"
proof -
  let ?nodes = "Mapping.lookup (tbl_map (mem_inodes self))" and ?next = "tbl_next_ino (mem_inodes self)"
  let ?p = "Rename_parent op" and ?x = "Rename_name op" and ?q = "Rename_newparent op" and ?y = "Rename_newname op"
  note tinv = inv [unfolded mem_inv_def]
  have same: "(\<exists>e. r = Err e \<and> self' = self) \<or>
    (\<exists>pnode dir i. ?nodes ?p = Some pnode \<and> as_dir pnode = Some dir \<and> ?q = ?p \<and>
      Mapping.lookup (dir_children dir) ?x = Some i \<and> Mapping.lookup (dir_children dir) ?y = None \<and>
      r = reply Reply_Unit \<and> self' = set_inode ?p
         (set_children dir (Mapping.delete ?x (Mapping.update ?y i (dir_children dir))) pnode) self)"
    if "?q = ?p"
    using assms(1) that
    by (auto simp: mem_rename_def or_err_def or_panic_def Let_def split: if_splits option.splits)
  have other: "(\<exists>e. r = Err e \<and> self' = self) \<or>
    (\<exists>pnode dir i qnode newdir. ?nodes ?p = Some pnode \<and> as_dir pnode = Some dir \<and> ?q \<noteq> ?p \<and>
      ?nodes ?q = Some qnode \<and> as_dir qnode = Some newdir \<and> Mapping.lookup (dir_children newdir) ?y = None \<and>
      Mapping.lookup (dir_children dir) ?x = Some i \<and> r = reply Reply_Unit \<and>
      self' = set_inode ?q (set_children newdir (Mapping.update ?y i (dir_children newdir)) qnode)
         (set_inode ?p (set_children dir (Mapping.delete ?x (dir_children dir)) pnode) self))"
    if "?q \<noteq> ?p"
    using assms(1) that
    by (auto simp: mem_rename_def or_err_def lock_write_def Let_def split: if_splits option.splits)
  show ?thesis
  proof (cases "\<exists>e. r = Err e \<and> self' = self")
    case True
    then show ?thesis using that(1) by blast
  next
    case False
    show ?thesis
    proof (cases "?q = ?p")
      case True
      from same [OF True] False obtain pnode dir i where
        1: "?nodes ?p = Some pnode" "as_dir pnode = Some dir" "Mapping.lookup (dir_children dir) ?x = Some i"
          "Mapping.lookup (dir_children dir) ?y = None" "r = reply Reply_Unit"
        and self': "self' = set_inode ?p
          (set_children dir (Mapping.delete ?x (Mapping.update ?y i (dir_children dir))) pnode) self" by blast
      have k: "mem_names self (?p, ?x) = Some i" "mem_names self (?q, ?y) = None"
        using 1 True by (simp_all add: mem_names_child)
      have "?y \<noteq> ?x" using 1(3,4) by auto
      then have names: "mem_names self' = (mem_names self)((?p, ?x) := None, (?q, ?y) \<mapsto> i)"
        using 1 True self' by (auto simp: fun_eq_iff mem_names_eq)
      from table_inv_set_children [OF table_inv_move [OF tinv k], of "Suc n" ?p pnode dir] 1
      have "mem_inv (Suc n) self'" unfolding mem_inv_def names by (simp add: self')
      with that(2) 1 names k show ?thesis by blast
    next
      case False
      from other [OF False] \<open>\<nexists>e. r = Err e \<and> self' = self\<close> obtain pnode dir i qnode newdir where
        1: "?nodes ?p = Some pnode" "as_dir pnode = Some dir" "?nodes ?q = Some qnode"
          "as_dir qnode = Some newdir" "Mapping.lookup (dir_children newdir) ?y = None"
          "Mapping.lookup (dir_children dir) ?x = Some i" "r = reply Reply_Unit"
        and self': "self' = set_inode ?q (set_children newdir (Mapping.update ?y i (dir_children newdir)) qnode)
          (set_inode ?p (set_children dir (Mapping.delete ?x (dir_children dir)) pnode) self)" by blast
      let ?s1 = "set_inode ?p (set_children dir (Mapping.delete ?x (dir_children dir)) pnode) self"
      have k: "mem_names self (?p, ?x) = Some i" "mem_names self (?q, ?y) = None"
        using 1 by (simp_all add: mem_names_child)
      have names: "mem_names self' = (mem_names self)((?p, ?x) := None, (?q, ?y) \<mapsto> i)"
        using mem_names_del [OF 1(1,2), of ?x] mem_names_add [of ?s1 ?q qnode newdir ?y i] 1 False
        by (simp add: self')
      from table_inv_set_children [OF table_inv_move [OF tinv k], of "Suc n" ?p pnode dir] 1
      have "table_inv (Suc n) ((mem_names self)((?p, ?x) := None, (?q, ?y) \<mapsto> i))
          (?nodes(?p \<mapsto> set_children dir (Mapping.delete ?x (dir_children dir)) pnode)) ?next" by simp
      from table_inv_set_children [OF this, of ?q qnode newdir] 1 False
      have "mem_inv (Suc n) self'" unfolding mem_inv_def names by (simp add: self')
      with that(2) 1 names k show ?thesis by blast
    qed
  qed
qed

lemma mem_forget_one_inv:
  assumes inv: "mem_inv n self"
  shows "mem_inv n (mem_forget_one i nlookup self)"
proof (cases "inode_at self i")
  case None
  with inv show ?thesis by (simp add: mem_forget_one_def)
next
  case (Some inode)
  let ?inode = "inode\<lparr> inode_refcount := saturating_sub (inode_refcount inode) nlookup \<rparr>"
  note tinv = inv [unfolded mem_inv_def]
  have ok: "node_ok n (card (refs (mem_names self) i)) i ?inode"
    using table_inv_node(2) [OF tinv Some] by (auto simp: node_ok_def unat_saturating_sub)
  show ?thesis
  proof (cases "inode_refcount ?inode = 0 \<and> inode_links ?inode = 0")
    case True
    with Some have "mem_forget_one i nlookup self = remove_inode i self" by (simp add: mem_forget_one_def)
    with table_inv_remove [OF tinv Some] True show ?thesis
      by (simp add: mem_inv_def mem_names_remove)
  next
    case False
    with Some have s: "mem_forget_one i nlookup self = set_inode i ?inode self"
      by (auto simp: mem_forget_one_def Let_def)
    have "mem_names (set_inode i ?inode self) = mem_names self" by (rule mem_names_touch [OF Some]) simp
    with table_inv_touch [OF tinv Some order_refl _ ok] show ?thesis by (simp add: s mem_inv_def)
  qed
qed

lemma mem_forget_inv: "mem_inv n self \<Longrightarrow> mem_inv n (snd (mem_forget self forgets))"
  by (induction self forgets rule: mem_forget.induct) (auto simp: mem_forget_one_inv split: result.splits)

section \<open>Steps\<close>

text \<open>
  The order of a hash map, the key that is chosen for a new directory handle, the clock and the
  data of a write request come from outside.
\<close>

definition iterates :: "(bytes, 'v) mapping \<Rightarrow> (bytes \<times> 'v) list \<Rightarrow> bool" where
  "iterates m kvs \<longleftrightarrow> distinct (map fst kvs) \<and> map_of kvs = Mapping.lookup m"

text \<open>A reader that fills a buffer does not change its length.\<close>

definition keeps_length :: "(bytes \<Rightarrow> (io_error, unit) result \<times> bytes) \<Rightarrow> bool" where
  "keeps_length data \<longleftrightarrow> (\<forall>buf. length (snd (data buf)) = length buf)"

type_synonym 'r mem_event = "Operation \<times> (io_error, 'r option) result"

definition replied :: "(io_error, 'r) result \<Rightarrow> (io_error, 'r option) result" where
  "replied r = and_then r (\<lambda>x. Ok (Some x))"

inductive mem_step ::
    "extern \<Rightarrow> bool \<Rightarrow> shards \<Rightarrow> 'b ReaddirOut \<Rightarrow> ('b, 'r) req_reply \<Rightarrow> MemFS \<Rightarrow> 'r mem_event \<Rightarrow> MemFS \<Rightarrow> bool"
  for X debug shard R reply where
  step_lookup: "mem_lookup X shard reply s op = Some (r, s') \<Longrightarrow>
    mem_step X debug shard R reply s (Lookup op, replied r) s'"
| step_forget: "mem_forget s (Forgets_deref forgets) = (r, s') \<Longrightarrow>
    mem_step X debug shard R reply s (Forget_op forgets, and_then r (\<lambda>_. Ok None)) s'"
| step_getattr: "mem_getattr reply s op = Some (r, s') \<Longrightarrow>
    mem_step X debug shard R reply s (Getattr op, replied r) s'"
| step_setattr: "mem_setattr (Some now) reply s op = Some (r, s') \<Longrightarrow>
    mem_step X debug shard R reply s (Setattr op, replied r) s'"
| step_readlink: "mem_readlink reply s op = Some (r, s') \<Longrightarrow>
    mem_step X debug shard R reply s (Readlink op, replied r) s'"
| step_opendir: "mem_opendir key children reply s op = Some (r, s') \<Longrightarrow>
    Mapping.lookup (mem_dir_handles s) key = None \<Longrightarrow>
    (\<And>inode dir. inode_at s (Opendir_ino op) = Some inode \<Longrightarrow> as_dir inode = Some dir \<Longrightarrow>
      iterates (dir_children dir) children) \<Longrightarrow>
    mem_step X debug shard R reply s (Opendir op, replied r) s'"
| step_readdir: "mem_readdir R reply s op = Some (r, s') \<Longrightarrow>
    mem_step X debug shard R reply s (Readdir op, replied r) s'"
| step_releasedir: "mem_releasedir reply s op = Some (r, s') \<Longrightarrow>
    mem_step X debug shard R reply s (Releasedir op, replied r) s'"
| step_mknod: "mem_mknod shard reply s op = Some (r, s') \<Longrightarrow>
    mem_step X debug shard R reply s (Mknod op, replied r) s'"
| step_mkdir: "mem_mkdir shard reply s op = Some (r, s') \<Longrightarrow>
    mem_step X debug shard R reply s (Mkdir op, replied r) s'"
| step_symlink: "mem_symlink shard reply s op = Some (r, s') \<Longrightarrow>
    mem_step X debug shard R reply s (Symlink op, replied r) s'"
| step_link: "mem_link X debug shard reply s op = Some (r, s') \<Longrightarrow>
    mem_step X debug shard R reply s (Link op, replied r) s'"
| step_unlink: "mem_unlink shard reply s op = Some (r, s') \<Longrightarrow>
    mem_step X debug shard R reply s (Unlink op, replied r) s'"
| step_rmdir: "mem_rmdir shard reply s op = Some (r, s') \<Longrightarrow>
    mem_step X debug shard R reply s (Rmdir op, replied r) s'"
| step_rename: "mem_rename shard reply s op = Some (r, s') \<Longrightarrow>
    mem_step X debug shard R reply s (Rename op, replied r) s'"
| step_getxattr: "mem_getxattr reply s op = Some (r, s') \<Longrightarrow>
    mem_step X debug shard R reply s (Getxattr op, replied r) s'"
| step_setxattr: "mem_setxattr reply s op = Some (r, s') \<Longrightarrow>
    mem_step X debug shard R reply s (Setxattr op, replied r) s'"
| step_listxattr: "mem_listxattr X (map fst xattrs) reply s op = Some (r, s') \<Longrightarrow>
    (\<And>inode. inode_at s (Listxattr_ino op) = Some inode \<Longrightarrow> iterates (inode_xattrs inode) xattrs) \<Longrightarrow>
    mem_step X debug shard R reply s (Listxattr op, replied r) s'"
| step_removexattr: "mem_removexattr reply s op = Some (r, s') \<Longrightarrow>
    mem_step X debug shard R reply s (Removexattr op, replied r) s'"
| step_read: "mem_read reply s op = Some (r, s') \<Longrightarrow>
    mem_step X debug shard R reply s (Read op, replied r) s'"
| step_write: "mem_write X data reply s op = Some (r, s') \<Longrightarrow> keeps_length data \<Longrightarrow>
    (\<And>buf. fst (data buf) \<noteq> Panic) \<Longrightarrow>
    mem_step X debug shard R reply s (Write op, replied r) s'"

inductive_cases mem_stepE: "mem_step X debug shard R reply s e s'"

section \<open>Handlers that keep the names\<close>

definition quiet :: "nat \<Rightarrow> MemFS \<Rightarrow> MemFS \<Rightarrow> bool" where
  "quiet n self self' \<longleftrightarrow> mem_names self' = mem_names self \<and> mem_inv (Suc n) self'"

lemma quiet_same: "mem_inv n self \<Longrightarrow> quiet n self self"
  by (simp add: quiet_def mem_inv_Suc)

lemma quiet_handles: "mem_inv n self \<Longrightarrow> quiet n self (self\<lparr> mem_dir_handles := h \<rparr>)"
  using mem_names_cong [of "self\<lparr> mem_dir_handles := h \<rparr>" self]
  by (simp add: quiet_def mem_inv_handles mem_inv_Suc)

lemma quiet_poison: "quiet n self self' \<Longrightarrow> quiet n self (self'\<lparr> mem_poisoned := b \<rparr>)"
  using mem_names_cong [of "self'\<lparr> mem_poisoned := b \<rparr>" self']
  by (auto simp: quiet_def mem_inv_def)

lemma lock_dir_handles_eq [handler]:
  "lock_dir_handles self body = Some (r, self') \<longleftrightarrow>
     (if mem_poisoned self then r = Panic \<and> self' = self
      else \<exists>s. body = Some (r, s) \<and> self' = (if r = Panic then s\<lparr> mem_poisoned := True \<rparr> else s))"
  by (auto simp: lock_dir_handles_def split: option.split result.split)

lemma quiet_touch:
  assumes inv: "mem_inv n self" and i: "inode_at self i = Some inode" and dir: "as_dir inode' = as_dir inode"
    and "inode_links inode' = inode_links inode" and "unat (inode_refcount inode') \<le> unat (inode_refcount inode) + 1"
    and "FileAttr_nlink (inode_attr inode') = FileAttr_nlink (inode_attr inode)"
    and "\<And>content. as_file inode' = Some content \<Longrightarrow> as_file inode \<noteq> Some content \<Longrightarrow> length content < 2 ^ 63"
  shows "quiet n self (set_inode i inode' self)"
proof -
  have "node_ok (Suc n) (card (refs (mem_names self) i)) i inode'"
    using mem_inv_node [OF inv i] assms(4-7) by (auto simp: node_ok_def)
  with inv i dir show ?thesis by (simp add: quiet_def mem_inv_touch mem_names_touch)
qed

lemma quiet_lookup:
  assumes "mem_lookup X shard reply self op = Some (r, self')" and inv: "mem_inv n self" and "n < 2 ^ 31"
  shows "quiet n self self' \<and> (r = Panic \<longrightarrow> (\<exists>out. reply out = Panic))"
proof -
  have bound: "unat (inode_refcount inode) + 1 < 2 ^ 64" if "inode_at self i = Some inode" for i inode
    using node_okD(3) [OF mem_inv_node [OF inv that]] \<open>n < 2 ^ 31\<close> by simp
  have count: "add_assign X (inode_refcount inode) 1 = Some (inode_refcount inode + 1)"
    "unat (inode_refcount inode + 1) = unat (inode_refcount inode) + 1"
    if "inode_at self i = Some inode" for i inode
    using bound [OF that] by (simp_all add: add_assign_Some unat_add_1)
  have child: "inode_at self i \<noteq> None"
    if "inode_at self p = Some pnode" "as_dir pnode = Some dir" "Mapping.lookup (dir_children dir) x = Some i" for p pnode dir x i
    using mem_inv_names [OF inv, of "(p, x)"] that by (simp add: mem_names_child)
  show ?thesis
    using assms(1) inv
    by (auto simp: mem_lookup_def handler count quiet_same intro!: quiet_touch dest: child)
qed

lemma quiet_simple:
  "mem_getattr reply self op1 = Some (r, self') \<Longrightarrow> self' = self \<and> (r = Panic \<longrightarrow> (\<exists>out. reply out = Panic))"
  "mem_readlink reply self op2 = Some (r, self') \<Longrightarrow> self' = self \<and> (r = Panic \<longrightarrow> (\<exists>out. reply out = Panic))"
  "mem_getxattr reply self op3 = Some (r, self') \<Longrightarrow> self' = self \<and> (r = Panic \<longrightarrow> (\<exists>out. reply out = Panic))"
  "mem_read reply self op4 = Some (r, self') \<Longrightarrow> self' = self \<and> (r = Panic \<longrightarrow> (\<exists>out. reply out = Panic))"
  by (auto simp: mem_getattr_def mem_readlink_def mem_getxattr_def mem_read_def handler Let_def split: if_splits)

lemma quiet_listxattr:
  "mem_listxattr X names reply self op = Some (r, self') \<Longrightarrow>
    self' = self \<and> (r = Panic \<longrightarrow> sum_lengths X names 0 = None \<or> (\<exists>out. reply out = Panic))"
  by (auto simp: mem_listxattr_def handler split: if_splits)

lemma nlink_assign:
  assumes "\<And>x a. FileAttr_nlink (f x a) = FileAttr_nlink a"
  shows "FileAttr_nlink (assign v f attr) = FileAttr_nlink attr"
  using assms by (simp add: assign_def split: option.splits)

lemma nlink_assign_time:
  "assign_time now v f attr = None \<Longrightarrow> now = None"
  "assign_time now v f attr = Some attr' \<Longrightarrow> (\<And>x a. FileAttr_nlink (f x a) = FileAttr_nlink a) \<Longrightarrow>
    FileAttr_nlink attr' = FileAttr_nlink attr"
proof -
  have "to_duration now t = None \<Longrightarrow> now = None" for t by (cases t) simp_all
  then show "assign_time now v f attr = None \<Longrightarrow> now = None"
    by (auto simp: assign_time_def split: option.splits)
qed (auto simp: assign_time_def split: option.splits)

lemma quiet_setattr:
  assumes "mem_setattr now reply self op = Some (r, self')" and inv: "mem_inv n self"
  shows "quiet n self self' \<and> (r = Panic \<longrightarrow> now = None \<or> (\<exists>out. reply out = Panic))"
proof -
  have touch: "quiet n self (set_attr i inode attr self)"
    if "inode_at self i = Some inode" "FileAttr_nlink attr = FileAttr_nlink (inode_attr inode)" for i inode attr
    unfolding set_attr_def by (rule quiet_touch [OF inv that(1)]) (simp_all add: that(2))
  have timed: "assign_time now v (\<lambda>t attr. attr\<lparr> FileAttr_atime := t \<rparr>) a = Some a' \<Longrightarrow> FileAttr_nlink a' = FileAttr_nlink a"
    "assign_time now v (\<lambda>t attr. attr\<lparr> FileAttr_mtime := t \<rparr>) a = Some a' \<Longrightarrow> FileAttr_nlink a' = FileAttr_nlink a"
    for v a a' by - (erule nlink_assign_time(2); simp)+
  show ?thesis
    using assms(1) quiet_same [OF inv]
    by (auto simp: mem_setattr_def handler Let_def nlink_assign timed intro!: touch dest: nlink_assign_time(1))
qed

lemma quiet_dirs:
  "mem_opendir key children reply self op1 = Some (r, self') \<Longrightarrow> mem_inv n self \<Longrightarrow>
    quiet n self self' \<and> (r = Panic \<longrightarrow> mem_poisoned self \<or> (\<exists>out. reply out = Panic))"
  "mem_readdir R reply self op2 = Some (r, self') \<Longrightarrow> mem_inv n self \<Longrightarrow>
    quiet n self self' \<and> (r = Panic \<longrightarrow> mem_poisoned self \<or> (\<exists>out. reply out = Panic))"
  "mem_releasedir reply self op3 = Some (r, self') \<Longrightarrow> mem_inv n self \<Longrightarrow>
    quiet n self self' \<and> (r = Panic \<longrightarrow> mem_poisoned self \<or>
      Mapping.lookup (mem_dir_handles self) (unat (FileID_into_raw (Releasedir_fh op3))) = None \<or>
      (\<exists>out. reply out = Panic))"
  by (auto simp: mem_opendir_def mem_readdir_def mem_releasedir_def handler Let_def
      case_prod_beta intro!: quiet_same quiet_poison quiet_handles split: if_splits)

lemma quiet_xattrs:
  "mem_setxattr reply self op1 = Some (r, self') \<Longrightarrow> mem_inv n self \<Longrightarrow>
    quiet n self self' \<and> (r = Panic \<longrightarrow> (\<exists>out. reply out = Panic))"
  "mem_removexattr reply self op2 = Some (r, self') \<Longrightarrow> mem_inv n self \<Longrightarrow>
    quiet n self self' \<and> (r = Panic \<longrightarrow> (\<exists>out. reply out = Panic))"
  by (auto simp: mem_setxattr_def mem_removexattr_def set_xattrs_def handler Let_def
      intro!: quiet_same quiet_touch split: if_splits option.splits)

text \<open>The file after \<open>write\<close>, when the end of the data can be computed.\<close>

definition mem_resized :: "Write \<Rightarrow> bytes \<Rightarrow> bytes" where
  "mem_resized op content =
     content @ replicate (unat (Write_offset op) + unat (Write_size op) - length content) 0"

definition mem_written :: "Write \<Rightarrow> bytes \<Rightarrow> bytes \<Rightarrow> bytes" where
  "mem_written op content bs =
     take (unat (Write_offset op)) (mem_resized op content) @ bs @
     drop (unat (Write_offset op) + unat (Write_size op)) (mem_resized op content)"

lemma set_inode_twice [simp]: "set_inode i a (set_inode i b s) = set_inode i a s"
  by (simp add: set_inode_def update_update)

lemma unat_ucast_u64: "unat (ucast (x :: u32) :: u64) = unat x"
  using unsigned_less [of x, where 'a = nat] by (simp add: unsigned_ucast_eq take_bit_nat_eq_self)

lemma mem_write_eq:
  assumes i: "inode_at self (Write_ino op) = Some inode" and f: "as_file inode = Some content"
    and len: "length content < 2 ^ 63" and bound: "unat (Write_offset op) + unat (Write_size op) < 2 ^ 63"
    and data: "data (take (unat (Write_size op)) (drop (unat (Write_offset op)) (mem_resized op content))) = (r, bs)"
  shows "mem_write X data reply self op =
    (case r of
       Ok _ \<Rightarrow> Some (reply (Reply_WriteOut (Write_size op)),
         set_inode (Write_ino op) (inode\<lparr> inode_kind := INodeKind_RegularFile (mem_written op content bs),
           inode_attr := (inode_attr inode)\<lparr> FileAttr_size := Write_offset op + ucast (Write_size op) \<rparr> \<rparr>) self)
     | Err e \<Rightarrow> Some (Err e, set_inode (Write_ino op)
         (inode\<lparr> inode_kind := INodeKind_RegularFile (mem_written op content bs) \<rparr>) self)
     | Panic \<Rightarrow> Some (Panic, set_inode (Write_ino op)
         (inode\<lparr> inode_kind := INodeKind_RegularFile (mem_written op content bs) \<rparr>) self))"
proof -
  note n = unat_ucast_u64 [of "Write_size op"]
  have "add_assign X (Write_offset op) (ucast (Write_size op)) = Some (Write_offset op + ucast (Write_size op))"
    using bound by (simp add: add_assign_Some n)
  moreover have "unat (Write_offset op + ucast (Write_size op)) = unat (Write_offset op) + unat (Write_size op)"
    using bound by (simp add: unat_word_ariths n)
  moreover have "content @ replicate (max (length content) (unat (Write_offset op) + unat (Write_size op)) -
      length content) 0 = mem_resized op content" by (simp add: mem_resized_def)
  moreover have "(2 ^ 63 \<le> max (length content) (unat (Write_offset op) + unat (Write_size op))) = False"
    using len bound by simp
  ultimately show ?thesis
    using i f data by (simp add: mem_write_def Let_def mem_written_def split: result.splits)
qed

lemma quiet_write:
  assumes w: "mem_write X data reply self op = Some (r, self')" and inv: "mem_inv n self" and data: "keeps_length data"
  shows "quiet n self self' \<and>
    (r = Panic \<longrightarrow> 2 ^ 63 \<le> unat (Write_offset op) + unat (Write_size op) \<or>
      (\<exists>buf. fst (data buf) = Panic) \<or> (\<exists>out. reply out = Panic))"
proof (cases "\<exists>inode content. inode_at self (Write_ino op) = Some inode \<and> as_file inode = Some content")
  case False
  with w have "self' = self \<and> r \<noteq> Panic" by (auto simp: mem_write_def handler)
  with quiet_same [OF inv] show ?thesis by simp
next
  case True
  then obtain inode content where i: "inode_at self (Write_ino op) = Some inode" and f: "as_file inode = Some content"
    by blast
  have len: "length content < 2 ^ 63" using node_okD(5) [OF mem_inv_node [OF inv i] f] .
  have touch: "quiet n self (set_inode (Write_ino op) (inode\<lparr> inode_kind := INodeKind_RegularFile c \<rparr>) self)"
    "quiet n self (set_inode (Write_ino op) (inode\<lparr> inode_kind := INodeKind_RegularFile c,
      inode_attr := (inode_attr inode)\<lparr> FileAttr_size := sz \<rparr> \<rparr>) self)"
    if "length c < 2 ^ 63" for c sz
    by (rule quiet_touch [OF inv i]; use that as_file_dir [OF f] in simp)+
  let ?m = "unat (Write_offset op) + unat (Write_size op)"
  show ?thesis
  proof (cases "?m < 2 ^ 63")
    case True
    obtain rr bs where d: "data (take (unat (Write_size op)) (drop (unat (Write_offset op)) (mem_resized op content))) = (rr, bs)"
      by fastforce
    have "length bs = min (length (mem_resized op content) - unat (Write_offset op)) (unat (Write_size op))"
      using data d unfolding keeps_length_def by (metis length_drop length_take snd_conv min.commute)
    then have "length (mem_written op content bs) < 2 ^ 63"
      using len True by (simp add: mem_written_def mem_resized_def)
    note t = touch [OF this]
    from w mem_write_eq [where data = data and X = X and reply = reply, OF i f len True d] t show ?thesis
      by (cases rr) (auto intro: exI [where x = "take (unat (Write_size op)) (drop (unat (Write_offset op)) (mem_resized op content))"] simp: d)
  next
    case False
    let ?last = "Write_offset op + ucast (Write_size op)"
    have "unat ?last < unat (Write_offset op)" if "unat ?last < 2 ^ 63"
    proof -
      have last: "unat ?last = ?m mod 2 ^ 64" by (simp add: unat_word_ariths unat_ucast_u64)
      with that False have "2 ^ 64 \<le> ?m" by (cases "?m < 2 ^ 64") simp_all
      moreover have "unat (Write_offset op) < 2 ^ 64" "unat (Write_size op) < 2 ^ 32"
        using unsigned_less [of "Write_offset op", where 'a = nat] unsigned_less [of "Write_size op", where 'a = nat]
        by simp_all
      ultimately have "?m mod 2 ^ 64 = ?m - 2 ^ 64" by (simp add: mod_if)
      with last \<open>unat (Write_size op) < 2 ^ 32\<close> \<open>2 ^ 64 \<le> ?m\<close> show ?thesis by simp
    qed
    moreover have "quiet n self (set_inode (Write_ino op) (inode\<lparr> inode_kind := INodeKind_RegularFile
        (content @ replicate (max (length content) (unat ?last) - length content) 0) \<rparr>) self)"
      if "max (length content) (unat ?last) < 2 ^ 63"
      by (rule touch) (use that in simp)
    ultimately have "quiet n self self'"
      using w i f quiet_same [OF inv]
      by (auto simp: mem_write_def handler Let_def not_le dest!: add_assign_SomeD split: if_splits)
    with False show ?thesis by simp
  qed
qed

section \<open>The contract of the handlers\<close>

text \<open>
  What a request does to the names, as a specification of the filesystem that knows nothing but
  names.
\<close>

definition ns_insert ::
    "(NodeID \<times> bytes \<Rightarrow> NodeID option) \<Rightarrow> NodeID \<times> bytes \<Rightarrow> (NodeID \<times> bytes \<Rightarrow> NodeID option) \<Rightarrow> bool" where
  "ns_insert names k names' \<longleftrightarrow> names k = None \<and>
     (\<exists>i. i \<notin> ran names \<and> (\<forall>y. names (i, y) = None) \<and> names' = names(k \<mapsto> i))"

definition ns_delete ::
    "(NodeID \<times> bytes \<Rightarrow> NodeID option) \<Rightarrow> NodeID \<times> bytes \<Rightarrow> (NodeID \<times> bytes \<Rightarrow> NodeID option) \<Rightarrow> bool" where
  "ns_delete names k names' \<longleftrightarrow>
     (\<exists>i. names k = Some i \<and> (\<forall>y. names (i, y) = None) \<and> names' = names(k := None))"

fun ns_step ::
    "Operation \<Rightarrow> (NodeID \<times> bytes \<Rightarrow> NodeID option) \<Rightarrow> (NodeID \<times> bytes \<Rightarrow> NodeID option) \<Rightarrow> bool" where
  "ns_step (Mknod op) names names' = ns_insert names (Mknod_parent op, Mknod_name op) names'"
| "ns_step (Mkdir op) names names' = ns_insert names (Mkdir_parent op, Mkdir_name op) names'"
| "ns_step (Symlink op) names names' = ns_insert names (Symlink_parent op, Symlink_name op) names'"
| "ns_step (Link op) names names' \<longleftrightarrow>
     names (Link_newparent op, Link_newname op) = None \<and>
     names' = names((Link_newparent op, Link_newname op) \<mapsto> Link_ino op)"
| "ns_step (Unlink op) names names' = ns_delete names (Unlink_parent op, Unlink_name op) names'"
| "ns_step (Rmdir op) names names' = ns_delete names (Rmdir_parent op, Rmdir_name op) names'"
| "ns_step (Rename op) names names' \<longleftrightarrow>
     (\<exists>i. names (Rename_parent op, Rename_name op) = Some i \<and>
       names (Rename_newparent op, Rename_newname op) = None \<and>
       names' = names((Rename_parent op, Rename_name op) := None,
         (Rename_newparent op, Rename_newname op) \<mapsto> i))"
| "ns_step (Forget_op forgets) names names' \<longleftrightarrow>
     (\<forall>d x. names' (d, x) = names (d, x) \<or> names' (d, x) = None \<and> d \<notin> ran names')"
| "ns_step op names names' \<longleftrightarrow> names' = names"

lemma mem_inv_fresh:
  assumes "mem_inv n self" and "inode_at self i = None"
  shows "i \<notin> ran (mem_names self)" "mem_names self (i, y) = None"
  using assms mem_inv_names [OF assms(1)] by (fastforce simp: ran_def mem_names_eq)+

lemma forget_one_names:
  assumes inv: "mem_inv n self"
  shows "ns_step (Forget_op fs) (mem_names self) (mem_names (mem_forget_one i nlookup self))"
proof (cases "mem_names (mem_forget_one i nlookup self) = mem_names self")
  case False
  then obtain inode where i: "inode_at self i = Some inode" "inode_links inode = 0"
    and s: "mem_forget_one i nlookup self = remove_inode i self"
    using mem_names_touch [of self i]
    by (auto simp: mem_forget_one_def Let_def split: option.splits if_splits)
  have "node_ok n (card (refs (mem_names self) i)) i inode" by (rule mem_inv_node [OF inv i(1)])
  then have "card (refs (mem_names self) i) = 0" using node_okD(1) i(2) by fastforce
  then have "refs (mem_names self) i = {}"
    using finite_refs [OF table_invD(1) [OF inv [unfolded mem_inv_def]]] by simp
  then have "i \<notin> ran (mem_names (remove_inode i self))"
    by (auto simp: ran_def refs_def mem_names_remove split: if_splits)
  then show ?thesis by (simp add: s) (simp add: mem_names_remove)
qed simp

lemma forget_names:
  "mem_inv n self \<Longrightarrow> ns_step (Forget_op fs) (mem_names self) (mem_names (snd (mem_forget self forgets)))"
proof (induction self forgets rule: mem_forget.induct)
  case (2 self forget forgets)
  show ?case
  proof (cases "Forget_ino forget :: (io_error, NodeID) result")
    case (Ok ino)
    let ?s = "mem_forget_one ino (Forget_nlookup forget) self"
    let ?s' = "snd (mem_forget ?s forgets)"
    have 1: "ns_step (Forget_op fs) (mem_names self) (mem_names ?s)" by (rule forget_one_names [OF "2.prems"])
    have 2: "ns_step (Forget_op fs) (mem_names ?s) (mem_names ?s')"
      by (rule "2.IH" [OF Ok mem_forget_one_inv [OF "2.prems"]])
    have "ran (mem_names ?s') \<subseteq> ran (mem_names ?s)"
    proof
      fix j assume "j \<in> ran (mem_names ?s')"
      then obtain d x where j: "mem_names ?s' (d, x) = Some j" by (auto simp: ran_def)
      with 2 [unfolded ns_step.simps, rule_format, of d x] have "mem_names ?s (d, x) = Some j" by simp
      then show "j \<in> ran (mem_names ?s)" by (rule ranI)
    qed
    then have "mem_names ?s' (d, x) = mem_names self (d, x) \<or> mem_names ?s' (d, x) = None \<and> d \<notin> ran (mem_names ?s')" for d x
      using 1 [unfolded ns_step.simps, rule_format, of d x] 2 [unfolded ns_step.simps, rule_format, of d x]
      by auto
    then have "ns_step (Forget_op fs) (mem_names self) (mem_names ?s')" by simp
    with Ok show ?thesis by simp
  qed simp_all
qed simp

text \<open>
  The requests that the kernel can be expected to make: they name nodes and open directories, the
  end of the data is an offset in a file, and the list of attributes fits into its length field.
\<close>

fun request_ok :: "MemFS \<Rightarrow> Operation \<Rightarrow> bool" where
  "request_ok self (Forget_op forgets) \<longleftrightarrow>
     (\<forall>forget \<in> set (Forgets_deref forgets). forget_one_nodeid (Forget_raw forget) \<noteq> 0)"
| "request_ok self (Releasedir op) \<longleftrightarrow>
     Mapping.lookup (mem_dir_handles self) (unat (FileID_into_raw (Releasedir_fh op))) \<noteq> None"
| "request_ok self (Link op) \<longleftrightarrow> Link_ino op \<noteq> Link_newparent op"
| "request_ok self (Write op) \<longleftrightarrow> unat (Write_offset op) + unat (Write_size op) < 2 ^ 63"
| "request_ok self (Listxattr op) \<longleftrightarrow>
     (\<forall>inode xattrs. inode_at self (Listxattr_ino op) = Some inode \<longrightarrow> iterates (inode_xattrs inode) xattrs \<longrightarrow>
       (\<Sum>name \<leftarrow> map fst xattrs. length name + 1) < 2 ^ 32)"
| "request_ok self op \<longleftrightarrow> True"

lemma fresh_nodes:
  "fresh_node \<lparr> inode_attr = FileAttr_new\<lparr> FileAttr_ino := i, FileAttr_nlink := 1, FileAttr_mode := m \<rparr>,
     inode_xattrs = Mapping.empty, inode_refcount = 1, inode_links = 1, inode_kind = INodeKind_RegularFile [] \<rparr>"
  "fresh_node \<lparr> inode_attr = FileAttr_new\<lparr> FileAttr_ino := i, FileAttr_nlink := 1, FileAttr_mode := m \<rparr>,
     inode_xattrs = Mapping.empty, inode_refcount = 1, inode_links = 1, inode_kind = INodeKind_Symlink link \<rparr>"
  "fresh_node \<lparr> inode_attr = FileAttr_new\<lparr> FileAttr_ino := i, FileAttr_nlink := 2, FileAttr_mode := m \<rparr>,
     inode_xattrs = Mapping.empty, inode_refcount = 1, inode_links = 1,
     inode_kind = INodeKind_Directory \<lparr> dir_children = Mapping.empty, dir_parent = p \<rparr> \<rparr>"
  by (simp_all add: fresh_node_def no_children_def as_dir_def as_file_def)

lemma then_reply_eq [handler]:
  "then_reply h reply = Some (r, self') \<longleftrightarrow> (\<exists>r0. h = Some (r0, self') \<and> r = and_then r0 reply)"
  by (auto simp: then_reply_def)

lemma make_node_inv:
  assumes "make_node shard p x f self = Some (r, self')" and inv: "mem_inv n self" and "n < 2 ^ 31"
    and "\<And>i. fresh_node (f i)"
  shows "mem_inv (Suc n) self' \<and> r \<noteq> Panic"
  using assms by (cases rule: make_node_cases) (simp_all add: mem_inv_Suc [OF inv])

lemma unlink_node_inv:
  assumes "unlink_node shard p x self = Some (r, self')" and inv: "mem_inv n self"
  shows "mem_inv (Suc n) self' \<and> r \<noteq> Panic"
  using assms by (cases rule: unlink_node_cases) (simp_all add: mem_inv_Suc [OF inv])

lemma mem_link_inv:
  assumes "mem_link X debug shard reply self op = Some (r, self')" and inv: "mem_inv n self" and "n < 2 ^ 31"
  shows "mem_inv (Suc n) self' \<and> (r = Panic \<longrightarrow> Link_ino op = Link_newparent op \<or> (\<exists>out. reply out = Panic))"
  using assms by (cases rule: mem_link_cases) (auto simp: mem_inv_Suc [OF inv])

lemma mem_rename_inv:
  assumes "mem_rename shard reply self op = Some (r, self')" and inv: "mem_inv n self"
  shows "mem_inv (Suc n) self' \<and> (r = Panic \<longrightarrow> (\<exists>out. reply out = Panic))"
  using assms by (cases rule: mem_rename_cases) (auto simp: mem_inv_Suc [OF inv])

lemma quiet_inv: "quiet n self self' \<Longrightarrow> mem_inv (Suc n) self'"
  by (simp add: quiet_def)

text \<open>Every step keeps the invariant.\<close>

lemma mem_step_inv:
  assumes "mem_step X debug shard R reply s e s'" and inv: "mem_inv n s" and n: "n < 2 ^ 31"
  shows "mem_inv (Suc n) s'"
  using assms(1)
proof (cases rule: mem_step.cases)
  case (step_forget forgets r)
  then show ?thesis using mem_forget_inv [OF inv, of "Forgets_deref forgets"] by (simp add: mem_inv_Suc)
next
  case (step_mknod op r)
  then show ?thesis
    using mem_inv_Suc [OF inv]
    by (auto simp: mem_mknod_def handler split: if_splits dest: make_node_inv [OF _ inv n fresh_nodes(1)])
next
  case (step_mkdir op r)
  then show ?thesis by (auto simp: mem_mkdir_def handler dest: make_node_inv [OF _ inv n fresh_nodes(3)])
next
  case (step_symlink op r)
  then show ?thesis by (auto simp: mem_symlink_def handler dest: make_node_inv [OF _ inv n fresh_nodes(2)])
next
  case (step_unlink op r)
  then show ?thesis by (auto simp: mem_unlink_def handler dest: unlink_node_inv [OF _ inv])
next
  case (step_rmdir op r)
  then show ?thesis by (auto simp: mem_rmdir_def handler dest: unlink_node_inv [OF _ inv])
next
  case (step_lookup op r)
  then show ?thesis using quiet_lookup [OF _ inv n] quiet_inv by blast
next
  case (step_getattr op r)
  then show ?thesis using quiet_simple(1) mem_inv_Suc [OF inv] by blast
next
  case (step_setattr now op r)
  then show ?thesis using quiet_setattr [OF _ inv] quiet_inv by blast
next
  case (step_readlink op r)
  then show ?thesis using quiet_simple(2) mem_inv_Suc [OF inv] by blast
next
  case (step_opendir key children op r)
  then show ?thesis using quiet_dirs(1) [OF _ inv] quiet_inv by blast
next
  case (step_readdir op r)
  then show ?thesis using quiet_dirs(2) [OF _ inv] quiet_inv by blast
next
  case (step_releasedir op r)
  then show ?thesis using quiet_dirs(3) [OF _ inv] quiet_inv by blast
next
  case (step_link op r)
  then show ?thesis using mem_link_inv [OF _ inv n] by blast
next
  case (step_rename op r)
  then show ?thesis using mem_rename_inv [OF _ inv] by blast
next
  case (step_getxattr op r)
  then show ?thesis using quiet_simple(3) mem_inv_Suc [OF inv] by blast
next
  case (step_setxattr op r)
  then show ?thesis using quiet_xattrs(1) [OF _ inv] quiet_inv by blast
next
  case (step_listxattr xattrs op r)
  then show ?thesis using quiet_listxattr mem_inv_Suc [OF inv] by blast
next
  case (step_removexattr op r)
  then show ?thesis using quiet_xattrs(2) [OF _ inv] quiet_inv by blast
next
  case (step_read op r)
  then show ?thesis using quiet_simple(4) mem_inv_Suc [OF inv] by blast
next
  case (step_write data op r)
  then show ?thesis using quiet_write [OF _ inv] quiet_inv by blast
qed

interpretation memfs: counted_machine "mem_step X debug shard R reply" mem_inv "2 ^ 31"
  for X debug shard R reply
  by unfold_locales (rule mem_step_inv)

lemma sum_lengths_fits:
  "unat acc + (\<Sum>name \<leftarrow> names. length name + 1) < 2 ^ 32 \<Longrightarrow> sum_lengths X names acc \<noteq> None"
proof (induction names arbitrary: acc)
  case (Cons name names)
  then have len: "unat (of_nat (length name) :: u32) = length name"
    by (simp add: unsigned_of_nat take_bit_nat_eq_self)
  have 1: "add_assign X (of_nat (length name) :: u32) 1 = Some (of_nat (length name) + 1)"
    "unat (of_nat (length name) + 1 :: u32) = length name + 1"
    using Cons.prems len by (simp_all add: add_assign_Some unat_add_1)
  have 2: "add_assign X acc (of_nat (length name) + 1) = Some (acc + (of_nat (length name) + 1))"
    using Cons.prems 1(2) by (intro add_assign_Some) simp
  have "unat (acc + (of_nat (length name) + 1)) = unat acc + (length name + 1)"
    using Cons.prems 1(2) by (simp add: unat_word_ariths(1))
  with Cons.IH [of "acc + (of_nat (length name) + 1)"] Cons.prems show ?case
    by (simp only: sum_lengths.simps 1 2 option.case) simp
qed simp

lemma mem_forget_no_panic:
  "(\<forall>forget \<in> set forgets. forget_one_nodeid (Forget_raw forget) \<noteq> 0) \<Longrightarrow> fst (mem_forget self forgets) = Ok ()"
proof (induction self forgets rule: mem_forget.induct)
  case (2 self forget forgets)
  then obtain ino where "NodeID_from_raw (forget_one_nodeid (Forget_raw forget)) = Some ino"
    by (cases "NodeID_from_raw (forget_one_nodeid (Forget_raw forget))") (auto simp: NodeID_from_raw_None)
  then have "(Forget_ino forget :: (io_error, NodeID) result) = Ok ino" by (simp add: Forget_ino_def)
  with 2 show ?case by simp
qed simp

lemma replied_Panic: "replied r = Panic \<longleftrightarrow> r = Panic"
  by (cases r) (simp_all add: replied_def)

text \<open>The mutex is poisoned by nothing but a panic.\<close>

lemma poisoned_vacant: "vacant_entry shard held self = Some (r, self') \<Longrightarrow> mem_poisoned self' = mem_poisoned self"
  by (auto simp: vacant_entry_def handler Let_def)

lemma poisoned_make_node: "make_node shard p x f self = Some (r, self') \<Longrightarrow> mem_poisoned self' = mem_poisoned self"
  by (auto simp: make_node_def or_err_def Let_def dest!: poisoned_vacant
      split: if_splits option.splits result.splits)

lemma poisoned_unlink_node: "unlink_node shard p x self = Some (r, self') \<Longrightarrow> mem_poisoned self' = mem_poisoned self"
  by (auto simp: unlink_node_def handler Let_def split: if_splits)

lemma poisoned_forget_one [simp]: "mem_poisoned (mem_forget_one ino c self) = mem_poisoned self"
  by (simp add: mem_forget_one_def Let_def split: option.split)

lemma poisoned_forget: "mem_forget self forgets = (r, self') \<Longrightarrow> mem_poisoned self' = mem_poisoned self"
  by (induction self forgets rule: mem_forget.induct) (auto split: result.splits)

lemma mem_step_poisoned:
  assumes "mem_step X debug shard R reply s (op, r) s'" and "\<not> mem_poisoned s" and "r \<noteq> Panic"
  shows "\<not> mem_poisoned s'"
  using assms
  by (cases rule: mem_step.cases)
    (auto simp: mem_lookup_def mem_getattr_def mem_setattr_def set_attr_def mem_readlink_def mem_opendir_def
      mem_readdir_def mem_releasedir_def mem_mknod_def mem_mkdir_def mem_symlink_def mem_link_def mem_unlink_def
      mem_rmdir_def mem_rename_def mem_getxattr_def mem_setxattr_def set_xattrs_def mem_listxattr_def
      mem_removexattr_def mem_read_def mem_write_def handler Let_def replied_Panic case_prod_beta
      dest: poisoned_make_node poisoned_unlink_node poisoned_forget split: if_splits option.splits result.splits)

lemma mem_step_no_panic:
  assumes "mem_step X debug shard R reply s (op, r) s'" and inv: "mem_inv n s" and n: "n < 2 ^ 31"
    and ok: "request_ok s op" and reply: "\<And>out. reply out \<noteq> Panic" and lock: "\<not> mem_poisoned s"
  shows "r \<noteq> Panic"
  using assms(1)
proof (cases rule: mem_step.cases)
  case (step_lookup op' r')
  then show ?thesis using quiet_lookup [OF step_lookup(3) inv n] reply by (auto simp: replied_Panic)
next
  case (step_forget forgets r)
  with ok mem_forget_no_panic [of "Forgets_deref forgets" s] show ?thesis by simp
next
  case (step_getattr op' r')
  then show ?thesis using quiet_simple(1) [OF step_getattr(3)] reply by (auto simp: replied_Panic)
next
  case (step_setattr now op' r')
  then show ?thesis using quiet_setattr [OF step_setattr(3) inv] reply by (auto simp: replied_Panic)
next
  case (step_readlink op' r')
  then show ?thesis using quiet_simple(2) [OF step_readlink(3)] reply by (auto simp: replied_Panic)
next
  case (step_opendir key children op' r')
  then show ?thesis using quiet_dirs(1) [OF step_opendir(3) inv] reply lock by (auto simp: replied_Panic)
next
  case (step_readdir op' r')
  then show ?thesis using quiet_dirs(2) [OF step_readdir(3) inv] reply lock by (auto simp: replied_Panic)
next
  case (step_releasedir op' r')
  then show ?thesis using quiet_dirs(3) [OF step_releasedir(3) inv] reply lock ok by (auto simp: replied_Panic)
next
  case (step_mknod op' r')
  then show ?thesis using reply
    by (auto simp: replied_Panic mem_mknod_def handler result_eqs split: if_splits dest: make_node_inv [OF _ inv n fresh_nodes(1)])
next
  case (step_mkdir op' r')
  then show ?thesis using reply
    by (auto simp: replied_Panic mem_mkdir_def handler result_eqs dest: make_node_inv [OF _ inv n fresh_nodes(3)])
next
  case (step_symlink op' r')
  then show ?thesis using reply
    by (auto simp: replied_Panic mem_symlink_def handler result_eqs dest: make_node_inv [OF _ inv n fresh_nodes(2)])
next
  case (step_link op' r')
  then show ?thesis using mem_link_inv [OF step_link(3) inv n] ok reply by (auto simp: replied_Panic)
next
  case (step_unlink op' r')
  then show ?thesis using reply
    by (auto simp: replied_Panic mem_unlink_def handler result_eqs dest: unlink_node_inv [OF _ inv])
next
  case (step_rmdir op' r')
  then show ?thesis using reply
    by (auto simp: replied_Panic mem_rmdir_def handler result_eqs dest: unlink_node_inv [OF _ inv])
next
  case (step_rename op' r')
  then show ?thesis using mem_rename_inv [OF step_rename(3) inv] reply by (auto simp: replied_Panic)
next
  case (step_getxattr op' r')
  then show ?thesis using quiet_simple(3) [OF step_getxattr(3)] reply by (auto simp: replied_Panic)
next
  case (step_setxattr op' r')
  then show ?thesis using quiet_xattrs(1) [OF step_setxattr(3) inv] reply by (auto simp: replied_Panic)
next
  case (step_listxattr xattrs op' r')
  have "r' \<noteq> Panic"
  proof (cases "inode_at s (Listxattr_ino op')")
    case None
    with step_listxattr(3) show ?thesis by (auto simp: mem_listxattr_def)
  next
    case (Some inode)
    with step_listxattr(1,4) ok have "sum_lengths X (map fst xattrs) 0 \<noteq> None"
      by (intro sum_lengths_fits) simp
    with quiet_listxattr [OF step_listxattr(3)] reply show ?thesis by blast
  qed
  with step_listxattr show ?thesis by (simp add: replied_Panic)
next
  case (step_removexattr op' r')
  then show ?thesis using quiet_xattrs(2) [OF step_removexattr(3) inv] reply by (auto simp: replied_Panic)
next
  case (step_read op' r')
  then show ?thesis using quiet_simple(4) [OF step_read(3)] reply by (auto simp: replied_Panic)
next
  case (step_write data op' r')
  then show ?thesis using quiet_write [OF step_write(3) inv step_write(4)] ok reply by (auto simp: replied_Panic)
qed

text \<open>A run in which all requests are of that kind; the mutex is never poisoned in it.\<close>

abbreviation mem_step_ok ::
    "extern \<Rightarrow> bool \<Rightarrow> shards \<Rightarrow> 'b ReaddirOut \<Rightarrow> ('b, 'r) req_reply \<Rightarrow> MemFS \<Rightarrow> 'r mem_event \<Rightarrow> MemFS \<Rightarrow> bool" where
  "mem_step_ok X debug shard R reply s e s' \<equiv> mem_step X debug shard R reply s e s' \<and> request_ok s (fst e)"

lemma mem_run_no_panic:
  assumes "run_of (mem_step_ok X debug shard R reply) s es s'" and "mem_inv 0 s" and "\<not> mem_poisoned s"
    and "length es \<le> 2 ^ 31" and reply: "\<And>out. reply out \<noteq> Panic"
  shows "mem_inv (length es) s' \<and> \<not> mem_poisoned s' \<and> list_all (\<lambda>(op, r). r \<noteq> Panic) es"
  using assms(1-4)
proof (induction rule: run_of.induct)
  case (run_step s es s' e s'')
  obtain op r where e: "e = (op, r)" by (cases e)
  from run_step have IH: "mem_inv (length es) s'" "\<not> mem_poisoned s'" "list_all (\<lambda>(op, r). r \<noteq> Panic) es"
    and n: "length es < 2 ^ 31" by simp_all
  from run_step.hyps(2) have step: "mem_step X debug shard R reply s' (op, r) s''" "request_ok s' op"
    by (simp_all add: e)
  have "r \<noteq> Panic" by (rule mem_step_no_panic [OF step(1) IH(1) n step(2) reply IH(2)])
  with IH(3) mem_step_inv [OF step(1) IH(1) n] mem_step_poisoned [OF step(1) IH(2)] show ?case
    by (simp add: e)
qed simp

text \<open>What a request does to the names, when replies can be sent.\<close>

definition names_contract ::
    "Operation \<Rightarrow> (io_error, 'r) result \<Rightarrow> MemFS \<Rightarrow> MemFS \<Rightarrow> bool" where
  "names_contract op r s s' \<longleftrightarrow>
     (case r of
        Ok _ \<Rightarrow> ns_step op (mem_names s) (mem_names s')
      | Err _ \<Rightarrow> mem_names s' = mem_names s
      | Panic \<Rightarrow> True)"

lemma names_contract_same:
  "mem_names s' = mem_names s \<Longrightarrow> (\<And>names. ns_step op names names) \<Longrightarrow> names_contract op r s s'"
  by (simp add: names_contract_def split: result.splits)

lemma names_contract_make_node:
  assumes "make_node shard p x f s = Some (r, s')" and inv: "mem_inv n s" and "n < 2 ^ 31"
    and "\<And>i. fresh_node (f i)" and "\<And>names names'. ns_step op names names' = ns_insert names (p, x) names'"
    and "r0 = and_then r (\<lambda>out. Ok (g out))"
  shows "names_contract op r0 s s'"
  using assms(1-4)
proof (cases rule: make_node_cases)
  case (2 i)
  have "ns_insert (mem_names s) (p, x) (mem_names s')"
    unfolding ns_insert_def using 2(4,5) mem_inv_fresh [OF inv 2(2)] by blast
  with 2(1) assms(5,6) show ?thesis by (simp add: names_contract_def)
qed (simp add: names_contract_def assms(6))

lemma names_contract_unlink_node:
  assumes "unlink_node shard p x s = Some (r, s')" and inv: "mem_inv n s"
    and "\<And>names names'. ns_step op names names' = ns_delete names (p, x) names'"
    and "r0 = and_then r (\<lambda>out. Ok (g out))"
  shows "names_contract op r0 s s'"
  using assms(1,2)
proof (cases rule: unlink_node_cases)
  case (2 i inode)
  have "ns_delete (mem_names s) (p, x) (mem_names s')"
    unfolding ns_delete_def using 2(2,4,5) by blast
  with 2(1) assms(3,4) show ?thesis by (simp add: names_contract_def)
qed (simp add: names_contract_def assms(4))

lemma and_then_assoc: "and_then (and_then r f) g = and_then r (\<lambda>x. and_then (f x) g)"
  by (cases r) simp_all

lemma mem_step_names:
  assumes "mem_step X debug shard R (\<lambda>out. Ok (g out)) s (op, r) s'" and inv: "mem_inv n s" and n: "n < 2 ^ 31"
  shows "names_contract op r s s'"
  using assms(1)
proof (cases rule: mem_step.cases)
  case (step_lookup op' r')
  with quiet_lookup [OF step_lookup(3) inv n] show ?thesis by (simp add: quiet_def names_contract_same)
next
  case (step_forget forgets r')
  have "ns_step op (mem_names s) (mem_names s')"
    using forget_names [OF inv, of forgets "Forgets_deref forgets"] step_forget(1,3) by simp
  moreover have "fst (mem_forget self fs) \<noteq> Err e" for self fs e
    by (induction self fs rule: mem_forget.induct) (auto simp: Forget_ino_def expect_eq split: result.splits)
  then have "r' \<noteq> Err e" for e using step_forget(3) by (metis fst_conv)
  ultimately show ?thesis using step_forget(2) by (cases r') (auto simp: names_contract_def)
next
  case (step_getattr op' r')
  with quiet_simple(1) [OF step_getattr(3)] show ?thesis by (simp add: names_contract_same)
next
  case (step_setattr now op' r')
  with quiet_setattr [OF step_setattr(3) inv] show ?thesis by (simp add: quiet_def names_contract_same)
next
  case (step_readlink op' r')
  with quiet_simple(2) [OF step_readlink(3)] show ?thesis by (simp add: names_contract_same)
next
  case (step_opendir key children op' r')
  with quiet_dirs(1) [OF step_opendir(3) inv] show ?thesis by (simp add: quiet_def names_contract_same)
next
  case (step_readdir op' r')
  with quiet_dirs(2) [OF step_readdir(3) inv] show ?thesis by (simp add: quiet_def names_contract_same)
next
  case (step_releasedir op' r')
  with quiet_dirs(3) [OF step_releasedir(3) inv] show ?thesis by (simp add: quiet_def names_contract_same)
next
  case (step_mknod op' r')
  then show ?thesis
    by (auto simp: mem_mknod_def handler replied_def and_then_assoc names_contract_def [of _ "Err _"]
        split: if_splits intro: names_contract_make_node [OF _ inv n fresh_nodes(1)])
next
  case (step_mkdir op' r')
  then show ?thesis
    by (auto simp: mem_mkdir_def handler replied_def and_then_assoc
        intro: names_contract_make_node [OF _ inv n fresh_nodes(3)])
next
  case (step_symlink op' r')
  then show ?thesis
    by (auto simp: mem_symlink_def handler replied_def and_then_assoc
        intro: names_contract_make_node [OF _ inv n fresh_nodes(2)])
next
  case (step_link op' r')
  from step_link(3) inv n show ?thesis
    by (cases rule: mem_link_cases) (simp_all add: step_link(1,2) replied_def names_contract_def)
next
  case (step_unlink op' r')
  then show ?thesis
    by (auto simp: mem_unlink_def handler replied_def and_then_assoc
        intro: names_contract_unlink_node [OF _ inv])
next
  case (step_rmdir op' r')
  then show ?thesis
    by (auto simp: mem_rmdir_def handler replied_def and_then_assoc
        intro: names_contract_unlink_node [OF _ inv])
next
  case (step_rename op' r')
  from step_rename(3) inv show ?thesis
    by (cases rule: mem_rename_cases) (auto simp: step_rename(1,2) replied_def names_contract_def)
next
  case (step_getxattr op' r')
  with quiet_simple(3) [OF step_getxattr(3)] show ?thesis by (simp add: names_contract_same)
next
  case (step_setxattr op' r')
  with quiet_xattrs(1) [OF step_setxattr(3) inv] show ?thesis by (simp add: quiet_def names_contract_same)
next
  case (step_listxattr xattrs op' r')
  with quiet_listxattr [OF step_listxattr(3)] show ?thesis by (simp add: names_contract_same)
next
  case (step_removexattr op' r')
  with quiet_xattrs(2) [OF step_removexattr(3) inv] show ?thesis by (simp add: quiet_def names_contract_same)
next
  case (step_read op' r')
  with quiet_simple(4) [OF step_read(3)] show ?thesis by (simp add: names_contract_same)
next
  case (step_write data op' r')
  with quiet_write [OF step_write(3) inv step_write(4)] show ?thesis by (simp add: quiet_def names_contract_same)
qed

end
