(* ===== verification/Memfs_Props.thy ===== *)
theory Memfs_Props
  imports Memfs_Inv
begin

text \<open>
  Properties of the in-memory filesystem: what holds in every state it can reach, what requests do
  to the names of files, contents and attributes, and where it deviates from what a filesystem
  is expected to do.
\<close>

section \<open>Examples\<close>

text \<open>A filesystem whose nodes are all in different shards, and which records the replies.\<close>

definition own_shard :: shards where
  "own_shard ino = unat (NodeID_into_raw ino)"

definition mem_initial :: MemFS where
  "mem_initial = set_inode NodeID_ROOT mem_root
     (MemFS_empty\<lparr> mem_inodes := mem_INodeTable_new\<lparr> tbl_next_ino := 2 \<rparr> \<rparr>)"

definition node2 :: NodeID where
  "node2 = NodeID_from_raw_unchecked 2"

definition mknod_a :: Mknod where
  "mknod_a = \<lparr> Mknod_parent = NodeID_ROOT, Mknod_name = [97], Mknod_mode = FileMode_new Regular 0,
     Mknod_rdev = DeviceID_from_kernel_dev 0, Mknod_umask = 0 \<rparr>"

definition node_a :: mem_INode where
  "node_a = \<lparr> inode_attr = FileAttr_new
       \<lparr> FileAttr_ino := node2, FileAttr_nlink := 1, FileAttr_mode := FileMode_new Regular 0 \<rparr>,
     inode_xattrs = Mapping.empty, inode_refcount = 1, inode_links = 1,
     inode_kind = INodeKind_RegularFile [] \<rparr>"

definition root_with_a :: mem_INode where
  "root_with_a = mem_root\<lparr> inode_kind := INodeKind_Directory
     \<lparr> dir_children = Mapping.update [97] node2 Mapping.empty, dir_parent = None \<rparr> \<rparr>"

definition mem_with_a :: MemFS where
  "mem_with_a = set_inode node2 node_a (set_inode NodeID_ROOT root_with_a
     (mem_initial\<lparr> mem_inodes := (mem_inodes mem_initial)\<lparr> tbl_next_ino := 3 \<rparr> \<rparr>))"

definition mem_with_file :: MemFS where
  "mem_with_file = set_inode node2 (node_a\<lparr> inode_kind := INodeKind_RegularFile [1, 2, 3, 4] \<rparr>) mem_with_a"

definition write_a :: Write where
  "write_a = \<lparr> Write_ino = node2, Write_fh = FileID 0, Write_offset = 1, Write_size = 1,
     Write_options = OpenOptions_from_raw 0, Write_lock_owner = None, Write_flags = 0 \<rparr>"

section \<open>Lemmas\<close>

lemma MemFS_new_eq: "MemFS_new shard = Some (Ok (), mem_initial)"
  by (simp add: MemFS_new_def vacant_entry_def MemFS_empty_def mem_INodeTable_new_def lock_write_def
      mem_initial_def)

lemma mem_initial_inv: "mem_inv 0 mem_initial"
proof -
  have names: "mem_names mem_initial = Map.empty"
    by (auto simp: fun_eq_iff mem_names_eq mem_initial_def MemFS_empty_def mem_INodeTable_new_def
        mem_root_def as_dir_def)
  have div: "(- 1 :: u64) div 2 = 2 ^ 63 - 1" by simp
  have "node_ok 0 0 NodeID_ROOT mem_root"
    by (simp add: node_ok_def mem_root_def as_file_def div)
  moreover have "as_dir mem_root \<noteq> None" by (simp add: as_dir_def mem_root_def)
  ultimately show ?thesis
    unfolding mem_inv_def names
    by (intro table_invI)
      (auto simp: mem_initial_def MemFS_empty_def mem_INodeTable_new_def refs_def split: if_splits)
qed

lemma mem_run_inv:
  assumes "MemFS_new shard = Some (Ok (), s0)" and "run_of (mem_step X debug shard R reply) s0 es s"
    and "length es \<le> 2 ^ 31"
  shows "mem_inv (length es) s"
proof -
  have "s0 = mem_initial" using assms(1) by (simp add: MemFS_new_eq)
  with memfs.run_inv [OF assms(2)] assms(3) mem_initial_inv show ?thesis by simp
qed

lemma node2_simps [simp]:
  "NodeID_from_raw 2 = Some node2" "NodeID_into_raw node2 = 2" "node2 \<noteq> NodeID_ROOT" "NodeID_ROOT \<noteq> node2"
proof -
  show 1: "NodeID_from_raw 2 = Some node2" by (simp add: NodeID_from_raw_def node2_def)
  then show 2: "NodeID_into_raw node2 = 2" by (simp add: NodeID_from_raw_Some)
  have "NodeID_into_raw node2 \<noteq> NodeID_into_raw NodeID_ROOT" by (simp add: 2)
  then show "node2 \<noteq> NodeID_ROOT" "NodeID_ROOT \<noteq> node2" by metis+
qed

lemma mknod_a_eq:
  "mem_mknod own_shard (\<lambda>out. Ok out) mem_initial mknod_a =
    Some (Ok (Reply_EntryOut \<lparr> EntryOut_ino = Some node2, EntryOut_attr = inode_attr node_a,
        EntryOut_generation = 0, EntryOut_entry_valid = Some (mem_ttl mem_initial), EntryOut_attr_valid = None \<rparr>),
      mem_with_a)"
proof -
  have regular: "FileMode_file_type (FileMode_new Regular 0) = Some Regular"
    by (simp add: FileMode_file_type_def FileMode_new_def FileType_from_raw_def libc_const)
  show ?thesis
    by (simp add: mem_mknod_def mknod_a_def regular then_reply_def make_node_def vacant_entry_def lock_write_def
        own_shard_def mem_initial_def MemFS_empty_def mem_INodeTable_new_def set_inode_def mem_root_def as_dir_def
        set_children_def node_a_def root_with_a_def mem_with_a_def)
qed

definition mknod_a_event :: "unit fs_reply mem_event" where
  "mknod_a_event = (Mknod mknod_a, Ok (Some (Reply_EntryOut
     \<lparr> EntryOut_ino = Some node2, EntryOut_attr = inode_attr node_a, EntryOut_generation = 0,
       EntryOut_entry_valid = Some (mem_ttl mem_initial), EntryOut_attr_valid = None \<rparr>)))"

lemma mknod_a_step:
  "mem_step X debug own_shard R (\<lambda>out. Ok out) mem_initial
     (Mknod mknod_a, Ok (Some (Reply_EntryOut
        \<lparr> EntryOut_ino = Some node2, EntryOut_attr = inode_attr node_a, EntryOut_generation = 0,
          EntryOut_entry_valid = Some (mem_ttl mem_initial), EntryOut_attr_valid = None \<rparr>))) mem_with_a"
  using step_mknod [OF mknod_a_eq] by (simp add: replied_def)

lemma mknod_a_run:
  "run_of (mem_step X debug own_shard R (\<lambda>out. Ok out)) mem_initial ([] @ [(Mknod mknod_a,
     Ok (Some (Reply_EntryOut
        \<lparr> EntryOut_ino = Some node2, EntryOut_attr = inode_attr node_a, EntryOut_generation = 0,
          EntryOut_entry_valid = Some (mem_ttl mem_initial), EntryOut_attr_valid = None \<rparr>)))]) mem_with_a"
  by (rule run_step, rule run_Nil, rule mknod_a_step)

section \<open>Properties\<close>

text \<open>C10: In every state that the filesystem reaches within 2^31 requests, in any order and with any
  arguments, every name in a directory leads to a node of the table, a node is in the table as
  long as there are names for it since its link count is at least their number, and the root is
  there and is a directory.
\<close>

theorem memfs_run_invariant:
  assumes "MemFS_new shard = Some (Ok (), s0)" and "run_of (mem_step X debug shard R reply) s0 es s"
    and "length es \<le> 2 ^ 31"
  shows "(\<forall>k i. mem_names s k = Some i \<longrightarrow> (\<exists>inode. inode_at s i = Some inode \<and>
      card {k. mem_names s k = Some i} \<le> unat (inode_links inode))) \<and>
    (\<exists>inode dir. inode_at s NodeID_ROOT = Some inode \<and> as_dir inode = Some dir)"
proof -
  note inv = mem_run_inv [OF assms]
  have "\<exists>inode. inode_at s i = Some inode \<and> card {k. mem_names s k = Some i} \<le> unat (inode_links inode)"
    if k: "mem_names s k = Some i" for k i
  proof -
    obtain inode where i: "inode_at s i = Some inode" using mem_inv_names [OF inv k] by blast
    with node_okD(1) [OF mem_inv_node [OF inv i]] show ?thesis by (simp add: refs_def)
  qed
  with table_invD(5) [OF inv [unfolded mem_inv_def]] show ?thesis by auto
qed

theorem memfs_run_invariant_witness:
  "mem_names mem_with_a (NodeID_ROOT, [97]) = Some node2 \<and>
    (\<exists>inode. inode_at mem_with_a node2 = Some inode \<and>
      card {k. mem_names mem_with_a k = Some node2} \<le> unat (inode_links inode))"
proof -
  have "mem_names mem_with_a (NodeID_ROOT, [97]) = Some node2"
    by (simp add: mem_names_eq mem_with_a_def root_with_a_def as_dir_def)
  with memfs_run_invariant [OF MemFS_new_eq mknod_a_run [of linux_extern True no_readdir]] show ?thesis by simp
qed

text \<open>C20: No request makes the filesystem panic, in any sequence of up to 2^31 requests that the kernel can
  make (they name nodes, and directories that are open; no node is linked into itself; the end of written data
  is an offset in a file; and a list of attributes fits into its length field), with a clock that
  is not set before 1970 and replies that do not panic: the nodes that \<open>lookup\<close> and \<open>unlink_node\<close>
  take for granted are there, no inode number is assigned twice, no counter overflows, and the
  mutex of the open directories is never poisoned.
\<close>

theorem memfs_no_panic:
  assumes "MemFS_new shard = Some (Ok (), s0)" and "run_of (mem_step_ok X debug shard R reply) s0 es s"
    and "length es \<le> 2 ^ 31" and "\<forall>out. reply out \<noteq> Panic"
  shows "list_all (\<lambda>(op, r). r \<noteq> Panic) es \<and> \<not> mem_poisoned s"
proof -
  have "s0 = mem_initial" using assms(1) by (simp add: MemFS_new_eq)
  moreover have "\<not> mem_poisoned mem_initial" by (simp add: mem_initial_def MemFS_empty_def)
  ultimately show ?thesis
    using mem_run_no_panic [OF assms(2) _ _ assms(3)] mem_initial_inv assms(4) by blast
qed

theorem memfs_no_panic_witness:
  "run_of (mem_step_ok linux_extern True own_shard no_readdir (\<lambda>out. Ok out)) mem_initial ([] @ [mknod_a_event])
      mem_with_a \<and>
    list_all (\<lambda>(op, r). r \<noteq> Panic) ([] @ [mknod_a_event]) \<and> \<not> mem_poisoned mem_with_a"
proof -
  have run: "run_of (mem_step_ok linux_extern True own_shard no_readdir (\<lambda>out. Ok out)) mem_initial
      ([] @ [mknod_a_event]) mem_with_a"
    by (rule run_step, rule run_Nil)
      (use mknod_a_step [of linux_extern True no_readdir] in \<open>simp add: mknod_a_event_def\<close>)
  have "length ([] @ [mknod_a_event]) \<le> 2 ^ 31" by simp
  with run memfs_no_panic [OF MemFS_new_eq run] show ?thesis by simp
qed

text \<open>C6: Refinement of a specification that knows nothing but names: a request that is answered does to
  the names what the specification says of it (a new name for a new node, or for an existing one, a name
  removed that leads to no full directory, a name moved, names lost with a
  forgotten directory to which no name leads, or nothing), and one that fails leaves them as they are. Replies can always be sent.
\<close>

theorem memfs_refines_names:
  assumes "MemFS_new shard = Some (Ok (), s0)"
    and "run_of (mem_step X debug shard R (\<lambda>out. Ok (answer out))) s0 es s"
    and "length es < 2 ^ 31" and "mem_step X debug shard R (\<lambda>out. Ok (answer out)) s (op, r) s'"
  shows "case r of Ok _ \<Rightarrow> ns_step op (mem_names s) (mem_names s')
    | Err _ \<Rightarrow> mem_names s' = mem_names s | Panic \<Rightarrow> True"
  using mem_step_names [OF assms(4) mem_run_inv [OF assms(1,2)]] assms(3) by (simp add: names_contract_def)

theorem memfs_refines_names_witness:
  "ns_step (Mknod mknod_a) (mem_names mem_initial) (mem_names mem_with_a)"
  using memfs_refines_names [OF MemFS_new_eq run_Nil _ mknod_a_step [of linux_extern True no_readdir]] by simp

text \<open>C21: What was written is read back: after a write request that is answered, a read request at the
  same place returns the data, also beyond the previous end of the file.
\<close>

theorem memfs_write_read:
  assumes "inode_at s (Write_ino op) = Some inode" and "as_file inode = Some content"
    and "length content < 2 ^ 63" and "unat (Write_offset op) + unat (Write_size op) < 2 ^ 63"
    and "length bs = unat (Write_size op)"
  shows "\<exists>s'. mem_write X (\<lambda>buf. (Ok (), bs)) reply s op = Some (reply (Reply_WriteOut (Write_size op)), s') \<and>
    mem_read reply s' \<lparr> Read_ino = Write_ino op, Read_fh = fh, Read_offset = Write_offset op,
      Read_size = Write_size op, Read_options = opts, Read_lock_owner = owner \<rparr> =
      Some (reply (Reply_Raw bs), s')"
proof -
  let ?o = "unat (Write_offset op)" and ?n = "unat (Write_size op)"
  have len: "?o + ?n \<le> length (mem_resized op content)" by (simp add: mem_resized_def)
  then have "take ?n (drop ?o (mem_written op content bs)) = bs" "?o + ?n \<le> length (mem_written op content bs)"
    using assms(5) by (simp_all add: mem_written_def)
  moreover have "take (min (length xs) ?n) xs = take ?n xs" for xs :: bytes by (simp add: min_def)
  ultimately show ?thesis
    using mem_write_eq [OF assms(1-4), where data = "\<lambda>buf. (Ok (), bs)" and X = X and reply = reply and bs = bs]
    by (simp add: mem_read_def Let_def)
qed

theorem memfs_write_read_witness:
  "\<exists>s'. mem_write linux_extern (\<lambda>buf. (Ok (), [1, 2])) (\<lambda>out. Ok (out :: unit fs_reply)) mem_with_a
      \<lparr> Write_ino = node2, Write_fh = FileID 0, Write_offset = 3, Write_size = 2,
        Write_options = OpenOptions_from_raw 0, Write_lock_owner = None, Write_flags = 0 \<rparr> =
      Some (Ok (Reply_WriteOut 2), s') \<and>
    mem_read (\<lambda>out. Ok (out :: unit fs_reply)) s'
      \<lparr> Read_ino = node2, Read_fh = FileID 0, Read_offset = 3, Read_size = 2,
        Read_options = OpenOptions_from_raw 0, Read_lock_owner = None \<rparr> = Some (Ok (Reply_Raw [1, 2]), s')"
  using memfs_write_read [where s = mem_with_a and inode = node_a and content = "[]" and bs = "[1, 2]" and
      X = linux_extern and reply = "\<lambda>out. Ok (out :: unit fs_reply)" and fh = "FileID 0" and
      opts = "OpenOptions_from_raw 0" and owner = None and
      op = "\<lparr> Write_ino = node2, Write_fh = FileID 0, Write_offset = 3, Write_size = 2,
        Write_options = OpenOptions_from_raw 0, Write_lock_owner = None, Write_flags = 0 \<rparr>"]
  by (simp add: mem_with_a_def node_a_def as_file_def)

text \<open>A write request inside of a file sets the size attribute to the end of the data that was
  written, although the file is still longer: the kernel then takes the rest for cut off.
\<close>

theorem memfs_write_shrinks_size:
  assumes "inode_at s (Write_ino op) = Some inode" and "as_file inode = Some content"
    and "length content < 2 ^ 63" and "unat (Write_offset op) + unat (Write_size op) < length content"
    and "length bs = unat (Write_size op)"
  shows "\<exists>s' inode' content'.
    mem_write X (\<lambda>buf. (Ok (), bs)) reply s op = Some (reply (Reply_WriteOut (Write_size op)), s') \<and>
    inode_at s' (Write_ino op) = Some inode' \<and> as_file inode' = Some content' \<and>
    length content' = length content \<and> unat (FileAttr_size (inode_attr inode')) < length content'"
proof -
  let ?o = "unat (Write_offset op)" and ?n = "unat (Write_size op)"
  have bound: "?o + ?n < 2 ^ 63" using assms(3,4) by simp
  have "unat (Write_offset op + ucast (Write_size op)) = ?o + ?n"
    using bound by (simp add: unat_word_ariths unat_ucast_u64)
  moreover have "length (mem_written op content bs) = length content"
    using assms(4,5) by (simp add: mem_written_def mem_resized_def)
  ultimately show ?thesis
    using mem_write_eq [OF assms(1-3) bound, where data = "\<lambda>buf. (Ok (), bs)" and X = X and reply = reply and bs = bs]
      assms(4)
    by simp
qed

text \<open>An extended attribute that is created by a request with the flag \<open>XATTR_CREATE\<close> has no value,
  whatever value the request gives.
\<close>

theorem memfs_setxattr_create_loses_value:
  assumes "inode_at s (Setxattr_ino op) = Some inode"
    and "Mapping.lookup (inode_xattrs inode) (Setxattr_name op) = None" and "Setxattr_flags op = XATTR_CREATE"
    and "0 < n"
  shows "\<exists>s'. mem_setxattr reply s op = Some (reply Reply_Unit, s') \<and>
    mem_getxattr reply s' \<lparr> Getxattr_ino = Setxattr_ino op, Getxattr_name = Setxattr_name op, Getxattr_size = n \<rparr> =
      Some (reply (Reply_Raw []), s')"
  using assms
  by (auto simp: mem_setxattr_def mem_getxattr_def flags_contains_def libc_const set_xattrs_def)

text \<open>A lookup of a name whose node is in the same shard of the table as its directory never returns:
  the request for the node waits for the lock that the reference to the directory holds.
\<close>

theorem memfs_lookup_blocks:
  assumes "mem_names s (Lookup_parent op, Lookup_name op) = Some i"
  shows "mem_lookup X shard reply s op = None \<longleftrightarrow> shard (Lookup_parent op) = shard i"
proof -
  from assms obtain pnode dir where "inode_at s (Lookup_parent op) = Some pnode" "as_dir pnode = Some dir"
    "Mapping.lookup (dir_children dir) (Lookup_name op) = Some i"
    by (auto simp: mem_names_eq split: option.splits)
  then show ?thesis
    by (auto simp: mem_lookup_def lock_write_def or_panic_def split: option.splits)
qed

end
