(* ===== verification/Abi_Reply.thy ===== *)
theory Abi_Reply
  imports Abi_Request
begin

text \<open>
  The structures the library sends to the kernel (\<open>crates/polyfuse-kernel/src/lib.rs\<close>), in the
  same form as the requests.
\<close>

record fuse_attr_compat_8 =
  attr_compat_8_ino :: u64
  attr_compat_8_size :: u64
  attr_compat_8_blocks :: u64
  attr_compat_8_atime :: u64
  attr_compat_8_mtime :: u64
  attr_compat_8_ctime :: u64
  attr_compat_8_atimensec :: u32
  attr_compat_8_mtimensec :: u32
  attr_compat_8_ctimensec :: u32
  attr_compat_8_mode :: u32
  attr_compat_8_nlink :: u32
  attr_compat_8_uid :: u32
  attr_compat_8_gid :: u32
  attr_compat_8_rdev :: u32

definition fuse_attr_compat_8_pod :: "fuse_attr_compat_8 pod" where
  "fuse_attr_compat_8_pod =
     pod_struct
       (\<lambda>(ino, size, blocks, atime, mtime, ctime, atimensec, mtimensec, ctimensec, mode, nlink, uid, gid, rdev, _).
         \<lparr>attr_compat_8_ino = ino, attr_compat_8_size = size, attr_compat_8_blocks = blocks,
         attr_compat_8_atime = atime, attr_compat_8_mtime = mtime, attr_compat_8_ctime = ctime,
         attr_compat_8_atimensec = atimensec, attr_compat_8_mtimensec = mtimensec,
         attr_compat_8_ctimensec = ctimensec, attr_compat_8_mode = mode,
         attr_compat_8_nlink = nlink, attr_compat_8_uid = uid, attr_compat_8_gid = gid,
         attr_compat_8_rdev = rdev\<rparr>)
       (\<lambda>r.
         (attr_compat_8_ino r, attr_compat_8_size r, attr_compat_8_blocks r,
         attr_compat_8_atime r, attr_compat_8_mtime r, attr_compat_8_ctime r,
         attr_compat_8_atimensec r, attr_compat_8_mtimensec r, attr_compat_8_ctimensec r,
         attr_compat_8_mode r, attr_compat_8_nlink r, attr_compat_8_uid r, attr_compat_8_gid r,
         attr_compat_8_rdev r, ()))
       (pod_cons u64_pod (pod_cons u64_pod (pod_cons u64_pod (pod_cons u64_pod (
         pod_cons u64_pod (pod_cons u64_pod (pod_cons u32_pod (pod_cons u32_pod (
         pod_cons u32_pod (pod_cons u32_pod (pod_cons u32_pod (pod_cons u32_pod (
         pod_cons u32_pod (pod_cons u32_pod pod_nil))))))))))))))"

interpretation fuse_attr_compat_8: repr_c_struct fuse_attr_compat_8_pod
  unfolding fuse_attr_compat_8_pod_def
  by (rule repr_c_structI, (intro pod_intro)[1]) (auto simp: repr_c_simps pod_sizes)

lemma fuse_attr_compat_8_size [pod_sizes]:
  "pod_size fuse_attr_compat_8_pod = 80" "pod_align fuse_attr_compat_8_pod = 8"
  "pod_wf fuse_attr_compat_8_pod r"
  by (simp_all add: fuse_attr_compat_8_pod_def pod_sel pod_sizes)

lemmas [pod_intro] = fuse_attr_compat_8.plain_old_data_axioms

record fuse_attr =
  attr_ino :: u64
  attr_size :: u64
  attr_blocks :: u64
  attr_atime :: u64
  attr_mtime :: u64
  attr_ctime :: u64
  attr_atimensec :: u32
  attr_mtimensec :: u32
  attr_ctimensec :: u32
  attr_mode :: u32
  attr_nlink :: u32
  attr_uid :: u32
  attr_gid :: u32
  attr_rdev :: u32
  attr_blksize :: u32
  attr_flags :: u32

definition fuse_attr_pod :: "fuse_attr pod" where
  "fuse_attr_pod =
     pod_struct
       (\<lambda>(ino, size, blocks, atime, mtime, ctime, atimensec, mtimensec, ctimensec, mode, nlink, uid, gid, rdev, blksize, flags, _).
         \<lparr>attr_ino = ino, attr_size = size, attr_blocks = blocks, attr_atime = atime,
         attr_mtime = mtime, attr_ctime = ctime, attr_atimensec = atimensec,
         attr_mtimensec = mtimensec, attr_ctimensec = ctimensec, attr_mode = mode,
         attr_nlink = nlink, attr_uid = uid, attr_gid = gid, attr_rdev = rdev,
         attr_blksize = blksize, attr_flags = flags\<rparr>)
       (\<lambda>r.
         (attr_ino r, attr_size r, attr_blocks r, attr_atime r, attr_mtime r, attr_ctime r,
         attr_atimensec r, attr_mtimensec r, attr_ctimensec r, attr_mode r, attr_nlink r,
         attr_uid r, attr_gid r, attr_rdev r, attr_blksize r, attr_flags r, ()))
       (pod_cons u64_pod (pod_cons u64_pod (pod_cons u64_pod (pod_cons u64_pod (
         pod_cons u64_pod (pod_cons u64_pod (pod_cons u32_pod (pod_cons u32_pod (
         pod_cons u32_pod (pod_cons u32_pod (pod_cons u32_pod (pod_cons u32_pod (
         pod_cons u32_pod (pod_cons u32_pod (pod_cons u32_pod (pod_cons u32_pod pod_nil))))))))))))))))"

interpretation fuse_attr: repr_c_struct fuse_attr_pod
  unfolding fuse_attr_pod_def
  by (rule repr_c_structI, (intro pod_intro)[1]) (auto simp: repr_c_simps pod_sizes)

lemma fuse_attr_size [pod_sizes]:
  "pod_size fuse_attr_pod = 88" "pod_align fuse_attr_pod = 8"
  "pod_wf fuse_attr_pod r"
  by (simp_all add: fuse_attr_pod_def pod_sel pod_sizes)

lemmas [pod_intro] = fuse_attr.plain_old_data_axioms

record fuse_dirent =
  dirent_ino :: u64
  dirent_off :: u64
  dirent_namelen :: u32
  dirent_typ :: u32
  dirent_name :: "u8 list"

definition fuse_dirent_pod :: "fuse_dirent pod" where
  "fuse_dirent_pod =
     pod_struct
       (\<lambda>(ino, off, namelen, typ, name, _).
         \<lparr>dirent_ino = ino, dirent_off = off, dirent_namelen = namelen, dirent_typ = typ,
         dirent_name = name\<rparr>)
       (\<lambda>r.
         (dirent_ino r, dirent_off r, dirent_namelen r, dirent_typ r, dirent_name r, ()))
       (pod_cons u64_pod (pod_cons u64_pod (pod_cons u32_pod (pod_cons u32_pod (
         pod_cons (pod_array 0 u8_pod) pod_nil)))))"

interpretation fuse_dirent: repr_c_struct fuse_dirent_pod
  unfolding fuse_dirent_pod_def
  by (rule repr_c_structI, (intro pod_intro)[1]) (auto simp: repr_c_simps pod_sizes)

lemma fuse_dirent_size [pod_sizes]:
  "pod_size fuse_dirent_pod = 24" "pod_align fuse_dirent_pod = 8"
  by (simp_all add: fuse_dirent_pod_def pod_sel pod_sizes)

lemmas [pod_intro] = fuse_dirent.plain_old_data_axioms

record fuse_kstatfs_compat_3 =
  kstatfs_compat_3_blocks :: u64
  kstatfs_compat_3_bfree :: u64
  kstatfs_compat_3_bavail :: u64
  kstatfs_compat_3_files :: u64
  kstatfs_compat_3_ffree :: u64
  kstatfs_compat_3_bsize :: u32
  kstatfs_compat_3_namelen :: u32

definition fuse_kstatfs_compat_3_pod :: "fuse_kstatfs_compat_3 pod" where
  "fuse_kstatfs_compat_3_pod =
     pod_struct
       (\<lambda>(blocks, bfree, bavail, files, ffree, bsize, namelen, _).
         \<lparr>kstatfs_compat_3_blocks = blocks, kstatfs_compat_3_bfree = bfree,
         kstatfs_compat_3_bavail = bavail, kstatfs_compat_3_files = files,
         kstatfs_compat_3_ffree = ffree, kstatfs_compat_3_bsize = bsize,
         kstatfs_compat_3_namelen = namelen\<rparr>)
       (\<lambda>r.
         (kstatfs_compat_3_blocks r, kstatfs_compat_3_bfree r, kstatfs_compat_3_bavail r,
         kstatfs_compat_3_files r, kstatfs_compat_3_ffree r, kstatfs_compat_3_bsize r,
         kstatfs_compat_3_namelen r, ()))
       (pod_cons u64_pod (pod_cons u64_pod (pod_cons u64_pod (pod_cons u64_pod (
         pod_cons u64_pod (pod_cons u32_pod (pod_cons u32_pod pod_nil)))))))"

interpretation fuse_kstatfs_compat_3: repr_c_struct fuse_kstatfs_compat_3_pod
  unfolding fuse_kstatfs_compat_3_pod_def
  by (rule repr_c_structI, (intro pod_intro)[1]) (auto simp: repr_c_simps pod_sizes)

lemma fuse_kstatfs_compat_3_size [pod_sizes]:
  "pod_size fuse_kstatfs_compat_3_pod = 48" "pod_align fuse_kstatfs_compat_3_pod = 8"
  "pod_wf fuse_kstatfs_compat_3_pod r"
  by (simp_all add: fuse_kstatfs_compat_3_pod_def pod_sel pod_sizes)

lemmas [pod_intro] = fuse_kstatfs_compat_3.plain_old_data_axioms

record fuse_kstatfs =
  kstatfs_blocks :: u64
  kstatfs_bfree :: u64
  kstatfs_bavail :: u64
  kstatfs_files :: u64
  kstatfs_ffree :: u64
  kstatfs_bsize :: u32
  kstatfs_namelen :: u32
  kstatfs_frsize :: u32
  kstatfs_padding :: u32
  kstatfs_spare :: "u32 list"

definition fuse_kstatfs_pod :: "fuse_kstatfs pod" where
  "fuse_kstatfs_pod =
     pod_struct
       (\<lambda>(blocks, bfree, bavail, files, ffree, bsize, namelen, frsize, padding, spare, _).
         \<lparr>kstatfs_blocks = blocks, kstatfs_bfree = bfree, kstatfs_bavail = bavail,
         kstatfs_files = files, kstatfs_ffree = ffree, kstatfs_bsize = bsize,
         kstatfs_namelen = namelen, kstatfs_frsize = frsize, kstatfs_padding = padding,
         kstatfs_spare = spare\<rparr>)
       (\<lambda>r.
         (kstatfs_blocks r, kstatfs_bfree r, kstatfs_bavail r, kstatfs_files r, kstatfs_ffree r,
         kstatfs_bsize r, kstatfs_namelen r, kstatfs_frsize r, kstatfs_padding r,
         kstatfs_spare r, ()))
       (pod_cons u64_pod (pod_cons u64_pod (pod_cons u64_pod (pod_cons u64_pod (
         pod_cons u64_pod (pod_cons u32_pod (pod_cons u32_pod (pod_cons u32_pod (
         pod_cons u32_pod (pod_cons (pod_array 6 u32_pod) pod_nil))))))))))"

interpretation fuse_kstatfs: repr_c_struct fuse_kstatfs_pod
  unfolding fuse_kstatfs_pod_def
  by (rule repr_c_structI, (intro pod_intro)[1]) (auto simp: repr_c_simps pod_sizes)

lemma fuse_kstatfs_size [pod_sizes]:
  "pod_size fuse_kstatfs_pod = 80" "pod_align fuse_kstatfs_pod = 8"
  by (simp_all add: fuse_kstatfs_pod_def pod_sel pod_sizes)

lemmas [pod_intro] = fuse_kstatfs.plain_old_data_axioms

record fuse_out_header =
  out_header_len :: u32
  out_header_error :: i32
  out_header_unique :: u64

definition fuse_out_header_pod :: "fuse_out_header pod" where
  "fuse_out_header_pod =
     pod_struct
       (\<lambda>(len, error, unique, _).
         \<lparr>out_header_len = len, out_header_error = error, out_header_unique = unique\<rparr>)
       (\<lambda>r.
         (out_header_len r, out_header_error r, out_header_unique r, ()))
       (pod_cons u32_pod (pod_cons i32_pod (pod_cons u64_pod pod_nil)))"

interpretation fuse_out_header: repr_c_struct fuse_out_header_pod
  unfolding fuse_out_header_pod_def
  by (rule repr_c_structI, (intro pod_intro)[1]) (auto simp: repr_c_simps pod_sizes)

lemma fuse_out_header_size [pod_sizes]:
  "pod_size fuse_out_header_pod = 16" "pod_align fuse_out_header_pod = 8"
  "pod_wf fuse_out_header_pod r"
  by (simp_all add: fuse_out_header_pod_def pod_sel pod_sizes)

lemmas [pod_intro] = fuse_out_header.plain_old_data_axioms

record fuse_attr_out_compat_8 =
  attr_out_compat_8_attr_valid :: u64
  attr_out_compat_8_attr_valid_nsec :: u32
  attr_out_compat_8_dummy :: u32
  attr_out_compat_8_attr :: fuse_attr_compat_8

definition fuse_attr_out_compat_8_pod :: "fuse_attr_out_compat_8 pod" where
  "fuse_attr_out_compat_8_pod =
     pod_struct
       (\<lambda>(attr_valid, attr_valid_nsec, dummy, attr, _).
         \<lparr>attr_out_compat_8_attr_valid = attr_valid,
         attr_out_compat_8_attr_valid_nsec = attr_valid_nsec, attr_out_compat_8_dummy = dummy,
         attr_out_compat_8_attr = attr\<rparr>)
       (\<lambda>r.
         (attr_out_compat_8_attr_valid r, attr_out_compat_8_attr_valid_nsec r,
         attr_out_compat_8_dummy r, attr_out_compat_8_attr r, ()))
       (pod_cons u64_pod (pod_cons u32_pod (pod_cons u32_pod (
         pod_cons fuse_attr_compat_8_pod pod_nil))))"

interpretation fuse_attr_out_compat_8: repr_c_struct fuse_attr_out_compat_8_pod
  unfolding fuse_attr_out_compat_8_pod_def
  by (rule repr_c_structI, (intro pod_intro)[1]) (auto simp: repr_c_simps pod_sizes)

lemma fuse_attr_out_compat_8_size [pod_sizes]:
  "pod_size fuse_attr_out_compat_8_pod = 96" "pod_align fuse_attr_out_compat_8_pod = 8"
  "pod_wf fuse_attr_out_compat_8_pod r"
  by (simp_all add: fuse_attr_out_compat_8_pod_def pod_sel pod_sizes)

lemmas [pod_intro] = fuse_attr_out_compat_8.plain_old_data_axioms

record fuse_attr_out =
  attr_out_attr_valid :: u64
  attr_out_attr_valid_nsec :: u32
  attr_out_dummy :: u32
  attr_out_attr :: fuse_attr

definition fuse_attr_out_pod :: "fuse_attr_out pod" where
  "fuse_attr_out_pod =
     pod_struct
       (\<lambda>(attr_valid, attr_valid_nsec, dummy, attr, _).
         \<lparr>attr_out_attr_valid = attr_valid, attr_out_attr_valid_nsec = attr_valid_nsec,
         attr_out_dummy = dummy, attr_out_attr = attr\<rparr>)
       (\<lambda>r.
         (attr_out_attr_valid r, attr_out_attr_valid_nsec r, attr_out_dummy r, attr_out_attr r, ()))
       (pod_cons u64_pod (pod_cons u32_pod (pod_cons u32_pod (pod_cons fuse_attr_pod pod_nil))))"

interpretation fuse_attr_out: repr_c_struct fuse_attr_out_pod
  unfolding fuse_attr_out_pod_def
  by (rule repr_c_structI, (intro pod_intro)[1]) (auto simp: repr_c_simps pod_sizes)

lemma fuse_attr_out_size [pod_sizes]:
  "pod_size fuse_attr_out_pod = 104" "pod_align fuse_attr_out_pod = 8"
  "pod_wf fuse_attr_out_pod r"
  by (simp_all add: fuse_attr_out_pod_def pod_sel pod_sizes)

lemmas [pod_intro] = fuse_attr_out.plain_old_data_axioms

record fuse_entry_out_compat_8 =
  entry_out_compat_8_nodeid :: u64
  entry_out_compat_8_generation :: u64
  entry_out_compat_8_entry_valid :: u64
  entry_out_compat_8_attr_valid :: u64
  entry_out_compat_8_entry_valid_nsec :: u32
  entry_out_compat_8_attr_valid_nsec :: u32
  entry_out_compat_8_attr :: fuse_attr_compat_8

definition fuse_entry_out_compat_8_pod :: "fuse_entry_out_compat_8 pod" where
  "fuse_entry_out_compat_8_pod =
     pod_struct
       (\<lambda>(nodeid, generation, entry_valid, attr_valid, entry_valid_nsec, attr_valid_nsec, attr, _).
         \<lparr>entry_out_compat_8_nodeid = nodeid, entry_out_compat_8_generation = generation,
         entry_out_compat_8_entry_valid = entry_valid,
         entry_out_compat_8_attr_valid = attr_valid,
         entry_out_compat_8_entry_valid_nsec = entry_valid_nsec,
         entry_out_compat_8_attr_valid_nsec = attr_valid_nsec, entry_out_compat_8_attr = attr\<rparr>)
       (\<lambda>r.
         (entry_out_compat_8_nodeid r, entry_out_compat_8_generation r,
         entry_out_compat_8_entry_valid r, entry_out_compat_8_attr_valid r,
         entry_out_compat_8_entry_valid_nsec r, entry_out_compat_8_attr_valid_nsec r,
         entry_out_compat_8_attr r, ()))
       (pod_cons u64_pod (pod_cons u64_pod (pod_cons u64_pod (pod_cons u64_pod (
         pod_cons u32_pod (pod_cons u32_pod (pod_cons fuse_attr_compat_8_pod pod_nil)))))))"

interpretation fuse_entry_out_compat_8: repr_c_struct fuse_entry_out_compat_8_pod
  unfolding fuse_entry_out_compat_8_pod_def
  by (rule repr_c_structI, (intro pod_intro)[1]) (auto simp: repr_c_simps pod_sizes)

lemma fuse_entry_out_compat_8_size [pod_sizes]:
  "pod_size fuse_entry_out_compat_8_pod = 120" "pod_align fuse_entry_out_compat_8_pod = 8"
  "pod_wf fuse_entry_out_compat_8_pod r"
  by (simp_all add: fuse_entry_out_compat_8_pod_def pod_sel pod_sizes)

lemmas [pod_intro] = fuse_entry_out_compat_8.plain_old_data_axioms

record fuse_entry_out =
  entry_out_nodeid :: u64
  entry_out_generation :: u64
  entry_out_entry_valid :: u64
  entry_out_attr_valid :: u64
  entry_out_entry_valid_nsec :: u32
  entry_out_attr_valid_nsec :: u32
  entry_out_attr :: fuse_attr

definition fuse_entry_out_pod :: "fuse_entry_out pod" where
  "fuse_entry_out_pod =
     pod_struct
       (\<lambda>(nodeid, generation, entry_valid, attr_valid, entry_valid_nsec, attr_valid_nsec, attr, _).
         \<lparr>entry_out_nodeid = nodeid, entry_out_generation = generation,
         entry_out_entry_valid = entry_valid, entry_out_attr_valid = attr_valid,
         entry_out_entry_valid_nsec = entry_valid_nsec,
         entry_out_attr_valid_nsec = attr_valid_nsec, entry_out_attr = attr\<rparr>)
       (\<lambda>r.
         (entry_out_nodeid r, entry_out_generation r, entry_out_entry_valid r,
         entry_out_attr_valid r, entry_out_entry_valid_nsec r, entry_out_attr_valid_nsec r,
         entry_out_attr r, ()))
       (pod_cons u64_pod (pod_cons u64_pod (pod_cons u64_pod (pod_cons u64_pod (
         pod_cons u32_pod (pod_cons u32_pod (pod_cons fuse_attr_pod pod_nil)))))))"

interpretation fuse_entry_out: repr_c_struct fuse_entry_out_pod
  unfolding fuse_entry_out_pod_def
  by (rule repr_c_structI, (intro pod_intro)[1]) (auto simp: repr_c_simps pod_sizes)

lemma fuse_entry_out_size [pod_sizes]:
  "pod_size fuse_entry_out_pod = 128" "pod_align fuse_entry_out_pod = 8"
  "pod_wf fuse_entry_out_pod r"
  by (simp_all add: fuse_entry_out_pod_def pod_sel pod_sizes)

lemmas [pod_intro] = fuse_entry_out.plain_old_data_axioms

record fuse_init_out_compat_22 =
  init_out_compat_22_major :: u32
  init_out_compat_22_minor :: u32
  init_out_compat_22_max_readahead :: u32
  init_out_compat_22_flags :: u32
  init_out_compat_22_max_background :: u16
  init_out_compat_22_congestion_threshold :: u16
  init_out_compat_22_max_write :: u32

definition fuse_init_out_compat_22_pod :: "fuse_init_out_compat_22 pod" where
  "fuse_init_out_compat_22_pod =
     pod_struct
       (\<lambda>(major, minor, max_readahead, flags, max_background, congestion_threshold, max_write, _).
         \<lparr>init_out_compat_22_major = major, init_out_compat_22_minor = minor,
         init_out_compat_22_max_readahead = max_readahead, init_out_compat_22_flags = flags,
         init_out_compat_22_max_background = max_background,
         init_out_compat_22_congestion_threshold = congestion_threshold,
         init_out_compat_22_max_write = max_write\<rparr>)
       (\<lambda>r.
         (init_out_compat_22_major r, init_out_compat_22_minor r,
         init_out_compat_22_max_readahead r, init_out_compat_22_flags r,
         init_out_compat_22_max_background r, init_out_compat_22_congestion_threshold r,
         init_out_compat_22_max_write r, ()))
       (pod_cons u32_pod (pod_cons u32_pod (pod_cons u32_pod (pod_cons u32_pod (
         pod_cons u16_pod (pod_cons u16_pod (pod_cons u32_pod pod_nil)))))))"

interpretation fuse_init_out_compat_22: repr_c_struct fuse_init_out_compat_22_pod
  unfolding fuse_init_out_compat_22_pod_def
  by (rule repr_c_structI, (intro pod_intro)[1]) (auto simp: repr_c_simps pod_sizes)

lemma fuse_init_out_compat_22_size [pod_sizes]:
  "pod_size fuse_init_out_compat_22_pod = 24" "pod_align fuse_init_out_compat_22_pod = 4"
  "pod_wf fuse_init_out_compat_22_pod r"
  by (simp_all add: fuse_init_out_compat_22_pod_def pod_sel pod_sizes)

lemmas [pod_intro] = fuse_init_out_compat_22.plain_old_data_axioms

record fuse_init_out =
  init_out_major :: u32
  init_out_minor :: u32
  init_out_max_readahead :: u32
  init_out_flags :: u32
  init_out_max_background :: u16
  init_out_congestion_threshold :: u16
  init_out_max_write :: u32
  init_out_time_gran :: u32
  init_out_max_pages :: u16
  init_out_map_alignment :: u16
  init_out_flags2 :: u32
  init_out_max_stack_depth :: u32
  init_out_request_timeout :: u16
  init_out_unused :: "u16 list"

definition fuse_init_out_pod :: "fuse_init_out pod" where
  "fuse_init_out_pod =
     pod_struct
       (\<lambda>(major, minor, max_readahead, flags, max_background, congestion_threshold, max_write, time_gran, max_pages, map_alignment, flags2, max_stack_depth, request_timeout, unused, _).
         \<lparr>init_out_major = major, init_out_minor = minor, init_out_max_readahead = max_readahead,
         init_out_flags = flags, init_out_max_background = max_background,
         init_out_congestion_threshold = congestion_threshold, init_out_max_write = max_write,
         init_out_time_gran = time_gran, init_out_max_pages = max_pages,
         init_out_map_alignment = map_alignment, init_out_flags2 = flags2,
         init_out_max_stack_depth = max_stack_depth, init_out_request_timeout = request_timeout,
         init_out_unused = unused\<rparr>)
       (\<lambda>r.
         (init_out_major r, init_out_minor r, init_out_max_readahead r, init_out_flags r,
         init_out_max_background r, init_out_congestion_threshold r, init_out_max_write r,
         init_out_time_gran r, init_out_max_pages r, init_out_map_alignment r, init_out_flags2 r,
         init_out_max_stack_depth r, init_out_request_timeout r, init_out_unused r, ()))
       (pod_cons u32_pod (pod_cons u32_pod (pod_cons u32_pod (pod_cons u32_pod (
         pod_cons u16_pod (pod_cons u16_pod (pod_cons u32_pod (pod_cons u32_pod (
         pod_cons u16_pod (pod_cons u16_pod (pod_cons u32_pod (pod_cons u32_pod (
         pod_cons u16_pod (pod_cons (pod_array 11 u16_pod) pod_nil))))))))))))))"

interpretation fuse_init_out: repr_c_struct fuse_init_out_pod
  unfolding fuse_init_out_pod_def
  by (rule repr_c_structI, (intro pod_intro)[1]) (auto simp: repr_c_simps pod_sizes)

lemma fuse_init_out_size [pod_sizes]:
  "pod_size fuse_init_out_pod = 64" "pod_align fuse_init_out_pod = 4"
  by (simp_all add: fuse_init_out_pod_def pod_sel pod_sizes)

lemmas [pod_intro] = fuse_init_out.plain_old_data_axioms

record fuse_getxattr_out =
  getxattr_out_size :: u32
  getxattr_out_padding :: u32

definition fuse_getxattr_out_pod :: "fuse_getxattr_out pod" where
  "fuse_getxattr_out_pod =
     pod_struct
       (\<lambda>(size, padding, _).
         \<lparr>getxattr_out_size = size, getxattr_out_padding = padding\<rparr>)
       (\<lambda>r.
         (getxattr_out_size r, getxattr_out_padding r, ()))
       (pod_cons u32_pod (pod_cons u32_pod pod_nil))"

interpretation fuse_getxattr_out: repr_c_struct fuse_getxattr_out_pod
  unfolding fuse_getxattr_out_pod_def
  by (rule repr_c_structI, (intro pod_intro)[1]) (auto simp: repr_c_simps pod_sizes)

lemma fuse_getxattr_out_size [pod_sizes]:
  "pod_size fuse_getxattr_out_pod = 8" "pod_align fuse_getxattr_out_pod = 4"
  "pod_wf fuse_getxattr_out_pod r"
  by (simp_all add: fuse_getxattr_out_pod_def pod_sel pod_sizes)

lemmas [pod_intro] = fuse_getxattr_out.plain_old_data_axioms

record fuse_open_out =
  open_out_fh :: u64
  open_out_open_flags :: u32
  open_out_backing_id :: i32

definition fuse_open_out_pod :: "fuse_open_out pod" where
  "fuse_open_out_pod =
     pod_struct
       (\<lambda>(fh, open_flags, backing_id, _).
         \<lparr>open_out_fh = fh, open_out_open_flags = open_flags, open_out_backing_id = backing_id\<rparr>)
       (\<lambda>r.
         (open_out_fh r, open_out_open_flags r, open_out_backing_id r, ()))
       (pod_cons u64_pod (pod_cons u32_pod (pod_cons i32_pod pod_nil)))"

interpretation fuse_open_out: repr_c_struct fuse_open_out_pod
  unfolding fuse_open_out_pod_def
  by (rule repr_c_structI, (intro pod_intro)[1]) (auto simp: repr_c_simps pod_sizes)

lemma fuse_open_out_size [pod_sizes]:
  "pod_size fuse_open_out_pod = 16" "pod_align fuse_open_out_pod = 8"
  "pod_wf fuse_open_out_pod r"
  by (simp_all add: fuse_open_out_pod_def pod_sel pod_sizes)

lemmas [pod_intro] = fuse_open_out.plain_old_data_axioms

record fuse_write_out =
  write_out_size :: u32
  write_out_padding :: u32

definition fuse_write_out_pod :: "fuse_write_out pod" where
  "fuse_write_out_pod =
     pod_struct
       (\<lambda>(size, padding, _).
         \<lparr>write_out_size = size, write_out_padding = padding\<rparr>)
       (\<lambda>r.
         (write_out_size r, write_out_padding r, ()))
       (pod_cons u32_pod (pod_cons u32_pod pod_nil))"

interpretation fuse_write_out: repr_c_struct fuse_write_out_pod
  unfolding fuse_write_out_pod_def
  by (rule repr_c_structI, (intro pod_intro)[1]) (auto simp: repr_c_simps pod_sizes)

lemma fuse_write_out_size [pod_sizes]:
  "pod_size fuse_write_out_pod = 8" "pod_align fuse_write_out_pod = 4"
  "pod_wf fuse_write_out_pod r"
  by (simp_all add: fuse_write_out_pod_def pod_sel pod_sizes)

lemmas [pod_intro] = fuse_write_out.plain_old_data_axioms

record fuse_statfs_out_compat_3 =
  statfs_out_compat_3_st :: fuse_kstatfs_compat_3

definition fuse_statfs_out_compat_3_pod :: "fuse_statfs_out_compat_3 pod" where
  "fuse_statfs_out_compat_3_pod =
     pod_struct
       (\<lambda>(st, _).
         \<lparr>statfs_out_compat_3_st = st\<rparr>)
       (\<lambda>r.
         (statfs_out_compat_3_st r, ()))
       (pod_cons fuse_kstatfs_compat_3_pod pod_nil)"

interpretation fuse_statfs_out_compat_3: repr_c_struct fuse_statfs_out_compat_3_pod
  unfolding fuse_statfs_out_compat_3_pod_def
  by (rule repr_c_structI, (intro pod_intro)[1]) (auto simp: repr_c_simps pod_sizes)

lemma fuse_statfs_out_compat_3_size [pod_sizes]:
  "pod_size fuse_statfs_out_compat_3_pod = 48" "pod_align fuse_statfs_out_compat_3_pod = 8"
  "pod_wf fuse_statfs_out_compat_3_pod r"
  by (simp_all add: fuse_statfs_out_compat_3_pod_def pod_sel pod_sizes)

lemmas [pod_intro] = fuse_statfs_out_compat_3.plain_old_data_axioms

record fuse_statfs_out =
  statfs_out_st :: fuse_kstatfs

definition fuse_statfs_out_pod :: "fuse_statfs_out pod" where
  "fuse_statfs_out_pod =
     pod_struct
       (\<lambda>(st, _).
         \<lparr>statfs_out_st = st\<rparr>)
       (\<lambda>r.
         (statfs_out_st r, ()))
       (pod_cons fuse_kstatfs_pod pod_nil)"

interpretation fuse_statfs_out: repr_c_struct fuse_statfs_out_pod
  unfolding fuse_statfs_out_pod_def
  by (rule repr_c_structI, (intro pod_intro)[1]) (auto simp: repr_c_simps pod_sizes)

lemma fuse_statfs_out_size [pod_sizes]:
  "pod_size fuse_statfs_out_pod = 80" "pod_align fuse_statfs_out_pod = 8"
  by (simp_all add: fuse_statfs_out_pod_def pod_sel pod_sizes)

lemmas [pod_intro] = fuse_statfs_out.plain_old_data_axioms

record fuse_lk_out =
  lk_out_lk :: fuse_file_lock

definition fuse_lk_out_pod :: "fuse_lk_out pod" where
  "fuse_lk_out_pod =
     pod_struct
       (\<lambda>(lk, _).
         \<lparr>lk_out_lk = lk\<rparr>)
       (\<lambda>r.
         (lk_out_lk r, ()))
       (pod_cons fuse_file_lock_pod pod_nil)"

interpretation fuse_lk_out: repr_c_struct fuse_lk_out_pod
  unfolding fuse_lk_out_pod_def
  by (rule repr_c_structI, (intro pod_intro)[1]) (auto simp: repr_c_simps pod_sizes)

lemma fuse_lk_out_size [pod_sizes]:
  "pod_size fuse_lk_out_pod = 24" "pod_align fuse_lk_out_pod = 8"
  "pod_wf fuse_lk_out_pod r"
  by (simp_all add: fuse_lk_out_pod_def pod_sel pod_sizes)

lemmas [pod_intro] = fuse_lk_out.plain_old_data_axioms

record fuse_bmap_out =
  bmap_out_block :: u64

definition fuse_bmap_out_pod :: "fuse_bmap_out pod" where
  "fuse_bmap_out_pod =
     pod_struct
       (\<lambda>(block, _).
         \<lparr>bmap_out_block = block\<rparr>)
       (\<lambda>r.
         (bmap_out_block r, ()))
       (pod_cons u64_pod pod_nil)"

interpretation fuse_bmap_out: repr_c_struct fuse_bmap_out_pod
  unfolding fuse_bmap_out_pod_def
  by (rule repr_c_structI, (intro pod_intro)[1]) (auto simp: repr_c_simps pod_sizes)

lemma fuse_bmap_out_size [pod_sizes]:
  "pod_size fuse_bmap_out_pod = 8" "pod_align fuse_bmap_out_pod = 8"
  "pod_wf fuse_bmap_out_pod r"
  by (simp_all add: fuse_bmap_out_pod_def pod_sel pod_sizes)

lemmas [pod_intro] = fuse_bmap_out.plain_old_data_axioms

record fuse_poll_out =
  poll_out_revents :: u32
  poll_out_padding :: u32

definition fuse_poll_out_pod :: "fuse_poll_out pod" where
  "fuse_poll_out_pod =
     pod_struct
       (\<lambda>(revents, padding, _).
         \<lparr>poll_out_revents = revents, poll_out_padding = padding\<rparr>)
       (\<lambda>r.
         (poll_out_revents r, poll_out_padding r, ()))
       (pod_cons u32_pod (pod_cons u32_pod pod_nil))"

interpretation fuse_poll_out: repr_c_struct fuse_poll_out_pod
  unfolding fuse_poll_out_pod_def
  by (rule repr_c_structI, (intro pod_intro)[1]) (auto simp: repr_c_simps pod_sizes)

lemma fuse_poll_out_size [pod_sizes]:
  "pod_size fuse_poll_out_pod = 8" "pod_align fuse_poll_out_pod = 4"
  "pod_wf fuse_poll_out_pod r"
  by (simp_all add: fuse_poll_out_pod_def pod_sel pod_sizes)

lemmas [pod_intro] = fuse_poll_out.plain_old_data_axioms

record fuse_lseek_out =
  lseek_out_offset :: u64

definition fuse_lseek_out_pod :: "fuse_lseek_out pod" where
  "fuse_lseek_out_pod =
     pod_struct
       (\<lambda>(offset, _).
         \<lparr>lseek_out_offset = offset\<rparr>)
       (\<lambda>r.
         (lseek_out_offset r, ()))
       (pod_cons u64_pod pod_nil)"

interpretation fuse_lseek_out: repr_c_struct fuse_lseek_out_pod
  unfolding fuse_lseek_out_pod_def
  by (rule repr_c_structI, (intro pod_intro)[1]) (auto simp: repr_c_simps pod_sizes)

lemma fuse_lseek_out_size [pod_sizes]:
  "pod_size fuse_lseek_out_pod = 8" "pod_align fuse_lseek_out_pod = 8"
  "pod_wf fuse_lseek_out_pod r"
  by (simp_all add: fuse_lseek_out_pod_def pod_sel pod_sizes)

lemmas [pod_intro] = fuse_lseek_out.plain_old_data_axioms

record fuse_notify_poll_wakeup_out =
  notify_poll_wakeup_out_kh :: u64

definition fuse_notify_poll_wakeup_out_pod :: "fuse_notify_poll_wakeup_out pod" where
  "fuse_notify_poll_wakeup_out_pod =
     pod_struct
       (\<lambda>(kh, _).
         \<lparr>notify_poll_wakeup_out_kh = kh\<rparr>)
       (\<lambda>r.
         (notify_poll_wakeup_out_kh r, ()))
       (pod_cons u64_pod pod_nil)"

interpretation fuse_notify_poll_wakeup_out: repr_c_struct fuse_notify_poll_wakeup_out_pod
  unfolding fuse_notify_poll_wakeup_out_pod_def
  by (rule repr_c_structI, (intro pod_intro)[1]) (auto simp: repr_c_simps pod_sizes)

lemma fuse_notify_poll_wakeup_out_size [pod_sizes]:
  "pod_size fuse_notify_poll_wakeup_out_pod = 8" "pod_align fuse_notify_poll_wakeup_out_pod = 8"
  "pod_wf fuse_notify_poll_wakeup_out_pod r"
  by (simp_all add: fuse_notify_poll_wakeup_out_pod_def pod_sel pod_sizes)

lemmas [pod_intro] = fuse_notify_poll_wakeup_out.plain_old_data_axioms

record fuse_notify_inval_inode_out =
  notify_inval_inode_out_ino :: u64
  notify_inval_inode_out_off :: i64
  notify_inval_inode_out_len :: i64

definition fuse_notify_inval_inode_out_pod :: "fuse_notify_inval_inode_out pod" where
  "fuse_notify_inval_inode_out_pod =
     pod_struct
       (\<lambda>(ino, off, len, _).
         \<lparr>notify_inval_inode_out_ino = ino, notify_inval_inode_out_off = off,
         notify_inval_inode_out_len = len\<rparr>)
       (\<lambda>r.
         (notify_inval_inode_out_ino r, notify_inval_inode_out_off r,
         notify_inval_inode_out_len r, ()))
       (pod_cons u64_pod (pod_cons i64_pod (pod_cons i64_pod pod_nil)))"

interpretation fuse_notify_inval_inode_out: repr_c_struct fuse_notify_inval_inode_out_pod
  unfolding fuse_notify_inval_inode_out_pod_def
  by (rule repr_c_structI, (intro pod_intro)[1]) (auto simp: repr_c_simps pod_sizes)

lemma fuse_notify_inval_inode_out_size [pod_sizes]:
  "pod_size fuse_notify_inval_inode_out_pod = 24" "pod_align fuse_notify_inval_inode_out_pod = 8"
  "pod_wf fuse_notify_inval_inode_out_pod r"
  by (simp_all add: fuse_notify_inval_inode_out_pod_def pod_sel pod_sizes)

lemmas [pod_intro] = fuse_notify_inval_inode_out.plain_old_data_axioms

record fuse_notify_inval_entry_out =
  notify_inval_entry_out_parent :: u64
  notify_inval_entry_out_namelen :: u32
  notify_inval_entry_out_flags :: u32

definition fuse_notify_inval_entry_out_pod :: "fuse_notify_inval_entry_out pod" where
  "fuse_notify_inval_entry_out_pod =
     pod_struct
       (\<lambda>(parent, namelen, flags, _).
         \<lparr>notify_inval_entry_out_parent = parent, notify_inval_entry_out_namelen = namelen,
         notify_inval_entry_out_flags = flags\<rparr>)
       (\<lambda>r.
         (notify_inval_entry_out_parent r, notify_inval_entry_out_namelen r,
         notify_inval_entry_out_flags r, ()))
       (pod_cons u64_pod (pod_cons u32_pod (pod_cons u32_pod pod_nil)))"

interpretation fuse_notify_inval_entry_out: repr_c_struct fuse_notify_inval_entry_out_pod
  unfolding fuse_notify_inval_entry_out_pod_def
  by (rule repr_c_structI, (intro pod_intro)[1]) (auto simp: repr_c_simps pod_sizes)

lemma fuse_notify_inval_entry_out_size [pod_sizes]:
  "pod_size fuse_notify_inval_entry_out_pod = 16" "pod_align fuse_notify_inval_entry_out_pod = 8"
  "pod_wf fuse_notify_inval_entry_out_pod r"
  by (simp_all add: fuse_notify_inval_entry_out_pod_def pod_sel pod_sizes)

lemmas [pod_intro] = fuse_notify_inval_entry_out.plain_old_data_axioms

record fuse_notify_delete_out =
  notify_delete_out_parent :: u64
  notify_delete_out_child :: u64
  notify_delete_out_namelen :: u32
  notify_delete_out_padding :: u32

definition fuse_notify_delete_out_pod :: "fuse_notify_delete_out pod" where
  "fuse_notify_delete_out_pod =
     pod_struct
       (\<lambda>(parent, child, namelen, padding, _).
         \<lparr>notify_delete_out_parent = parent, notify_delete_out_child = child,
         notify_delete_out_namelen = namelen, notify_delete_out_padding = padding\<rparr>)
       (\<lambda>r.
         (notify_delete_out_parent r, notify_delete_out_child r, notify_delete_out_namelen r,
         notify_delete_out_padding r, ()))
       (pod_cons u64_pod (pod_cons u64_pod (pod_cons u32_pod (pod_cons u32_pod pod_nil))))"

interpretation fuse_notify_delete_out: repr_c_struct fuse_notify_delete_out_pod
  unfolding fuse_notify_delete_out_pod_def
  by (rule repr_c_structI, (intro pod_intro)[1]) (auto simp: repr_c_simps pod_sizes)

lemma fuse_notify_delete_out_size [pod_sizes]:
  "pod_size fuse_notify_delete_out_pod = 24" "pod_align fuse_notify_delete_out_pod = 8"
  "pod_wf fuse_notify_delete_out_pod r"
  by (simp_all add: fuse_notify_delete_out_pod_def pod_sel pod_sizes)

lemmas [pod_intro] = fuse_notify_delete_out.plain_old_data_axioms

record fuse_notify_store_out =
  notify_store_out_nodeid :: u64
  notify_store_out_offset :: u64
  notify_store_out_size :: u32
  notify_store_out_padding :: u32

definition fuse_notify_store_out_pod :: "fuse_notify_store_out pod" where
  "fuse_notify_store_out_pod =
     pod_struct
       (\<lambda>(nodeid, offset, size, padding, _).
         \<lparr>notify_store_out_nodeid = nodeid, notify_store_out_offset = offset,
         notify_store_out_size = size, notify_store_out_padding = padding\<rparr>)
       (\<lambda>r.
         (notify_store_out_nodeid r, notify_store_out_offset r, notify_store_out_size r,
         notify_store_out_padding r, ()))
       (pod_cons u64_pod (pod_cons u64_pod (pod_cons u32_pod (pod_cons u32_pod pod_nil))))"

interpretation fuse_notify_store_out: repr_c_struct fuse_notify_store_out_pod
  unfolding fuse_notify_store_out_pod_def
  by (rule repr_c_structI, (intro pod_intro)[1]) (auto simp: repr_c_simps pod_sizes)

lemma fuse_notify_store_out_size [pod_sizes]:
  "pod_size fuse_notify_store_out_pod = 24" "pod_align fuse_notify_store_out_pod = 8"
  "pod_wf fuse_notify_store_out_pod r"
  by (simp_all add: fuse_notify_store_out_pod_def pod_sel pod_sizes)

lemmas [pod_intro] = fuse_notify_store_out.plain_old_data_axioms

record fuse_notify_retrieve_out =
  notify_retrieve_out_notify_unique :: u64
  notify_retrieve_out_nodeid :: u64
  notify_retrieve_out_offset :: u64
  notify_retrieve_out_size :: u32
  notify_retrieve_out_padding :: u32

definition fuse_notify_retrieve_out_pod :: "fuse_notify_retrieve_out pod" where
  "fuse_notify_retrieve_out_pod =
     pod_struct
       (\<lambda>(notify_unique, nodeid, offset, size, padding, _).
         \<lparr>notify_retrieve_out_notify_unique = notify_unique, notify_retrieve_out_nodeid = nodeid,
         notify_retrieve_out_offset = offset, notify_retrieve_out_size = size,
         notify_retrieve_out_padding = padding\<rparr>)
       (\<lambda>r.
         (notify_retrieve_out_notify_unique r, notify_retrieve_out_nodeid r,
         notify_retrieve_out_offset r, notify_retrieve_out_size r, notify_retrieve_out_padding r,
         ()))
       (pod_cons u64_pod (pod_cons u64_pod (pod_cons u64_pod (pod_cons u32_pod (
         pod_cons u32_pod pod_nil)))))"

interpretation fuse_notify_retrieve_out: repr_c_struct fuse_notify_retrieve_out_pod
  unfolding fuse_notify_retrieve_out_pod_def
  by (rule repr_c_structI, (intro pod_intro)[1]) (auto simp: repr_c_simps pod_sizes)

lemma fuse_notify_retrieve_out_size [pod_sizes]:
  "pod_size fuse_notify_retrieve_out_pod = 32" "pod_align fuse_notify_retrieve_out_pod = 8"
  "pod_wf fuse_notify_retrieve_out_pod r"
  by (simp_all add: fuse_notify_retrieve_out_pod_def pod_sel pod_sizes)

lemmas [pod_intro] = fuse_notify_retrieve_out.plain_old_data_axioms

end
