(* ===== verification/Init.thy ===== *)
theory Init
  imports Types Abi_Reply
begin

text \<open>
  The initial handshake (\<open>src/init.rs\<close>): the connection parameters \<open>KernelConfig\<close>, the feature
  flags, the versions of the \<open>FUSE_INIT\<close> request and reply, and the negotiation that adjusts the
  parameters to what the kernel offers.
\<close>

section \<open>Feature flags\<close>

type_synonym KernelFlags = u64

named_theorems kernel_flag "values of the feature flags"

definition KernelFlags_ASYNC_READ :: KernelFlags where
  [kernel_flag]: "KernelFlags_ASYNC_READ = ucast FUSE_ASYNC_READ"
definition KernelFlags_ATOMIC_O_TRUNC :: KernelFlags where
  [kernel_flag]: "KernelFlags_ATOMIC_O_TRUNC = ucast FUSE_ATOMIC_O_TRUNC"
definition KernelFlags_AUTO_INVAL_DATA :: KernelFlags where
  [kernel_flag]: "KernelFlags_AUTO_INVAL_DATA = ucast FUSE_AUTO_INVAL_DATA"
definition KernelFlags_ASYNC_DIO :: KernelFlags where
  [kernel_flag]: "KernelFlags_ASYNC_DIO = ucast FUSE_ASYNC_DIO"
definition KernelFlags_PARALLEL_DIROPS :: KernelFlags where
  [kernel_flag]: "KernelFlags_PARALLEL_DIROPS = ucast FUSE_PARALLEL_DIROPS"
definition KernelFlags_HANDLE_KILLPRIV :: KernelFlags where
  [kernel_flag]: "KernelFlags_HANDLE_KILLPRIV = ucast FUSE_HANDLE_KILLPRIV"
definition KernelFlags_POSIX_LOCKS :: KernelFlags where
  [kernel_flag]: "KernelFlags_POSIX_LOCKS = ucast FUSE_POSIX_LOCKS"
definition KernelFlags_FLOCK_LOCKS :: KernelFlags where
  [kernel_flag]: "KernelFlags_FLOCK_LOCKS = ucast FUSE_FLOCK_LOCKS"
definition KernelFlags_EXPORT_SUPPORT :: KernelFlags where
  [kernel_flag]: "KernelFlags_EXPORT_SUPPORT = ucast FUSE_EXPORT_SUPPORT"
definition KernelFlags_DONT_MASK :: KernelFlags where
  [kernel_flag]: "KernelFlags_DONT_MASK = ucast FUSE_DONT_MASK"
definition KernelFlags_WRITEBACK_CACHE :: KernelFlags where
  [kernel_flag]: "KernelFlags_WRITEBACK_CACHE = ucast FUSE_WRITEBACK_CACHE"
definition KernelFlags_POSIX_ACL :: KernelFlags where
  [kernel_flag]: "KernelFlags_POSIX_ACL = ucast FUSE_POSIX_ACL"
definition KernelFlags_DO_READDIRPLUS :: KernelFlags where
  [kernel_flag]: "KernelFlags_DO_READDIRPLUS = ucast FUSE_DO_READDIRPLUS"
definition KernelFlags_READDIRPLUS_AUTO :: KernelFlags where
  [kernel_flag]: "KernelFlags_READDIRPLUS_AUTO = ucast FUSE_READDIRPLUS_AUTO"
definition KernelFlags_NO_OPEN_SUPPORT :: KernelFlags where
  [kernel_flag]: "KernelFlags_NO_OPEN_SUPPORT = ucast FUSE_NO_OPEN_SUPPORT"
definition KernelFlags_NO_OPENDIR_SUPPORT :: KernelFlags where
  [kernel_flag]: "KernelFlags_NO_OPENDIR_SUPPORT = ucast FUSE_NO_OPENDIR_SUPPORT"
definition KernelFlags_CACHE_SYMLINKS :: KernelFlags where
  [kernel_flag]: "KernelFlags_CACHE_SYMLINKS = ucast FUSE_CACHE_SYMLINKS"
definition KernelFlags_EXPLICIT_INVAL_DATA :: KernelFlags where
  [kernel_flag]: "KernelFlags_EXPLICIT_INVAL_DATA = ucast FUSE_EXPLICIT_INVAL_DATA"
definition KernelFlags_SPLICE_READ :: KernelFlags where
  [kernel_flag]: "KernelFlags_SPLICE_READ = ucast FUSE_SPLICE_READ"
definition KernelFlags_SPLICE_WRITE :: KernelFlags where
  [kernel_flag]: "KernelFlags_SPLICE_WRITE = ucast FUSE_SPLICE_WRITE"
definition KernelFlags_SPLICE_MOVE :: KernelFlags where
  [kernel_flag]: "KernelFlags_SPLICE_MOVE = ucast FUSE_SPLICE_MOVE"
definition KernelFlags_BIG_WRITES :: KernelFlags where
  [kernel_flag]: "KernelFlags_BIG_WRITES = ucast FUSE_BIG_WRITES"
definition KernelFlags_ABORT_ERROR :: KernelFlags where
  [kernel_flag]: "KernelFlags_ABORT_ERROR = ucast FUSE_ABORT_ERROR"
definition KernelFlags_MAX_PAGES :: KernelFlags where
  [kernel_flag]: "KernelFlags_MAX_PAGES = ucast FUSE_MAX_PAGES"
definition KernelFlags_HANDLE_KILLPRIV_V2 :: KernelFlags where
  [kernel_flag]: "KernelFlags_HANDLE_KILLPRIV_V2 = ucast FUSE_HANDLE_KILLPRIV_V2"
definition KernelFlags_SETXATTR_EXT :: KernelFlags where
  [kernel_flag]: "KernelFlags_SETXATTR_EXT = ucast FUSE_SETXATTR_EXT"
definition KernelFlags_INIT_EXT :: KernelFlags where
  [kernel_flag]: "KernelFlags_INIT_EXT = ucast FUSE_INIT_EXT"
definition KernelFlags_SECURITY_CTX :: KernelFlags where
  [kernel_flag]: "KernelFlags_SECURITY_CTX = FUSE_SECURITY_CTX"
definition KernelFlags_CREATE_SUPP_GROUP :: KernelFlags where
  [kernel_flag]: "KernelFlags_CREATE_SUPP_GROUP = FUSE_CREATE_SUPP_GROUP"
definition KernelFlags_HAS_EXPIRE_ONLY :: KernelFlags where
  [kernel_flag]: "KernelFlags_HAS_EXPIRE_ONLY = FUSE_HAS_EXPIRE_ONLY"
definition KernelFlags_DIRECT_IO_ALLOW_MMAP :: KernelFlags where
  [kernel_flag]: "KernelFlags_DIRECT_IO_ALLOW_MMAP = FUSE_DIRECT_IO_ALLOW_MMAP"
definition KernelFlags_PASSTHROUGH :: KernelFlags where
  [kernel_flag]: "KernelFlags_PASSTHROUGH = FUSE_PASSTHROUGH"
definition KernelFlags_NO_EXPORT_SUPPORT :: KernelFlags where
  [kernel_flag]: "KernelFlags_NO_EXPORT_SUPPORT = FUSE_NO_EXPORT_SUPPORT"
definition KernelFlags_HAS_RESEND :: KernelFlags where
  [kernel_flag]: "KernelFlags_HAS_RESEND = FUSE_HAS_RESEND"
definition KernelFlags_ALLOW_IDMAP :: KernelFlags where
  [kernel_flag]: "KernelFlags_ALLOW_IDMAP = FUSE_ALLOW_IDMAP"
definition KernelFlags_OVER_IO_URING :: KernelFlags where
  [kernel_flag]: "KernelFlags_OVER_IO_URING = FUSE_OVER_IO_URING"
definition KernelFlags_REQUEST_TIMEOUT :: KernelFlags where
  [kernel_flag]: "KernelFlags_REQUEST_TIMEOUT = FUSE_REQUEST_TIMEOUT"

text \<open>\<open>KernelFlags::all()\<close>: the union of the declared flags.\<close>

definition KernelFlags_all :: KernelFlags where
  "KernelFlags_all =
     KernelFlags_ASYNC_READ OR KernelFlags_ATOMIC_O_TRUNC OR KernelFlags_AUTO_INVAL_DATA OR
     KernelFlags_ASYNC_DIO OR KernelFlags_PARALLEL_DIROPS OR KernelFlags_HANDLE_KILLPRIV OR
     KernelFlags_POSIX_LOCKS OR KernelFlags_FLOCK_LOCKS OR KernelFlags_EXPORT_SUPPORT OR
     KernelFlags_DONT_MASK OR KernelFlags_WRITEBACK_CACHE OR KernelFlags_POSIX_ACL OR
     KernelFlags_DO_READDIRPLUS OR KernelFlags_READDIRPLUS_AUTO OR
     KernelFlags_NO_OPEN_SUPPORT OR KernelFlags_NO_OPENDIR_SUPPORT OR
     KernelFlags_CACHE_SYMLINKS OR KernelFlags_EXPLICIT_INVAL_DATA OR
     KernelFlags_SPLICE_READ OR KernelFlags_SPLICE_WRITE OR KernelFlags_SPLICE_MOVE OR
     KernelFlags_BIG_WRITES OR KernelFlags_ABORT_ERROR OR KernelFlags_MAX_PAGES OR
     KernelFlags_HANDLE_KILLPRIV_V2 OR KernelFlags_SETXATTR_EXT OR KernelFlags_INIT_EXT OR
     KernelFlags_SECURITY_CTX OR KernelFlags_CREATE_SUPP_GROUP OR
     KernelFlags_HAS_EXPIRE_ONLY OR KernelFlags_DIRECT_IO_ALLOW_MMAP OR
     KernelFlags_PASSTHROUGH OR KernelFlags_NO_EXPORT_SUPPORT OR KernelFlags_HAS_RESEND OR
     KernelFlags_ALLOW_IDMAP OR KernelFlags_OVER_IO_URING OR KernelFlags_REQUEST_TIMEOUT"

definition KernelFlags_new :: KernelFlags where
  "KernelFlags_new =
     KernelFlags_ATOMIC_O_TRUNC OR KernelFlags_AUTO_INVAL_DATA OR
     KernelFlags_NO_OPEN_SUPPORT OR KernelFlags_NO_OPENDIR_SUPPORT"

definition KernelFlags_READ_ONLY :: KernelFlags where
  "KernelFlags_READ_ONLY =
     KernelFlags_SPLICE_READ OR KernelFlags_SPLICE_WRITE OR KernelFlags_SPLICE_MOVE OR
     KernelFlags_BIG_WRITES OR KernelFlags_MAX_PAGES OR KernelFlags_ABORT_ERROR OR
     KernelFlags_SETXATTR_EXT OR KernelFlags_INIT_EXT OR KernelFlags_HAS_EXPIRE_ONLY OR
     KernelFlags_HAS_RESEND"

section \<open>Connection parameters\<close>

definition FILESYSTEM_MAX_STACK_DEPTH :: u32 where "FILESYSTEM_MAX_STACK_DEPTH = 2"

definition MIN_MAX_WRITE :: u32 where
  "MIN_MAX_WRITE =
     FUSE_MIN_READ_BUFFER - word_of_nat (pod_size fuse_in_header_pod + pod_size fuse_write_in_pod)"

definition DEFAULT_MAX_PAGES_PER_REQ :: u16 where "DEFAULT_MAX_PAGES_PER_REQ = 32"
definition MAX_MAX_PAGES :: u16 where "MAX_MAX_PAGES = 256"

record KernelConfig =
  config_major :: u32
  config_minor :: u32
  config_max_readahead :: u32
  config_max_background :: u16
  config_congestion_threshold :: u16
  config_max_write :: u32
  config_time_gran :: u32
  config_max_pages :: u16
  config_max_stack_depth :: u32
  config_request_timeout :: u16
  config_flags :: KernelFlags

definition KernelConfig_new :: KernelConfig where
  "KernelConfig_new =
     \<lparr> config_major = FUSE_KERNEL_VERSION, config_minor = FUSE_KERNEL_MINOR_VERSION,
       config_max_readahead = - 1, config_max_background = 0, config_congestion_threshold = 0,
       config_max_write = MIN_MAX_WRITE, config_time_gran = 1,
       config_max_pages = DEFAULT_MAX_PAGES_PER_REQ, config_max_stack_depth = 0,
       config_request_timeout = 0, config_flags = KernelFlags_new \<rparr>"

section \<open>The reply to the handshake\<close>

datatype InitOut =
    InitOut_Compat3 fuse_init_in_out_compat_3
  | InitOut_Compat22 fuse_init_out_compat_22
  | InitOut_Current fuse_init_out

definition KernelConfig_to_out :: "KernelConfig \<Rightarrow> InitOut" where
  "KernelConfig_to_out c =
     (if config_minor c \<le> 3 then
        InitOut_Compat3
          \<lparr> init_in_out_compat_3_major = config_major c,
            init_in_out_compat_3_minor = config_minor c \<rparr>
      else if config_minor c \<le> 22 then
        InitOut_Compat22
          \<lparr> init_out_compat_22_major = config_major c,
            init_out_compat_22_minor = config_minor c,
            init_out_compat_22_max_readahead = config_max_readahead c,
            init_out_compat_22_flags = ucast (config_flags c AND 0xFFFFFFFF),
            init_out_compat_22_max_background = config_max_background c,
            init_out_compat_22_congestion_threshold = config_congestion_threshold c,
            init_out_compat_22_max_write = config_max_write c \<rparr>
      else
        InitOut_Current
          \<lparr> init_out_major = config_major c,
            init_out_minor = config_minor c,
            init_out_max_readahead = config_max_readahead c,
            init_out_flags = ucast (config_flags c AND 0xFFFFFFFF),
            init_out_max_background = config_max_background c,
            init_out_congestion_threshold = config_congestion_threshold c,
            init_out_max_write = config_max_write c,
            init_out_time_gran = config_time_gran c,
            init_out_max_pages = config_max_pages c,
            init_out_map_alignment = 0,
            init_out_flags2 =
              (if flags_contains (config_flags c) KernelFlags_INIT_EXT
               then ucast (drop_bit 32 (config_flags c) AND 0xFFFFFFFF) else 0),
            init_out_max_stack_depth = config_max_stack_depth c,
            init_out_request_timeout = config_request_timeout c,
            init_out_unused = replicate 11 0 \<rparr>)"

fun InitOut_to_bytes :: "InitOut \<Rightarrow> bytes" where
  "InitOut_to_bytes (InitOut_Compat3 out) = pod_enc fuse_init_in_out_compat_3_pod out"
| "InitOut_to_bytes (InitOut_Compat22 out) = pod_enc fuse_init_out_compat_22_pod out"
| "InitOut_to_bytes (InitOut_Current out) = pod_enc fuse_init_out_pod out"

section \<open>The handshake request\<close>

datatype InitIn =
    is_Compat3: InitIn_Compat3 fuse_init_in_out_compat_3
  | InitIn_Compat35 fuse_init_in_compat_35
  | InitIn_Current fuse_init_in

definition InitIn_from_bytes :: "extern \<Rightarrow> nat \<Rightarrow> bytes \<Rightarrow> InitIn option" where
  "InitIn_from_bytes X addr bs =
     (case try_ref_from_prefix X fuse_init_in_out_compat_3_pod addr bs of
        None \<Rightarrow> None
      | Some arg \<Rightarrow>
          if init_in_out_compat_3_minor arg \<le> 3 then Some (InitIn_Compat3 arg)
          else if init_in_out_compat_3_minor arg \<le> 35 then
            map_option InitIn_Compat35 (try_ref_from_prefix X fuse_init_in_compat_35_pod addr bs)
          else
            map_option InitIn_Current (try_ref_from_prefix X fuse_init_in_pod addr bs))"

fun InitIn_protocol_version :: "InitIn \<Rightarrow> u32 \<times> u32" where
  "InitIn_protocol_version (InitIn_Compat3 arg) =
     (init_in_out_compat_3_major arg, init_in_out_compat_3_minor arg)"
| "InitIn_protocol_version (InitIn_Compat35 arg) =
     (init_in_compat_35_major arg, init_in_compat_35_minor arg)"
| "InitIn_protocol_version (InitIn_Current arg) = (init_in_major arg, init_in_minor arg)"

fun InitIn_flags :: "extern \<Rightarrow> InitIn \<Rightarrow> KernelFlags" where
  "InitIn_flags X (InitIn_Compat3 arg) = 0"
| "InitIn_flags X (InitIn_Compat35 arg) =
     truncate64 X KernelFlags_all (ucast (init_in_compat_35_flags arg))"
| "InitIn_flags X (InitIn_Current arg) =
     truncate64 X KernelFlags_all
       (ucast (init_in_flags arg) OR push_bit 32 (ucast (init_in_flags2 arg)))"

fun InitIn_max_readahead :: "InitIn \<Rightarrow> u32" where
  "InitIn_max_readahead (InitIn_Compat35 arg) = init_in_compat_35_max_readahead arg"
| "InitIn_max_readahead (InitIn_Current arg) = init_in_max_readahead arg"
| "InitIn_max_readahead (InitIn_Compat3 arg) = 0"

section \<open>Negotiation\<close>

datatype NegotiationError = TooLargeProtocolVersion | TooSmallProtocolVersion

text \<open>
  The blocks of \<open>negotiate\<close>, one definition per group of parameters, in the order of the code.
\<close>

definition negotiate_version :: "InitIn \<Rightarrow> KernelConfig \<Rightarrow> KernelConfig" where
  "negotiate_version init_in c =
     c\<lparr> config_major := fst (InitIn_protocol_version init_in),
        config_minor := min (config_minor c) (snd (InitIn_protocol_version init_in)) \<rparr>"

definition negotiate_flags :: "extern \<Rightarrow> InitIn \<Rightarrow> KernelConfig \<Rightarrow> KernelConfig" where
  "negotiate_flags X init_in c =
     c\<lparr> config_flags := (config_flags c OR KernelFlags_READ_ONLY) AND InitIn_flags X init_in \<rparr>"

definition negotiate_max_readahead :: "InitIn \<Rightarrow> KernelConfig \<Rightarrow> KernelConfig" where
  "negotiate_max_readahead init_in c =
     c\<lparr> config_max_readahead :=
         max (min (config_max_readahead c) (InitIn_max_readahead init_in)) 4096 \<rparr>"

definition negotiate_max_write :: "extern \<Rightarrow> KernelConfig \<Rightarrow> KernelConfig" where
  "negotiate_max_write X c =
     c\<lparr> config_max_write :=
         min (max (config_max_write c) MIN_MAX_WRITE)
             (word_of_nat (unat MAX_MAX_PAGES * page_size X)) \<rparr>"

text \<open>Integer multiplication of \<open>u16\<close> values, which panics or wraps around on overflow.\<close>

definition mul_u16 :: "extern \<Rightarrow> u16 \<Rightarrow> u16 \<Rightarrow> ('e, u16) result" where
  "mul_u16 X a b =
     (if overflow_checks X \<and> \<not> unat a * unat b < 2 ^ 16 then Panic else Ok (a * b))"

definition negotiate_background ::
    "extern \<Rightarrow> KernelConfig \<Rightarrow> (NegotiationError, KernelConfig) result" where
  "negotiate_background X c =
     (if 13 \<le> config_minor c then
        and_then
          (if config_congestion_threshold c = 0
           then and_then (mul_u16 X (config_max_background c) 3)
                  (\<lambda>m. Ok (c\<lparr>config_congestion_threshold := m div 4\<rparr>))
           else Ok c)
          (\<lambda>c. Ok (c\<lparr>config_congestion_threshold :=
                  min (config_congestion_threshold c) (config_max_background c)\<rparr>))
      else Ok (c\<lparr>config_max_background := 0, config_congestion_threshold := 0\<rparr>))"

text \<open>The standard library's \<open>ilog10\<close>: the number of decimal digits less one.\<close>

fun ilog10 :: "nat \<Rightarrow> nat" where
  "ilog10 n = (if n < 10 then 0 else Suc (ilog10 (n div 10)))"

declare ilog10.simps [simp del]

definition negotiate_time_gran :: "KernelConfig \<Rightarrow> KernelConfig" where
  "negotiate_time_gran c =
     (if 13 \<le> config_minor c then
        c\<lparr> config_time_gran :=
            min (10 ^ ilog10 (unat (max (config_time_gran c) 1))) 1000000000 \<rparr>
      else c\<lparr> config_time_gran := 0 \<rparr>)"

definition negotiate_max_pages :: "KernelConfig \<Rightarrow> KernelConfig" where
  "negotiate_max_pages c =
     (if 28 \<le> config_minor c \<and> flags_contains (config_flags c) KernelFlags_MAX_PAGES
      then c\<lparr> config_max_pages := min (max (config_max_pages c) 1) MAX_MAX_PAGES \<rparr>
      else c\<lparr> config_max_pages := DEFAULT_MAX_PAGES_PER_REQ \<rparr>)"

definition negotiate_passthrough :: "KernelConfig \<Rightarrow> KernelConfig" where
  "negotiate_passthrough c =
     (if 40 \<le> config_minor c \<and> flags_contains (config_flags c) KernelFlags_PASSTHROUGH
         \<and> \<not> flags_contains (config_flags c) KernelFlags_WRITEBACK_CACHE
      then c\<lparr> config_max_stack_depth :=
               min (config_max_stack_depth c) FILESYSTEM_MAX_STACK_DEPTH \<rparr>
      else c\<lparr> config_flags := flags_remove (config_flags c) KernelFlags_PASSTHROUGH,
              config_max_stack_depth := 0 \<rparr>)"

text \<open>
  The whole of \<open>negotiate\<close>. It mutates its argument; an error leaves it as it was, so the model
  returns the new parameters on success only.
\<close>

definition negotiate ::
    "extern \<Rightarrow> KernelConfig \<Rightarrow> InitIn \<Rightarrow> (NegotiationError, KernelConfig) result" where
  "negotiate X c init_in =
     (let (major, minor) = InitIn_protocol_version init_in in
      if 7 < major then Err TooLargeProtocolVersion
      else if major < 7 then Err TooSmallProtocolVersion
      else
        let c = negotiate_version init_in c in
        if is_Compat3 init_in then Ok c
        else
          let c = negotiate_max_write X (negotiate_max_readahead init_in (negotiate_flags X init_in c))
          in and_then (negotiate_background X c) (\<lambda>c.
             let c = negotiate_passthrough (negotiate_max_pages (negotiate_time_gran c))
             in Ok (c\<lparr> config_request_timeout := 0 \<rparr>)))"

section \<open>Lemmas\<close>

lemma ilog10_bounds: "0 < n \<Longrightarrow> 10 ^ ilog10 n \<le> n \<and> n < 10 ^ Suc (ilog10 n)"
proof (induction n rule: ilog10.induct)
  case (1 n)
  show ?case
  proof (cases "n < 10")
    case True
    then show ?thesis using 1(2) by (simp add: ilog10.simps)
  next
    case False
    then have "10 ^ ilog10 (n div 10) \<le> n div 10 \<and> n div 10 < 10 ^ Suc (ilog10 (n div 10))"
      using 1(1) by simp
    moreover have "ilog10 n = Suc (ilog10 (n div 10))"
      using False by (subst ilog10.simps) simp
    ultimately show ?thesis by (auto simp: less_mult_imp_div_less div_less_iff_less_mult
        less_eq_div_iff_mult_less_eq mult.commute)
  qed
qed

lemma ilog10_unique:
  assumes "10 ^ k \<le> n" "n < 10 ^ Suc k"
  shows "ilog10 n = k"
proof -
  have "0 < n" using assms(1) by (cases n) simp_all
  note b = ilog10_bounds [OF this]
  have "10 ^ k < (10 :: nat) ^ Suc (ilog10 n)" using b assms(1) by linarith
  moreover have "10 ^ ilog10 n < (10 :: nat) ^ Suc k" using b assms(2) by linarith
  ultimately have "k < Suc (ilog10 n)" "ilog10 n < Suc k"
    by (simp_all only: power_strict_increasing_iff [of "10 :: nat"] one_less_numeral_iff semiring_norm)
  then show ?thesis by simp
qed

lemma ilog10_power [simp]: "ilog10 (10 ^ k) = k"
  by (rule ilog10_unique) simp_all

lemma ilog10_u32: "ilog10 (unat (w :: u32)) \<le> 9"
proof (cases "w = 0")
  case True
  then show ?thesis by (simp add: ilog10.simps)
next
  case False
  then have "10 ^ ilog10 (unat w) \<le> unat w"
    using ilog10_bounds [of "unat w"] by (simp add: unat_gt_0)
  also have "\<dots> < 10 ^ 10" using unsigned_less [of w, where 'a = nat] by simp
  finally show ?thesis
    using power_strict_increasing_iff [of "10 :: nat" "ilog10 (unat w)" 10] by simp
qed

lemma unat_power10:
  assumes "k \<le> 9"
  shows "unat (10 ^ k :: u32) = 10 ^ k"
proof -
  have "(10 :: nat) ^ k \<le> 10 ^ 9" using assms by (rule power_increasing) simp
  then have "(10 :: nat) ^ k < 2 ^ 32" by simp
  then have "unat (word_of_nat (10 ^ k) :: u32) = 10 ^ k"
    by (simp add: unsigned_of_nat take_bit_nat_eq_self_iff del: of_nat_power)
  then show ?thesis by simp
qed

text \<open>Each block of the negotiation changes its own parameters only.\<close>

lemma negotiate_flags_sel [simp]:
  "config_major (negotiate_flags X i c) = config_major c"
  "config_minor (negotiate_flags X i c) = config_minor c"
  "config_max_readahead (negotiate_flags X i c) = config_max_readahead c"
  "config_max_background (negotiate_flags X i c) = config_max_background c"
  "config_congestion_threshold (negotiate_flags X i c) = config_congestion_threshold c"
  "config_max_write (negotiate_flags X i c) = config_max_write c"
  "config_time_gran (negotiate_flags X i c) = config_time_gran c"
  "config_max_pages (negotiate_flags X i c) = config_max_pages c"
  "config_max_stack_depth (negotiate_flags X i c) = config_max_stack_depth c"
  by (simp_all add: negotiate_flags_def)

lemma negotiate_max_readahead_sel [simp]:
  "config_major (negotiate_max_readahead i c) = config_major c"
  "config_minor (negotiate_max_readahead i c) = config_minor c"
  "config_max_background (negotiate_max_readahead i c) = config_max_background c"
  "config_congestion_threshold (negotiate_max_readahead i c) = config_congestion_threshold c"
  "config_max_write (negotiate_max_readahead i c) = config_max_write c"
  "config_time_gran (negotiate_max_readahead i c) = config_time_gran c"
  "config_max_pages (negotiate_max_readahead i c) = config_max_pages c"
  "config_max_stack_depth (negotiate_max_readahead i c) = config_max_stack_depth c"
  "config_flags (negotiate_max_readahead i c) = config_flags c"
  by (simp_all add: negotiate_max_readahead_def)

lemma negotiate_max_write_sel [simp]:
  "config_major (negotiate_max_write X c) = config_major c"
  "config_minor (negotiate_max_write X c) = config_minor c"
  "config_max_readahead (negotiate_max_write X c) = config_max_readahead c"
  "config_max_background (negotiate_max_write X c) = config_max_background c"
  "config_congestion_threshold (negotiate_max_write X c) = config_congestion_threshold c"
  "config_time_gran (negotiate_max_write X c) = config_time_gran c"
  "config_max_pages (negotiate_max_write X c) = config_max_pages c"
  "config_max_stack_depth (negotiate_max_write X c) = config_max_stack_depth c"
  "config_flags (negotiate_max_write X c) = config_flags c"
  by (simp_all add: negotiate_max_write_def)

lemma negotiate_time_gran_sel [simp]:
  "config_major (negotiate_time_gran c) = config_major c"
  "config_minor (negotiate_time_gran c) = config_minor c"
  "config_max_readahead (negotiate_time_gran c) = config_max_readahead c"
  "config_max_background (negotiate_time_gran c) = config_max_background c"
  "config_congestion_threshold (negotiate_time_gran c) = config_congestion_threshold c"
  "config_max_write (negotiate_time_gran c) = config_max_write c"
  "config_max_pages (negotiate_time_gran c) = config_max_pages c"
  "config_max_stack_depth (negotiate_time_gran c) = config_max_stack_depth c"
  "config_flags (negotiate_time_gran c) = config_flags c"
  by (simp_all add: negotiate_time_gran_def)

lemma negotiate_max_pages_sel [simp]:
  "config_major (negotiate_max_pages c) = config_major c"
  "config_minor (negotiate_max_pages c) = config_minor c"
  "config_max_readahead (negotiate_max_pages c) = config_max_readahead c"
  "config_max_background (negotiate_max_pages c) = config_max_background c"
  "config_congestion_threshold (negotiate_max_pages c) = config_congestion_threshold c"
  "config_max_write (negotiate_max_pages c) = config_max_write c"
  "config_time_gran (negotiate_max_pages c) = config_time_gran c"
  "config_max_stack_depth (negotiate_max_pages c) = config_max_stack_depth c"
  "config_flags (negotiate_max_pages c) = config_flags c"
  by (simp_all add: negotiate_max_pages_def)

lemma negotiate_passthrough_sel [simp]:
  "config_major (negotiate_passthrough c) = config_major c"
  "config_minor (negotiate_passthrough c) = config_minor c"
  "config_max_readahead (negotiate_passthrough c) = config_max_readahead c"
  "config_max_background (negotiate_passthrough c) = config_max_background c"
  "config_congestion_threshold (negotiate_passthrough c) = config_congestion_threshold c"
  "config_max_write (negotiate_passthrough c) = config_max_write c"
  "config_time_gran (negotiate_passthrough c) = config_time_gran c"
  "config_max_pages (negotiate_passthrough c) = config_max_pages c"
  by (simp_all add: negotiate_passthrough_def)

lemma negotiate_background_Ok:
  assumes "negotiate_background X c = Ok b"
  shows "config_major b = config_major c" "config_minor b = config_minor c"
    "config_max_readahead b = config_max_readahead c" "config_max_write b = config_max_write c"
    "config_time_gran b = config_time_gran c" "config_max_pages b = config_max_pages c"
    "config_max_stack_depth b = config_max_stack_depth c" "config_flags b = config_flags c"
    "config_max_background b = (if 13 \<le> config_minor c then config_max_background c else 0)"
    "config_congestion_threshold b \<le> config_max_background b"
  using assms
  by (auto simp: negotiate_background_def mul_u16_def result_eqs split: if_splits)

text \<open>What a successful negotiation consists of.\<close>

lemma negotiate_eq:
  "negotiate X c i =
     (if 7 < fst (InitIn_protocol_version i) then Err TooLargeProtocolVersion
      else if fst (InitIn_protocol_version i) < 7 then Err TooSmallProtocolVersion
      else if is_Compat3 i then Ok (negotiate_version i c)
      else and_then
        (negotiate_background X
          (negotiate_max_write X
            (negotiate_max_readahead i (negotiate_flags X i (negotiate_version i c)))))
        (\<lambda>c. Ok (negotiate_passthrough (negotiate_max_pages (negotiate_time_gran c))
          \<lparr> config_request_timeout := 0 \<rparr>)))"
  by (cases "InitIn_protocol_version i")
    (auto simp: negotiate_def Let_def)

lemma negotiate_OkE:
  assumes "negotiate X c i = Ok c'"
  obtains "fst (InitIn_protocol_version i) = 7" "is_Compat3 i" "c' = negotiate_version i c"
  | b where "fst (InitIn_protocol_version i) = 7" "\<not> is_Compat3 i"
      "negotiate_background X
        (negotiate_max_write X
          (negotiate_max_readahead i (negotiate_flags X i (negotiate_version i c)))) = Ok b"
      "c' = negotiate_passthrough (negotiate_max_pages (negotiate_time_gran b))
        \<lparr> config_request_timeout := 0 \<rparr>"
proof -
  have "fst (InitIn_protocol_version i) = 7"
    using assms by (auto simp: negotiate_eq split: if_splits)
  with assms that show thesis
    by (auto simp: negotiate_eq result_eqs split: if_splits)
qed

lemma MIN_MAX_WRITE_eq: "MIN_MAX_WRITE = 8112"
  by (simp add: MIN_MAX_WRITE_def pod_sizes abi_const)

lemma negotiate_max_write_bounds:
  assumes "page_size_ok X"
  shows "MIN_MAX_WRITE \<le> config_max_write (negotiate_max_write X c)"
    and "unat (config_max_write (negotiate_max_write X c)) \<le> 256 * page_size X"
  using assms
  by (auto simp: negotiate_max_write_def page_size_ok_def MAX_MAX_PAGES_def MIN_MAX_WRITE_eq
      word_le_nat_alt min_def max_def unsigned_of_nat)

lemma negotiate_time_gran_bounds:
  assumes "13 \<le> config_minor c"
  shows "\<exists>k \<le> 9. unat (config_time_gran (negotiate_time_gran c)) = 10 ^ k \<and>
    10 ^ k \<le> max 1 (unat (config_time_gran c)) \<and> max 1 (unat (config_time_gran c)) < 10 ^ Suc k"
proof -
  let ?g = "max (config_time_gran c) 1"
  have g: "unat ?g = max 1 (unat (config_time_gran c))"
    by (auto simp: max_def word_le_nat_alt)
  let ?k = "ilog10 (unat ?g)"
  have k: "?k \<le> 9" by (rule ilog10_u32)
  have "(10 :: nat) ^ ?k \<le> 10 ^ 9" using k by (rule power_increasing) simp
  then have "min (10 ^ ?k) 1000000000 = (10 ^ ?k :: u32)"
    using unat_power10 [OF k] by (simp add: min_def word_le_nat_alt)
  then have "unat (config_time_gran (negotiate_time_gran c)) = 10 ^ ?k"
    using assms unat_power10 [OF k] by (simp add: negotiate_time_gran_def)
  moreover have "10 ^ ?k \<le> unat ?g \<and> unat ?g < 10 ^ Suc ?k"
    by (rule ilog10_bounds) (simp add: g)
  ultimately show ?thesis using k g by metis
qed


lemma flags_contains_single:
  "x AND flag = flag \<longleftrightarrow> flags_contains x flag"
  by (simp add: flags_contains_def)

lemma READ_ONLY_PASSTHROUGH: "KernelFlags_READ_ONLY AND KernelFlags_PASSTHROUGH = 0"
  by (simp add: KernelFlags_READ_ONLY_def kernel_flag abi_const)

lemma negotiate_passthrough_flags:
  "config_flags (negotiate_passthrough c) =
     (if 40 \<le> config_minor c \<and> flags_contains (config_flags c) KernelFlags_PASSTHROUGH
         \<and> \<not> flags_contains (config_flags c) KernelFlags_WRITEBACK_CACHE
      then config_flags c else flags_remove (config_flags c) KernelFlags_PASSTHROUGH)"
  by (simp add: negotiate_passthrough_def)

lemma negotiated_flags:
  assumes "\<not> is_Compat3 i" and "negotiate X c i = Ok c'"
  shows "config_flags c' =
    (let f = (config_flags c OR KernelFlags_READ_ONLY) AND InitIn_flags X i in
     if 40 \<le> config_minor c' \<and> flags_contains f KernelFlags_PASSTHROUGH
        \<and> \<not> flags_contains f KernelFlags_WRITEBACK_CACHE
     then f else flags_remove f KernelFlags_PASSTHROUGH)"
  using assms(2,1)
  by (elim negotiate_OkE)
    (simp_all add: negotiate_passthrough_flags negotiate_background_Ok negotiate_flags_def
      negotiate_version_def Let_def)

lemma InitIn_flags_all:
  "bitflags_ok X \<Longrightarrow> flags_contains KernelFlags_all (InitIn_flags X i)"
  by (cases i) (simp_all add: truncate_simps, simp add: flags_contains_def)

text \<open>The congestion threshold that is filled in when none was given.\<close>

lemma negotiate_background_default:
  assumes "13 \<le> config_minor c" and "config_congestion_threshold c = 0"
  shows "negotiate_background X c =
    (if overflow_checks X \<and> 21845 < unat (config_max_background c) then Panic
     else Ok (c\<lparr>config_congestion_threshold :=
       min (config_max_background c * 3 div 4) (config_max_background c)\<rparr>))"
  using assms by (auto simp: negotiate_background_def mul_u16_def)

text \<open>The versions of the request agree on their first two words.\<close>

lemma init_in_prefix:
  "take 8 (pod_enc fuse_init_in_compat_35_pod b) =
     pod_enc fuse_init_in_out_compat_3_pod
       \<lparr> init_in_out_compat_3_major = init_in_compat_35_major b,
         init_in_out_compat_3_minor = init_in_compat_35_minor b \<rparr>"
  "take 8 (pod_enc fuse_init_in_pod c) =
     pod_enc fuse_init_in_out_compat_3_pod
       \<lparr> init_in_out_compat_3_major = init_in_major c,
         init_in_out_compat_3_minor = init_in_minor c \<rparr>"
  by (simp_all add: fuse_init_in_compat_35_pod_def fuse_init_in_pod_def
      fuse_init_in_out_compat_3_pod_def pod_defs)

text \<open>The blocks leave alone what is already in range.\<close>

lemma negotiate_fixed:
  "config_major c = fst (InitIn_protocol_version i) \<Longrightarrow>
    config_minor c \<le> snd (InitIn_protocol_version i) \<Longrightarrow> negotiate_version i c = c"
  "flags_contains (InitIn_flags X i) (config_flags c) \<Longrightarrow>
    flags_contains (config_flags c) (KernelFlags_READ_ONLY AND InitIn_flags X i) \<Longrightarrow>
    negotiate_flags X i c = c"
  "config_max_readahead c = max (min r (InitIn_max_readahead i)) 4096 \<Longrightarrow>
    negotiate_max_readahead i c = c"
  "MIN_MAX_WRITE \<le> config_max_write c \<Longrightarrow>
    config_max_write c \<le> word_of_nat (unat MAX_MAX_PAGES * page_size X) \<Longrightarrow>
    negotiate_max_write X c = c"
proof -
  show "negotiate_version i c = c"
    if "config_major c = fst (InitIn_protocol_version i)"
      "config_minor c \<le> snd (InitIn_protocol_version i)"
    using that by (cases c) (simp add: negotiate_version_def min_def)
  show "negotiate_flags X i c = c"
    if f: "flags_contains (InitIn_flags X i) (config_flags c)"
      "flags_contains (config_flags c) (KernelFlags_READ_ONLY AND InitIn_flags X i)"
  proof -
    have "(config_flags c OR KernelFlags_READ_ONLY) AND InitIn_flags X i = config_flags c"
      using f by (intro bit_word_eqI) (auto simp: flags_contains_bit bit_simps)
    then show ?thesis by (cases c) (simp add: negotiate_flags_def)
  qed
  show "negotiate_max_readahead i c = c"
    if "config_max_readahead c = max (min r (InitIn_max_readahead i)) 4096"
    using that by (cases c) (auto simp: negotiate_max_readahead_def max_def min_def)
  show "negotiate_max_write X c = c"
    if "MIN_MAX_WRITE \<le> config_max_write c"
      "config_max_write c \<le> word_of_nat (unat MAX_MAX_PAGES * page_size X)"
    using that by (cases c) (simp add: negotiate_max_write_def max_def min_def)
qed

lemma negotiate_background_fixed:
  assumes "negotiate_background X c = Ok b" and "config_minor c' = config_minor b"
    and "config_max_background c' = config_max_background b"
    and "config_congestion_threshold c' = config_congestion_threshold b"
  shows "negotiate_background X c' = Ok c'"
  using assms
  by (cases c') (auto simp: negotiate_background_def mul_u16_def result_eqs min_def word_le_nat_alt split: if_splits)

lemma negotiate_time_gran_fixed:
  assumes "config_minor c = config_minor b"
    and "config_time_gran c = config_time_gran (negotiate_time_gran b)"
  shows "negotiate_time_gran c = c"
proof (cases "13 \<le> config_minor b")
  case True
  then obtain k where k: "k \<le> 9" "unat (config_time_gran (negotiate_time_gran b)) = 10 ^ k"
    using negotiate_time_gran_bounds by blast
  then have g: "config_time_gran c = 10 ^ k"
    using assms(2) unat_power10 [OF k(1)] by (metis word_unat_eq_iff)
  have "unat (max (10 ^ k) (1 :: u32)) = 10 ^ k"
    using unat_power10 [OF k(1)] one_le_power [of "10 :: nat" k, simplified]
    by (simp add: max_def word_le_nat_alt le_antisym del: one_le_power)
  moreover have "(10 :: nat) ^ k \<le> 10 ^ 9" using k(1) by (rule power_increasing) simp
  then have "min (10 ^ k) 1000000000 = (10 ^ k :: u32)"
    using unat_power10 [OF k(1)] by (simp add: min_def word_le_nat_alt)
  ultimately show ?thesis
    using True assms(1) g by (cases c) (simp add: negotiate_time_gran_def)
next
  case False
  then show ?thesis using assms by (cases c) (simp add: negotiate_time_gran_def)
qed

lemma negotiate_max_pages_fixed:
  assumes "config_minor c = config_minor b"
    and "flags_contains (config_flags c) KernelFlags_MAX_PAGES
      \<longleftrightarrow> flags_contains (config_flags b) KernelFlags_MAX_PAGES"
    and "config_max_pages c = config_max_pages (negotiate_max_pages b)"
  shows "negotiate_max_pages c = c"
  using assms
  by (cases c) (auto simp: negotiate_max_pages_def min_def max_def MAX_MAX_PAGES_def word_le_nat_alt)

lemma negotiate_passthrough_fixed:
  assumes "c = negotiate_passthrough b\<lparr>config_request_timeout := 0\<rparr>"
  shows "negotiate_passthrough c = c"
  using assms
  by (auto simp: negotiate_passthrough_def flags_remove_def and.assoc)

lemma bit_and_zero: "a AND b = 0 \<Longrightarrow> bit a n \<Longrightarrow> \<not> bit b n" for a b :: "'a::len word"
  by (metis bit_0_eq bit_and_iff bot_apply bot_bool_def)

section \<open>Properties\<close>



text \<open>C28: Negotiation of the feature flags. Everything that is enabled afterwards was offered by the
  kernel and is a declared flag, and was asked for or is one of the flags that are always asked
  for; apart from \<open>PASSTHROUGH\<close> every such flag is enabled; \<open>PASSTHROUGH\<close> stays enabled only
  from ABI 7.40 on and never together with \<open>WRITEBACK_CACHE\<close>.\<close>

theorem negotiate_flags_sound:
  assumes "bitflags_ok X" and "\<not> is_Compat3 init_in" and "negotiate X config init_in = Ok config'"
  shows "flags_contains (InitIn_flags X init_in) (config_flags config') \<and>
    flags_contains KernelFlags_all (config_flags config') \<and>
    flags_contains (config_flags config OR KernelFlags_READ_ONLY) (config_flags config') \<and>
    flags_remove (config_flags config') KernelFlags_PASSTHROUGH =
      flags_remove ((config_flags config OR KernelFlags_READ_ONLY) AND InitIn_flags X init_in)
        KernelFlags_PASSTHROUGH \<and>
    (flags_contains (config_flags config') KernelFlags_PASSTHROUGH \<longrightarrow>
      40 \<le> config_minor config' \<and>
      \<not> flags_contains (config_flags config') KernelFlags_WRITEBACK_CACHE)"
proof -
  let ?f = "(config_flags config OR KernelFlags_READ_ONLY) AND InitIn_flags X init_in"
  note f = negotiated_flags [OF assms(2,3)]
  have sub: "flags_contains ?f (config_flags config')"
    by (auto simp: f Let_def flags_contains_bit flags_remove_def bit_simps)
  have "flags_contains (InitIn_flags X init_in) ?f"
    "flags_contains (config_flags config OR KernelFlags_READ_ONLY) ?f"
    by (auto simp: flags_contains_bit bit_simps)
  with sub InitIn_flags_all [OF assms(1)] have
    "flags_contains (InitIn_flags X init_in) (config_flags config')"
    "flags_contains KernelFlags_all (config_flags config')"
    "flags_contains (config_flags config OR KernelFlags_READ_ONLY) (config_flags config')"
    by (blast intro: flags_contains_trans)+
  moreover have "flags_remove (config_flags config') KernelFlags_PASSTHROUGH =
      flags_remove ?f KernelFlags_PASSTHROUGH"
    by (auto simp: f Let_def flags_remove_def and.assoc)
  moreover have "\<not> flags_contains (flags_remove ?f KernelFlags_PASSTHROUGH) KernelFlags_PASSTHROUGH"
    by (auto simp: flags_contains_def flags_remove_def and.assoc kernel_flag abi_const)
  ultimately show ?thesis by (simp add: f Let_def split: if_splits)
qed

theorem negotiate_flags_sound_witness:
  "\<exists>config'. negotiate linux_extern
       (KernelConfig_new\<lparr>config_flags := KernelFlags_PASSTHROUGH OR KernelFlags_WRITEBACK_CACHE\<rparr>)
       (InitIn_Current \<lparr> init_in_major = 7, init_in_minor = 44, init_in_max_readahead = 131072,
          init_in_flags = 0xFFFFFFFF, init_in_flags2 = 0xFFFFFFFF, init_in_unused = replicate 11 0 \<rparr>) = Ok config' \<and>
     \<not> flags_contains (config_flags config') KernelFlags_PASSTHROUGH \<and>
     flags_contains KernelFlags_all (config_flags config')"
proof -
  let ?c = "KernelConfig_new\<lparr>config_flags := KernelFlags_PASSTHROUGH OR KernelFlags_WRITEBACK_CACHE\<rparr>"
  let ?i = "InitIn_Current \<lparr> init_in_major = 7, init_in_minor = 44, init_in_max_readahead = 131072,
          init_in_flags = 0xFFFFFFFF, init_in_flags2 = 0xFFFFFFFF, init_in_unused = replicate 11 0 \<rparr>"
  obtain c' where n: "negotiate linux_extern ?c ?i = Ok c'"
    by (simp add: negotiate_eq negotiate_background_def mul_u16_def linux_extern_def KernelConfig_new_def
        negotiate_version_def abi_const)
  have "flags_contains (config_flags c') KernelFlags_WRITEBACK_CACHE"
    by (simp add: negotiated_flags [OF _ n] Let_def flags_remove_def flags_contains_def linux_extern_def
        kernel_flag KernelFlags_all_def KernelFlags_READ_ONLY_def abi_const)
  then show ?thesis
    using negotiate_flags_sound [OF _ _ n] n by auto
qed

text \<open>Negotiation fails exactly when the kernel's major version is not 7, with the error that
  says in which direction, and panics exactly when the default congestion threshold is computed
  for more than 21845 background requests in a build with overflow checks.\<close>

theorem negotiate_errors:
  "(negotiate X config init_in = Err TooLargeProtocolVersion
      \<longleftrightarrow> 7 < fst (InitIn_protocol_version init_in)) \<and>
   (negotiate X config init_in = Err TooSmallProtocolVersion
      \<longleftrightarrow> fst (InitIn_protocol_version init_in) < 7) \<and>
   (negotiate X config init_in = Panic
      \<longleftrightarrow> fst (InitIn_protocol_version init_in) = 7 \<and> \<not> is_Compat3 init_in \<and> overflow_checks X \<and>
        13 \<le> min (config_minor config) (snd (InitIn_protocol_version init_in)) \<and>
        config_congestion_threshold config = 0 \<and> 21845 < unat (config_max_background config))"
proof -
  have "negotiate_background X c \<noteq> Err e" for c e
    by (auto simp: negotiate_background_def mul_u16_def result_eqs split: if_splits)
  moreover have "negotiate_background X c = Panic \<longleftrightarrow> 13 \<le> config_minor c \<and>
      config_congestion_threshold c = 0 \<and> overflow_checks X \<and> 21845 < unat (config_max_background c)"
    for c
    by (auto simp: negotiate_background_def mul_u16_def result_eqs split: if_splits)
  ultimately show ?thesis
    by (auto simp: negotiate_eq result_eqs negotiate_version_def)
qed

text \<open>Up to 21845 background requests, leaving the congestion threshold at 0 makes negotiation
  succeed with three quarters of the number of background requests, rounded down.\<close>

theorem negotiate_default_threshold:
  assumes "fst (InitIn_protocol_version init_in) = 7" and "\<not> is_Compat3 init_in"
    and "13 \<le> min (config_minor config) (snd (InitIn_protocol_version init_in))"
    and "config_congestion_threshold config = 0" and "unat (config_max_background config) \<le> 21845"
  shows "\<exists>config'. negotiate X config init_in = Ok config' \<and>
    config_max_background config' = config_max_background config \<and>
    unat (config_congestion_threshold config') = 3 * unat (config_max_background config) div 4"
proof -
  let ?m = "config_max_background config"
  have "unat (?m * 3) = 3 * unat ?m"
    using assms(5) by (simp add: unat_word_ariths)
  then have d: "unat (?m * 3 div 4) = 3 * unat ?m div 4" by (simp add: unat_div_distrib)
  then have "unat (?m * 3 div 4) \<le> unat ?m" by linarith
  then have "min (?m * 3 div 4) ?m = ?m * 3 div 4"
    by (simp add: min_def word_le_nat_alt)
  with assms d show ?thesis
    by (simp add: negotiate_eq negotiate_background_default negotiate_version_def)
qed

text \<open>C36: The congestion threshold that negotiation fills in for one that is left at 0. Up to 21845
  background requests it is three quarters of their number, rounded down. For every larger number
  the multiplication by 3 overflows 16 bits: a build with overflow checks panics, and a build
  without them settles on a quarter of the product modulo 65536, which is less than the three
  quarters.\<close>

theorem negotiate_threshold_overflow:
  assumes "fst (InitIn_protocol_version init_in) = 7" and "\<not> is_Compat3 init_in"
    and "13 \<le> min (config_minor config) (snd (InitIn_protocol_version init_in))"
    and "config_congestion_threshold config = 0"
  shows "if unat (config_max_background config) \<le> 21845 then
      \<exists>config'. negotiate X config init_in = Ok config' \<and>
        unat (config_congestion_threshold config') = 3 * unat (config_max_background config) div 4
    else if overflow_checks X then negotiate X config init_in = Panic
    else \<exists>config'. negotiate X config init_in = Ok config' \<and>
      unat (config_congestion_threshold config') =
        3 * unat (config_max_background config) mod 2 ^ 16 div 4 \<and>
      unat (config_congestion_threshold config') < 3 * unat (config_max_background config) div 4"
proof (cases "unat (config_max_background config) \<le> 21845")
  case True
  with negotiate_default_threshold [OF assms True, of X] show ?thesis by auto
next
  case False
  let ?m = "config_max_background config"
  have "unat (?m * 3) = 3 * unat ?m mod 2 ^ 16"
    by (simp add: unat_word_ariths mult.commute)
  then have d: "unat (?m * 3 div 4) = 3 * unat ?m mod 2 ^ 16 div 4" by (simp add: unat_div_distrib)
  have less: "3 * unat ?m mod 2 ^ 16 div 4 < 3 * unat ?m div 4"
  proof -
    have ge: "2 ^ 16 \<le> 3 * unat ?m" using False by simp
    then have "3 * unat ?m mod 2 ^ 16 = (3 * unat ?m - 2 ^ 16) mod 2 ^ 16" by (rule le_mod_geq)
    also have "\<dots> \<le> 3 * unat ?m - 2 ^ 16" by (rule mod_less_eq_dividend)
    finally have "3 * unat ?m mod 2 ^ 16 + 2 ^ 16 \<le> 3 * unat ?m" using ge by linarith
    then have "(3 * unat ?m mod 2 ^ 16 + 2 ^ 16) div 4 \<le> 3 * unat ?m div 4" by (rule div_le_mono)
    moreover have "(3 * unat ?m mod 2 ^ 16 + 4 * 2 ^ 14) div 4 = 2 ^ 14 + 3 * unat ?m mod 2 ^ 16 div 4"
      by (rule div_mult_self2) simp
    ultimately show ?thesis by simp
  qed
  have "unat (?m * 3 div 4) \<le> unat ?m"
    using False mod_less_divisor [of "2 ^ 16" "3 * unat ?m"] by (simp add: d)
  then have "min (?m * 3 div 4) ?m = ?m * 3 div 4"
    by (simp add: min_def word_le_nat_alt)
  with assms False d less show ?thesis
    by (simp add: negotiate_eq negotiate_background_default negotiate_version_def)
qed

theorem negotiate_threshold_overflow_witness:
  "\<exists>config'. negotiate linux_extern (KernelConfig_new\<lparr>config_max_background := 40000\<rparr>)
       (InitIn_Compat35 \<lparr> init_in_compat_35_major = 7, init_in_compat_35_minor = 31,
          init_in_compat_35_max_readahead = 0, init_in_compat_35_flags = 0 \<rparr>) = Ok config' \<and>
     unat (config_congestion_threshold config') = 13616"
  using negotiate_threshold_overflow [of "InitIn_Compat35 \<lparr> init_in_compat_35_major = 7,
      init_in_compat_35_minor = 31, init_in_compat_35_max_readahead = 0, init_in_compat_35_flags = 0 \<rparr>"
      "KernelConfig_new\<lparr>config_max_background := 40000\<rparr>" linux_extern]
  by (auto simp: KernelConfig_new_def abi_const linux_extern_def)

lemma InitIn_from_bytes_compat_35:
  assumes "zerocopy_ok X" and "addr mod 4 = 0"
    and "3 < init_in_compat_35_minor b" and "init_in_compat_35_minor b \<le> 35"
  shows "InitIn_from_bytes X addr (pod_enc fuse_init_in_compat_35_pod b @ rest) = Some (InitIn_Compat35 b)"
  using assms
  by (simp add: word_less_nat_alt word_le_nat_alt InitIn_from_bytes_def fuse_init_in_out_compat_3.try_ref_enc
      fuse_init_in_compat_35.try_ref_enc try_ref_from_prefix_def [of X fuse_init_in_out_compat_3_pod]
      init_in_prefix fuse_init_in_compat_35.enc_length pod_sizes)

text \<open>The request of a kernel is read back in the form that belongs to its minor version, from a
  suitably aligned buffer and whatever follows it.\<close>

theorem InitIn_from_bytes_kernel:
  assumes "zerocopy_ok X" and "addr mod 4 = 0"
  shows "(init_in_out_compat_3_minor a \<le> 3 \<longrightarrow>
      InitIn_from_bytes X addr (pod_enc fuse_init_in_out_compat_3_pod a @ rest) = Some (InitIn_Compat3 a)) \<and>
    (3 < init_in_compat_35_minor b \<and> init_in_compat_35_minor b \<le> 35 \<longrightarrow>
      InitIn_from_bytes X addr (pod_enc fuse_init_in_compat_35_pod b @ rest) = Some (InitIn_Compat35 b)) \<and>
    (pod_wf fuse_init_in_pod c \<and> 35 < init_in_minor c \<longrightarrow>
      InitIn_from_bytes X addr (pod_enc fuse_init_in_pod c @ rest) = Some (InitIn_Current c))"
proof (intro conjI impI)
  note ref = fuse_init_in_out_compat_3.try_ref_enc fuse_init_in_compat_35.try_ref_enc
    fuse_init_in.try_ref_enc
  note prefix = try_ref_from_prefix_def [of X fuse_init_in_out_compat_3_pod] init_in_prefix
  show "InitIn_from_bytes X addr (pod_enc fuse_init_in_out_compat_3_pod a @ rest) = Some (InitIn_Compat3 a)"
    if "init_in_out_compat_3_minor a \<le> 3"
    using that assms by (simp add: InitIn_from_bytes_def ref pod_sizes)
  show "InitIn_from_bytes X addr (pod_enc fuse_init_in_compat_35_pod b @ rest) = Some (InitIn_Compat35 b)"
    if "3 < init_in_compat_35_minor b \<and> init_in_compat_35_minor b \<le> 35"
    using that assms by (simp add: InitIn_from_bytes_compat_35)
  show "InitIn_from_bytes X addr (pod_enc fuse_init_in_pod c @ rest) = Some (InitIn_Current c)"
    if "pod_wf fuse_init_in_pod c \<and> 35 < init_in_minor c"
    using that assms
    by (simp add: word_less_nat_alt word_le_nat_alt InitIn_from_bytes_def ref prefix fuse_init_in.enc_length pod_sizes)
qed

text \<open>The reply carries the negotiated parameters. Its feature flags, put together from both of
  its words, are the negotiated ones for a kernel that understands the extended flags, and their
  lower half otherwise.\<close>

theorem KernelConfig_to_out_flags:
  "case KernelConfig_to_out config of
     InitOut_Compat3 out \<Rightarrow> config_minor config \<le> 3
   | InitOut_Compat22 out \<Rightarrow>
       3 < config_minor config \<and> config_minor config \<le> 22 \<and>
       ucast (init_out_compat_22_flags out) = take_bit 32 (config_flags config)
   | InitOut_Current out \<Rightarrow>
       22 < config_minor config \<and>
       ucast (init_out_flags out) OR push_bit 32 (ucast (init_out_flags2 out)) =
         (if flags_contains (config_flags config) KernelFlags_INIT_EXT then config_flags config
          else take_bit 32 (config_flags config))"
proof -
  have low: "ucast (ucast (f AND 0xFFFFFFFF) :: u32) = take_bit 32 f" for f :: u64
    by (rule u64_eqI) (simp add: bit_simps)
  have both: "take_bit 32 f OR push_bit 32 (take_bit 32 (drop_bit 32 f)) = f" for f :: u64
    by (rule u64_eqI) (simp add: bit_simps)
  show ?thesis by (simp add: KernelConfig_to_out_def low both not_le)
qed

text \<open>C29: Negotiation is stable: negotiated parameters that are negotiated again with the same kernel
  stay as they are.\<close>

theorem negotiate_idempotent:
  assumes "page_size_ok X" and "negotiate X config init_in = Ok config'"
  shows "negotiate X config' init_in = Ok config'"
  using assms(2)
proof (cases rule: negotiate_OkE)
  case 1
  then show ?thesis by (simp add: negotiate_eq negotiate_version_def)
next
  case (2 b)
  let ?K = "InitIn_flags X init_in"
  let ?f = "(config_flags config OR KernelFlags_READ_ONLY) AND ?K"
  note bs = negotiate_background_Ok [OF 2(3)]
  note f = negotiated_flags [OF 2(2) assms(2)]
  have minor: "config_minor config' = config_minor b" by (simp add: 2(4))
  have b_flags: "config_flags b = ?f"
    by (simp add: bs negotiate_flags_def negotiate_version_def)
  have "negotiate_version init_in config' = config'"
    by (rule negotiate_fixed) (simp_all add: 2(4) bs negotiate_version_def)
  moreover have "negotiate_flags X init_in config' = config'"
  proof (rule negotiate_fixed)
    show "flags_contains ?K (config_flags config')"
      by (auto simp: f Let_def flags_contains_bit flags_remove_def bit_simps)
    show "flags_contains (config_flags config') (KernelFlags_READ_ONLY AND ?K)"
      using READ_ONLY_PASSTHROUGH
      by (auto simp: f Let_def flags_contains_bit flags_remove_def bit_simps dest: bit_and_zero bit_imp_le_length)
  qed
  moreover have "negotiate_max_readahead init_in config' = config'"
    by (rule negotiate_fixed(3) [where r = "config_max_readahead config"])
      (simp add: 2(4) bs negotiate_max_readahead_def negotiate_version_def)
  moreover have "negotiate_max_write X config' = config'"
  proof (rule negotiate_fixed)
    show "MIN_MAX_WRITE \<le> config_max_write config'"
      using negotiate_max_write_bounds(1) [OF assms(1)] by (simp add: 2(4) bs)
    show "config_max_write config' \<le> word_of_nat (unat MAX_MAX_PAGES * page_size X)"
      by (simp add: 2(4) bs negotiate_max_write_def)
  qed
  moreover have "negotiate_background X config' = Ok config'"
    by (rule negotiate_background_fixed [OF 2(3)]) (simp_all add: 2(4))
  moreover have "negotiate_time_gran config' = config'"
    by (rule negotiate_time_gran_fixed [OF minor]) (simp add: 2(4))
  moreover have "negotiate_max_pages config' = config'"
  proof (rule negotiate_max_pages_fixed)
    show "config_minor config' = config_minor (negotiate_time_gran b)" by (simp add: minor)
    show "flags_contains (config_flags config') KernelFlags_MAX_PAGES \<longleftrightarrow>
        flags_contains (config_flags (negotiate_time_gran b)) KernelFlags_MAX_PAGES"
      by (simp add: f b_flags Let_def flags_contains_def flags_remove_def and.assoc kernel_flag abi_const)
    show "config_max_pages config' = config_max_pages (negotiate_max_pages (negotiate_time_gran b))"
      by (simp add: 2(4))
  qed
  moreover have "negotiate_passthrough config' = config'"
    by (rule negotiate_passthrough_fixed) (simp add: 2(4))
  moreover have "config'\<lparr>config_request_timeout := 0\<rparr> = config'" by (simp add: 2(4))
  ultimately show ?thesis using 2(1,2) by (simp add: negotiate_eq)
qed

theorem negotiate_idempotent_witness:
  "\<exists>config'. negotiate linux_extern (KernelConfig_new\<lparr>config_time_gran := 250\<rparr>)
       (InitIn_Compat35 \<lparr> init_in_compat_35_major = 7, init_in_compat_35_minor = 31,
          init_in_compat_35_max_readahead = 0, init_in_compat_35_flags = 0 \<rparr>) = Ok config' \<and>
     config_max_readahead config' = 4096 \<and>
     negotiate linux_extern config'
       (InitIn_Compat35 \<lparr> init_in_compat_35_major = 7, init_in_compat_35_minor = 31,
          init_in_compat_35_max_readahead = 0, init_in_compat_35_flags = 0 \<rparr>) = Ok config'"
proof -
  let ?c = "KernelConfig_new\<lparr>config_time_gran := 250\<rparr>"
  let ?i = "InitIn_Compat35 \<lparr> init_in_compat_35_major = 7, init_in_compat_35_minor = 31,
          init_in_compat_35_max_readahead = 0, init_in_compat_35_flags = 0 \<rparr>"
  obtain c' where "negotiate linux_extern ?c ?i = Ok c'" "config_max_readahead c' = 4096"
    by (simp add: negotiate_eq negotiate_background_def mul_u16_def linux_extern_def KernelConfig_new_def
        negotiate_version_def negotiate_max_readahead_def abi_const)
  then show ?thesis using negotiate_idempotent [of linux_extern ?c ?i c'] by simp
qed

text \<open>The sizes that the interface declares for its older structures are their actual sizes.\<close>

lemma compat_sizes:
  "pod_size fuse_mknod_in_compat_11_pod = FUSE_COMPAT_MKNOD_IN_SIZE"
  "pod_size fuse_write_in_compat_8_pod = FUSE_COMPAT_WRITE_IN_SIZE"
  "pod_size fuse_setxattr_in_compat_32_pod = FUSE_COMPAT_SETXATTR_IN_SIZE"
  "pod_size fuse_attr_out_compat_8_pod = FUSE_COMPAT_ATTR_OUT_SIZE"
  "pod_size fuse_entry_out_compat_8_pod = FUSE_COMPAT_ENTRY_OUT_SIZE"
  "pod_size fuse_init_in_out_compat_3_pod = FUSE_COMPAT_INIT_OUT_SIZE"
  "pod_size fuse_init_out_compat_22_pod = FUSE_COMPAT_22_INIT_OUT_SIZE"
  "pod_size fuse_statfs_out_compat_3_pod = FUSE_COMPAT_STATFS_SIZE"
  by (simp_all add: pod_sizes abi_const)

end
