(* ===== verification/Op_Decode.thy ===== *)
theory Op_Decode
  imports Op Init
begin

text \<open>
  Decoding a request into an operation (\<open>Operation::decode\<close> of \<open>src/op.rs\<close>): one definition per
  arm of the match on the opcode. Arguments are fetched and fields are computed in the order of
  the code, so the first error is the one that is returned.
\<close>

type_synonym decoded = "(DecodeError, Operation) result"

definition nodeid_or_err :: "InHeader \<Rightarrow> (DecodeError, NodeID) result" where
  "nodeid_or_err header = ok_or (InHeader_nodeid header) InvalidNodeID"

definition decode_forget :: "extern \<Rightarrow> InHeader \<Rightarrow> decoder \<Rightarrow> decoded" where
  "decode_forget X header d =
     and_then (fetch X fuse_forget_in_pod d) (\<lambda>(arg, d).
     and_then (nodeid_or_err header) (\<lambda>nodeid.
     Ok (Forget_op (Forgets_Single (Forget
       \<lparr> forget_one_nodeid = NodeID_into_raw nodeid, forget_one_nlookup = forget_in_nlookup arg \<rparr>)))))"

definition decode_batch_forget :: "extern \<Rightarrow> decoder \<Rightarrow> decoded" where
  "decode_batch_forget X d =
     and_then (fetch X fuse_batch_forget_in_pod d) (\<lambda>(arg, d).
     and_then (fetch_array X fuse_forget_one_pod (unat (batch_forget_in_count arg)) d) (\<lambda>(forgets, d).
     Ok (Forget_op (Forgets_Batch (map Forget forgets)))))"

definition decode_interrupt :: "extern \<Rightarrow> decoder \<Rightarrow> decoded" where
  "decode_interrupt X d =
     and_then (fetch X fuse_interrupt_in_pod d) (\<lambda>(arg, d).
     Ok (Interrupt \<lparr> Interrupt_unique = RequestID (interrupt_in_unique arg AND NOT FUSE_INT_REQ_BIT) \<rparr>))"

definition decode_notify_reply :: "extern \<Rightarrow> InHeader \<Rightarrow> decoder \<Rightarrow> decoded" where
  "decode_notify_reply X header d =
     and_then (fetch X fuse_notify_retrieve_in_pod d) (\<lambda>(arg, d).
     and_then (nodeid_or_err header) (\<lambda>ino.
     Ok (NotifyReply
       \<lparr> NotifyReply_unique = NotifyID (RequestID_into_raw (InHeader_unique header)),
         NotifyReply_ino = ino, NotifyReply_offset = notify_retrieve_in_offset arg,
         NotifyReply_size = notify_retrieve_in_size arg \<rparr>)))"

definition decode_lookup :: "InHeader \<Rightarrow> decoder \<Rightarrow> decoded" where
  "decode_lookup header d =
     and_then (fetch_str d) (\<lambda>(name, d).
     and_then (nodeid_or_err header) (\<lambda>parent.
     Ok (Lookup \<lparr> Lookup_parent = parent, Lookup_name = name \<rparr>)))"

definition decode_getattr :: "extern \<Rightarrow> InHeader \<Rightarrow> decoder \<Rightarrow> decoded" where
  "decode_getattr X header d =
     and_then (fetch X fuse_getattr_in_pod d) (\<lambda>(arg, d).
     and_then (nodeid_or_err header) (\<lambda>ino.
     Ok (Getattr
       \<lparr> Getattr_ino = ino,
         Getattr_fh = then_some (getattr_in_getattr_flags arg AND FUSE_GETATTR_FH \<noteq> 0)
           (FileID (getattr_in_fh arg)) \<rparr>)))"

text \<open>The time stamps of \<open>FUSE_SETATTR\<close>; \<open>Duration::new\<close> panics when the seconds overflow.\<close>

definition setattr_time ::
    "bool \<Rightarrow> bool \<Rightarrow> u64 \<Rightarrow> u32 \<Rightarrow> (DecodeError, SetAttrTime option) result" where
  "setattr_time valid now secs nsecs =
     (if \<not> valid then Ok None
      else if now then Ok (Some Now)
      else and_then (duration_new secs nsecs) (\<lambda>t. Ok (Some (Timespec t))))"

definition setattr_ctime :: "bool \<Rightarrow> u64 \<Rightarrow> u32 \<Rightarrow> (DecodeError, duration option) result" where
  "setattr_ctime valid secs nsecs =
     (if valid then and_then (duration_new secs nsecs) (\<lambda>t. Ok (Some t)) else Ok None)"

definition decode_setattr :: "extern \<Rightarrow> InHeader \<Rightarrow> decoder \<Rightarrow> decoded" where
  "decode_setattr X header d =
     and_then (fetch X fuse_setattr_in_pod d) (\<lambda>(arg, d).
     let valid = (\<lambda>flag. setattr_in_valid arg AND flag \<noteq> 0) in
     and_then (nodeid_or_err header) (\<lambda>ino.
     and_then (setattr_time (valid FATTR_ATIME) (valid FATTR_ATIME_NOW)
                (setattr_in_atime arg) (setattr_in_atimensec arg)) (\<lambda>atime.
     and_then (setattr_time (valid FATTR_MTIME) (valid FATTR_MTIME_NOW)
                (setattr_in_mtime arg) (setattr_in_mtimensec arg)) (\<lambda>mtime.
     and_then (setattr_ctime (valid FATTR_CTIME) (setattr_in_ctime arg) (setattr_in_ctimensec arg)) (\<lambda>ctime.
     Ok (Setattr
       \<lparr> Setattr_ino = ino,
         Setattr_fh = then_some (valid FATTR_FH) (FileID (setattr_in_fh arg)),
         Setattr_mode = then_some (valid FATTR_MODE) (FileMode_from_raw (setattr_in_mode arg)),
         Setattr_uid = then_some (valid FATTR_UID) (setattr_in_uid arg),
         Setattr_gid = then_some (valid FATTR_GID) (setattr_in_gid arg),
         Setattr_size = then_some (valid FATTR_SIZE) (setattr_in_size arg),
         Setattr_atime = atime, Setattr_mtime = mtime, Setattr_ctime = ctime,
         Setattr_lock_owner =
           then_some (valid FATTR_LOCKOWNER) (LockOwnerID (setattr_in_lock_owner arg)),
         Setattr_kill_suidgid = valid FATTR_KILL_SUIDGID \<rparr>))))))"

definition decode_readlink :: "InHeader \<Rightarrow> decoded" where
  "decode_readlink header =
     and_then (nodeid_or_err header) (\<lambda>ino. Ok (Readlink \<lparr> Readlink_ino = ino \<rparr>))"

definition decode_symlink :: "InHeader \<Rightarrow> decoder \<Rightarrow> decoded" where
  "decode_symlink header d =
     and_then (fetch_str d) (\<lambda>(name, d).
     and_then (fetch_str d) (\<lambda>(link, d).
     and_then (nodeid_or_err header) (\<lambda>parent.
     Ok (Symlink \<lparr> Symlink_parent = parent, Symlink_name = name, Symlink_link = link \<rparr>))))"

definition decode_mknod_compat_11 :: "extern \<Rightarrow> InHeader \<Rightarrow> decoder \<Rightarrow> decoded" where
  "decode_mknod_compat_11 X header d =
     and_then (fetch X fuse_mknod_in_compat_11_pod d) (\<lambda>(arg, d).
     and_then (fetch_str d) (\<lambda>(name, d).
     and_then (nodeid_or_err header) (\<lambda>parent.
     Ok (Mknod
       \<lparr> Mknod_parent = parent, Mknod_name = name,
         Mknod_mode = FileMode_from_raw (mknod_in_compat_11_mode arg),
         Mknod_rdev = DeviceID_from_kernel_dev (mknod_in_compat_11_rdev arg),
         Mknod_umask = 0 \<rparr>))))"

definition decode_mknod :: "extern \<Rightarrow> InHeader \<Rightarrow> decoder \<Rightarrow> decoded" where
  "decode_mknod X header d =
     and_then (fetch X fuse_mknod_in_pod d) (\<lambda>(arg, d).
     and_then (fetch_str d) (\<lambda>(name, d).
     and_then (nodeid_or_err header) (\<lambda>parent.
     Ok (Mknod
       \<lparr> Mknod_parent = parent, Mknod_name = name,
         Mknod_mode = FileMode_from_raw (mknod_in_mode arg),
         Mknod_rdev = DeviceID_from_kernel_dev (mknod_in_rdev arg),
         Mknod_umask =
           truncate32 X FilePermissions_all (mknod_in_umask arg) AND FilePermissions_MASK \<rparr>))))"

definition decode_mkdir :: "extern \<Rightarrow> InHeader \<Rightarrow> decoder \<Rightarrow> decoded" where
  "decode_mkdir X header d =
     and_then (fetch X fuse_mkdir_in_pod d) (\<lambda>(arg, d).
     and_then (fetch_str d) (\<lambda>(name, d).
     and_then (nodeid_or_err header) (\<lambda>parent.
     Ok (Mkdir
       \<lparr> Mkdir_parent = parent, Mkdir_name = name,
         Mkdir_permissions = truncate32 X FilePermissions_all (mkdir_in_mode arg),
         Mkdir_umask =
           truncate32 X FilePermissions_all (mkdir_in_umask arg) AND FilePermissions_MASK \<rparr>))))"

definition decode_unlink :: "InHeader \<Rightarrow> decoder \<Rightarrow> decoded" where
  "decode_unlink header d =
     and_then (fetch_str d) (\<lambda>(name, d).
     and_then (nodeid_or_err header) (\<lambda>parent.
     Ok (Unlink \<lparr> Unlink_parent = parent, Unlink_name = name \<rparr>)))"

definition decode_rmdir :: "InHeader \<Rightarrow> decoder \<Rightarrow> decoded" where
  "decode_rmdir header d =
     and_then (fetch_str d) (\<lambda>(name, d).
     and_then (nodeid_or_err header) (\<lambda>parent.
     Ok (Rmdir \<lparr> Rmdir_parent = parent, Rmdir_name = name \<rparr>)))"

definition decode_rename :: "extern \<Rightarrow> InHeader \<Rightarrow> decoder \<Rightarrow> decoded" where
  "decode_rename X header d =
     and_then (fetch X fuse_rename_in_pod d) (\<lambda>(arg, d).
     and_then (fetch_str d) (\<lambda>(name, d).
     and_then (fetch_str d) (\<lambda>(newname, d).
     and_then (nodeid_or_err header) (\<lambda>parent.
     and_then (ok_or (NodeID_from_raw (rename_in_newdir arg)) InvalidNodeID) (\<lambda>newparent.
     Ok (Rename
       \<lparr> Rename_parent = parent, Rename_name = name, Rename_newparent = newparent,
         Rename_newname = newname, Rename_flags = 0 \<rparr>))))))"

definition decode_rename2 :: "extern \<Rightarrow> InHeader \<Rightarrow> decoder \<Rightarrow> decoded" where
  "decode_rename2 X header d =
     and_then (fetch X fuse_rename2_in_pod d) (\<lambda>(arg, d).
     and_then (fetch_str d) (\<lambda>(name, d).
     and_then (fetch_str d) (\<lambda>(newname, d).
     and_then (nodeid_or_err header) (\<lambda>parent.
     and_then (ok_or (NodeID_from_raw (rename2_in_newdir arg)) InvalidNodeID) (\<lambda>newparent.
     Ok (Rename
       \<lparr> Rename_parent = parent, Rename_name = name, Rename_newparent = newparent,
         Rename_newname = newname,
         Rename_flags = truncate32 X RenameFlags_all (rename2_in_flags arg) \<rparr>))))))"

definition decode_link :: "extern \<Rightarrow> InHeader \<Rightarrow> decoder \<Rightarrow> decoded" where
  "decode_link X header d =
     and_then (fetch X fuse_link_in_pod d) (\<lambda>(arg, d).
     and_then (fetch_str d) (\<lambda>(newname, d).
     and_then (ok_or (NodeID_from_raw (link_in_oldnodeid arg)) InvalidNodeID) (\<lambda>ino.
     and_then (nodeid_or_err header) (\<lambda>newparent.
     Ok (Link \<lparr> Link_ino = ino, Link_newparent = newparent, Link_newname = newname \<rparr>)))))"

definition decode_open :: "extern \<Rightarrow> InHeader \<Rightarrow> decoder \<Rightarrow> decoded" where
  "decode_open X header d =
     and_then (fetch X fuse_open_in_pod d) (\<lambda>(arg, d).
     and_then (nodeid_or_err header) (\<lambda>ino.
     Ok (Open
       \<lparr> Open_ino = ino, Open_options = OpenOptions_from_raw (open_in_flags arg),
         Open_flags = truncate32 X OpenInFlags_all (open_in_open_flags arg) \<rparr>)))"

definition decode_read :: "extern \<Rightarrow> InHeader \<Rightarrow> decoder \<Rightarrow> decoded" where
  "decode_read X header d =
     and_then (fetch X fuse_read_in_pod d) (\<lambda>(arg, d).
     and_then (nodeid_or_err header) (\<lambda>ino.
     Ok (Read
       \<lparr> Read_ino = ino, Read_fh = FileID (read_in_fh arg), Read_offset = read_in_offset arg,
         Read_size = read_in_size arg, Read_options = OpenOptions_from_raw (read_in_flags arg),
         Read_lock_owner = then_some (read_in_read_flags arg AND FUSE_READ_LOCKOWNER \<noteq> 0)
           (LockOwnerID (read_in_lock_owner arg)) \<rparr>)))"

definition decode_write_compat_8 :: "extern \<Rightarrow> InHeader \<Rightarrow> decoder \<Rightarrow> decoded" where
  "decode_write_compat_8 X header d =
     and_then (fetch X fuse_write_in_compat_8_pod d) (\<lambda>(arg, d).
     and_then (nodeid_or_err header) (\<lambda>ino.
     Ok (Write
       \<lparr> Write_ino = ino, Write_fh = FileID (write_in_compat_8_fh arg),
         Write_offset = write_in_compat_8_offset arg, Write_size = write_in_compat_8_size arg,
         Write_options = OpenOptions_from_raw 0, Write_lock_owner = None, Write_flags = 0 \<rparr>)))"

definition decode_write :: "extern \<Rightarrow> InHeader \<Rightarrow> decoder \<Rightarrow> decoded" where
  "decode_write X header d =
     and_then (fetch X fuse_write_in_pod d) (\<lambda>(arg, d).
     and_then (nodeid_or_err header) (\<lambda>ino.
     Ok (Write
       \<lparr> Write_ino = ino, Write_fh = FileID (write_in_fh arg), Write_offset = write_in_offset arg,
         Write_size = write_in_size arg, Write_options = OpenOptions_from_raw (write_in_flags arg),
         Write_lock_owner = then_some (write_in_write_flags arg AND FUSE_WRITE_LOCKOWNER \<noteq> 0)
           (LockOwnerID (write_in_lock_owner arg)),
         Write_flags = truncate32 X WriteInFlags_all (write_in_write_flags arg) \<rparr>)))"

definition decode_release :: "extern \<Rightarrow> InHeader \<Rightarrow> decoder \<Rightarrow> decoded" where
  "decode_release X header d =
     and_then (fetch X fuse_release_in_pod d) (\<lambda>(arg, d).
     and_then (nodeid_or_err header) (\<lambda>ino.
     Ok (Release
       \<lparr> Release_ino = ino, Release_fh = FileID (release_in_fh arg),
         Release_options = OpenOptions_from_raw (release_in_flags arg),
         Release_lock_owner = LockOwnerID (release_in_lock_owner arg),
         Release_flags = truncate32 X ReleaseFlags_all (release_in_release_flags arg) \<rparr>)))"

definition decode_statfs :: "InHeader \<Rightarrow> decoded" where
  "decode_statfs header =
     and_then (nodeid_or_err header) (\<lambda>ino. Ok (Statfs \<lparr> Statfs_op_ino = ino \<rparr>))"

definition decode_fsync :: "extern \<Rightarrow> InHeader \<Rightarrow> decoder \<Rightarrow> decoded" where
  "decode_fsync X header d =
     and_then (fetch X fuse_fsync_in_pod d) (\<lambda>(arg, d).
     and_then (nodeid_or_err header) (\<lambda>ino.
     Ok (Fsync
       \<lparr> Fsync_ino = ino, Fsync_fh = FileID (fsync_in_fh arg),
         Fsync_datasync = (fsync_in_fsync_flags arg AND FUSE_FSYNC_FDATASYNC \<noteq> 0) \<rparr>)))"

definition decode_setxattr_compat_32 :: "extern \<Rightarrow> InHeader \<Rightarrow> decoder \<Rightarrow> decoded" where
  "decode_setxattr_compat_32 X header d =
     and_then (fetch X fuse_setxattr_in_compat_32_pod d) (\<lambda>(arg, d).
     and_then (fetch_str d) (\<lambda>(name, d).
     and_then (fetch_bytes (unat (setxattr_in_compat_32_size arg)) d) (\<lambda>(value, d).
     and_then (nodeid_or_err header) (\<lambda>ino.
     Ok (Setxattr
       \<lparr> Setxattr_ino = ino, Setxattr_name = name, Setxattr_value = value,
         Setxattr_flags = xattr_truncate X (setxattr_in_compat_32_flags arg),
         Setxattr_extra_flags = 0 \<rparr>)))))"

definition decode_setxattr :: "extern \<Rightarrow> InHeader \<Rightarrow> decoder \<Rightarrow> decoded" where
  "decode_setxattr X header d =
     and_then (fetch X fuse_setxattr_in_pod d) (\<lambda>(arg, d).
     and_then (fetch_str d) (\<lambda>(name, d).
     and_then (fetch_bytes (unat (setxattr_in_size arg)) d) (\<lambda>(value, d).
     and_then (nodeid_or_err header) (\<lambda>ino.
     Ok (Setxattr
       \<lparr> Setxattr_ino = ino, Setxattr_name = name, Setxattr_value = value,
         Setxattr_flags = xattr_truncate X (setxattr_in_flags arg),
         Setxattr_extra_flags =
           truncate32 X SetxattrInFlags_all (setxattr_in_setxattr_flags arg) \<rparr>)))))"

definition decode_getxattr :: "extern \<Rightarrow> InHeader \<Rightarrow> decoder \<Rightarrow> decoded" where
  "decode_getxattr X header d =
     and_then (fetch X fuse_getxattr_in_pod d) (\<lambda>(arg, d).
     and_then (fetch_str d) (\<lambda>(name, d).
     and_then (nodeid_or_err header) (\<lambda>ino.
     Ok (Getxattr
       \<lparr> Getxattr_ino = ino, Getxattr_name = name, Getxattr_size = getxattr_in_size arg \<rparr>))))"

definition decode_listxattr :: "extern \<Rightarrow> InHeader \<Rightarrow> decoder \<Rightarrow> decoded" where
  "decode_listxattr X header d =
     and_then (fetch X fuse_getxattr_in_pod d) (\<lambda>(arg, d).
     and_then (nodeid_or_err header) (\<lambda>ino.
     Ok (Listxattr \<lparr> Listxattr_ino = ino, Listxattr_size = getxattr_in_size arg \<rparr>)))"

definition decode_removexattr :: "InHeader \<Rightarrow> decoder \<Rightarrow> decoded" where
  "decode_removexattr header d =
     and_then (fetch_str d) (\<lambda>(name, d).
     and_then (nodeid_or_err header) (\<lambda>ino.
     Ok (Removexattr \<lparr> Removexattr_ino = ino, Removexattr_name = name \<rparr>)))"

definition decode_flush :: "extern \<Rightarrow> InHeader \<Rightarrow> decoder \<Rightarrow> decoded" where
  "decode_flush X header d =
     and_then (fetch X fuse_flush_in_pod d) (\<lambda>(arg, d).
     and_then (nodeid_or_err header) (\<lambda>ino.
     Ok (Flush
       \<lparr> Flush_ino = ino, Flush_fh = FileID (flush_in_fh arg),
         Flush_lock_owner = LockOwnerID (flush_in_lock_owner arg) \<rparr>)))"

definition decode_opendir :: "extern \<Rightarrow> InHeader \<Rightarrow> decoder \<Rightarrow> decoded" where
  "decode_opendir X header d =
     and_then (fetch X fuse_open_in_pod d) (\<lambda>(arg, d).
     and_then (nodeid_or_err header) (\<lambda>ino.
     Ok (Opendir
       \<lparr> Opendir_ino = ino, Opendir_options = OpenOptions_from_raw (open_in_flags arg) \<rparr>)))"

definition decode_readdir :: "extern \<Rightarrow> fuse_opcode \<Rightarrow> InHeader \<Rightarrow> decoder \<Rightarrow> decoded" where
  "decode_readdir X opcode header d =
     and_then (fetch X fuse_read_in_pod d) (\<lambda>(arg, d).
     and_then (nodeid_or_err header) (\<lambda>ino.
     Ok (Readdir
       \<lparr> Readdir_ino = ino, Readdir_fh = FileID (read_in_fh arg),
         Readdir_offset = read_in_offset arg, Readdir_size = read_in_size arg,
         Readdir_mode =
           (if opcode = FUSE_READDIRPLUS then ReaddirMode_Plus else ReaddirMode_Normal) \<rparr>)))"

definition decode_releasedir :: "extern \<Rightarrow> InHeader \<Rightarrow> decoder \<Rightarrow> decoded" where
  "decode_releasedir X header d =
     and_then (fetch X fuse_release_in_pod d) (\<lambda>(arg, d).
     and_then (nodeid_or_err header) (\<lambda>ino.
     Ok (Releasedir
       \<lparr> Releasedir_ino = ino, Releasedir_fh = FileID (release_in_fh arg),
         Releasedir_options = OpenOptions_from_raw (release_in_flags arg) \<rparr>)))"

definition decode_fsyncdir :: "extern \<Rightarrow> InHeader \<Rightarrow> decoder \<Rightarrow> decoded" where
  "decode_fsyncdir X header d =
     and_then (fetch X fuse_fsync_in_pod d) (\<lambda>(arg, d).
     and_then (nodeid_or_err header) (\<lambda>ino.
     Ok (Fsyncdir
       \<lparr> Fsyncdir_ino = ino, Fsyncdir_fh = FileID (fsync_in_fh arg),
         Fsyncdir_datasync = (fsync_in_fsync_flags arg AND FUSE_FSYNC_FDATASYNC \<noteq> 0) \<rparr>)))"

definition decode_file_lock :: "extern \<Rightarrow> fuse_file_lock \<Rightarrow> (DecodeError, FileLock) result" where
  "decode_file_lock X lk =
     and_then (ok_or (Pid_from_raw X (file_lock_pid lk)) InvalidPid) (\<lambda>pid.
     Ok \<lparr> FileLock_typ = file_lock_typ lk, FileLock_start = file_lock_start lk,
          FileLock_end = file_lock_end lk, FileLock_pid = pid \<rparr>)"

definition decode_getlk :: "extern \<Rightarrow> InHeader \<Rightarrow> decoder \<Rightarrow> decoded" where
  "decode_getlk X header d =
     and_then (fetch X fuse_lk_in_pod d) (\<lambda>(arg, d).
     and_then (nodeid_or_err header) (\<lambda>ino.
     and_then (decode_file_lock X (lk_in_lk arg)) (\<lambda>file_lock.
     Ok (Getlk
       \<lparr> Getlk_ino = ino, Getlk_fh = FileID (lk_in_fh arg),
         Getlk_owner = LockOwnerID (lk_in_owner arg), Getlk_file_lock = file_lock \<rparr>))))"

definition flock_op :: "u32 \<Rightarrow> bool \<Rightarrow> (DecodeError, FlockOp) result" where
  "flock_op typ sleep =
     (if typ = F_RDLCK then Ok (if sleep then FlockOp_Shared else FlockOp_SharedNonblock)
      else if typ = F_WRLCK then Ok (if sleep then FlockOp_Exclusive else FlockOp_ExclusiveNonblock)
      else if typ = F_UNLCK then Ok FlockOp_Unlock
      else Err InvalidFlockType)"

definition decode_setlk :: "extern \<Rightarrow> fuse_opcode \<Rightarrow> InHeader \<Rightarrow> decoder \<Rightarrow> decoded" where
  "decode_setlk X opcode header d =
     and_then (fetch X fuse_lk_in_pod d) (\<lambda>(arg, d).
     and_then (case opcode of FUSE_SETLK \<Rightarrow> Ok False | FUSE_SETLKW \<Rightarrow> Ok True | _ \<Rightarrow> Panic) (\<lambda>sleep.
     if lk_in_lk_flags arg AND FUSE_LK_FLOCK = 0 then
       and_then (nodeid_or_err header) (\<lambda>ino.
       and_then (decode_file_lock X (lk_in_lk arg)) (\<lambda>file_lock.
       Ok (Setlk
         \<lparr> Setlk_ino = ino, Setlk_fh = FileID (lk_in_fh arg), Setlk_file_lock = file_lock,
           Setlk_sleep = sleep \<rparr>)))
     else
       and_then (nodeid_or_err header) (\<lambda>ino.
       and_then (flock_op (file_lock_typ (lk_in_lk arg)) sleep) (\<lambda>op.
       Ok (Flock
         \<lparr> Flock_ino = ino, Flock_fh = FileID (lk_in_fh arg),
           Flock_owner = LockOwnerID (lk_in_owner arg), Flock_op = op \<rparr>)))))"

definition decode_access :: "extern \<Rightarrow> InHeader \<Rightarrow> decoder \<Rightarrow> decoded" where
  "decode_access X header d =
     and_then (fetch X fuse_access_in_pod d) (\<lambda>(arg, d).
     and_then (nodeid_or_err header) (\<lambda>ino.
     Ok (Access
       \<lparr> Access_ino = ino,
         Access_mask =
           truncate32 X FilePermissions_all (access_in_mask arg) AND FilePermissions_MASK \<rparr>)))"

definition decode_create :: "extern \<Rightarrow> InHeader \<Rightarrow> decoder \<Rightarrow> decoded" where
  "decode_create X header d =
     and_then (fetch X fuse_create_in_pod d) (\<lambda>(arg, d).
     and_then (fetch_str d) (\<lambda>(name, d).
     and_then (nodeid_or_err header) (\<lambda>parent.
     Ok (Create
       \<lparr> Create_parent = parent, Create_name = name,
         Create_mode = FileMode_from_raw (create_in_mode arg),
         Create_umask =
           truncate32 X FilePermissions_all (create_in_umask arg) AND FilePermissions_MASK,
         Create_open_options = OpenOptions_from_raw (create_in_flags arg) \<rparr>))))"

definition decode_bmap :: "extern \<Rightarrow> InHeader \<Rightarrow> decoder \<Rightarrow> decoded" where
  "decode_bmap X header d =
     and_then (fetch X fuse_bmap_in_pod d) (\<lambda>(arg, d).
     and_then (nodeid_or_err header) (\<lambda>ino.
     Ok (Bmap
       \<lparr> Bmap_ino = ino, Bmap_block = bmap_in_block arg, Bmap_blocksize = bmap_in_blocksize arg \<rparr>)))"

definition decode_fallocate :: "extern \<Rightarrow> InHeader \<Rightarrow> decoder \<Rightarrow> decoded" where
  "decode_fallocate X header d =
     and_then (fetch X fuse_fallocate_in_pod d) (\<lambda>(arg, d).
     and_then (nodeid_or_err header) (\<lambda>ino.
     Ok (Fallocate
       \<lparr> Fallocate_ino = ino, Fallocate_fh = FileID (fallocate_in_fh arg),
         Fallocate_offset = fallocate_in_offset arg, Fallocate_length = fallocate_in_length arg,
         Fallocate_mode = truncate32 X FallocateFlags_all (fallocate_in_mode arg) \<rparr>)))"

definition decode_copy_file_range :: "extern \<Rightarrow> InHeader \<Rightarrow> decoder \<Rightarrow> decoded" where
  "decode_copy_file_range X header d =
     and_then (fetch X fuse_copy_file_range_in_pod d) (\<lambda>(arg, d).
     and_then (nodeid_or_err header) (\<lambda>ino_in.
     and_then (ok_or (NodeID_from_raw (copy_file_range_in_nodeid_out arg)) InvalidNodeID) (\<lambda>ino_out.
     Ok (CopyFileRange
       \<lparr> CopyFileRange_ino_in = ino_in, CopyFileRange_fh_in = FileID (copy_file_range_in_fh_in arg),
         CopyFileRange_offset_in = copy_file_range_in_off_in arg,
         CopyFileRange_ino_out = ino_out,
         CopyFileRange_fh_out = FileID (copy_file_range_in_fh_out arg),
         CopyFileRange_offset_out = copy_file_range_in_off_out arg,
         CopyFileRange_length = copy_file_range_in_len arg,
         CopyFileRange_flags = copy_file_range_in_flags arg \<rparr>))))"

definition decode_poll :: "extern \<Rightarrow> InHeader \<Rightarrow> decoder \<Rightarrow> decoded" where
  "decode_poll X header d =
     and_then (fetch X fuse_poll_in_pod d) (\<lambda>(arg, d).
     and_then (nodeid_or_err header) (\<lambda>ino.
     Ok (Poll
       \<lparr> Poll_ino = ino, Poll_fh = FileID (poll_in_fh arg),
         Poll_events = truncate32 X PollEvents_all (poll_in_events arg),
         Poll_kh = then_some (poll_in_flags arg AND FUSE_POLL_SCHEDULE_NOTIFY \<noteq> 0)
           (PollWakeupID (poll_in_kh arg)) \<rparr>)))"

definition whence :: "u32 \<Rightarrow> (DecodeError, Whence) result" where
  "whence w =
     (if w = SEEK_SET then Ok Whence_Set
      else if w = SEEK_CUR then Ok Whence_Current
      else if w = SEEK_END then Ok Whence_End
      else if w = SEEK_DATA then Ok Whence_Data
      else if w = SEEK_HOLE then Ok Whence_Hole
      else Err UnknownLseekWhence)"

definition decode_lseek :: "extern \<Rightarrow> InHeader \<Rightarrow> decoder \<Rightarrow> decoded" where
  "decode_lseek X header d =
     and_then (fetch X fuse_lseek_in_pod d) (\<lambda>(arg, d).
     and_then (nodeid_or_err header) (\<lambda>ino.
     and_then (whence (lseek_in_whence arg)) (\<lambda>w.
     Ok (Lseek
       \<lparr> Lseek_ino = ino, Lseek_fh = FileID (lseek_in_fh arg),
         Lseek_offset = lseek_in_offset arg, Lseek_whence = w \<rparr>))))"

text \<open>The dispatch on the opcode. The arguments lie at an address, which decides alignment.\<close>

fun decode_opcode ::
    "extern \<Rightarrow> KernelConfig \<Rightarrow> InHeader \<Rightarrow> decoder \<Rightarrow> fuse_opcode \<Rightarrow> decoded" where
  "decode_opcode X config header d FUSE_FORGET = decode_forget X header d"
| "decode_opcode X config header d FUSE_BATCH_FORGET = decode_batch_forget X d"
| "decode_opcode X config header d FUSE_INTERRUPT = decode_interrupt X d"
| "decode_opcode X config header d FUSE_NOTIFY_REPLY = decode_notify_reply X header d"
| "decode_opcode X config header d FUSE_LOOKUP = decode_lookup header d"
| "decode_opcode X config header d FUSE_GETATTR = decode_getattr X header d"
| "decode_opcode X config header d FUSE_SETATTR = decode_setattr X header d"
| "decode_opcode X config header d FUSE_READLINK = decode_readlink header"
| "decode_opcode X config header d FUSE_SYMLINK = decode_symlink header d"
| "decode_opcode X config header d FUSE_MKNOD =
    (if config_minor config \<le> 11 then decode_mknod_compat_11 X header d
     else decode_mknod X header d)"
| "decode_opcode X config header d FUSE_MKDIR = decode_mkdir X header d"
| "decode_opcode X config header d FUSE_UNLINK = decode_unlink header d"
| "decode_opcode X config header d FUSE_RMDIR = decode_rmdir header d"
| "decode_opcode X config header d FUSE_RENAME = decode_rename X header d"
| "decode_opcode X config header d FUSE_RENAME2 = decode_rename2 X header d"
| "decode_opcode X config header d FUSE_LINK = decode_link X header d"
| "decode_opcode X config header d FUSE_OPEN = decode_open X header d"
| "decode_opcode X config header d FUSE_READ = decode_read X header d"
| "decode_opcode X config header d FUSE_WRITE =
    (if config_minor config \<le> 8 then decode_write_compat_8 X header d
     else decode_write X header d)"
| "decode_opcode X config header d FUSE_RELEASE = decode_release X header d"
| "decode_opcode X config header d FUSE_STATFS = decode_statfs header"
| "decode_opcode X config header d FUSE_FSYNC = decode_fsync X header d"
| "decode_opcode X config header d FUSE_SETXATTR =
    (if config_minor config \<le> 32 \<or>
     \<not> flags_contains (config_flags config) KernelFlags_SETXATTR_EXT
     then decode_setxattr_compat_32 X header d
     else decode_setxattr X header d)"
| "decode_opcode X config header d FUSE_GETXATTR = decode_getxattr X header d"
| "decode_opcode X config header d FUSE_LISTXATTR = decode_listxattr X header d"
| "decode_opcode X config header d FUSE_REMOVEXATTR = decode_removexattr header d"
| "decode_opcode X config header d FUSE_FLUSH = decode_flush X header d"
| "decode_opcode X config header d FUSE_OPENDIR = decode_opendir X header d"
| "decode_opcode X config header d FUSE_READDIR = decode_readdir X FUSE_READDIR header d"
| "decode_opcode X config header d FUSE_READDIRPLUS = decode_readdir X FUSE_READDIRPLUS header d"
| "decode_opcode X config header d FUSE_RELEASEDIR = decode_releasedir X header d"
| "decode_opcode X config header d FUSE_FSYNCDIR = decode_fsyncdir X header d"
| "decode_opcode X config header d FUSE_GETLK = decode_getlk X header d"
| "decode_opcode X config header d FUSE_SETLK = decode_setlk X FUSE_SETLK header d"
| "decode_opcode X config header d FUSE_SETLKW = decode_setlk X FUSE_SETLKW header d"
| "decode_opcode X config header d FUSE_ACCESS = decode_access X header d"
| "decode_opcode X config header d FUSE_CREATE = decode_create X header d"
| "decode_opcode X config header d FUSE_BMAP = decode_bmap X header d"
| "decode_opcode X config header d FUSE_FALLOCATE = decode_fallocate X header d"
| "decode_opcode X config header d FUSE_COPY_FILE_RANGE = decode_copy_file_range X header d"
| "decode_opcode X config header d FUSE_POLL = decode_poll X header d"
| "decode_opcode X config header d FUSE_LSEEK = decode_lseek X header d"
| "decode_opcode X config header d FUSE_INIT = Panic"
| "decode_opcode X config header d FUSE_DESTROY = Panic"
| "decode_opcode X config header d FUSE_IOCTL = Ok Unsupported"
| "decode_opcode X config header d FUSE_SETUPMAPPING = Ok Unsupported"
| "decode_opcode X config header d FUSE_REMOVEMAPPING = Ok Unsupported"
| "decode_opcode X config header d FUSE_SYNCFS = Ok Unsupported"
| "decode_opcode X config header d FUSE_TMPFILE = Ok Unsupported"
| "decode_opcode X config header d FUSE_STATX = Ok Unsupported"
| "decode_opcode X config header d CUSE_INIT = Ok Unsupported"

definition decode :: "extern \<Rightarrow> KernelConfig \<Rightarrow> InHeader \<Rightarrow> nat \<Rightarrow> bytes \<Rightarrow> decoded" where
  "decode X config header addr arg =
     (case InHeader_opcode header of
        Ok opcode \<Rightarrow> decode_opcode X config header (Decoder_new addr arg) opcode
      | _ \<Rightarrow> Ok Unsupported)"

lemmas decode_defs =
  decode_forget_def decode_batch_forget_def decode_interrupt_def decode_notify_reply_def
  decode_lookup_def decode_getattr_def decode_setattr_def decode_readlink_def decode_symlink_def
  decode_mknod_compat_11_def decode_mknod_def decode_mkdir_def decode_unlink_def decode_rmdir_def
  decode_rename_def decode_rename2_def decode_link_def decode_open_def decode_read_def
  decode_write_compat_8_def decode_write_def decode_release_def decode_statfs_def decode_fsync_def
  decode_setxattr_compat_32_def decode_setxattr_def decode_getxattr_def decode_listxattr_def
  decode_removexattr_def decode_flush_def decode_opendir_def decode_readdir_def
  decode_releasedir_def decode_fsyncdir_def decode_getlk_def decode_setlk_def decode_access_def
  decode_create_def decode_bmap_def decode_fallocate_def decode_copy_file_range_def
  decode_poll_def decode_lseek_def

end
