(* ===== verification/Op_Wire.thy ===== *)
theory Op_Wire
  imports Op_Decode
begin

text \<open>
  A reference for the decoder: how the kernel lays out the request for an operation, written down
  independently of \<open>Operation::decode\<close>, and the properties of the decoder against it. A request
  is the opcode, the node in the header, and the argument: a structure that depends on the
  negotiated version, followed by NUL-terminated strings and data.
\<close>

section \<open>The wire format\<close>

definition cstr :: "bytes \<Rightarrow> bytes" where
  "cstr s = s @ [0]"

definition flag_if :: "bool \<Rightarrow> u32 \<Rightarrow> u32" where
  "flag_if b f = (if b then f else 0)"

fun opt_raw :: "('a \<Rightarrow> 'b::zero) \<Rightarrow> 'a option \<Rightarrow> 'b" where
  "opt_raw f None = 0"
| "opt_raw f (Some x) = f x"

fun wire_secs :: "SetAttrTime option \<Rightarrow> u64" where
  "wire_secs (Some (Timespec t)) = as_secs t"
| "wire_secs _ = 0"

fun wire_nanos :: "SetAttrTime option \<Rightarrow> u32" where
  "wire_nanos (Some (Timespec t)) = subsec_nanos t"
| "wire_nanos _ = 0"

definition wire_file_lock :: "FileLock \<Rightarrow> fuse_file_lock" where
  "wire_file_lock lk =
     \<lparr> file_lock_start = FileLock_start lk, file_lock_end = FileLock_end lk,
       file_lock_typ = FileLock_typ lk, file_lock_pid = Pid_as_raw (FileLock_pid lk) \<rparr>"

definition setattr_valid :: "Setattr \<Rightarrow> u32" where
  "setattr_valid op =
     flag_if (Setattr_mode op \<noteq> None) FATTR_MODE OR flag_if (Setattr_uid op \<noteq> None) FATTR_UID OR
     flag_if (Setattr_gid op \<noteq> None) FATTR_GID OR flag_if (Setattr_size op \<noteq> None) FATTR_SIZE OR
     flag_if (Setattr_atime op \<noteq> None) FATTR_ATIME OR
     flag_if (Setattr_mtime op \<noteq> None) FATTR_MTIME OR flag_if (Setattr_fh op \<noteq> None) FATTR_FH OR
     flag_if (Setattr_atime op = Some Now) FATTR_ATIME_NOW OR
     flag_if (Setattr_mtime op = Some Now) FATTR_MTIME_NOW OR
     flag_if (Setattr_lock_owner op \<noteq> None) FATTR_LOCKOWNER OR
     flag_if (Setattr_ctime op \<noteq> None) FATTR_CTIME OR
     flag_if (Setattr_kill_suidgid op) FATTR_KILL_SUIDGID"

definition wire_setattr :: "Setattr \<Rightarrow> fuse_setattr_in" where
  "wire_setattr op =
     \<lparr> setattr_in_valid = setattr_valid op, setattr_in_padding = 0,
       setattr_in_fh = opt_raw FileID_into_raw (Setattr_fh op),
       setattr_in_size = opt_raw id (Setattr_size op),
       setattr_in_lock_owner = opt_raw LockOwnerID_value (Setattr_lock_owner op),
       setattr_in_atime = wire_secs (Setattr_atime op),
       setattr_in_mtime = wire_secs (Setattr_mtime op),
       setattr_in_ctime = wire_secs (map_option Timespec (Setattr_ctime op)),
       setattr_in_atimensec = wire_nanos (Setattr_atime op),
       setattr_in_mtimensec = wire_nanos (Setattr_mtime op),
       setattr_in_ctimensec = wire_nanos (map_option Timespec (Setattr_ctime op)),
       setattr_in_mode = opt_raw FileMode_into_raw (Setattr_mode op), setattr_in_unused4 = 0,
       setattr_in_uid = opt_raw id (Setattr_uid op), setattr_in_gid = opt_raw id (Setattr_gid op),
       setattr_in_unused5 = 0 \<rparr>"

fun flock_wire :: "FlockOp \<Rightarrow> u32 \<times> bool" where
  "flock_wire FlockOp_Shared = (F_RDLCK, True)"
| "flock_wire FlockOp_SharedNonblock = (F_RDLCK, False)"
| "flock_wire FlockOp_Exclusive = (F_WRLCK, True)"
| "flock_wire FlockOp_ExclusiveNonblock = (F_WRLCK, False)"
| "flock_wire FlockOp_Unlock = (F_UNLCK, False)"

fun whence_wire :: "Whence \<Rightarrow> u32" where
  "whence_wire Whence_Set = SEEK_SET"
| "whence_wire Whence_Current = SEEK_CUR"
| "whence_wire Whence_End = SEEK_END"
| "whence_wire Whence_Data = SEEK_DATA"
| "whence_wire Whence_Hole = SEEK_HOLE"

definition setxattr_ext :: "KernelConfig \<Rightarrow> bool" where
  "setxattr_ext config \<longleftrightarrow>
     32 < config_minor config \<and> flags_contains (config_flags config) KernelFlags_SETXATTR_EXT"

fun wire_opcode :: "Operation \<Rightarrow> fuse_opcode" where
  "wire_opcode (Lookup op) = FUSE_LOOKUP"
| "wire_opcode (Getattr op) = FUSE_GETATTR"
| "wire_opcode (Setattr op) = FUSE_SETATTR"
| "wire_opcode (Readlink op) = FUSE_READLINK"
| "wire_opcode (Symlink op) = FUSE_SYMLINK"
| "wire_opcode (Mknod op) = FUSE_MKNOD"
| "wire_opcode (Mkdir op) = FUSE_MKDIR"
| "wire_opcode (Unlink op) = FUSE_UNLINK"
| "wire_opcode (Rmdir op) = FUSE_RMDIR"
| "wire_opcode (Rename op) = (if Rename_flags op = 0 then FUSE_RENAME else FUSE_RENAME2)"
| "wire_opcode (Link op) = FUSE_LINK"
| "wire_opcode (Open op) = FUSE_OPEN"
| "wire_opcode (Read op) = FUSE_READ"
| "wire_opcode (Write op) = FUSE_WRITE"
| "wire_opcode (Release op) = FUSE_RELEASE"
| "wire_opcode (Statfs op) = FUSE_STATFS"
| "wire_opcode (Fsync op) = FUSE_FSYNC"
| "wire_opcode (Setxattr op) = FUSE_SETXATTR"
| "wire_opcode (Getxattr op) = FUSE_GETXATTR"
| "wire_opcode (Listxattr op) = FUSE_LISTXATTR"
| "wire_opcode (Removexattr op) = FUSE_REMOVEXATTR"
| "wire_opcode (Flush op) = FUSE_FLUSH"
| "wire_opcode (Opendir op) = FUSE_OPENDIR"
| "wire_opcode (Readdir op) =
     (case Readdir_mode op of ReaddirMode_Normal \<Rightarrow> FUSE_READDIR | ReaddirMode_Plus \<Rightarrow> FUSE_READDIRPLUS)"
| "wire_opcode (Releasedir op) = FUSE_RELEASEDIR"
| "wire_opcode (Fsyncdir op) = FUSE_FSYNCDIR"
| "wire_opcode (Getlk op) = FUSE_GETLK"
| "wire_opcode (Setlk op) = (if Setlk_sleep op then FUSE_SETLKW else FUSE_SETLK)"
| "wire_opcode (Flock op) = (if snd (flock_wire (Flock_op op)) then FUSE_SETLKW else FUSE_SETLK)"
| "wire_opcode (Access op) = FUSE_ACCESS"
| "wire_opcode (Create op) = FUSE_CREATE"
| "wire_opcode (Bmap op) = FUSE_BMAP"
| "wire_opcode (Fallocate op) = FUSE_FALLOCATE"
| "wire_opcode (CopyFileRange op) = FUSE_COPY_FILE_RANGE"
| "wire_opcode (Poll op) = FUSE_POLL"
| "wire_opcode (Lseek op) = FUSE_LSEEK"
| "wire_opcode (Forget_op (Forgets_Single f)) = FUSE_FORGET"
| "wire_opcode (Forget_op (Forgets_Batch fs)) = FUSE_BATCH_FORGET"
| "wire_opcode (Interrupt op) = FUSE_INTERRUPT"
| "wire_opcode (NotifyReply op) = FUSE_NOTIFY_REPLY"
| "wire_opcode Unsupported = FUSE_IOCTL"

text \<open>The node in the header; requests that are not about a node leave it at 0.\<close>

fun wire_nodeid :: "Operation \<Rightarrow> u64" where
  "wire_nodeid (Lookup op) = NodeID_into_raw (Lookup_parent op)"
| "wire_nodeid (Getattr op) = NodeID_into_raw (Getattr_ino op)"
| "wire_nodeid (Setattr op) = NodeID_into_raw (Setattr_ino op)"
| "wire_nodeid (Readlink op) = NodeID_into_raw (Readlink_ino op)"
| "wire_nodeid (Symlink op) = NodeID_into_raw (Symlink_parent op)"
| "wire_nodeid (Mknod op) = NodeID_into_raw (Mknod_parent op)"
| "wire_nodeid (Mkdir op) = NodeID_into_raw (Mkdir_parent op)"
| "wire_nodeid (Unlink op) = NodeID_into_raw (Unlink_parent op)"
| "wire_nodeid (Rmdir op) = NodeID_into_raw (Rmdir_parent op)"
| "wire_nodeid (Rename op) = NodeID_into_raw (Rename_parent op)"
| "wire_nodeid (Link op) = NodeID_into_raw (Link_newparent op)"
| "wire_nodeid (Open op) = NodeID_into_raw (Open_ino op)"
| "wire_nodeid (Read op) = NodeID_into_raw (Read_ino op)"
| "wire_nodeid (Write op) = NodeID_into_raw (Write_ino op)"
| "wire_nodeid (Release op) = NodeID_into_raw (Release_ino op)"
| "wire_nodeid (Statfs op) = NodeID_into_raw (Statfs_op_ino op)"
| "wire_nodeid (Fsync op) = NodeID_into_raw (Fsync_ino op)"
| "wire_nodeid (Setxattr op) = NodeID_into_raw (Setxattr_ino op)"
| "wire_nodeid (Getxattr op) = NodeID_into_raw (Getxattr_ino op)"
| "wire_nodeid (Listxattr op) = NodeID_into_raw (Listxattr_ino op)"
| "wire_nodeid (Removexattr op) = NodeID_into_raw (Removexattr_ino op)"
| "wire_nodeid (Flush op) = NodeID_into_raw (Flush_ino op)"
| "wire_nodeid (Opendir op) = NodeID_into_raw (Opendir_ino op)"
| "wire_nodeid (Readdir op) = NodeID_into_raw (Readdir_ino op)"
| "wire_nodeid (Releasedir op) = NodeID_into_raw (Releasedir_ino op)"
| "wire_nodeid (Fsyncdir op) = NodeID_into_raw (Fsyncdir_ino op)"
| "wire_nodeid (Getlk op) = NodeID_into_raw (Getlk_ino op)"
| "wire_nodeid (Setlk op) = NodeID_into_raw (Setlk_ino op)"
| "wire_nodeid (Flock op) = NodeID_into_raw (Flock_ino op)"
| "wire_nodeid (Access op) = NodeID_into_raw (Access_ino op)"
| "wire_nodeid (Create op) = NodeID_into_raw (Create_parent op)"
| "wire_nodeid (Bmap op) = NodeID_into_raw (Bmap_ino op)"
| "wire_nodeid (Fallocate op) = NodeID_into_raw (Fallocate_ino op)"
| "wire_nodeid (CopyFileRange op) = NodeID_into_raw (CopyFileRange_ino_in op)"
| "wire_nodeid (Poll op) = NodeID_into_raw (Poll_ino op)"
| "wire_nodeid (Lseek op) = NodeID_into_raw (Lseek_ino op)"
| "wire_nodeid (Forget_op (Forgets_Single f)) = forget_one_nodeid (Forget_raw f)"
| "wire_nodeid (NotifyReply op) = NodeID_into_raw (NotifyReply_ino op)"
| "wire_nodeid _ = 0"

text \<open>
  The argument, in the layout that the current version of the protocol has, and in the older
  layouts that the decoder knows: those of \<open>MKNOD\<close>, \<open>WRITE\<close> and \<open>SETXATTR\<close>. Fields for which the
  operation has no place are 0: the owner of a POSIX lock that is set, the flags with which a
  directory is released, and the flags in which the opening of a directory and the creation of a
  file are like the opening of a file.
\<close>

fun wire_arg :: "KernelConfig \<Rightarrow> Operation \<Rightarrow> bytes" where
  "wire_arg config (Lookup op) = cstr (Lookup_name op)"
| "wire_arg config (Getattr op) =
     pod_enc fuse_getattr_in_pod
       \<lparr> getattr_in_getattr_flags = flag_if (Getattr_fh op \<noteq> None) FUSE_GETATTR_FH,
         getattr_in_dummy = 0, getattr_in_fh = opt_raw FileID_into_raw (Getattr_fh op) \<rparr>"
| "wire_arg config (Setattr op) = pod_enc fuse_setattr_in_pod (wire_setattr op)"
| "wire_arg config (Readlink op) = []"
| "wire_arg config (Symlink op) = cstr (Symlink_name op) @ cstr (Symlink_link op)"
| "wire_arg config (Mknod op) =
     (if config_minor config \<le> 11 then
        pod_enc fuse_mknod_in_compat_11_pod
          \<lparr> mknod_in_compat_11_mode = FileMode_into_raw (Mknod_mode op),
            mknod_in_compat_11_rdev = DeviceID_into_kernel_dev (Mknod_rdev op) \<rparr>
      else
        pod_enc fuse_mknod_in_pod
          \<lparr> mknod_in_mode = FileMode_into_raw (Mknod_mode op),
            mknod_in_rdev = DeviceID_into_kernel_dev (Mknod_rdev op),
            mknod_in_umask = Mknod_umask op, mknod_in_padding = 0 \<rparr>) @ cstr (Mknod_name op)"
| "wire_arg config (Mkdir op) =
     pod_enc fuse_mkdir_in_pod
       \<lparr> mkdir_in_mode = Mkdir_permissions op, mkdir_in_umask = Mkdir_umask op \<rparr> @
     cstr (Mkdir_name op)"
| "wire_arg config (Unlink op) = cstr (Unlink_name op)"
| "wire_arg config (Rmdir op) = cstr (Rmdir_name op)"
| "wire_arg config (Rename op) =
     (if Rename_flags op = 0 then
        pod_enc fuse_rename_in_pod \<lparr> rename_in_newdir = NodeID_into_raw (Rename_newparent op) \<rparr>
      else
        pod_enc fuse_rename2_in_pod
          \<lparr> rename2_in_newdir = NodeID_into_raw (Rename_newparent op),
            rename2_in_flags = Rename_flags op, rename2_in_padding = 0 \<rparr>) @
     cstr (Rename_name op) @ cstr (Rename_newname op)"
| "wire_arg config (Link op) =
     pod_enc fuse_link_in_pod \<lparr> link_in_oldnodeid = NodeID_into_raw (Link_ino op) \<rparr> @
     cstr (Link_newname op)"
| "wire_arg config (Open op) =
     pod_enc fuse_open_in_pod
       \<lparr> open_in_flags = OpenOptions_raw (Open_options op), open_in_open_flags = Open_flags op \<rparr>"
| "wire_arg config (Read op) =
     pod_enc fuse_read_in_pod
       \<lparr> read_in_fh = FileID_into_raw (Read_fh op), read_in_offset = Read_offset op,
         read_in_size = Read_size op,
         read_in_read_flags = flag_if (Read_lock_owner op \<noteq> None) FUSE_READ_LOCKOWNER,
         read_in_lock_owner = opt_raw LockOwnerID_value (Read_lock_owner op),
         read_in_flags = OpenOptions_raw (Read_options op), read_in_padding = 0 \<rparr>"
| "wire_arg config (Write op) =
     (if config_minor config \<le> 8 then
        pod_enc fuse_write_in_compat_8_pod
          \<lparr> write_in_compat_8_fh = FileID_into_raw (Write_fh op),
            write_in_compat_8_offset = Write_offset op, write_in_compat_8_size = Write_size op,
            write_in_compat_8_write_flags = 0 \<rparr>
      else
        pod_enc fuse_write_in_pod
          \<lparr> write_in_fh = FileID_into_raw (Write_fh op), write_in_offset = Write_offset op,
            write_in_size = Write_size op,
            write_in_write_flags =
              Write_flags op OR flag_if (Write_lock_owner op \<noteq> None) FUSE_WRITE_LOCKOWNER,
            write_in_lock_owner = opt_raw LockOwnerID_value (Write_lock_owner op),
            write_in_flags = OpenOptions_raw (Write_options op), write_in_padding = 0 \<rparr>)"
| "wire_arg config (Release op) =
     pod_enc fuse_release_in_pod
       \<lparr> release_in_fh = FileID_into_raw (Release_fh op),
         release_in_flags = OpenOptions_raw (Release_options op),
         release_in_release_flags = Release_flags op,
         release_in_lock_owner = LockOwnerID_value (Release_lock_owner op) \<rparr>"
| "wire_arg config (Statfs op) = []"
| "wire_arg config (Fsync op) =
     pod_enc fuse_fsync_in_pod
       \<lparr> fsync_in_fh = FileID_into_raw (Fsync_fh op),
         fsync_in_fsync_flags = flag_if (Fsync_datasync op) FUSE_FSYNC_FDATASYNC,
         fsync_in_padding = 0 \<rparr>"
| "wire_arg config (Setxattr op) =
     (if setxattr_ext config then
        pod_enc fuse_setxattr_in_pod
          \<lparr> setxattr_in_size = word_of_nat (length (Setxattr_value op)),
            setxattr_in_flags = Setxattr_flags op,
            setxattr_in_setxattr_flags = Setxattr_extra_flags op, setxattr_in_padding = 0 \<rparr>
      else
        pod_enc fuse_setxattr_in_compat_32_pod
          \<lparr> setxattr_in_compat_32_size = word_of_nat (length (Setxattr_value op)),
            setxattr_in_compat_32_flags = Setxattr_flags op \<rparr>) @
     cstr (Setxattr_name op) @ Setxattr_value op"
| "wire_arg config (Getxattr op) =
     pod_enc fuse_getxattr_in_pod
       \<lparr> getxattr_in_size = Getxattr_size op, getxattr_in_padding = 0 \<rparr> @ cstr (Getxattr_name op)"
| "wire_arg config (Listxattr op) =
     pod_enc fuse_getxattr_in_pod
       \<lparr> getxattr_in_size = Listxattr_size op, getxattr_in_padding = 0 \<rparr>"
| "wire_arg config (Removexattr op) = cstr (Removexattr_name op)"
| "wire_arg config (Flush op) =
     pod_enc fuse_flush_in_pod
       \<lparr> flush_in_fh = FileID_into_raw (Flush_fh op), flush_in_unused = 0, flush_in_padding = 0,
         flush_in_lock_owner = LockOwnerID_value (Flush_lock_owner op) \<rparr>"
| "wire_arg config (Opendir op) =
     pod_enc fuse_open_in_pod
       \<lparr> open_in_flags = OpenOptions_raw (Opendir_options op), open_in_open_flags = 0 \<rparr>"
| "wire_arg config (Readdir op) =
     pod_enc fuse_read_in_pod
       \<lparr> read_in_fh = FileID_into_raw (Readdir_fh op), read_in_offset = Readdir_offset op,
         read_in_size = Readdir_size op, read_in_read_flags = 0, read_in_lock_owner = 0,
         read_in_flags = 0, read_in_padding = 0 \<rparr>"
| "wire_arg config (Releasedir op) =
     pod_enc fuse_release_in_pod
       \<lparr> release_in_fh = FileID_into_raw (Releasedir_fh op),
         release_in_flags = OpenOptions_raw (Releasedir_options op),
         release_in_release_flags = 0, release_in_lock_owner = 0 \<rparr>"
| "wire_arg config (Fsyncdir op) =
     pod_enc fuse_fsync_in_pod
       \<lparr> fsync_in_fh = FileID_into_raw (Fsyncdir_fh op),
         fsync_in_fsync_flags = flag_if (Fsyncdir_datasync op) FUSE_FSYNC_FDATASYNC,
         fsync_in_padding = 0 \<rparr>"
| "wire_arg config (Getlk op) =
     pod_enc fuse_lk_in_pod
       \<lparr> lk_in_fh = FileID_into_raw (Getlk_fh op), lk_in_owner = LockOwnerID_value (Getlk_owner op),
         lk_in_lk = wire_file_lock (Getlk_file_lock op), lk_in_lk_flags = 0, lk_in_padding = 0 \<rparr>"
| "wire_arg config (Setlk op) =
     pod_enc fuse_lk_in_pod
       \<lparr> lk_in_fh = FileID_into_raw (Setlk_fh op), lk_in_owner = 0,
         lk_in_lk = wire_file_lock (Setlk_file_lock op), lk_in_lk_flags = 0, lk_in_padding = 0 \<rparr>"
| "wire_arg config (Flock op) =
     pod_enc fuse_lk_in_pod
       \<lparr> lk_in_fh = FileID_into_raw (Flock_fh op), lk_in_owner = LockOwnerID_value (Flock_owner op),
         lk_in_lk = \<lparr> file_lock_start = 0, file_lock_end = 0,
           file_lock_typ = fst (flock_wire (Flock_op op)), file_lock_pid = 0 \<rparr>,
         lk_in_lk_flags = FUSE_LK_FLOCK, lk_in_padding = 0 \<rparr>"
| "wire_arg config (Access op) =
     pod_enc fuse_access_in_pod \<lparr> access_in_mask = Access_mask op, access_in_padding = 0 \<rparr>"
| "wire_arg config (Create op) =
     pod_enc fuse_create_in_pod
       \<lparr> create_in_flags = OpenOptions_raw (Create_open_options op),
         create_in_mode = FileMode_into_raw (Create_mode op), create_in_umask = Create_umask op,
         create_in_open_flags = 0 \<rparr> @ cstr (Create_name op)"
| "wire_arg config (Bmap op) =
     pod_enc fuse_bmap_in_pod
       \<lparr> bmap_in_block = Bmap_block op, bmap_in_blocksize = Bmap_blocksize op, bmap_in_padding = 0 \<rparr>"
| "wire_arg config (Fallocate op) =
     pod_enc fuse_fallocate_in_pod
       \<lparr> fallocate_in_fh = FileID_into_raw (Fallocate_fh op),
         fallocate_in_offset = Fallocate_offset op, fallocate_in_length = Fallocate_length op,
         fallocate_in_mode = Fallocate_mode op, fallocate_in_padding = 0 \<rparr>"
| "wire_arg config (CopyFileRange op) =
     pod_enc fuse_copy_file_range_in_pod
       \<lparr> copy_file_range_in_fh_in = FileID_into_raw (CopyFileRange_fh_in op),
         copy_file_range_in_off_in = CopyFileRange_offset_in op,
         copy_file_range_in_nodeid_out = NodeID_into_raw (CopyFileRange_ino_out op),
         copy_file_range_in_fh_out = FileID_into_raw (CopyFileRange_fh_out op),
         copy_file_range_in_off_out = CopyFileRange_offset_out op,
         copy_file_range_in_len = CopyFileRange_length op,
         copy_file_range_in_flags = CopyFileRange_flags op \<rparr>"
| "wire_arg config (Poll op) =
     pod_enc fuse_poll_in_pod
       \<lparr> poll_in_fh = FileID_into_raw (Poll_fh op),
         poll_in_kh = opt_raw PollWakeupID_into_raw (Poll_kh op),
         poll_in_flags = flag_if (Poll_kh op \<noteq> None) FUSE_POLL_SCHEDULE_NOTIFY,
         poll_in_events = Poll_events op \<rparr>"
| "wire_arg config (Lseek op) =
     pod_enc fuse_lseek_in_pod
       \<lparr> lseek_in_fh = FileID_into_raw (Lseek_fh op), lseek_in_offset = Lseek_offset op,
         lseek_in_whence = whence_wire (Lseek_whence op), lseek_in_padding = 0 \<rparr>"
| "wire_arg config (Forget_op (Forgets_Single f)) =
     pod_enc fuse_forget_in_pod \<lparr> forget_in_nlookup = forget_one_nlookup (Forget_raw f) \<rparr>"
| "wire_arg config (Forget_op (Forgets_Batch fs)) =
     pod_enc fuse_batch_forget_in_pod
       \<lparr> batch_forget_in_count = word_of_nat (length fs), batch_forget_in_dummy = 0 \<rparr> @
     pod_enc (pod_array (length fs) fuse_forget_one_pod) (map Forget_raw fs)"
| "wire_arg config (Interrupt op) =
     pod_enc fuse_interrupt_in_pod \<lparr> interrupt_in_unique = RequestID_into_raw (Interrupt_unique op) \<rparr>"
| "wire_arg config (NotifyReply op) =
     pod_enc fuse_notify_retrieve_in_pod
       \<lparr> notify_retrieve_in_dummy1 = 0, notify_retrieve_in_offset = NotifyReply_offset op,
         notify_retrieve_in_size = NotifyReply_size op, notify_retrieve_in_dummy2 = 0,
         notify_retrieve_in_dummy3 = 0, notify_retrieve_in_dummy4 = 0 \<rparr>"
| "wire_arg config Unsupported = []"

text \<open>
  The version of the protocol from which on the kernel has the request and lays it out as above:
  7.9 brought an argument of \<open>GETATTR\<close> and further fields of the arguments of \<open>READ\<close>, of \<open>READDIR\<close>,
  which has the same argument, and of the requests for locks; 7.12 brought the umask of \<open>CREATE\<close>
  and \<open>MKDIR\<close>; and some requests are later additions. The older layouts of those requests are
  none that the decoder knows.
\<close>

fun wire_since :: "Operation \<Rightarrow> u32" where
  "wire_since (Getattr op) = 9"
| "wire_since (Read op) = 9"
| "wire_since (Readdir op) =
     (case Readdir_mode op of ReaddirMode_Normal \<Rightarrow> 9 | ReaddirMode_Plus \<Rightarrow> 21)"
| "wire_since (Getlk op) = 9"
| "wire_since (Setlk op) = 9"
| "wire_since (Flock op) = 9"
| "wire_since (Poll op) = 11"
| "wire_since (Create op) = 12"
| "wire_since (Mkdir op) = 12"
| "wire_since (NotifyReply op) = 15"
| "wire_since (Forget_op (Forgets_Batch fs)) = 16"
| "wire_since (Fallocate op) = 19"
| "wire_since (Rename op) = (if Rename_flags op = 0 then 8 else 23)"
| "wire_since (Lseek op) = 24"
| "wire_since (CopyFileRange op) = 28"
| "wire_since _ = 8"

text \<open>
  The requests that the kernel sends in this form. \<open>Unsupported\<close> stands for requests that are not
  decoded, and so has no form of its own.
\<close>

definition wire_sent :: "KernelConfig \<Rightarrow> Operation \<Rightarrow> bool" where
  "wire_sent config op \<longleftrightarrow> op \<noteq> Unsupported \<and> wire_since op \<le> config_minor config"

text \<open>
  The header of the request for an operation. The reply to a retrieve notification repeats the
  notification's number in place of a request number.
\<close>

definition wire_header :: "Operation \<Rightarrow> InHeader \<Rightarrow> bool" where
  "wire_header op header \<longleftrightarrow>
     in_header_opcode header = opcode_value (wire_opcode op) \<and>
     in_header_nodeid header = wire_nodeid op \<and>
     (case op of NotifyReply r \<Rightarrow> in_header_unique header = NotifyID_into_raw (NotifyReply_unique r)
      | _ \<Rightarrow> True)"

text \<open>
  The operations that a request can stand for: names do not contain NUL, flags are declared ones,
  lengths fit their field, and fields that the older layouts of \<open>MKNOD\<close>, \<open>WRITE\<close> and \<open>SETXATTR\<close> do
  not have are at their default.
\<close>

fun setattr_time_wf :: "SetAttrTime option \<Rightarrow> bool" where
  "setattr_time_wf (Some (Timespec t)) = duration_wf t"
| "setattr_time_wf _ = True"

fun op_wf :: "extern \<Rightarrow> KernelConfig \<Rightarrow> Operation \<Rightarrow> bool" where
  "op_wf X config (Lookup op) \<longleftrightarrow> 0 \<notin> set (Lookup_name op)"
| "op_wf X config (Setattr op) \<longleftrightarrow>
     setattr_time_wf (Setattr_atime op) \<and> setattr_time_wf (Setattr_mtime op) \<and>
     setattr_time_wf (map_option Timespec (Setattr_ctime op))"
| "op_wf X config (Symlink op) \<longleftrightarrow> 0 \<notin> set (Symlink_name op) \<and> 0 \<notin> set (Symlink_link op)"
| "op_wf X config (Mknod op) \<longleftrightarrow>
     0 \<notin> set (Mknod_name op) \<and> flags_contains FilePermissions_MASK (Mknod_umask op) \<and>
     (config_minor config \<le> 11 \<longrightarrow> Mknod_umask op = 0)"
| "op_wf X config (Mkdir op) \<longleftrightarrow>
     0 \<notin> set (Mkdir_name op) \<and> flags_contains FilePermissions_all (Mkdir_permissions op) \<and>
     flags_contains FilePermissions_MASK (Mkdir_umask op)"
| "op_wf X config (Unlink op) \<longleftrightarrow> 0 \<notin> set (Unlink_name op)"
| "op_wf X config (Rmdir op) \<longleftrightarrow> 0 \<notin> set (Rmdir_name op)"
| "op_wf X config (Rename op) \<longleftrightarrow>
     0 \<notin> set (Rename_name op) \<and> 0 \<notin> set (Rename_newname op) \<and>
     flags_contains RenameFlags_all (Rename_flags op)"
| "op_wf X config (Link op) \<longleftrightarrow> 0 \<notin> set (Link_newname op)"
| "op_wf X config (Open op) \<longleftrightarrow> flags_contains OpenInFlags_all (Open_flags op)"
| "op_wf X config (Write op) \<longleftrightarrow>
     flags_contains WriteInFlags_all (Write_flags op) \<and>
     (config_minor config \<le> 8 \<longrightarrow>
       Write_options op = OpenOptions_from_raw 0 \<and> Write_lock_owner op = None \<and> Write_flags op = 0)"
| "op_wf X config (Release op) \<longleftrightarrow> flags_contains ReleaseFlags_all (Release_flags op)"
| "op_wf X config (Setxattr op) \<longleftrightarrow>
     0 \<notin> set (Setxattr_name op) \<and> length (Setxattr_value op) < 2 ^ 32 \<and>
     xattr_truncate X (Setxattr_flags op) = Setxattr_flags op \<and>
     flags_contains SetxattrInFlags_all (Setxattr_extra_flags op) \<and>
     (\<not> setxattr_ext config \<longrightarrow> Setxattr_extra_flags op = 0)"
| "op_wf X config (Getxattr op) \<longleftrightarrow> 0 \<notin> set (Getxattr_name op)"
| "op_wf X config (Removexattr op) \<longleftrightarrow> 0 \<notin> set (Removexattr_name op)"
| "op_wf X config (Getlk op) \<longleftrightarrow> pid_valid X (Pid_as_raw (FileLock_pid (Getlk_file_lock op)))"
| "op_wf X config (Setlk op) \<longleftrightarrow> pid_valid X (Pid_as_raw (FileLock_pid (Setlk_file_lock op)))"
| "op_wf X config (Access op) \<longleftrightarrow> flags_contains FilePermissions_MASK (Access_mask op)"
| "op_wf X config (Create op) \<longleftrightarrow>
     0 \<notin> set (Create_name op) \<and> flags_contains FilePermissions_MASK (Create_umask op)"
| "op_wf X config (Fallocate op) \<longleftrightarrow> flags_contains FallocateFlags_all (Fallocate_mode op)"
| "op_wf X config (Poll op) \<longleftrightarrow> flags_contains PollEvents_all (Poll_events op)"
| "op_wf X config (Forget_op (Forgets_Single f)) \<longleftrightarrow> forget_one_nodeid (Forget_raw f) \<noteq> 0"
| "op_wf X config (Forget_op (Forgets_Batch fs)) \<longleftrightarrow> length fs < 2 ^ 32"
| "op_wf X config (Interrupt op) \<longleftrightarrow> \<not> bit (RequestID_into_raw (Interrupt_unique op)) 0"
| "op_wf X config _ \<longleftrightarrow> True"

text \<open>Parsers that ignore what follows the bytes they read.\<close>

definition prefix_closed :: "(decoder \<Rightarrow> ('e, 'a) result) \<Rightarrow> bool" where
  "prefix_closed f \<longleftrightarrow>
     (\<forall>d y ys. f d = Ok y \<longrightarrow> f (d\<lparr>dec_bytes := dec_bytes d @ ys\<rparr>) = Ok y)"

section \<open>Lemmas\<close>

lemma aligned_8:
  assumes "addr mod 8 = (0 :: nat)"
  shows "addr mod 4 = 0" "addr mod Suc 0 = 0" "addr mod 2 = 0"
  using assms by presburger+

text \<open>Fetching what the wire format has put there.\<close>

lemma fetch_str_cstr:
  "0 \<notin> set s \<Longrightarrow> fetch_str \<lparr> dec_addr = addr, dec_bytes = cstr s @ rest \<rparr> =
     Ok (s, \<lparr> dec_addr = addr + length s + 1, dec_bytes = rest \<rparr>)"
  by (simp add: fetch_str_Ok cstr_def)

lemma fetch_bytes_append:
  "n = length bs \<Longrightarrow> fetch_bytes n \<lparr> dec_addr = addr, dec_bytes = bs @ rest \<rparr> =
     Ok (bs, \<lparr> dec_addr = addr + n, dec_bytes = rest \<rparr>)"
  by (simp add: fetch_bytes_Ok)

lemma fetch_forgets:
  assumes "zerocopy_ok X" and "addr mod 8 = 0" and "n = length fs"
  shows "fetch_array X fuse_forget_one_pod n
      \<lparr> dec_addr = addr, dec_bytes = pod_enc (pod_array n fuse_forget_one_pod) fs @ rest \<rparr> =
    Ok (fs, \<lparr> dec_addr = addr + 16 * n, dec_bytes = rest \<rparr>)"
proof -
  have "plain_old_data (pod_array n fuse_forget_one_pod)" by (intro pod_intro)
  from plain_old_data.fetch_enc [OF this assms(1), of fs addr rest] assms(2,3) show ?thesis
    by (simp add: fetch_array_eq pod_sel pod_sizes list_all_iff)
qed

lemmas fetch_encs =
  fuse_forget_in.fetch_enc fuse_batch_forget_in.fetch_enc fuse_interrupt_in.fetch_enc
  fuse_notify_retrieve_in.fetch_enc fuse_getattr_in.fetch_enc fuse_setattr_in.fetch_enc
  fuse_mknod_in_compat_11.fetch_enc fuse_mknod_in.fetch_enc fuse_mkdir_in.fetch_enc
  fuse_rename_in.fetch_enc fuse_rename2_in.fetch_enc fuse_link_in.fetch_enc fuse_open_in.fetch_enc
  fuse_read_in.fetch_enc fuse_write_in_compat_8.fetch_enc fuse_write_in.fetch_enc
  fuse_release_in.fetch_enc fuse_fsync_in.fetch_enc fuse_setxattr_in_compat_32.fetch_enc
  fuse_setxattr_in.fetch_enc fuse_getxattr_in.fetch_enc fuse_flush_in.fetch_enc
  fuse_lk_in.fetch_enc fuse_access_in.fetch_enc fuse_create_in.fetch_enc fuse_bmap_in.fetch_enc
  fuse_fallocate_in.fetch_enc fuse_copy_file_range_in.fetch_enc fuse_poll_in.fetch_enc
  fuse_lseek_in.fetch_enc fetch_str_cstr fetch_bytes_append

lemma flag_if_simps [simp]:
  "flag_if True f = f" "flag_if False f = 0" "flag_if b 0 = 0"
  "flag_if b f AND g = flag_if b (f AND g)" "flag_if b f = 0 \<longleftrightarrow> \<not> b \<or> f = 0"
  by (simp_all add: flag_if_def)

lemma setattr_valid_flags:
  "setattr_valid op AND FATTR_MODE \<noteq> 0 \<longleftrightarrow> Setattr_mode op \<noteq> None"
  "setattr_valid op AND FATTR_UID \<noteq> 0 \<longleftrightarrow> Setattr_uid op \<noteq> None"
  "setattr_valid op AND FATTR_GID \<noteq> 0 \<longleftrightarrow> Setattr_gid op \<noteq> None"
  "setattr_valid op AND FATTR_SIZE \<noteq> 0 \<longleftrightarrow> Setattr_size op \<noteq> None"
  "setattr_valid op AND FATTR_ATIME \<noteq> 0 \<longleftrightarrow> Setattr_atime op \<noteq> None"
  "setattr_valid op AND FATTR_MTIME \<noteq> 0 \<longleftrightarrow> Setattr_mtime op \<noteq> None"
  "setattr_valid op AND FATTR_FH \<noteq> 0 \<longleftrightarrow> Setattr_fh op \<noteq> None"
  "setattr_valid op AND FATTR_ATIME_NOW \<noteq> 0 \<longleftrightarrow> Setattr_atime op = Some Now"
  "setattr_valid op AND FATTR_MTIME_NOW \<noteq> 0 \<longleftrightarrow> Setattr_mtime op = Some Now"
  "setattr_valid op AND FATTR_LOCKOWNER \<noteq> 0 \<longleftrightarrow> Setattr_lock_owner op \<noteq> None"
  "setattr_valid op AND FATTR_CTIME \<noteq> 0 \<longleftrightarrow> Setattr_ctime op \<noteq> None"
  "setattr_valid op AND FATTR_KILL_SUIDGID \<noteq> 0 \<longleftrightarrow> Setattr_kill_suidgid op"
  by (simp_all add: setattr_valid_def bit.conj_disj_distrib2 abi_const)

lemma setattr_time_wire:
  "setattr_time_wf t \<Longrightarrow> setattr_time (\<exists>y. t = Some y) (t = Some Now) (wire_secs t) (wire_nanos t) = Ok t"
  by (cases t rule: setattr_time_wf.cases) (simp_all add: setattr_time_def duration_new_same)

lemma flags_contains_eq: "flags_contains m x \<Longrightarrow> x AND m = x"
  by (simp add: flags_contains_def and.commute)

lemma umask_eq:
  assumes "flags_contains FilePermissions_MASK x"
  shows "(x AND FilePermissions_all) AND FilePermissions_MASK = x"
proof -
  have "FilePermissions_all AND FilePermissions_MASK = FilePermissions_MASK"
    by (simp add: FilePermissions_all_def FilePermissions_MASK_def FilePermissions_READ_def
        FilePermissions_WRITE_def FilePermissions_EXEC_def libc_const)
  with flags_contains_eq [OF assms] show ?thesis by (simp add: and.assoc)
qed

lemma Pid_from_raw_valid: "pid_valid X (Pid_as_raw pid) \<Longrightarrow> Pid_from_raw X (Pid_as_raw pid) = Some pid"
  by (simp add: Pid_from_raw_def)

lemma nodeid_or_err_wire:
  "in_header_nodeid header = NodeID_into_raw n \<Longrightarrow> nodeid_or_err header = Ok n"
  by (simp add: nodeid_or_err_def InHeader_nodeid_def)

lemma decode_file_lock_wire:
  "pid_valid X (Pid_as_raw (FileLock_pid lk)) \<Longrightarrow> decode_file_lock X (wire_file_lock lk) = Ok lk"
  by (simp add: decode_file_lock_def wire_file_lock_def Pid_from_raw_valid)

lemma flock_op_wire: "flock_op (fst (flock_wire op)) (snd (flock_wire op)) = Ok op"
  by (cases op) (simp_all add: flock_op_def libc_const)

lemma whence_wire: "whence (whence_wire w) = Ok w"
  by (cases w) (simp_all add: whence_def libc_const)

text \<open>Optional fields. The simplifier turns \<open>v \<noteq> None\<close> into the existence of a value.\<close>

lemma opt_raw_then_some:
  "then_some (\<exists>y. fh = Some y) (FileID (opt_raw FileID_into_raw fh)) = fh"
  "then_some (\<exists>y. m = Some y) (FileMode_from_raw (opt_raw FileMode_into_raw m)) = m"
  "then_some (\<exists>y. l = Some y) (LockOwnerID (opt_raw LockOwnerID_value l)) = l"
  "then_some (\<exists>y. k = Some y) (PollWakeupID (opt_raw PollWakeupID_into_raw k)) = k"
  "then_some (\<exists>y. w = Some y) (opt_raw id w) = w"
proof -
  show "then_some (\<exists>y. fh = Some y) (FileID (opt_raw FileID_into_raw fh)) = fh" by (cases fh) simp_all
  show "then_some (\<exists>y. m = Some y) (FileMode_from_raw (opt_raw FileMode_into_raw m)) = m"
    by (cases m) simp_all
  show "then_some (\<exists>y. l = Some y) (LockOwnerID (opt_raw LockOwnerID_value l)) = l" by (cases l) simp_all
  show "then_some (\<exists>y. k = Some y) (PollWakeupID (opt_raw PollWakeupID_into_raw k)) = k"
    by (cases k) simp_all
  show "then_some (\<exists>y. w = Some y) (opt_raw id w) = w" by (cases w) simp_all
qed

lemma write_flags_wire:
  assumes "flags_contains WriteInFlags_all f"
  shows "(f OR flag_if b FUSE_WRITE_LOCKOWNER) AND WriteInFlags_all = f"
    and "(f OR flag_if b FUSE_WRITE_LOCKOWNER) AND FUSE_WRITE_LOCKOWNER \<noteq> 0 \<longleftrightarrow> b"
proof -
  have w: "WriteInFlags_all AND FUSE_WRITE_LOCKOWNER = 0" "FUSE_WRITE_LOCKOWNER AND WriteInFlags_all = 0"
    by (simp_all add: WriteInFlags_all_def abi_const)
  have "f AND FUSE_WRITE_LOCKOWNER = (f AND WriteInFlags_all) AND FUSE_WRITE_LOCKOWNER"
    by (simp only: flags_contains_eq [OF assms])
  also have "\<dots> = f AND (WriteInFlags_all AND FUSE_WRITE_LOCKOWNER)" by (rule and.assoc)
  finally have f: "f AND FUSE_WRITE_LOCKOWNER = 0" by (simp only: w and_zero_eq)
  show "(f OR flag_if b FUSE_WRITE_LOCKOWNER) AND WriteInFlags_all = f"
    by (simp add: bit.conj_disj_distrib2 flags_contains_eq [OF assms] w)
  show "(f OR flag_if b FUSE_WRITE_LOCKOWNER) AND FUSE_WRITE_LOCKOWNER \<noteq> 0 \<longleftrightarrow> b"
    by (simp add: bit.conj_disj_distrib2 f) (simp add: abi_const)
qed

lemma interrupt_unique_wire:
  "\<not> bit u 0 \<Longrightarrow> u AND NOT FUSE_INT_REQ_BIT = u" for u :: u64
  by (rule bit_word_eqI) (auto simp: bit_simps FUSE_INT_REQ_BIT_def bit_1_iff, metis gr0I)


lemma wire_flags_nonzero:
  "FUSE_GETATTR_FH \<noteq> 0" "FUSE_READ_LOCKOWNER \<noteq> 0" "FUSE_FSYNC_FDATASYNC \<noteq> 0"
  "FUSE_POLL_SCHEDULE_NOTIFY \<noteq> 0" "FUSE_LK_FLOCK \<noteq> 0"
  by (simp_all add: abi_const)

lemma setattr_ctime_wire:
  "setattr_time_wf (map_option Timespec t) \<Longrightarrow>
    setattr_ctime (\<exists>y. t = Some y) (wire_secs (map_option Timespec t)) (wire_nanos (map_option Timespec t)) =
      Ok t"
  by (cases t) (simp_all add: setattr_ctime_def duration_new_same)

lemma nodeid_or_err_nonzero:
  assumes "in_header_nodeid header \<noteq> 0"
  shows "\<exists>n. nodeid_or_err header = Ok n \<and> NodeID_into_raw n = in_header_nodeid header"
  using assms
  by (cases "NodeID_from_raw (in_header_nodeid header)")
    (auto simp: nodeid_or_err_def InHeader_nodeid_def NodeID_from_raw_None NodeID_from_raw_Some)

lemma setxattr_ext_iff:
  "config_minor config \<le> 32 \<or> \<not> flags_contains (config_flags config) KernelFlags_SETXATTR_EXT
    \<longleftrightarrow> \<not> setxattr_ext config"
  by (auto simp: setxattr_ext_def)

lemma forget_wire:
  assumes "in_header_nodeid header = forget_one_nodeid (Forget_raw f)"
    and "forget_one_nodeid (Forget_raw f) \<noteq> 0"
  shows "and_then (nodeid_or_err header) (\<lambda>n. Ok (Forget_op (Forgets_Single (Forget
      \<lparr> forget_one_nodeid = NodeID_into_raw n, forget_one_nlookup = forget_one_nlookup (Forget_raw f) \<rparr>)))) =
    Ok (Forget_op (Forgets_Single f))"
  using nodeid_or_err_nonzero [of header] assms by (cases f) auto


lemma flags_contains_zero [simp]: "flags_contains m 0"
  by (simp add: flags_contains_def)

lemma unat_u32_bound [simp]: "unat (w :: u32) < 4294967296"
  using unsigned_less [of w, where 'a = nat] by simp

lemma setattr_time_Ok_wf: "setattr_time v n s ns = Ok t \<Longrightarrow> setattr_time_wf t"
  by (auto simp: setattr_time_def result_eqs duration_new_wf split: if_splits)

lemma setattr_ctime_Ok_wf: "setattr_ctime v s ns = Ok t \<Longrightarrow> setattr_time_wf (map_option Timespec t)"
  by (auto simp: setattr_ctime_def result_eqs duration_new_wf split: if_splits)

lemma decode_file_lock_Ok_wf:
  "decode_file_lock X lk = Ok l \<Longrightarrow> pid_valid X (Pid_as_raw (FileLock_pid l))"
  by (auto simp: decode_file_lock_def result_eqs Pid_from_raw_def split: if_splits)

lemma fetch_array_length: "fetch_array X p n d = Ok (xs, d') \<Longrightarrow> length xs = n"
  by (auto simp: fetch_array_def result_eqs try_ref_from_bytes_def pod_array_def split: if_splits)

text \<open>Alignment, panics and trailing bytes, for every opcode at once.\<close>

lemma fetch_Unaligned:
  assumes "zerocopy_ok X" and "dec_addr d mod pod_align p = 0"
  shows "fetch X p d \<noteq> Err Unaligned"
  using assms by (simp add: fetch_errors)

lemma fetch_addr: "fetch X p d = Ok (x, d') \<Longrightarrow> dec_addr d' = dec_addr d + pod_size p"
  by (auto simp: fetch_def result_eqs fetch_bytes_Ok)

lemma decode_opcode_aligned:
  assumes "zerocopy_ok X" and "dec_addr d mod 8 = 0"
  shows "decode_opcode X config header d opcode \<noteq> Err Unaligned"
proof -
  note al = aligned_8 [OF assms(2)] assms(2)
  have dur: "setattr_time v n s ns \<noteq> Err e" "setattr_ctime v s ns \<noteq> Err e" for v n s ns e
    by (auto simp: setattr_time_def setattr_ctime_def result_eqs duration_new_not_Err split: if_splits)
  show ?thesis
    by (cases opcode)
      (auto simp: decode_defs result_eqs nodeid_or_err_def fetch_str_errors fetch_bytes_errors Let_def
        fetch_Unaligned [OF assms(1)] fetch_array_eq pod_sizes pod_sel al dur decode_file_lock_def
        flock_op_def whence_def split: if_splits dest!: fetch_addr)
qed

lemma decode_opcode_Panic:
  assumes "zerocopy_ok X"
  shows "decode_opcode X config header d opcode = Panic \<longleftrightarrow>
    opcode = FUSE_INIT \<or> opcode = FUSE_DESTROY \<or>
    opcode = FUSE_SETATTR \<and> decode_setattr X header d = Panic"
proof -
  show ?thesis
    by (cases opcode)
      (auto simp: decode_defs result_eqs nodeid_or_err_def fetch_str_errors fetch_bytes_errors
        fetch_errors(4) [OF assms] fetch_array_eq decode_file_lock_def flock_op_def whence_def
        split: if_splits)
qed

lemma setattr_time_outcome:
  "setattr_time v n s ns \<noteq> Err e" "setattr_ctime v s ns \<noteq> Err e"
  "setattr_time v n s ns = Panic \<longleftrightarrow> v \<and> \<not> n \<and> 2 ^ 64 \<le> unat s + unat ns div 10 ^ 9"
  "setattr_ctime v s ns = Panic \<longleftrightarrow> v \<and> 2 ^ 64 \<le> unat s + unat ns div 10 ^ 9"
  by (auto simp: setattr_time_def setattr_ctime_def result_eqs duration_new_not_Err duration_new_Panic
      split: if_splits)

lemma decode_setattr_Panic:
  assumes "zerocopy_ok X"
  shows "decode_setattr X header d = Panic \<longleftrightarrow>
    InHeader_nodeid header \<noteq> None \<and> dec_addr d mod 8 = 0 \<and>
    (\<exists>a rest. dec_bytes d = pod_enc fuse_setattr_in_pod a @ rest \<and>
      (setattr_in_valid a AND FATTR_ATIME \<noteq> 0 \<and> setattr_in_valid a AND FATTR_ATIME_NOW = 0 \<and>
        2 ^ 64 \<le> unat (setattr_in_atime a) + unat (setattr_in_atimensec a) div 10 ^ 9 \<or>
       setattr_in_valid a AND FATTR_MTIME \<noteq> 0 \<and> setattr_in_valid a AND FATTR_MTIME_NOW = 0 \<and>
        2 ^ 64 \<le> unat (setattr_in_mtime a) + unat (setattr_in_mtimensec a) div 10 ^ 9 \<or>
       setattr_in_valid a AND FATTR_CTIME \<noteq> 0 \<and>
        2 ^ 64 \<le> unat (setattr_in_ctime a) + unat (setattr_in_ctimensec a) div 10 ^ 9))"
proof -
  have tail: "and_then r1 (\<lambda>x. and_then r2 (\<lambda>y. and_then r3 (\<lambda>z. Ok (f x y z)))) = Panic \<longleftrightarrow>
      r1 = Panic \<or> r2 = Panic \<or> r3 = Panic"
    if "\<And>e. r1 \<noteq> Err e" "\<And>e. r2 \<noteq> Err e" "\<And>e. r3 \<noteq> Err e"
    for r1 :: "(DecodeError, SetAttrTime option) result" and r2 :: "(DecodeError, SetAttrTime option) result"
      and r3 :: "(DecodeError, duration option) result" and f :: "_ \<Rightarrow> _ \<Rightarrow> _ \<Rightarrow> Operation"
    using that by (cases r1; cases r2; cases r3; simp)
  have fetched: "fetch X fuse_setattr_in_pod d = Ok (a, d') \<longleftrightarrow>
      dec_addr d mod 8 = 0 \<and> dec_bytes d = pod_enc fuse_setattr_in_pod a @ dec_bytes d' \<and>
      dec_addr d' = dec_addr d + 88" for a d'
    by (simp add: fuse_setattr_in.fetch_Ok [OF assms] pod_sizes)
  have ex: "(\<exists>a d'. fetch X fuse_setattr_in_pod d = Ok (a, d') \<and> P a) \<longleftrightarrow>
      dec_addr d mod 8 = 0 \<and> (\<exists>a rest. dec_bytes d = pod_enc fuse_setattr_in_pod a @ rest \<and> P a)" for P
    unfolding fetched by (auto intro!: exI [of _ "\<lparr>dec_addr = _, dec_bytes = _\<rparr>"])
  have "decode_setattr X header d = Panic \<longleftrightarrow>
    (\<exists>a d'. fetch X fuse_setattr_in_pod d = Ok (a, d') \<and> InHeader_nodeid header \<noteq> None \<and>
      (setattr_in_valid a AND FATTR_ATIME \<noteq> 0 \<and> setattr_in_valid a AND FATTR_ATIME_NOW = 0 \<and>
        2 ^ 64 \<le> unat (setattr_in_atime a) + unat (setattr_in_atimensec a) div 10 ^ 9 \<or>
       setattr_in_valid a AND FATTR_MTIME \<noteq> 0 \<and> setattr_in_valid a AND FATTR_MTIME_NOW = 0 \<and>
        2 ^ 64 \<le> unat (setattr_in_mtime a) + unat (setattr_in_mtimensec a) div 10 ^ 9 \<or>
       setattr_in_valid a AND FATTR_CTIME \<noteq> 0 \<and>
        2 ^ 64 \<le> unat (setattr_in_ctime a) + unat (setattr_in_ctimensec a) div 10 ^ 9))"
    by (auto simp: decode_setattr_def and_then_eq_Panic [of "fetch _ _ _"] fetch_errors(4) [OF assms] Let_def
        nodeid_or_err_def and_then_eq_Panic [of "ok_or _ _"] ok_or_eq tail setattr_time_outcome)
  then show ?thesis unfolding ex by auto
qed

text \<open>
  A parser built from the operations of the decoder gives the same result when more bytes follow.
\<close>

lemma prefix_closed_fetch:
  "(\<And>x. prefix_closed (f x)) \<Longrightarrow> prefix_closed (\<lambda>d. and_then (fetch X p d) (\<lambda>(x, d). f x d))"
  "(\<And>xs. prefix_closed (g xs)) \<Longrightarrow>
    prefix_closed (\<lambda>d. and_then (fetch_array X p n d) (\<lambda>(xs, d). g xs d))"
  "(\<And>s. prefix_closed (h s)) \<Longrightarrow> prefix_closed (\<lambda>d. and_then (fetch_str d) (\<lambda>(s, d). h s d))"
  "(\<And>s. prefix_closed (h s)) \<Longrightarrow> prefix_closed (\<lambda>d. and_then (fetch_bytes n d) (\<lambda>(s, d). h s d))"
  unfolding prefix_closed_def fetch_array_eq
  by (clarsimp simp: result_eqs; drule fetch_append; blast)+

lemma prefix_closed_and_then:
  assumes "\<And>x. prefix_closed (f x)"
  shows "prefix_closed (\<lambda>d. and_then r (\<lambda>x. f x d))"
  using assms by (auto simp: prefix_closed_def result_eqs)

lemma prefix_closed_if:
  "prefix_closed f \<Longrightarrow> prefix_closed g \<Longrightarrow> prefix_closed (\<lambda>d. if b then f d else g d)"
  by (simp add: prefix_closed_def)

lemma prefix_closed_const: "prefix_closed (\<lambda>d. r)"
  by (simp add: prefix_closed_def)

lemmas prefix_closed_intros =
  prefix_closed_fetch prefix_closed_and_then prefix_closed_if prefix_closed_const

lemma decode_opcode_prefix_closed: "prefix_closed (\<lambda>d. decode_opcode X config header d opcode)"
  by (cases opcode; simp only: decode_opcode.simps decode_defs Let_def;
      intro prefix_closed_intros)

text \<open>A request that is cut short is refused.\<close>

lemma fetch_str_cstr_take:
  "0 \<notin> set s \<Longrightarrow> fetch_str \<lparr> dec_addr = addr, dec_bytes = take n (cstr s @ rest) \<rparr> =
    (if n \<le> length s then Err MissingNulCharacter
     else Ok (s, \<lparr> dec_addr = addr + length s + 1, dec_bytes = take (n - length s - 1) rest \<rparr>))"
  by (simp add: cstr_def fetch_str_take del: take_append)

lemma fetch_forgets_take:
  assumes "zerocopy_ok X" and "addr mod 8 = 0" and "k = length fs"
  shows "fetch_array X fuse_forget_one_pod k
      \<lparr> dec_addr = addr, dec_bytes = take n (pod_enc (pod_array k fuse_forget_one_pod) fs) \<rparr> =
    (if n < 16 * k then Err UnexpectedEof
     else Ok (fs, \<lparr> dec_addr = addr + 16 * k, dec_bytes = [] \<rparr>))"
proof -
  have "plain_old_data (pod_array k fuse_forget_one_pod)" by (intro pod_intro)
  from plain_old_data.fetch_take [OF this assms(1), of fs addr n "[]"] assms(2,3) show ?thesis
    by (simp add: fetch_array_eq pod_sel pod_sizes list_all_iff mult.commute)
qed

lemma forget_array_length:
  "k = length fs \<Longrightarrow> length (pod_enc (pod_array k fuse_forget_one_pod) fs) = 16 * k"
  using plain_old_data.enc_length [OF plain_old_data_array [OF fuse_forget_one.plain_old_data_axioms],
      of k fs]
  by (simp add: pod_sel pod_sizes list_all_iff mult.commute)

lemmas fetch_takes =
  fuse_forget_in.fetch_take fuse_batch_forget_in.fetch_take fuse_interrupt_in.fetch_take
  fuse_notify_retrieve_in.fetch_take fuse_getattr_in.fetch_take fuse_setattr_in.fetch_take
  fuse_mknod_in_compat_11.fetch_take fuse_mknod_in.fetch_take fuse_mkdir_in.fetch_take
  fuse_rename_in.fetch_take fuse_rename2_in.fetch_take fuse_link_in.fetch_take fuse_open_in.fetch_take
  fuse_read_in.fetch_take fuse_write_in_compat_8.fetch_take fuse_write_in.fetch_take
  fuse_release_in.fetch_take fuse_fsync_in.fetch_take fuse_setxattr_in_compat_32.fetch_take
  fuse_setxattr_in.fetch_take fuse_getxattr_in.fetch_take fuse_flush_in.fetch_take
  fuse_lk_in.fetch_take fuse_access_in.fetch_take fuse_create_in.fetch_take fuse_bmap_in.fetch_take
  fuse_fallocate_in.fetch_take fuse_copy_file_range_in.fetch_take fuse_poll_in.fetch_take
  fuse_lseek_in.fetch_take

lemmas fetch_takes_end = fetch_takes [where rest = "[]", simplified append_Nil2]

lemmas pod_enc_lengths =
  fuse_forget_in.enc_length fuse_batch_forget_in.enc_length fuse_interrupt_in.enc_length
  fuse_notify_retrieve_in.enc_length fuse_getattr_in.enc_length fuse_setattr_in.enc_length
  fuse_mknod_in_compat_11.enc_length fuse_mknod_in.enc_length fuse_mkdir_in.enc_length
  fuse_rename_in.enc_length fuse_rename2_in.enc_length fuse_link_in.enc_length fuse_open_in.enc_length
  fuse_read_in.enc_length fuse_write_in_compat_8.enc_length fuse_write_in.enc_length
  fuse_release_in.enc_length fuse_fsync_in.enc_length fuse_setxattr_in_compat_32.enc_length
  fuse_setxattr_in.enc_length fuse_getxattr_in.enc_length fuse_flush_in.enc_length
  fuse_lk_in.enc_length fuse_access_in.enc_length fuse_create_in.enc_length fuse_bmap_in.enc_length
  fuse_fallocate_in.enc_length fuse_copy_file_range_in.enc_length fuse_poll_in.enc_length
  fuse_lseek_in.enc_length

lemma decode_opcode_Unsupported:
  "decode_opcode X config header d opcode = Ok Unsupported \<longleftrightarrow>
    opcode \<in> {FUSE_IOCTL, FUSE_SETUPMAPPING, FUSE_REMOVEMAPPING, FUSE_SYNCFS, FUSE_TMPFILE,
      FUSE_STATX, CUSE_INIT}"
  by (cases opcode) (auto simp: decode_defs result_eqs Let_def)

section \<open>Properties\<close>

lemma decode_wire_arg:
  assumes "bitflags_ok X" and "zerocopy_ok X" and "addr mod 8 = 0"
    and "op_wf X config op" and "wire_header op header"
  shows "decode X config header addr (wire_arg config op @ rest) = Ok op"
proof -
  have opcode: "InHeader_opcode header = Ok (wire_opcode op)"
    and nodeid: "in_header_nodeid header = wire_nodeid op"
    using assms(5) by (simp_all add: wire_header_def InHeader_opcode_Ok)
  note simps = decode_def opcode nodeid decode_defs Decoder_new_def fetch_encs pod_sizes
    nodeid_or_err_wire truncate_simps [OF assms(1)] assms(2,3) aligned_8 [OF assms(3)]
    flags_contains_eq opt_raw_then_some wire_flags_nonzero decode_file_lock_wire
    unsigned_of_nat take_bit_nat_eq_self
  show ?thesis
  proof (cases op)
    case (Setattr a)
    with assms(4) show ?thesis
      by (simp add: simps wire_setattr_def Let_def setattr_valid_flags setattr_time_wire setattr_ctime_wire)
  next
    case (Mknod a)
    with assms(4) show ?thesis by (simp add: simps umask_eq)
  next
    case (Write a)
    with assms(4) show ?thesis by (simp add: simps write_flags_wire)
  next
    case (Setxattr a)
    with assms(4) show ?thesis
      by (cases "setxattr_ext config") (simp_all add: simps setxattr_ext_iff)
  next
    case (Readdir a)
    then show ?thesis by (cases "Readdir_mode a") (simp_all add: simps)
  next
    case (Flock a)
    then show ?thesis
      by (cases "Flock_op a") (simp_all add: simps flock_op_def libc_const)
  next
    case (Forget_op a)
    with assms(4) show ?thesis
      by (cases a) (simp_all add: simps fetch_forgets forget_wire comp_def del: nodeid_or_err_wire)
  next
    case (NotifyReply a)
    with assms(5) show ?thesis by (simp add: simps wire_header_def InHeader_unique_def)
  qed (use assms(4) in \<open>simp_all add: simps umask_eq whence_wire interrupt_unique_wire\<close>)
qed

text \<open>C3: Round trip with the wire format: what the kernel sends for an operation, in a buffer
  aligned to 8 bytes and with whatever follows it, is decoded to that operation. This is so from
  version 7.8 of the protocol on, except for the operations whose request was laid out in another
  way before 7.9 or 7.12, where it is so from that version on, and for requests with extensions.\<close>

theorem decode_wire:
  assumes "bitflags_ok X" and "zerocopy_ok X" and "addr mod 8 = 0"
    and "op_wf X config op" and "wire_header op header" and "wire_sent config op"
  shows "decode X config header addr (wire_arg config op @ rest) = Ok op"
  using assms(1-5) by (rule decode_wire_arg)

theorem decode_wire_witness:
  "decode linux_extern KernelConfig_new
     \<lparr> in_header_len = 66, in_header_opcode = 45, in_header_unique = 6, in_header_nodeid = 1,
       in_header_uid = 0, in_header_gid = 0, in_header_pid = 1, in_header_total_extlen = 0,
       in_header_padding = 0 \<rparr> 64
     (wire_arg KernelConfig_new (Rename \<lparr> Rename_parent = NodeID_ROOT, Rename_name = [97, 98],
        Rename_newparent = NodeID_ROOT, Rename_newname = [99, 100, 101],
        Rename_flags = RENAME_EXCHANGE \<rparr>) @ [7]) =
   Ok (Rename \<lparr> Rename_parent = NodeID_ROOT, Rename_name = [97, 98],
        Rename_newparent = NodeID_ROOT, Rename_newname = [99, 100, 101],
        Rename_flags = RENAME_EXCHANGE \<rparr>)"
  by (rule decode_wire)
    (simp_all add: wire_header_def wire_sent_def flags_contains_def RenameFlags_all_def libc_const
      KernelConfig_new_def abi_const)



text \<open>C13: Every decoded operation is well formed: its names have no NUL, its flags are declared ones,
  its time stamps are normalised, its process identifiers are valid, and the fields that are
  missing from the older layouts of \<open>MKNOD\<close>, \<open>WRITE\<close> and \<open>SETXATTR\<close> are at their default when
  the negotiated configuration has those layouts.\<close>

theorem decode_op_wf:
  assumes "bitflags_ok X" and "\<And>f. xattr_truncate X (xattr_truncate X f) = xattr_truncate X f"
    and "decode X config header addr arg = Ok op"
  shows "op_wf X config op"
proof (cases "InHeader_opcode header")
  case (Ok opcode)
  with assms(3) have "decode_opcode X config header (Decoder_new addr arg) opcode = Ok op"
    by (simp add: decode_def)
  then show ?thesis
    by (cases opcode)
      (auto simp: decode_defs result_eqs nodeid_or_err_def fetch_str_Ok fetch_bytes_Ok Let_def
        truncate_simps [OF assms(1)] assms(2) setattr_time_Ok_wf setattr_ctime_Ok_wf decode_file_lock_Ok_wf
        setxattr_ext_def FUSE_INT_REQ_BIT_def bit_simps unsigned_less split: if_splits
        dest!: fetch_array_length)
qed (use assms(3) in \<open>auto simp: decode_def\<close>)

theorem decode_op_wf_witness:
  "op_wf linux_extern KernelConfig_new (Rename \<lparr> Rename_parent = NodeID_ROOT, Rename_name = [97, 98],
        Rename_newparent = NodeID_ROOT, Rename_newname = [99, 100, 101],
        Rename_flags = RENAME_EXCHANGE \<rparr>)"
proof (rule decode_op_wf)
  show "decode linux_extern KernelConfig_new
     \<lparr> in_header_len = 0, in_header_opcode = 45, in_header_unique = 6, in_header_nodeid = 1,
       in_header_uid = 0, in_header_gid = 0, in_header_pid = 1, in_header_total_extlen = 0,
       in_header_padding = 0 \<rparr> 0
     ([1, 0, 0, 0, 0, 0, 0, 0, 2, 0, 0, 0, 0, 0, 0, 0, 97, 98, 0, 99, 100, 101, 0]) =
   Ok (Rename \<lparr> Rename_parent = NodeID_ROOT, Rename_name = [97, 98],
        Rename_newparent = NodeID_ROOT, Rename_newname = [99, 100, 101],
        Rename_flags = RENAME_EXCHANGE \<rparr>)"
  proof -
    let ?h = "\<lparr> in_header_len = 0, in_header_opcode = 45, in_header_unique = 6, in_header_nodeid = 1,
       in_header_uid = 0, in_header_gid = 0, in_header_pid = 1, in_header_total_extlen = 0,
       in_header_padding = 0 \<rparr> :: InHeader"
    have "InHeader_opcode ?h = Ok FUSE_RENAME2" by (simp add: InHeader_opcode_Ok)
    then show ?thesis
      by (simp add: decode_def decode_rename2_def Decoder_new_def fetch_def fetch_bytes_def
          fetch_str_def try_ref_from_bytes_def cast_ok_iff pod_sizes nodeid_or_err_def
          InHeader_nodeid_def fuse_rename2_in_pod_def pod_defs truncate_simps RenameFlags_all_def libc_const)
  qed
qed (simp_all, simp_all add: linux_extern_def)

text \<open>C26: A request that was cut short anywhere is refused: decoding any proper prefix of the argument
  of a well-formed operation reports the end of the input or a missing terminator.\<close>

theorem decode_truncated:
  assumes "zerocopy_ok X" and "addr mod 8 = 0"
    and "op_wf X config op" and "wire_header op header" and "n < length (wire_arg config op)"
  shows "decode X config header addr (take n (wire_arg config op)) \<in>
    {Err UnexpectedEof, Err MissingNulCharacter}"
proof -
  have opcode: "InHeader_opcode header = Ok (wire_opcode op)"
    using assms(4) by (simp add: wire_header_def InHeader_opcode_Ok)
  note simps = decode_def opcode decode_defs Decoder_new_def pod_sizes assms(1,2)
    aligned_8 [OF assms(2)] pod_enc_lengths cstr_def [THEN arg_cong [where f = length], simplified]
    fetch_takes fetch_takes_end fetch_str_cstr_take
    fetch_str_cstr_take [where rest = "[]", unfolded append_Nil2]
    unsigned_of_nat take_bit_nat_eq_self
  show ?thesis
  proof (cases op)
    case (Forget_op a)
    with assms(3,5) show ?thesis
      by (cases a) (auto simp: simps fetch_forgets_take forget_array_length simp del: take_append)
  next
    case (Setxattr a)
    with assms(3,5) show ?thesis
      by (cases "setxattr_ext config")
        (auto simp: simps setxattr_ext_iff fetch_bytes_take simp del: take_append)
  next
    case (Readdir a)
    with assms(3,5) show ?thesis by (cases "Readdir_mode a") (simp_all add: simps)
  qed (use assms(3,5) in \<open>auto simp add: simps simp del: take_append\<close>)
qed

theorem decode_truncated_witness:
  "decode linux_extern KernelConfig_new
     \<lparr> in_header_len = 46, in_header_opcode = 1, in_header_unique = 6, in_header_nodeid = 1,
       in_header_uid = 0, in_header_gid = 0, in_header_pid = 1, in_header_total_extlen = 0,
       in_header_padding = 0 \<rparr> 8 (take 2 [97, 98, 0]) \<in> {Err UnexpectedEof, Err MissingNulCharacter}"
  using decode_truncated [of linux_extern 8 KernelConfig_new
      "Lookup \<lparr> Lookup_parent = NodeID_ROOT, Lookup_name = [97, 98] \<rparr>"
      "\<lparr> in_header_len = 46, in_header_opcode = 1, in_header_unique = 6, in_header_nodeid = 1,
       in_header_uid = 0, in_header_gid = 0, in_header_pid = 1, in_header_total_extlen = 0,
       in_header_padding = 0 \<rparr>" 2]
  by (simp add: wire_header_def cstr_def)

text \<open>Bytes behind the argument do not change the result of decoding.\<close>

lemma decode_trailing_bytes:
  assumes "decode X config header addr arg = Ok op"
  shows "decode X config header addr (arg @ extra) = Ok op"
  using assms decode_opcode_prefix_closed [unfolded prefix_closed_def, rule_format,
      of X config header "\<lparr> dec_addr = addr, dec_bytes = arg \<rparr>" _ op extra]
  by (auto simp: decode_def Decoder_new_def split: result.splits)

text \<open>In a buffer aligned to 8 bytes no argument is ever found to be unaligned, including the
  array behind the header of a batch of forgets.\<close>

theorem decode_aligned:
  assumes "zerocopy_ok X" and "addr mod 8 = 0"
  shows "decode X config header addr arg \<noteq> Err Unaligned"
  using assms
  by (auto simp: decode_def Decoder_new_def decode_opcode_aligned split: result.splits)

text \<open>C27: Decoding panics exactly for the two opcodes that the session handles itself, and for a
  \<open>FUSE_SETATTR\<close> on a valid node with a time stamp to be set whose nanoseconds carry the seconds
  beyond 64 bits.\<close>

theorem decode_panics:
  assumes "zerocopy_ok X"
  shows "decode X config header addr arg = Panic \<longleftrightarrow>
    InHeader_opcode header \<in> {Ok FUSE_INIT, Ok FUSE_DESTROY} \<or>
    InHeader_opcode header = Ok FUSE_SETATTR \<and> InHeader_nodeid header \<noteq> None \<and> addr mod 8 = 0 \<and>
    (\<exists>a rest. arg = pod_enc fuse_setattr_in_pod a @ rest \<and>
      (setattr_in_valid a AND FATTR_ATIME \<noteq> 0 \<and> setattr_in_valid a AND FATTR_ATIME_NOW = 0 \<and>
        2 ^ 64 \<le> unat (setattr_in_atime a) + unat (setattr_in_atimensec a) div 10 ^ 9 \<or>
       setattr_in_valid a AND FATTR_MTIME \<noteq> 0 \<and> setattr_in_valid a AND FATTR_MTIME_NOW = 0 \<and>
        2 ^ 64 \<le> unat (setattr_in_mtime a) + unat (setattr_in_mtimensec a) div 10 ^ 9 \<or>
       setattr_in_valid a AND FATTR_CTIME \<noteq> 0 \<and>
        2 ^ 64 \<le> unat (setattr_in_ctime a) + unat (setattr_in_ctimensec a) div 10 ^ 9))"
  using decode_opcode_Panic [OF assms] decode_setattr_Panic [OF assms]
  by (cases "InHeader_opcode header") (auto simp: decode_def Decoder_new_def)

theorem decode_panics_witness:
  "decode linux_extern KernelConfig_new
     \<lparr> in_header_len = 40, in_header_opcode = 38, in_header_unique = 6, in_header_nodeid = 0,
       in_header_uid = 0, in_header_gid = 0, in_header_pid = 1, in_header_total_extlen = 0,
       in_header_padding = 0 \<rparr> 0 [] = Panic"
  by (simp add: decode_panics InHeader_opcode_Ok)

text \<open>An operation on a node is about the node named in the header, which is never 0; for the reply to
  a retrieve notification the number of the notification comes from the header too.\<close>

theorem decode_nodeid:
  assumes "decode X config header addr arg = Ok op"
    and "\<nexists>fs. op = Forget_op (Forgets_Batch fs)" and "\<nexists>i. op = Interrupt i" and "op \<noteq> Unsupported"
  shows "wire_nodeid op = in_header_nodeid header \<and> in_header_nodeid header \<noteq> 0 \<and>
    (\<forall>r. op = NotifyReply r \<longrightarrow> NotifyReply_unique r = NotifyID (in_header_unique header))"
proof (cases "InHeader_opcode header")
  case (Ok opcode)
  with assms(1) have "decode_opcode X config header (Decoder_new addr arg) opcode = Ok op"
    by (simp add: decode_def)
  then show ?thesis using assms(2-4)
    by (cases opcode)
      (auto simp: decode_defs result_eqs nodeid_or_err_def InHeader_nodeid_def NodeID_from_raw_Some
        InHeader_unique_def Let_def split: if_splits)
qed (use assms(1,4) in \<open>auto simp: decode_def\<close>)

text \<open>An operation is reported as unsupported exactly when its opcode is not one of the protocol, or
  is one of the seven that the library does not implement.\<close>

theorem decode_unsupported:
  "decode X config header addr arg = Ok Unsupported \<longleftrightarrow>
    (\<forall>opcode. in_header_opcode header \<noteq> opcode_value opcode) \<or>
    in_header_opcode header \<in> opcode_value `
      {FUSE_IOCTL, FUSE_SETUPMAPPING, FUSE_REMOVEMAPPING, FUSE_SYNCFS, FUSE_TMPFILE, FUSE_STATX, CUSE_INIT}"
proof (cases "InHeader_opcode header")
  case (Ok opcode)
  then have v: "in_header_opcode header = opcode_value opcode" by (simp only: InHeader_opcode_Ok)
  have "\<not> (\<forall>opcode. in_header_opcode header \<noteq> opcode_value opcode)" using v by blast
  moreover have "decode X config header addr arg = Ok Unsupported \<longleftrightarrow>
      opcode \<in> {FUSE_IOCTL, FUSE_SETUPMAPPING, FUSE_REMOVEMAPPING, FUSE_SYNCFS, FUSE_TMPFILE,
        FUSE_STATX, CUSE_INIT}"
    by (simp only: decode_def Ok result.case decode_opcode_Unsupported)
  ultimately show ?thesis unfolding v opcode_value_image by (simp only: simp_thms)
next
  case (Err e)
  then have "in_header_opcode header \<noteq> opcode_value opcode" for opcode
    by (auto simp only: InHeader_opcode_Ok [symmetric])
  with Err show ?thesis by (simp add: decode_def)
next
  case Panic
  then show ?thesis by (simp add: InHeader_opcode_def split: option.splits)
qed

text \<open>A lock whose process identifier is 0 is refused, whatever the kind of the lock: the request
  to release a POSIX lock is not decoded when the kernel names no process for it.\<close>

theorem decode_setlk_no_pid:
  assumes "pid_ok X" and "zerocopy_ok X" and "addr mod 8 = 0"
    and "in_header_opcode header \<in> {opcode_value FUSE_SETLK, opcode_value FUSE_SETLKW}"
    and "in_header_nodeid header \<noteq> 0"
    and "file_lock_pid (lk_in_lk lk) = 0" and "lk_in_lk_flags lk AND FUSE_LK_FLOCK = 0"
  shows "decode X config header addr (pod_enc fuse_lk_in_pod lk) = Err InvalidPid"
proof -
  obtain opcode where o: "InHeader_opcode header = Ok opcode" "opcode \<in> {FUSE_SETLK, FUSE_SETLKW}"
    using assms(4) InHeader_opcode_Ok by blast
  obtain n where "nodeid_or_err header = Ok n" using nodeid_or_err_nonzero assms(5) by blast
  moreover have "decode_file_lock X (lk_in_lk lk) = Err InvalidPid"
    using assms(1,6) by (simp add: decode_file_lock_def Pid_from_raw_def pid_ok_def)
  moreover have "fetch X fuse_lk_in_pod (Decoder_new addr (pod_enc fuse_lk_in_pod lk)) =
      Ok (lk, \<lparr> dec_addr = addr + 48, dec_bytes = [] \<rparr>)"
    using fuse_lk_in.fetch_enc [of X lk addr "[]"] assms(2,3) by (simp add: Decoder_new_def pod_sizes)
  ultimately show ?thesis using o assms(7) by (auto simp: decode_def decode_setlk_def)
qed

end
