(* ===== verification/Bytes.thy ===== *)
theory Bytes
  imports Platform Pod
begin

text \<open>
  Collections of bytes that are written in a single operation (\<open>src/bytes.rs\<close>): the trait
  \<open>Bytes\<close>, its implementations, and \<open>write_bytes\<close>, which gathers the chunks of a value in an
  uninitialised array and passes them to one vectored write.
\<close>

section \<open>The implementations of the trait\<close>

text \<open>
  \<open>fill_bytes\<close> calls \<open>put\<close> of a container, here a function on the state of the container that
  may panic.
\<close>

type_synonym ('e, 's) put = "'s \<Rightarrow> bytes \<Rightarrow> ('e, 's) result"

text \<open>The implementations for types that are bytes themselves: \<open>[u8]\<close>,\<close>

definition slice_u8_count :: "bytes \<Rightarrow> nat" where
  "slice_u8_count self = (if self = [] then 0 else 1)"

definition slice_u8_fill_bytes :: "('e, 's) put \<Rightarrow> bytes \<Rightarrow> 's \<Rightarrow> ('e, 's) result" where
  "slice_u8_fill_bytes put self dst = (if self \<noteq> [] then put dst self else Ok dst)"

text \<open>\<open>[u8; N]\<close>, where \<open>N\<close> is the length of the list,\<close>

definition array_u8_size :: "bytes \<Rightarrow> nat" where
  "array_u8_size self = (let N = length self in if N = 0 then 0 else length self)"

definition array_u8_count :: "bytes \<Rightarrow> nat" where
  "array_u8_count self = (let N = length self in if N = 0 \<or> self = [] then 0 else 1)"

definition array_u8_fill_bytes :: "('e, 's) put \<Rightarrow> bytes \<Rightarrow> 's \<Rightarrow> ('e, 's) result" where
  "array_u8_fill_bytes put self dst =
     (let N = length self in if N > 0 \<and> self \<noteq> [] then put dst self else Ok dst)"

text \<open>and C strings, given without their terminator.\<close>

definition to_bytes_with_nul :: "bytes \<Rightarrow> bytes" where
  "to_bytes_with_nul self = self @ [0]"

definition CStr_size :: "bytes \<Rightarrow> nat" where
  "CStr_size self = length (to_bytes_with_nul self)"

definition CStr_fill_bytes :: "('e, 's) put \<Rightarrow> bytes \<Rightarrow> 's \<Rightarrow> ('e, 's) result" where
  "CStr_fill_bytes put self dst = put dst (to_bytes_with_nul self)"

text \<open>
  A value of a type that implements \<open>Bytes\<close>. References and smart pointers delegate to what they
  point to; tuples of every arity, slices, arrays and vectors go through their elements in order.
  Strings, vectors of bytes and operating system strings delegate to \<open>[u8]\<close>. Plain old data
  is given by its bytes.
\<close>

datatype Bytes =
    Bytes_Pointer Bytes
  | Bytes_Unit
  | Bytes_Tuple "Bytes list"
  | Bytes_Slice "Bytes list"
  | Bytes_Option "Bytes option"
  | Bytes_Left Bytes
  | Bytes_Right Bytes
  | Bytes_Slice_u8 bytes
  | Bytes_Array_u8 bytes
  | Bytes_Str bytes
  | Bytes_OsStr bytes
  | Bytes_CStr bytes
  | POD bytes

fun Bytes_size :: "Bytes \<Rightarrow> nat" where
  "Bytes_size (Bytes_Pointer b) = Bytes_size b"
| "Bytes_size Bytes_Unit = 0"
| "Bytes_size (Bytes_Tuple bs) = foldl (\<lambda>size b. size + Bytes_size b) 0 bs"
| "Bytes_size (Bytes_Slice bs) = sum_list (map Bytes_size bs)"
| "Bytes_size (Bytes_Option b) = (case b of None \<Rightarrow> 0 | Some b \<Rightarrow> Bytes_size b)"
| "Bytes_size (Bytes_Left b) = Bytes_size b"
| "Bytes_size (Bytes_Right b) = Bytes_size b"
| "Bytes_size (Bytes_Slice_u8 s) = length s"
| "Bytes_size (Bytes_Array_u8 s) = array_u8_size s"
| "Bytes_size (Bytes_Str s) = length s"
| "Bytes_size (Bytes_OsStr s) = length s"
| "Bytes_size (Bytes_CStr s) = CStr_size s"
| "Bytes_size (POD s) = length s"

fun Bytes_count :: "Bytes \<Rightarrow> nat" where
  "Bytes_count (Bytes_Pointer b) = Bytes_count b"
| "Bytes_count Bytes_Unit = 0"
| "Bytes_count (Bytes_Tuple bs) = foldl (\<lambda>count b. count + Bytes_count b) 0 bs"
| "Bytes_count (Bytes_Slice bs) = sum_list (map Bytes_count bs)"
| "Bytes_count (Bytes_Option b) = (case b of None \<Rightarrow> 0 | Some b \<Rightarrow> Bytes_count b)"
| "Bytes_count (Bytes_Left b) = Bytes_count b"
| "Bytes_count (Bytes_Right b) = Bytes_count b"
| "Bytes_count (Bytes_Slice_u8 s) = slice_u8_count s"
| "Bytes_count (Bytes_Array_u8 s) = array_u8_count s"
| "Bytes_count (Bytes_Str s) = (if s = [] then 0 else 1)"
| "Bytes_count (Bytes_OsStr s) = slice_u8_count s"
| "Bytes_count (Bytes_CStr s) = 1"
| "Bytes_count (POD s) = 1"

text \<open>The loops over the elements of tuples and slices are the second function.\<close>

fun Bytes_fill_bytes :: "('e, 's) put \<Rightarrow> Bytes \<Rightarrow> 's \<Rightarrow> ('e, 's) result"
  and fill_all :: "('e, 's) put \<Rightarrow> Bytes list \<Rightarrow> 's \<Rightarrow> ('e, 's) result" where
  "Bytes_fill_bytes put (Bytes_Pointer b) dst = Bytes_fill_bytes put b dst"
| "Bytes_fill_bytes put Bytes_Unit dst = Ok dst"
| "Bytes_fill_bytes put (Bytes_Tuple bs) dst = fill_all put bs dst"
| "Bytes_fill_bytes put (Bytes_Slice bs) dst = fill_all put bs dst"
| "Bytes_fill_bytes put (Bytes_Option None) dst = Ok dst"
| "Bytes_fill_bytes put (Bytes_Option (Some b)) dst = Bytes_fill_bytes put b dst"
| "Bytes_fill_bytes put (Bytes_Left b) dst = Bytes_fill_bytes put b dst"
| "Bytes_fill_bytes put (Bytes_Right b) dst = Bytes_fill_bytes put b dst"
| "Bytes_fill_bytes put (Bytes_Slice_u8 s) dst = slice_u8_fill_bytes put s dst"
| "Bytes_fill_bytes put (Bytes_Array_u8 s) dst = array_u8_fill_bytes put s dst"
| "Bytes_fill_bytes put (Bytes_Str s) dst = slice_u8_fill_bytes put s dst"
| "Bytes_fill_bytes put (Bytes_OsStr s) dst = slice_u8_fill_bytes put s dst"
| "Bytes_fill_bytes put (Bytes_CStr s) dst = CStr_fill_bytes put s dst"
| "Bytes_fill_bytes put (POD s) dst = put dst s"
| "fill_all put [] dst = Ok dst"
| "fill_all put (b # bs) dst = and_then (Bytes_fill_bytes put b dst) (\<lambda>dst. fill_all put bs dst)"

text \<open>\<open>FillBytes\<close> for \<open>Vec<u8>\<close>.\<close>

definition Vec_put :: "('e, bytes) put" where
  "Vec_put self chunk = Ok (self @ chunk)"

section \<open>Writing\<close>

text \<open>
  The array of slices to be written. An element that has not been initialised is \<open>None\<close>; an index
  beyond the end panics.
\<close>

record FillWriteBytes =
  fill_vec :: "bytes option list"
  fill_offset :: nat

definition FillWriteBytes_put :: "('e, FillWriteBytes) put" where
  "FillWriteBytes_put self chunk =
     (if fill_offset self < length (fill_vec self)
      then Ok (self\<lparr> fill_vec := (fill_vec self)[fill_offset self := Some chunk],
                     fill_offset := fill_offset self + 1 \<rparr>)
      else Panic)"

text \<open>
  Reading the array as initialised slices, by \<open>slice_assume_init_ref\<close> for the arrays on the stack
  and by \<open>set_len\<close> for the vector on the heap. An element that is not initialised makes this
  undefined behaviour, here \<open>None\<close>.
\<close>

fun slice_assume_init_ref :: "'a option list \<Rightarrow> 'a list option" where
  "slice_assume_init_ref [] = Some []"
| "slice_assume_init_ref (None # xs) = None"
| "slice_assume_init_ref (Some x # xs) = map_option ((#) x) (slice_assume_init_ref xs)"

text \<open>
  A writer is its state together with \<open>write_vectored\<close>, which answers with the number of bytes it
  took or an error.
\<close>

type_synonym 'w write_vectored = "'w \<Rightarrow> bytes list \<Rightarrow> (io_error, nat) result \<times> 'w"

text \<open>
  The chunks are gathered in an array of \<open>n\<close> elements on the stack, or in the spare capacity of a
  vector on the heap whose length is then set, and written by one call.
\<close>

definition small_write ::
    "nat \<Rightarrow> ('b \<Rightarrow> FillWriteBytes \<Rightarrow> (io_error, FillWriteBytes) result) \<Rightarrow> 'w write_vectored \<Rightarrow>
      'w \<Rightarrow> 'b \<Rightarrow> ((io_error, nat) result \<times> 'w) option" where
  "small_write n fill wv writer b =
     (let uninit = replicate n None in
      case fill b \<lparr> fill_vec = uninit, fill_offset = 0 \<rparr> of
        Ok dst \<Rightarrow> map_option (wv writer) (slice_assume_init_ref (fill_vec dst))
      | Err e \<Rightarrow> Some (Err e, writer)
      | Panic \<Rightarrow> Some (Panic, writer))"

definition heap_write ::
    "nat \<Rightarrow> ('b \<Rightarrow> FillWriteBytes \<Rightarrow> (io_error, FillWriteBytes) result) \<Rightarrow> 'w write_vectored \<Rightarrow>
      'w \<Rightarrow> 'b \<Rightarrow> ((io_error, nat) result \<times> 'w) option" where
  "heap_write count fill wv writer b =
     (let spare = replicate count None in
      case fill b \<lparr> fill_vec = take count spare, fill_offset = 0 \<rparr> of
        Ok dst \<Rightarrow> map_option (wv writer) (slice_assume_init_ref (take count (fill_vec dst)))
      | Err e \<Rightarrow> Some (Err e, writer)
      | Panic \<Rightarrow> Some (Panic, writer))"

text \<open>
  \<open>write_bytes\<close> for a type with the three methods of the trait. The outer \<open>None\<close> is undefined
  behaviour.
\<close>

definition write_bytes_impl ::
    "('b \<Rightarrow> nat) \<Rightarrow> ('b \<Rightarrow> nat) \<Rightarrow> ('b \<Rightarrow> FillWriteBytes \<Rightarrow> (io_error, FillWriteBytes) result) \<Rightarrow>
      'w write_vectored \<Rightarrow> 'w \<Rightarrow> 'b \<Rightarrow> ((io_error, unit) result \<times> 'w) option" where
  "write_bytes_impl size_fn count_fn fill wv writer b =
     (let sz = size_fn b; count = count_fn b in
      if count = 0 then Some (Ok (), writer)
      else
        let written =
          (if count = 1 then small_write 1 fill wv writer b
           else if count = 2 then small_write 2 fill wv writer b
           else if count = 3 then small_write 3 fill wv writer b
           else if count = 4 then small_write 4 fill wv writer b
           else heap_write count fill wv writer b)
        in map_option
          (\<lambda>(r, writer). (and_then r (\<lambda>written.
             if written < sz then Err (CustomError KindOther) else Ok ()), writer))
          written)"

definition write_bytes ::
    "'w write_vectored \<Rightarrow> 'w \<Rightarrow> Bytes \<Rightarrow> ((io_error, unit) result \<times> 'w) option" where
  "write_bytes = write_bytes_impl Bytes_size Bytes_count (Bytes_fill_bytes FillWriteBytes_put)"

section \<open>The contract of the trait\<close>

text \<open>The chunks of a value, in the order in which they are put.\<close>

fun Bytes_chunks :: "Bytes \<Rightarrow> bytes list" where
  "Bytes_chunks (Bytes_Pointer b) = Bytes_chunks b"
| "Bytes_chunks Bytes_Unit = []"
| "Bytes_chunks (Bytes_Tuple bs) = concat (map Bytes_chunks bs)"
| "Bytes_chunks (Bytes_Slice bs) = concat (map Bytes_chunks bs)"
| "Bytes_chunks (Bytes_Option b) = (case b of None \<Rightarrow> [] | Some b \<Rightarrow> Bytes_chunks b)"
| "Bytes_chunks (Bytes_Left b) = Bytes_chunks b"
| "Bytes_chunks (Bytes_Right b) = Bytes_chunks b"
| "Bytes_chunks (Bytes_Slice_u8 s) = (if s = [] then [] else [s])"
| "Bytes_chunks (Bytes_Array_u8 s) = (if s = [] then [] else [s])"
| "Bytes_chunks (Bytes_Str s) = (if s = [] then [] else [s])"
| "Bytes_chunks (Bytes_OsStr s) = (if s = [] then [] else [s])"
| "Bytes_chunks (Bytes_CStr s) = [s @ [0]]"
| "Bytes_chunks (POD s) = [s]"

definition Bytes_content :: "Bytes \<Rightarrow> bytes" where
  "Bytes_content b = concat (Bytes_chunks b)"

fun put_all :: "('s \<Rightarrow> bytes \<Rightarrow> ('e, 's) result) \<Rightarrow> bytes list \<Rightarrow> 's \<Rightarrow> ('e, 's) result" where
  "put_all put [] dst = Ok dst"
| "put_all put (c # cs) dst = and_then (put dst c) (\<lambda>dst. put_all put cs dst)"

lemma slice_assume_init_ref_Some: "slice_assume_init_ref (map Some xs) = Some xs"
  by (induction xs) auto

lemma put_all_slots:
  "put_all FillWriteBytes_put cs
     \<lparr> fill_vec = map Some ds @ replicate (length cs + k) None, fill_offset = length ds \<rparr> =
   Ok \<lparr> fill_vec = map Some (ds @ cs) @ replicate k None, fill_offset = length ds + length cs \<rparr>"
proof (induction cs arbitrary: ds)
  case Nil
  show ?case by simp
next
  case (Cons c cs)
  from Cons.IH [of "ds @ [c]"] show ?case
    by (simp add: FillWriteBytes_put_def list_update_append)
qed

lemmas put_all_fresh = put_all_slots [of _ "[]" 0, simplified]

text \<open>
  What \<open>write_bytes\<close> relies on: the methods agree on the chunks. A consequence is that the array is
  exactly filled, so it is never indexed beyond its end and never read uninitialised.
\<close>

locale bytes_trait =
  fixes size_fn :: "'b \<Rightarrow> nat" and count_fn :: "'b \<Rightarrow> nat"
    and fill :: "'b \<Rightarrow> FillWriteBytes \<Rightarrow> (io_error, FillWriteBytes) result"
    and chunks_of :: "'b \<Rightarrow> bytes list"
  assumes size_chunks: "size_fn b = length (concat (chunks_of b))"
    and count_chunks: "count_fn b = length (chunks_of b)"
    and fill_chunks: "fill b dst = put_all FillWriteBytes_put (chunks_of b) dst"
begin

lemma small_write_chunks:
  "small_write (length (chunks_of b)) fill wv writer b = Some (wv writer (chunks_of b))"
  by (simp add: small_write_def fill_chunks put_all_fresh slice_assume_init_ref_Some)

lemma heap_write_chunks:
  "heap_write (length (chunks_of b)) fill wv writer b = Some (wv writer (chunks_of b))"
  by (simp add: heap_write_def fill_chunks put_all_fresh slice_assume_init_ref_Some)

text \<open>Where the chunks are gathered makes no difference.\<close>

lemma small_write_heap_write:
  "small_write (count_fn b) fill wv writer b = heap_write (count_fn b) fill wv writer b"
  by (simp add: small_write_chunks heap_write_chunks count_chunks)

lemma write_bytes_impl_once:
  "write_bytes_impl size_fn count_fn fill wv writer b =
    Some (if chunks_of b = [] then (Ok (), writer)
      else let (r, writer') = wv writer (chunks_of b) in
        (and_then r (\<lambda>n. if n < length (concat (chunks_of b)) then Err (CustomError KindOther) else Ok ()),
         writer'))"
proof (cases "chunks_of b = []")
  case True
  then show ?thesis by (simp add: write_bytes_impl_def count_chunks)
next
  case False
  let ?c = "length (chunks_of b)"
  have "(if ?c = 1 then small_write 1 fill wv writer b
         else if ?c = 2 then small_write 2 fill wv writer b
         else if ?c = 3 then small_write 3 fill wv writer b
         else if ?c = 4 then small_write 4 fill wv writer b
         else heap_write ?c fill wv writer b) = Some (wv writer (chunks_of b))"
    using small_write_chunks [of b wv writer] heap_write_chunks [of b wv writer] by presburger
  with False show ?thesis
    by (simp add: write_bytes_impl_def count_chunks size_chunks split_def Let_def)
qed

end

lemmas bytes_impl_defs = slice_u8_count_def slice_u8_fill_bytes_def array_u8_size_def
  array_u8_count_def array_u8_fill_bytes_def to_bytes_with_nul_def CStr_size_def CStr_fill_bytes_def

lemma and_then_put_all_Nil [simp]: "and_then r (put_all put []) = r"
  by (cases r) simp_all

lemma foldl_add_sum_list: "foldl (\<lambda>n x. n + f x) (m :: nat) xs = m + sum_list (map f xs)"
  by (induction xs arbitrary: m) auto

lemma length_concat_concat:
  "length (concat (concat xss)) = sum_list (map (\<lambda>xs. length (concat xs)) xss)"
  by (induction xss) auto

lemma Bytes_size_content: "Bytes_size b = length (concat (Bytes_chunks b))"
proof (induction b)
  case (Bytes_Tuple bs)
  then show ?case
    by (simp add: foldl_add_sum_list length_concat_concat comp_def cong: map_cong)
next
  case (Bytes_Slice bs)
  then show ?case
    by (simp add: length_concat_concat comp_def cong: map_cong)
qed (auto simp: bytes_impl_defs split: option.split)

lemma Bytes_count_chunks: "Bytes_count b = length (Bytes_chunks b)"
proof (induction b)
  case (Bytes_Tuple bs)
  then show ?case
    by (simp add: foldl_add_sum_list length_concat comp_def cong: map_cong)
next
  case (Bytes_Slice bs)
  then show ?case
    by (simp add: length_concat comp_def cong: map_cong)
qed (auto simp: bytes_impl_defs split: option.split)

lemma put_all_append:
  "put_all put (cs @ ds) dst = and_then (put_all put cs dst) (\<lambda>dst. put_all put ds dst)"
proof (induction cs arbitrary: dst)
  case (Cons c cs)
  then show ?case by (cases "put dst c") simp_all
qed simp

lemma Bytes_fill_chunks:
  "Bytes_fill_bytes put b dst = put_all put (Bytes_chunks b) dst"
  "fill_all put bs dst = put_all put (concat (map Bytes_chunks bs)) dst"
proof (induction put b dst and put bs dst rule: Bytes_fill_bytes_fill_all.induct)
  case (16 put b bs dst)
  then show ?case by (cases "put_all put (Bytes_chunks b) dst") (simp_all add: put_all_append)
qed (simp_all add: bytes_impl_defs)

interpretation bytes: bytes_trait Bytes_size Bytes_count "Bytes_fill_bytes FillWriteBytes_put"
    Bytes_chunks
  by unfold_locales (fact Bytes_size_content Bytes_count_chunks Bytes_fill_chunks)+

lemma put_all_Vec: "put_all Vec_put cs buf = Ok (buf @ concat cs)"
  by (induction cs arbitrary: buf) (auto simp: Vec_put_def)

lemma write_bytes_eq:
  "write_bytes wv writer b =
    Some (if Bytes_chunks b = [] then (Ok (), writer)
      else let (r, writer') = wv writer (Bytes_chunks b) in
        (and_then r (\<lambda>n. if n < Bytes_size b then Err (CustomError KindOther) else Ok ()), writer'))"
  unfolding write_bytes_def by (simp add: bytes.write_bytes_impl_once Bytes_size_content)

section \<open>Properties\<close>

text \<open>C17: Writing a value never reads an uninitialised slice, never indexes the array of slices beyond
  its end, and calls \<open>write_vectored\<close> exactly once with all chunks in order, or not at all when
  there are none; a write that takes fewer bytes than the size of the value is an error.
\<close>

theorem write_bytes_once:
  "write_bytes wv writer b =
    Some (if Bytes_chunks b = [] then (Ok (), writer)
      else let (r, writer') = wv writer (Bytes_chunks b) in
        (and_then r (\<lambda>n. if n < Bytes_size b then Err (CustomError KindOther) else Ok ()), writer'))"
  by (rule write_bytes_eq)

text \<open>Filling a vector appends the content of the value, which has as many bytes as \<open>size\<close>
  says, in as many chunks as \<open>count\<close> says.
\<close>

theorem fill_bytes_Vec:
  "Bytes_fill_bytes Vec_put b buf = Ok (buf @ Bytes_content b) \<and>
   length (Bytes_content b) = Bytes_size b \<and> length (Bytes_chunks b) = Bytes_count b"
  by (simp add: Bytes_fill_chunks put_all_Vec Bytes_content_def Bytes_size_content Bytes_count_chunks)

end
