(* ===== verification/Msg.thy ===== *)
theory Msg
  imports Bytes Abi_Reply Types
begin

text \<open>
  Messages to the kernel (\<open>src/msg.rs\<close>): a reply or a notification is a header and an argument,
  written in a single operation. The reader at the other end is \<open>parse_msg\<close>, the checks that
  the FUSE driver makes of a message that is written to the device.
\<close>

section \<open>Sending\<close>

datatype MessageKind =
    Reply RequestID "i32 option"
  | Notify fuse_notify_code

text \<open>The fields \<open>error\<close> and \<open>unique\<close> of the header.\<close>

fun message_error_unique :: "MessageKind \<Rightarrow> i32 \<times> u64" where
  "message_error_unique (Reply unique error) =
     (case error of None \<Rightarrow> 0 | Some e \<Rightarrow> - e, RequestID_into_raw unique)"
| "message_error_unique (Notify code) = (notify_code_value code, 0)"

definition send_msg ::
    "'w write_vectored \<Rightarrow> 'w \<Rightarrow> MessageKind \<Rightarrow> Bytes \<Rightarrow> ((io_error, unit) result \<times> 'w) option" where
  "send_msg wv conn kind arg =
     (let total = pod_size fuse_out_header_pod + Bytes_size arg in
      if 2 ^ 32 \<le> total then Some (Err (OsError EINVAL), conn)
      else
        let (error, unique) = message_error_unique kind in
        write_bytes wv conn
          (Bytes_Tuple
            [POD (pod_enc fuse_out_header_pod
               \<lparr> out_header_len = of_nat total, out_header_error = error,
                 out_header_unique = unique \<rparr>),
             arg]))"

section \<open>The reader\<close>

text \<open>
  What the driver requires of a write: at least a header, whose length is that of the write; and
  either no request number and a positive notification code, or the number of a request with
  an error in the range \<open>-511..0\<close>.
\<close>

definition parse_msg :: "bytes \<Rightarrow> (fuse_out_header \<times> bytes) option" where
  "parse_msg bs =
     (if length bs < 16 then None
      else
        let h = pod_dec fuse_out_header_pod (take 16 bs) in
        if unat (out_header_len h) = length bs then Some (h, drop 16 bs) else None)"

fun msg_kind :: "fuse_out_header \<Rightarrow> MessageKind option" where
  "msg_kind h =
     (if out_header_unique h = 0 then map_option Notify (notify_code_from_raw (out_header_error h))
      else if out_header_error h = 0 then Some (Reply (RequestID (out_header_unique h)) None)
      else if - 512 < sint (out_header_error h) \<and> sint (out_header_error h) < 0
      then Some (Reply (RequestID (out_header_unique h)) (Some (- out_header_error h)))
      else None)"

text \<open>
  The kinds of message the driver can tell apart: replies to a request with a non-zero number,
  errors below 512.
\<close>

fun kind_wf :: "MessageKind \<Rightarrow> bool" where
  "kind_wf (Reply unique error) \<longleftrightarrow> RequestID_into_raw unique \<noteq> 0 \<and>
     (case error of None \<Rightarrow> True | Some e \<Rightarrow> 0 < sint e \<and> sint e < 512)"
| "kind_wf (Notify code) \<longleftrightarrow> True"

text \<open>The header and the bytes of a message.\<close>

definition msg_header :: "MessageKind \<Rightarrow> nat \<Rightarrow> fuse_out_header" where
  "msg_header kind arg_size =
     \<lparr> out_header_len = of_nat (16 + arg_size), out_header_error = fst (message_error_unique kind),
       out_header_unique = snd (message_error_unique kind) \<rparr>"

definition msg_bytes :: "MessageKind \<Rightarrow> bytes \<Rightarrow> bytes" where
  "msg_bytes kind arg = pod_enc fuse_out_header_pod (msg_header kind (length arg)) @ arg"

section \<open>Lemmas\<close>

lemma length_out_header [simp]: "length (pod_enc fuse_out_header_pod h) = 16"
  by (simp add: fuse_out_header.enc_length pod_sizes)

lemma out_header_dec_enc [simp]: "pod_dec fuse_out_header_pod (pod_enc fuse_out_header_pod h) = h"
  by (simp add: fuse_out_header.dec_enc pod_sizes)

lemma length_msg_bytes [simp]: "length (msg_bytes kind arg) = 16 + length arg"
  by (simp add: msg_bytes_def)

lemma parse_msg_bytes:
  "16 + length arg < 2 ^ 32 \<Longrightarrow> parse_msg (msg_bytes kind arg) = Some (msg_header kind (length arg), arg)"
  by (simp add: parse_msg_def msg_bytes_def msg_header_def unsigned_of_nat take_bit_nat_eq_self del: of_nat_add)

lemma msg_kind_header:
  assumes "kind_wf kind"
  shows "msg_kind (msg_header kind n) = Some kind"
proof (cases kind)
  case (Reply unique error)
  show ?thesis
  proof (cases error)
    case None
    with Reply assms show ?thesis by (simp add: msg_header_def)
  next
    case (Some e)
    with Reply assms have e: "0 < sint e" "sint e < 512" by simp_all
    then have "sint (- e) = - sint e"
      by (simp add: sint_word_ariths signed_take_bit_int_eq_self)
    with Reply Some assms e show ?thesis
      by (auto simp: msg_header_def)
  qed
qed (simp add: msg_header_def)

lemma send_msg_eq:
  "send_msg wv conn kind arg =
    Some (if 2 ^ 32 \<le> 16 + Bytes_size arg then (Err (OsError EINVAL), conn)
      else let (r, conn') = wv conn (pod_enc fuse_out_header_pod (msg_header kind (Bytes_size arg)) #
                 Bytes_chunks arg) in
        (and_then r (\<lambda>n. if n < 16 + Bytes_size arg then Err (CustomError KindOther) else Ok ()), conn'))"
  by (simp add: send_msg_def write_bytes_eq pod_sizes split_def Let_def msg_header_def)

lemma concat_msg:
  "concat (pod_enc fuse_out_header_pod (msg_header kind (Bytes_size arg)) # Bytes_chunks arg) =
   msg_bytes kind (Bytes_content arg)"
  by (simp add: msg_bytes_def Bytes_content_def Bytes_size_content)

text \<open>A writer that takes all bytes, \<open>io::Write\<close> for \<open>Vec<u8>\<close>.\<close>

definition Vec_write_vectored :: "bytes write_vectored" where
  "Vec_write_vectored buf bufs = (Ok (length (concat bufs)), buf @ concat bufs)"

lemma send_msg_Vec:
  "16 + Bytes_size arg < 2 ^ 32 \<Longrightarrow>
   send_msg Vec_write_vectored buf kind arg = Some (Ok (), buf @ msg_bytes kind (Bytes_content arg))"
  by (simp add: send_msg_eq Vec_write_vectored_def msg_bytes_def Bytes_content_def Bytes_size_content)

section \<open>Properties\<close>

text \<open>C16: A message that fits in 32 bits is passed to the connection in exactly one vectored write,
  which the driver accepts: the length in the header is that of the write, the argument follows
  the header unchanged, and the kind of message, the request number and the error number can be
  read back from the header. A short write is an error.
\<close>

theorem send_msg_one_write:
  assumes "16 + Bytes_size arg < 2 ^ 32" and "kind_wf kind"
  shows "\<exists>bufs h.
    send_msg wv conn kind arg =
      Some (let (r, conn') = wv conn bufs in
        (and_then r (\<lambda>n. if n < length (concat bufs) then Err (CustomError KindOther) else Ok ()), conn'))
    \<and> parse_msg (concat bufs) = Some (h, Bytes_content arg) \<and> msg_kind h = Some kind"
proof (intro exI conjI)
  let ?h = "msg_header kind (Bytes_size arg)"
  let ?bufs = "pod_enc fuse_out_header_pod ?h # Bytes_chunks arg"
  have "length (concat ?bufs) = 16 + Bytes_size arg"
    by (simp add: Bytes_size_content)
  with assms(1) show "send_msg wv conn kind arg =
      Some (let (r, conn') = wv conn ?bufs in
        (and_then r (\<lambda>n. if n < length (concat ?bufs) then Err (CustomError KindOther) else Ok ()), conn'))"
    by (simp add: send_msg_eq)
  show "parse_msg (concat ?bufs) = Some (?h, Bytes_content arg)"
    unfolding concat_msg using assms(1)
    by (simp add: parse_msg_bytes Bytes_content_def Bytes_size_content)
  show "msg_kind ?h = Some kind" using assms(2) by (rule msg_kind_header)
qed

theorem send_msg_one_write_witness:
  "\<exists>bufs h.
    send_msg Vec_write_vectored [] (Reply (RequestID 42) (Some EINTR)) (Bytes_Str [104, 105]) =
      Some (let (r, conn') = Vec_write_vectored [] bufs in
        (and_then r (\<lambda>n. if n < length (concat bufs) then Err (CustomError KindOther) else Ok ()), conn'))
    \<and> parse_msg (concat bufs) = Some (h, Bytes_content (Bytes_Str [104, 105]))
    \<and> msg_kind h = Some (Reply (RequestID 42) (Some EINTR))"
  by (rule send_msg_one_write) (simp_all add: EINTR_def)

text \<open>
  A message whose length does not fit in 32 bits is refused with \<open>EINVAL\<close> and nothing is
  written; no other message is refused before the write, and what the connection answers is
  passed on.
\<close>

lemma send_msg_too_large:
  "send_msg (\<lambda>conn bufs. (r, True)) False kind arg =
     Some (if 2 ^ 32 \<le> 16 + Bytes_size arg then (Err (OsError EINVAL), False)
       else (and_then r (\<lambda>n. if n < 16 + Bytes_size arg then Err (CustomError KindOther) else Ok ()), True))"
  by (simp add: send_msg_eq)

end
