(* ===== verification/Reply.thy ===== *)
theory Reply
  imports Msg Init
begin

text \<open>
  The replies to requests (\<open>src/reply.rs\<close>): the provided methods of the trait \<open>ReplySender\<close>, which
  build the structure that the negotiated protocol version asks for. The two required methods,
  \<open>config\<close> and \<open>reply_raw\<close>, are arguments of the definitions.
\<close>

section \<open>File attributes\<close>

definition to_fuse_attr :: "FileAttr \<Rightarrow> fuse_attr" where
  "to_fuse_attr attr =
     \<lparr> attr_ino = NodeID_into_raw (FileAttr_ino attr),
       attr_size = FileAttr_size attr,
       attr_blocks = FileAttr_blocks attr,
       attr_atime = as_secs (FileAttr_atime attr),
       attr_mtime = as_secs (FileAttr_mtime attr),
       attr_ctime = as_secs (FileAttr_ctime attr),
       attr_atimensec = subsec_nanos (FileAttr_atime attr),
       attr_mtimensec = subsec_nanos (FileAttr_mtime attr),
       attr_ctimensec = subsec_nanos (FileAttr_ctime attr),
       attr_mode = FileMode_into_raw (FileAttr_mode attr),
       attr_nlink = FileAttr_nlink attr,
       attr_uid = FileAttr_uid attr,
       attr_gid = FileAttr_gid attr,
       attr_rdev = DeviceID_into_kernel_dev (FileAttr_rdev attr),
       attr_blksize = FileAttr_blksize attr,
       attr_flags = 0 \<rparr>"

definition to_fuse_attr_compat_8 :: "FileAttr \<Rightarrow> fuse_attr_compat_8" where
  "to_fuse_attr_compat_8 attr =
     \<lparr> attr_compat_8_ino = NodeID_into_raw (FileAttr_ino attr),
       attr_compat_8_size = FileAttr_size attr,
       attr_compat_8_blocks = FileAttr_blocks attr,
       attr_compat_8_atime = as_secs (FileAttr_atime attr),
       attr_compat_8_mtime = as_secs (FileAttr_mtime attr),
       attr_compat_8_ctime = as_secs (FileAttr_ctime attr),
       attr_compat_8_atimensec = subsec_nanos (FileAttr_atime attr),
       attr_compat_8_mtimensec = subsec_nanos (FileAttr_mtime attr),
       attr_compat_8_ctimensec = subsec_nanos (FileAttr_ctime attr),
       attr_compat_8_mode = FileMode_into_raw (FileAttr_mode attr),
       attr_compat_8_nlink = FileAttr_nlink attr,
       attr_compat_8_uid = FileAttr_uid attr,
       attr_compat_8_gid = FileAttr_gid attr,
       attr_compat_8_rdev = DeviceID_into_kernel_dev (FileAttr_rdev attr) \<rparr>"

section \<open>The methods of \<open>ReplySender\<close>\<close>

text \<open>\<open>reply_raw\<close> takes an error number and the argument of the message.\<close>

type_synonym 'r reply_raw = "i32 option \<Rightarrow> Bytes \<Rightarrow> 'r"

definition reply_bytes :: "'r reply_raw \<Rightarrow> Bytes \<Rightarrow> 'r" where
  "reply_bytes reply_raw bytes = reply_raw None bytes"

definition reply_error :: "'r reply_raw \<Rightarrow> i32 \<Rightarrow> 'r" where
  "reply_error reply_raw error = reply_raw (Some error) Bytes_Unit"

text \<open>\<open>Option::unwrap_or_default\<close> for a duration.\<close>

definition duration_or_default :: "duration option \<Rightarrow> duration" where
  "duration_or_default d = (case d of None \<Rightarrow> duration_zero | Some d \<Rightarrow> d)"

definition reply_entry ::
    "KernelConfig \<Rightarrow> 'r reply_raw \<Rightarrow> NodeID option \<Rightarrow> FileAttr \<Rightarrow> u64 \<Rightarrow> duration option \<Rightarrow>
      duration option \<Rightarrow> 'r" where
  "reply_entry config reply_raw ino attr generation attr_valid entry_valid =
     (let nodeid = (case ino of None \<Rightarrow> 0 | Some ino \<Rightarrow> NodeID_into_raw ino);
          entry_valid = duration_or_default entry_valid;
          attr_valid = duration_or_default attr_valid
      in if config_minor config \<le> 8 then
           reply_raw None (POD (pod_enc fuse_entry_out_compat_8_pod
             \<lparr> entry_out_compat_8_nodeid = nodeid,
               entry_out_compat_8_generation = generation,
               entry_out_compat_8_entry_valid = as_secs entry_valid,
               entry_out_compat_8_attr_valid = as_secs attr_valid,
               entry_out_compat_8_entry_valid_nsec = subsec_nanos entry_valid,
               entry_out_compat_8_attr_valid_nsec = subsec_nanos attr_valid,
               entry_out_compat_8_attr = to_fuse_attr_compat_8 attr \<rparr>))
         else
           reply_raw None (POD (pod_enc fuse_entry_out_pod
             \<lparr> entry_out_nodeid = nodeid,
               entry_out_generation = generation,
               entry_out_entry_valid = as_secs entry_valid,
               entry_out_attr_valid = as_secs attr_valid,
               entry_out_entry_valid_nsec = subsec_nanos entry_valid,
               entry_out_attr_valid_nsec = subsec_nanos attr_valid,
               entry_out_attr = to_fuse_attr attr \<rparr>)))"

definition reply_attr ::
    "KernelConfig \<Rightarrow> 'r reply_raw \<Rightarrow> FileAttr \<Rightarrow> duration option \<Rightarrow> 'r" where
  "reply_attr config reply_raw attr valid =
     (let valid = duration_or_default valid
      in if config_minor config \<le> 8 then
           reply_raw None (POD (pod_enc fuse_attr_out_compat_8_pod
             \<lparr> attr_out_compat_8_attr_valid = as_secs valid,
               attr_out_compat_8_attr_valid_nsec = subsec_nanos valid,
               attr_out_compat_8_dummy = 0,
               attr_out_compat_8_attr = to_fuse_attr_compat_8 attr \<rparr>))
         else
           reply_raw None (POD (pod_enc fuse_attr_out_pod
             \<lparr> attr_out_attr_valid = as_secs valid,
               attr_out_attr_valid_nsec = subsec_nanos valid,
               attr_out_dummy = 0,
               attr_out_attr = to_fuse_attr attr \<rparr>)))"

definition reply_write :: "'r reply_raw \<Rightarrow> u32 \<Rightarrow> 'r" where
  "reply_write reply_raw sz =
     reply_raw None (POD (pod_enc fuse_write_out_pod
       \<lparr> write_out_size = sz, write_out_padding = 0 \<rparr>))"

text \<open>
  \<open>OpenOutFlags\<close> is a \<open>bitflags!\<close> type of 32 bits.
\<close>

type_synonym OpenOutFlags = u32

definition OpenOutFlags_all :: OpenOutFlags where
  "OpenOutFlags_all =
     FOPEN_DIRECT_IO OR FOPEN_KEEP_CACHE OR FOPEN_NONSEEKABLE OR FOPEN_CACHE_DIR OR
     FOPEN_STREAM OR FOPEN_NOFLUSH OR FOPEN_PARALLEL_DIRECT_WRITES OR FOPEN_PASSTHROUGH"

definition OpenOutFlags_PASSTHROUGH_MASK :: OpenOutFlags where
  "OpenOutFlags_PASSTHROUGH_MASK =
     FOPEN_PASSTHROUGH OR FOPEN_DIRECT_IO OR FOPEN_PARALLEL_DIRECT_WRITES OR FOPEN_NOFLUSH"

definition reply_open ::
    "KernelConfig \<Rightarrow> 'r reply_raw \<Rightarrow> FileID \<Rightarrow> OpenOutFlags \<Rightarrow> i32 \<Rightarrow> 'r" where
  "reply_open config reply_raw fh open_flags backing_id =
     (let enabled_passthrough =
        40 \<le> config_minor config \<and> flags_contains (config_flags config) KernelFlags_PASSTHROUGH
      in reply_raw None (POD (pod_enc fuse_open_out_pod
           \<lparr> open_out_fh = FileID_into_raw fh,
             open_out_open_flags = open_flags,
             open_out_backing_id = (if enabled_passthrough then backing_id else 0) \<rparr>)))"

definition reply_statfs :: "KernelConfig \<Rightarrow> 'r reply_raw \<Rightarrow> Statfs \<Rightarrow> 'r" where
  "reply_statfs config reply_raw st =
     (if config_minor config \<le> 3 then
        reply_raw None (POD (pod_enc fuse_statfs_out_compat_3_pod
          \<lparr> statfs_out_compat_3_st =
              \<lparr> kstatfs_compat_3_blocks = Statfs_blocks st,
                kstatfs_compat_3_bfree = Statfs_bfree st,
                kstatfs_compat_3_bavail = Statfs_bavail st,
                kstatfs_compat_3_files = Statfs_files st,
                kstatfs_compat_3_ffree = Statfs_ffree st,
                kstatfs_compat_3_bsize = Statfs_bsize st,
                kstatfs_compat_3_namelen = Statfs_namelen st \<rparr> \<rparr>))
      else
        reply_raw None (POD (pod_enc fuse_statfs_out_pod
          \<lparr> statfs_out_st =
              \<lparr> kstatfs_blocks = Statfs_blocks st,
                kstatfs_bfree = Statfs_bfree st,
                kstatfs_bavail = Statfs_bavail st,
                kstatfs_files = Statfs_files st,
                kstatfs_ffree = Statfs_ffree st,
                kstatfs_bsize = Statfs_bsize st,
                kstatfs_namelen = Statfs_namelen st,
                kstatfs_frsize = Statfs_frsize st,
                kstatfs_padding = 0,
                kstatfs_spare = replicate 6 0 \<rparr> \<rparr>)))"

definition reply_xattr :: "'r reply_raw \<Rightarrow> u32 \<Rightarrow> 'r" where
  "reply_xattr reply_raw sz =
     reply_raw None (POD (pod_enc fuse_getxattr_out_pod
       \<lparr> getxattr_out_size = sz, getxattr_out_padding = 0 \<rparr>))"

definition reply_lock :: "'r reply_raw \<Rightarrow> FileLock \<Rightarrow> 'r" where
  "reply_lock reply_raw lk =
     reply_raw None (POD (pod_enc fuse_lk_out_pod
       \<lparr> lk_out_lk =
           \<lparr> file_lock_start = FileLock_start lk,
             file_lock_end = FileLock_end lk,
             file_lock_typ = FileLock_typ lk,
             file_lock_pid = Pid_as_raw (FileLock_pid lk) \<rparr> \<rparr>))"

definition reply_bmap :: "'r reply_raw \<Rightarrow> u64 \<Rightarrow> 'r" where
  "reply_bmap reply_raw block =
     reply_raw None (POD (pod_enc fuse_bmap_out_pod \<lparr> bmap_out_block = block \<rparr>))"

definition reply_poll :: "'r reply_raw \<Rightarrow> PollEvents \<Rightarrow> 'r" where
  "reply_poll reply_raw revents =
     reply_raw None (POD (pod_enc fuse_poll_out_pod
       \<lparr> poll_out_revents = revents, poll_out_padding = 0 \<rparr>))"

definition reply_lseek :: "'r reply_raw \<Rightarrow> u64 \<Rightarrow> 'r" where
  "reply_lseek reply_raw offset =
     reply_raw None (POD (pod_enc fuse_lseek_out_pod \<lparr> lseek_out_offset = offset \<rparr>))"

section \<open>The reader\<close>

text \<open>
  What the kernel reads from a reply: the structure is selected by the negotiated minor version,
  an argument of another length is an error.
\<close>

definition kernel_read :: "'a pod \<Rightarrow> ('a \<Rightarrow> 'b option) \<Rightarrow> bytes \<Rightarrow> 'b option" where
  "kernel_read p view bs = (if length bs = pod_size p then view (pod_dec p bs) else None)"

definition view_attr :: "fuse_attr \<Rightarrow> FileAttr option" where
  "view_attr a = map_option (\<lambda>ino.
     \<lparr> FileAttr_ino = ino, FileAttr_size = attr_size a, FileAttr_mode = FileMode_from_raw (attr_mode a),
       FileAttr_nlink = attr_nlink a, FileAttr_uid = attr_uid a, FileAttr_gid = attr_gid a,
       FileAttr_rdev = DeviceID_from_kernel_dev (attr_rdev a), FileAttr_blksize = attr_blksize a,
       FileAttr_blocks = attr_blocks a,
       FileAttr_atime = \<lparr> as_secs = attr_atime a, subsec_nanos = attr_atimensec a \<rparr>,
       FileAttr_mtime = \<lparr> as_secs = attr_mtime a, subsec_nanos = attr_mtimensec a \<rparr>,
       FileAttr_ctime = \<lparr> as_secs = attr_ctime a, subsec_nanos = attr_ctimensec a \<rparr> \<rparr>)
     (NodeID_from_raw (attr_ino a))"

text \<open>A structure of the versions up to 7.8 has no block size.\<close>

definition widen_attr :: "fuse_attr_compat_8 \<Rightarrow> fuse_attr" where
  "widen_attr a =
     \<lparr> attr_ino = attr_compat_8_ino a, attr_size = attr_compat_8_size a,
       attr_blocks = attr_compat_8_blocks a, attr_atime = attr_compat_8_atime a,
       attr_mtime = attr_compat_8_mtime a, attr_ctime = attr_compat_8_ctime a,
       attr_atimensec = attr_compat_8_atimensec a, attr_mtimensec = attr_compat_8_mtimensec a,
       attr_ctimensec = attr_compat_8_ctimensec a, attr_mode = attr_compat_8_mode a,
       attr_nlink = attr_compat_8_nlink a, attr_uid = attr_compat_8_uid a,
       attr_gid = attr_compat_8_gid a, attr_rdev = attr_compat_8_rdev a,
       attr_blksize = 0, attr_flags = 0 \<rparr>"

definition kernel_attr :: "u32 \<Rightarrow> bytes \<Rightarrow> (FileAttr \<times> duration) option" where
  "kernel_attr minor bs =
     (if minor < 9
      then kernel_read fuse_attr_out_compat_8_pod (\<lambda>out.
        map_option (\<lambda>a. (a, \<lparr> as_secs = attr_out_compat_8_attr_valid out,
                              subsec_nanos = attr_out_compat_8_attr_valid_nsec out \<rparr>))
          (view_attr (widen_attr (attr_out_compat_8_attr out)))) bs
      else kernel_read fuse_attr_out_pod (\<lambda>out.
        map_option (\<lambda>a. (a, \<lparr> as_secs = attr_out_attr_valid out,
                              subsec_nanos = attr_out_attr_valid_nsec out \<rparr>))
          (view_attr (attr_out_attr out))) bs)"

record kernel_entry_view =
  entry_node :: "NodeID option"
  entry_generation :: u64
  entry_ttl :: duration
  attr_ttl :: duration
  entry_file :: FileAttr

definition kernel_entry :: "u32 \<Rightarrow> bytes \<Rightarrow> kernel_entry_view option" where
  "kernel_entry minor bs =
     (if minor < 9
      then kernel_read fuse_entry_out_compat_8_pod (\<lambda>out.
        map_option (\<lambda>a.
          \<lparr> entry_node = NodeID_from_raw (entry_out_compat_8_nodeid out),
            entry_generation = entry_out_compat_8_generation out,
            entry_ttl = \<lparr> as_secs = entry_out_compat_8_entry_valid out,
                          subsec_nanos = entry_out_compat_8_entry_valid_nsec out \<rparr>,
            attr_ttl = \<lparr> as_secs = entry_out_compat_8_attr_valid out,
                         subsec_nanos = entry_out_compat_8_attr_valid_nsec out \<rparr>,
            entry_file = a \<rparr>)
          (view_attr (widen_attr (entry_out_compat_8_attr out)))) bs
      else kernel_read fuse_entry_out_pod (\<lambda>out.
        map_option (\<lambda>a.
          \<lparr> entry_node = NodeID_from_raw (entry_out_nodeid out),
            entry_generation = entry_out_generation out,
            entry_ttl = \<lparr> as_secs = entry_out_entry_valid out,
                          subsec_nanos = entry_out_entry_valid_nsec out \<rparr>,
            attr_ttl = \<lparr> as_secs = entry_out_attr_valid out,
                         subsec_nanos = entry_out_attr_valid_nsec out \<rparr>,
            entry_file = a \<rparr>)
          (view_attr (entry_out_attr out))) bs)"

definition kernel_statfs :: "u32 \<Rightarrow> bytes \<Rightarrow> Statfs option" where
  "kernel_statfs minor bs =
     (if minor < 4
      then kernel_read fuse_statfs_out_compat_3_pod (\<lambda>out. let st = statfs_out_compat_3_st out in
        Some \<lparr> Statfs_bsize = kstatfs_compat_3_bsize st, Statfs_frsize = 0,
               Statfs_blocks = kstatfs_compat_3_blocks st, Statfs_bfree = kstatfs_compat_3_bfree st,
               Statfs_bavail = kstatfs_compat_3_bavail st, Statfs_files = kstatfs_compat_3_files st,
               Statfs_ffree = kstatfs_compat_3_ffree st,
               Statfs_namelen = kstatfs_compat_3_namelen st \<rparr>) bs
      else kernel_read fuse_statfs_out_pod (\<lambda>out. let st = statfs_out_st out in
        Some \<lparr> Statfs_bsize = kstatfs_bsize st, Statfs_frsize = kstatfs_frsize st,
               Statfs_blocks = kstatfs_blocks st, Statfs_bfree = kstatfs_bfree st,
               Statfs_bavail = kstatfs_bavail st, Statfs_files = kstatfs_files st,
               Statfs_ffree = kstatfs_ffree st, Statfs_namelen = kstatfs_namelen st \<rparr>) bs)"

text \<open>The lock that a test for a conflicting lock found, with the identifier checked again.\<close>

definition kernel_lock :: "extern \<Rightarrow> bytes \<Rightarrow> FileLock option" where
  "kernel_lock X = kernel_read fuse_lk_out_pod (\<lambda>out. let lk = lk_out_lk out in
     map_option (\<lambda>pid.
       \<lparr> FileLock_typ = file_lock_typ lk, FileLock_start = file_lock_start lk,
         FileLock_end = file_lock_end lk, FileLock_pid = pid \<rparr>)
       (Pid_from_raw X (file_lock_pid lk)))"

section \<open>Lemmas\<close>

lemma kernel_read_enc:
  "plain_old_data p \<Longrightarrow> pod_wf p x \<Longrightarrow> kernel_read p view (pod_enc p x) = view x"
  by (simp add: kernel_read_def plain_old_data.enc_length plain_old_data.dec_enc)

lemma view_attr_to_fuse_attr: "view_attr (to_fuse_attr attr) = Some attr"
  by (simp add: view_attr_def to_fuse_attr_def)

lemma view_attr_compat_8:
  "view_attr (widen_attr (to_fuse_attr_compat_8 attr)) = Some (attr\<lparr> FileAttr_blksize := 0 \<rparr>)"
  by (simp add: view_attr_def widen_attr_def to_fuse_attr_compat_8_def)

lemma duration_eta [simp]: "\<lparr> as_secs = as_secs d, subsec_nanos = subsec_nanos d \<rparr> = d"
  by simp

lemma minor_le_8: "(minor :: u32) \<le> 8 \<longleftrightarrow> minor < 9"
  by (simp add: word_le_nat_alt word_less_nat_alt) arith

lemma minor_le_3: "(minor :: u32) \<le> 3 \<longleftrightarrow> minor < 4"
  by (simp add: word_le_nat_alt word_less_nat_alt) arith

lemmas reply_pods = kernel_read_enc fuse_attr_out_compat_8.plain_old_data_axioms
  fuse_attr_out.plain_old_data_axioms fuse_entry_out_compat_8.plain_old_data_axioms
  fuse_entry_out.plain_old_data_axioms fuse_statfs_out_compat_3.plain_old_data_axioms
  fuse_statfs_out.plain_old_data_axioms fuse_lk_out.plain_old_data_axioms
  fuse_open_out.plain_old_data_axioms pod_sizes

lemma statfs_out_wf: "pod_wf fuse_statfs_out_pod out \<longleftrightarrow> length (kstatfs_spare (statfs_out_st out)) = 6"
  by (simp add: fuse_statfs_out_pod_def fuse_kstatfs_pod_def pod_sel list_all_iff)

lemma reply_podI:
  "(\<And>reply_raw. reply reply_raw = reply_raw None (POD (pod_enc p x))) \<Longrightarrow> P (pod_enc p x) \<Longrightarrow>
   \<exists>b. (\<forall>reply_raw. reply reply_raw = reply_raw None (POD b)) \<and> P b"
  by blast

section \<open>Properties\<close>

text \<open>An attribute reply is one message without error, in the structure that the negotiated version
  asks for; the kernel reads the attributes and the timeout back from it, up to the block size,
  which the versions up to 7.8 do not carry.
\<close>

theorem reply_attr_read_back:
  "\<exists>b. (\<forall>reply_raw. reply_attr config reply_raw attr valid = reply_raw None (POD b)) \<and>
     kernel_attr (config_minor config) b =
       Some (if config_minor config < 9 then attr\<lparr> FileAttr_blksize := 0 \<rparr> else attr,
             duration_or_default valid)"
proof (cases "config_minor config < 9")
  case True
  show ?thesis
    by (rule reply_podI, (simp add: True reply_attr_def minor_le_8 Let_def; fail))
      (simp add: True kernel_attr_def reply_pods view_attr_compat_8)
next
  case False
  show ?thesis
    by (rule reply_podI, (simp add: False reply_attr_def minor_le_8 Let_def; fail))
      (simp add: False kernel_attr_def reply_pods view_attr_to_fuse_attr)
qed

text \<open>C30: An entry reply is one message without error, in the structure that the negotiated version asks
  for; the kernel reads back the node, or none for a negative entry, the generation, both timeouts
  and the attributes, up to the block size for the versions up to 7.8.
\<close>

theorem reply_entry_read_back:
  "\<exists>b. (\<forall>reply_raw. reply_entry config reply_raw ino attr generation attr_valid entry_valid =
          reply_raw None (POD b)) \<and>
     kernel_entry (config_minor config) b =
       Some \<lparr> entry_node = ino, entry_generation = generation,
              entry_ttl = duration_or_default entry_valid,
              attr_ttl = duration_or_default attr_valid,
              entry_file = (if config_minor config < 9 then attr\<lparr> FileAttr_blksize := 0 \<rparr> else attr) \<rparr>"
proof (cases "config_minor config < 9")
  case True
  show ?thesis
    by (rule reply_podI, (simp add: True reply_entry_def minor_le_8 Let_def; fail))
      (simp add: True kernel_entry_def reply_pods view_attr_compat_8 split: option.split)
next
  case False
  show ?thesis
    by (rule reply_podI, (simp add: False reply_entry_def minor_le_8 Let_def; fail))
      (simp add: False kernel_entry_def reply_pods view_attr_to_fuse_attr split: option.split)
qed

text \<open>
  A reply with file system statistics is one message without error, in the structure that the
  negotiated version asks for; the kernel reads every field back, up to the fragment size, which
  the versions up to 7.3 do not carry.
\<close>

lemma reply_statfs_read_back:
  "\<exists>b. (\<forall>reply_raw. reply_statfs config reply_raw st = reply_raw None (POD b)) \<and>
     kernel_statfs (config_minor config) b =
       Some (if config_minor config < 4 then st\<lparr> Statfs_frsize := 0 \<rparr> else st)"
proof (cases "config_minor config < 4")
  case True
  show ?thesis
    by (rule reply_podI, (simp add: True reply_statfs_def minor_le_3 Let_def; fail))
      (simp add: True kernel_statfs_def reply_pods Let_def)
next
  case False
  show ?thesis
    by (rule reply_podI, (simp add: False reply_statfs_def minor_le_3 Let_def; fail))
      (simp add: False kernel_statfs_def reply_pods statfs_out_wf Let_def)
qed

text \<open>An open reply carries the file handle and the flags as given; it names a backing file only
  when the negotiated version is at least 7.40 and passthrough was enabled, and otherwise the
  kernel reads the identifier 0.
\<close>

theorem reply_open_read_back:
  "\<exists>b. (\<forall>reply_raw. reply_open config reply_raw fh open_flags backing_id = reply_raw None (POD b)) \<and>
     kernel_read fuse_open_out_pod Some b =
       Some \<lparr> open_out_fh = FileID_into_raw fh, open_out_open_flags = open_flags,
              open_out_backing_id =
                (if 40 \<le> config_minor config \<and>
                    flags_contains (config_flags config) KernelFlags_PASSTHROUGH
                 then backing_id else 0) \<rparr>"
  by (rule reply_podI, (simp add: reply_open_def Let_def; fail)) (simp add: reply_pods)

text \<open>
  A lock reply is one message without error from which the lock is read back, the process
  included, for every process identifier that \<open>Pid::from_raw\<close> accepts.
\<close>

lemma reply_lock_read_back:
  assumes "Pid_from_raw X (Pid_as_raw (FileLock_pid lk)) = Some (FileLock_pid lk)"
  shows "\<exists>b. (\<forall>reply_raw. reply_lock reply_raw lk = reply_raw None (POD b)) \<and> kernel_lock X b = Some lk"
  by (rule reply_podI, (simp add: reply_lock_def; fail))
    (simp add: assms kernel_lock_def reply_pods Let_def)

end
