(* ===== verification/Io.thy ===== *)
theory Io
  imports Platform Abi_Const
begin

text \<open>
  Pipes and the connection with the kernel (\<open>src/io.rs\<close>, \<open>src/device.rs\<close>). The system calls are
  parameters that act on the state of the operating system; a \<open>Pipe\<close> keeps its own count of the
  bytes that are in the pipe buffer.
\<close>

section \<open>System calls\<close>

type_synonym fd = nat

text \<open>
  The system calls that the sources make through \<open>rustix\<close>, on a state of the operating system.
  \<open>os_readv\<close> is given the lengths of the buffers and returns the bytes it read; \<open>os_splice\<close> is
  given an offset in the file at the other end of the pipe and returns the amount together with
  the offset afterwards.
\<close>

record 'k os =
  os_pipe_with :: "u32 \<Rightarrow> 'k \<Rightarrow> (i32, fd \<times> fd) result \<times> 'k"
  os_close :: "fd \<Rightarrow> 'k \<Rightarrow> 'k"
  os_readv :: "fd \<Rightarrow> nat list \<Rightarrow> 'k \<Rightarrow> (i32, bytes) result \<times> 'k"
  os_writev :: "fd \<Rightarrow> bytes list \<Rightarrow> 'k \<Rightarrow> (i32, nat) result \<times> 'k"
  os_splice :: "fd \<Rightarrow> fd \<Rightarrow> u64 option \<Rightarrow> nat \<Rightarrow> u32 \<Rightarrow> 'k \<Rightarrow> (i32, nat \<times> u64 option) result \<times> 'k"
  os_open :: "string \<Rightarrow> u32 \<Rightarrow> 'k \<Rightarrow> (i32, fd) result \<times> 'k"
  os_ioctl :: "fd \<Rightarrow> u64 \<Rightarrow> fd \<Rightarrow> 'k \<Rightarrow> (i32, unit) result \<times> 'k"

definition PIPE_CLOEXEC :: u32 where [libc_const]: "PIPE_CLOEXEC = 0x80000"
definition PIPE_NONBLOCK :: u32 where [libc_const]: "PIPE_NONBLOCK = 0x800"
definition EAGAIN :: i32 where [libc_const]: "EAGAIN = 11"
definition EIO :: i32 where [libc_const]: "EIO = 5"
definition SPLICE_F_NONBLOCK :: u32 where [libc_const]: "SPLICE_F_NONBLOCK = 2"

text \<open>The conversion of an error number into an \<open>io::Error\<close>.\<close>

fun os_result :: "(i32, 'a) result \<Rightarrow> (io_error, 'a) result" where
  "os_result (Ok x) = Ok x"
| "os_result (Err e) = Err (OsError e)"
| "os_result Panic = Panic"

text \<open>Bytes that were read fill the buffers in order; what is not overwritten stays.\<close>

fun scatter :: "bytes \<Rightarrow> bytes list \<Rightarrow> bytes list" where
  "scatter bs [] = []"
| "scatter bs (b # bufs) =
     (take (length b) bs @ drop (length bs) b) # scatter (drop (length b) bs) bufs"

section \<open>Pipes\<close>

record Pipe =
  pipe_reader :: fd
  pipe_writer :: fd
  pipe_len :: nat

definition Pipe_new :: "'k os \<Rightarrow> u32 \<Rightarrow> 'k \<Rightarrow> (io_error, Pipe) result \<times> 'k" where
  "Pipe_new S flags k =
     (let (r, k) = os_pipe_with S (flags OR PIPE_CLOEXEC) k in
      (and_then (os_result r) (\<lambda>(reader, writer).
         Ok \<lparr> pipe_reader = reader, pipe_writer = writer, pipe_len = 0 \<rparr>), k))"

definition Pipe_drop :: "'k os \<Rightarrow> Pipe \<Rightarrow> 'k \<Rightarrow> 'k" where
  "Pipe_drop S self k = os_close S (pipe_writer self) (os_close S (pipe_reader self) k)"

definition Pipe_is_empty :: "Pipe \<Rightarrow> bool" where
  "Pipe_is_empty self \<longleftrightarrow> pipe_len self = 0"

text \<open>Splicing returns the amount and the offset afterwards.\<close>

definition Pipe_splice_to ::
    "'k os \<Rightarrow> Pipe \<Rightarrow> fd \<Rightarrow> u64 option \<Rightarrow> nat \<Rightarrow> u32 \<Rightarrow> 'k \<Rightarrow>
      (io_error, nat \<times> u64 option) result \<times> Pipe \<times> 'k" where
  "Pipe_splice_to S self fd offset len flags k =
     (case os_splice S (pipe_reader self) fd offset len flags k of
        (Ok (amount, offset), k) \<Rightarrow>
          (Ok (amount, offset), self\<lparr> pipe_len := pipe_len self - amount \<rparr>, k)
      | (Err e, k) \<Rightarrow> (Err (OsError e), self, k)
      | (Panic, k) \<Rightarrow> (Panic, self, k))"

definition Pipe_splice_from ::
    "'k os \<Rightarrow> Pipe \<Rightarrow> fd \<Rightarrow> u64 option \<Rightarrow> nat \<Rightarrow> u32 \<Rightarrow> 'k \<Rightarrow>
      (io_error, nat \<times> u64 option) result \<times> Pipe \<times> 'k" where
  "Pipe_splice_from S self fd offset len flags k =
     (case os_splice S fd (pipe_writer self) offset len flags k of
        (Ok (amount, offset), k) \<Rightarrow>
          (Ok (amount, offset), self\<lparr> pipe_len := pipe_len self + amount \<rparr>, k)
      | (Err e, k) \<Rightarrow> (Err (OsError e), self, k)
      | (Panic, k) \<Rightarrow> (Panic, self, k))"

text \<open>Reading returns the number of bytes together with the buffers afterwards.\<close>

definition Pipe_read_vectored ::
    "'k os \<Rightarrow> Pipe \<Rightarrow> bytes list \<Rightarrow> 'k \<Rightarrow> (io_error, nat) result \<times> bytes list \<times> Pipe \<times> 'k" where
  "Pipe_read_vectored S self bufs k =
     (case os_readv S (pipe_reader self) (map length bufs) k of
        (Ok bs, k) \<Rightarrow>
          (Ok (length bs), scatter bs bufs, self\<lparr> pipe_len := pipe_len self - length bs \<rparr>, k)
      | (Err e, k) \<Rightarrow> (Err (OsError e), bufs, self, k)
      | (Panic, k) \<Rightarrow> (Panic, bufs, self, k))"

definition Pipe_read ::
    "'k os \<Rightarrow> Pipe \<Rightarrow> bytes \<Rightarrow> 'k \<Rightarrow> (io_error, nat) result \<times> bytes \<times> Pipe \<times> 'k" where
  "Pipe_read S self buf k =
     (let (r, bufs, self, k) = Pipe_read_vectored S self [buf] k in (r, hd bufs, self, k))"

definition Pipe_write_vectored ::
    "'k os \<Rightarrow> Pipe \<Rightarrow> bytes list \<Rightarrow> 'k \<Rightarrow> (io_error, nat) result \<times> Pipe \<times> 'k" where
  "Pipe_write_vectored S self bufs k =
     (case os_writev S (pipe_writer self) bufs k of
        (Ok amount, k) \<Rightarrow> (Ok amount, self\<lparr> pipe_len := pipe_len self + amount \<rparr>, k)
      | (Err e, k) \<Rightarrow> (Err (OsError e), self, k)
      | (Panic, k) \<Rightarrow> (Panic, self, k))"

definition Pipe_write ::
    "'k os \<Rightarrow> Pipe \<Rightarrow> bytes \<Rightarrow> 'k \<Rightarrow> (io_error, nat) result \<times> Pipe \<times> 'k" where
  "Pipe_write S self buf k = Pipe_write_vectored S self [buf] k"

text \<open>Splicing between two pipes: \<open>SpliceRead\<close> and \<open>SpliceWrite\<close> for \<open>Pipe\<close>.\<close>

definition Pipe_splice_read ::
    "'k os \<Rightarrow> Pipe \<Rightarrow> Pipe \<Rightarrow> nat \<Rightarrow> u32 \<Rightarrow> 'k \<Rightarrow> (io_error, nat) result \<times> Pipe \<times> Pipe \<times> 'k" where
  "Pipe_splice_read S self dst len flags k =
     (case Pipe_splice_from S dst (pipe_reader self) None len flags k of
        (Ok (amount, _), dst, k) \<Rightarrow>
          (Ok amount, self\<lparr> pipe_len := pipe_len self - amount \<rparr>, dst, k)
      | (Err e, dst, k) \<Rightarrow> (Err e, self, dst, k)
      | (Panic, dst, k) \<Rightarrow> (Panic, self, dst, k))"

definition Pipe_splice_write ::
    "'k os \<Rightarrow> Pipe \<Rightarrow> Pipe \<Rightarrow> nat \<Rightarrow> u32 \<Rightarrow> 'k \<Rightarrow> (io_error, nat) result \<times> Pipe \<times> Pipe \<times> 'k" where
  "Pipe_splice_write S self src len flags k =
     (case Pipe_splice_to S src (pipe_writer self) None len flags k of
        (Ok (amount, _), src, k) \<Rightarrow>
          (Ok amount, self\<lparr> pipe_len := pipe_len self + amount \<rparr>, src, k)
      | (Err e, src, k) \<Rightarrow> (Err e, self, src, k)
      | (Panic, src, k) \<Rightarrow> (Panic, self, src, k))"

text \<open>
  \<open>Read::read_exact\<close> of the standard library: read until the buffer is full, again after an
  interrupted call, and fail at the end of the file. The buffer is the part that is filled and the
  part that is not. The loop has no bound when every call is interrupted.
\<close>

partial_function (option) Pipe_read_exact ::
    "'k os \<Rightarrow> Pipe \<Rightarrow> bytes \<Rightarrow> bytes \<Rightarrow> 'k \<Rightarrow> ((io_error, unit) result \<times> bytes \<times> Pipe \<times> 'k) option"
  where
  "Pipe_read_exact S self filled buf k =
     (if buf = [] then Some (Ok (), filled, self, k)
      else
        case Pipe_read S self buf k of
          (Ok n, buf, self, k) \<Rightarrow>
            if n = 0 then Some (Err (CustomError UnexpectedEofKind), filled @ buf, self, k)
            else Pipe_read_exact S self (filled @ take n buf) (drop n buf) k
        | (Err e, buf, self, k) \<Rightarrow>
            if e = OsError EINTR then Pipe_read_exact S self filled buf k
            else Some (Err e, filled @ buf, self, k)
        | (Panic, buf, self, k) \<Rightarrow> Some (Panic, filled @ buf, self, k))"

section \<open>The device\<close>

text \<open>A \<open>Device\<close> is its file descriptor; its methods are the system calls on it.\<close>

datatype Device = Device_from_fd (Device_fd: fd)

definition FUSE_DEV_NAME :: string where
  "FUSE_DEV_NAME = ''/dev/fuse''"

text \<open>
  A clone is a new description of the device that is attached to the connection by a call of
  \<open>ioctl\<close>; when that fails, the new descriptor is dropped, which closes it.
\<close>

definition Device_try_ioc_clone :: "'k os \<Rightarrow> Device \<Rightarrow> 'k \<Rightarrow> (io_error, Device) result \<times> 'k" where
  "Device_try_ioc_clone S self k =
     (case os_open S FUSE_DEV_NAME (ucast O_RDWR OR O_CLOEXEC) k of
        (Ok newfd, k) \<Rightarrow>
          (case os_ioctl S newfd FUSE_DEV_IOC_CLONE (Device_fd self) k of
             (Ok _, k) \<Rightarrow> (Ok (Device_from_fd newfd), k)
           | (Err e, k) \<Rightarrow> (Err (OsError e), os_close S newfd k)
           | (Panic, k) \<Rightarrow> (Panic, os_close S newfd k))
      | (Err e, k) \<Rightarrow> (Err (OsError e), k)
      | (Panic, k) \<Rightarrow> (Panic, k))"

definition Device_read_vectored ::
    "'k os \<Rightarrow> Device \<Rightarrow> bytes list \<Rightarrow> 'k \<Rightarrow> (io_error, nat) result \<times> bytes list \<times> 'k" where
  "Device_read_vectored S self bufs k =
     (case os_readv S (Device_fd self) (map length bufs) k of
        (Ok bs, k) \<Rightarrow> (Ok (length bs), scatter bs bufs, k)
      | (Err e, k) \<Rightarrow> (Err (OsError e), bufs, k)
      | (Panic, k) \<Rightarrow> (Panic, bufs, k))"

definition Device_write_vectored ::
    "'k os \<Rightarrow> Device \<Rightarrow> 'k \<Rightarrow> bytes list \<Rightarrow> (io_error, nat) result \<times> 'k" where
  "Device_write_vectored S self k bufs =
     (let (r, k) = os_writev S (Device_fd self) bufs k in (os_result r, k))"

definition Device_splice_read ::
    "'k os \<Rightarrow> Device \<Rightarrow> Pipe \<Rightarrow> nat \<Rightarrow> u32 \<Rightarrow> 'k \<Rightarrow> (io_error, nat) result \<times> Pipe \<times> 'k" where
  "Device_splice_read S self dst len flags k =
     (let (r, dst, k) = Pipe_splice_from S dst (Device_fd self) None len flags k in
      (and_then r (\<lambda>(amount, _). Ok amount), dst, k))"

definition Device_splice_write ::
    "'k os \<Rightarrow> Device \<Rightarrow> Pipe \<Rightarrow> nat \<Rightarrow> u32 \<Rightarrow> 'k \<Rightarrow> (io_error, nat) result \<times> Pipe \<times> 'k" where
  "Device_splice_write S self src len flags k =
     (let (r, src, k) = Pipe_splice_to S src (Device_fd self) None len flags k in
      (and_then r (\<lambda>(amount, _). Ok amount), src, k))"

section \<open>What is relied on\<close>

text \<open>
  What can be observed of the operating system: the bytes in the pipe with a given pair of ends,
  how many bytes it can hold, and the messages that wait on a connection with the kernel and that
  were written to it.
\<close>

record 'k os_view =
  v_pipe :: "'k \<Rightarrow> fd \<Rightarrow> fd \<Rightarrow> bytes option"
  v_capacity :: "'k \<Rightarrow> fd \<Rightarrow> nat"
  v_dev :: "'k \<Rightarrow> fd \<Rightarrow> bytes list"
  v_written :: "'k \<Rightarrow> fd \<Rightarrow> bytes list"

text \<open>
  The documented behaviour of the calls. A new pipe is empty and its ends are new, closing a
  descriptor does not affect other pipes, and reading a pipe that is open for
  writing and does not block takes some of the bytes that are there, in order, or fails with
  \<open>EAGAIN\<close> when there are none. A connection with the kernel hands over one whole message at a
  time, if the buffers, or the pipe, can take it and the read asks for no less than the
  minimal size that the kernel demands of a read buffer.
\<close>

definition pipe_with_ok :: "'k os \<Rightarrow> 'k os_view \<Rightarrow> bool" where
  "pipe_with_ok S V \<longleftrightarrow>
     (\<forall>flags k r w k'. os_pipe_with S flags k = (Ok (r, w), k') \<longrightarrow>
        v_pipe V k' r w = Some [] \<and> v_dev V k' = v_dev V k \<and>
        (\<forall>r' w'. v_pipe V k r' w' \<noteq> None \<longrightarrow> {r, w} \<inter> {r', w'} = {}))"

definition close_ok :: "'k os \<Rightarrow> 'k os_view \<Rightarrow> bool" where
  "close_ok S V \<longleftrightarrow>
     (\<forall>f k. v_dev V (os_close S f k) = v_dev V k \<and>
        (\<forall>r w. f \<noteq> r \<and> f \<noteq> w \<longrightarrow> v_pipe V (os_close S f k) r w = v_pipe V k r w))"

definition pipe_read_ok :: "'k os \<Rightarrow> 'k os_view \<Rightarrow> bool" where
  "pipe_read_ok S V \<longleftrightarrow>
     (\<forall>k r w q lens. v_pipe V k r w = Some q \<and> 0 < sum_list lens \<longrightarrow>
        (if q = [] then \<exists>k'. os_readv S r lens k = (Err EAGAIN, k')
         else \<exists>bs rest k'. os_readv S r lens k = (Ok bs, k') \<and> bs \<noteq> [] \<and>
           length bs \<le> sum_list lens \<and> q = bs @ rest \<and>
           v_pipe V k' r w = Some rest \<and> v_dev V k' = v_dev V k))"

definition dev_read_ok :: "'k os \<Rightarrow> 'k os_view \<Rightarrow> bool" where
  "dev_read_ok S V \<longleftrightarrow>
     (\<forall>k d m ms lens. v_dev V k d = m # ms \<and> unat FUSE_MIN_READ_BUFFER \<le> sum_list lens \<and>
          length m \<le> sum_list lens \<longrightarrow>
        (\<exists>k'. os_readv S d lens k = (Ok m, k') \<and> v_dev V k' d = ms \<and> v_written V k' = v_written V k))"

definition dev_splice_ok :: "'k os \<Rightarrow> 'k os_view \<Rightarrow> bool" where
  "dev_splice_ok S V \<longleftrightarrow>
     (\<forall>k d m ms r w len flags. v_dev V k d = m # ms \<and> unat FUSE_MIN_READ_BUFFER \<le> len \<and>
          length m \<le> len \<and> v_pipe V k r w = Some [] \<and> length m \<le> v_capacity V k r \<longrightarrow>
        (\<exists>k'. os_splice S d w None len flags k = (Ok (length m, None), k') \<and>
           v_pipe V k' r w = Some m \<and> v_dev V k' d = ms))"

text \<open>A connection that takes every message that is written to it.\<close>

definition dev_write_ok :: "'k os \<Rightarrow> 'k os_view \<Rightarrow> fd \<Rightarrow> bool" where
  "dev_write_ok S V d \<longleftrightarrow>
     (\<forall>k bufs. \<exists>k'. os_writev S d bufs k = (Ok (length (concat bufs)), k') \<and>
        v_written V k' d = v_written V k d @ [concat bufs] \<and> v_dev V k' = v_dev V k)"

definition os_ok :: "'k os \<Rightarrow> 'k os_view \<Rightarrow> bool" where
  "os_ok S V \<longleftrightarrow> pipe_with_ok S V \<and> close_ok S V \<and> pipe_read_ok S V \<and> dev_read_ok S V \<and> dev_splice_ok S V"

text \<open>A pipe that holds the given bytes, and knows how many there are.\<close>

definition pipe_holds :: "'k os_view \<Rightarrow> 'k \<Rightarrow> Pipe \<Rightarrow> bytes \<Rightarrow> bool" where
  "pipe_holds V k p q \<longleftrightarrow>
     v_pipe V k (pipe_reader p) (pipe_writer p) = Some q \<and> pipe_len p = length q"

section \<open>An operating system\<close>

text \<open>
  A system that behaves as described: pipes have an even reader and the next number as writer,
  and the number 0 is a connection with the kernel, which refuses buffers below the minimal size.
\<close>

record sim_state =
  sim_next :: nat
  sim_pipes :: "nat \<Rightarrow> bytes option"
  sim_dev :: "bytes list"
  sim_written :: "bytes list"

definition sim_readv :: "fd \<Rightarrow> nat list \<Rightarrow> sim_state \<Rightarrow> (i32, bytes) result \<times> sim_state" where
  "sim_readv f lens k =
     (if f = 0 then
        (case sim_dev k of
           [] \<Rightarrow> (Err EAGAIN, k)
         | m # ms \<Rightarrow>
             if sum_list lens < unat FUSE_MIN_READ_BUFFER then (Err EINVAL, k)
             else if length m \<le> sum_list lens then (Ok m, k\<lparr> sim_dev := ms \<rparr>)
             else (Err EIO, k))
      else
        (case sim_pipes k f of
           None \<Rightarrow> (Err EIO, k)
         | Some q \<Rightarrow>
             if q = [] then (Err EAGAIN, k)
             else (Ok (take (sum_list lens) q),
                   k\<lparr> sim_pipes := (sim_pipes k)(f \<mapsto> drop (sum_list lens) q) \<rparr>)))"

definition sim_splice ::
    "fd \<Rightarrow> fd \<Rightarrow> u64 option \<Rightarrow> nat \<Rightarrow> u32 \<Rightarrow> sim_state \<Rightarrow> (i32, nat \<times> u64 option) result \<times> sim_state"
  where
  "sim_splice f w offset len flags k =
     (if f = 0 then
        (case (sim_dev k, sim_pipes k (w - 1)) of
           (m # ms, Some q) \<Rightarrow>
             if len < unat FUSE_MIN_READ_BUFFER then (Err EINVAL, k)
             else if length m \<le> len
             then (Ok (length m, None),
                   k\<lparr> sim_dev := ms, sim_pipes := (sim_pipes k)(w - 1 \<mapsto> q @ m) \<rparr>)
             else (Err EIO, k)
         | _ \<Rightarrow> (Err EAGAIN, k))
      else (Err EINVAL, k))"

definition sim_pipe_with :: "u32 \<Rightarrow> sim_state \<Rightarrow> (i32, fd \<times> fd) result \<times> sim_state" where
  "sim_pipe_with flags k =
     (let r = sim_next k + 2 in
      if sim_pipes k (r - 1) \<noteq> None \<or> sim_pipes k r \<noteq> None \<or> sim_pipes k (r + 1) \<noteq> None
      then (Err EIO, k)
      else (Ok (r, r + 1), k\<lparr> sim_next := r, sim_pipes := (sim_pipes k)(r \<mapsto> []) \<rparr>))"

definition sim_writev :: "fd \<Rightarrow> bytes list \<Rightarrow> sim_state \<Rightarrow> (i32, nat) result \<times> sim_state" where
  "sim_writev f bufs k =
     (if f = 0
      then (Ok (length (concat bufs)), k\<lparr> sim_written := sim_written k @ [concat bufs] \<rparr>)
      else (Err EINVAL, k))"

definition sim_os :: "sim_state os" where
  "sim_os =
     \<lparr> os_pipe_with = sim_pipe_with, os_close = (\<lambda>f k. k), os_readv = sim_readv,
       os_writev = sim_writev, os_splice = sim_splice,
       os_open = (\<lambda>name flags k. (Err ENOENT, k)),
       os_ioctl = (\<lambda>f req arg k. (Err EINVAL, k)) \<rparr>"

definition sim_view :: "sim_state os_view" where
  "sim_view =
     \<lparr> v_pipe = (\<lambda>k r w. if 2 \<le> r \<and> w = r + 1 then sim_pipes k r else None),
       v_capacity = (\<lambda>k r. 2 ^ 16),
       v_dev = (\<lambda>k d. if d = 0 then sim_dev k else []),
       v_written = (\<lambda>k d. if d = 0 then sim_written k else []) \<rparr>"

section \<open>Lemmas\<close>

lemma sum_list_pos: "0 < sum_list (ns :: nat list) \<longleftrightarrow> (\<exists>n \<in> set ns. 0 < n)"
  by (induction ns) auto

lemma sim_os_ok: "os_ok sim_os sim_view"
proof -
  have "pipe_with_ok sim_os sim_view"
    by (auto simp: pipe_with_ok_def sim_os_def sim_view_def sim_pipe_with_def Let_def)
  moreover have "close_ok sim_os sim_view"
    by (simp add: close_ok_def sim_os_def)
  moreover have "pipe_read_ok sim_os sim_view"
    unfolding pipe_read_ok_def
    by (auto simp: sim_os_def sim_view_def sim_readv_def sum_list_pos fun_eq_iff split: if_splits
        intro!: append_take_drop_id [symmetric])
  moreover have "dev_read_ok sim_os sim_view"
    by (auto simp: dev_read_ok_def sim_os_def sim_view_def sim_readv_def split: if_splits)
  moreover have "dev_splice_ok sim_os sim_view"
    by (auto simp: dev_splice_ok_def sim_os_def sim_view_def sim_splice_def split: if_splits)
  ultimately show ?thesis by (simp add: os_ok_def)
qed

lemma sim_write_ok: "dev_write_ok sim_os sim_view 0"
  by (simp add: dev_write_ok_def sim_os_def sim_view_def sim_writev_def fun_eq_iff cong: if_cong)

lemma scatter_one: "length bs \<le> length b \<Longrightarrow> scatter bs [b] = [bs @ drop (length bs) b]"
  by simp

lemma scatter_two:
  "length b \<le> length bs \<Longrightarrow> length bs \<le> length b + length c \<Longrightarrow>
   scatter bs [b, c] = [take (length b) bs, drop (length b) bs @ drop (length bs - length b) c]"
  by simp

lemma length_scatter: "map length (scatter bs bufs) = map length bufs"
  by (induction bs bufs rule: scatter.induct) auto

lemma Pipe_new_holds:
  assumes "os_ok S V" and "Pipe_new S flags k = (Ok p, k')"
  shows "pipe_holds V k' p []" and "v_dev V k' = v_dev V k"
    and "v_pipe V k r w \<noteq> None \<Longrightarrow> {pipe_reader p, pipe_writer p} \<inter> {r, w} = {}"
proof -
  have "pipe_with_ok S V" using assms(1) by (simp add: os_ok_def)
  moreover obtain reader writer where
    "os_pipe_with S (flags OR PIPE_CLOEXEC) k = (Ok (reader, writer), k')"
    and "p = \<lparr> pipe_reader = reader, pipe_writer = writer, pipe_len = 0 \<rparr>"
    using assms(2) by (auto simp: Pipe_new_def result_eqs split: prod.splits elim: os_result.elims)
  ultimately show "pipe_holds V k' p []" and "v_dev V k' = v_dev V k"
    and "v_pipe V k r w \<noteq> None \<Longrightarrow> {pipe_reader p, pipe_writer p} \<inter> {r, w} = {}"
    unfolding pipe_with_ok_def pipe_holds_def by auto
qed

lemma Pipe_read_some:
  assumes "os_ok S V" and p: "pipe_holds V k p q" "q \<noteq> []" and "buf \<noteq> []"
  obtains n p' k' where "0 < n" "n \<le> length buf" "n \<le> length q"
    "Pipe_read S p buf k = (Ok n, take n q @ drop n buf, p', k')"
    "pipe_holds V k' p' (drop n q)" "v_dev V k' = v_dev V k"
proof -
  have "pipe_read_ok S V" using assms(1) by (simp add: os_ok_def)
  moreover have "v_pipe V k (pipe_reader p) (pipe_writer p) = Some q \<and> 0 < sum_list [length buf]"
    using assms by (simp add: pipe_holds_def)
  ultimately obtain bs rest k' where r: "os_readv S (pipe_reader p) [length buf] k = (Ok bs, k')"
      "bs \<noteq> []" "length bs \<le> sum_list [length buf]" "q = bs @ rest"
      "v_pipe V k' (pipe_reader p) (pipe_writer p) = Some rest" "v_dev V k' = v_dev V k"
    unfolding pipe_read_ok_def using p(2) by metis
  show ?thesis
  proof (rule that [of "length bs" "p\<lparr> pipe_len := pipe_len p - length bs \<rparr>" k'])
    show "Pipe_read S p buf k =
        (Ok (length bs), take (length bs) q @ drop (length bs) buf, p\<lparr> pipe_len := pipe_len p - length bs \<rparr>, k')"
      using r by (simp add: Pipe_read_def Pipe_read_vectored_def)
    show "pipe_holds V k' (p\<lparr> pipe_len := pipe_len p - length bs \<rparr>) (drop (length bs) q)"
      using r p(1) by (simp add: pipe_holds_def)
  qed (use r in simp_all)
qed

lemma Pipe_read_none:
  assumes "os_ok S V" and "pipe_holds V k p []" and "buf \<noteq> []"
  shows "\<exists>k'. Pipe_read S p buf k = (Err (OsError EAGAIN), buf, p, k')"
proof -
  have "pipe_read_ok S V" using assms(1) by (simp add: os_ok_def)
  moreover have "v_pipe V k (pipe_reader p) (pipe_writer p) = Some [] \<and> 0 < sum_list [length buf]"
    using assms by (simp add: pipe_holds_def)
  ultimately obtain k' where "os_readv S (pipe_reader p) [length buf] k = (Err EAGAIN, k')"
    unfolding pipe_read_ok_def by metis
  then show ?thesis by (simp add: Pipe_read_def Pipe_read_vectored_def)
qed

text \<open>A pipe that holds enough bytes fills the buffer, in finitely many reads.\<close>

lemma Pipe_read_exact_full:
  assumes "os_ok S V"
  shows "pipe_holds V k p q \<Longrightarrow> length buf \<le> length q \<Longrightarrow>
    \<exists>p' k'. Pipe_read_exact S p filled buf k = Some (Ok (), filled @ take (length buf) q, p', k') \<and>
      pipe_holds V k' p' (drop (length buf) q) \<and> v_dev V k' = v_dev V k"
proof (induction "length buf" arbitrary: k p q buf filled rule: less_induct)
  case less
  show ?case
  proof (cases "buf = []")
    case True
    then show ?thesis using less.prems by (simp add: Pipe_read_exact.simps)
  next
    case False
    with less.prems have "q \<noteq> []" by auto
    from Pipe_read_some [OF assms less.prems(1) this False] obtain n p' k' where
      n: "0 < n" "n \<le> length buf" "n \<le> length q"
      and read: "Pipe_read S p buf k = (Ok n, take n q @ drop n buf, p', k')"
      and p': "pipe_holds V k' p' (drop n q)" "v_dev V k' = v_dev V k" .
    have "length (drop n buf) < length buf" "length (drop n buf) \<le> length (drop n q)"
      using n False less.prems(2) by auto
    from less.hyps [OF this(1) p'(1) this(2)] obtain p'' k'' where
      IH: "Pipe_read_exact S p' (filled @ take n q) (drop n buf) k' =
          Some (Ok (), (filled @ take n q) @ take (length (drop n buf)) (drop n q), p'', k'')"
        "pipe_holds V k'' p'' (drop (length (drop n buf)) (drop n q))" "v_dev V k'' = v_dev V k'" by blast
    have "take n q @ take (length buf - n) (drop n q) = take (length buf) q"
      using n by (simp add: take_add [symmetric])
    with IH n p'(2) read False show ?thesis
      by (subst Pipe_read_exact.simps) (simp add: min_absorb2)
  qed
qed

text \<open>A pipe that holds too few bytes is emptied, and the read fails.\<close>

lemma Pipe_read_exact_short:
  assumes "os_ok S V"
  shows "pipe_holds V k p q \<Longrightarrow> length q < length buf \<Longrightarrow>
    \<exists>filled' p' k'. Pipe_read_exact S p filled buf k = Some (Err (OsError EAGAIN), filled', p', k')"
proof (induction "length buf" arbitrary: k p q buf filled rule: less_induct)
  case less
  then have buf: "buf \<noteq> []" by auto
  show ?case
  proof (cases "q = []")
    case True
    with Pipe_read_none [OF assms _ buf] less.prems(1) obtain k' where
      "Pipe_read S p buf k = (Err (OsError EAGAIN), buf, p, k')" by blast
    then show ?thesis using buf
      by (subst Pipe_read_exact.simps) (simp add: libc_const)
  next
    case False
    from Pipe_read_some [OF assms less.prems(1) this buf] obtain n p' k' where
      n: "0 < n" "n \<le> length buf" "n \<le> length q"
      and read: "Pipe_read S p buf k = (Ok n, take n q @ drop n buf, p', k')"
      and p': "pipe_holds V k' p' (drop n q)" .
    have "length (drop n buf) < length buf" "length (drop n q) < length (drop n buf)"
      using n buf less.prems(2) by auto
    from less.hyps [OF this(1) p' this(2)] have
      "\<exists>filled' p'' k''. Pipe_read_exact S p' (filled @ take n q) (drop n buf) k' =
        Some (Err (OsError EAGAIN), filled', p'', k'')" .
    with n read buf show ?thesis
      by (subst Pipe_read_exact.simps) (simp add: min_absorb2)
  qed
qed

section \<open>Properties\<close>

text \<open>C18: Reading exactly as many bytes as a buffer has from a pipe that holds at least as many
  terminates and fills the buffer with the first bytes of the pipe; the pipe keeps the rest and
  its count of the bytes it holds stays right.
\<close>

theorem Pipe_read_exact_terminates:
  assumes "os_ok S V" and "pipe_holds V k p q" and "length buf \<le> length q"
  shows "\<exists>p' k'. Pipe_read_exact S p [] buf k = Some (Ok (), take (length buf) q, p', k') \<and>
    pipe_holds V k' p' (drop (length buf) q)"
  using Pipe_read_exact_full [OF assms, of "[]"] by auto

theorem Pipe_read_exact_terminates_witness:
  "\<exists>p' k'. Pipe_read_exact sim_os \<lparr> pipe_reader = 2, pipe_writer = 3, pipe_len = 3 \<rparr> [] [0, 0]
      \<lparr> sim_next = 2, sim_pipes = [2 \<mapsto> [5, 6, 7]], sim_dev = [], sim_written = [] \<rparr> =
      Some (Ok (), take (length [0 :: u8, 0]) [5, 6, 7], p', k') \<and>
    pipe_holds sim_view k' p' (drop (length [0 :: u8, 0]) [5, 6, 7])"
  by (rule Pipe_read_exact_terminates [OF sim_os_ok]) (simp_all add: pipe_holds_def sim_view_def)

end
