(* ===== verification/Buf.thy ===== *)
theory Buf
  imports Header Io
begin

text \<open>
  The buffers that requests are received in (\<open>src/buf.rs\<close>): one that splices a message into a pipe
  and reads header and argument from it, and one that reads the whole message into memory. Both
  separate the argument of the operation from the data that follows it.
\<close>

section \<open>Buffers\<close>

record PipeBuf =
  pb_arg :: bytes
  pb_pipe :: Pipe
  pb_bufsize :: nat

record VecBuf =
  vb_arg :: bytes
  vb_pos :: nat

datatype BufKind = BufKind_Pipe PipeBuf | BufKind_Vec VecBuf

record RequestBuf =
  buf_header :: InHeader
  buf_kind :: BufKind

text \<open>A header of zeroes, \<open>fuse_in_header::new_zeroed\<close>.\<close>

definition zeroed_in_header :: InHeader where
  "zeroed_in_header = pod_dec fuse_in_header_pod (replicate (pod_size fuse_in_header_pod) 0)"

definition RequestBuf_new_pipe :: "'k os \<Rightarrow> nat \<Rightarrow> 'k \<Rightarrow> (io_error, RequestBuf) result \<times> 'k" where
  "RequestBuf_new_pipe S bufsize k =
     (let (r, k) = Pipe_new S PIPE_NONBLOCK k in
      (and_then r (\<lambda>pipe.
         Ok \<lparr> buf_header = zeroed_in_header,
              buf_kind = BufKind_Pipe \<lparr> pb_arg = [], pb_pipe = pipe, pb_bufsize = bufsize \<rparr> \<rparr>), k))"

text \<open>A size below that of the header makes the subtraction overflow.\<close>

definition RequestBuf_new_vec :: "nat \<Rightarrow> ('e, RequestBuf) result" where
  "RequestBuf_new_vec bufsize =
     (if bufsize < pod_size fuse_in_header_pod then Panic
      else Ok \<lparr> buf_header = zeroed_in_header,
                buf_kind = BufKind_Vec
                  \<lparr> vb_arg = replicate (bufsize - pod_size fuse_in_header_pod) 0, vb_pos = 0 \<rparr> \<rparr>)"

section \<open>Receiving\<close>

definition invalid_data :: io_error where
  "invalid_data = CustomError InvalidData"

text \<open>The trait \<open>SpliceRead\<close> of a connection: its two methods, on the state of the system.\<close>

record 'k splice_read_conn =
  conn_read_vectored :: "bytes list \<Rightarrow> 'k \<Rightarrow> (io_error, nat) result \<times> bytes list \<times> 'k"
  conn_splice_read :: "Pipe \<Rightarrow> nat \<Rightarrow> u32 \<Rightarrow> 'k \<Rightarrow> (io_error, nat) result \<times> Pipe \<times> 'k"

definition device_conn :: "'k os \<Rightarrow> Device \<Rightarrow> 'k splice_read_conn" where
  "device_conn S d =
     \<lparr> conn_read_vectored = Device_read_vectored S d, conn_splice_read = Device_splice_read S d \<rparr>"

definition PipeBuf_reset :: "'k os \<Rightarrow> PipeBuf \<Rightarrow> 'k \<Rightarrow> (io_error, unit) result \<times> PipeBuf \<times> 'k" where
  "PipeBuf_reset S self k =
     (let self = self\<lparr> pb_arg := [] \<rparr> in
      if \<not> Pipe_is_empty (pb_pipe self) then
        (case Pipe_new S PIPE_NONBLOCK k of
           (Ok new_pipe, k) \<Rightarrow> (Ok (), self\<lparr> pb_pipe := new_pipe \<rparr>, Pipe_drop S (pb_pipe self) k)
         | (Err e, k) \<Rightarrow> (Err e, self, k)
         | (Panic, k) \<Rightarrow> (Panic, self, k))
      else (Ok (), self, k))"

text \<open>The second half of receiving through a pipe, once the message is in it.\<close>

definition PipeBuf_read_message ::
    "'k os \<Rightarrow> nat \<Rightarrow> PipeBuf \<Rightarrow> InHeader \<Rightarrow> 'k \<Rightarrow>
      ((io_error, unit) result \<times> PipeBuf \<times> InHeader \<times> 'k) option" where
  "PipeBuf_read_message S len self header k =
     (if len < pod_size fuse_in_header_pod then Some (Err invalid_data, self, header, k)
      else
        case Pipe_read_exact S (pb_pipe self) [] (pod_enc fuse_in_header_pod header) k of
          None \<Rightarrow> None
        | Some (Ok _, raw, pipe, k) \<Rightarrow>
            let header = pod_dec fuse_in_header_pod raw; self = self\<lparr> pb_pipe := pipe \<rparr> in
            if len \<noteq> unat (in_header_len header) then Some (Err invalid_data, self, header, k)
            else
              (case Pipe_read_exact S (pb_pipe self) [] (replicate (InHeader_arg_len header) 0) k of
                 None \<Rightarrow> None
               | Some (r, arg, pipe, k) \<Rightarrow>
                   Some (r, self\<lparr> pb_arg := arg, pb_pipe := pipe \<rparr>, header, k))
        | Some (Err e, raw, pipe, k) \<Rightarrow>
            Some (Err e, self\<lparr> pb_pipe := pipe \<rparr>, pod_dec fuse_in_header_pod raw, k)
        | Some (Panic, raw, pipe, k) \<Rightarrow>
            Some (Panic, self\<lparr> pb_pipe := pipe \<rparr>, pod_dec fuse_in_header_pod raw, k))"

definition PipeBuf_try_receive ::
    "'k os \<Rightarrow> 'k splice_read_conn \<Rightarrow> PipeBuf \<Rightarrow> InHeader \<Rightarrow> 'k \<Rightarrow>
      ((io_error, unit) result \<times> PipeBuf \<times> InHeader \<times> 'k) option" where
  "PipeBuf_try_receive S conn self header k =
     (case PipeBuf_reset S self k of
        (Ok _, self, k) \<Rightarrow>
          (case conn_splice_read conn (pb_pipe self) (pb_bufsize self) SPLICE_F_NONBLOCK k of
             (Ok len, pipe, k) \<Rightarrow> PipeBuf_read_message S len (self\<lparr> pb_pipe := pipe \<rparr>) header k
           | (Err e, pipe, k) \<Rightarrow> Some (Err e, self\<lparr> pb_pipe := pipe \<rparr>, header, k)
           | (Panic, pipe, k) \<Rightarrow> Some (Panic, self\<lparr> pb_pipe := pipe \<rparr>, header, k))
      | (Err e, self, k) \<Rightarrow> Some (Err e, self, header, k)
      | (Panic, self, k) \<Rightarrow> Some (Panic, self, header, k))"

definition VecBuf_try_receive ::
    "'k splice_read_conn \<Rightarrow> VecBuf \<Rightarrow> InHeader \<Rightarrow> 'k \<Rightarrow>
      (io_error, unit) result \<times> VecBuf \<times> InHeader \<times> 'k" where
  "VecBuf_try_receive conn self header k =
     (let self = self\<lparr> vb_pos := 0 \<rparr>;
          (r, bufs, k) = conn_read_vectored conn [pod_enc fuse_in_header_pod header, vb_arg self] k;
          header = pod_dec fuse_in_header_pod (bufs ! 0);
          self = self\<lparr> vb_arg := bufs ! 1 \<rparr>
      in case r of
           Ok len \<Rightarrow>
             if len \<noteq> unat (in_header_len header) then (Err invalid_data, self, header, k)
             else (Ok (), self\<lparr> vb_pos := InHeader_arg_len header \<rparr>, header, k)
         | Err e \<Rightarrow> (Err e, self, header, k)
         | Panic \<Rightarrow> (Panic, self, header, k))"

definition RequestBuf_try_receive ::
    "'k os \<Rightarrow> 'k splice_read_conn \<Rightarrow> RequestBuf \<Rightarrow> 'k \<Rightarrow>
      ((io_error, InHeader) result \<times> RequestBuf \<times> 'k) option" where
  "RequestBuf_try_receive S conn self k =
     map_option (\<lambda>(r, kind, header, k).
         (and_then r (\<lambda>_. Ok header), \<lparr> buf_header = header, buf_kind = kind \<rparr>, k))
       (case buf_kind self of
          BufKind_Pipe buf \<Rightarrow>
            map_option (\<lambda>(r, buf, header, k). (r, BufKind_Pipe buf, header, k))
              (PipeBuf_try_receive S conn buf (buf_header self) k)
        | BufKind_Vec buf \<Rightarrow>
            (case VecBuf_try_receive conn buf (buf_header self) k of
               (r, buf, header, k) \<Rightarrow> Some (r, BufKind_Vec buf, header, k)))"

section \<open>The parts of a request\<close>

datatype RemainingData = RemainingData_Pipe Pipe | RemainingData_Vec bytes

text \<open>\<open>split_at\<close> panics when the position is beyond the end.\<close>

definition RequestBuf_to_parts :: "RequestBuf \<Rightarrow> ('e, InHeader \<times> bytes \<times> RemainingData) result" where
  "RequestBuf_to_parts self =
     (case buf_kind self of
        BufKind_Pipe buf \<Rightarrow> Ok (buf_header self, pb_arg buf, RemainingData_Pipe (pb_pipe buf))
      | BufKind_Vec buf \<Rightarrow>
          if length (vb_arg buf) < vb_pos buf then Panic
          else Ok (buf_header self, take (vb_pos buf) (vb_arg buf),
                   RemainingData_Vec (drop (vb_pos buf) (vb_arg buf))))"

text \<open>\<open>io::Read\<close> for the data, with that of \<open>&[u8]\<close> from the standard library.\<close>

definition RemainingData_read ::
    "'k os \<Rightarrow> RemainingData \<Rightarrow> bytes \<Rightarrow> 'k \<Rightarrow> (io_error, nat) result \<times> bytes \<times> RemainingData \<times> 'k" where
  "RemainingData_read S self buf k =
     (case self of
        RemainingData_Pipe remains \<Rightarrow>
          (case Pipe_read S remains buf k of (r, buf, remains, k) \<Rightarrow>
             (r, buf, RemainingData_Pipe remains, k))
      | RemainingData_Vec remains \<Rightarrow>
          (let amt = min (length buf) (length remains) in
           (Ok amt, take amt remains @ drop amt buf, RemainingData_Vec (drop amt remains), k)))"

section \<open>Lemmas\<close>

text \<open>A message as the kernel sends it: a header with the right length, and enough bytes for the
  argument of its operation.\<close>

definition msg_header_of :: "bytes \<Rightarrow> InHeader" where
  "msg_header_of m = pod_dec fuse_in_header_pod (take 40 m)"

definition request_wf :: "bytes \<Rightarrow> bool" where
  "request_wf m \<longleftrightarrow> 40 \<le> length m \<and> unat (in_header_len (msg_header_of m)) = length m \<and>
     40 + InHeader_arg_len (msg_header_of m) \<le> length m"

lemma length_in_header [simp]: "length (pod_enc fuse_in_header_pod h) = 40"
  by (simp add: fuse_in_header.enc_length pod_sizes)

lemma dev_read_vectored:
  assumes "os_ok S V" and "v_dev V k (Device_fd d) = m # ms" and "length m \<le> sum_list (map length bufs)"
    and "unat FUSE_MIN_READ_BUFFER \<le> sum_list (map length bufs)"
  obtains k' where "Device_read_vectored S d bufs k = (Ok (length m), scatter m bufs, k')"
    and "v_dev V k' (Device_fd d) = ms" and "v_written V k' = v_written V k"
proof -
  have "dev_read_ok S V" using assms(1) by (simp add: os_ok_def)
  with assms(2-4) obtain k' where "os_readv S (Device_fd d) (map length bufs) k = (Ok m, k')"
      "v_dev V k' (Device_fd d) = ms" "v_written V k' = v_written V k"
    unfolding dev_read_ok_def by metis
  with that show ?thesis by (simp add: Device_read_vectored_def)
qed

lemma dev_splice_read:
  assumes "os_ok S V" and "v_dev V k (Device_fd d) = m # ms" and "length m \<le> len"
    and "pipe_holds V k p []" and "length m \<le> v_capacity V k (pipe_reader p)"
    and "unat FUSE_MIN_READ_BUFFER \<le> len"
  obtains p' k' where "Device_splice_read S d p len flags k = (Ok (length m), p', k')"
    and "pipe_holds V k' p' m" and "v_dev V k' (Device_fd d) = ms"
proof -
  have "dev_splice_ok S V" using assms(1) by (simp add: os_ok_def)
  with assms(2-6) obtain k' where
      "os_splice S (Device_fd d) (pipe_writer p) None len flags k = (Ok (length m, None), k')"
      "v_pipe V k' (pipe_reader p) (pipe_writer p) = Some m" "v_dev V k' (Device_fd d) = ms"
    unfolding dev_splice_ok_def pipe_holds_def by metis
  with that [of "p\<lparr> pipe_len := pipe_len p + length m \<rparr>" k'] assms(4) show ?thesis
    by (simp add: Device_splice_read_def Pipe_splice_from_def pipe_holds_def)
qed

lemma VecBuf_receives:
  assumes "os_ok S V" and "v_dev V k (Device_fd d) = m # ms" and "request_wf m"
    and "length m \<le> 40 + length (vb_arg self)" and "8152 \<le> length (vb_arg self)"
  shows "\<exists>k'. VecBuf_try_receive (device_conn S d) self header k =
      (Ok (), \<lparr> vb_arg = drop 40 m @ drop (length m - 40) (vb_arg self),
                vb_pos = InHeader_arg_len (msg_header_of m) \<rparr>, msg_header_of m, k') \<and>
    v_dev V k' (Device_fd d) = ms \<and> v_written V k' = v_written V k"
proof -
  let ?bufs = "[pod_enc fuse_in_header_pod header, vb_arg self]"
  have "length m \<le> sum_list (map length ?bufs)" "unat FUSE_MIN_READ_BUFFER \<le> sum_list (map length ?bufs)"
    using assms(4,5) by (simp_all add: abi_const)
  from dev_read_vectored [OF assms(1,2) this] obtain k' where
    r: "Device_read_vectored S d ?bufs k = (Ok (length m), scatter m ?bufs, k')"
      "v_dev V k' (Device_fd d) = ms" "v_written V k' = v_written V k" .
  have "scatter m ?bufs = [take 40 m, drop 40 m @ drop (length m - 40) (vb_arg self)]"
    using scatter_two [of "pod_enc fuse_in_header_pod header" m "vb_arg self"] assms(3,4)
    by (simp add: request_wf_def)
  with r assms(3) show ?thesis
    by (simp add: VecBuf_try_receive_def device_conn_def request_wf_def msg_header_of_def Let_def)
qed

lemma PipeBuf_read_message_ok:
  assumes "os_ok S V" and "pipe_holds V k (pb_pipe self) m" and "request_wf m"
  shows "\<exists>p' k'. PipeBuf_read_message S (length m) self header k =
      Some (Ok (), self\<lparr> pb_arg := take (InHeader_arg_len (msg_header_of m)) (drop 40 m), pb_pipe := p' \<rparr>,
            msg_header_of m, k') \<and>
    pipe_holds V k' p' (drop (40 + InHeader_arg_len (msg_header_of m)) m) \<and> v_dev V k' = v_dev V k"
proof -
  let ?n = "InHeader_arg_len (msg_header_of m)"
  have m: "40 \<le> length m" "unat (in_header_len (msg_header_of m)) = length m" "40 + ?n \<le> length m"
    using assms(3) by (simp_all add: request_wf_def)
  from m(1) have "length (pod_enc fuse_in_header_pod header) \<le> length m" by simp
  from Pipe_read_exact_full [OF assms(1,2) this, of "[]"] obtain p1 k1 where
    r1: "Pipe_read_exact S (pb_pipe self) [] (pod_enc fuse_in_header_pod header) k =
        Some (Ok (), take 40 m, p1, k1)"
      "pipe_holds V k1 p1 (drop 40 m)" "v_dev V k1 = v_dev V k" by auto
  have "length (replicate ?n (0 :: u8)) \<le> length (drop 40 m)" using m(3) by simp
  from Pipe_read_exact_full [OF assms(1) r1(2) this, of "[]"] obtain p2 k2 where
    r2: "Pipe_read_exact S p1 [] (replicate ?n 0) k1 = Some (Ok (), take ?n (drop 40 m), p2, k2)"
      "pipe_holds V k2 p2 (drop ?n (drop 40 m))" "v_dev V k2 = v_dev V k1" by auto
  have header: "pod_dec fuse_in_header_pod (take 40 m) = msg_header_of m"
    by (simp add: msg_header_of_def)
  show ?thesis using m r1 r2
    by (intro exI [of _ p2] exI [of _ k2])
      (simp add: PipeBuf_read_message_def pod_sizes header Let_def add.commute)
qed

lemma PipeBuf_reset_ok:
  assumes "os_ok S V" and "pipe_holds V k (pb_pipe self) q" and "PipeBuf_reset S self k = (Ok (), self', k')"
  shows "pipe_holds V k' (pb_pipe self') []" and "pb_bufsize self' = pb_bufsize self"
    and "v_dev V k' = v_dev V k"
proof -
  let ?old = "pb_pipe self"
  have "pipe_holds V k' (pb_pipe self') [] \<and> pb_bufsize self' = pb_bufsize self \<and> v_dev V k' = v_dev V k"
  proof (cases "Pipe_is_empty ?old")
    case True
    then have "q = []" using assms(2) by (simp add: Pipe_is_empty_def pipe_holds_def)
    with True assms(2,3) show ?thesis by (auto simp: PipeBuf_reset_def)
  next
    case False
    with assms(3) obtain p k1 where new: "Pipe_new S PIPE_NONBLOCK k = (Ok p, k1)"
      and self': "pb_pipe self' = p" "pb_bufsize self' = pb_bufsize self" "k' = Pipe_drop S ?old k1"
      by (auto simp: PipeBuf_reset_def Let_def split: prod.splits result.splits)
    have "v_pipe V k (pipe_reader ?old) (pipe_writer ?old) \<noteq> None"
      using assms(2) by (simp add: pipe_holds_def)
    with Pipe_new_holds [OF assms(1) new] have p: "pipe_holds V k1 p []" "v_dev V k1 = v_dev V k"
      "{pipe_reader p, pipe_writer p} \<inter> {pipe_reader ?old, pipe_writer ?old} = {}" by blast+
    then have "v_pipe V k' (pipe_reader p) (pipe_writer p) = v_pipe V k1 (pipe_reader p) (pipe_writer p)"
      "v_dev V k' = v_dev V k1"
      using assms(1) by (auto simp: os_ok_def close_ok_def self' Pipe_drop_def)
    with p self' show ?thesis by (simp add: pipe_holds_def)
  qed
  then show "pipe_holds V k' (pb_pipe self') []" "pb_bufsize self' = pb_bufsize self"
    "v_dev V k' = v_dev V k" by simp_all
qed

lemma PipeBuf_receives:
  assumes "os_ok S V" and "v_dev V k (Device_fd d) = m # ms" and "request_wf m"
    and "length m \<le> pb_bufsize self" and "\<forall>k r. length m \<le> v_capacity V k r"
    and "pipe_holds V k (pb_pipe self) q" and "fst (PipeBuf_reset S self k) = Ok ()"
    and "unat FUSE_MIN_READ_BUFFER \<le> pb_bufsize self"
  shows "\<exists>self' k'. PipeBuf_try_receive S (device_conn S d) self header k =
      Some (Ok (), self', msg_header_of m, k') \<and>
    pb_arg self' = take (InHeader_arg_len (msg_header_of m)) (drop 40 m) \<and>
    pipe_holds V k' (pb_pipe self') (drop (40 + InHeader_arg_len (msg_header_of m)) m) \<and>
    v_dev V k' (Device_fd d) = ms"
proof -
  obtain self0 k0 where reset: "PipeBuf_reset S self k = (Ok (), self0, k0)"
    using assms(7) by (metis prod.collapse)
  note r0 = PipeBuf_reset_ok [OF assms(1,6) reset]
  have "v_dev V k0 (Device_fd d) = m # ms" "length m \<le> pb_bufsize self0"
    "length m \<le> v_capacity V k0 (pipe_reader (pb_pipe self0))"
    "unat FUSE_MIN_READ_BUFFER \<le> pb_bufsize self0"
    using r0 assms(2,4,5,8) by simp_all
  from dev_splice_read [OF assms(1) this(1,2) r0(1) this(3,4)] obtain p1 k1 where
    s: "Device_splice_read S d (pb_pipe self0) (pb_bufsize self0) SPLICE_F_NONBLOCK k0 = (Ok (length m), p1, k1)"
      "pipe_holds V k1 p1 m" "v_dev V k1 (Device_fd d) = ms" .
  have "pipe_holds V k1 (pb_pipe (self0\<lparr> pb_pipe := p1 \<rparr>)) m" using s(2) by simp
  from PipeBuf_read_message_ok [OF assms(1) this assms(3)] obtain p2 k2 where
    "PipeBuf_read_message S (length m) (self0\<lparr> pb_pipe := p1 \<rparr>) header k1 =
      Some (Ok (), self0\<lparr> pb_pipe := p1, pb_arg := take (InHeader_arg_len (msg_header_of m)) (drop 40 m),
        pb_pipe := p2 \<rparr>, msg_header_of m, k2)"
    "pipe_holds V k2 p2 (drop (40 + InHeader_arg_len (msg_header_of m)) m)" "v_dev V k2 = v_dev V k1"
    by blast
  with reset s show ?thesis
    by (simp add: PipeBuf_try_receive_def device_conn_def)
qed

text \<open>No read returns more bytes than it was given room for.\<close>

definition readv_bounded :: "'k os \<Rightarrow> bool" where
  "readv_bounded S \<longleftrightarrow>
     (\<forall>f lens k bs k'. os_readv S f lens k = (Ok bs, k') \<longrightarrow> length bs \<le> sum_list lens)"

lemma sim_readv_bounded: "readv_bounded sim_os"
  by (auto simp: readv_bounded_def sim_os_def sim_readv_def split: list.splits option.splits if_splits)

lemma InHeader_arg_len_le: "InHeader_arg_len h \<le> max 40 (unat (in_header_len h) - 40)"
  by (cases h rule: InHeader_opcode_cases)
    (auto simp: InHeader_arg_len_def pod_sizes split: fuse_opcode.split)

lemma VecBuf_pos_in_bounds:
  assumes "readv_bounded S" and "40 \<le> length (vb_arg self)"
    and "VecBuf_try_receive (device_conn S d) self header k = (Ok (), self', header', k')"
  shows "vb_pos self' \<le> length (vb_arg self')"
proof -
  let ?bufs = "[pod_enc fuse_in_header_pod header, vb_arg self]"
  obtain bs where bs: "os_readv S (Device_fd d) (map length ?bufs) k = (Ok bs, k')"
    "header' = pod_dec fuse_in_header_pod (scatter bs ?bufs ! 0)"
    "self' = \<lparr> vb_arg = scatter bs ?bufs ! 1, vb_pos = InHeader_arg_len header' \<rparr>"
    "length bs = unat (in_header_len header')"
    using assms(3)
    by (auto simp: VecBuf_try_receive_def device_conn_def Device_read_vectored_def Let_def
        split: prod.splits result.splits if_splits)
  have "length bs \<le> 40 + length (vb_arg self)"
    using assms(1) bs(1) unfolding readv_bounded_def by fastforce
  moreover have "length (vb_arg self') = length (vb_arg self)"
    using length_scatter [of bs ?bufs] by (simp add: bs(3))
  ultimately show ?thesis
    using InHeader_arg_len_le [of header'] bs(3,4) assms(2) by simp
qed

lemma to_parts_received:
  assumes "readv_bounded S" and "buf_kind b = BufKind_Vec vb" and "40 \<le> length (vb_arg vb)"
    and "RequestBuf_try_receive S (device_conn S d) b k = Some (Ok h, b', k')"
  shows "\<exists>arg remains. RequestBuf_to_parts b' = Ok (h, arg, RemainingData_Vec remains)"
proof -
  obtain vb' where r: "VecBuf_try_receive (device_conn S d) vb (buf_header b) k = (Ok (), vb', h, k')"
    and b': "b' = \<lparr> buf_header = h, buf_kind = BufKind_Vec vb' \<rparr>"
    using assms(2,4)
    by (auto simp: RequestBuf_try_receive_def result_eqs split: prod.splits)
  from VecBuf_pos_in_bounds [OF assms(1,3) r] show ?thesis
    by (simp add: RequestBuf_to_parts_def b')
qed

section \<open>A sample request\<close>

text \<open>A write of two bytes, and buffers of 8192 bytes that are to receive it.\<close>

definition sample_header :: InHeader where
  "sample_header =
     \<lparr> in_header_len = 82, in_header_opcode = 16, in_header_unique = 6, in_header_nodeid = 1,
       in_header_uid = 0, in_header_gid = 0, in_header_pid = 1, in_header_total_extlen = 0,
       in_header_padding = 0 \<rparr>"

definition sample_message :: bytes where
  "sample_message = pod_enc fuse_in_header_pod sample_header @ replicate 40 1 @ [7, 8]"

definition sample_state :: sim_state where
  "sample_state =
     \<lparr> sim_next = 2, sim_pipes = [2 \<mapsto> []], sim_dev = [sample_message], sim_written = [] \<rparr>"

definition sample_pipe_buf :: PipeBuf where
  "sample_pipe_buf =
     \<lparr> pb_arg = [], pb_pipe = \<lparr> pipe_reader = 2, pipe_writer = 3, pipe_len = 0 \<rparr>, pb_bufsize = 8192 \<rparr>"

definition sample_vec_buf :: VecBuf where
  "sample_vec_buf = \<lparr> vb_arg = replicate 8152 9, vb_pos = 0 \<rparr>"

lemma sample_header_of: "msg_header_of sample_message = sample_header"
  by (simp add: msg_header_of_def sample_message_def fuse_in_header.dec_enc pod_sizes)

lemma sample_arg_len: "InHeader_arg_len sample_header = 40"
proof -
  have "InHeader_opcode sample_header = Ok FUSE_WRITE"
    by (simp add: InHeader_opcode_Ok sample_header_def)
  then show ?thesis by (simp add: InHeader_arg_len_def pod_sizes)
qed

lemma length_sample: "length sample_message = 82"
  by (simp add: sample_message_def)

lemma sample_wf: "request_wf sample_message"
  by (simp add: request_wf_def sample_header_of sample_arg_len length_sample)
    (simp add: sample_header_def)

lemma sample_received:
  "\<exists>b' k'. RequestBuf_try_receive sim_os (device_conn sim_os (Device_from_fd 0))
      \<lparr> buf_header = zeroed_in_header, buf_kind = BufKind_Vec sample_vec_buf \<rparr> sample_state =
    Some (Ok sample_header, b', k')"
proof -
  have "v_dev sim_view sample_state (Device_fd (Device_from_fd 0)) = [sample_message]"
    by (simp add: sample_state_def sim_view_def)
  from VecBuf_receives [OF sim_os_ok this sample_wf, of sample_vec_buf zeroed_in_header] show ?thesis
    by (auto simp: RequestBuf_try_receive_def sample_header_of length_sample sample_vec_buf_def)
qed

section \<open>Properties\<close>

text \<open>C4: The two kinds of buffer receive the same request. From a connection on which a well-formed
  message waits that fits the buffer, both take that message and report its header; both give its
  argument; and the data that follows the argument is what the pipe holds afterwards, and the
  beginning of the remaining memory. Behind the data, the memory still has bytes of an earlier
  message, which the pipe does not have. Both buffers have the same size, no less than the kernel
  demands of a read; a pipe can hold the message, and if bytes of an earlier request are left in
  the pipe, replacing it succeeds.
\<close>

theorem receive_pipe_vec:
  assumes "os_ok S V" and "v_dev V k (Device_fd d) = m # ms" and "request_wf m" and "length m \<le> bufsize"
    and "buf_kind b = BufKind_Pipe pb" and "pb_bufsize pb = bufsize"
    and "pipe_holds V k (pb_pipe pb) q" and "fst (PipeBuf_reset S pb k) = Ok ()"
    and "\<forall>k r. length m \<le> v_capacity V k r"
    and "buf_kind b' = BufKind_Vec vb" and "40 + length (vb_arg vb) = bufsize"
    and "unat FUSE_MIN_READ_BUFFER \<le> bufsize"
  shows "\<exists>b1 k1 b2 k2 arg data p.
    RequestBuf_try_receive S (device_conn S d) b k = Some (Ok (msg_header_of m), b1, k1) \<and>
    RequestBuf_try_receive S (device_conn S d) b' k = Some (Ok (msg_header_of m), b2, k2) \<and>
    v_dev V k1 (Device_fd d) = ms \<and> v_dev V k2 (Device_fd d) = ms \<and>
    drop 40 m = arg @ data \<and>
    RequestBuf_to_parts b1 = (Ok (msg_header_of m, arg, RemainingData_Pipe p)
      :: (io_error, InHeader \<times> bytes \<times> RemainingData) result) \<and> pipe_holds V k1 p data \<and>
    RequestBuf_to_parts b2 = (Ok (msg_header_of m, arg,
        RemainingData_Vec (data @ drop (length m - 40) (vb_arg vb)))
      :: (io_error, InHeader \<times> bytes \<times> RemainingData) result)"
proof -
  let ?n = "InHeader_arg_len (msg_header_of m)"
  have m: "40 + ?n \<le> length m" using assms(3) by (simp add: request_wf_def)
  from PipeBuf_receives [OF assms(1-3) _ assms(9,7,8)] assms(4,6,12) obtain pb' k1 where
    p: "PipeBuf_try_receive S (device_conn S d) pb (buf_header b) k = Some (Ok (), pb', msg_header_of m, k1)"
      "pb_arg pb' = take ?n (drop 40 m)" "pipe_holds V k1 (pb_pipe pb') (drop (40 + ?n) m)"
      "v_dev V k1 (Device_fd d) = ms" by blast
  from VecBuf_receives [OF assms(1-3), of vb "buf_header b'"] assms(4,11,12) obtain k2 where
    v: "VecBuf_try_receive (device_conn S d) vb (buf_header b') k =
        (Ok (), \<lparr> vb_arg = drop 40 m @ drop (length m - 40) (vb_arg vb), vb_pos = ?n \<rparr>, msg_header_of m, k2)"
      "v_dev V k2 (Device_fd d) = ms" by (auto simp: abi_const)
  show ?thesis
  proof (intro exI conjI)
    show "RequestBuf_try_receive S (device_conn S d) b k =
        Some (Ok (msg_header_of m), \<lparr> buf_header = msg_header_of m, buf_kind = BufKind_Pipe pb' \<rparr>, k1)"
      by (simp add: RequestBuf_try_receive_def assms(5) p(1))
    show "RequestBuf_try_receive S (device_conn S d) b' k =
        Some (Ok (msg_header_of m), \<lparr> buf_header = msg_header_of m, buf_kind = BufKind_Vec
          \<lparr> vb_arg = drop 40 m @ drop (length m - 40) (vb_arg vb), vb_pos = ?n \<rparr> \<rparr>, k2)"
      by (simp add: RequestBuf_try_receive_def assms(10) v(1))
    show "drop 40 m = take ?n (drop 40 m) @ drop (40 + ?n) m"
      by (metis append_take_drop_id drop_drop add.commute)
  qed (use p v m in \<open>simp_all add: RequestBuf_to_parts_def add.commute\<close>)
qed

theorem receive_pipe_vec_witness:
  "\<exists>b1 k1 b2 k2 arg data p.
    RequestBuf_try_receive sim_os (device_conn sim_os (Device_from_fd 0))
        \<lparr> buf_header = zeroed_in_header, buf_kind = BufKind_Pipe sample_pipe_buf \<rparr> sample_state =
      Some (Ok sample_header, b1, k1) \<and>
    RequestBuf_try_receive sim_os (device_conn sim_os (Device_from_fd 0))
        \<lparr> buf_header = zeroed_in_header, buf_kind = BufKind_Vec sample_vec_buf \<rparr> sample_state =
      Some (Ok sample_header, b2, k2) \<and>
    v_dev sim_view k1 0 = [] \<and> v_dev sim_view k2 0 = [] \<and>
    drop 40 sample_message = arg @ data \<and>
    RequestBuf_to_parts b1 = (Ok (sample_header, arg, RemainingData_Pipe p)
      :: (io_error, InHeader \<times> bytes \<times> RemainingData) result) \<and> pipe_holds sim_view k1 p data \<and>
    RequestBuf_to_parts b2 = (Ok (sample_header, arg, RemainingData_Vec (data @ replicate 8110 9))
      :: (io_error, InHeader \<times> bytes \<times> RemainingData) result)"
  using receive_pipe_vec [where S = sim_os and V = sim_view and k = sample_state
      and d = "Device_from_fd 0" and m = sample_message and ms = "[]" and bufsize = 8192 and q = "[]"
      and b = "\<lparr> buf_header = zeroed_in_header, buf_kind = BufKind_Pipe sample_pipe_buf \<rparr>"
      and b' = "\<lparr> buf_header = zeroed_in_header, buf_kind = BufKind_Vec sample_vec_buf \<rparr>"
      and pb = sample_pipe_buf and vb = sample_vec_buf]
  by (simp add: sim_os_ok sample_wf length_sample sample_header_of)
    (simp add: sample_state_def sample_pipe_buf_def sample_vec_buf_def sim_view_def pipe_holds_def
      PipeBuf_reset_def Pipe_is_empty_def abi_const)

text \<open>When all data was read from a request that was received through a pipe, reading on fails
  with \<open>EAGAIN\<close>, since the pipe does not block and its writing end stays open; for a request
  in memory reading on reports the end of the data.
\<close>

theorem remaining_data_drained:
  assumes "os_ok S V" and "pipe_holds V k p []" and "buf \<noteq> []"
  shows "(\<exists>k'. RemainingData_read S (RemainingData_Pipe p) buf k =
       (Err (OsError EAGAIN), buf, RemainingData_Pipe p, k')) \<and>
     RemainingData_read S (RemainingData_Vec []) buf k = (Ok 0, buf, RemainingData_Vec [], k)"
  using Pipe_read_none [OF assms] by (auto simp: RemainingData_read_def)

end
