(* ===== verification/Session.thy ===== *)
theory Session
  imports Op_Wire Reply Buf Runs
begin

text \<open>
  The session (\<open>src/session.rs\<close>): receiving and decoding requests, replying to them, and sending
  notifications. The state of a session is its configuration, the flag that it has exited and the
  number of the next retrieve notification; the latter two are atomic variables that are shared by
  threads, so that operations are steps on the state that can come in any order.
\<close>

section \<open>State\<close>

record Session =
  sess_config :: KernelConfig
  sess_exited :: bool
  sess_notify_unique :: u64

definition Session_new :: "KernelConfig \<Rightarrow> Session" where
  "Session_new config = \<lparr> sess_config = config, sess_exited = False, sess_notify_unique = 0 \<rparr>"

definition Session_exit :: "Session \<Rightarrow> Session" where
  "Session_exit self = self\<lparr> sess_exited := True \<rparr>"

definition Session_request_buffer_size :: "Session \<Rightarrow> nat" where
  "Session_request_buffer_size self =
     pod_size fuse_in_header_pod + pod_size fuse_write_in_pod + unat (config_max_write (sess_config self))"

definition Session_new_request_buffer ::
    "'k os \<Rightarrow> Session \<Rightarrow> 'k \<Rightarrow> (io_error, RequestBuf) result \<times> 'k" where
  "Session_new_request_buffer S self k =
     (if flags_contains (config_flags (sess_config self)) KernelFlags_SPLICE_READ
      then RequestBuf_new_pipe S (Session_request_buffer_size self) k
      else (RequestBuf_new_vec (Session_request_buffer_size self), k))"

section \<open>Requests\<close>

text \<open>
  \<open>None\<close> stands for a read that never returns. The part of \<open>recv_request\<close> behind the test whether
  the session has exited is a definition of its own, since another thread may end the session
  between the test and the end of the read.
\<close>

definition Session_recv_entered ::
    "'k os \<Rightarrow> 'k splice_read_conn \<Rightarrow> Session \<Rightarrow> RequestBuf \<Rightarrow> 'k \<Rightarrow>
      ((io_error, bool) result \<times> Session \<times> RequestBuf \<times> 'k) option" where
  "Session_recv_entered S conn self buf k =
     (case RequestBuf_try_receive S conn buf k of
        None \<Rightarrow> None
      | Some (Err err, buf, k) \<Rightarrow>
          if errno_from_io_error err = Some ENODEV
          then Some (Ok False, Session_exit self, buf, k)
          else Some (Err err, self, buf, k)
      | Some (Panic, buf, k) \<Rightarrow> Some (Panic, self, buf, k)
      | Some (Ok header, buf, k) \<Rightarrow>
          if InHeader_opcode header = Ok FUSE_INIT then Some (Err (OsError EPROTO), self, buf, k)
          else if InHeader_opcode header = Ok FUSE_DESTROY
          then Some (Ok False, Session_exit self, buf, k)
          else Some (Ok True, self, buf, k))"

definition Session_recv_request ::
    "'k os \<Rightarrow> 'k splice_read_conn \<Rightarrow> Session \<Rightarrow> RequestBuf \<Rightarrow> 'k \<Rightarrow>
      ((io_error, bool) result \<times> Session \<times> RequestBuf \<times> 'k) option" where
  "Session_recv_request S conn self buf k =
     (if sess_exited self then Some (Ok False, self, buf, k)
      else Session_recv_entered S conn self buf k)"

text \<open>
  The parts of a request: a handle for the reply, the operation and the remaining data. The
  argument lies at the given address.
\<close>

record Request =
  req_header :: InHeader

definition Session_decode ::
    "extern \<Rightarrow> Session \<Rightarrow> RequestBuf \<Rightarrow> nat \<Rightarrow> (DecodeError, Request \<times> Operation \<times> RemainingData) result" where
  "Session_decode X self buf addr =
     and_then (RequestBuf_to_parts buf) (\<lambda>(header, arg, remains).
       and_then (decode X (sess_config self) header addr arg) (\<lambda>op.
         Ok (\<lparr> req_header = header \<rparr>, op, remains)))"

text \<open>A connection that is gone ends the session; a request that is gone is no error.\<close>

definition Session_handle_reply_error :: "Session \<Rightarrow> io_error \<Rightarrow> (io_error, unit) result \<times> Session" where
  "Session_handle_reply_error self err =
     (case errno_from_io_error err of
        Some e \<Rightarrow>
          if e = ENODEV then (Ok (), Session_exit self)
          else if e = ENOENT then (Ok (), self)
          else (Err err, self)
      | None \<Rightarrow> (Err err, self))"

text \<open>\<open>send_msg(\<dots>).or_else(|err| session.handle_reply_error(err))\<close>.\<close>

definition send_or_handle ::
    "'w write_vectored \<Rightarrow> Session \<Rightarrow> 'w \<Rightarrow> MessageKind \<Rightarrow> Bytes \<Rightarrow>
      ((io_error, unit) result \<times> Session \<times> 'w) option" where
  "send_or_handle wv self conn kind arg =
     (case send_msg wv conn kind arg of
        None \<Rightarrow> None
      | Some (Ok _, conn) \<Rightarrow> Some (Ok (), self, conn)
      | Some (Err err, conn) \<Rightarrow>
          (case Session_handle_reply_error self err of (r, self) \<Rightarrow> Some (r, self, conn))
      | Some (Panic, conn) \<Rightarrow> Some (Panic, self, conn))"

definition Request_reply_raw ::
    "'w write_vectored \<Rightarrow> Session \<Rightarrow> 'w \<Rightarrow> Request \<Rightarrow>
      ((io_error, unit) result \<times> Session \<times> 'w) option reply_raw" where
  "Request_reply_raw wv self conn req error arg =
     send_or_handle wv self conn (Reply (InHeader_unique (req_header req)) error) arg"

section \<open>Notifications\<close>

definition Notifier_send ::
    "'w write_vectored \<Rightarrow> Session \<Rightarrow> 'w \<Rightarrow> fuse_notify_code \<Rightarrow> Bytes \<Rightarrow>
      ((io_error, unit) result \<times> Session \<times> 'w) option" where
  "Notifier_send wv self conn code arg = send_or_handle wv self conn (Notify code) arg"

definition Notifier_inval_inode ::
    "'w write_vectored \<Rightarrow> Session \<Rightarrow> 'w \<Rightarrow> NodeID \<Rightarrow> i64 \<Rightarrow> i64 \<Rightarrow>
      ((io_error, unit) result \<times> Session \<times> 'w) option" where
  "Notifier_inval_inode wv self conn ino off len =
     Notifier_send wv self conn FUSE_NOTIFY_INVAL_INODE
       (POD (pod_enc fuse_notify_inval_inode_out_pod
         \<lparr> notify_inval_inode_out_ino = NodeID_into_raw ino, notify_inval_inode_out_off = off,
           notify_inval_inode_out_len = len \<rparr>))"

text \<open>The length of the name is cast to 32 bits.\<close>

definition Notifier_inval_entry ::
    "'w write_vectored \<Rightarrow> Session \<Rightarrow> 'w \<Rightarrow> NodeID \<Rightarrow> bytes \<Rightarrow>
      ((io_error, unit) result \<times> Session \<times> 'w) option" where
  "Notifier_inval_entry wv self conn parent name =
     Notifier_send wv self conn FUSE_NOTIFY_INVAL_ENTRY
       (Bytes_Tuple
         [POD (pod_enc fuse_notify_inval_entry_out_pod
            \<lparr> notify_inval_entry_out_parent = NodeID_into_raw parent,
              notify_inval_entry_out_namelen = of_nat (length name),
              notify_inval_entry_out_flags = 0 \<rparr>),
          Bytes_Pointer (Bytes_Slice_u8 name), Bytes_Pointer (Bytes_Str [0])])"

definition Notifier_delete ::
    "'w write_vectored \<Rightarrow> Session \<Rightarrow> 'w \<Rightarrow> NodeID \<Rightarrow> NodeID \<Rightarrow> bytes \<Rightarrow>
      ((io_error, unit) result \<times> Session \<times> 'w) option" where
  "Notifier_delete wv self conn parent child name =
     Notifier_send wv self conn FUSE_NOTIFY_DELETE
       (Bytes_Tuple
         [POD (pod_enc fuse_notify_delete_out_pod
            \<lparr> notify_delete_out_parent = NodeID_into_raw parent,
              notify_delete_out_child = NodeID_into_raw child,
              notify_delete_out_namelen = of_nat (length name),
              notify_delete_out_padding = 0 \<rparr>),
          Bytes_Pointer (Bytes_Slice_u8 name), Bytes_Pointer (Bytes_Array_u8 [0])])"

definition Notifier_store ::
    "'w write_vectored \<Rightarrow> Session \<Rightarrow> 'w \<Rightarrow> NodeID \<Rightarrow> u64 \<Rightarrow> Bytes \<Rightarrow>
      ((io_error, unit) result \<times> Session \<times> 'w) option" where
  "Notifier_store wv self conn ino offset content =
     (let sz = Bytes_size content in
      Notifier_send wv self conn FUSE_NOTIFY_STORE
        (Bytes_Tuple
          [POD (pod_enc fuse_notify_store_out_pod
             \<lparr> notify_store_out_nodeid = NodeID_into_raw ino, notify_store_out_offset = offset,
               notify_store_out_size = of_nat sz, notify_store_out_padding = 0 \<rparr>),
           content]))"

text \<open>\<open>fetch_add\<close> returns the old value and wraps around.\<close>

definition fetch_add_notify_unique :: "Session \<Rightarrow> NotifyID \<times> Session" where
  "fetch_add_notify_unique self =
     (NotifyID (sess_notify_unique self),
      self\<lparr> sess_notify_unique := sess_notify_unique self + 1 \<rparr>)"

definition Notifier_retrieve ::
    "'w write_vectored \<Rightarrow> Session \<Rightarrow> 'w \<Rightarrow> NodeID \<Rightarrow> u64 \<Rightarrow> u32 \<Rightarrow>
      ((io_error, NotifyID) result \<times> Session \<times> 'w) option" where
  "Notifier_retrieve wv self conn ino offset sz =
     (let (notify_unique, self) = fetch_add_notify_unique self in
      map_option (\<lambda>(r, self, conn). (and_then r (\<lambda>_. Ok notify_unique), self, conn))
        (Notifier_send wv self conn FUSE_NOTIFY_RETRIEVE
          (POD (pod_enc fuse_notify_retrieve_out_pod
            \<lparr> notify_retrieve_out_notify_unique = NotifyID_into_raw notify_unique,
              notify_retrieve_out_nodeid = NodeID_into_raw ino,
              notify_retrieve_out_offset = offset,
              notify_retrieve_out_size = sz,
              notify_retrieve_out_padding = 0 \<rparr>))))"

definition Notifier_poll_wakeup ::
    "'w write_vectored \<Rightarrow> Session \<Rightarrow> 'w \<Rightarrow> PollWakeupID \<Rightarrow>
      ((io_error, unit) result \<times> Session \<times> 'w) option" where
  "Notifier_poll_wakeup wv self conn kh =
     Notifier_send wv self conn FUSE_NOTIFY_POLL
       (POD (pod_enc fuse_notify_poll_wakeup_out_pod
         \<lparr> notify_poll_wakeup_out_kh = PollWakeupID_into_raw kh \<rparr>))"

section \<open>Runs of a session\<close>

text \<open>
  A step is one operation of some thread; a retrieve notification that is sent hands out a number.
  The number is taken in one atomic step before the message is sent, so two threads never
  interleave within it. Receiving a request is a step at the moment where it returns, whether the
  session has been ended meanwhile or not.
\<close>

datatype session_event =
  Handled | Received "(io_error, bool) result" | Retrieved NotifyID | Retrieve_failed NotifyID

inductive session_step ::
    "'k os \<Rightarrow> 'k splice_read_conn \<Rightarrow> 'w write_vectored \<Rightarrow> Session \<Rightarrow> session_event \<Rightarrow> Session \<Rightarrow> bool"
  for S conn wv where
  step_recv: "Session_recv_entered S conn s buf k = Some (r, s', buf', k') \<Longrightarrow>
     session_step S conn wv s (Received r) s'"
| step_reply: "Request_reply_raw wv s w req error arg = Some (r, s', w') \<Longrightarrow>
     session_step S conn wv s Handled s'"
| step_notify: "Notifier_send wv s w code arg = Some (r, s', w') \<Longrightarrow>
     session_step S conn wv s Handled s'"
| step_retrieve: "Notifier_retrieve wv s w ino offset sz = Some (Ok uid, s', w') \<Longrightarrow>
     session_step S conn wv s (Retrieved uid) s'"
| step_retrieve_failed: "Notifier_retrieve wv s w ino offset sz = Some (r, s', w') \<Longrightarrow>
     \<forall>uid. r \<noteq> Ok uid \<Longrightarrow>
     session_step S conn wv s (Retrieve_failed (fst (fetch_add_notify_unique s))) s'"
| step_exit: "session_step S conn wv s Handled (Session_exit s)"

fun event_ids :: "session_event \<Rightarrow> NotifyID list" where
  "event_ids Handled = []"
| "event_ids (Received r) = []"
| "event_ids (Retrieved uid) = [uid]"
| "event_ids (Retrieve_failed uid) = [uid]"

text \<open>The numbers handed out from a given value of the counter.\<close>

definition ids_from :: "u64 \<Rightarrow> nat \<Rightarrow> NotifyID list" where
  "ids_from u n = map (\<lambda>i. NotifyID (u + of_nat i)) [0..<n]"

inductive_cases session_stepE: "session_step S conn wv s e s'"

text \<open>
  The threads that receive requests, by number. The state has, beside the session, the threads
  that are inside of \<open>recv_request\<close>: they have found the session running, and wait for a request. A
  thread that finds that the session has exited is turned away.
\<close>

datatype thread_event =
  Enters nat | Refused nat | Returns nat "(io_error, bool) result" | Other session_event

inductive thread_step ::
    "'k os \<Rightarrow> 'k splice_read_conn \<Rightarrow> 'w write_vectored \<Rightarrow>
      Session \<times> nat set \<Rightarrow> thread_event \<Rightarrow> Session \<times> nat set \<Rightarrow> bool"
  for S conn wv where
  thread_enters: "\<not> sess_exited s \<Longrightarrow> t \<notin> inside \<Longrightarrow>
     thread_step S conn wv (s, inside) (Enters t) (s, insert t inside)"
| thread_refused: "sess_exited s \<Longrightarrow> t \<notin> inside \<Longrightarrow>
     thread_step S conn wv (s, inside) (Refused t) (s, inside)"
| thread_returns: "t \<in> inside \<Longrightarrow> session_step S conn wv s (Received r) s' \<Longrightarrow>
     thread_step S conn wv (s, inside) (Returns t r) (s', inside - {t})"
| thread_other: "session_step S conn wv s e s' \<Longrightarrow> \<forall>r. e \<noteq> Received r \<Longrightarrow>
     thread_step S conn wv (s, inside) (Other e) (s', inside)"

inductive_cases thread_stepE: "thread_step S conn wv (s, inside) e (s', inside')"

fun thread_entered :: "thread_event \<Rightarrow> nat list" where
  "thread_entered (Enters t) = [t]"
| "thread_entered _ = []"

fun thread_returned :: "thread_event \<Rightarrow> nat list" where
  "thread_returned (Returns t r) = [t]"
| "thread_returned _ = []"

section \<open>The contract of the operations\<close>

text \<open>
  What all operations have in common: the configuration is fixed, a session that has exited stays
  so, and numbers are handed out in order.
\<close>

locale session_machine =
  fixes step :: "Session \<Rightarrow> 'e \<Rightarrow> Session \<Rightarrow> bool" and ids :: "'e \<Rightarrow> NotifyID list"
  assumes step_config: "step s e s' \<Longrightarrow> sess_config s' = sess_config s"
    and step_exited: "step s e s' \<Longrightarrow> sess_exited s \<Longrightarrow> sess_exited s'"
    and step_ids: "step s e s' \<Longrightarrow> ids e = ids_from (sess_notify_unique s) (length (ids e))"
    and step_unique: "step s e s' \<Longrightarrow>
      sess_notify_unique s' = sess_notify_unique s + of_nat (length (ids e))"
begin

lemma run_config: "run_of step s es s' \<Longrightarrow> sess_config s' = sess_config s"
  by (induction rule: run_of.induct) (auto dest: step_config)

lemma run_exited: "run_of step s es s' \<Longrightarrow> sess_exited s \<Longrightarrow> sess_exited s'"
  by (induction rule: run_of.induct) (auto dest: step_exited)

lemma run_ids:
  "run_of step s es s' \<Longrightarrow>
    sess_notify_unique s' = sess_notify_unique s + of_nat (length (concat (map ids es))) \<and>
    concat (map ids es) = ids_from (sess_notify_unique s) (length (concat (map ids es)))"
proof (induction rule: run_of.induct)
  case (run_Nil s)
  show ?case by (simp add: ids_from_def)
next
  case (run_step s es s' e s'')
  let ?n = "length (concat (map ids es))" and ?u = "sess_notify_unique s"
  have "ids e = ids_from (?u + of_nat ?n) (length (ids e))"
    using step_ids [OF run_step.hyps(2)] run_step.IH by simp
  moreover have "ids_from ?u (?n + m) = ids_from ?u ?n @ ids_from (?u + of_nat ?n) m" for m
    by (rule nth_equalityI) (auto simp: ids_from_def nth_append)
  ultimately show ?case
    using run_step.IH step_unique [OF run_step.hyps(2)] by (simp add: add.assoc)
qed

end

section \<open>Lemmas\<close>

lemma distinct_ids_from: "n \<le> 2 ^ 64 \<Longrightarrow> distinct (ids_from u n)"
proof -
  assume n: "n \<le> 2 ^ 64"
  have "inj_on (\<lambda>i. NotifyID (u + of_nat i)) {0..<n}"
  proof (rule inj_onI)
    fix i j assume ij: "i \<in> {0..<n}" "j \<in> {0..<n}" "NotifyID (u + of_nat i) = NotifyID (u + of_nat j)"
    then have "(of_nat i :: u64) = of_nat j" by simp
    moreover have "unat (of_nat m :: u64) = m" if "m < n" for m
      using that n by (simp add: unsigned_of_nat take_bit_nat_eq_self)
    ultimately show "i = j" using ij(1,2) by (metis atLeastLessThan_iff)
  qed
  then show ?thesis by (simp add: ids_from_def distinct_map)
qed

lemma Session_exit_simps [simp]:
  "sess_config (Session_exit s) = sess_config s" "sess_exited (Session_exit s)"
  "sess_notify_unique (Session_exit s) = sess_notify_unique s"
  by (simp_all add: Session_exit_def)

lemma handle_reply_error_cases:
  "Session_handle_reply_error s err = (r, s') \<Longrightarrow> s' = s \<or> s' = Session_exit s"
  by (auto simp: Session_handle_reply_error_def split: option.splits if_splits)

lemma send_or_handle_cases:
  "send_or_handle wv s conn kind arg = Some (r, s', conn') \<Longrightarrow> s' = s \<or> s' = Session_exit s"
  by (auto simp: send_or_handle_def split: option.splits prod.splits result.splits
      dest: handle_reply_error_cases)

lemma recv_entered_cases:
  "Session_recv_entered S conn s buf k = Some (r, s', buf', k') \<Longrightarrow> s' = s \<or> s' = Session_exit s"
  by (auto simp: Session_recv_entered_def split: option.splits prod.splits result.splits if_splits)

lemma retrieve_cases:
  assumes "Notifier_retrieve wv s conn ino offset sz = Some (r, s', conn')"
  shows "(s' = s\<lparr> sess_notify_unique := sess_notify_unique s + 1 \<rparr> \<or>
      s' = Session_exit (s\<lparr> sess_notify_unique := sess_notify_unique s + 1 \<rparr>)) \<and>
    (\<forall>uid. r = Ok uid \<longrightarrow> uid = NotifyID (sess_notify_unique s))"
  using assms
  by (auto simp: Notifier_retrieve_def fetch_add_notify_unique_def Notifier_send_def result_eqs
      dest!: send_or_handle_cases)

lemma session_step_shape:
  assumes "session_step S conn wv s e s'"
  shows "(s' = s\<lparr> sess_notify_unique := sess_notify_unique s + of_nat (length (event_ids e)) \<rparr> \<or>
      s' = Session_exit (s\<lparr> sess_notify_unique := sess_notify_unique s + of_nat (length (event_ids e)) \<rparr>)) \<and>
    event_ids e = ids_from (sess_notify_unique s) (length (event_ids e))"
  using assms
  by (cases rule: session_step.cases)
    (auto simp: ids_from_def Request_reply_raw_def Notifier_send_def fetch_add_notify_unique_def
      dest: recv_entered_cases send_or_handle_cases retrieve_cases)

interpretation session: session_machine "session_step S conn wv" event_ids for S conn wv
proof
  fix s s' :: Session and e
  assume "session_step S conn wv s e s'"
  note shape = session_step_shape [OF this]
  from shape show "sess_config s' = sess_config s" by auto
  from shape show "sess_exited s \<Longrightarrow> sess_exited s'" by auto
  from shape show "event_ids e = ids_from (sess_notify_unique s) (length (event_ids e))" by blast
  from shape show "sess_notify_unique s' = sess_notify_unique s + of_nat (length (event_ids e))" by auto
qed

lemma recv_request_True:
  assumes "Session_recv_request S conn s buf k = Some (Ok True, s', buf', k')"
  obtains header where "RequestBuf_try_receive S conn buf k = Some (Ok header, buf', k')"
    and "InHeader_opcode header \<noteq> Ok FUSE_INIT" and "InHeader_opcode header \<noteq> Ok FUSE_DESTROY"
    and "s' = s" and "\<not> sess_exited s"
  using assms
  by (auto simp: Session_recv_request_def Session_recv_entered_def
      split: option.splits prod.splits result.splits if_splits)

text \<open>
  Once the session has exited, threads only leave: those that return are threads that were inside,
  each of them once.
\<close>

lemma thread_step_session:
  assumes "thread_step S conn wv (s, inside) e (s', inside')"
  shows "sess_config s' = sess_config s" and "sess_exited s \<Longrightarrow> sess_exited s'"
    and "finite inside \<Longrightarrow> finite inside'"
  using assms
  by (auto elim!: thread_stepE dest: session.step_config session.step_exited)

lemma thread_step_exited:
  assumes "thread_step S conn wv (s, inside) e (s', inside')" and "sess_exited s"
  shows "thread_entered e = []" and "distinct (thread_returned e)" and "inside = set (thread_returned e) \<union> inside'"
    and "set (thread_returned e) \<inter> inside' = {}"
  using assms by (auto elim!: thread_stepE)

lemma thread_run_session:
  assumes "run_of (thread_step S conn wv) p es q"
  shows "sess_config (fst q) = sess_config (fst p)" and "sess_exited (fst p) \<Longrightarrow> sess_exited (fst q)"
    and "finite (snd p) \<Longrightarrow> finite (snd q)"
  using assms
  by (induction rule: run_of.induct; force dest: thread_step_session simp: split_paired_all)+

lemma thread_run_exited:
  assumes "run_of (thread_step S conn wv) p es q" and "sess_exited (fst p)"
  shows "concat (map thread_entered es) = [] \<and> distinct (concat (map thread_returned es)) \<and>
    snd p = set (concat (map thread_returned es)) \<union> snd q \<and>
    set (concat (map thread_returned es)) \<inter> snd q = {}"
  using assms
proof (induction rule: run_of.induct)
  case (run_step p es q e r)
  obtain s inside s' inside' where qr: "q = (s, inside)" "r = (s', inside')" by force
  have "sess_exited s" using thread_run_session(2) [OF run_step.hyps(1) run_step.prems] qr by simp
  note step = thread_step_exited [OF run_step.hyps(2) [unfolded qr] this]
  show ?case using run_step.IH [OF run_step.prems] step by (auto simp: qr)
qed simp

lemma buf_header_received:
  "RequestBuf_try_receive S conn buf k = Some (Ok header, buf', k') \<Longrightarrow> buf_header buf' = header"
  by (auto simp: RequestBuf_try_receive_def result_eqs split: BufKind.splits prod.splits)

lemma to_parts_header: "RequestBuf_to_parts buf = Ok (header, arg, remains) \<Longrightarrow> header = buf_header buf"
  by (auto simp: RequestBuf_to_parts_def split: BufKind.splits if_splits)

text \<open>A request that was received splits into its parts, in either kind of buffer.\<close>

lemma parts_received:
  assumes "readv_bounded S" and "\<forall>vb. buf_kind b = BufKind_Vec vb \<longrightarrow> 40 \<le> length (vb_arg vb)"
    and "RequestBuf_try_receive S (device_conn S d) b k = Some (Ok h, b', k')"
  shows "\<exists>arg remains. RequestBuf_to_parts b' = Ok (h, arg, remains)"
proof (cases "buf_kind b")
  case (BufKind_Pipe pb)
  with assms(3) show ?thesis
    by (auto simp: RequestBuf_try_receive_def RequestBuf_to_parts_def result_eqs)
next
  case (BufKind_Vec vb)
  with to_parts_received [OF assms(1) this _ assms(3)] assms(2) show ?thesis by blast
qed

text \<open>The bytes that a notification puts on the wire.\<close>

lemma Notifier_send_Vec:
  "16 + Bytes_size arg < 2 ^ 32 \<Longrightarrow>
   Notifier_send Vec_write_vectored s w code arg =
     Some (Ok (), s, w @ msg_bytes (Notify code) (Bytes_content arg))"
  by (simp add: Notifier_send_def send_or_handle_def send_msg_Vec)

section \<open>Properties\<close>

text \<open>C15: The end of a session that is served by any number of threads, in any order of their steps. Its
  configuration stays what was negotiated. Once it has exited, it stays so, and a call of
  \<open>recv_request\<close> that begins afterwards is refused without reading from the connection, so that no
  thread enters it any more. The threads that are inside of \<open>recv_request\<close> at that moment may still
  come back, with a request or with an error, each at most once; so no more requests are received
  than there are such threads.
\<close>

theorem session_run_invariant:
  assumes "run_of (thread_step S conn wv) (Session_new config, {}) es (s, inside)"
  shows "sess_config s = config \<and> finite inside \<and>
    (\<forall>es' s' inside'. sess_exited s \<and> run_of (thread_step S conn wv) (s, inside) es' (s', inside') \<longrightarrow>
      sess_exited s' \<and> concat (map thread_entered es') = [] \<and>
      distinct (concat (map thread_returned es')) \<and>
      set (concat (map thread_returned es')) = inside - inside' \<and>
      length (concat (map thread_returned es')) \<le> card inside \<and>
      Session_recv_request S conn s' buf k = Some (Ok False, s', buf, k))"
proof -
  have "sess_config s = config" and fin: "finite inside"
    using thread_run_session [OF assms] by (simp_all add: Session_new_def)
  moreover have "sess_exited s' \<and> concat (map thread_entered es') = [] \<and>
      distinct (concat (map thread_returned es')) \<and>
      set (concat (map thread_returned es')) = inside - inside' \<and>
      length (concat (map thread_returned es')) \<le> card inside \<and>
      Session_recv_request S conn s' buf k = Some (Ok False, s', buf, k)"
    if "sess_exited s" and run: "run_of (thread_step S conn wv) (s, inside) es' (s', inside')"
    for es' s' inside'
  proof -
    have exited: "sess_exited s'" using thread_run_session(2) [OF run] that(1) by simp
    from thread_run_exited [OF run] that(1) have r: "concat (map thread_entered es') = []"
      "distinct (concat (map thread_returned es'))" "inside = set (concat (map thread_returned es')) \<union> inside'"
      "set (concat (map thread_returned es')) \<inter> inside' = {}" by simp_all
    have "length (concat (map thread_returned es')) = card (set (concat (map thread_returned es')))"
      using distinct_card [OF r(2)] by simp
    also have "\<dots> \<le> card inside" using card_mono [OF fin] r(3) by blast
    finally show ?thesis using exited r by (auto simp: Session_recv_request_def)
  qed
  ultimately show ?thesis by blast
qed

text \<open>A thread that waits for a request while another one ends the session still gets it.\<close>

theorem session_run_invariant_witness:
  "\<exists>es' s'. run_of (thread_step sim_os (device_conn sim_os (Device_from_fd 0)) Vec_write_vectored)
      (Session_exit (Session_new KernelConfig_new), {7}) es' (s', {}) \<and>
    es' = [Returns 7 (Ok True)] \<and> sess_exited s' \<and> length (concat (map thread_returned es')) \<le> card {7 :: nat} \<and>
    Session_recv_request sim_os (device_conn sim_os (Device_from_fd 0)) s'
        \<lparr> buf_header = zeroed_in_header, buf_kind = BufKind_Vec sample_vec_buf \<rparr> sample_state =
      Some (Ok False, s', \<lparr> buf_header = zeroed_in_header, buf_kind = BufKind_Vec sample_vec_buf \<rparr>, sample_state)"
proof -
  let ?step = "thread_step sim_os (device_conn sim_os (Device_from_fd 0)) Vec_write_vectored"
  let ?b = "\<lparr> buf_header = zeroed_in_header, buf_kind = BufKind_Vec sample_vec_buf \<rparr>"
  let ?s = "Session_exit (Session_new KernelConfig_new)"
  have "run_of ?step (Session_new KernelConfig_new, {}) ([] @ [Enters 7]) (Session_new KernelConfig_new, {7})"
    by (rule run_step, rule run_Nil, rule thread_enters) (simp_all add: Session_new_def)
  then have 1: "run_of ?step (Session_new KernelConfig_new, {}) (([] @ [Enters 7]) @ [Other Handled]) (?s, {7})"
    by (rule run_step) (intro thread_other step_exit; simp)
  have op: "InHeader_opcode sample_header = Ok FUSE_WRITE"
    by (simp add: InHeader_opcode_Ok sample_header_def)
  from sample_received obtain b' k' where
    "RequestBuf_try_receive sim_os (device_conn sim_os (Device_from_fd 0)) ?b sample_state =
      Some (Ok sample_header, b', k')" by blast
  then have "Session_recv_entered sim_os (device_conn sim_os (Device_from_fd 0)) ?s ?b sample_state =
      Some (Ok True, ?s, b', k')"
    by (simp add: Session_recv_entered_def op)
  then have "?step (?s, {7}) (Returns 7 (Ok True)) (?s, {7} - {7})"
    by (intro thread_returns step_recv) simp_all
  then have 2: "run_of ?step (?s, {7}) ([] @ [Returns 7 (Ok True)]) (?s, {})"
    using run_step [OF run_Nil, where step = ?step] by simp
  have "sess_exited ?s" by simp
  with 2 session_run_invariant [OF 1, of ?b sample_state] show ?thesis by auto
qed

text \<open>C31: The numbers of retrieve notifications are handed out in order from 0 and are distinct as long
  as there are at most \<open>2^64\<close> of them, so that a reply can be told from every other.
\<close>

theorem notify_ids_distinct:
  assumes "run_of (session_step S conn wv) (Session_new config) es s"
    and "length (concat (map event_ids es)) \<le> 2 ^ 64"
  shows "distinct (concat (map event_ids es)) \<and>
    concat (map event_ids es) = map (\<lambda>i. NotifyID (of_nat i)) [0..<length (concat (map event_ids es))]"
proof -
  let ?ids = "concat (map event_ids es)"
  have "?ids = ids_from 0 (length ?ids)"
    using session.run_ids [OF assms(1)] by (simp add: Session_new_def)
  with distinct_ids_from [OF assms(2), of 0] show ?thesis
    by (simp add: ids_from_def)
qed

theorem notify_ids_distinct_witness:
  "distinct [NotifyID 0, NotifyID 1] \<and>
   [NotifyID 0, NotifyID 1] = map (\<lambda>i. NotifyID (of_nat i)) [0..<length [NotifyID 0, NotifyID 1]]"
proof -
  let ?step = "session_step sim_os (device_conn sim_os (Device_from_fd 0)) Vec_write_vectored"
  let ?s = "Session_new KernelConfig_new"
  have step: "?step s (Retrieved (NotifyID (sess_notify_unique s)))
      (s\<lparr> sess_notify_unique := sess_notify_unique s + 1 \<rparr>)" for s
    by (rule step_retrieve [where w = "[]" and ino = NodeID_ROOT and offset = 0 and sz = 1])
      (simp add: Notifier_retrieve_def fetch_add_notify_unique_def Notifier_send_Vec
        fuse_notify_retrieve_out.enc_length pod_sizes)
  have "run_of ?step ?s ([] @ [Retrieved (NotifyID 0)]) (?s\<lparr> sess_notify_unique := 1 \<rparr>)"
    by (rule run_step, rule run_Nil) (use step [of ?s] in \<open>simp add: Session_new_def\<close>)
  then have "run_of ?step ?s (([] @ [Retrieved (NotifyID 0)]) @ [Retrieved (NotifyID 1)])
      (?s\<lparr> sess_notify_unique := 2 \<rparr>)"
    by (rule run_step)
      (use step [of "?s\<lparr> sess_notify_unique := 1 \<rparr>"] in \<open>simp add: Session_new_def\<close>)
  from notify_ids_distinct [OF this] show ?thesis by simp
qed

text \<open>C19: A request that \<open>recv_request\<close> announces is decoded without a panic: the operations that
  decoding takes to be impossible do not get there, and the buffer can be split. The exception
  is a \<open>FUSE_SETATTR\<close> request, whose times a duration may not be able to represent.
\<close>

theorem recv_decode_no_panic:
  assumes "zerocopy_ok X" and "readv_bounded S"
    and "\<forall>vb. buf_kind buf = BufKind_Vec vb \<longrightarrow> 40 \<le> length (vb_arg vb)"
    and "Session_recv_request S (device_conn S d) s buf k = Some (Ok True, s', buf', k')"
    and "InHeader_opcode (buf_header buf') \<noteq> Ok FUSE_SETATTR"
  shows "Session_decode X s' buf' addr \<noteq> Panic"
proof -
  from assms(4) obtain header where
    h: "RequestBuf_try_receive S (device_conn S d) buf k = Some (Ok header, buf', k')"
      "InHeader_opcode header \<noteq> Ok FUSE_INIT" "InHeader_opcode header \<noteq> Ok FUSE_DESTROY"
    by (rule recv_request_True)
  note header = buf_header_received [OF h(1)]
  from parts_received [OF assms(2,3) h(1)] obtain arg remains where
    parts: "RequestBuf_to_parts buf' =
      (Ok (header, arg, remains) :: (DecodeError, InHeader \<times> bytes \<times> RemainingData) result)" by blast
  have "decode X (sess_config s') header addr arg \<noteq> Panic"
    using h(2,3) assms(5) header decode_opcode_Panic [OF assms(1)]
    by (cases "InHeader_opcode header") (auto simp: decode_def)
  with parts show ?thesis by (auto simp: Session_decode_def result_eqs)
qed

theorem recv_decode_no_panic_witness:
  "\<exists>s' buf' k'. Session_recv_request sim_os (device_conn sim_os (Device_from_fd 0))
        (Session_new KernelConfig_new)
        \<lparr> buf_header = zeroed_in_header, buf_kind = BufKind_Vec sample_vec_buf \<rparr> sample_state =
      Some (Ok True, s', buf', k') \<and>
    Session_decode linux_extern s' buf' 64 \<noteq> Panic"
proof -
  let ?b = "\<lparr> buf_header = zeroed_in_header, buf_kind = BufKind_Vec sample_vec_buf \<rparr>"
  have op: "InHeader_opcode sample_header = Ok FUSE_WRITE"
    by (simp add: InHeader_opcode_Ok sample_header_def)
  from sample_received obtain b' k' where
    r: "RequestBuf_try_receive sim_os (device_conn sim_os (Device_from_fd 0)) ?b sample_state =
      Some (Ok sample_header, b', k')" by blast
  then have recv: "Session_recv_request sim_os (device_conn sim_os (Device_from_fd 0))
      (Session_new KernelConfig_new) ?b sample_state = Some (Ok True, Session_new KernelConfig_new, b', k')"
    by (simp add: Session_recv_request_def Session_recv_entered_def Session_new_def op)
  have "Session_decode linux_extern (Session_new KernelConfig_new) b' 64 \<noteq> Panic"
    by (rule recv_decode_no_panic [OF _ sim_readv_bounded _ recv])
      (simp_all add: sample_vec_buf_def buf_header_received [OF r] op)
  with recv show ?thesis by blast
qed

text \<open>C32: How the session takes the outcome of a reply: a connection that is gone ends the session
  without an error, a request that is gone is ignored, every other error of the connection and
  every short write is passed on, and success leaves the session as it is.
\<close>

theorem reply_raw_outcomes:
  assumes "16 + Bytes_size arg < 2 ^ 32"
  shows "Request_reply_raw (\<lambda>w bufs. (Ok n, w)) s w req error arg =
      Some (if n < 16 + Bytes_size arg then Err (CustomError KindOther) else Ok (), s, w) \<and>
    Request_reply_raw (\<lambda>w bufs. (Err (OsError e), w)) s w req error arg =
      Some (if e = ENODEV then (Ok (), Session_exit s, w)
        else if e = ENOENT then (Ok (), s, w) else (Err (OsError e), s, w))"
  using assms
  by (simp add: Request_reply_raw_def send_or_handle_def send_msg_eq Session_handle_reply_error_def)

theorem reply_raw_outcomes_witness:
  "Request_reply_raw (\<lambda>w bufs. (Ok 16, w)) (Session_new KernelConfig_new) ()
       \<lparr> req_header = sample_header \<rparr> (Some EINVAL) Bytes_Unit =
      Some (if (16 :: nat) < 16 + Bytes_size Bytes_Unit then Err (CustomError KindOther) else Ok (),
        Session_new KernelConfig_new, ()) \<and>
    Request_reply_raw (\<lambda>w bufs. (Err (OsError ENODEV), w)) (Session_new KernelConfig_new) ()
       \<lparr> req_header = sample_header \<rparr> (Some EINVAL) Bytes_Unit =
      Some (if ENODEV = ENODEV then (Ok (), Session_exit (Session_new KernelConfig_new), ())
        else if ENODEV = ENOENT then (Ok (), Session_new KernelConfig_new, ())
        else (Err (OsError ENODEV), Session_new KernelConfig_new, ()))"
  by (rule reply_raw_outcomes) simp

text \<open>A store notification that is small enough to be sent is a message that the driver accepts as
  such, and its argument names the node, the offset and the exact number of bytes, which follow
  it: the cast of the size to 32 bits never loses anything.
\<close>

theorem notify_store_read_back:
  assumes "40 + Bytes_size content < 2 ^ 32"
  shows "\<exists>m h out. Notifier_store Vec_write_vectored s w ino offset content = Some (Ok (), s, w @ m) \<and>
    parse_msg m = Some (h, pod_enc fuse_notify_store_out_pod out @ Bytes_content content) \<and>
    msg_kind h = Some (Notify FUSE_NOTIFY_STORE) \<and>
    notify_store_out_nodeid out = NodeID_into_raw ino \<and> notify_store_out_offset out = offset \<and>
    unat (notify_store_out_size out) = length (Bytes_content content)"
proof (intro exI conjI)
  let ?out = "\<lparr> notify_store_out_nodeid = NodeID_into_raw ino, notify_store_out_offset = offset,
    notify_store_out_size = of_nat (Bytes_size content), notify_store_out_padding = 0 \<rparr>"
  let ?arg = "pod_enc fuse_notify_store_out_pod ?out @ Bytes_content content"
  have len: "length (pod_enc fuse_notify_store_out_pod ?out) = 24"
    by (simp add: fuse_notify_store_out.enc_length pod_sizes)
  have size: "length (Bytes_content content) = Bytes_size content"
    by (simp add: Bytes_content_def Bytes_size_content)
  show "Notifier_store Vec_write_vectored s w ino offset content =
      Some (Ok (), s, w @ msg_bytes (Notify FUSE_NOTIFY_STORE) ?arg)"
    using assms len by (simp add: Notifier_store_def Notifier_send_Vec Bytes_content_def)
  show "parse_msg (msg_bytes (Notify FUSE_NOTIFY_STORE) ?arg) =
      Some (msg_header (Notify FUSE_NOTIFY_STORE) (length ?arg), ?arg)"
    using assms len size by (intro parse_msg_bytes) simp
  show "msg_kind (msg_header (Notify FUSE_NOTIFY_STORE) (length ?arg)) = Some (Notify FUSE_NOTIFY_STORE)"
    by (rule msg_kind_header) simp
  show "unat (notify_store_out_size ?out) = length (Bytes_content content)"
    using assms size by (simp add: unsigned_of_nat take_bit_nat_eq_self)
qed simp_all

end
