(* ===== verification/Mount.thy ===== *)
theory Mount
  imports Io
begin

text \<open>
  Mounting (\<open>src/mount.rs\<close>, \<open>src/mount/priv_mount.rs\<close>, \<open>src/mount/unpriv_mount.rs\<close>,
  \<open>src/util.rs\<close>): the encoding of mount options, the choice between the mount system call and the
  helper program \<open>fusermount\<close>, and the life of a mount until it is undone. System calls and
  processes are parameters. Strings are lists of characters; white space is that of ASCII.
\<close>

section \<open>Strings\<close>

definition is_whitespace :: "char \<Rightarrow> bool" where
  "is_whitespace c \<longleftrightarrow> c \<in> {CHR 0x09, CHR 0x0A, CHR 0x0B, CHR 0x0C, CHR 0x0D, CHR '' ''}"

definition trim :: "string \<Rightarrow> string" where
  "trim s = rev (dropWhile is_whitespace (rev (dropWhile is_whitespace s)))"

text \<open>\<open>IteratorJoinExt::join\<close>: a fold over the numbered elements.\<close>

definition join :: "string list \<Rightarrow> string \<Rightarrow> string" where
  "join elems sep =
     fold (\<lambda>(i, elem) acc. (if 0 < i then acc @ sep else acc) @ trim elem)
       (enumerate (0 :: nat) elems) ''''"

text \<open>The formats \<open>{}\<close> and \<open>{:o}\<close> of an unsigned integer.\<close>

definition digit_char :: "nat \<Rightarrow> char" where
  "digit_char d = char_of (48 + d)"

fun format_base :: "nat \<Rightarrow> nat \<Rightarrow> string" where
  "format_base b n =
     (if b \<le> 1 \<or> n < b then [digit_char n] else format_base b (n div b) @ [digit_char (n mod b)])"

definition format_dec :: "nat \<Rightarrow> string" where
  "format_dec n = format_base 10 n"

definition format_octal :: "nat \<Rightarrow> string" where
  "format_octal n = format_base 8 n"

section \<open>Options\<close>

text \<open>The flags of \<open>mount(2)\<close> that the sources name.\<close>

type_synonym MountFlags = u32

definition MS_RDONLY :: MountFlags where [libc_const]: "MS_RDONLY = 1"
definition MS_NOSUID :: MountFlags where [libc_const]: "MS_NOSUID = 2"
definition MS_NODEV :: MountFlags where [libc_const]: "MS_NODEV = 4"
definition MS_NOEXEC :: MountFlags where [libc_const]: "MS_NOEXEC = 8"
definition MS_SYNCHRONOUS :: MountFlags where [libc_const]: "MS_SYNCHRONOUS = 16"
definition MS_DIRSYNC :: MountFlags where [libc_const]: "MS_DIRSYNC = 128"
definition MS_NOATIME :: MountFlags where [libc_const]: "MS_NOATIME = 1024"

definition ALLOWED_MOUNT_FLAGS :: MountFlags where
  "ALLOWED_MOUNT_FLAGS =
     MS_RDONLY OR MS_NOSUID OR MS_NODEV OR MS_NOEXEC OR MS_SYNCHRONOUS OR MS_DIRSYNC OR MS_NOATIME"

type_synonym FuseFlags = u32

definition FuseFlags_DEFAULT_PERMISSIONS :: FuseFlags where "FuseFlags_DEFAULT_PERMISSIONS = push_bit 0 1"
definition FuseFlags_ALLOW_OTHER :: FuseFlags where "FuseFlags_ALLOW_OTHER = push_bit 1 1"
definition FuseFlags_AUTO_UNMOUNT :: FuseFlags where "FuseFlags_AUTO_UNMOUNT = push_bit 2 1"
definition FuseFlags_BLKDEV :: FuseFlags where "FuseFlags_BLKDEV = push_bit 3 1"

definition FuseFlags_new :: FuseFlags where
  "FuseFlags_new = FuseFlags_AUTO_UNMOUNT"

record MountOptions =
  mount_flags :: MountFlags
  fuse_flags :: FuseFlags
  mount_blksize :: "u32 option"
  mount_max_read :: "u32 option"
  mount_subtype :: "string option"
  mount_fsname :: "string option"
  fusermount_path_opt :: "string option"

definition MountOptions_new :: MountOptions where
  "MountOptions_new =
     \<lparr> mount_flags = 0, fuse_flags = FuseFlags_new, mount_blksize = None, mount_max_read = None,
       mount_subtype = None, mount_fsname = None, fusermount_path_opt = None \<rparr>"

text \<open>
  \<open>iter\<close> of a \<open>bitflags!\<close> type yields the declared flags that are contained, in the order of their
  declaration. For \<open>MountFlags\<close> the declaration is that of \<open>rustix\<close>; the order is a parameter.
\<close>

definition flags_iter :: "'a::len word list \<Rightarrow> 'a word \<Rightarrow> 'a word list" where
  "flags_iter declared flags = filter (\<lambda>f. flags AND f = f) declared"

definition FuseFlags_declared :: "FuseFlags list" where
  "FuseFlags_declared =
     [FuseFlags_DEFAULT_PERMISSIONS, FuseFlags_ALLOW_OTHER, FuseFlags_AUTO_UNMOUNT, FuseFlags_BLKDEV]"

definition mount_flag_name :: "MountFlags \<Rightarrow> string option" where
  "mount_flag_name flag =
     (if flag = MS_RDONLY then Some ''ro''
      else if flag = MS_NOSUID then Some ''nosuid''
      else if flag = MS_NODEV then Some ''nodev''
      else if flag = MS_NOEXEC then Some ''noexec''
      else if flag = MS_SYNCHRONOUS then Some ''sync''
      else if flag = MS_DIRSYNC then Some ''dirsync''
      else if flag = MS_NOATIME then Some ''noatime''
      else None)"

definition fuse_flag_name :: "bool \<Rightarrow> FuseFlags \<Rightarrow> string option" where
  "fuse_flag_name unpriv flag =
     (if flag = FuseFlags_DEFAULT_PERMISSIONS then Some ''default_permissions''
      else if flag = FuseFlags_ALLOW_OTHER then Some ''allow_other''
      else if flag = FuseFlags_AUTO_UNMOUNT then then_some unpriv ''auto_unmount''
      else if flag = FuseFlags_BLKDEV then then_some unpriv ''blkdev''
      else None)"

definition iter_flags :: "MountFlags list \<Rightarrow> MountOptions \<Rightarrow> bool \<Rightarrow> string list" where
  "iter_flags declared self unpriv =
     List.map_filter mount_flag_name (flags_iter declared (mount_flags self)) @
     List.map_filter (fuse_flag_name unpriv) (flags_iter FuseFlags_declared (fuse_flags self))"

definition option_list :: "'a option \<Rightarrow> 'a list" where
  "option_list v = (case v of None \<Rightarrow> [] | Some x \<Rightarrow> [x])"

definition iter_common_opts :: "MountOptions \<Rightarrow> string list" where
  "iter_common_opts self =
     option_list (map_option (\<lambda>n. ''blksize='' @ format_dec (unat n)) (mount_blksize self)) @
     option_list (map_option (\<lambda>n. ''max_read='' @ format_dec (unat n)) (mount_max_read self))"

text \<open>The options that are passed to \<open>mount(2)\<close>, and to \<open>fusermount\<close>.\<close>

record PrivilegedOptions =
  priv_fstype :: string
  priv_opts :: string

definition encode_priv_options ::
    "MountFlags list \<Rightarrow> MountOptions \<Rightarrow> string option \<Rightarrow> PrivilegedOptions" where
  "encode_priv_options declared opts prefix =
     (let fstype = (if fuse_flags opts AND FuseFlags_BLKDEV = FuseFlags_BLKDEV then ''fuseblk'' else ''fuse'');
          fstype = (case mount_subtype opts of
             None \<Rightarrow> fstype | Some subtype \<Rightarrow> fstype @ ''.'' @ trim subtype);
          opts = join (option_list prefix @ iter_flags declared opts False @ iter_common_opts opts) '',''
      in \<lparr> priv_fstype = fstype, priv_opts = opts \<rparr>)"

definition encode_unpriv_options :: "MountFlags list \<Rightarrow> MountOptions \<Rightarrow> string" where
  "encode_unpriv_options declared opts =
     join (iter_flags declared opts True @ iter_common_opts opts @
       option_list (map_option (\<lambda>s. ''subtype='' @ s) (mount_subtype opts)) @
       option_list (map_option (\<lambda>s. ''fsname='' @ s) (mount_fsname opts))) '',''"

definition prefix :: "fd \<Rightarrow> u32 \<Rightarrow> u32 \<Rightarrow> u32 \<Rightarrow> string" where
  "prefix fd mode uid gid =
     (let root_mode = mode AND S_IFMT in
      ''fd='' @ format_dec fd @ '',rootmode='' @ format_octal (unat root_mode) @
      '',user_id='' @ format_dec (unat uid) @ '',group_id='' @ format_dec (unat gid))"

section \<open>Effects\<close>

text \<open>A computation that can fail and changes the state of the system; \<open>io_bind\<close> is \<open>?\<close>.\<close>

type_synonym ('k, 'a) io = "'k \<Rightarrow> (io_error, 'a) result \<times> 'k"

definition io_return :: "'a \<Rightarrow> ('k, 'a) io" where
  "io_return x k = (Ok x, k)"

definition io_fail :: "io_error \<Rightarrow> ('k, 'a) io" where
  "io_fail e k = (Err e, k)"

definition io_bind :: "('k, 'a) io \<Rightarrow> ('a \<Rightarrow> ('k, 'b) io) \<Rightarrow> ('k, 'b) io" where
  "io_bind m f k =
     (case m k of (Ok x, k) \<Rightarrow> f x k | (Err e, k) \<Rightarrow> (Err e, k) | (Panic, k) \<Rightarrow> (Panic, k))"

text \<open>A value whose destructor runs when the rest of the function leaves with an error.\<close>

definition io_guard :: "('k \<Rightarrow> 'k) \<Rightarrow> ('k, 'a) io \<Rightarrow> ('k, 'a) io" where
  "io_guard release m k = (case m k of (Ok x, k) \<Rightarrow> (Ok x, k) | (r, k) \<Rightarrow> (r, release k))"

type_synonym path = string
type_synonym child = nat

text \<open>
  The system calls and the library functions for processes that mounting uses. \<open>ms_spawn\<close> starts
  a program with its arguments and the number of a descriptor in the environment variable
  \<open>_FUSE_COMMFD\<close>; \<open>ms_recvmsg\<close> returns the descriptors of a message; \<open>ms_wait\<close> says whether
  the process succeeded; \<open>ms_status\<close> runs a program to its end.
\<close>

record 'k mount_sys =
  ms_exists :: "path \<Rightarrow> 'k \<Rightarrow> bool"
  ms_has_sys_admin :: "('k, bool) io"
  ms_stat_mode :: "path \<Rightarrow> ('k, u32) io"
  ms_open :: "path \<Rightarrow> ('k, fd) io"
  ms_close :: "fd \<Rightarrow> 'k \<Rightarrow> 'k"
  ms_uid :: u32
  ms_gid :: u32
  ms_mount :: "string \<Rightarrow> path \<Rightarrow> string \<Rightarrow> MountFlags \<Rightarrow> string \<Rightarrow> ('k, unit) io"
  ms_unmount :: "path \<Rightarrow> ('k, unit) io"
  ms_socketpair :: "('k, fd \<times> fd) io"
  ms_spawn :: "path \<Rightarrow> string list \<Rightarrow> fd \<Rightarrow> ('k, child) io"
  ms_recvmsg :: "fd \<Rightarrow> ('k, fd list) io"
  ms_setfd_cloexec :: "fd \<Rightarrow> ('k, unit) io"
  ms_wait :: "child \<Rightarrow> ('k, bool) io"
  ms_status :: "path \<Rightarrow> string list \<Rightarrow> ('k, bool) io"

section \<open>Privileged mount\<close>

text \<open>\<open>CString::new\<close> panics, through \<open>expect\<close>, on options with a null character.\<close>

definition c_string :: "string \<Rightarrow> ('k, string) io" where
  "c_string s k = (if CHR 0x00 \<in> set s then (Panic, k) else (Ok s, k))"

definition PrivMount_mount ::
    "'k mount_sys \<Rightarrow> MountFlags list \<Rightarrow> path \<Rightarrow> MountOptions \<Rightarrow> ('k, fd) io" where
  "PrivMount_mount M declared mountpoint mountopts =
     io_bind (ms_has_sys_admin M) (\<lambda>sys_admin.
     if \<not> sys_admin then io_fail (OsError EPERM)
     else
       io_bind (ms_stat_mode M mountpoint) (\<lambda>mode.
       io_bind (ms_open M FUSE_DEV_NAME) (\<lambda>fd.
       io_guard (ms_close M fd) (
         let options = encode_priv_options declared mountopts
                   (Some (prefix fd mode (ms_uid M) (ms_gid M)));
             source = (case mount_fsname mountopts of
                 Some fsname \<Rightarrow> fsname
               | None \<Rightarrow> (case mount_subtype mountopts of
                     Some subtype \<Rightarrow> subtype | None \<Rightarrow> FUSE_DEV_NAME))
         in io_bind (c_string (priv_opts options)) (\<lambda>data.
            io_bind (ms_mount M source mountpoint (priv_fstype options) (mount_flags mountopts) data) (\<lambda>_.
            io_return fd))))))"

definition PrivMount_unmount :: "'k mount_sys \<Rightarrow> path \<Rightarrow> ('k, unit) io" where
  "PrivMount_unmount M mountpoint = ms_unmount M mountpoint"

section \<open>Unprivileged mount\<close>

definition FUSERMOUNT_PROG :: path where
  "FUSERMOUNT_PROG = ''/usr/bin/fusermount''"

definition fusermount_path :: "MountOptions \<Rightarrow> path" where
  "fusermount_path opts =
     (case fusermount_path_opt opts of None \<Rightarrow> FUSERMOUNT_PROG | Some path \<Rightarrow> path)"

datatype UmountMode = Implicit child fd | Explicit

definition umount :: "'k mount_sys \<Rightarrow> path \<Rightarrow> path \<Rightarrow> ('k, unit) io" where
  "umount M mountpoint prog =
     io_bind (ms_status M prog [''-u'', ''-q'', ''-z'', ''--'', mountpoint]) (\<lambda>_. io_return ())"

definition receive_fd :: "'k mount_sys \<Rightarrow> fd \<Rightarrow> ('k, fd) io" where
  "receive_fd M reader =
     io_bind (ms_recvmsg M reader) (\<lambda>fds.
     case fds of
       [] \<Rightarrow> io_fail (CustomError KindOther)
     | fd # _ \<Rightarrow>
         io_guard (ms_close M fd) (io_bind (ms_setfd_cloexec M fd) (\<lambda>_. io_return fd)))"

definition fusermount_args :: "MountFlags list \<Rightarrow> MountOptions \<Rightarrow> path \<Rightarrow> string list" where
  "fusermount_args declared mountopts mountpoint =
     (let opts = encode_unpriv_options declared mountopts in
      (if opts = '''' then [] else [''-o'', opts]) @ [''--'', mountpoint])"

text \<open>
  The end of the socket pair that the child inherits is wrapped in \<open>ManuallyDrop\<close>: the process
  never closes its own copy of it.
\<close>

definition UnprivMount_mount ::
    "'k mount_sys \<Rightarrow> MountFlags list \<Rightarrow> path \<Rightarrow> MountOptions \<Rightarrow> ('k, fd \<times> UmountMode) io" where
  "UnprivMount_mount M declared mountpoint mountopts =
     (let prog = fusermount_path mountopts in
      io_bind (ms_socketpair M) (\<lambda>(input, output).
      io_guard (ms_close M input) (
        io_bind (ms_spawn M prog (fusermount_args declared mountopts mountpoint) output) (\<lambda>child.
        io_bind (receive_fd M input) (\<lambda>fd.
        io_guard (ms_close M fd) (
          if fuse_flags mountopts AND FuseFlags_AUTO_UNMOUNT = FuseFlags_AUTO_UNMOUNT
          then io_return (fd, Implicit child input)
          else
            io_bind (ms_wait M child) (\<lambda>success.
            if \<not> success
            then io_bind (umount M mountpoint prog) (\<lambda>_. io_fail (OsError EINVAL))
            else (\<lambda>k. (Ok (fd, Explicit), ms_close M input k)))))))))"

definition UnprivMount_unmount ::
    "'k mount_sys \<Rightarrow> UmountMode \<Rightarrow> path \<Rightarrow> MountOptions \<Rightarrow> ('k, unit) io" where
  "UnprivMount_unmount M mode mountpoint mountopts =
     (case mode of
        Implicit child input \<Rightarrow>
          (\<lambda>k. io_bind (ms_wait M child) (\<lambda>_. io_return ()) (ms_close M input k))
      | Explicit \<Rightarrow> umount M mountpoint (fusermount_path mountopts))"

section \<open>The mount\<close>

datatype MountKind = Priv | Unpriv UmountMode | Gone

record Mount =
  mount_kind :: MountKind
  mount_mountpoint :: path
  mount_mountopts :: MountOptions

definition Mount_is_priviledged :: "Mount \<Rightarrow> bool" where
  "Mount_is_priviledged self \<longleftrightarrow> mount_kind self = Priv"

definition Mount_unmount_mut ::
    "'k mount_sys \<Rightarrow> Mount \<Rightarrow> 'k \<Rightarrow> (io_error, unit) result \<times> Mount \<times> 'k" where
  "Mount_unmount_mut M self k =
     (let kind = mount_kind self; self = self\<lparr> mount_kind := Gone \<rparr> in
      case (case kind of
              Priv \<Rightarrow> PrivMount_unmount M (mount_mountpoint self) k
            | Unpriv mode \<Rightarrow> UnprivMount_unmount M mode (mount_mountpoint self) (mount_mountopts self) k
            | Gone \<Rightarrow> (Ok (), k))
      of (r, k) \<Rightarrow> (r, self, k))"

definition Mount_drop :: "'k mount_sys \<Rightarrow> Mount \<Rightarrow> 'k \<Rightarrow> 'k" where
  "Mount_drop M self k = (case Mount_unmount_mut M self k of (_, _, k) \<Rightarrow> k)"

text \<open>\<open>unmount\<close> takes the mount by value, so that its destructor runs at the end.\<close>

definition Mount_unmount :: "'k mount_sys \<Rightarrow> Mount \<Rightarrow> ('k, unit) io" where
  "Mount_unmount M self k =
     (case Mount_unmount_mut M self k of (r, self, k) \<Rightarrow> (r, Mount_drop M self k))"

definition mount ::
    "'k mount_sys \<Rightarrow> MountFlags list \<Rightarrow> path \<Rightarrow> MountOptions \<Rightarrow> ('k, fd \<times> Mount) io" where
  "mount M declared mountpoint mountopts k =
     (let mountopts = mountopts\<lparr> mount_flags := mount_flags mountopts AND ALLOWED_MOUNT_FLAGS \<rparr> in
      if \<not> ms_exists M mountpoint k then (Err (CustomError NotFound), k)
      else
        let mk = (\<lambda>kind. \<lparr> mount_kind = kind, mount_mountpoint = mountpoint, mount_mountopts = mountopts \<rparr>) in
        case PrivMount_mount M declared mountpoint mountopts k of
          (Ok fd, k) \<Rightarrow> (Ok (fd, mk Priv), k)
        | (Err err, k) \<Rightarrow>
            if errno_from_io_error err = Some EPERM
            then io_bind (UnprivMount_mount M declared mountpoint mountopts)
                   (\<lambda>(fd, mode). io_return (fd, mk (Unpriv mode))) k
            else (Err err, k)
        | (Panic, k) \<Rightarrow> (Panic, k))"

section \<open>The reader of options\<close>

text \<open>What \<open>fusermount\<close> and the kernel make of the options: they are separated by commas.\<close>

fun split_commas :: "string \<Rightarrow> string list" where
  "split_commas [] = [[]]"
| "split_commas (c # cs) =
     (if c = CHR '','' then [] # split_commas cs
      else case split_commas cs of [] \<Rightarrow> [[c]] | s # ss \<Rightarrow> (c # s) # ss)"

text \<open>The options as a list.\<close>

definition unpriv_options :: "MountFlags list \<Rightarrow> MountOptions \<Rightarrow> string list" where
  "unpriv_options declared opts =
     iter_flags declared opts True @ iter_common_opts opts @
     option_list (map_option (\<lambda>s. ''subtype='' @ s) (mount_subtype opts)) @
     option_list (map_option (\<lambda>s. ''fsname='' @ s) (mount_fsname opts))"

text \<open>Texts that can stand in a list of options.\<close>

definition option_text :: "string \<Rightarrow> bool" where
  "option_text s \<longleftrightarrow> CHR '','' \<notin> set s \<and> (s = [] \<or> \<not> is_whitespace (last s))"

section \<open>Lemmas\<close>

lemma enumerate_fold_join:
  "0 < n \<Longrightarrow> fold (\<lambda>(i, elem) acc. (if 0 < i then acc @ sep else acc) @ trim elem) (enumerate n xs) acc =
    acc @ concat (map (\<lambda>x. sep @ trim x) xs)"
  by (induction xs arbitrary: n acc) simp_all

lemma join_simps:
  "join [] sep = []"
  "join (x # xs) sep = trim x @ concat (map (\<lambda>x. sep @ trim x) xs)"
  by (simp_all add: join_def enumerate_fold_join)

lemma split_commas_not_Nil: "split_commas s \<noteq> []"
  by (cases s) (auto split: list.split)

lemma split_commas_plain: "CHR '','' \<notin> set s \<Longrightarrow> split_commas s = [s]"
  by (induction s) auto

lemma split_commas_append:
  "split_commas (s @ CHR '','' # t) = split_commas s @ split_commas t"
  by (induction s) (auto simp: split_commas_not_Nil split: list.split)

lemma split_commas_join:
  "\<forall>x \<in> set (x # xs). CHR '','' \<notin> set (trim x) \<Longrightarrow>
   split_commas (join (x # xs) '','') = map trim (x # xs)"
proof (induction xs arbitrary: x)
  case Nil
  then show ?case by (simp add: join_simps split_commas_plain)
next
  case (Cons y xs)
  then have "split_commas (join (y # xs) '','') = map trim (y # xs)" by simp
  with Cons.prems show ?case by (simp add: join_simps split_commas_append split_commas_plain)
qed

lemma set_trim: "set (trim s) \<subseteq> set s"
  by (auto simp: trim_def dest!: set_dropWhileD)

lemma trim_same: "s \<noteq> [] \<Longrightarrow> \<not> is_whitespace (hd s) \<Longrightarrow> \<not> is_whitespace (last s) \<Longrightarrow> trim s = s"
proof -
  assume s: "s \<noteq> []" "\<not> is_whitespace (hd s)" "\<not> is_whitespace (last s)"
  then have "dropWhile is_whitespace s = s" by (cases s) auto
  moreover have "dropWhile is_whitespace (rev s) = rev s"
    using s by (cases "rev s") (auto simp: last_rev hd_rev [symmetric])
  ultimately show ?thesis by (simp add: trim_def)
qed

text \<open>An element of a list of options that is neither split nor trimmed.\<close>

definition plain_option :: "string \<Rightarrow> bool" where
  "plain_option s \<longleftrightarrow> s \<noteq> [] \<and> CHR '','' \<notin> set s \<and> \<not> is_whitespace (hd s) \<and> \<not> is_whitespace (last s)"

lemma split_commas_plain_options:
  assumes "list_all plain_option xs" and "xs \<noteq> []"
  shows "split_commas (join xs '','') = xs"
proof -
  have "map trim xs = xs"
    using assms(1) by (intro map_idI) (auto simp: list_all_iff plain_option_def intro: trim_same)
  moreover obtain y ys where "xs = y # ys" using assms(2) by (cases xs) auto
  moreover have "\<forall>x \<in> set xs. CHR '','' \<notin> set (trim x)"
    using assms(1) set_trim by (force simp: list_all_iff plain_option_def)
  ultimately show ?thesis using split_commas_join [of y ys] by simp
qed

lemma digit_char_plain:
  "d < 10 \<Longrightarrow> digit_char d \<noteq> CHR '','' \<and> \<not> is_whitespace (digit_char d)"
proof -
  assume d: "d < 10"
  have "list_all (\<lambda>d. digit_char d \<noteq> CHR '','' \<and> \<not> is_whitespace (digit_char d)) [0..<10]"
    by code_simp
  with d show ?thesis by (simp add: list_all_iff)
qed

lemma format_dec_plain:
  "format_base 10 n \<noteq> [] \<and> CHR '','' \<notin> set (format_base 10 n) \<and> \<not> is_whitespace (last (format_base 10 n))"
proof (induction "10 :: nat" n rule: format_base.induct)
  case (1 n)
  show ?case
  proof (cases "n < 10")
    case True
    then show ?thesis using digit_char_plain [of n] by (subst (1 2 3) format_base.simps) auto
  next
    case False
    with 1 digit_char_plain [of "n mod 10"] show ?thesis
      by (subst (1 2 3) format_base.simps) auto
  qed
qed

lemma iter_flags_plain: "list_all plain_option (iter_flags declared opts unpriv)"
proof -
  have "plain_option s" if "mount_flag_name f = Some s" for f s
    using that by (auto simp: mount_flag_name_def plain_option_def is_whitespace_def split: if_splits)
  moreover have "plain_option s" if "fuse_flag_name unpriv f = Some s" for f s
    using that
    by (cases unpriv)
      (auto simp: fuse_flag_name_def plain_option_def is_whitespace_def split: if_splits)
  ultimately show ?thesis
    by (auto simp: iter_flags_def list_all_iff List.map_filter_def)
qed

lemma iter_common_opts_plain: "list_all plain_option (iter_common_opts opts)"
  using format_dec_plain
  by (auto simp: iter_common_opts_def option_list_def plain_option_def format_dec_def is_whitespace_def
      split: option.splits)

lemma option_text_plain:
  "option_text s \<Longrightarrow> plain_option (''subtype='' @ s)" "option_text s \<Longrightarrow> plain_option (''fsname='' @ s)"
  by (auto simp: option_text_def plain_option_def is_whitespace_def)

lemma join_snoc:
  "join (xs @ [x]) sep = (if xs = [] then [] else join xs sep @ sep) @ trim x"
  by (cases xs) (simp_all add: join_simps)

text \<open>Undoing a mount is one action, which depends on how it was made.\<close>

definition unmount_action :: "'k mount_sys \<Rightarrow> Mount \<Rightarrow> ('k, unit) io" where
  "unmount_action M m =
     (case mount_kind m of
        Priv \<Rightarrow> ms_unmount M (mount_mountpoint m)
      | Unpriv (Implicit child input) \<Rightarrow>
          (\<lambda>k. io_bind (ms_wait M child) (\<lambda>_. io_return ()) (ms_close M input k))
      | Unpriv Explicit \<Rightarrow>
          io_bind (ms_status M (fusermount_path (mount_mountopts m))
            [''-u'', ''-q'', ''-z'', ''--'', mount_mountpoint m]) (\<lambda>_. io_return ())
      | Gone \<Rightarrow> io_return ())"

lemma Mount_unmount_mut_eq:
  "Mount_unmount_mut M m k = (fst (unmount_action M m k), m\<lparr> mount_kind := Gone \<rparr>, snd (unmount_action M m k))"
  by (auto simp: Mount_unmount_mut_def unmount_action_def PrivMount_unmount_def UnprivMount_unmount_def
      umount_def io_return_def Let_def split: MountKind.splits UmountMode.splits prod.splits)

lemma unmount_Gone: "Mount_drop M (m\<lparr> mount_kind := Gone \<rparr>) k = k"
  by (simp add: Mount_drop_def Mount_unmount_mut_eq unmount_action_def io_return_def)

section \<open>Properties\<close>

text \<open>C34: The options for \<open>fusermount\<close> can be read back: as long as the names contain no comma and no
  white space at the end, splitting the argument at the commas gives the options in order.
\<close>

theorem encode_unpriv_options_read_back:
  assumes "\<forall>s. mount_subtype opts = Some s \<or> mount_fsname opts = Some s \<longrightarrow> option_text s"
  shows "split_commas (encode_unpriv_options declared opts) =
    (if unpriv_options declared opts = [] then [[]] else unpriv_options declared opts)"
proof -
  have "list_all plain_option (unpriv_options declared opts)"
    using assms iter_flags_plain iter_common_opts_plain option_text_plain
    by (auto simp: unpriv_options_def option_list_def split: option.splits)
  moreover have "encode_unpriv_options declared opts = join (unpriv_options declared opts) '',''"
    by (simp add: encode_unpriv_options_def unpriv_options_def)
  ultimately show ?thesis
    by (simp add: split_commas_plain_options join_simps)
qed

theorem encode_unpriv_options_read_back_witness:
  "split_commas (encode_unpriv_options [MS_RDONLY]
      (MountOptions_new\<lparr> mount_flags := MS_RDONLY, mount_fsname := Some ''bradbury'' \<rparr>)) =
    (if unpriv_options [MS_RDONLY]
          (MountOptions_new\<lparr> mount_flags := MS_RDONLY, mount_fsname := Some ''bradbury'' \<rparr>) = [] then [[]]
     else unpriv_options [MS_RDONLY]
          (MountOptions_new\<lparr> mount_flags := MS_RDONLY, mount_fsname := Some ''bradbury'' \<rparr>))"
  by (rule encode_unpriv_options_read_back)
    (simp add: MountOptions_new_def option_text_def is_whitespace_def)

text \<open>A comma in the name of the file system adds an option: \<open>fusermount\<close> is given what follows
  the comma as an option of its own, for example \<open>allow_other\<close> although that flag is not set.
\<close>

theorem fsname_adds_option:
  assumes "plain_option b"
  shows "b \<in> set (split_commas
    (encode_unpriv_options declared (opts\<lparr> mount_fsname := Some (a @ '','' @ b) \<rparr>)))"
proof -
  let ?last = "''fsname='' @ a @ '','' @ b"
  have "trim ?last = ?last"
    using assms by (intro trim_same) (auto simp: plain_option_def is_whitespace_def)
  then obtain s where "encode_unpriv_options declared (opts\<lparr> mount_fsname := Some (a @ '','' @ b) \<rparr>) =
      s @ CHR '','' # b"
    by (simp add: encode_unpriv_options_def option_list_def join_snoc flip: append_assoc)
  then show ?thesis
    using assms by (simp add: split_commas_append split_commas_plain plain_option_def)
qed

text \<open>A mount is undone exactly once: \<open>unmount\<close> performs the one action that belongs to the way
  the mount was made and returns its result, the destructor that runs afterwards does nothing
  more; and dropping a mount that was not undone performs that same action.
\<close>

theorem unmount_once:
  "Mount_unmount M m k = unmount_action M m k \<and> Mount_drop M m k = snd (unmount_action M m k)"
  by (simp add: Mount_unmount_def Mount_unmount_mut_eq unmount_Gone)
    (simp add: Mount_drop_def Mount_unmount_mut_eq)

end
