(* ===== verification/Connect.thy ===== *)
theory Connect
  imports Session Mount
begin

text \<open>
  Establishing a session (\<open>src/connect.rs\<close>): after mounting, requests are read from the device until
  the kernel and the library agree on a version of the protocol.
\<close>

section \<open>The handshake\<close>

text \<open>
  The reply to a kernel with a newer major version: zeroes but for the version, which makes the
  kernel ask again with an older one.
\<close>

definition downgrade_out :: fuse_init_out where
  "downgrade_out =
     (pod_dec fuse_init_out_pod (replicate (pod_size fuse_init_out_pod) 0))
       \<lparr> init_out_major := FUSE_KERNEL_VERSION, init_out_minor := FUSE_KERNEL_MINOR_VERSION \<rparr>"

text \<open>One round of the loop: leave the function, or go on with the next request.\<close>

datatype round = Leave "(io_error, Session) result" | Again

definition send_and ::
    "'k os \<Rightarrow> Device \<Rightarrow> MessageKind \<Rightarrow> Bytes \<Rightarrow> round \<Rightarrow> 'k \<Rightarrow> (round \<times> 'k) option" where
  "send_and S device kind arg next k =
     map_option (\<lambda>(r, k).
         (case r of Ok _ \<Rightarrow> next | Err e \<Rightarrow> Leave (Err e) | Panic \<Rightarrow> Leave Panic, k))
       (send_msg (Device_write_vectored S device) k kind arg)"

definition connect_init ::
    "extern \<Rightarrow> 'k os \<Rightarrow> Device \<Rightarrow> KernelConfig \<Rightarrow> InHeader \<Rightarrow> InitIn \<Rightarrow> 'k \<Rightarrow> (round \<times> 'k) option" where
  "connect_init X S device config header init_in k =
     (let unique = InHeader_unique header in
      case negotiate X config init_in of
        Ok config \<Rightarrow>
          send_and S device (Reply unique None)
            (Bytes_Pointer (Bytes_Slice_u8 (InitOut_to_bytes (KernelConfig_to_out config))))
            (Leave (Ok (Session_new config))) k
      | Err TooLargeProtocolVersion \<Rightarrow>
          send_and S device (Reply unique None)
            (Bytes_Pointer (Bytes_Slice_u8 (pod_enc fuse_init_out_pod downgrade_out))) Again k
      | Err TooSmallProtocolVersion \<Rightarrow>
          send_and S device (Reply unique (Some EPROTO)) Bytes_Unit Again k
      | Panic \<Rightarrow> Some (Leave Panic, k))"

definition connect_round ::
    "extern \<Rightarrow> 'k os \<Rightarrow> nat \<Rightarrow> Device \<Rightarrow> KernelConfig \<Rightarrow> RequestBuf \<Rightarrow> 'k \<Rightarrow>
      (round \<times> RequestBuf \<times> 'k) option" where
  "connect_round X S addr device config buf k =
     (case RequestBuf_try_receive S (device_conn S device) buf k of
        None \<Rightarrow> None
      | Some (Err e, buf, k) \<Rightarrow> Some (Leave (Err e), buf, k)
      | Some (Panic, buf, k) \<Rightarrow> Some (Leave Panic, buf, k)
      | Some (Ok _, buf, k) \<Rightarrow>
          (case RequestBuf_to_parts buf of
             Ok (header, arg, _) \<Rightarrow>
               if InHeader_opcode header \<noteq> Ok FUSE_INIT then Some (Again, buf, k)
               else
                 (case InitIn_from_bytes X addr arg of
                    None \<Rightarrow> Some (Leave (Err (OsError EINVAL)), buf, k)
                  | Some init_in \<Rightarrow>
                      map_option (\<lambda>(next, k). (next, buf, k))
                        (connect_init X S device config header init_in k))
           | Err e \<Rightarrow> Some (Leave (Err e), buf, k)
           | Panic \<Rightarrow> Some (Leave Panic, buf, k)))"

text \<open>The loop does not end as long as the kernel sends no suitable request.\<close>

partial_function (option) connect_loop ::
    "extern \<Rightarrow> 'k os \<Rightarrow> nat \<Rightarrow> Device \<Rightarrow> KernelConfig \<Rightarrow> RequestBuf \<Rightarrow> 'k \<Rightarrow>
      ((io_error, Session) result \<times> 'k) option" where
  "connect_loop X S addr device config buf k =
     (case connect_round X S addr device config buf k of
        None \<Rightarrow> None
      | Some (Leave r, buf, k) \<Rightarrow> Some (r, k)
      | Some (Again, buf, k) \<Rightarrow> connect_loop X S addr device config buf k)"

text \<open>
  The whole function. The buffer is allocated at the given address. When the handshake fails, the
  device and the mount are dropped.
\<close>

definition connect ::
    "extern \<Rightarrow> 'k os \<Rightarrow> 'k mount_sys \<Rightarrow> MountFlags list \<Rightarrow> nat \<Rightarrow> path \<Rightarrow> MountOptions \<Rightarrow>
      KernelConfig \<Rightarrow> 'k \<Rightarrow> ((io_error, Session \<times> Device \<times> Mount) result \<times> 'k) option" where
  "connect X S M declared addr mountpoint mountopts config k =
     (case mount M declared mountpoint mountopts k of
        (Err e, k) \<Rightarrow> Some (Err e, k)
      | (Panic, k) \<Rightarrow> Some (Panic, k)
      | (Ok (fd, mnt), k) \<Rightarrow>
          let device = Device_from_fd fd; cleanup = (\<lambda>k. Mount_drop M mnt (os_close S fd k)) in
          (case RequestBuf_new_vec (unat FUSE_MIN_READ_BUFFER) of
             Ok buf \<Rightarrow>
               (case connect_loop X S addr device config buf k of
                  None \<Rightarrow> None
                | Some (Ok session, k) \<Rightarrow> Some (Ok (session, device, mnt), k)
                | Some (Err e, k) \<Rightarrow> Some (Err e, cleanup k)
                | Some (Panic, k) \<Rightarrow> Some (Panic, cleanup k))
           | Err e \<Rightarrow> Some (Err e, cleanup k)
           | Panic \<Rightarrow> Some (Panic, cleanup k)))"

section \<open>The requests before the session\<close>

text \<open>
  What the library answers to a request that does not establish the session, or \<open>None\<close> for one that
  does or ends the attempt: nothing to another operation, its own version to a newer kernel, an
  error to an older one.
\<close>

definition early_reply :: "extern \<Rightarrow> nat \<Rightarrow> bytes \<Rightarrow> bytes list option" where
  "early_reply X addr m =
     (let h = msg_header_of m in
      if InHeader_opcode h \<noteq> Ok FUSE_INIT then Some []
      else
        (case InitIn_from_bytes X addr (drop 40 m) of
           None \<Rightarrow> None
         | Some i \<Rightarrow>
             if 7 < fst (InitIn_protocol_version i)
             then Some [msg_bytes (Reply (InHeader_unique h) None) (pod_enc fuse_init_out_pod downgrade_out)]
             else if fst (InitIn_protocol_version i) < 7
             then Some [msg_bytes (Reply (InHeader_unique h) (Some EPROTO)) []]
             else None))"

definition early_request :: "extern \<Rightarrow> nat \<Rightarrow> bytes \<Rightarrow> bool" where
  "early_request X addr m \<longleftrightarrow>
     request_wf m \<and> length m \<le> unat FUSE_MIN_READ_BUFFER \<and> early_reply X addr m \<noteq> None"

text \<open>A request that establishes the session, with the configuration it leads to.\<close>

definition final_request :: "extern \<Rightarrow> nat \<Rightarrow> KernelConfig \<Rightarrow> bytes \<Rightarrow> KernelConfig \<Rightarrow> bool" where
  "final_request X addr config m config' \<longleftrightarrow>
     request_wf m \<and> length m \<le> unat FUSE_MIN_READ_BUFFER \<and>
     InHeader_opcode (msg_header_of m) = Ok FUSE_INIT \<and>
     (case InitIn_from_bytes X addr (drop 40 m) of
        None \<Rightarrow> False | Some i \<Rightarrow> negotiate X config i = Ok config')"

section \<open>Lemmas\<close>

lemma send_and_ok:
  assumes "dev_write_ok S V (Device_fd device)" and "16 + Bytes_size arg < 2 ^ 32"
  shows "\<exists>k'. send_and S device kind arg next k = Some (next, k') \<and>
    v_written V k' (Device_fd device) =
      v_written V k (Device_fd device) @ [msg_bytes kind (Bytes_content arg)] \<and>
    v_dev V k' = v_dev V k"
proof -
  let ?bufs = "pod_enc fuse_out_header_pod (msg_header kind (Bytes_size arg)) # Bytes_chunks arg"
  obtain k' where k': "os_writev S (Device_fd device) ?bufs k = (Ok (length (concat ?bufs)), k')"
    "v_written V k' (Device_fd device) = v_written V k (Device_fd device) @ [concat ?bufs]"
    "v_dev V k' = v_dev V k"
    using assms(1) unfolding dev_write_ok_def by blast
  have "send_msg (Device_write_vectored S device) k kind arg = Some (Ok (), k')"
    using assms(2) k'(1) by (simp add: send_msg_eq Device_write_vectored_def Bytes_size_content)
  with k'(2,3) show ?thesis by (simp add: send_and_def concat_msg del: concat.simps)
qed

lemma send_slice_ok:
  assumes "dev_write_ok S V (Device_fd device)" and "length bs \<le> 64"
  shows "\<exists>k'. send_and S device kind (Bytes_Pointer (Bytes_Slice_u8 bs)) next k = Some (next, k') \<and>
    v_written V k' (Device_fd device) = v_written V k (Device_fd device) @ [msg_bytes kind bs] \<and>
    v_dev V k' = v_dev V k"
proof -
  have "Bytes_content (Bytes_Pointer (Bytes_Slice_u8 bs)) = bs" by (simp add: Bytes_content_def)
  with send_and_ok [OF assms(1), of "Bytes_Pointer (Bytes_Slice_u8 bs)" kind "next" k] assms(2)
  show ?thesis by simp
qed

lemma InHeader_arg_len_INIT:
  "InHeader_opcode h = Ok FUSE_INIT \<Longrightarrow> InHeader_arg_len h = unat (in_header_len h) - 40"
  by (simp add: InHeader_arg_len_other)

text \<open>
  A buffer in memory for a header and an argument of the given size, which together are no smaller
  than the kernel demands of a read.
\<close>

definition vec_of_size :: "nat \<Rightarrow> RequestBuf \<Rightarrow> bool" where
  "vec_of_size n buf \<longleftrightarrow>
     (\<exists>vb. buf_kind buf = BufKind_Vec vb \<and> length (vb_arg vb) = n) \<and> unat FUSE_MIN_READ_BUFFER \<le> 40 + n"

lemma receive_message:
  assumes "os_ok S V" and "vec_of_size n buf" and "v_dev V k (Device_fd d) = m # ms"
    and "request_wf m" and "length m \<le> 40 + n"
  obtains buf' k' remains where
    "RequestBuf_try_receive S (device_conn S d) buf k = Some (Ok (msg_header_of m), buf', k')"
    and "RequestBuf_to_parts buf' = (Ok (msg_header_of m,
        take (InHeader_arg_len (msg_header_of m)) (drop 40 m), remains)
        :: (io_error, InHeader \<times> bytes \<times> RemainingData) result)"
    and "vec_of_size n buf'" and "v_dev V k' (Device_fd d) = ms" and "v_written V k' = v_written V k"
proof -
  obtain vb where vb: "buf_kind buf = BufKind_Vec vb" "length (vb_arg vb) = n" "8152 \<le> n"
    using assms(2) by (auto simp: vec_of_size_def abi_const)
  let ?n = "InHeader_arg_len (msg_header_of m)"
  let ?vb = "\<lparr> vb_arg = drop 40 m @ drop (length m - 40) (vb_arg vb), vb_pos = ?n \<rparr>"
  have m: "40 + ?n \<le> length m" "40 \<le> length m" using assms(4) by (simp_all add: request_wf_def)
  from VecBuf_receives [OF assms(1,3,4), of vb "buf_header buf"] assms(5) vb(2,3) obtain k' where
    r: "VecBuf_try_receive (device_conn S d) vb (buf_header buf) k = (Ok (), ?vb, msg_header_of m, k')"
      "v_dev V k' (Device_fd d) = ms" "v_written V k' = v_written V k" by auto
  let ?buf = "\<lparr> buf_header = msg_header_of m, buf_kind = BufKind_Vec ?vb \<rparr>"
  show ?thesis
  proof (rule that)
    show "RequestBuf_try_receive S (device_conn S d) buf k = Some (Ok (msg_header_of m), ?buf, k')"
      by (simp add: RequestBuf_try_receive_def vb(1) r(1))
    show "RequestBuf_to_parts ?buf = (Ok (msg_header_of m, take ?n (drop 40 m),
        RemainingData_Vec (drop ?n (drop 40 m @ drop (length m - 40) (vb_arg vb))))
        :: (io_error, InHeader \<times> bytes \<times> RemainingData) result)"
      using m by (simp add: RequestBuf_to_parts_def)
    show "vec_of_size n ?buf" using m assms(5) vb(2,3) by (simp add: vec_of_size_def abi_const)
  qed (fact r)+
qed

lemma arg_of_INIT:
  assumes "request_wf m" and "InHeader_opcode (msg_header_of m) = Ok FUSE_INIT"
  shows "take (InHeader_arg_len (msg_header_of m)) (drop 40 m) = drop 40 m"
  using assms by (simp add: InHeader_arg_len_INIT request_wf_def)

lemma init_out_wf: "pod_wf fuse_init_out_pod out \<longleftrightarrow> length (init_out_unused out) = 11"
  by (simp add: fuse_init_out_pod_def pod_sel list_all_iff)

lemma length_to_out: "length (InitOut_to_bytes (KernelConfig_to_out config)) \<le> 64"
  by (simp add: KernelConfig_to_out_def fuse_init_in_out_compat_3.enc_length
      fuse_init_out_compat_22.enc_length fuse_init_out.enc_length init_out_wf pod_sizes)

lemma length_downgrade: "length (pod_enc fuse_init_out_pod downgrade_out) = 64"
proof -
  have "pod_wf fuse_init_out_pod (pod_dec fuse_init_out_pod (replicate 64 0))"
    by (rule fuse_init_out.wf_dec) (simp add: pod_sizes)
  then have "pod_wf fuse_init_out_pod downgrade_out"
    by (simp add: downgrade_out_def init_out_wf pod_sizes)
  then show ?thesis by (simp add: fuse_init_out.enc_length pod_sizes)
qed

lemma negotiate_versions:
  "7 < fst (InitIn_protocol_version i) \<Longrightarrow> negotiate X config i = Err TooLargeProtocolVersion"
  "fst (InitIn_protocol_version i) < 7 \<Longrightarrow> negotiate X config i = Err TooSmallProtocolVersion"
  by (auto simp: negotiate_def split_def Let_def)

lemma connect_round_early:
  assumes "os_ok S V" and "dev_write_ok S V (Device_fd d)" and "vec_of_size 8152 buf"
    and "v_dev V k (Device_fd d) = m # ms" and "early_request X addr m"
  shows "\<exists>buf' k'. connect_round X S addr d config buf k = Some (Again, buf', k') \<and>
    vec_of_size 8152 buf' \<and> v_dev V k' (Device_fd d) = ms \<and>
    v_written V k' (Device_fd d) = v_written V k (Device_fd d) @ the (early_reply X addr m)"
proof -
  have m: "request_wf m" "length m \<le> 40 + 8152" "early_reply X addr m \<noteq> None"
    using assms(5) by (simp_all add: early_request_def abi_const)
  from receive_message [OF assms(1,3,4) m(1,2)] obtain buf' k1 remains where
    r: "RequestBuf_try_receive S (device_conn S d) buf k = Some (Ok (msg_header_of m), buf', k1)"
      "RequestBuf_to_parts buf' = (Ok (msg_header_of m,
        take (InHeader_arg_len (msg_header_of m)) (drop 40 m), remains)
        :: (io_error, InHeader \<times> bytes \<times> RemainingData) result)"
      "vec_of_size 8152 buf'" "v_dev V k1 (Device_fd d) = ms" "v_written V k1 = v_written V k" .
  let ?h = "msg_header_of m"
  show ?thesis
  proof (cases "InHeader_opcode ?h = Ok FUSE_INIT")
    case False
    with r show ?thesis by (simp add: connect_round_def early_reply_def Let_def)
  next
    case True
    then obtain i where i: "InitIn_from_bytes X addr (drop 40 m) = Some i"
      using m(3) by (auto simp: early_reply_def Let_def split: option.splits)
    note arg = arg_of_INIT [OF m(1) True]
    let ?v = "fst (InitIn_protocol_version i)"
    consider "7 < ?v" | "?v < 7" using m(3) True i by (auto simp: early_reply_def Let_def split: if_splits)
    then show ?thesis
    proof cases
      case 1
      from send_slice_ok [OF assms(2), of "pod_enc fuse_init_out_pod downgrade_out"
          "Reply (InHeader_unique ?h) None" Again k1]
      obtain k2 where "connect_init X S d config ?h i k1 = Some (Again, k2)"
        "v_written V k2 (Device_fd d) = v_written V k1 (Device_fd d) @
          [msg_bytes (Reply (InHeader_unique ?h) None) (pod_enc fuse_init_out_pod downgrade_out)]"
        "v_dev V k2 = v_dev V k1"
        using 1 by (auto simp: connect_init_def negotiate_versions length_downgrade Let_def)
      with r True i arg 1 show ?thesis
        by (simp add: connect_round_def early_reply_def Let_def)
    next
      case 2
      from send_and_ok [OF assms(2), of Bytes_Unit "Reply (InHeader_unique ?h) (Some EPROTO)" Again k1]
      obtain k2 where "connect_init X S d config ?h i k1 = Some (Again, k2)"
        "v_written V k2 (Device_fd d) = v_written V k1 (Device_fd d) @
          [msg_bytes (Reply (InHeader_unique ?h) (Some EPROTO)) []]"
        "v_dev V k2 = v_dev V k1"
        using 2 by (auto simp: connect_init_def negotiate_versions Bytes_content_def Let_def)
      moreover have "\<not> 7 < ?v" using 2 by simp
      ultimately show ?thesis using r True i arg 2
        by (simp add: connect_round_def early_reply_def Let_def)
    qed
  qed
qed

lemma connect_round_final:
  assumes "os_ok S V" and "dev_write_ok S V (Device_fd d)" and "vec_of_size 8152 buf"
    and "v_dev V k (Device_fd d) = m # ms" and "final_request X addr config m config'"
  shows "\<exists>buf' k'. connect_round X S addr d config buf k = Some (Leave (Ok (Session_new config')), buf', k') \<and>
    v_dev V k' (Device_fd d) = ms \<and>
    v_written V k' (Device_fd d) = v_written V k (Device_fd d) @
      [msg_bytes (Reply (InHeader_unique (msg_header_of m)) None)
        (InitOut_to_bytes (KernelConfig_to_out config'))]"
proof -
  let ?h = "msg_header_of m" and ?out = "InitOut_to_bytes (KernelConfig_to_out config')"
  have m: "request_wf m" "length m \<le> 40 + 8152" "InHeader_opcode ?h = Ok FUSE_INIT"
    using assms(5) by (simp_all add: final_request_def abi_const)
  obtain i where i: "InitIn_from_bytes X addr (drop 40 m) = Some i" "negotiate X config i = Ok config'"
    using assms(5) by (auto simp: final_request_def split: option.splits)
  from receive_message [OF assms(1,3,4) m(1,2)] obtain buf' k1 remains where
    r: "RequestBuf_try_receive S (device_conn S d) buf k = Some (Ok ?h, buf', k1)"
      "RequestBuf_to_parts buf' = (Ok (?h, take (InHeader_arg_len ?h) (drop 40 m), remains)
        :: (io_error, InHeader \<times> bytes \<times> RemainingData) result)"
      "vec_of_size 8152 buf'" "v_dev V k1 (Device_fd d) = ms" "v_written V k1 = v_written V k" .
  from send_slice_ok [OF assms(2), of ?out "Reply (InHeader_unique ?h) None"
      "Leave (Ok (Session_new config'))" k1] length_to_out [of config'] obtain k2 where
    "connect_init X S d config ?h i k1 = Some (Leave (Ok (Session_new config')), k2)"
    "v_written V k2 (Device_fd d) = v_written V k1 (Device_fd d) @
      [msg_bytes (Reply (InHeader_unique ?h) None) ?out]"
    "v_dev V k2 = v_dev V k1"
    by (auto simp: connect_init_def i(2) Let_def)
  with r m(3) i(1) arg_of_INIT [OF m(1,3)] show ?thesis
    by (simp add: connect_round_def)
qed

lemma connect_loop_returns:
  assumes "os_ok S V" and "dev_write_ok S V (Device_fd d)" and "final_request X addr config m config'"
  shows "vec_of_size 8152 buf \<Longrightarrow> v_dev V k (Device_fd d) = es @ m # ms \<Longrightarrow>
    list_all (early_request X addr) es \<Longrightarrow>
    \<exists>k'. connect_loop X S addr d config buf k = Some (Ok (Session_new config'), k') \<and>
      v_dev V k' (Device_fd d) = ms \<and>
      v_written V k' (Device_fd d) = v_written V k (Device_fd d) @
        concat (map (\<lambda>e. the (early_reply X addr e)) es) @
        [msg_bytes (Reply (InHeader_unique (msg_header_of m)) None)
          (InitOut_to_bytes (KernelConfig_to_out config'))]"
proof (induction es arbitrary: buf k)
  case Nil
  then show ?case
    using connect_round_final [OF assms(1,2) _ _ assms(3), of buf k]
    by (subst connect_loop.simps) auto
next
  case (Cons e es)
  then have "v_dev V k (Device_fd d) = e # es @ m # ms" "early_request X addr e" by simp_all
  from connect_round_early [OF assms(1,2) Cons.prems(1) this] obtain buf' k' where
    r: "connect_round X S addr d config buf k = Some (Again, buf', k')" "vec_of_size 8152 buf'"
      "v_dev V k' (Device_fd d) = es @ m # ms"
      "v_written V k' (Device_fd d) = v_written V k (Device_fd d) @ the (early_reply X addr e)" by blast
  from Cons.IH [OF r(2,3)] Cons.prems(3) r(1,4) show ?case
    by (subst connect_loop.simps) auto
qed

lemma new_vec_connect:
  "\<exists>buf. RequestBuf_new_vec (unat FUSE_MIN_READ_BUFFER) = Ok buf \<and> vec_of_size 8152 buf"
  by (simp add: RequestBuf_new_vec_def vec_of_size_def pod_sizes abi_const)

section \<open>Properties\<close>

text \<open>C2: The handshake terminates. When the kernel's requests lead, after any number of requests
  for other operations or with another major version, to a request for version 7 that can be
  negotiated, the loop returns the session with the negotiated configuration. It has then
  consumed these requests and no other, has offered version 7 to each newer kernel, has refused
  each older one with \<open>EPROTO\<close>, and has answered the last request with the configuration.
\<close>

theorem connect_terminates:
  assumes "os_ok S V" and "dev_write_ok S V (Device_fd d)"
    and "RequestBuf_new_vec (unat FUSE_MIN_READ_BUFFER) = (Ok buf :: (io_error, RequestBuf) result)"
    and "v_dev V k (Device_fd d) = es @ m # ms"
    and "list_all (early_request X addr) es" and "final_request X addr config m config'"
  shows "\<exists>k'. connect_loop X S addr d config buf k = Some (Ok (Session_new config'), k') \<and>
    v_dev V k' (Device_fd d) = ms \<and>
    v_written V k' (Device_fd d) = v_written V k (Device_fd d) @
      concat (map (\<lambda>e. the (early_reply X addr e)) es) @
      [msg_bytes (Reply (InHeader_unique (msg_header_of m)) None)
        (InitOut_to_bytes (KernelConfig_to_out config'))]"
proof -
  have "vec_of_size 8152 buf"
    using assms(3) by (auto simp: RequestBuf_new_vec_def vec_of_size_def pod_sizes abi_const)
  from connect_loop_returns [OF assms(1,2,6) this assms(4,5)] show ?thesis .
qed

text \<open>
  A sample exchange: a kernel of version 8.5 that asks again with version 7.31 after it was told to.
\<close>

definition init_header :: InHeader where
  "init_header =
     \<lparr> in_header_len = 56, in_header_opcode = 26, in_header_unique = 2, in_header_nodeid = 0,
       in_header_uid = 0, in_header_gid = 0, in_header_pid = 0, in_header_total_extlen = 0,
       in_header_padding = 0 \<rparr>"

definition init_arg :: "u32 \<Rightarrow> u32 \<Rightarrow> fuse_init_in_compat_35" where
  "init_arg major minor =
     \<lparr> init_in_compat_35_major = major, init_in_compat_35_minor = minor,
       init_in_compat_35_max_readahead = 131072, init_in_compat_35_flags = 0 \<rparr>"

definition init_message :: "u32 \<Rightarrow> u32 \<Rightarrow> bytes" where
  "init_message major minor =
     pod_enc fuse_in_header_pod init_header @ pod_enc fuse_init_in_compat_35_pod (init_arg major minor)"

lemma init_message_parts:
  "msg_header_of (init_message major minor) = init_header" "length (init_message major minor) = 56"
  "drop 40 (init_message major minor) = pod_enc fuse_init_in_compat_35_pod (init_arg major minor)"
  "InHeader_opcode init_header = Ok FUSE_INIT" "request_wf (init_message major minor)"
proof -
  show h: "msg_header_of (init_message major minor) = init_header"
    by (simp add: msg_header_of_def init_message_def fuse_in_header.dec_enc pod_sizes)
  show l: "length (init_message major minor) = 56"
    by (simp add: init_message_def fuse_init_in_compat_35.enc_length pod_sizes)
  show "drop 40 (init_message major minor) = pod_enc fuse_init_in_compat_35_pod (init_arg major minor)"
    by (simp add: init_message_def)
  show o: "InHeader_opcode init_header = Ok FUSE_INIT"
    by (simp add: InHeader_opcode_Ok init_header_def)
  show "request_wf (init_message major minor)"
    by (simp add: request_wf_def h l InHeader_arg_len_INIT [OF o]) (simp add: init_header_def)
qed

lemma init_message_from_bytes:
  assumes "3 < minor" and "minor \<le> 35"
  shows "InitIn_from_bytes linux_extern 0 (pod_enc fuse_init_in_compat_35_pod (init_arg major minor)) =
    Some (InitIn_Compat35 (init_arg major minor))"
  using InitIn_from_bytes_compat_35 [of linux_extern 0 "init_arg major minor" "[]"] assms
  by (simp add: init_arg_def)

lemma init_negotiated:
  "\<exists>config'. negotiate linux_extern KernelConfig_new (InitIn_Compat35 (init_arg 7 31)) = Ok config' \<and>
    config_minor config' = 31"
  by (simp add: negotiate_eq negotiate_background_def mul_u16_def linux_extern_def KernelConfig_new_def
      negotiate_version_def init_arg_def abi_const)

theorem connect_terminates_witness:
  "\<exists>config' k'. connect_loop linux_extern sim_os 0 (Device_from_fd 0) KernelConfig_new
      \<lparr> buf_header = zeroed_in_header,
        buf_kind = BufKind_Vec \<lparr> vb_arg = replicate 8152 0, vb_pos = 0 \<rparr> \<rparr>
      \<lparr> sim_next = 0, sim_pipes = Map.empty, sim_dev = [init_message 8 5, init_message 7 31],
        sim_written = [] \<rparr> = Some (Ok (Session_new config'), k') \<and>
    config_minor config' = 31 \<and> v_dev sim_view k' 0 = []"
proof -
  let ?buf = "\<lparr> buf_header = zeroed_in_header,
    buf_kind = BufKind_Vec \<lparr> vb_arg = replicate 8152 0, vb_pos = 0 \<rparr> \<rparr>"
  let ?k = "\<lparr> sim_next = 0, sim_pipes = Map.empty, sim_dev = [init_message 8 5, init_message 7 31],
    sim_written = [] \<rparr>"
  obtain config' where
    n: "negotiate linux_extern KernelConfig_new (InitIn_Compat35 (init_arg 7 31)) = Ok config'"
      "config_minor config' = 31" using init_negotiated by blast
  have "RequestBuf_new_vec (unat FUSE_MIN_READ_BUFFER) = (Ok ?buf :: (io_error, RequestBuf) result)"
    by (simp add: RequestBuf_new_vec_def pod_sizes abi_const)
  moreover have "v_dev sim_view ?k (Device_fd (Device_from_fd 0)) = [init_message 8 5] @ init_message 7 31 # []"
    by (simp add: sim_view_def)
  moreover have "list_all (early_request linux_extern 0) [init_message 8 5]"
    by (simp add: early_request_def early_reply_def init_message_parts init_message_from_bytes abi_const Let_def)
      (simp add: init_arg_def)
  moreover have "final_request linux_extern 0 KernelConfig_new (init_message 7 31) config'"
    by (simp add: final_request_def init_message_parts init_message_from_bytes n(1) abi_const)
  moreover have "dev_write_ok sim_os sim_view (Device_fd (Device_from_fd 0))" by (simp add: sim_write_ok)
  ultimately have "\<exists>k'. connect_loop linux_extern sim_os 0 (Device_from_fd 0) KernelConfig_new ?buf ?k =
      Some (Ok (Session_new config'), k') \<and> v_dev sim_view k' (Device_fd (Device_from_fd 0)) = []"
    using connect_terminates [OF sim_os_ok, of "Device_from_fd 0" ?buf ?k "[init_message 8 5]"
        "init_message 7 31" "[]" linux_extern 0 KernelConfig_new config'] by blast
  with n(2) show ?thesis by auto
qed

text \<open>
  When \<open>connect\<close> fails, either \<open>mount\<close> has failed, and its error is passed on as it is, or the
  handshake has failed, and then the device was closed and unmounting was tried once, whose result
  is dropped.
\<close>

theorem connect_failure_unmounts:
  assumes "connect X S M declared addr mountpoint mountopts config k = Some (Err e, k')"
  shows "mount M declared mountpoint mountopts k = (Err e, k') \<or>
    (\<exists>fd mnt k1 k2 buf. mount M declared mountpoint mountopts k = (Ok (fd, mnt), k1) \<and>
      connect_loop X S addr (Device_from_fd fd) config buf k1 = Some (Err e, k2) \<and>
      k' = snd (unmount_action M mnt (os_close S fd k2)))"
proof (cases "mount M declared mountpoint mountopts k")
  case (Pair r k1)
  obtain buf where buf: "RequestBuf_new_vec (unat FUSE_MIN_READ_BUFFER) = (Ok buf :: (io_error, RequestBuf) result)"
    using new_vec_connect by blast
  show ?thesis
  proof (cases r)
    case (Ok p)
    then obtain fd mnt where p: "mount M declared mountpoint mountopts k = (Ok (fd, mnt), k1)"
      using Pair by (cases p) simp
    have "\<exists>k2. connect_loop X S addr (Device_from_fd fd) config buf k1 = Some (Err e, k2) \<and>
        k' = snd (unmount_action M mnt (os_close S fd k2))"
      using assms p buf
      by (auto simp: connect_def Mount_drop_def Mount_unmount_mut_eq Let_def
          split: option.splits result.splits prod.splits)
    with p show ?thesis by blast
  qed (use assms Pair in \<open>simp_all add: connect_def\<close>)
qed

end
