(* ===== verification/Receive.thy ===== *)
theory Receive
  imports Connect
begin

text \<open>
  Requests in the wire format as a session receives them: what \<open>recv_request\<close> and \<open>decode\<close>
  (\<open>src/session.rs\<close>) make of a message that waits on the connection.
\<close>

section \<open>Messages\<close>

text \<open>A request on the wire: header, argument and data.\<close>

definition wire_message :: "KernelConfig \<Rightarrow> InHeader \<Rightarrow> Operation \<Rightarrow> bytes \<Rightarrow> bytes" where
  "wire_message config header op data = pod_enc fuse_in_header_pod header @ wire_arg config op @ data"

text \<open>The operations whose requests carry data behind the argument.\<close>

fun has_data :: "Operation \<Rightarrow> bool" where
  "has_data (Write op) = True"
| "has_data (NotifyReply op) = True"
| "has_data op = False"

text \<open>The requests to which the protocol has a reply.\<close>

fun expects_reply :: "Operation \<Rightarrow> bool" where
  "expects_reply (Forget_op op) = False"
| "expects_reply (Interrupt op) = False"
| "expects_reply (NotifyReply op) = False"
| "expects_reply op = True"

section \<open>Lemmas\<close>

lemma wire_message_parts:
  "msg_header_of (wire_message config header op data) = header"
  "drop 40 (wire_message config header op data) = wire_arg config op @ data"
  "length (wire_message config header op data) = 40 + length (wire_arg config op) + length data"
  by (simp_all add: wire_message_def msg_header_of_def fuse_in_header.dec_enc pod_sizes)

lemma wire_opcode_not_INIT: "wire_opcode op \<noteq> FUSE_INIT \<and> wire_opcode op \<noteq> FUSE_DESTROY"
proof (cases op)
  case (Forget_op x)
  then show ?thesis by (cases x) simp_all
next
  case (Readdir x)
  then show ?thesis by (cases "Readdir_mode x") simp_all
qed simp_all

lemma receive_and_decode:
  assumes "bitflags_ok X" and "zerocopy_ok X" and "addr mod 8 = 0" and "os_ok S V"
    and "\<not> sess_exited s" and "op_wf X (sess_config s) op" and "wire_header op header"
    and "unat (in_header_len header) = length (wire_message (sess_config s) header op data)"
    and "length (wire_arg (sess_config s) op) \<le> InHeader_arg_len header"
    and "InHeader_arg_len header \<le> length (wire_arg (sess_config s) op) + length data"
    and "v_dev V k (Device_fd d) = wire_message (sess_config s) header op data # ms"
    and "vec_of_size n buf" and "length (wire_message (sess_config s) header op data) \<le> 40 + n"
  shows "\<exists>buf' k' stale.
    Session_recv_request S (device_conn S d) s buf k = Some (Ok True, s, buf', k') \<and>
    Session_decode X s buf' addr = Ok (\<lparr> req_header = header \<rparr>, op,
      RemainingData_Vec (drop (InHeader_arg_len header - length (wire_arg (sess_config s) op)) data @ stale)) \<and>
    vec_of_size n buf' \<and> v_dev V k' (Device_fd d) = ms \<and> v_written V k' = v_written V k"
proof -
  let ?config = "sess_config s" and ?n = "InHeader_arg_len header"
  let ?m = "wire_message ?config header op data" and ?arg = "wire_arg ?config op"
  have wf: "request_wf ?m"
    using assms(8,10) by (simp add: request_wf_def wire_message_parts)
  obtain vb where vb: "buf_kind buf = BufKind_Vec vb" "length (vb_arg vb) = n" "8152 \<le> n"
    using assms(12) by (auto simp: vec_of_size_def abi_const)
  let ?stale = "drop (length ?m - 40) (vb_arg vb)"
  from VecBuf_receives [OF assms(4,11) wf, of vb "buf_header buf"] assms(13) vb(2,3) obtain k' where
    r: "VecBuf_try_receive (device_conn S d) vb (buf_header buf) k =
      (Ok (), \<lparr> vb_arg = (?arg @ data) @ ?stale, vb_pos = ?n \<rparr>, header, k')"
      "v_dev V k' (Device_fd d) = ms" "v_written V k' = v_written V k"
    by (auto simp: wire_message_parts)
  let ?buf = "\<lparr> buf_header = header,
    buf_kind = BufKind_Vec \<lparr> vb_arg = (?arg @ data) @ ?stale, vb_pos = ?n \<rparr> \<rparr>"
  have "vec_of_size n ?buf"
    using assms(13) vb(2,3) by (simp add: vec_of_size_def wire_message_parts abi_const)
  have recv: "RequestBuf_try_receive S (device_conn S d) buf k = Some (Ok header, ?buf, k')"
    by (simp add: RequestBuf_try_receive_def vb(1) r(1))
  have opcode: "InHeader_opcode header = Ok (wire_opcode op)"
    using assms(7) by (simp add: wire_header_def InHeader_opcode_Ok)
  have "Session_recv_request S (device_conn S d) s buf k = Some (Ok True, s, ?buf, k')"
    using assms(5) wire_opcode_not_INIT [of op]
    by (simp add: Session_recv_request_def Session_recv_entered_def recv opcode)
  moreover have "take ?n (?arg @ data @ ?stale) = ?arg @ take (?n - length ?arg) data"
    "drop ?n (?arg @ data @ ?stale) = drop (?n - length ?arg) data @ ?stale"
    using assms(9,10) by simp_all
  then have "RequestBuf_to_parts ?buf = (Ok (header, ?arg @ take (?n - length ?arg) data,
      RemainingData_Vec (drop (?n - length ?arg) data @ ?stale))
      :: (DecodeError, InHeader \<times> bytes \<times> RemainingData) result)"
    using assms(10) by (simp add: RequestBuf_to_parts_def del: take_append drop_append)
  then have "Session_decode X s ?buf addr = Ok (\<lparr> req_header = header \<rparr>, op,
      RemainingData_Vec (drop (?n - length ?arg) data @ ?stale))"
    by (simp add: Session_decode_def decode_wire_arg [OF assms(1-3,6,7)])
  ultimately show ?thesis using \<open>vec_of_size n ?buf\<close> r(2,3) by blast
qed

lemma arg_len_wire:
  assumes "wire_header op header"
    and "unat (in_header_len header) = length (wire_message config header op data)"
    and "data = [] \<or> has_data op"
    and "\<not> (config_minor config \<le> 8 \<and> wire_opcode op = FUSE_WRITE)"
  shows "InHeader_arg_len header = length (wire_arg config op)"
proof -
  have opcode: "InHeader_opcode header = Ok (wire_opcode op)"
    using assms(1) by (simp add: wire_header_def InHeader_opcode_Ok)
  consider w where "op = Write w" | r where "op = NotifyReply r" | "\<not> has_data op"
    by (cases op) auto
  then show ?thesis
  proof cases
    case 1
    with opcode assms(4) show ?thesis
      by (simp add: InHeader_arg_len_def fuse_write_in.enc_length pod_sizes)
  next
    case 2
    with opcode show ?thesis
      by (simp add: InHeader_arg_len_def fuse_notify_retrieve_in.enc_length pod_sizes)
  next
    case 3
    then have "wire_opcode op \<noteq> FUSE_WRITE \<and> wire_opcode op \<noteq> FUSE_NOTIFY_REPLY"
    proof (cases op)
      case (Forget_op x)
      then show ?thesis by (cases x) simp_all
    next
      case (Readdir x)
      then show ?thesis by (cases "Readdir_mode x") simp_all
    qed (use 3 in simp_all)
    with 3 assms(2,3) opcode show ?thesis
      by (simp add: InHeader_arg_len_other wire_message_parts)
  qed
qed

text \<open>
  A request without data that the kernel sends in the negotiated version of the protocol: it is
  received and decoded to the operation, and nothing else happens to the connection.
\<close>

definition request_on_wire :: "extern \<Rightarrow> KernelConfig \<Rightarrow> nat \<Rightarrow> InHeader \<Rightarrow> Operation \<Rightarrow> bool" where
  "request_on_wire X config n header op \<longleftrightarrow>
     op_wf X config op \<and> wire_sent config op \<and> wire_header op header \<and> \<not> has_data op \<and>
     unat (in_header_len header) = length (wire_message config header op []) \<and>
     length (wire_message config header op []) \<le> 40 + n"

lemma receive_request:
  assumes "bitflags_ok X" and "zerocopy_ok X" and "addr mod 8 = 0" and "os_ok S V"
    and "\<not> sess_exited s" and "request_on_wire X (sess_config s) n header op"
    and "v_dev V k (Device_fd d) = wire_message (sess_config s) header op [] # ms" and "vec_of_size n buf"
  obtains buf' k' remains where
    "Session_recv_request S (device_conn S d) s buf k = Some (Ok True, s, buf', k')"
    and "Session_decode X s buf' addr = Ok (\<lparr> req_header = header \<rparr>, op, RemainingData_Vec remains)"
    and "vec_of_size n buf'" and "v_dev V k' (Device_fd d) = ms" and "v_written V k' = v_written V k"
proof -
  from assms(6) have r: "op_wf X (sess_config s) op" "wire_header op header" "\<not> has_data op"
    "unat (in_header_len header) = length (wire_message (sess_config s) header op [])"
    "length (wire_message (sess_config s) header op []) \<le> 40 + n"
    by (simp_all add: request_on_wire_def)
  have "wire_opcode op \<noteq> FUSE_WRITE" using r(3)
  proof (cases op)
    case (Forget_op x)
    then show ?thesis by (cases x) simp_all
  next
    case (Readdir x)
    then show ?thesis by (cases "Readdir_mode x") simp_all
  qed simp_all
  with arg_len_wire [OF r(2,4)] have len: "InHeader_arg_len header = length (wire_arg (sess_config s) op)"
    by simp
  from receive_and_decode [OF assms(1-5) r(1,2,4) _ _ assms(7,8) r(5)] that show ?thesis
    by (auto simp: len)
qed

text \<open>The last message of a connection ends the session.\<close>

definition destroy_message :: "bytes \<Rightarrow> bool" where
  "destroy_message m \<longleftrightarrow> request_wf m \<and> InHeader_opcode (msg_header_of m) = Ok FUSE_DESTROY"

lemma receive_destroy:
  assumes "os_ok S V" and "\<not> sess_exited s" and "vec_of_size n buf"
    and "v_dev V k (Device_fd d) = m # ms" and "destroy_message m" and "length m \<le> 40 + n"
  obtains buf' k' where
    "Session_recv_request S (device_conn S d) s buf k = Some (Ok False, Session_exit s, buf', k')"
    and "v_dev V k' (Device_fd d) = ms" and "v_written V k' = v_written V k"
proof -
  have "request_wf m" using assms(5) by (simp add: destroy_message_def)
  from receive_message [OF assms(1,3,4) this assms(6)] obtain buf' k' where
    "RequestBuf_try_receive S (device_conn S d) buf k = Some (Ok (msg_header_of m), buf', k')"
    "v_dev V k' (Device_fd d) = ms" "v_written V k' = v_written V k" by blast
  with assms(2,5) that show ?thesis
    by (auto simp: Session_recv_request_def Session_recv_entered_def destroy_message_def)
qed

text \<open>Sample messages.\<close>

definition request_header :: "u32 \<Rightarrow> u32 \<Rightarrow> u64 \<Rightarrow> InHeader" where
  "request_header len opcode nodeid =
     \<lparr> in_header_len = len, in_header_opcode = opcode, in_header_unique = 6, in_header_nodeid = nodeid,
       in_header_uid = 0, in_header_gid = 0, in_header_pid = 1, in_header_total_extlen = 0,
       in_header_padding = 0 \<rparr>"

definition destroy_sample :: bytes where
  "destroy_sample = pod_enc fuse_in_header_pod (request_header 40 38 0)"

lemma destroy_sample: "destroy_message destroy_sample" "length destroy_sample = 40"
proof -
  have h: "msg_header_of destroy_sample = request_header 40 38 0"
    by (simp add: msg_header_of_def destroy_sample_def fuse_in_header.dec_enc pod_sizes)
  have op: "InHeader_opcode (request_header 40 38 0) = Ok FUSE_DESTROY"
    by (simp add: InHeader_opcode_Ok request_header_def)
  show l: "length destroy_sample = 40" by (simp add: destroy_sample_def)
  show "destroy_message destroy_sample"
    by (simp add: destroy_message_def request_wf_def h op l InHeader_arg_len_other)
      (simp add: request_header_def)
qed

definition memory_buf :: "nat \<Rightarrow> RequestBuf" where
  "memory_buf n =
     \<lparr> buf_header = zeroed_in_header, buf_kind = BufKind_Vec \<lparr> vb_arg = replicate n 0, vb_pos = 0 \<rparr> \<rparr>"

lemma vec_of_size_memory: "8152 \<le> n \<Longrightarrow> vec_of_size n (memory_buf n)"
  by (simp add: vec_of_size_def memory_buf_def abi_const)

definition waiting :: "bytes list \<Rightarrow> sim_state" where
  "waiting ms = \<lparr> sim_next = 0, sim_pipes = Map.empty, sim_dev = ms, sim_written = [] \<rparr>"

lemma waiting_view: "v_dev sim_view (waiting ms) 0 = ms" "v_written sim_view (waiting ms) 0 = []"
  by (simp_all add: waiting_def sim_view_def)

abbreviation getattr_of :: "NodeID \<Rightarrow> Operation" where
  "getattr_of ino \<equiv> Getattr \<lparr> Getattr_ino = ino, Getattr_fh = None \<rparr>"

lemma getattr_on_wire:
  "request_on_wire linux_extern KernelConfig_new 8152 (request_header 56 3 (NodeID_into_raw ino)) (getattr_of ino)"
  by (simp add: request_on_wire_def wire_header_def wire_sent_def wire_message_parts request_header_def
      fuse_getattr_in.enc_length pod_sizes KernelConfig_new_def abi_const)

end
