(* ===== verification/Dirent.thy ===== *)
theory Dirent
  imports Reply
begin

text \<open>
  The buffer of directory entries (\<open>DirEntryBuf\<close> in \<open>src/reply.rs\<close>). Entries are records of the
  wire format \<open>fuse_dirent\<close>, each followed by its name and padded to eight bytes. The abstract
  state of a buffer is the list of entries that the kernel reads from it, and \<open>push_entry\<close>
  refines appending to that list.
\<close>

section \<open>The buffer\<close>

text \<open>A vector of bytes with the capacity it has reserved; growing beyond it reallocates.\<close>

record DirEntryBuf =
  dir_buf :: bytes
  dir_capacity :: nat

definition Vec_extend_from_slice :: "DirEntryBuf \<Rightarrow> bytes \<Rightarrow> DirEntryBuf" where
  "Vec_extend_from_slice v xs =
     v\<lparr> dir_buf := dir_buf v @ xs, dir_capacity := max (dir_capacity v) (length (dir_buf v) + length xs) \<rparr>"

definition Vec_resize :: "DirEntryBuf \<Rightarrow> nat \<Rightarrow> u8 \<Rightarrow> DirEntryBuf" where
  "Vec_resize v n x =
     (if n \<le> length (dir_buf v) then v\<lparr> dir_buf := take n (dir_buf v) \<rparr>
      else Vec_extend_from_slice v (replicate (n - length (dir_buf v)) x))"

text \<open>
  \<open>Vec::with_capacity\<close> reserves at least what was asked for; \<open>reserve\<close> is what the allocator
  returns.
\<close>

definition DirEntryBuf_new :: "(nat \<Rightarrow> nat) \<Rightarrow> nat \<Rightarrow> DirEntryBuf" where
  "DirEntryBuf_new reserve capacity = \<lparr> dir_buf = [], dir_capacity = max capacity (reserve capacity) \<rparr>"

text \<open>
  \<open>aligned\<close> masks the low bits. The length of a slice is at most \<open>isize::MAX\<close>, so the addition
  does not overflow.
\<close>

definition aligned :: "nat \<Rightarrow> nat" where
  "aligned len = nat ((int len + 8 - 1) AND NOT (8 - 1))"

fun dirent_type :: "FileType option \<Rightarrow> u8" where
  "dirent_type (Some BlockDevice) = DT_BLK"
| "dirent_type (Some CharacterDevice) = DT_CHR"
| "dirent_type (Some Directory) = DT_DIR"
| "dirent_type (Some Fifo) = DT_FIFO"
| "dirent_type (Some SymbolicLink) = DT_LNK"
| "dirent_type (Some Regular) = DT_REG"
| "dirent_type (Some Socket) = DT_SOCK"
| "dirent_type None = DT_UNKNOWN"

text \<open>The result says whether the buffer is full, in which case nothing was written.\<close>

definition push_entry ::
    "DirEntryBuf \<Rightarrow> bytes \<Rightarrow> NodeID \<Rightarrow> FileType option \<Rightarrow> u64 \<Rightarrow> ('e, bool \<times> DirEntryBuf) result" where
  "push_entry self name ino typ offset =
     (let remaining = dir_capacity self - length (dir_buf self);
          entry_size = pod_size fuse_dirent_pod + length name;
          aligned_entry_size = aligned entry_size
      in if remaining < aligned_entry_size then Ok (True, self)
         else if 2 ^ 32 \<le> length name then Panic
         else
           let dirent =
                 \<lparr> dirent_ino = NodeID_into_raw ino, dirent_off = offset,
                   dirent_namelen = of_nat (length name), dirent_typ = ucast (dirent_type typ),
                   dirent_name = [] \<rparr>;
               lenbefore = length (dir_buf self);
               self = Vec_extend_from_slice self (pod_enc fuse_dirent_pod dirent);
               self = Vec_extend_from_slice self name;
               self = Vec_resize self (lenbefore + aligned_entry_size) 0
           in Ok (False, self))"

definition reply_dir :: "'r reply_raw \<Rightarrow> DirEntryBuf \<Rightarrow> 'r" where
  "reply_dir reply_raw out = reply_raw None (Bytes_Pointer (Bytes_Str (dir_buf out)))"

section \<open>The entries of a buffer\<close>

record dir_entry =
  entry_ino :: u64
  entry_off :: u64
  entry_typ :: u32
  entry_name :: bytes

text \<open>
  The reader of the kernel: an entry starts at a multiple of eight bytes, is as long as its name
  asks for, and the first incomplete entry ends the list.
\<close>

function parse_dirents :: "bytes \<Rightarrow> dir_entry list" where
  "parse_dirents bs =
     (if length bs < 24 then []
      else
        let d = pod_dec fuse_dirent_pod (take 24 bs);
            namelen = unat (dirent_namelen d);
            reclen = align_up (24 + namelen) 8
        in if length bs < reclen then []
           else
             \<lparr> entry_ino = dirent_ino d, entry_off = dirent_off d, entry_typ = dirent_typ d,
               entry_name = take namelen (drop 24 bs) \<rparr> # parse_dirents (drop reclen bs))"
  by auto

definition enc_dirent :: "dir_entry \<Rightarrow> bytes" where
  "enc_dirent e =
     pod_enc fuse_dirent_pod
       \<lparr> dirent_ino = entry_ino e, dirent_off = entry_off e,
         dirent_namelen = of_nat (length (entry_name e)), dirent_typ = entry_typ e, dirent_name = [] \<rparr> @
     entry_name e @
     replicate (align_up (24 + length (entry_name e)) 8 - (24 + length (entry_name e))) 0"

definition entry_wf :: "dir_entry \<Rightarrow> bool" where
  "entry_wf e \<longleftrightarrow> length (entry_name e) < 2 ^ 32"

definition the_entry :: "bytes \<Rightarrow> NodeID \<Rightarrow> FileType option \<Rightarrow> u64 \<Rightarrow> dir_entry" where
  "the_entry name ino typ offset =
     \<lparr> entry_ino = NodeID_into_raw ino, entry_off = offset, entry_typ = ucast (dirent_type typ),
       entry_name = name \<rparr>"

text \<open>A buffer holds whole entries within its capacity.\<close>

definition dir_wf :: "DirEntryBuf \<Rightarrow> bool" where
  "dir_wf b \<longleftrightarrow> length (dir_buf b) \<le> dir_capacity b \<and>
     dir_buf b = concat (map enc_dirent (parse_dirents (dir_buf b))) \<and>
     list_all entry_wf (parse_dirents (dir_buf b))"

text \<open>The specification: a list of entries, and a bound on the bytes they take.\<close>

definition entries_size :: "dir_entry list \<Rightarrow> nat" where
  "entries_size es = sum_list (map (\<lambda>e. align_up (24 + length (entry_name e)) 8) es)"

definition spec_push :: "nat \<Rightarrow> dir_entry list \<Rightarrow> dir_entry \<Rightarrow> bool \<times> dir_entry list" where
  "spec_push capacity es e =
     (if entries_size (es @ [e]) \<le> capacity then (False, es @ [e]) else (True, es))"

section \<open>Lemmas\<close>

lemma align_up_8: "n \<le> align_up n 8" "align_up n 8 < n + 8" "8 dvd align_up n 8"
proof -
  have "align_up n 8 = n + 7 - (n + 7) mod 8"
    by (simp add: align_up_def minus_mod_eq_div_mult [symmetric] add.commute)
  moreover have "(n + 7) mod 8 < 8" by simp
  ultimately show "n \<le> align_up n 8" "align_up n 8 < n + 8" by linarith+
  show "8 dvd align_up n 8" by (simp add: align_up_def)
qed

lemma and_not_mask_int: "(k :: int) AND NOT (mask n) = push_bit n (drop_bit n k)"
  by (intro bit_eqI)
    (auto simp: bit_mask_iff bit_and_iff bit_not_int_iff bit_push_bit_iff_int bit_drop_bit_eq not_less)

lemma aligned_eq: "aligned n = align_up n 8"
proof -
  have "(int n + 7) AND NOT 7 = int ((n + 7) div 8 * 8)"
    using and_not_mask_int [of "int n + 7" 3]
    by (simp add: push_bit_eq_mult drop_bit_eq_div zdiv_int mask_eq_exp_minus_1 add.commute)
  then show ?thesis by (simp add: aligned_def align_up_def add.commute)
qed

termination parse_dirents
proof (relation "measure length", goal_cases)
  case (2 bs d namelen reclen)
  then have "24 \<le> reclen" using align_up_8(1) [of "24 + namelen"] by simp
  with 2 show ?case by simp
qed simp

declare parse_dirents.simps [simp del]

lemma dirent_wf: "pod_wf fuse_dirent_pod d \<longleftrightarrow> dirent_name d = []"
  by (simp add: fuse_dirent_pod_def pod_sel list_all_iff)

lemma length_dirent: "dirent_name d = [] \<Longrightarrow> length (pod_enc fuse_dirent_pod d) = 24"
  by (simp add: fuse_dirent.enc_length dirent_wf pod_sizes)

lemma length_enc_dirent: "length (enc_dirent e) = align_up (24 + length (entry_name e)) 8"
  using align_up_8(1) [of "24 + length (entry_name e)"]
  by (simp add: enc_dirent_def length_dirent)

lemma length_entries: "length (concat (map enc_dirent es)) = entries_size es"
  by (induction es) (simp_all add: entries_size_def length_enc_dirent)

lemma parse_dirents_Nil: "parse_dirents [] = []"
  by (simp add: parse_dirents.simps)

lemma parse_enc_dirent:
  assumes "entry_wf e"
  shows "parse_dirents (enc_dirent e @ bs) = e # parse_dirents bs"
proof -
  let ?d = "\<lparr> dirent_ino = entry_ino e, dirent_off = entry_off e,
    dirent_namelen = of_nat (length (entry_name e)), dirent_typ = entry_typ e, dirent_name = [] \<rparr>"
  have n: "unat (of_nat (length (entry_name e)) :: u32) = length (entry_name e)"
    using assms by (simp add: entry_wf_def unsigned_of_nat take_bit_nat_eq_self)
  have d: "pod_dec fuse_dirent_pod (take 24 (enc_dirent e @ bs)) = ?d"
    by (simp add: enc_dirent_def length_dirent fuse_dirent.dec_enc dirent_wf)
  have name: "take (length (entry_name e)) (drop 24 (enc_dirent e @ bs)) = entry_name e"
    by (simp add: enc_dirent_def length_dirent)
  have l: "24 \<le> align_up (24 + length (entry_name e)) 8"
    using align_up_8(1) [of "24 + length (entry_name e)"] by simp
  have "drop (align_up (24 + length (entry_name e)) 8) (enc_dirent e @ bs) = bs"
    by (simp add: length_enc_dirent)
  with l show ?thesis
    by (subst parse_dirents.simps) (simp add: d n name length_enc_dirent Let_def del: take_append drop_append)
qed

lemma parse_entries:
  "list_all entry_wf es \<Longrightarrow> parse_dirents (concat (map enc_dirent es) @ bs) = es @ parse_dirents bs"
  by (induction es) (simp_all add: parse_enc_dirent)

lemma dir_wfD:
  assumes "dir_wf b"
  shows "length (dir_buf b) \<le> dir_capacity b"
    and "dir_buf b = concat (map enc_dirent (parse_dirents (dir_buf b)))"
    and "list_all entry_wf (parse_dirents (dir_buf b))"
  using assms unfolding dir_wf_def by blast+

lemma dir_wfI:
  assumes "dir_buf b = concat (map enc_dirent es)" and "list_all entry_wf es"
    and "length (dir_buf b) \<le> dir_capacity b"
  shows "dir_wf b" and "parse_dirents (dir_buf b) = es"
proof -
  show *: "parse_dirents (dir_buf b) = es"
    using parse_entries [OF assms(2), of "[]"] by (simp add: assms(1) parse_dirents_Nil)
  show "dir_wf b" unfolding dir_wf_def * using assms by blast
qed

lemma push_entry_eq:
  assumes "dir_wf b" and "length name < 2 ^ 32"
  shows "push_entry b name ino typ offset =
    Ok (if dir_capacity b < length (dir_buf b) + align_up (24 + length name) 8 then (True, b)
        else (False, b\<lparr> dir_buf := dir_buf b @ enc_dirent (the_entry name ino typ offset) \<rparr>))"
  using dir_wfD(1) [OF assms(1)] assms(2) align_up_8(1) [of "24 + length name"]
  by (auto simp: push_entry_def aligned_eq pod_sizes Let_def Vec_resize_def
      Vec_extend_from_slice_def length_dirent enc_dirent_def the_entry_def less_diff_conv2)

lemma dir_wf_push:
  assumes "dir_wf b" and "entry_wf e" and "length (dir_buf b) + length (enc_dirent e) \<le> dir_capacity b"
  shows "dir_wf (b\<lparr> dir_buf := dir_buf b @ enc_dirent e \<rparr>)"
    and "parse_dirents (dir_buf b @ enc_dirent e) = parse_dirents (dir_buf b) @ [e]"
proof -
  let ?es = "parse_dirents (dir_buf b)" and ?b' = "b\<lparr> dir_buf := dir_buf b @ enc_dirent e \<rparr>"
  have "dir_buf ?b' = concat (map enc_dirent (?es @ [e]))"
    using dir_wfD(2) [OF assms(1)] by simp
  moreover have "list_all entry_wf (?es @ [e])"
    using dir_wfD(3) [OF assms(1)] assms(2) by simp
  moreover have "length (dir_buf ?b') \<le> dir_capacity ?b'"
    using assms(3) by simp
  ultimately have "dir_wf ?b'" "parse_dirents (dir_buf ?b') = ?es @ [e]"
    by (rule dir_wfI)+
  then show "dir_wf ?b'" "parse_dirents (dir_buf b @ enc_dirent e) = ?es @ [e]"
    by simp_all
qed

lemma spec_push_eq:
  "dir_wf b \<Longrightarrow> spec_push (dir_capacity b) (parse_dirents (dir_buf b)) e =
    (if dir_capacity b < length (dir_buf b) + align_up (24 + length (entry_name e)) 8
     then (True, parse_dirents (dir_buf b)) else (False, parse_dirents (dir_buf b) @ [e]))"
proof -
  assume "dir_wf b"
  then have "dir_buf b = concat (map enc_dirent (parse_dirents (dir_buf b)))"
    by (rule dir_wfD)
  then have "length (dir_buf b) = entries_size (parse_dirents (dir_buf b))"
    using length_entries [of "parse_dirents (dir_buf b)"] by argo
  then show ?thesis by (simp add: spec_push_def entries_size_def)
qed

text \<open>The outcome of a push, and the abstract state after it.\<close>

lemma push_entry_refines:
  assumes "dir_wf b" and "length name < 2 ^ 32"
  obtains full b' where "push_entry b name ino typ offset = Ok (full, b')" and "dir_wf b'"
    and "dir_capacity b' = dir_capacity b"
    and "(full, parse_dirents (dir_buf b')) =
      spec_push (dir_capacity b) (parse_dirents (dir_buf b)) (the_entry name ino typ offset)"
proof (cases "dir_capacity b < length (dir_buf b) + align_up (24 + length name) 8")
  case True
  with assms show ?thesis
    by (intro that [of True b]) (simp_all add: push_entry_eq spec_push_eq the_entry_def)
next
  case False
  let ?e = "the_entry name ino typ offset"
  have "entry_wf ?e" "length (dir_buf b) + length (enc_dirent ?e) \<le> dir_capacity b"
    using False assms(2) by (simp_all add: entry_wf_def the_entry_def length_enc_dirent)
  note push = dir_wf_push [OF assms(1) this]
  show ?thesis
  proof (rule that)
    show "push_entry b name ino typ offset = Ok (False, b\<lparr> dir_buf := dir_buf b @ enc_dirent ?e \<rparr>)"
      using False assms by (simp add: push_entry_eq)
    show "(False, parse_dirents (dir_buf (b\<lparr> dir_buf := dir_buf b @ enc_dirent ?e \<rparr>))) =
        spec_push (dir_capacity b) (parse_dirents (dir_buf b)) ?e"
      using False assms(1) push(2) by (simp add: spec_push_eq the_entry_def)
  qed (use push(1) in simp_all)
qed

text \<open>Pushing a list of entries, until one does not fit.\<close>

fun push_entries ::
    "DirEntryBuf \<Rightarrow> (bytes \<times> NodeID \<times> FileType option \<times> u64) list \<Rightarrow> ('e, DirEntryBuf) result" where
  "push_entries b [] = Ok b"
| "push_entries b ((name, ino, typ, offset) # es) =
     and_then (push_entry b name ino typ offset)
       (\<lambda>(full, b). if full then Ok b else push_entries b es)"

lemma dir_wf_new: "dir_wf (DirEntryBuf_new reserve capacity)"
  by (simp add: dir_wf_def DirEntryBuf_new_def parse_dirents_Nil)

lemma push_entries_prefix:
  assumes "dir_wf b" and "\<forall>(name, _) \<in> set es. length name < 2 ^ 32"
  shows "\<exists>n b'. push_entries b es = (Ok b' :: ('e, DirEntryBuf) result) \<and> dir_wf b' \<and> dir_capacity b' = dir_capacity b \<and>
    parse_dirents (dir_buf b') =
      parse_dirents (dir_buf b) @ map (\<lambda>(name, ino, typ, offset). the_entry name ino typ offset) (take n es)"
  using assms
proof (induction es arbitrary: b)
  case Nil
  then show ?case by simp
next
  case (Cons e es)
  obtain name ino ty off where e: "e = (name, ino, ty, off)" by (cases e) auto
  with Cons.prems have "length name < 2 ^ 32" by simp
  from push_entry_refines [OF Cons.prems(1) this] obtain full b' where
    p: "push_entry b name ino ty off = (Ok (full, b') :: ('e, bool \<times> DirEntryBuf) result)" "dir_wf b'" "dir_capacity b' = dir_capacity b"
      "(full, parse_dirents (dir_buf b')) =
        spec_push (dir_capacity b) (parse_dirents (dir_buf b)) (the_entry name ino ty off)" .
  show ?case
  proof (cases full)
    case True
    with p(4) have "parse_dirents (dir_buf b') = parse_dirents (dir_buf b)"
      by (simp add: spec_push_def split: if_splits)
    moreover have "push_entries b (e # es) = (Ok b' :: ('e, DirEntryBuf) result)"
      by (simp add: e p(1) True)
    ultimately show ?thesis using p(2,3) by (intro exI [of _ 0] exI [of _ b']) simp
  next
    case False
    with p(4) have new: "parse_dirents (dir_buf b') = parse_dirents (dir_buf b) @ [the_entry name ino ty off]"
      by (simp add: spec_push_def split: if_splits)
    from Cons.prems(2) have "\<forall>(name, _) \<in> set es. length name < 2 ^ 32" by simp
    from Cons.IH [OF p(2) this] obtain n b'' where
      IH: "push_entries b' es = (Ok b'' :: ('e, DirEntryBuf) result)" "dir_wf b''"
        "dir_capacity b'' = dir_capacity b'" "parse_dirents (dir_buf b'') = parse_dirents (dir_buf b') @
          map (\<lambda>(name, ino, typ, offset). the_entry name ino typ offset) (take n es)" by blast
    have "push_entries b (e # es) = (Ok b'' :: ('e, DirEntryBuf) result)"
      by (simp add: e p(1) False IH(1))
    with IH(2-4) show ?thesis
      by (intro exI [of _ "Suc n"] exI [of _ b'']) (simp add: new e p(3))
  qed
qed

section \<open>Properties\<close>

text \<open>C5: \<open>push_entry\<close> refines appending to the list of entries: on a well-formed buffer it returns,
  the buffer stays well-formed with the same capacity (it is never reallocated), and the entries
  the kernel reads from it are the old ones followed by the new one, or the old ones alone, with
  the answer that the buffer is full, exactly when the new one does not fit.
\<close>

theorem push_entry_refines_spec:
  assumes "dir_wf b" and "length name < 2 ^ 32"
  shows "\<exists>full b'. push_entry b name ino typ offset =
      (Ok (full, b') :: ('e, bool \<times> DirEntryBuf) result) \<and> dir_wf b' \<and>
    dir_capacity b' = dir_capacity b \<and>
    (full, parse_dirents (dir_buf b')) =
      spec_push (dir_capacity b) (parse_dirents (dir_buf b)) (the_entry name ino typ offset)"
proof -
  obtain full b' where "push_entry b name ino typ offset =
      (Ok (full, b') :: ('e, bool \<times> DirEntryBuf) result)" "dir_wf b'"
    "dir_capacity b' = dir_capacity b" "(full, parse_dirents (dir_buf b')) =
      spec_push (dir_capacity b) (parse_dirents (dir_buf b)) (the_entry name ino typ offset)"
    using assms by (rule push_entry_refines)
  then show ?thesis by (intro exI conjI)
qed

theorem push_entry_refines_spec_witness:
  "\<exists>full b'. push_entry (DirEntryBuf_new id 64) [46] NodeID_ROOT (Some Directory) 1 = Ok (full, b') \<and>
    dir_wf b' \<and> dir_capacity b' = dir_capacity (DirEntryBuf_new id 64) \<and>
    (full, parse_dirents (dir_buf b')) =
      spec_push (dir_capacity (DirEntryBuf_new id 64)) (parse_dirents (dir_buf (DirEntryBuf_new id 64)))
        (the_entry [46] NodeID_ROOT (Some Directory) 1)"
  by (rule push_entry_refines_spec) (simp_all add: dir_wf_new)

text \<open>Filling a new buffer from a list of entries never panics for names shorter than 4 GiB, and
  the kernel reads back a prefix of the list, each entry with its node, offset, type and name, in
  a buffer of at most the capacity.
\<close>

theorem push_entries_read_back:
  assumes "\<forall>(name, _) \<in> set es. length name < 2 ^ 32"
  shows "\<exists>n b. push_entries (DirEntryBuf_new reserve capacity) es =
      (Ok b :: ('e, DirEntryBuf) result) \<and>
    length (dir_buf b) \<le> max capacity (reserve capacity) \<and>
    parse_dirents (dir_buf b) =
      map (\<lambda>(name, ino, typ, offset). the_entry name ino typ offset) (take n es)"
proof -
  let ?new = "DirEntryBuf_new reserve capacity"
  from push_entries_prefix [OF dir_wf_new assms] obtain n b where
    b: "push_entries ?new es = (Ok b :: ('e, DirEntryBuf) result)" "dir_wf b" "dir_capacity b = dir_capacity ?new"
      "parse_dirents (dir_buf b) = parse_dirents (dir_buf ?new) @
        map (\<lambda>(name, ino, typ, offset). the_entry name ino typ offset) (take n es)" by blast
  have new: "dir_capacity ?new = max capacity (reserve capacity)" "parse_dirents (dir_buf ?new) = []"
    by (simp_all add: DirEntryBuf_new_def parse_dirents_Nil)
  show ?thesis
  proof (intro exI conjI)
    show "length (dir_buf b) \<le> max capacity (reserve capacity)"
      using b(2,3) new(1) unfolding dir_wf_def by argo
    show "parse_dirents (dir_buf b) =
        map (\<lambda>(name, ino, typ, offset). the_entry name ino typ offset) (take n es)"
      using b(4) new(2) by simp
  qed (fact b(1))
qed

text \<open>
  Pushing an entry panics exactly when its name does not fit in 32 bits although the buffer
  has room for it.
\<close>

lemma push_entry_panics:
  "push_entry b name ino typ offset = (Panic :: ('e, bool \<times> DirEntryBuf) result) \<longleftrightarrow>
    2 ^ 32 \<le> length name \<and>
    align_up (24 + length name) 8 \<le> dir_capacity b - length (dir_buf b)"
  by (auto simp: push_entry_def aligned_eq pod_sizes Let_def)

end
