(* ===== verification/Serve.thy ===== *)
theory Serve
  imports Receive Dirent
begin

text \<open>
  What the programs under \<open>examples\<close> have in common: the loop that receives, decodes and answers
  requests, the function \<open>main\<close> around it with the thread that waits for signals, and the contract of
  a filesystem that answers every request with one reply.
\<close>

section \<open>The loop\<close>

text \<open>The causes of an \<open>anyhow::Error\<close>.\<close>

datatype server_error =
    Server_io io_error
  | Server_decode DecodeError
  | Server_errno i32
  | Server_ensure

fun server_result :: "(io_error, unit) result \<Rightarrow> (server_error, unit) result" where
  "server_result (Ok x) = Ok x"
| "server_result (Err e) = Err (Server_io e)"
| "server_result Panic = Panic"

text \<open>
  The body of the \<open>match\<close> on the operation. It acts on the session, on the rest of the request and on
  the state of the operating system, and on the state of the filesystem. \<open>None\<close> stands for a body that
  does not return.
\<close>

type_synonym ('k, 's) served =
  "((server_error, unit) result \<times> Session \<times> RemainingData \<times> 'k \<times> 's) option"
type_synonym ('k, 's) fs_handler =
  "Session \<Rightarrow> Request \<Rightarrow> Operation \<Rightarrow> RemainingData \<Rightarrow> 'k \<Rightarrow> 's \<Rightarrow> ('k, 's) served"

text \<open>\<open>req.reply(\<dots>)?\<close> as the last step of a handler.\<close>

definition answer ::
    "((io_error, unit) result \<times> Session \<times> 'k) option \<Rightarrow> RemainingData \<Rightarrow> 's \<Rightarrow> ('k, 's) served" where
  "answer reply remains fs =
     map_option (\<lambda>(r, self, k). (server_result r, self, remains, k, fs)) reply"

abbreviation device_reply ::
    "'k os \<Rightarrow> Device \<Rightarrow> Session \<Rightarrow> 'k \<Rightarrow> Request \<Rightarrow>
      ((io_error, unit) result \<times> Session \<times> 'k) option reply_raw" where
  "device_reply S device self k req \<equiv> Request_reply_raw (Device_write_vectored S device) self k req"

text \<open>
  The rest of a request is borrowed from the buffer: when it is read from a pipe, the pipe of the
  buffer has advanced.
\<close>

definition give_back :: "RemainingData \<Rightarrow> RequestBuf \<Rightarrow> RequestBuf" where
  "give_back remains buf =
     (case (remains, buf_kind buf) of
        (RemainingData_Pipe p, BufKind_Pipe pb) \<Rightarrow> buf\<lparr> buf_kind := BufKind_Pipe (pb\<lparr> pb_pipe := p \<rparr>) \<rparr>
      | _ \<Rightarrow> buf)"

partial_function (option) serve ::
    "extern \<Rightarrow> 'k os \<Rightarrow> Device \<Rightarrow> nat \<Rightarrow> ('k, 's) fs_handler \<Rightarrow> Session \<Rightarrow> RequestBuf \<Rightarrow> 'k \<Rightarrow> 's \<Rightarrow>
      ((server_error, unit) result \<times> Session \<times> RequestBuf \<times> 'k \<times> 's) option" where
  "serve X S device addr handle self buf k fs =
     (case Session_recv_request S (device_conn S device) self buf k of
        None \<Rightarrow> None
      | Some (Err e, self, buf, k) \<Rightarrow> Some (Err (Server_io e), self, buf, k, fs)
      | Some (Panic, self, buf, k) \<Rightarrow> Some (Panic, self, buf, k, fs)
      | Some (Ok received, self, buf, k) \<Rightarrow>
          if \<not> received then Some (Ok (), self, buf, k, fs)
          else
            (case Session_decode X self buf addr of
               Err e \<Rightarrow> Some (Err (Server_decode e), self, buf, k, fs)
             | Panic \<Rightarrow> Some (Panic, self, buf, k, fs)
             | Ok (req, op, remains) \<Rightarrow>
                 (case handle self req op remains k fs of
                    None \<Rightarrow> None
                  | Some (Ok _, self, remains, k, fs) \<Rightarrow>
                      serve X S device addr handle self (give_back remains buf) k fs
                  | Some (Err e, self, remains, k, fs) \<Rightarrow>
                      Some (Err e, self, give_back remains buf, k, fs)
                  | Some (Panic, self, remains, k, fs) \<Rightarrow>
                      Some (Panic, self, give_back remains buf, k, fs))))"

section \<open>The main function\<close>

text \<open>Dropping a buffer closes its pipe.\<close>

definition RequestBuf_drop :: "'k os \<Rightarrow> RequestBuf \<Rightarrow> 'k \<Rightarrow> 'k" where
  "RequestBuf_drop S buf k =
     (case buf_kind buf of BufKind_Pipe pb \<Rightarrow> Pipe_drop S (pb_pipe pb) k | BufKind_Vec _ \<Rightarrow> k)"

text \<open>
  The end of \<open>thread::scope\<close>. After the loop has ended normally the handle of the signals is closed,
  which ends the thread that waits for them, and the mount that this thread owns is dropped. When the
  loop ends with an error or a panic, the handle is not closed, and the scope waits for the thread, which
  waits for a signal: it returns only if one arrives, which unmounts the filesystem.
\<close>

definition leave_scope ::
    "'k mount_sys \<Rightarrow> Mount \<Rightarrow> bool \<Rightarrow> (server_error, unit) result \<Rightarrow> 'k \<Rightarrow>
      ((server_error, unit) result \<times> 'k) option" where
  "leave_scope M mnt signal r k =
     (case r of
        Ok _ \<Rightarrow> Some (r, Mount_drop M mnt k)
      | _ \<Rightarrow> if signal then Some (r, snd (Mount_unmount M mnt k)) else None)"

text \<open>
  \<open>mountpoint_ok\<close> is the outcome of the check of the mount point, and \<open>addr\<close> the address of the
  request buffers.
\<close>

definition run_server ::
    "extern \<Rightarrow> 'k os \<Rightarrow> 'k mount_sys \<Rightarrow> MountFlags list \<Rightarrow> nat \<Rightarrow> bool \<Rightarrow> bool \<Rightarrow> path \<Rightarrow>
      (Device \<Rightarrow> ('k, 's) fs_handler) \<Rightarrow> 's \<Rightarrow> 'k \<Rightarrow> ((server_error, unit) result \<times> 'k) option" where
  "run_server X S M declared addr signal mountpoint_ok mountpoint handle fs k =
     (if \<not> mountpoint_ok then Some (Err Server_ensure, k)
      else
        case connect X S M declared addr mountpoint MountOptions_new KernelConfig_new k of
          None \<Rightarrow> None
        | Some (Err e, k) \<Rightarrow> Some (Err (Server_io e), k)
        | Some (Panic, k) \<Rightarrow> Some (Panic, k)
        | Some (Ok (session, device, mnt), k) \<Rightarrow>
            map_option (\<lambda>(r, k). (r, os_close S (Device_fd device) k))
              (case Session_new_request_buffer S session k of
                 (Ok buf, k) \<Rightarrow>
                   (case serve X S device addr (handle device) session buf k fs of
                      None \<Rightarrow> None
                    | Some (r, _, buf, k, _) \<Rightarrow> leave_scope M mnt signal r (RequestBuf_drop S buf k))
               | (Err e, k) \<Rightarrow> leave_scope M mnt signal (Err (Server_io e)) k
               | (Panic, k) \<Rightarrow> leave_scope M mnt signal Panic k))"

section \<open>The contract of a filesystem\<close>

text \<open>
  What a filesystem promises: for an operation, the error number and the argument of the reply, and its
  state afterwards. \<open>None\<close> stands for an operation that the contract does not cover.
\<close>

type_synonym 's fs_spec = "KernelConfig \<Rightarrow> Operation \<Rightarrow> 's \<Rightarrow> ((i32 option \<times> Bytes) \<times> 's) option"

text \<open>The messages that answer a list of requests, one for each, in order.\<close>

fun spec_run ::
    "'s fs_spec \<Rightarrow> KernelConfig \<Rightarrow> (InHeader \<times> Operation) list \<Rightarrow> 's \<Rightarrow> (bytes list \<times> 's) option" where
  "spec_run spec config [] fs = Some ([], fs)"
| "spec_run spec config ((header, op) # rs) fs =
     (case spec config op fs of
        None \<Rightarrow> None
      | Some ((err, arg), fs) \<Rightarrow>
          if 2 ^ 32 \<le> 16 + Bytes_size arg then None
          else
            map_option (\<lambda>(ms, fs). (msg_bytes (Reply (InHeader_unique header) err) (Bytes_content arg) # ms, fs))
              (spec_run spec config rs fs))"

text \<open>The part of a file that a read request asks for.\<close>

definition file_range :: "bytes \<Rightarrow> u64 \<Rightarrow> u32 \<Rightarrow> bytes" where
  "file_range content offset sz = take (unat sz) (drop (unat offset) content)"

text \<open>The entries of a directory that fit in a buffer, and the bytes of a reply that lists them.\<close>

fun fit_entries :: "nat \<Rightarrow> dir_entry list \<Rightarrow> dir_entry list \<Rightarrow> dir_entry list" where
  "fit_entries capacity es [] = es"
| "fit_entries capacity es (e # rest) =
     (let (full, es) = spec_push capacity es e in if full then es else fit_entries capacity es rest)"

definition listing :: "dir_entry list \<Rightarrow> Bytes" where
  "listing es = Bytes_Pointer (Bytes_Str (concat (map enc_dirent es)))"

section \<open>Lemmas\<close>

lemma push_entries_fit:
  assumes "dir_wf b" and "\<forall>(name, _) \<in> set es. length name < 2 ^ 32"
  shows "\<exists>b'. push_entries b es = (Ok b' :: ('e, DirEntryBuf) result) \<and>
    dir_buf b' = concat (map enc_dirent (fit_entries (dir_capacity b) (parse_dirents (dir_buf b))
      (map (\<lambda>(name, ino, typ, offset). the_entry name ino typ offset) es)))"
  using assms
proof (induction es arbitrary: b)
  case Nil
  then show ?case using dir_wfD(2) [OF Nil(1)] by simp
next
  case (Cons e es)
  obtain name ino ty off where e: "e = (name, ino, ty, off)" by (cases e) auto
  with Cons.prems have "length name < 2 ^ 32" by simp
  from push_entry_refines [OF Cons.prems(1) this] obtain full b' where
    p: "push_entry b name ino ty off = (Ok (full, b') :: ('e, bool \<times> DirEntryBuf) result)" "dir_wf b'"
      "dir_capacity b' = dir_capacity b"
      "spec_push (dir_capacity b) (parse_dirents (dir_buf b)) (the_entry name ino ty off) =
        (full, parse_dirents (dir_buf b'))" by metis
  show ?case
  proof (cases full)
    case True
    with dir_wfD(2) [OF p(2)] show ?thesis by (simp add: e p(1,4))
  next
    case False
    from Cons.prems(2) have "\<forall>(name, _) \<in> set es. length name < 2 ^ 32" by simp
    from Cons.IH [OF p(2) this] False p(1,3,4) show ?thesis by (simp add: e)
  qed
qed

lemma fit_entries_prefix: "\<exists>n \<le> length rest. fit_entries capacity es rest = es @ take n rest"
proof (induction rest arbitrary: es)
  case (Cons e rest)
  show ?case
  proof (cases "fst (spec_push capacity es e)")
    case True
    then show ?thesis by (auto simp: spec_push_def split: if_splits)
  next
    case False
    then have "spec_push capacity es e = (False, es @ [e])" by (auto simp: spec_push_def split: if_splits)
    moreover from Cons.IH [of "es @ [e]"] obtain n where
      "n \<le> length rest" "fit_entries capacity (es @ [e]) rest = (es @ [e]) @ take n rest" by blast
    ultimately show ?thesis by (intro exI [of _ "Suc n"]) simp
  qed
qed simp

text \<open>A reply as a value: \<open>Pair\<close> gives the error number and the argument.\<close>

lemma reply_as_value:
  "reply_entry config reply_raw ino attr g v w =
     case_prod reply_raw (reply_entry config Pair ino attr g v w)"
  "reply_attr config reply_raw attr v = case_prod reply_raw (reply_attr config Pair attr v)"
  "reply_open config reply_raw fh flags b = case_prod reply_raw (reply_open config Pair fh flags b)"
  by (simp_all add: reply_entry_def reply_attr_def reply_open_def Let_def)

lemma reply_sizes:
  "\<exists>b. reply_entry config Pair ino attr g v w = (None, POD b) \<and> length b \<le> 128"
  "\<exists>b. reply_attr config Pair attr v = (None, POD b) \<and> length b \<le> 128"
  "\<exists>b. reply_open config Pair fh flags backing = (None, POD b) \<and> length b \<le> 128"
  by (simp_all add: reply_entry_def reply_attr_def reply_open_def Let_def fuse_entry_out.enc_length
      fuse_entry_out_compat_8.enc_length fuse_attr_out.enc_length fuse_attr_out_compat_8.enc_length
      fuse_open_out.enc_length pod_sizes)

lemma size_listing: "Bytes_size (listing es) = entries_size es"
  by (simp add: listing_def length_entries)

lemma size_file_range: "length (file_range content offset sz) \<le> length content"
  by (simp add: file_range_def)

lemma size_error: "16 + Bytes_size Bytes_Unit < 2 ^ 32"
  by simp

lemma give_back_Vec: "vec_of_size n buf \<Longrightarrow> vec_of_size n (give_back remains buf)"
  by (auto simp: give_back_def vec_of_size_def split: RemainingData.split)

lemma answer_eq [simp]:
  "answer (Some (r, self, k)) remains fs = Some (server_result r, self, remains, k, fs)"
  "answer None remains fs = None"
  by (simp_all add: answer_def)

lemma device_reply_ok:
  assumes "dev_write_ok S V (Device_fd device)" and "16 + Bytes_size arg < 2 ^ 32"
  obtains k' where "device_reply S device self k req err arg = Some (Ok (), self, k')"
    and "v_written V k' (Device_fd device) = v_written V k (Device_fd device) @
      [msg_bytes (Reply (InHeader_unique (req_header req)) err) (Bytes_content arg)]"
    and "v_dev V k' = v_dev V k"
proof -
  let ?kind = "Reply (InHeader_unique (req_header req)) err"
  let ?bufs = "pod_enc fuse_out_header_pod (msg_header ?kind (Bytes_size arg)) # Bytes_chunks arg"
  obtain k' where k': "os_writev S (Device_fd device) ?bufs k = (Ok (length (concat ?bufs)), k')"
    "v_written V k' (Device_fd device) = v_written V k (Device_fd device) @ [concat ?bufs]"
    "v_dev V k' = v_dev V k"
    using assms(1) unfolding dev_write_ok_def by blast
  have "device_reply S device self k req err arg = Some (Ok (), self, k')"
    using assms(2) k'(1)
    by (simp add: Request_reply_raw_def send_or_handle_def send_msg_eq Device_write_vectored_def
        Bytes_size_content)
  with k'(2,3) that show ?thesis by (simp add: concat_msg del: concat.simps)
qed

lemma device_notify_ok:
  assumes "dev_write_ok S V (Device_fd device)" and "16 + Bytes_size arg < 2 ^ 32"
  obtains k' where "Notifier_send (Device_write_vectored S device) self k code arg = Some (Ok (), self, k')"
    and "v_written V k' (Device_fd device) = v_written V k (Device_fd device) @
      [msg_bytes (Notify code) (Bytes_content arg)]"
    and "v_dev V k' = v_dev V k"
proof -
  let ?kind = "Notify code"
  let ?bufs = "pod_enc fuse_out_header_pod (msg_header ?kind (Bytes_size arg)) # Bytes_chunks arg"
  obtain k' where k': "os_writev S (Device_fd device) ?bufs k = (Ok (length (concat ?bufs)), k')"
    "v_written V k' (Device_fd device) = v_written V k (Device_fd device) @ [concat ?bufs]"
    "v_dev V k' = v_dev V k"
    using assms(1) unfolding dev_write_ok_def by blast
  have "Notifier_send (Device_write_vectored S device) self k code arg = Some (Ok (), self, k')"
    using assms(2) k'(1)
    by (simp add: Notifier_send_def send_or_handle_def send_msg_eq Device_write_vectored_def
        Bytes_size_content)
  with k'(2,3) that show ?thesis by (simp add: concat_msg del: concat.simps)
qed

text \<open>
  A handler that keeps to the contract when its reply can be sent: the loop answers every request with
  one reply, in order, and ends without an error when the kernel closes the connection.
\<close>

locale answering =
  fixes S :: "'k os" and device :: Device and handle :: "('k, 's) fs_handler" and spec :: "'s fs_spec"
  assumes handle_spec:
    "spec (sess_config self) op fs = Some ((err, arg), fs') \<Longrightarrow>
     device_reply S device self k req err arg = Some (Ok (), self', k') \<Longrightarrow>
     handle self req op remains k fs = Some (Ok (), self', remains, k', fs')"
begin

lemma serve_answers:
  assumes "bitflags_ok X" and "zerocopy_ok X" and "addr mod 8 = 0" and "os_ok S V"
    and "dev_write_ok S V (Device_fd device)"
    and "\<not> sess_exited self" and "destroy_message m" and "length m \<le> 40 + n"
  shows "list_all (\<lambda>(header, op). request_on_wire X (sess_config self) n header op) rs \<Longrightarrow>
    spec_run spec (sess_config self) rs fs = Some (ms, fs') \<Longrightarrow> vec_of_size n buf \<Longrightarrow>
    v_dev V k (Device_fd device) =
      map (\<lambda>(header, op). wire_message (sess_config self) header op []) rs @ m # rest \<Longrightarrow>
    \<exists>buf' k'. serve X S device addr handle self buf k fs =
        Some (Ok (), Session_exit self, buf', k', fs') \<and>
      v_dev V k' (Device_fd device) = rest \<and>
      v_written V k' (Device_fd device) = v_written V k (Device_fd device) @ ms"
proof (induction rs arbitrary: buf k fs ms)
  case Nil
  have "v_dev V k (Device_fd device) = m # rest" using Nil.prems(4) by simp
  from receive_destroy [OF assms(4,6) Nil.prems(3) this assms(7,8)] obtain buf' k' where
    "Session_recv_request S (device_conn S device) self buf k = Some (Ok False, Session_exit self, buf', k')"
    "v_dev V k' (Device_fd device) = rest" "v_written V k' = v_written V k" by blast
  with Nil.prems(2) show ?case by (subst serve.simps) auto
next
  case (Cons r rs)
  obtain header op where r: "r = (header, op)" by (cases r)
  from Cons.prems(1) have wire: "request_on_wire X (sess_config self) n header op" by (simp add: r)
  from Cons.prems(2) obtain err arg fs1 ms1 where
    spec: "spec (sess_config self) op fs = Some ((err, arg), fs1)" "16 + Bytes_size arg < 2 ^ 32"
      "spec_run spec (sess_config self) rs fs1 = Some (ms1, fs')"
      "ms = msg_bytes (Reply (InHeader_unique header) err) (Bytes_content arg) # ms1"
    by (auto simp: r split: option.splits if_splits)
  let ?rest = "map (\<lambda>(header, op). wire_message (sess_config self) header op []) rs @ m # rest"
  have "v_dev V k (Device_fd device) = wire_message (sess_config self) header op [] # ?rest"
    using Cons.prems(4) by (simp add: r)
  from receive_request [OF assms(1-4,6) wire this Cons.prems(3)] obtain buf1 k1 remains where
    recv: "Session_recv_request S (device_conn S device) self buf k = Some (Ok True, self, buf1, k1)"
      "Session_decode X self buf1 addr = Ok (\<lparr> req_header = header \<rparr>, op, RemainingData_Vec remains)"
      "vec_of_size n buf1"
      "v_dev V k1 (Device_fd device) = ?rest" "v_written V k1 = v_written V k" .
  from device_reply_ok [OF assms(5) spec(2)] obtain k2 where
    reply: "device_reply S device self k1 \<lparr> req_header = header \<rparr> err arg = Some (Ok (), self, k2)"
      "v_written V k2 (Device_fd device) = v_written V k1 (Device_fd device) @
        [msg_bytes (Reply (InHeader_unique header) err) (Bytes_content arg)]"
      "v_dev V k2 = v_dev V k1"
    by (metis Request.select_convs(1))
  note handled = handle_spec [OF spec(1) reply(1), of "RemainingData_Vec remains"]
  have "list_all (\<lambda>(header, op). request_on_wire X (sess_config self) n header op) rs"
    using Cons.prems(1) by simp
  from Cons.IH [OF this spec(3) give_back_Vec [OF recv(3), of "RemainingData_Vec remains"],
      of k2] recv(4) reply(3)
  obtain buf' k' where
    "serve X S device addr handle self (give_back (RemainingData_Vec remains) buf1) k2 fs1 =
      Some (Ok (), Session_exit self, buf', k', fs')"
    "v_dev V k' (Device_fd device) = rest"
    "v_written V k' (Device_fd device) = v_written V k2 (Device_fd device) @ ms1" by auto
  with recv(1,2,5) handled reply(2) spec(4) show ?case by (subst serve.simps) simp
qed

end

text \<open>
  A filesystem whose contract covers a set of operations, in the states of an invariant, with replies that
  fit in a message.
\<close>

locale covering = answering S device handle spec
  for S :: "'k os" and device :: Device and handle :: "('k, 's) fs_handler" and spec :: "'s fs_spec" +
  fixes covers :: "Operation \<Rightarrow> bool" and inv :: "'s \<Rightarrow> bool"
  assumes spec_covers:
    "covers op \<Longrightarrow> inv fs \<Longrightarrow>
     \<exists>err arg fs'. spec config op fs = Some ((err, arg), fs') \<and> 16 + Bytes_size arg < 2 ^ 32 \<and> inv fs'"
begin

lemma spec_run_covers:
  "list_all (\<lambda>(header, op). covers op) rs \<Longrightarrow> inv fs \<Longrightarrow>
   \<exists>ms fs'. spec_run spec config rs fs = Some (ms, fs') \<and> length ms = length rs \<and> inv fs'"
proof (induction rs arbitrary: fs)
  case (Cons r rs)
  obtain header op where r: "r = (header, op)" by (cases r)
  with Cons.prems spec_covers [of op fs config] obtain err arg fs1 where
    "spec config op fs = Some ((err, arg), fs1)" "16 + Bytes_size arg < 2 ^ 32" "inv fs1" by auto
  with Cons.IH [of fs1] Cons.prems(1) r show ?case by auto
qed simp

lemma serve_covered:
  assumes "bitflags_ok X" and "zerocopy_ok X" and "addr mod 8 = 0" and "os_ok S V"
    and "dev_write_ok S V (Device_fd device)" and "\<not> sess_exited self"
    and "list_all (\<lambda>(header, op). covers op \<and> request_on_wire X (sess_config self) n header op) rs"
    and "destroy_message m" and "length m \<le> 40 + n" and "vec_of_size n buf"
    and "v_dev V k (Device_fd device) =
      map (\<lambda>(header, op). wire_message (sess_config self) header op []) rs @ m # rest"
    and "inv fs"
  shows "\<exists>buf' k' ms fs'.
    serve X S device addr handle self buf k fs = Some (Ok (), Session_exit self, buf', k', fs') \<and>
    v_dev V k' (Device_fd device) = rest \<and>
    v_written V k' (Device_fd device) = v_written V k (Device_fd device) @ ms \<and>
    length ms = length rs \<and> spec_run spec (sess_config self) rs fs = Some (ms, fs') \<and> inv fs'"
proof -
  have "list_all (\<lambda>(header, op). covers op) rs"
    "list_all (\<lambda>(header, op). request_on_wire X (sess_config self) n header op) rs"
    using assms(7) by (auto simp: list_all_iff)
  with spec_run_covers [of rs fs "sess_config self"] assms(12)
    serve_answers [OF assms(1-6,8,9) _ _ assms(10,11), of fs]
  show ?thesis by blast
qed

end

lemma recv_request_False:
  "Session_recv_request S conn s buf k = Some (Ok False, s', buf', k') \<Longrightarrow> sess_exited s'"
  by (auto simp: Session_recv_request_def Session_recv_entered_def Session_exit_def
      split: option.splits prod.splits result.splits if_splits)

text \<open>Whatever the loop returns without an error has ended the session.\<close>

lemma serve_Ok_exited:
  assumes "serve X S device addr handle self buf k fs = Some (Ok x, self', buf', k', fs')"
  shows "sess_exited self'"
proof -
  have "(\<exists>x. fst r = Ok x) \<longrightarrow> sess_exited (fst (snd r))"
    if "serve X S device addr handle self buf k fs = Some r" for r
    using that
  proof (induction rule: serve.raw_induct [rotated, consumes 1, case_names step])
    case (step serve' X S device addr handle self buf k fs r)
    from step(2) show ?case
      by (auto split: option.splits result.splits prod.splits if_splits dest!: step(1) recv_request_False)
  qed
  from this [OF assms] show ?thesis by simp
qed

text \<open>An error of the handler ends the loop, with the rest of the requests unread and no reply sent.\<close>

lemma serve_handler_fails:
  assumes "bitflags_ok X" and "zerocopy_ok X" and "addr mod 8 = 0" and "os_ok S V"
    and "\<not> sess_exited self" and "request_on_wire X (sess_config self) n header op"
    and "v_dev V k (Device_fd device) = wire_message (sess_config self) header op [] # ms"
    and "vec_of_size n buf"
    and "\<And>remains k. handle self \<lparr> req_header = header \<rparr> op remains k fs = Some (Err e, self, remains, k, fs)"
  shows "\<exists>buf' k'. serve X S device addr handle self buf k fs = Some (Err e, self, buf', k', fs) \<and>
    v_dev V k' (Device_fd device) = ms \<and> v_written V k' = v_written V k"
proof -
  from receive_request [OF assms(1-8)] obtain buf' k' remains where
    "Session_recv_request S (device_conn S device) self buf k = Some (Ok True, self, buf', k')"
    "Session_decode X self buf' addr = Ok (\<lparr> req_header = header \<rparr>, op, RemainingData_Vec remains)"
    "v_dev V k' (Device_fd device) = ms" "v_written V k' = v_written V k" by blast
  then show ?thesis by (subst serve.simps) (simp add: assms(9))
qed

end
