(* ===== verification/Hello.thy ===== *)
theory Hello
  imports Serve
begin

text \<open>
  The filesystem of \<open>examples/hello.rs\<close>: a directory with one file. The handler is the \<open>match\<close> on the
  operation in \<open>main\<close>; the specification says which reply each operation gets.
\<close>

section \<open>The filesystem\<close>

definition hello_TTL :: duration where
  "hello_TTL = \<lparr> as_secs = 60 * 60 * 24 * 365, subsec_nanos = 0 \<rparr>"

definition HELLO_INO :: NodeID where
  "HELLO_INO = the (NodeID_from_raw 2)"

definition HELLO_FILENAME :: bytes where
  "HELLO_FILENAME = as_bytes ''hello.txt''"

definition HELLO_CONTENT :: bytes where
  "HELLO_CONTENT = as_bytes ''Hello, world!'' @ [10]"

record hello_DirEntry =
  hde_name :: bytes
  hde_ino :: NodeID
  hde_typ :: "FileType option"

record Hello =
  hello_entries :: "hello_DirEntry list"
  hello_uid :: u32
  hello_gid :: u32

text \<open>The user and the group are those of the process.\<close>

definition Hello_new :: "u32 \<Rightarrow> u32 \<Rightarrow> Hello" where
  "Hello_new uid gid =
     \<lparr> hello_entries =
         [\<lparr> hde_name = as_bytes ''.'', hde_ino = NodeID_ROOT, hde_typ = Some Directory \<rparr>,
          \<lparr> hde_name = as_bytes ''..'', hde_ino = NodeID_ROOT, hde_typ = Some Directory \<rparr>,
          \<lparr> hde_name = HELLO_FILENAME, hde_ino = HELLO_INO, hde_typ = Some Regular \<rparr>],
       hello_uid = uid, hello_gid = gid \<rparr>"

definition hello_root_attr :: "Hello \<Rightarrow> FileAttr" where
  "hello_root_attr self =
     FileAttr_new
       \<lparr> FileAttr_ino := NodeID_ROOT,
         FileAttr_mode := FileMode_new Directory (FilePermissions_READ OR FilePermissions_EXEC),
         FileAttr_nlink := 2, FileAttr_uid := hello_uid self, FileAttr_gid := hello_gid self \<rparr>"

definition hello_attr :: "Hello \<Rightarrow> FileAttr" where
  "hello_attr self =
     FileAttr_new
       \<lparr> FileAttr_ino := HELLO_INO, FileAttr_size := of_nat (length HELLO_CONTENT),
         FileAttr_mode := FileMode_new Regular FilePermissions_READ,
         FileAttr_nlink := 1, FileAttr_uid := hello_uid self, FileAttr_gid := hello_gid self \<rparr>"

definition dir_entries :: "Hello \<Rightarrow> (u64 \<times> hello_DirEntry) list" where
  "dir_entries self = map (\<lambda>(i, ent). (of_nat (i + 1), ent)) (enumerate 0 (hello_entries self))"

section \<open>The handler\<close>

fun hello_push_entries :: "DirEntryBuf \<Rightarrow> (u64 \<times> hello_DirEntry) list \<Rightarrow> ('e, DirEntryBuf) result" where
  "hello_push_entries buf [] = Ok buf"
| "hello_push_entries buf ((i, entry) # rest) =
     and_then (push_entry buf (hde_name entry) (hde_ino entry) (hde_typ entry) (i + 1)) (\<lambda>(full, buf).
       if full then Ok buf else hello_push_entries buf rest)"

definition hello_readdir ::
    "(nat \<Rightarrow> nat) \<Rightarrow> Hello \<Rightarrow> Readdir \<Rightarrow> ('e, DirEntryBuf) result" where
  "hello_readdir reserve fs op =
     hello_push_entries (DirEntryBuf_new reserve (unat (Readdir_size op)))
       (drop (unat (Readdir_offset op)) (dir_entries fs))"

definition hello_read :: "Read \<Rightarrow> bytes" where
  "hello_read op =
     (let offset = unat (Read_offset op) in
      if offset < length HELLO_CONTENT then
        let sz = unat (Read_size op); data = drop offset HELLO_CONTENT in
        take (min (length data) sz) data
      else [])"

text \<open>Attributes of an unknown node are an error of the server, all other errors are replies.\<close>

definition hello_handle :: "(nat \<Rightarrow> nat) \<Rightarrow> 'k os \<Rightarrow> Device \<Rightarrow> ('k, Hello) fs_handler" where
  "hello_handle reserve S device self req op remains k fs =
     (let config = sess_config self; reply_raw = device_reply S device self k req;
          reply = (\<lambda>r. answer r remains fs)
      in case op of
        Lookup op \<Rightarrow>
          if Lookup_parent op = NodeID_ROOT \<and> Lookup_name op = HELLO_FILENAME
          then reply (reply_entry config reply_raw (Some HELLO_INO) (hello_attr fs) 0
                        (Some hello_TTL) (Some hello_TTL))
          else reply (reply_error reply_raw ENOENT)
      | Getattr op \<Rightarrow>
          if Getattr_ino op = NodeID_ROOT
          then reply (reply_attr config reply_raw (hello_root_attr fs) (Some hello_TTL))
          else if Getattr_ino op = HELLO_INO
          then reply (reply_attr config reply_raw (hello_attr fs) (Some hello_TTL))
          else Some (Err (Server_errno ENOENT), self, remains, k, fs)
      | Read op \<Rightarrow>
          if Read_ino op = HELLO_INO
          then reply (reply_bytes reply_raw (Bytes_Pointer (Bytes_Slice_u8 (hello_read op))))
          else if Read_ino op = NodeID_ROOT then reply (reply_error reply_raw EISDIR)
          else reply (reply_error reply_raw ENOENT)
      | Readdir op \<Rightarrow>
          if Readdir_ino op \<noteq> NodeID_ROOT then reply (reply_error reply_raw ENOTDIR)
          else
            (case hello_readdir reserve fs op of
               Ok buf \<Rightarrow> reply (reply_dir reply_raw buf)
             | Err e \<Rightarrow> Some (Err e, self, remains, k, fs)
             | Panic \<Rightarrow> Some (Panic, self, remains, k, fs))
      | _ \<Rightarrow> reply (reply_error reply_raw ENOSYS))"

definition hello_main ::
    "extern \<Rightarrow> 'k os \<Rightarrow> 'k mount_sys \<Rightarrow> MountFlags list \<Rightarrow> (nat \<Rightarrow> nat) \<Rightarrow> nat \<Rightarrow> bool \<Rightarrow> bool \<Rightarrow> path \<Rightarrow>
      u32 \<Rightarrow> u32 \<Rightarrow> 'k \<Rightarrow> ((server_error, unit) result \<times> 'k) option" where
  "hello_main X S M declared reserve addr signal is_dir mountpoint uid gid k =
     run_server X S M declared addr signal is_dir mountpoint (hello_handle reserve S) (Hello_new uid gid) k"

section \<open>The specification\<close>

text \<open>The entries as the kernel reads them. Each comes with the offset after the next entry.\<close>

definition hello_listing :: "Hello \<Rightarrow> dir_entry list" where
  "hello_listing fs =
     map (\<lambda>(i, e). the_entry (hde_name e) (hde_ino e) (hde_typ e) (of_nat (i + 2)))
       (enumerate 0 (hello_entries fs))"

definition hello_fits :: "(nat \<Rightarrow> nat) \<Rightarrow> Hello \<Rightarrow> Readdir \<Rightarrow> dir_entry list" where
  "hello_fits reserve fs op =
     (let sz = unat (Readdir_size op) in
      fit_entries (max sz (reserve sz)) [] (drop (unat (Readdir_offset op)) (hello_listing fs)))"

definition names_short :: "Hello \<Rightarrow> bool" where
  "names_short fs \<longleftrightarrow> list_all (\<lambda>e. length (hde_name e) < 2 ^ 32) (hello_entries fs)"

text \<open>
  The reply to an operation as a value. Attributes are only promised for the two nodes.
\<close>

definition hello_spec :: "(nat \<Rightarrow> nat) \<Rightarrow> Hello fs_spec" where
  "hello_spec reserve config op fs =
     map_option (\<lambda>r. (r, fs))
       (case op of
          Lookup op \<Rightarrow> Some
            (if Lookup_parent op = NodeID_ROOT \<and> Lookup_name op = HELLO_FILENAME
             then reply_entry config Pair (Some HELLO_INO) (hello_attr fs) 0 (Some hello_TTL) (Some hello_TTL)
             else (Some ENOENT, Bytes_Unit))
        | Getattr op \<Rightarrow>
            if Getattr_ino op = NodeID_ROOT then Some (reply_attr config Pair (hello_root_attr fs) (Some hello_TTL))
            else if Getattr_ino op = HELLO_INO then Some (reply_attr config Pair (hello_attr fs) (Some hello_TTL))
            else None
        | Read op \<Rightarrow> Some
            (if Read_ino op = HELLO_INO
             then (None, Bytes_Pointer (Bytes_Slice_u8
                     (file_range HELLO_CONTENT (Read_offset op) (Read_size op))))
             else (Some (if Read_ino op = NodeID_ROOT then EISDIR else ENOENT), Bytes_Unit))
        | Readdir op \<Rightarrow>
            if Readdir_ino op \<noteq> NodeID_ROOT then Some (Some ENOTDIR, Bytes_Unit)
            else if names_short fs then Some (None, listing (hello_fits reserve fs op))
            else None
        | _ \<Rightarrow> Some (Some ENOSYS, Bytes_Unit))"

section \<open>Lemmas\<close>

lemma HELLO_INO_raw: "NodeID_into_raw HELLO_INO = 2"
  by (simp add: HELLO_INO_def NodeID_from_raw_def NodeID_from_raw_unchecked_inverse)

lemma node_neq: "NodeID_into_raw a \<noteq> NodeID_into_raw b \<Longrightarrow> a \<noteq> b"
  by auto

lemma HELLO_INO_not_ROOT [simp]: "HELLO_INO \<noteq> NodeID_ROOT" "NodeID_ROOT \<noteq> HELLO_INO"
proof -
  show "HELLO_INO \<noteq> NodeID_ROOT" by (rule node_neq) (simp add: HELLO_INO_raw)
  then show "NodeID_ROOT \<noteq> HELLO_INO" by simp
qed

lemma length_HELLO_CONTENT: "length HELLO_CONTENT = 14"
  by (simp add: HELLO_CONTENT_def as_bytes_def)

lemma hello_read_range: "hello_read op = file_range HELLO_CONTENT (Read_offset op) (Read_size op)"
  by (simp add: hello_read_def file_range_def Let_def min_def)

lemma hello_push_entries_eq:
  "hello_push_entries buf es =
     push_entries buf (map (\<lambda>(i, e). (hde_name e, hde_ino e, hde_typ e, i + 1)) es)"
  by (induction buf es rule: hello_push_entries.induct)
    (auto simp: fun_eq_iff intro!: arg_cong [where f = "and_then _"])

lemma hello_readdir_fits:
  assumes "names_short fs"
  shows "\<exists>buf. hello_readdir reserve fs op = (Ok buf :: ('e, DirEntryBuf) result) \<and>
    dir_buf buf = concat (map enc_dirent (hello_fits reserve fs op))"
proof -
  let ?new = "DirEntryBuf_new reserve (unat (Readdir_size op))"
  let ?es = "map (\<lambda>(i, e). (hde_name e, hde_ino e, hde_typ e, i + 1))
    (drop (unat (Readdir_offset op)) (dir_entries fs))"
  have "\<forall>(name, _) \<in> set ?es. length name < 2 ^ 32"
    using assms
    by (auto simp: names_short_def dir_entries_def list_all_iff in_set_enumerate_eq dest!: in_set_dropD)
  from push_entries_fit [OF dir_wf_new [of reserve "unat (Readdir_size op)"] this] obtain buf where
    "push_entries ?new ?es = (Ok buf :: ('e, DirEntryBuf) result)"
    "dir_buf buf = concat (map enc_dirent (fit_entries (dir_capacity ?new) (parse_dirents (dir_buf ?new))
      (map (\<lambda>(name, ino, typ, offset). the_entry name ino typ offset) ?es)))" by blast
  moreover have "map (\<lambda>(name, ino, typ, offset). the_entry name ino typ offset) ?es =
      drop (unat (Readdir_offset op)) (hello_listing fs)"
    by (simp add: dir_entries_def hello_listing_def drop_map split_def o_def add.commute)
  ultimately show ?thesis
    by (simp add: hello_readdir_def hello_push_entries_eq hello_fits_def DirEntryBuf_new_def
        parse_dirents_Nil Let_def)
qed

interpretation hello_fs: answering S device "hello_handle reserve S device" "hello_spec reserve"
  for S :: "'k os" and device and reserve
proof
  fix self :: Session and op fs err arg fs' and k k' :: 'k and req self' remains
  assume spec: "hello_spec reserve (sess_config self) op fs = Some ((err, arg), fs')"
    and reply: "device_reply S device self k req err arg = Some (Ok (), self', k')"
  show "hello_handle reserve S device self req op remains k fs = Some (Ok (), self', remains, k', fs')"
  proof (cases op)
    case (Readdir rd)
    show ?thesis
    proof (cases "Readdir_ino rd = NodeID_ROOT")
      case True
      with spec Readdir have short: "names_short fs" by (auto simp: hello_spec_def split: if_splits)
      from hello_readdir_fits [OF short, of reserve rd] obtain buf where
        "hello_readdir reserve fs rd = (Ok buf :: (server_error, DirEntryBuf) result)"
        "dir_buf buf = concat (map enc_dirent (hello_fits reserve fs rd))" by blast
      with short True spec reply Readdir show ?thesis
        by (auto simp: hello_handle_def hello_spec_def listing_def reply_dir_def Let_def)
    next
      case False
      with spec reply Readdir show ?thesis
        by (auto simp: hello_handle_def hello_spec_def reply_error_def Let_def)
    qed
  next
    case (Lookup l)
    with spec reply show ?thesis
      by (auto simp: hello_handle_def hello_spec_def reply_error_def Let_def
          reply_as_value [where reply_raw = "device_reply S device self k req"] split: if_splits)
  next
    case (Getattr g)
    with spec reply show ?thesis
      by (auto simp: hello_handle_def hello_spec_def Let_def
          reply_as_value [where reply_raw = "device_reply S device self k req"] split: if_splits)
  next
    case (Read r)
    with spec reply show ?thesis
      by (auto simp: hello_handle_def hello_spec_def reply_error_def reply_bytes_def hello_read_range Let_def
          split: if_splits)
  qed (use spec reply in \<open>auto simp: hello_handle_def hello_spec_def reply_error_def Let_def\<close>)
qed

text \<open>
  The requests that the contract covers, and the size of the replies to them: those to which the
  protocol has a reply, and requests for attributes of the two nodes only.
\<close>

definition hello_covers :: "Operation \<Rightarrow> bool" where
  "hello_covers op \<longleftrightarrow>
     expects_reply op \<and>
     (case op of Getattr op \<Rightarrow> Getattr_ino op = NodeID_ROOT \<or> Getattr_ino op = HELLO_INO | _ \<Rightarrow> True)"

lemma hello_listing_new:
  "hello_listing (Hello_new uid gid) =
     [the_entry [46] NodeID_ROOT (Some Directory) 2, the_entry [46, 46] NodeID_ROOT (Some Directory) 3,
      the_entry HELLO_FILENAME HELLO_INO (Some Regular) 4]"
  by (simp add: hello_listing_def Hello_new_def as_bytes_def)

lemma names_short_new: "names_short (Hello_new uid gid)"
  by (simp add: names_short_def Hello_new_def as_bytes_def HELLO_FILENAME_def)

lemma entries_size_take: "entries_size (take n es) \<le> entries_size es"
  using append_take_drop_id [of n es]
  by (metis entries_size_def le_add1 map_append sum_list.append)

lemma entries_size_drop: "entries_size (drop n es) \<le> entries_size es"
  using append_take_drop_id [of n es]
  by (metis entries_size_def le_add2 map_append sum_list.append)

lemma size_hello_fits: "entries_size (hello_fits reserve (Hello_new uid gid) op) \<le> 104"
proof -
  let ?l = "hello_listing (Hello_new uid gid)"
  have "entries_size ?l = 104"
    by (simp add: hello_listing_new entries_size_def the_entry_def align_up_def HELLO_FILENAME_def as_bytes_def)
  moreover obtain n where "hello_fits reserve (Hello_new uid gid) op =
      take n (drop (unat (Readdir_offset op)) ?l)"
    using fit_entries_prefix by (auto simp: hello_fits_def Let_def) (metis append_Nil)
  ultimately show ?thesis
    using entries_size_take [of n "drop (unat (Readdir_offset op)) ?l"]
      entries_size_drop [of "unat (Readdir_offset op)" ?l] by simp
qed

lemma hello_spec_covers:
  assumes "hello_covers op"
  shows "\<exists>err arg. hello_spec reserve config op (Hello_new uid gid) = Some ((err, arg), Hello_new uid gid) \<and>
    16 + Bytes_size arg < 2 ^ 32"
proof (cases op)
  case (Readdir rd)
  with size_hello_fits [of reserve uid gid rd] show ?thesis
    by (auto simp: hello_spec_def names_short_new size_listing)
next
  case (Read r)
  have "length (file_range HELLO_CONTENT (Read_offset r) (Read_size r)) \<le> 14"
    using size_file_range [of HELLO_CONTENT] by (simp add: length_HELLO_CONTENT)
  with Read show ?thesis by (auto simp: hello_spec_def)
next
  case (Lookup l)
  obtain b where "reply_entry config Pair (Some HELLO_INO) (hello_attr (Hello_new uid gid)) 0
      (Some hello_TTL) (Some hello_TTL) = (None, POD b)" "length b \<le> 128"
    using reply_sizes(1) by blast
  with Lookup show ?thesis by (auto simp: hello_spec_def)
next
  case (Getattr g)
  obtain b b' where "reply_attr config Pair (hello_root_attr (Hello_new uid gid)) (Some hello_TTL) = (None, POD b)"
    "reply_attr config Pair (hello_attr (Hello_new uid gid)) (Some hello_TTL) = (None, POD b')"
    "length b \<le> 128" "length b' \<le> 128"
    using reply_sizes(2) by metis
  with Getattr assms show ?thesis by (auto simp: hello_spec_def hello_covers_def)
qed (auto simp: hello_spec_def)

interpretation hello_all: covering S device "hello_handle reserve S device" "hello_spec reserve"
    hello_covers "\<lambda>fs. fs = Hello_new uid gid"
  for S :: "'k os" and device and reserve and uid gid
proof unfold_locales
  fix op fs config
  assume "hello_covers op" and "fs = Hello_new uid gid"
  with hello_spec_covers [of op reserve config uid gid]
  show "\<exists>err arg fs'. hello_spec reserve config op fs = Some ((err, arg), fs') \<and>
      16 + Bytes_size arg < 2 ^ 32 \<and> fs' = Hello_new uid gid" by blast
qed

text \<open>What the kernel reads from a listing.\<close>

lemma hello_fits_take:
  "\<exists>n. hello_fits reserve fs op = take n (drop (unat (Readdir_offset op)) (hello_listing fs))"
  using fit_entries_prefix by (auto simp: hello_fits_def Let_def) (metis append_Nil)

lemma hello_readdir_parsed:
  "\<exists>buf. hello_readdir reserve (Hello_new uid gid) op = (Ok buf :: ('e, DirEntryBuf) result) \<and>
    parse_dirents (dir_buf buf) = hello_fits reserve (Hello_new uid gid) op"
proof -
  let ?es = "hello_fits reserve (Hello_new uid gid) op"
  have "set ?es \<subseteq> set (hello_listing (Hello_new uid gid))"
    using hello_fits_take by (metis set_drop_subset set_take_subset subset_trans)
  then have "list_all entry_wf ?es"
    by (auto simp: list_all_iff hello_listing_new entry_wf_def the_entry_def HELLO_FILENAME_def as_bytes_def
        dest!: subsetD)
  then have "parse_dirents (concat (map enc_dirent ?es)) = ?es"
    using parse_entries [of ?es "[]"] by (simp add: parse_dirents_Nil)
  with hello_readdir_fits [OF names_short_new, of reserve uid gid op] show ?thesis by fastforce
qed

lemma distinct_skip:
  assumes "distinct xs" and "i + n < length xs"
  shows "xs ! (i + n) \<notin> set (take n (drop i xs)) \<union> set (take m (drop (i + n + 1) xs))"
  using assms by (auto simp: in_set_conv_nth distinct_conv_nth)

text \<open>Sample requests: for the file by its name, and for the attributes of a node.\<close>

definition hello_lookup :: Operation where
  "hello_lookup = Lookup \<lparr> Lookup_parent = NodeID_ROOT, Lookup_name = HELLO_FILENAME \<rparr>"

lemma hello_lookup_on_wire:
  "request_on_wire linux_extern KernelConfig_new 8152 (request_header 50 1 1) hello_lookup"
  by (simp add: request_on_wire_def hello_lookup_def wire_header_def wire_sent_def wire_message_parts cstr_def
      request_header_def HELLO_FILENAME_def as_bytes_def KernelConfig_new_def abi_const)

section \<open>Properties\<close>

text \<open>C7: The filesystem answers. The kernel sends requests in any order and number that expect a reply,
  carry no data behind their argument and fit the buffer in memory; they are of a form that can be
  decoded, and those for attributes are about the two nodes. Then the server sends exactly one
  reply to each, in order and with its number: attributes, content, entries or the error that the
  operation calls for. It ends without an error when the connection is closed.
\<close>

theorem hello_answers:
  assumes "bitflags_ok X" and "zerocopy_ok X" and "addr mod 8 = 0" and "os_ok S V"
    and "dev_write_ok S V (Device_fd device)" and "\<not> sess_exited self"
    and "list_all (\<lambda>(header, op). hello_covers op \<and> request_on_wire X (sess_config self) n header op) rs"
    and "destroy_message m" and "length m \<le> 40 + n" and "vec_of_size n buf"
    and "v_dev V k (Device_fd device) =
      map (\<lambda>(header, op). wire_message (sess_config self) header op []) rs @ m # rest"
  shows "\<exists>buf' k' ms.
    serve X S device addr (hello_handle reserve S device) self buf k (Hello_new uid gid) =
      Some (Ok (), Session_exit self, buf', k', Hello_new uid gid) \<and>
    v_dev V k' (Device_fd device) = rest \<and>
    v_written V k' (Device_fd device) = v_written V k (Device_fd device) @ ms \<and>
    length ms = length rs \<and>
    spec_run (hello_spec reserve) (sess_config self) rs (Hello_new uid gid) = Some (ms, Hello_new uid gid)"
  using hello_all.serve_covered [OF assms, where reserve = reserve and uid = uid and gid = gid] by blast

theorem hello_answers_witness:
  "\<exists>buf' k' ms.
    serve linux_extern sim_os (Device_from_fd 0) 64 (hello_handle id sim_os (Device_from_fd 0))
        (Session_new KernelConfig_new) (memory_buf 8152)
        (waiting [wire_message KernelConfig_new (request_header 50 1 1) hello_lookup [],
          wire_message KernelConfig_new (request_header 56 3 1) (getattr_of NodeID_ROOT) [], destroy_sample])
        (Hello_new 0 0) =
      Some (Ok (), Session_exit (Session_new KernelConfig_new), buf', k', Hello_new 0 0) \<and>
    v_dev sim_view k' 0 = [] \<and> v_written sim_view k' 0 = ms \<and> length ms = 2 \<and>
    spec_run (hello_spec id) KernelConfig_new
      [(request_header 50 1 1, hello_lookup), (request_header 56 3 1, getattr_of NodeID_ROOT)]
      (Hello_new 0 0) = Some (ms, Hello_new 0 0)"
proof -
  let ?rs = "[(request_header 50 1 1, hello_lookup), (request_header 56 3 1, getattr_of NodeID_ROOT)]"
  have "list_all (\<lambda>(header, op). hello_covers op \<and>
      request_on_wire linux_extern (sess_config (Session_new KernelConfig_new)) 8152 header op) ?rs"
    using hello_lookup_on_wire getattr_on_wire [of NodeID_ROOT]
    by (simp add: Session_new_def hello_covers_def hello_lookup_def)
  from hello_answers [OF _ _ _ sim_os_ok _ _ this destroy_sample(1) _ vec_of_size_memory,
      of 64 "Device_from_fd 0" "waiting (map (\<lambda>(h, op). wire_message KernelConfig_new h op []) ?rs @ [destroy_sample])"
        "[]" id 0 0]
  show ?thesis
    by (simp add: sim_write_ok waiting_view destroy_sample Session_new_def numeral_2_eq_2 del: spec_run.simps)
qed

text \<open>An unknown node stops the server: a request for the attributes of a node that is neither the
  directory nor the file gets no reply. The error is returned from the loop, with every later
  request unread.
\<close>

theorem hello_getattr_stops:
  assumes "bitflags_ok X" and "zerocopy_ok X" and "addr mod 8 = 0" and "os_ok S V"
    and "\<not> sess_exited self" and "Getattr_ino g \<noteq> NodeID_ROOT" and "Getattr_ino g \<noteq> HELLO_INO"
    and "request_on_wire X (sess_config self) n header (Getattr g)" and "vec_of_size n buf"
    and "v_dev V k (Device_fd device) = wire_message (sess_config self) header (Getattr g) [] # ms"
  shows "\<exists>buf' k'. serve X S device addr (hello_handle reserve S device) self buf k fs =
      Some (Err (Server_errno ENOENT), self, buf', k', fs) \<and>
    v_dev V k' (Device_fd device) = ms \<and> v_written V k' = v_written V k"
  by (rule serve_handler_fails [OF assms(1-5,8,10,9)]) (simp add: hello_handle_def assms(6,7))

text \<open>C40: A listing that is continued skips an entry: the server lists entries from the requested
  offset on, as many as fit, each with the offset at which the kernel is to continue. That offset is one
  too far, so that a listing that is continued after its last entry omits the one that comes next.
\<close>

theorem hello_readdir_skips:
  assumes "Readdir_offset op' = entry_off (last (hello_fits reserve (Hello_new uid gid) op))"
    and "hello_fits reserve (Hello_new uid gid) op \<noteq> []"
    and "unat (Readdir_offset op) + length (hello_fits reserve (Hello_new uid gid) op) < 3"
  shows "\<exists>buf buf'. hello_readdir reserve (Hello_new uid gid) op = (Ok buf :: (unit, DirEntryBuf) result) \<and>
    hello_readdir reserve' (Hello_new uid gid) op' = (Ok buf' :: (unit, DirEntryBuf) result) \<and>
    hello_listing (Hello_new uid gid) ! (unat (Readdir_offset op) + length (parse_dirents (dir_buf buf)))
      \<notin> set (parse_dirents (dir_buf buf)) \<union> set (parse_dirents (dir_buf buf'))"
proof -
  let ?L = "hello_listing (Hello_new uid gid)" and ?i = "unat (Readdir_offset op)"
  let ?es = "hello_fits reserve (Hello_new uid gid) op" and ?n = "length (hello_fits reserve (Hello_new uid gid) op)"
  have L: "length ?L = 3" "distinct ?L" and off: "\<forall>j < 3. entry_off (?L ! j) = of_nat (j + 2)"
    by (auto simp: hello_listing_new the_entry_def less_Suc_eq numeral_3_eq_3)
  obtain m where m: "?es = take m (drop ?i ?L)" using hello_fits_take by blast
  then have es: "?es = take ?n (drop ?i ?L)" by (metis length_take min.cobounded2 min_def take_all_iff take_take)
  have "last ?es = ?L ! (?i + ?n - 1)"
  proof -
    have "last (take ?n (drop ?i ?L)) = ?L ! (?i + (?n - 1))"
      using assms(2,3) L(1) by (subst last_conv_nth) (auto simp: min_def)
    moreover have "?i + (?n - 1) = ?i + ?n - 1" using assms(2) by (cases ?es) simp_all
    ultimately show ?thesis using es by simp
  qed
  then have "Readdir_offset op' = of_nat (?i + ?n + 1)"
    using assms off by simp
  moreover have "unat (of_nat (?i + ?n + 1) :: u64) = ?i + ?n + 1"
    using assms(3) by (simp only: unsigned_of_nat) (simp add: take_bit_nat_eq_self)
  ultimately have i': "unat (Readdir_offset op') = ?i + ?n + 1" by (simp only:)
  obtain m' where m': "hello_fits reserve' (Hello_new uid gid) op' = take m' (drop (?i + ?n + 1) ?L)"
    using hello_fits_take [of reserve' "Hello_new uid gid" op'] i' by auto
  have "?L ! (?i + ?n) \<notin> set ?es \<union> set (hello_fits reserve' (Hello_new uid gid) op')"
    unfolding m' using distinct_skip [OF L(2), of ?i ?n m'] L(1) assms(3) es by metis
  with hello_readdir_parsed [of reserve uid gid op] hello_readdir_parsed [of reserve' uid gid op']
  show ?thesis by fastforce
qed

text \<open>A buffer of 40 bytes holds the first entry; the second one is lost.\<close>

definition readdir_at :: "u64 \<Rightarrow> Readdir" where
  "readdir_at offset =
     \<lparr> Readdir_ino = NodeID_ROOT, Readdir_fh = FileID 0, Readdir_offset = offset, Readdir_size = 40,
       Readdir_mode = ReaddirMode_Normal \<rparr>"

theorem hello_readdir_skips_witness:
  "\<exists>buf buf'. hello_readdir id (Hello_new 0 0) (readdir_at 0) = (Ok buf :: (unit, DirEntryBuf) result) \<and>
    hello_readdir id (Hello_new 0 0) (readdir_at 2) = (Ok buf' :: (unit, DirEntryBuf) result) \<and>
    hello_listing (Hello_new 0 0) ! (unat (Readdir_offset (readdir_at 0)) + length (parse_dirents (dir_buf buf)))
      \<notin> set (parse_dirents (dir_buf buf)) \<union> set (parse_dirents (dir_buf buf'))"
proof -
  have fits: "hello_fits id (Hello_new 0 0) (readdir_at 0) = [the_entry [46] NodeID_ROOT (Some Directory) 2]"
    by (simp add: hello_fits_def readdir_at_def hello_listing_new spec_push_def entries_size_def the_entry_def
        align_up_def)
  show ?thesis
    by (rule hello_readdir_skips) (simp_all add: fits, simp_all add: readdir_at_def the_entry_def)
qed

end
