(* ===== verification/Basic.thy ===== *)
theory Basic
  imports Serve
begin

text \<open>
  The filesystem of \<open>examples/basic.rs\<close>: one regular file, mounted on a file. It has no state and
  answers every operation.
\<close>

section \<open>The filesystem\<close>

definition basic_CONTENT :: bytes where
  "basic_CONTENT = as_bytes ''Hello from FUSE!'' @ [10]"

text \<open>The user and the group are those of the process.\<close>

definition basic_attr :: "u32 \<Rightarrow> u32 \<Rightarrow> FileAttr" where
  "basic_attr uid gid =
     FileAttr_new
       \<lparr> FileAttr_ino := NodeID_ROOT, FileAttr_size := of_nat (length basic_CONTENT),
         FileAttr_mode := FileMode_new Regular FilePermissions_READ,
         FileAttr_nlink := 1, FileAttr_uid := uid, FileAttr_gid := gid \<rparr>"

definition basic_getattr :: "u32 \<Rightarrow> u32 \<Rightarrow> KernelConfig \<Rightarrow> 'r reply_raw \<Rightarrow> Getattr \<Rightarrow> 'r" where
  "basic_getattr uid gid config reply_raw op =
     (if Getattr_ino op \<noteq> NodeID_ROOT then reply_error reply_raw ENOENT
      else reply_attr config reply_raw (basic_attr uid gid) (Some \<lparr> as_secs = 1, subsec_nanos = 0 \<rparr>))"

definition basic_read :: "'r reply_raw \<Rightarrow> Read \<Rightarrow> 'r" where
  "basic_read reply_raw op =
     (if Read_ino op \<noteq> NodeID_ROOT then reply_error reply_raw ENOENT
      else
        let offset = unat (Read_offset op);
            data = (if offset < length basic_CONTENT then
                      let sz = unat (Read_size op); data = drop offset basic_CONTENT in
                      take (min (length data) sz) data
                    else [])
        in reply_bytes reply_raw (Bytes_Pointer (Bytes_Slice_u8 data)))"

definition basic_handle :: "u32 \<Rightarrow> u32 \<Rightarrow> 'k os \<Rightarrow> Device \<Rightarrow> ('k, unit) fs_handler" where
  "basic_handle uid gid S device self req op remains k fs =
     (let reply_raw = device_reply S device self k req in
      answer
        (case op of
           Getattr op \<Rightarrow> basic_getattr uid gid (sess_config self) reply_raw op
         | Read op \<Rightarrow> basic_read reply_raw op
         | _ \<Rightarrow> reply_error reply_raw ENOSYS) remains fs)"

definition basic_main ::
    "extern \<Rightarrow> 'k os \<Rightarrow> 'k mount_sys \<Rightarrow> MountFlags list \<Rightarrow> nat \<Rightarrow> bool \<Rightarrow> bool \<Rightarrow> path \<Rightarrow> u32 \<Rightarrow> u32 \<Rightarrow>
      'k \<Rightarrow> ((server_error, unit) result \<times> 'k) option" where
  "basic_main X S M declared addr signal is_file mountpoint uid gid k =
     run_server X S M declared addr signal is_file mountpoint (basic_handle uid gid S) () k"

section \<open>The specification\<close>

definition basic_spec :: "u32 \<Rightarrow> u32 \<Rightarrow> unit fs_spec" where
  "basic_spec uid gid config op fs =
     Some
       ((case op of
           Getattr op \<Rightarrow>
             if Getattr_ino op = NodeID_ROOT
             then reply_attr config Pair (basic_attr uid gid) (Some \<lparr> as_secs = 1, subsec_nanos = 0 \<rparr>)
             else (Some ENOENT, Bytes_Unit)
         | Read op \<Rightarrow>
             if Read_ino op = NodeID_ROOT
             then (None, Bytes_Pointer (Bytes_Slice_u8
                     (file_range basic_CONTENT (Read_offset op) (Read_size op))))
             else (Some ENOENT, Bytes_Unit)
         | _ \<Rightarrow> (Some ENOSYS, Bytes_Unit)), fs)"

section \<open>Lemmas\<close>

lemma length_basic_CONTENT: "length basic_CONTENT = 17"
  by (simp add: basic_CONTENT_def as_bytes_def)

lemma basic_read_range:
  "Read_ino op = NodeID_ROOT \<Longrightarrow> basic_read reply_raw op =
     reply_raw None (Bytes_Pointer (Bytes_Slice_u8 (file_range basic_CONTENT (Read_offset op) (Read_size op))))"
  by (simp add: basic_read_def file_range_def reply_bytes_def Let_def min_def)

interpretation basic_fs: covering S device "basic_handle uid gid S device" "basic_spec uid gid"
    "\<lambda>_. True" "\<lambda>_. True"
  for S :: "'k os" and device and uid gid
proof unfold_locales
  fix self :: Session and op fs err arg fs' and k k' :: 'k and req self' remains
  assume spec: "basic_spec uid gid (sess_config self) op fs = Some ((err, arg), fs')"
    and reply: "device_reply S device self k req err arg = Some (Ok (), self', k')"
  show "basic_handle uid gid S device self req op remains k fs = Some (Ok (), self', remains, k', fs')"
  proof (cases op)
    case (Getattr g)
    with spec reply show ?thesis
      by (auto simp: basic_handle_def basic_spec_def basic_getattr_def reply_error_def Let_def
          reply_as_value [where reply_raw = "device_reply S device self k req"] split: if_splits)
  next
    case (Read r)
    with spec reply show ?thesis
      by (cases "Read_ino r = NodeID_ROOT")
        (auto simp: basic_handle_def basic_spec_def basic_read_range, auto simp: basic_read_def reply_error_def)
  qed (use spec reply in \<open>auto simp: basic_handle_def basic_spec_def reply_error_def Let_def\<close>)
next
  fix op fs config
  show "\<exists>err arg fs'. basic_spec uid gid config op fs = Some ((err, arg), fs') \<and>
      16 + Bytes_size arg < 2 ^ 32 \<and> True"
  proof (cases op)
    case (Getattr g)
    obtain b where "reply_attr config Pair (basic_attr uid gid) (Some \<lparr> as_secs = 1, subsec_nanos = 0 \<rparr>) =
        (None, POD b)" "length b \<le> 128"
      using reply_sizes(2) by blast
    with Getattr show ?thesis by (auto simp: basic_spec_def)
  next
    case (Read r)
    with size_file_range [of basic_CONTENT "Read_offset r" "Read_size r"] show ?thesis
      by (auto simp: basic_spec_def length_basic_CONTENT)
  qed (simp_all add: basic_spec_def)
qed

section \<open>Properties\<close>

text \<open>The smallest filesystem answers every request: whatever the kernel asks for and in whatever
  order, the server sends exactly one reply to each request, in order: the attributes or the requested
  range of the content for its one file, \<open>ENOENT\<close> for every other node and \<open>ENOSYS\<close> for every other
  operation. It ends without an error when the connection is closed.
\<close>

theorem basic_answers:
  assumes "bitflags_ok X" and "zerocopy_ok X" and "addr mod 8 = 0" and "os_ok S V"
    and "dev_write_ok S V (Device_fd device)" and "\<not> sess_exited self"
    and "list_all (\<lambda>(header, op). request_on_wire X (sess_config self) n header op) rs"
    and "destroy_message m" and "length m \<le> 40 + n" and "vec_of_size n buf"
    and "v_dev V k (Device_fd device) =
      map (\<lambda>(header, op). wire_message (sess_config self) header op []) rs @ m # rest"
  shows "\<exists>buf' k' ms.
    serve X S device addr (basic_handle uid gid S device) self buf k () =
      Some (Ok (), Session_exit self, buf', k', ()) \<and>
    v_dev V k' (Device_fd device) = rest \<and>
    v_written V k' (Device_fd device) = v_written V k (Device_fd device) @ ms \<and>
    length ms = length rs \<and> spec_run (basic_spec uid gid) (sess_config self) rs () = Some (ms, ())"
  using basic_fs.serve_covered [OF assms(1-6) _ assms(8-11), where uid = uid and gid = gid] assms(7) by auto

end
