(* ===== verification/Heartbeat.thy ===== *)
theory Heartbeat
  imports Serve Fs
begin

text \<open>
  The filesystem of \<open>examples/heartbeat.rs\<close>: one file, whose content a second thread replaces. The thread
  stores the new content in the cache of the kernel and asks for it back, or tells the kernel to drop
  what it has; the answer of the kernel arrives as a request, in the other thread.
\<close>

section \<open>The filesystem\<close>

datatype NotifyKind = NotifyKind_Store | NotifyKind_Invalidate

definition NotifyKind_from_str :: "string \<Rightarrow> (string, NotifyKind) result" where
  "NotifyKind_from_str s =
     (if s = ''store'' then Ok NotifyKind_Store
      else if s = ''invalidate'' then Ok NotifyKind_Invalidate
      else Err s)"

record heartbeat_Inner =
  hb_content :: bytes
  hb_attr :: FileAttr

record Heartbeat =
  hb_inner :: heartbeat_Inner
  hb_retrieves :: "(NotifyID, bytes) mapping"
  hb_kind :: "NotifyKind option"

text \<open>The content is the current time as the library \<open>chrono\<close> formats it, a parameter.\<close>

definition Heartbeat_new :: "bytes \<Rightarrow> NotifyKind option \<Rightarrow> Heartbeat" where
  "Heartbeat_new content kind =
     \<lparr> hb_inner =
         \<lparr> hb_content = content,
           hb_attr = FileAttr_new
             \<lparr> FileAttr_ino := NodeID_ROOT, FileAttr_mode := FileMode_new Regular FilePermissions_READ,
               FileAttr_size := of_nat (length content) \<rparr> \<rparr>,
       hb_retrieves = Mapping.empty, hb_kind = kind \<rparr>"

definition update_content :: "bytes \<Rightarrow> Heartbeat \<Rightarrow> Heartbeat" where
  "update_content content self =
     self\<lparr> hb_inner :=
       \<lparr> hb_content = content, hb_attr = (hb_attr (hb_inner self))\<lparr> FileAttr_size := of_nat (length content) \<rparr> \<rparr> \<rparr>"

text \<open>
  \<open>notify\<close> up to the point where a number was handed out for the content that was sent, and the rest,
  which remembers it. The other thread can run in between.
\<close>

definition notify_send ::
    "extern \<Rightarrow> 'k os \<Rightarrow> Device \<Rightarrow> Session \<Rightarrow> 'k \<Rightarrow> Heartbeat \<Rightarrow>
      ((io_error, (NotifyID \<times> bytes) option) result \<times> Session \<times> 'k) option" where
  "notify_send X S device session k self =
     (let wv = Device_write_vectored S device in
      case hb_kind self of
        Some NotifyKind_Store \<Rightarrow>
          (let content = hb_content (hb_inner self) in
           case Notifier_store wv session k NodeID_ROOT 0 (Bytes_Pointer (Bytes_Str content)) of
             None \<Rightarrow> None
           | Some (Ok _, session, k) \<Rightarrow>
               map_option (\<lambda>(r, session, k).
                   (and_then r (\<lambda>notify_unique. Ok (Some (notify_unique, content))), session, k))
                 (Notifier_retrieve wv session k NodeID_ROOT 0 (of_nat (page_size X)))
           | Some (Err e, session, k) \<Rightarrow> Some (Err e, session, k)
           | Some (Panic, session, k) \<Rightarrow> Some (Panic, session, k))
      | Some NotifyKind_Invalidate \<Rightarrow>
          map_option (\<lambda>(r, session, k). (and_then r (\<lambda>_. Ok None), session, k))
            (Notifier_inval_inode wv session k NodeID_ROOT 0 0)
      | None \<Rightarrow> Some (Ok None, session, k))"

definition notify_insert :: "(NotifyID \<times> bytes) option \<Rightarrow> Heartbeat \<Rightarrow> Heartbeat" where
  "notify_insert sent self =
     (case sent of
        Some (notify_unique, content) \<Rightarrow>
          self\<lparr> hb_retrieves := Mapping.update notify_unique content (hb_retrieves self) \<rparr>
      | None \<Rightarrow> self)"

definition hb_notify ::
    "extern \<Rightarrow> 'k os \<Rightarrow> Device \<Rightarrow> Session \<Rightarrow> 'k \<Rightarrow> Heartbeat \<Rightarrow>
      ((io_error, unit) result \<times> Session \<times> 'k \<times> Heartbeat) option" where
  "hb_notify X S device session k self =
     map_option (\<lambda>(r, session, k).
         case r of
           Ok sent \<Rightarrow> (Ok (), session, k, notify_insert sent self)
         | Err e \<Rightarrow> (Err e, session, k, self)
         | Panic \<Rightarrow> (Panic, session, k, self))
       (notify_send X S device session k self)"

section \<open>The handler\<close>

text \<open>\<open>Read::read_exact\<close> on the rest of a request, as for pipes.\<close>

partial_function (option) RemainingData_read_exact ::
    "'k os \<Rightarrow> RemainingData \<Rightarrow> bytes \<Rightarrow> bytes \<Rightarrow> 'k \<Rightarrow>
      ((io_error, unit) result \<times> bytes \<times> RemainingData \<times> 'k) option" where
  "RemainingData_read_exact S self filled buf k =
     (if buf = [] then Some (Ok (), filled, self, k)
      else
        case RemainingData_read S self buf k of
          (Ok n, buf, self, k) \<Rightarrow>
            if n = 0 then Some (Err (CustomError UnexpectedEofKind), filled @ buf, self, k)
            else RemainingData_read_exact S self (filled @ take n buf) (drop n buf) k
        | (Err e, buf, self, k) \<Rightarrow>
            if e = OsError EINTR then RemainingData_read_exact S self filled buf k
            else Some (Err e, filled @ buf, self, k)
        | (Panic, buf, self, k) \<Rightarrow> Some (Panic, filled @ buf, self, k))"

text \<open>The comparison takes a slice of the data that is as long as the original.\<close>

definition compare_data :: "bytes \<Rightarrow> bytes \<Rightarrow> ('e, bool) result" where
  "compare_data original data =
     (if length data < length original then Panic else Ok (take (length original) data = original))"

text \<open>The outcome of the comparison is written to the log; it is returned as well.\<close>

definition hb_notify_reply ::
    "'k os \<Rightarrow> NotifyReply \<Rightarrow> RemainingData \<Rightarrow> 'k \<Rightarrow> Heartbeat \<Rightarrow>
      ((server_error, bool option) result \<times> RemainingData \<times> 'k \<times> Heartbeat) option" where
  "hb_notify_reply S op remains k fs =
     (case Mapping.lookup (hb_retrieves fs) (NotifyReply_unique op) of
        None \<Rightarrow> Some (Ok None, remains, k, fs)
      | Some original \<Rightarrow>
          let fs = fs\<lparr> hb_retrieves := Mapping.delete (NotifyReply_unique op) (hb_retrieves fs) \<rparr> in
          map_option (\<lambda>(r, data, remains, k).
              (case r of
                 Ok _ \<Rightarrow> and_then (compare_data original data) (\<lambda>matched. Ok (Some matched))
               | Err e \<Rightarrow> Err (Server_io e)
               | Panic \<Rightarrow> Panic, remains, k, fs))
            (RemainingData_read_exact S remains [] (replicate (unat (NotifyReply_size op)) 0) k))"

definition hb_read :: "'r reply_raw \<Rightarrow> Heartbeat \<Rightarrow> Read \<Rightarrow> 'r" where
  "hb_read reply_raw fs op =
     (let content = hb_content (hb_inner fs); offset = unat (Read_offset op) in
      if length content \<le> offset then reply_bytes reply_raw Bytes_Unit
      else
        let sz = unat (Read_size op); data = drop offset content in
        reply_bytes reply_raw (Bytes_Pointer (Bytes_Slice_u8 (take (min (length data) sz) data))))"

definition hb_handle :: "'k os \<Rightarrow> Device \<Rightarrow> ('k, Heartbeat) fs_handler" where
  "hb_handle S device self req op remains k fs =
     (let config = sess_config self; reply_raw = device_reply S device self k req;
          reply = (\<lambda>r. answer r remains fs)
      in case op of
        Getattr op \<Rightarrow>
          if Getattr_ino op = NodeID_ROOT
          then reply (reply_attr config reply_raw (hb_attr (hb_inner fs)) None)
          else reply (reply_error reply_raw ENOENT)
      | Open op \<Rightarrow>
          if Open_ino op = NodeID_ROOT
          then reply (reply_open config reply_raw (FileID 0) FOPEN_KEEP_CACHE 0)
          else reply (reply_error reply_raw ENOENT)
      | Read op \<Rightarrow>
          if Read_ino op = NodeID_ROOT then reply (hb_read reply_raw fs op)
          else reply (reply_error reply_raw ENOENT)
      | NotifyReply op \<Rightarrow>
          map_option (\<lambda>(r, remains, k, fs). (and_then r (\<lambda>_. Ok ()), self, remains, k, fs))
            (hb_notify_reply S op remains k fs)
      | _ \<Rightarrow> reply (reply_error reply_raw ENOSYS))"

section \<open>The specification\<close>

definition hb_wf :: "Heartbeat \<Rightarrow> bool" where
  "hb_wf fs \<longleftrightarrow> 16 + length (hb_content (hb_inner fs)) < 2 ^ 32"

definition hb_spec :: "Heartbeat fs_spec" where
  "hb_spec config op fs =
     (case op of
        Getattr op \<Rightarrow> Some
          (if Getattr_ino op = NodeID_ROOT then reply_attr config Pair (hb_attr (hb_inner fs)) None
           else (Some ENOENT, Bytes_Unit), fs)
      | Open op \<Rightarrow> Some
          (if Open_ino op = NodeID_ROOT then reply_open config Pair (FileID 0) FOPEN_KEEP_CACHE 0
           else (Some ENOENT, Bytes_Unit), fs)
      | Read op \<Rightarrow> Some
          (if Read_ino op = NodeID_ROOT
           then (None,
             let data = file_range (hb_content (hb_inner fs)) (Read_offset op) (Read_size op) in
             if length (hb_content (hb_inner fs)) \<le> unat (Read_offset op) then Bytes_Unit
             else Bytes_Pointer (Bytes_Slice_u8 data))
           else (Some ENOENT, Bytes_Unit), fs)
      | NotifyReply op \<Rightarrow> None
      | _ \<Rightarrow> Some ((Some ENOSYS, Bytes_Unit), fs))"

section \<open>Lemmas\<close>

interpretation heartbeat_fs: covering S device "hb_handle S device" hb_spec "\<lambda>op. \<not> has_data op" hb_wf
  for S :: "'k os" and device
proof unfold_locales
  fix self :: Session and op fs err arg fs' and k k' :: 'k and req self' remains
  assume spec: "hb_spec (sess_config self) op fs = Some ((err, arg), fs')"
    and reply: "device_reply S device self k req err arg = Some (Ok (), self', k')"
  show "hb_handle S device self req op remains k fs = Some (Ok (), self', remains, k', fs')"
  proof (cases op)
    case (Getattr g)
    with spec reply show ?thesis
      by (auto simp: hb_handle_def hb_spec_def reply_error_def Let_def
          reply_as_value [where reply_raw = "device_reply S device self k req"] split: if_splits)
  next
    case (Open g)
    with spec reply show ?thesis
      by (auto simp: hb_handle_def hb_spec_def reply_error_def Let_def
          reply_as_value [where reply_raw = "device_reply S device self k req"] split: if_splits)
  next
    case (Read r)
    with spec reply show ?thesis
      by (auto simp: hb_handle_def hb_spec_def hb_read_def reply_bytes_def file_range_def min_def
          reply_error_def Let_def split: if_splits)
  qed (use spec reply in \<open>auto simp: hb_handle_def hb_spec_def reply_error_def Let_def\<close>)
next
  fix op fs config
  assume op: "\<not> has_data op" and wf: "hb_wf fs"
  show "\<exists>err arg fs'. hb_spec config op fs = Some ((err, arg), fs') \<and>
      16 + Bytes_size arg < 2 ^ 32 \<and> hb_wf fs'"
  proof (cases op)
    case (Getattr g)
    obtain b where "reply_attr config Pair (hb_attr (hb_inner fs)) None = (None, POD b)" "length b \<le> 128"
      using reply_sizes(2) by blast
    with Getattr wf show ?thesis by (auto simp: hb_spec_def)
  next
    case (Open g)
    obtain b where "reply_open config Pair (FileID 0) FOPEN_KEEP_CACHE 0 = (None, POD b)" "length b \<le> 128"
      using reply_sizes(3) by blast
    with Open wf show ?thesis by (auto simp: hb_spec_def)
  next
    case (Read r)
    with wf size_file_range [of "hb_content (hb_inner fs)" "Read_offset r" "Read_size r"] show ?thesis
      by (auto simp: hb_spec_def hb_wf_def Let_def)
  qed (use op wf in \<open>simp_all add: hb_spec_def\<close>)
qed

text \<open>Reading the data of a request that is in memory.\<close>

lemma read_exact_Vec:
  assumes "length data = n"
  shows "RemainingData_read_exact S (RemainingData_Vec (data @ stale)) [] (replicate n 0) k =
    Some (Ok (), data, RemainingData_Vec stale, k)"
  using assms
  by (cases "n = 0")
    (simp_all add: RemainingData_read_exact.simps RemainingData_read_def)

lemma hb_notify_reply_known:
  assumes "Mapping.lookup (hb_retrieves fs) (NotifyReply_unique op) = Some original"
    and "length data = unat (NotifyReply_size op)"
  shows "hb_notify_reply S op (RemainingData_Vec (data @ stale)) k fs =
    Some (and_then (compare_data original data) (\<lambda>matched. Ok (Some matched)), RemainingData_Vec stale, k,
      fs\<lparr> hb_retrieves := Mapping.delete (NotifyReply_unique op) (hb_retrieves fs) \<rparr>)"
  using assms by (simp add: hb_notify_reply_def read_exact_Vec)

text \<open>The two messages that store a content and ask for it back.\<close>

definition store_message :: "bytes \<Rightarrow> bytes" where
  "store_message content =
     msg_bytes (Notify FUSE_NOTIFY_STORE)
       (pod_enc fuse_notify_store_out_pod
          \<lparr> notify_store_out_nodeid = NodeID_into_raw NodeID_ROOT, notify_store_out_offset = 0,
            notify_store_out_size = of_nat (length content), notify_store_out_padding = 0 \<rparr> @ content)"

definition retrieve_message :: "extern \<Rightarrow> NotifyID \<Rightarrow> bytes" where
  "retrieve_message X notify_unique =
     msg_bytes (Notify FUSE_NOTIFY_RETRIEVE)
       (pod_enc fuse_notify_retrieve_out_pod
          \<lparr> notify_retrieve_out_notify_unique = NotifyID_into_raw notify_unique,
            notify_retrieve_out_nodeid = NodeID_into_raw NodeID_ROOT, notify_retrieve_out_offset = 0,
            notify_retrieve_out_size = of_nat (page_size X), notify_retrieve_out_padding = 0 \<rparr>)"

lemma notify_send_store:
  assumes "dev_write_ok S V (Device_fd device)" and "hb_kind fs = Some NotifyKind_Store"
    and "40 + length (hb_content (hb_inner fs)) < 2 ^ 32"
  shows "\<exists>k'. notify_send X S device session k fs =
      Some (Ok (Some (NotifyID (sess_notify_unique session), hb_content (hb_inner fs))),
        session\<lparr> sess_notify_unique := sess_notify_unique session + 1 \<rparr>, k') \<and>
    v_written V k' (Device_fd device) = v_written V k (Device_fd device) @
      [store_message (hb_content (hb_inner fs)), retrieve_message X (NotifyID (sess_notify_unique session))]"
proof -
  let ?content = "hb_content (hb_inner fs)"
  let ?wv = "Device_write_vectored S device"
  let ?session = "session\<lparr> sess_notify_unique := sess_notify_unique session + 1 \<rparr>"
  let ?store = "Bytes_Tuple
    [POD (pod_enc fuse_notify_store_out_pod
       \<lparr> notify_store_out_nodeid = NodeID_into_raw NodeID_ROOT, notify_store_out_offset = 0,
         notify_store_out_size = of_nat (length ?content), notify_store_out_padding = 0 \<rparr>),
     Bytes_Pointer (Bytes_Str ?content)]"
  let ?retrieve = "POD (pod_enc fuse_notify_retrieve_out_pod
    \<lparr> notify_retrieve_out_notify_unique = sess_notify_unique session,
      notify_retrieve_out_nodeid = NodeID_into_raw NodeID_ROOT, notify_retrieve_out_offset = 0,
      notify_retrieve_out_size = of_nat (page_size X), notify_retrieve_out_padding = 0 \<rparr>)"
  have "16 + Bytes_size ?store < 2 ^ 32"
    using assms(3) by (simp add: fuse_notify_store_out.enc_length pod_sizes)
  from device_notify_ok [OF assms(1) this] obtain k1 where
    1: "Notifier_send ?wv session k FUSE_NOTIFY_STORE ?store = Some (Ok (), session, k1)"
      "v_written V k1 (Device_fd device) = v_written V k (Device_fd device) @
        [msg_bytes (Notify FUSE_NOTIFY_STORE) (Bytes_content ?store)]" by blast
  have "16 + Bytes_size ?retrieve < 2 ^ 32"
    by (simp add: fuse_notify_retrieve_out.enc_length pod_sizes)
  from device_notify_ok [OF assms(1) this] obtain k2 where
    2: "Notifier_send ?wv ?session k1 FUSE_NOTIFY_RETRIEVE ?retrieve = Some (Ok (), ?session, k2)"
      "v_written V k2 (Device_fd device) = v_written V k1 (Device_fd device) @
        [msg_bytes (Notify FUSE_NOTIFY_RETRIEVE) (Bytes_content ?retrieve)]" by blast
  have "Notifier_store ?wv session k NodeID_ROOT 0 (Bytes_Pointer (Bytes_Str ?content)) = Some (Ok (), session, k1)"
    using 1(1) by (simp add: Notifier_store_def)
  moreover have "Notifier_retrieve ?wv session k1 NodeID_ROOT 0 (of_nat (page_size X)) =
      Some (Ok (NotifyID (sess_notify_unique session)), ?session, k2)"
    using 2(1) by (simp add: Notifier_retrieve_def fetch_add_notify_unique_def)
  ultimately show ?thesis
    using 1(2) 2(2) assms(2)
    by (simp add: notify_send_def store_message_def retrieve_message_def Bytes_content_def Let_def)
qed

section \<open>Properties\<close>

text \<open>C24: Storing and checking: the thread that replaces the content sends the kernel the new content,
  under the length it has, then asks for it back under a number of its own, and notes the number. When the
  kernel answers to that number with data that begins with what was stored, the data is received in memory, and
  the thread has noted the number before the answer is handled, then the answer is recognised by its
  number and found to match, no reply is sent to it, and the number is forgotten.
\<close>

theorem heartbeat_store_checked:
  assumes "dev_write_ok S V (Device_fd device)" and "hb_kind fs = Some NotifyKind_Store"
    and "40 + length (hb_content (hb_inner fs)) < 2 ^ 32"
    and "NotifyReply_unique op = NotifyID (sess_notify_unique session)"
    and "length (hb_content (hb_inner fs) @ padding) = unat (NotifyReply_size op)"
  shows "\<exists>k' fs'. hb_notify X S device session k fs =
      Some (Ok (), session\<lparr> sess_notify_unique := sess_notify_unique session + 1 \<rparr>, k', fs') \<and>
    v_written V k' (Device_fd device) = v_written V k (Device_fd device) @
      [store_message (hb_content (hb_inner fs)), retrieve_message X (NotifyReply_unique op)] \<and>
    hb_notify_reply S op (RemainingData_Vec ((hb_content (hb_inner fs) @ padding) @ stale)) k2 fs' =
      Some (Ok (Some True), RemainingData_Vec stale, k2,
        fs\<lparr> hb_retrieves := Mapping.delete (NotifyReply_unique op) (hb_retrieves fs) \<rparr>) \<and>
    hb_handle S device self req (NotifyReply op)
        (RemainingData_Vec ((hb_content (hb_inner fs) @ padding) @ stale)) k2 fs' =
      Some (Ok (), self, RemainingData_Vec stale, k2,
        fs\<lparr> hb_retrieves := Mapping.delete (NotifyReply_unique op) (hb_retrieves fs) \<rparr>)"
proof -
  let ?content = "hb_content (hb_inner fs)" and ?id = "NotifyReply_unique op"
  let ?fs = "notify_insert (Some (?id, ?content)) fs"
  from notify_send_store [OF assms(1-3), of X session k] obtain k' where
    k': "hb_notify X S device session k fs =
        Some (Ok (), session\<lparr> sess_notify_unique := sess_notify_unique session + 1 \<rparr>, k', ?fs)"
      "v_written V k' (Device_fd device) = v_written V k (Device_fd device) @
        [store_message ?content, retrieve_message X ?id]"
    by (auto simp: hb_notify_def assms(4))
  have gone: "?fs\<lparr> hb_retrieves := Mapping.delete ?id (hb_retrieves ?fs) \<rparr> =
      fs\<lparr> hb_retrieves := Mapping.delete ?id (hb_retrieves fs) \<rparr>"
    by (simp add: notify_insert_def delete_update)
  have "Mapping.lookup (hb_retrieves ?fs) ?id = Some ?content" by (simp add: notify_insert_def)
  from hb_notify_reply_known [OF this assms(5), of S stale k2]
  have reply: "hb_notify_reply S op (RemainingData_Vec ((?content @ padding) @ stale)) k2 ?fs =
      Some (Ok (Some True), RemainingData_Vec stale, k2,
        fs\<lparr> hb_retrieves := Mapping.delete ?id (hb_retrieves fs) \<rparr>)"
    unfolding gone by (simp add: compare_data_def)
  then show ?thesis using k' by (simp add: hb_handle_def)
qed

definition sample_heartbeat :: Heartbeat where
  "sample_heartbeat = Heartbeat_new [49, 50, 51] (Some NotifyKind_Store)"

definition sample_notify_reply :: NotifyReply where
  "sample_notify_reply =
     \<lparr> NotifyReply_unique = NotifyID 0, NotifyReply_ino = NodeID_ROOT, NotifyReply_offset = 0, NotifyReply_size = 4 \<rparr>"

theorem heartbeat_store_checked_witness:
  "\<exists>k' fs'. hb_notify linux_extern sim_os (Device_from_fd 0) (Session_new KernelConfig_new) (waiting [])
        sample_heartbeat =
      Some (Ok (), (Session_new KernelConfig_new)
        \<lparr> sess_notify_unique := sess_notify_unique (Session_new KernelConfig_new) + 1 \<rparr>, k', fs') \<and>
    v_written sim_view k' 0 =
      [store_message (hb_content (hb_inner sample_heartbeat)), retrieve_message linux_extern (NotifyID 0)] \<and>
    hb_notify_reply sim_os sample_notify_reply
        (RemainingData_Vec ((hb_content (hb_inner sample_heartbeat) @ [0]) @ [9])) (waiting []) fs' =
      Some (Ok (Some True), RemainingData_Vec [9], waiting [],
        sample_heartbeat\<lparr> hb_retrieves := Mapping.delete (NotifyID 0) (hb_retrieves sample_heartbeat) \<rparr>)"
proof -
  have s: "hb_kind sample_heartbeat = Some NotifyKind_Store"
    "40 + length (hb_content (hb_inner sample_heartbeat)) < 2 ^ 32"
    "NotifyReply_unique sample_notify_reply = NotifyID (sess_notify_unique (Session_new KernelConfig_new))"
    "length (hb_content (hb_inner sample_heartbeat) @ [0]) = unat (NotifyReply_size sample_notify_reply)"
    by (simp_all add: sample_heartbeat_def sample_notify_reply_def Heartbeat_new_def Session_new_def)
  have wr: "dev_write_ok sim_os sim_view (Device_fd (Device_from_fd 0))" by (simp add: sim_write_ok)
  have u: "NotifyReply_unique sample_notify_reply = NotifyID 0" by (simp add: sample_notify_reply_def)
  have w: "v_written sim_view (waiting []) 0 = []" by (simp add: waiting_view)
  from heartbeat_store_checked [OF wr s, of linux_extern "waiting []" "[9]" "waiting []"]
  show ?thesis unfolding Device.sel u w append_Nil by blast
qed

text \<open>An answer that comes too early is never checked: the number is remembered only after the
  question was sent. When the other thread handles the answer in between, it does not know the number
  and ignores the answer; the number stays in the table afterwards.
\<close>

theorem heartbeat_early_answer:
  assumes "dev_write_ok S V (Device_fd device)" and "hb_kind fs = Some NotifyKind_Store"
    and "40 + length (hb_content (hb_inner fs)) < 2 ^ 32"
    and "NotifyReply_unique op = NotifyID (sess_notify_unique session)"
    and "Mapping.lookup (hb_retrieves fs) (NotifyReply_unique op) = None"
  shows "\<exists>sent session' k'. notify_send X S device session k fs = Some (Ok sent, session', k') \<and>
    hb_notify_reply S op remains k2 fs = Some (Ok None, remains, k2, fs) \<and>
    Mapping.lookup (hb_retrieves (notify_insert sent fs)) (NotifyReply_unique op) =
      Some (hb_content (hb_inner fs))"
  using notify_send_store [OF assms(1-3), of X session k] assms(4,5)
  by (auto simp: hb_notify_reply_def notify_insert_def)

text \<open>A short answer stops the server: when the kernel returns fewer bytes than were stored, as it may
  when it has dropped pages, the comparison takes a slice that is out of range, and the thread that
  serves requests panics.
\<close>

theorem heartbeat_short_answer:
  assumes "Mapping.lookup (hb_retrieves fs) (NotifyReply_unique op) = Some original"
    and "length data = unat (NotifyReply_size op)" and "length data < length original"
  shows "\<exists>fs'. hb_handle S device self req (NotifyReply op) (RemainingData_Vec (data @ stale)) k fs =
    Some (Panic, self, RemainingData_Vec stale, k, fs')"
  using hb_notify_reply_known [OF assms(1,2), of S stale k] assms(3)
  by (simp add: hb_handle_def compare_data_def)

end
