(* ===== verification/Heartbeat_Entry.thy ===== *)
theory Heartbeat_Entry
  imports Serve Fs Runs
begin

text \<open>
  The filesystem of \<open>examples/heartbeat_entry.rs\<close>: a directory with one file, whose name a second thread
  changes all the time. The thread tells the kernel to drop the old name. Both threads take the lock of
  the current name for the whole of a step, so that runs of the program are sequences of such steps; the
  kernel is modelled by the names it keeps and the number of lookups it has to return.
\<close>

section \<open>The filesystem\<close>

definition FILE_INO :: NodeID where
  "FILE_INO = the (NodeID_from_raw 2)"

text \<open>The name is made of the hours, minutes and seconds of the clock, with two digits each.\<close>

definition two_digits :: "nat \<Rightarrow> string" where
  "two_digits n = [digit_char (n div 10 mod 10), digit_char (n mod 10)]"

fun generate_filename :: "nat \<times> nat \<times> nat \<Rightarrow> bytes" where
  "generate_filename (h, m, s) =
     as_bytes (''Time_is_'' @ two_digits h @ ''h_'' @ two_digits m @ ''m_'' @ two_digits s @ ''s'')"

record CurrentFile =
  cur_filename :: bytes
  cur_nlookup :: u64

record HeartbeatEntry =
  hbe_root_attr :: FileAttr
  hbe_file_attr :: FileAttr
  hbe_ttl :: duration
  hbe_current :: CurrentFile
  hbe_no_notify :: bool

definition HeartbeatEntry_new :: "nat \<times> nat \<times> nat \<Rightarrow> duration \<Rightarrow> bool \<Rightarrow> HeartbeatEntry" where
  "HeartbeatEntry_new now ttl no_notify =
     \<lparr> hbe_root_attr =
         FileAttr_new
           \<lparr> FileAttr_ino := NodeID_ROOT,
             FileAttr_mode := FileMode_new Directory (FilePermissions_READ OR FilePermissions_EXEC),
             FileAttr_nlink := 2 \<rparr>,
       hbe_file_attr =
         FileAttr_new
           \<lparr> FileAttr_ino := FILE_INO, FileAttr_mode := FileMode_new Regular FilePermissions_READ,
             FileAttr_nlink := 1 \<rparr>,
       hbe_ttl = ttl,
       hbe_current = \<lparr> cur_filename = generate_filename now, cur_nlookup = 0 \<rparr>,
       hbe_no_notify = no_notify \<rparr>"

definition set_nlookup :: "u64 \<Rightarrow> HeartbeatEntry \<Rightarrow> HeartbeatEntry" where
  "set_nlookup n fs = fs\<lparr> hbe_current := hbe_current fs\<lparr> cur_nlookup := n \<rparr> \<rparr>"

text \<open>The thread: the name is replaced in any case, also when the notification fails.\<close>

definition heartbeat ::
    "'k os \<Rightarrow> Device \<Rightarrow> nat \<times> nat \<times> nat \<Rightarrow> Session \<Rightarrow> 'k \<Rightarrow> HeartbeatEntry \<Rightarrow>
      ((io_error, unit) result \<times> Session \<times> 'k \<times> HeartbeatEntry) option" where
  "heartbeat S device now session k self =
     (let new_filename = generate_filename now;
          old_filename = cur_filename (hbe_current self);
          self = self\<lparr> hbe_current := hbe_current self\<lparr> cur_filename := new_filename \<rparr> \<rparr>
      in if \<not> hbe_no_notify self \<and> 0 < cur_nlookup (hbe_current self)
         then map_option (\<lambda>(r, session, k). (r, session, k, self))
                (Notifier_inval_entry (Device_write_vectored S device) session k NodeID_ROOT old_filename)
         else Some (Ok (), session, k, self))"

section \<open>The handler\<close>

fun forget_all :: "extern \<Rightarrow> Forget list \<Rightarrow> u64 \<Rightarrow> ('e, u64) result" where
  "forget_all X [] nlookup = Ok nlookup"
| "forget_all X (forget # rest) nlookup =
     and_then (Forget_ino forget) (\<lambda>ino.
       if ino = FILE_INO then
         (case sub_assign X nlookup (Forget_nlookup forget) of
            None \<Rightarrow> Panic
          | Some nlookup \<Rightarrow> forget_all X rest nlookup)
       else forget_all X rest nlookup)"

text \<open>The lookup is counted after the reply was sent.\<close>

definition hbe_lookup ::
    "extern \<Rightarrow> 'k os \<Rightarrow> Device \<Rightarrow> Lookup \<Rightarrow> Session \<Rightarrow> Request \<Rightarrow> RemainingData \<Rightarrow> 'k \<Rightarrow> HeartbeatEntry \<Rightarrow>
      ('k, HeartbeatEntry) served" where
  "hbe_lookup X S device op self req remains k fs =
     (let reply_raw = device_reply S device self k req in
      if Lookup_parent op \<noteq> NodeID_ROOT then answer (reply_error reply_raw ENOTDIR) remains fs
      else if Lookup_name op \<noteq> cur_filename (hbe_current fs)
      then answer (reply_error reply_raw ENOENT) remains fs
      else
        (case reply_entry (sess_config self) reply_raw (Some (FileAttr_ino (hbe_file_attr fs)))
                (hbe_file_attr fs) 0 (Some (hbe_ttl fs)) (Some (hbe_ttl fs)) of
           Some (Ok _, self, k) \<Rightarrow>
             (case add_assign X (cur_nlookup (hbe_current fs)) 1 of
                None \<Rightarrow> Some (Panic, self, remains, k, fs)
              | Some n \<Rightarrow> Some (Ok (), self, remains, k, set_nlookup n fs))
         | r \<Rightarrow> answer r remains fs))"

definition hbe_readdir :: "(nat \<Rightarrow> nat) \<Rightarrow> HeartbeatEntry \<Rightarrow> Readdir \<Rightarrow> ('e, DirEntryBuf) result" where
  "hbe_readdir reserve fs op =
     and_then (push_entry (DirEntryBuf_new reserve (unat (Readdir_size op)))
                 (cur_filename (hbe_current fs)) FILE_INO None 1)
       (\<lambda>(_, buf). Ok buf)"

definition hbe_handle :: "extern \<Rightarrow> (nat \<Rightarrow> nat) \<Rightarrow> 'k os \<Rightarrow> Device \<Rightarrow> ('k, HeartbeatEntry) fs_handler" where
  "hbe_handle X reserve S device self req op remains k fs =
     (let config = sess_config self; reply_raw = device_reply S device self k req;
          reply = (\<lambda>r. answer r remains fs)
      in case op of
        Lookup op \<Rightarrow> hbe_lookup X S device op self req remains k fs
      | Forget_op forgets \<Rightarrow>
          (case forget_all X (Forgets_deref forgets) (cur_nlookup (hbe_current fs)) of
             Ok n \<Rightarrow> Some (Ok (), self, remains, k, set_nlookup n fs)
           | Err e \<Rightarrow> Some (Err e, self, remains, k, fs)
           | Panic \<Rightarrow> Some (Panic, self, remains, k, fs))
      | Getattr op \<Rightarrow>
          if Getattr_ino op = NodeID_ROOT
          then reply (reply_attr config reply_raw (hbe_root_attr fs) (Some (hbe_ttl fs)))
          else if Getattr_ino op = FILE_INO
          then reply (reply_attr config reply_raw (hbe_file_attr fs) (Some (hbe_ttl fs)))
          else reply (reply_error reply_raw ENOENT)
      | Read op \<Rightarrow>
          if Read_ino op = NodeID_ROOT then reply (reply_error reply_raw EISDIR)
          else if Read_ino op = FILE_INO then reply (reply_bytes reply_raw Bytes_Unit)
          else reply (reply_error reply_raw ENOENT)
      | Readdir op \<Rightarrow>
          if Readdir_ino op \<noteq> NodeID_ROOT then reply (reply_error reply_raw ENOTDIR)
          else if 0 < Readdir_offset op then reply (reply_bytes reply_raw Bytes_Unit)
          else
            (case hbe_readdir reserve fs op of
               Ok buf \<Rightarrow> reply (reply_dir reply_raw buf)
             | Err e \<Rightarrow> Some (Err e, self, remains, k, fs)
             | Panic \<Rightarrow> Some (Panic, self, remains, k, fs))
      | _ \<Rightarrow> reply (reply_error reply_raw ENOSYS))"

section \<open>The kernel\<close>

text \<open>
  What the kernel keeps of the directory: the names that it can resolve without asking, and the number of
  lookups of the file that it has to return.
\<close>

record kernel_dcache =
  kd_names :: "bytes set"
  kd_count :: nat

text \<open>The reply to a lookup, and a notification.\<close>

definition kernel_looked_up :: "RequestID \<Rightarrow> bytes \<Rightarrow> bytes \<Rightarrow> kernel_dcache \<Rightarrow> kernel_dcache" where
  "kernel_looked_up unique name m c =
     (case parse_msg m of
        Some (h, _) \<Rightarrow>
          if msg_kind h = Some (Reply unique None)
          then \<lparr> kd_names = insert name (kd_names c), kd_count = kd_count c + 1 \<rparr> else c
      | None \<Rightarrow> c)"

definition kernel_notified :: "bytes \<Rightarrow> kernel_dcache \<Rightarrow> kernel_dcache" where
  "kernel_notified m c =
     (case parse_msg m of
        Some (h, arg) \<Rightarrow>
          if msg_kind h = Some (Notify FUSE_NOTIFY_INVAL_ENTRY) then
            let out = pod_dec fuse_notify_inval_entry_out_pod (take 16 arg);
                n = unat (notify_inval_entry_out_namelen out)
            in if length arg = 16 + n + 1 \<and> notify_inval_entry_out_parent out = NodeID_into_raw NodeID_ROOT
               then c\<lparr> kd_names := kd_names c - {take n (drop 16 arg)} \<rparr> else c
          else c
      | None \<Rightarrow> c)"

text \<open>
  The lookups of the file that a request returns. The kernel returns no more than it has, and keeps at
  least one of them as long as it keeps a name of the file. Names it may drop at any time.
\<close>

definition returned :: "Forget list \<Rightarrow> nat" where
  "returned fs =
     sum_list (map (\<lambda>f. if forget_one_nodeid (Forget_raw f) = NodeID_into_raw FILE_INO
       then unat (Forget_nlookup f) else 0) fs)"

section \<open>Runs\<close>

record 'k beating =
  bt_fs :: HeartbeatEntry
  bt_kernel :: kernel_dcache
  bt_session :: Session
  bt_os :: 'k

text \<open>The messages that were written between two states.\<close>

definition sent :: "'k os_view \<Rightarrow> Device \<Rightarrow> 'k \<Rightarrow> 'k \<Rightarrow> bytes list" where
  "sent V device k k' =
     drop (length (v_written V k (Device_fd device))) (v_written V k' (Device_fd device))"

datatype beat_event = Beat | Request_handled Operation | Evicted "bytes set"

inductive beat_step ::
    "extern \<Rightarrow> (nat \<Rightarrow> nat) \<Rightarrow> 'k os \<Rightarrow> 'k os_view \<Rightarrow> Device \<Rightarrow> 'k beating \<Rightarrow> beat_event \<Rightarrow> 'k beating \<Rightarrow> bool"
  for X reserve S V device where
  step_beat:
    "heartbeat S device now (bt_session w) (bt_os w) (bt_fs w) = Some (r, session, k, fs) \<Longrightarrow>
     beat_step X reserve S V device w Beat
       \<lparr> bt_fs = fs, bt_kernel = fold kernel_notified (sent V device (bt_os w) k) (bt_kernel w),
         bt_session = session, bt_os = k \<rparr>"
| step_lookup:
    "hbe_handle X reserve S device (bt_session w) req (Lookup op) remains (bt_os w) (bt_fs w) =
       Some (r, session, remains', k, fs) \<Longrightarrow>
     RequestID_into_raw (InHeader_unique (req_header req)) \<noteq> 0 \<Longrightarrow>
     beat_step X reserve S V device w (Request_handled (Lookup op))
       \<lparr> bt_fs = fs,
         bt_kernel = fold (kernel_looked_up (InHeader_unique (req_header req)) (Lookup_name op))
           (sent V device (bt_os w) k) (bt_kernel w),
         bt_session = session, bt_os = k \<rparr>"
| step_forget:
    "hbe_handle X reserve S device (bt_session w) req (Forget_op forgets) remains (bt_os w) (bt_fs w) =
       Some (r, session, remains', k, fs) \<Longrightarrow>
     list_all (\<lambda>f. forget_one_nodeid (Forget_raw f) \<noteq> 0) (Forgets_deref forgets) \<Longrightarrow>
     returned (Forgets_deref forgets) \<le> kd_count (bt_kernel w) \<Longrightarrow>
     (kd_names (bt_kernel w) \<noteq> {} \<longrightarrow> returned (Forgets_deref forgets) < kd_count (bt_kernel w)) \<Longrightarrow>
     beat_step X reserve S V device w (Request_handled (Forget_op forgets))
       \<lparr> bt_fs = fs,
         bt_kernel = (bt_kernel w)\<lparr> kd_count := kd_count (bt_kernel w) - returned (Forgets_deref forgets) \<rparr>,
         bt_session = session, bt_os = k \<rparr>"
| step_other:
    "hbe_handle X reserve S device (bt_session w) req op remains (bt_os w) (bt_fs w) =
       Some (r, session, remains', k, fs) \<Longrightarrow>
     (\<forall>l f. op \<noteq> Lookup l \<and> op \<noteq> Forget_op f) \<Longrightarrow>
     beat_step X reserve S V device w (Request_handled op)
       (w\<lparr> bt_fs := fs, bt_session := session, bt_os := k \<rparr>)"
| step_evict:
    "beat_step X reserve S V device w (Evicted names)
       (w\<lparr> bt_kernel := (bt_kernel w)\<lparr> kd_names := kd_names (bt_kernel w) - names \<rparr> \<rparr>)"

text \<open>
  The invariant, after \<open>n\<close> steps: the lookups are counted as the kernel counts them, and the kernel
  keeps no name but the current one.
\<close>

definition beat_inv :: "nat \<Rightarrow> 'k beating \<Rightarrow> bool" where
  "beat_inv n w \<longleftrightarrow>
     unat (cur_nlookup (hbe_current (bt_fs w))) = kd_count (bt_kernel w) \<and>
     kd_count (bt_kernel w) \<le> n \<and>
     length (cur_filename (hbe_current (bt_fs w))) = 19 \<and>
     (kd_names (bt_kernel w) \<noteq> {} \<longrightarrow> 0 < kd_count (bt_kernel w)) \<and>
     (\<not> hbe_no_notify (bt_fs w) \<longrightarrow> kd_names (bt_kernel w) \<subseteq> {cur_filename (hbe_current (bt_fs w))})"

section \<open>Lemmas\<close>

lemma length_generate_filename [simp]: "length (generate_filename now) = 19"
  by (cases now) (simp add: as_bytes_def two_digits_def)

lemma sent_append: "v_written V k' (Device_fd d) = v_written V k (Device_fd d) @ ms \<Longrightarrow> sent V d k k' = ms"
  by (simp add: sent_def)

lemma kernel_notified_inval:
  assumes "length name = 19"
  shows "kernel_notified
      (msg_bytes (Notify FUSE_NOTIFY_INVAL_ENTRY)
        (Bytes_content (Bytes_Tuple
          [POD (pod_enc fuse_notify_inval_entry_out_pod
             \<lparr> notify_inval_entry_out_parent = 1, notify_inval_entry_out_namelen = of_nat (length name),
               notify_inval_entry_out_flags = 0 \<rparr>),
           Bytes_Pointer (Bytes_Slice_u8 name), Bytes_Pointer (Bytes_Str [0])]))) c =
    c\<lparr> kd_names := kd_names c - {name} \<rparr>"
  using assms by (cases "name = []") (simp_all add: kernel_notified_def Bytes_content_def parse_msg_bytes msg_kind_header assms Let_def
      fuse_notify_inval_entry_out.enc_length fuse_notify_inval_entry_out.dec_enc pod_sizes
      del: msg_kind.simps)

lemma heartbeat_ok:
  assumes "dev_write_ok S V (Device_fd device)" and "length (cur_filename (hbe_current fs)) = 19"
  shows "\<exists>k'. heartbeat S device now session k fs = Some (Ok (), session, k',
        fs\<lparr> hbe_current := hbe_current fs\<lparr> cur_filename := generate_filename now \<rparr> \<rparr>) \<and>
    fold kernel_notified (sent V device k k') c =
      (if \<not> hbe_no_notify fs \<and> 0 < cur_nlookup (hbe_current fs)
       then c\<lparr> kd_names := kd_names c - {cur_filename (hbe_current fs)} \<rparr> else c)"
proof (cases "\<not> hbe_no_notify fs \<and> 0 < cur_nlookup (hbe_current fs)")
  case True
  let ?name = "cur_filename (hbe_current fs)"
  let ?arg = "Bytes_Tuple
      [POD (pod_enc fuse_notify_inval_entry_out_pod
         \<lparr> notify_inval_entry_out_parent = 1, notify_inval_entry_out_namelen = of_nat (length ?name),
           notify_inval_entry_out_flags = 0 \<rparr>),
       Bytes_Pointer (Bytes_Slice_u8 ?name), Bytes_Pointer (Bytes_Str [0])]"
  have "16 + Bytes_size ?arg < 2 ^ 32"
    using assms(2) by (simp add: fuse_notify_inval_entry_out.enc_length pod_sizes)
  from device_notify_ok [OF assms(1) this] obtain k' where
    k': "Notifier_send (Device_write_vectored S device) session k FUSE_NOTIFY_INVAL_ENTRY ?arg =
        Some (Ok (), session, k')"
      "v_written V k' (Device_fd device) = v_written V k (Device_fd device) @
        [msg_bytes (Notify FUSE_NOTIFY_INVAL_ENTRY) (Bytes_content ?arg)]" by blast
  show ?thesis
    using True k'(1)
    by (simp add: heartbeat_def Notifier_inval_entry_def Let_def sent_append [OF k'(2)]
        kernel_notified_inval [OF assms(2)])
next
  case False
  then show ?thesis by (auto simp: heartbeat_def Let_def sent_def)
qed

lemma forget_all_Ok:
  assumes "list_all (\<lambda>f. forget_one_nodeid (Forget_raw f) \<noteq> 0) fs" and "returned fs \<le> unat n"
  shows "\<exists>n'. forget_all X fs n = (Ok n' :: ('e, u64) result) \<and> unat n' = unat n - returned fs"
  using assms
proof (induction fs arbitrary: n)
  case Nil
  then show ?case by (simp add: returned_def)
next
  case (Cons f fs)
  let ?raw = "forget_one_nodeid (Forget_raw f)"
  obtain ino where ino: "Forget_ino f = (Ok ino :: ('e, NodeID) result)" "NodeID_into_raw ino = ?raw"
    using Cons.prems(1) by (auto simp: Forget_ino_def NodeID_from_raw_def NodeID_from_raw_unchecked_inverse)
  show ?case
  proof (cases "ino = FILE_INO")
    case True
    then have r: "returned (f # fs) = unat (Forget_nlookup f) + returned fs"
      using ino(2) by (simp add: returned_def)
    then have le: "Forget_nlookup f \<le> n" using Cons.prems(2) by (simp add: word_le_nat_alt)
    have "returned fs \<le> unat (n - Forget_nlookup f)" using Cons.prems(2) r le by (simp add: unat_sub)
    from Cons.IH [OF _ this] Cons.prems(1) ino(1) True r le show ?thesis
      by (auto simp: sub_assign_def unat_sub)
  next
    case False
    then have "?raw \<noteq> NodeID_into_raw FILE_INO" using ino(2) NodeID_into_raw_inject by metis
    then have r: "returned (f # fs) = returned fs" by (simp add: returned_def)
    with Cons.IH [of n] Cons.prems ino(1) False show ?thesis by simp
  qed
qed

lemma kernel_looked_up_reply:
  assumes "RequestID_into_raw unique \<noteq> 0" and "16 + length arg < 2 ^ 32"
  shows "kernel_looked_up unique name (msg_bytes (Reply unique None) arg) c =
      \<lparr> kd_names = insert name (kd_names c), kd_count = kd_count c + 1 \<rparr>"
    and "0 < sint e \<Longrightarrow> sint e < 512 \<Longrightarrow> kernel_looked_up unique name (msg_bytes (Reply unique (Some e)) arg) c = c"
  using assms
  by (simp_all add: kernel_looked_up_def parse_msg_bytes msg_kind_header del: msg_kind.simps)

text \<open>A lookup: the reply reaches the kernel, and both sides count it.\<close>

lemma hbe_lookup_error:
  assumes "dev_write_ok S V (Device_fd device)" and "RequestID_into_raw (InHeader_unique (req_header req)) \<noteq> 0"
    and "0 < sint e" "sint e < 512"
  shows "\<exists>k'. answer (reply_error (device_reply S device self k req) e) remains fs =
      Some (Ok (), self, remains, k', fs) \<and>
    fold (kernel_looked_up (InHeader_unique (req_header req)) name) (sent V device k k') c = c"
proof -
  from device_reply_ok [OF assms(1) size_error] obtain k' where
    k': "device_reply S device self k req (Some e) Bytes_Unit = Some (Ok (), self, k')"
      "v_written V k' (Device_fd device) = v_written V k (Device_fd device) @
        [msg_bytes (Reply (InHeader_unique (req_header req)) (Some e)) (Bytes_content Bytes_Unit)]" by blast
  show ?thesis
    using k'(1) assms(2-4)
    by (simp add: reply_error_def sent_append [OF k'(2)] Bytes_content_def kernel_looked_up_reply)
qed

lemma hbe_lookup_ok:
  assumes "dev_write_ok S V (Device_fd device)" and "RequestID_into_raw (InHeader_unique (req_header req)) \<noteq> 0"
    and "unat (cur_nlookup (hbe_current fs)) + 1 < 2 ^ 64"
  shows "\<exists>k' fs'. hbe_lookup X S device op self req remains k fs = Some (Ok (), self, remains, k', fs') \<and>
    (if Lookup_parent op = NodeID_ROOT \<and> Lookup_name op = cur_filename (hbe_current fs)
     then fs' = set_nlookup (cur_nlookup (hbe_current fs) + 1) fs \<and>
       fold (kernel_looked_up (InHeader_unique (req_header req)) (Lookup_name op)) (sent V device k k') c =
         \<lparr> kd_names = insert (Lookup_name op) (kd_names c), kd_count = kd_count c + 1 \<rparr>
     else fs' = fs \<and>
       fold (kernel_looked_up (InHeader_unique (req_header req)) (Lookup_name op)) (sent V device k k') c = c)"
proof (cases "Lookup_parent op = NodeID_ROOT \<and> Lookup_name op = cur_filename (hbe_current fs)")
  case True
  let ?entry = "\<lambda>f. reply_entry (sess_config self) f (Some (FileAttr_ino (hbe_file_attr fs)))
    (hbe_file_attr fs) 0 (Some (hbe_ttl fs)) (Some (hbe_ttl fs))"
  obtain b where b: "?entry Pair = (None, POD b)" "length b \<le> 128" using reply_sizes(1) by blast
  then have "16 + Bytes_size (POD b) < 2 ^ 32" by simp
  from device_reply_ok [OF assms(1) this] obtain k' where
    k': "device_reply S device self k req None (POD b) = Some (Ok (), self, k')"
      "v_written V k' (Device_fd device) = v_written V k (Device_fd device) @
        [msg_bytes (Reply (InHeader_unique (req_header req)) None) (Bytes_content (POD b))]" by blast
  have "reply_entry (sess_config self) (device_reply S device self k req) (Some (FileAttr_ino (hbe_file_attr fs)))
      (hbe_file_attr fs) 0 (Some (hbe_ttl fs)) (Some (hbe_ttl fs)) = Some (Ok (), self, k')"
    using b(1) k'(1) by (subst reply_as_value) simp
  moreover have "add_assign X (cur_nlookup (hbe_current fs)) 1 = Some (cur_nlookup (hbe_current fs) + 1)"
    using assms(3) by (simp add: add_assign_Some)
  ultimately show ?thesis
    using True b(2) assms(2)
    by (simp add: hbe_lookup_def sent_append [OF k'(2)] Bytes_content_def kernel_looked_up_reply)
next
  case False
  show ?thesis
  proof (cases "Lookup_parent op = NodeID_ROOT")
    case True
    with False hbe_lookup_error [OF assms(1,2), of ENOENT self k remains fs "Lookup_name op" c] show ?thesis
      by (auto simp: hbe_lookup_def libc_const)
  next
    case False
    with hbe_lookup_error [OF assms(1,2), of ENOTDIR self k remains fs "Lookup_name op" c] show ?thesis
      by (auto simp: hbe_lookup_def libc_const)
  qed
qed

text \<open>The other operations do not change the state of the filesystem.\<close>

lemma answer_fs: "answer r remains fs = Some (x, s, remains', k, fs') \<Longrightarrow> fs' = fs"
  by (auto simp: answer_def)

lemma hbe_other_fs:
  assumes "hbe_handle X reserve S device self req op remains k fs = Some (r, self', remains', k', fs')"
    and "\<forall>l f. op \<noteq> Lookup l \<and> op \<noteq> Forget_op f"
  shows "fs' = fs"
  using assms
  by (cases op)
    (auto simp: hbe_handle_def Let_def dest: answer_fs split: if_splits result.splits)

lemma beat_inv_step:
  assumes "beat_step X reserve S V device w e w'" and "dev_write_ok S V (Device_fd device)"
    and "beat_inv n w" and "n < 2 ^ 64 - 1"
  shows "beat_inv (Suc n) w'"
  using assms(1)
proof cases
  case (step_beat now r session k fs)
  have "length (cur_filename (hbe_current (bt_fs w))) = 19" using assms(3) by (simp add: beat_inv_def)
  from heartbeat_ok [OF assms(2) this, of now "bt_session w" "bt_os w" "bt_kernel w"] step_beat(3)
  have "fs = (bt_fs w)\<lparr> hbe_current := hbe_current (bt_fs w)\<lparr> cur_filename := generate_filename now \<rparr> \<rparr>"
    "fold kernel_notified (sent V device (bt_os w) k) (bt_kernel w) =
      (if \<not> hbe_no_notify (bt_fs w) \<and> 0 < cur_nlookup (hbe_current (bt_fs w))
       then (bt_kernel w)\<lparr> kd_names := kd_names (bt_kernel w) - {cur_filename (hbe_current (bt_fs w))} \<rparr>
       else bt_kernel w)" by auto
  with assms(3) step_beat(2) show ?thesis by (auto simp: beat_inv_def word_less_nat_alt)
next
  case (step_lookup req op remains r session remains' k fs)
  have small: "unat (cur_nlookup (hbe_current (bt_fs w))) + 1 < 2 ^ 64"
    using assms(3,4) by (simp add: beat_inv_def)
  have "hbe_lookup X S device op (bt_session w) req remains (bt_os w) (bt_fs w) =
      Some (r, session, remains', k, fs)"
    using step_lookup(3) by (simp add: hbe_handle_def)
  with hbe_lookup_ok [OF assms(2) step_lookup(4) small, of X op "bt_session w" remains "bt_os w" "bt_kernel w"]
  have "if Lookup_parent op = NodeID_ROOT \<and> Lookup_name op = cur_filename (hbe_current (bt_fs w))
     then fs = set_nlookup (cur_nlookup (hbe_current (bt_fs w)) + 1) (bt_fs w) \<and>
       bt_kernel w' = \<lparr> kd_names = insert (Lookup_name op) (kd_names (bt_kernel w)),
         kd_count = kd_count (bt_kernel w) + 1 \<rparr>
     else fs = bt_fs w \<and> bt_kernel w' = bt_kernel w"
    using step_lookup(2) by auto
  moreover have "unat (cur_nlookup (hbe_current (bt_fs w)) + 1) = unat (cur_nlookup (hbe_current (bt_fs w))) + 1"
    using small by (intro unat_add_1) simp
  ultimately show ?thesis
    using assms(3) step_lookup(2) by (auto simp: beat_inv_def set_nlookup_def split: if_splits)
next
  case (step_forget req forgets remains r session remains' k fs)
  let ?fs = "Forgets_deref forgets"
  have "returned ?fs \<le> unat (cur_nlookup (hbe_current (bt_fs w)))"
    using step_forget(5) assms(3) by (auto simp: beat_inv_def)
  from forget_all_Ok [OF step_forget(4) this] obtain n' where
    "forget_all X ?fs (cur_nlookup (hbe_current (bt_fs w))) = (Ok n' :: (server_error, u64) result)"
    "unat n' = unat (cur_nlookup (hbe_current (bt_fs w))) - returned ?fs" by blast
  with step_forget assms(3) show ?thesis
    by (auto simp: beat_inv_def hbe_handle_def set_nlookup_def)
next
  case (step_evict names)
  with assms(3) show ?thesis by (auto simp: beat_inv_def)
next
  case (step_other req op remains r session remains' k fs)
  from hbe_other_fs [OF step_other(3,4)] assms(3) step_other(2) show ?thesis
    by (auto simp: beat_inv_def)
qed

interpretation beating: counted_machine "beat_step X reserve S V device"
    "\<lambda>n w. dev_write_ok S V (Device_fd device) \<and> beat_inv n w" "2 ^ 64 - 1"
  for X reserve and S :: "'k os" and V device
  by unfold_locales (auto intro: beat_inv_step)

definition beating_new :: "nat \<times> nat \<times> nat \<Rightarrow> duration \<Rightarrow> bool \<Rightarrow> Session \<Rightarrow> 'k \<Rightarrow> 'k beating" where
  "beating_new now ttl no_notify session k =
     \<lparr> bt_fs = HeartbeatEntry_new now ttl no_notify, bt_kernel = \<lparr> kd_names = {}, kd_count = 0 \<rparr>,
       bt_session = session, bt_os = k \<rparr>"

lemma beat_inv_new: "beat_inv 0 (beating_new now ttl no_notify session k)"
  by (simp add: beat_inv_def beating_new_def HeartbeatEntry_new_def del: generate_filename.simps)

text \<open>Whether notifications are sent never changes.\<close>

lemma beat_step_no_notify:
  "beat_step X reserve S V device w e w' \<Longrightarrow> hbe_no_notify (bt_fs w') = hbe_no_notify (bt_fs w)"
proof (induction rule: beat_step.induct)
  case (step_beat now w r session k fs)
  then show ?case by (auto simp: heartbeat_def Let_def split: if_splits)
next
  case (step_lookup w req op remains r session remains' k fs)
  then show ?case
    by (auto simp: hbe_handle_def hbe_lookup_def Let_def set_nlookup_def dest: answer_fs
        split: if_splits option.splits result.splits prod.splits)
next
  case (step_forget w req forgets remains r session remains' k fs)
  then show ?case by (auto simp: hbe_handle_def set_nlookup_def split: result.splits)
next
  case (step_other w req op remains r session remains' k fs)
  from hbe_other_fs [OF step_other(1,2)] show ?case by simp
qed simp

lemma beat_run_no_notify:
  "run_of (beat_step X reserve S V device) w es w' \<Longrightarrow> hbe_no_notify (bt_fs w') = hbe_no_notify (bt_fs w)"
  by (induction rule: run_of.induct) (simp_all add: beat_step_no_notify)

section \<open>Properties\<close>

text \<open>C9: Two threads and the kernel agree on the directory: however lookups, returned lookups, other
  requests, names that the kernel drops by itself and changes of the name follow each other, the server counts the lookups of the file exactly
  as the kernel does, returning them never takes the counter below zero, and with notifications enabled
  the kernel never resolves a name that is not the current one.
\<close>

theorem heartbeat_entry_coherent:
  assumes "dev_write_ok S V (Device_fd device)"
    and "run_of (beat_step X reserve S V device) (beating_new now ttl no_notify session k) es w"
    and "length es \<le> 2 ^ 64 - 1"
  shows "unat (cur_nlookup (hbe_current (bt_fs w))) = kd_count (bt_kernel w) \<and>
    (\<not> no_notify \<longrightarrow> kd_names (bt_kernel w) \<subseteq> {cur_filename (hbe_current (bt_fs w))}) \<and>
    (\<forall>forgets. list_all (\<lambda>f. forget_one_nodeid (Forget_raw f) \<noteq> 0) forgets \<and>
        returned forgets \<le> kd_count (bt_kernel w) \<longrightarrow>
      (\<exists>n. forget_all X forgets (cur_nlookup (hbe_current (bt_fs w))) = (Ok n :: (server_error, u64) result) \<and>
        unat n = kd_count (bt_kernel w) - returned forgets))"
proof -
  have inv: "beat_inv (length es) w"
    using beating.run_inv [OF assms(2) _ assms(3)] assms(1) beat_inv_new [of now ttl no_notify session k] by simp
  have "hbe_no_notify (bt_fs w) = no_notify"
    using beat_run_no_notify [OF assms(2)] by (simp add: beating_new_def HeartbeatEntry_new_def)
  with inv show ?thesis
    using forget_all_Ok [where n = "cur_nlookup (hbe_current (bt_fs w))" and X = X and 'e = server_error]
    unfolding beat_inv_def by metis
qed

theorem heartbeat_entry_coherent_witness:
  "\<exists>w :: sim_state beating.
    run_of (beat_step linux_extern id sim_os sim_view (Device_from_fd 0))
      (beating_new (1, 2, 3) duration_zero False (Session_new KernelConfig_new) (waiting []))
      ([] @ [Request_handled (Lookup \<lparr> Lookup_parent = NodeID_ROOT, Lookup_name = generate_filename (1, 2, 3) \<rparr>)] @ [Beat])
      w \<and>
    unat (cur_nlookup (hbe_current (bt_fs w))) = kd_count (bt_kernel w) \<and>
    kd_names (bt_kernel w) \<subseteq> {cur_filename (hbe_current (bt_fs w))}"
proof -
  let ?step = "beat_step linux_extern id sim_os sim_view (Device_from_fd 0)"
  let ?w0 = "beating_new (1, 2, 3) duration_zero False (Session_new KernelConfig_new) (waiting [])"
  let ?op = "\<lparr> Lookup_parent = NodeID_ROOT, Lookup_name = generate_filename (1, 2, 3) \<rparr>"
  let ?req = "\<lparr> req_header = request_header 60 1 1 \<rparr>"
  have wr: "dev_write_ok sim_os sim_view (Device_fd (Device_from_fd 0))" by (simp add: sim_write_ok)
  have u: "RequestID_into_raw (InHeader_unique (req_header ?req)) \<noteq> 0"
    by (simp add: InHeader_unique_def request_header_def)
  have "unat (cur_nlookup (hbe_current (bt_fs ?w0))) + 1 < 2 ^ 64"
    by (simp add: beating_new_def HeartbeatEntry_new_def)
  from hbe_lookup_ok [OF wr u this, of linux_extern ?op "bt_session ?w0" "RemainingData_Vec []" "bt_os ?w0"]
  obtain k1 fs1 where
    "hbe_lookup linux_extern sim_os (Device_from_fd 0) ?op (bt_session ?w0) ?req (RemainingData_Vec []) (bt_os ?w0)
      (bt_fs ?w0) = Some (Ok (), bt_session ?w0, RemainingData_Vec [], k1, fs1)" by blast
  then obtain w1 where 1: "?step ?w0 (Request_handled (Lookup ?op)) w1"
    using step_lookup [of linux_extern id sim_os "Device_from_fd 0" ?w0 ?req ?op "RemainingData_Vec []", OF _ u]
    by (fastforce simp: hbe_handle_def)
  have r1: "run_of ?step ?w0 ([] @ [Request_handled (Lookup ?op)]) w1" by (rule run_step, rule run_Nil, rule 1)
  then have "beat_inv 1 w1"
    using beating.run_inv [OF r1] wr beat_inv_new [of "(1, 2, 3)" duration_zero False "Session_new KernelConfig_new" "waiting []"]
    by force
  then have "length (cur_filename (hbe_current (bt_fs w1))) = 19" by (simp add: beat_inv_def)
  from heartbeat_ok [OF wr this, of "(1, 2, 4)" "bt_session w1" "bt_os w1"] obtain w2 where "?step w1 Beat w2"
    using step_beat [of sim_os "Device_from_fd 0" "(1, 2, 4)" w1] by blast
  from run_step [OF r1 this] have r2: "run_of ?step ?w0 ([] @ [Request_handled (Lookup ?op)] @ [Beat]) w2"
    by (simp only: append_assoc)
  have "length ([] @ [Request_handled (Lookup ?op)] @ [Beat]) \<le> 2 ^ 64 - 1" by simp
  from r2 heartbeat_entry_coherent [OF wr r2 this] show ?thesis by blast
qed

end
