(* ===== verification/Poll_File.thy ===== *)
theory Poll_File
  imports Serve Fs
begin

text \<open>
  The filesystem of \<open>examples/poll.rs\<close>: a file that becomes readable some time after it was opened. A
  reader waits for it, is told to try again, or polls it: then a thread that was started when the file
  was opened notifies the kernel. Instants are natural numbers, and the current instant is a parameter.
\<close>

section \<open>The filesystem\<close>

definition poll_CONTENT :: bytes where
  "poll_CONTENT = as_bytes ''Hello, world!'' @ [10]"

record FileHandle =
  fh_is_nonblock :: bool
  fh_kh :: "PollWakeupID option"
  fh_deadline :: nat

text \<open>
  The handles that are open, the number of the next one, and the threads that have been started, each
  with the number of its handle. A thread has a weak reference to its handle, which the table owns.
\<close>

record PollFS =
  poll_handles :: "(FileID, FileHandle) mapping"
  poll_next_fh :: u64
  poll_tasks :: "FileID list"

definition PollFS_new :: PollFS where
  "PollFS_new = \<lparr> poll_handles = Mapping.empty, poll_next_fh = 0, poll_tasks = [] \<rparr>"

text \<open>What a thread does after it has slept.\<close>

definition reading_completed ::
    "'k os \<Rightarrow> Device \<Rightarrow> FileID \<Rightarrow> Session \<Rightarrow> 'k \<Rightarrow> PollFS \<Rightarrow>
      ((io_error, unit) result \<times> Session \<times> 'k \<times> PollFS) option" where
  "reading_completed S device fh session k fs =
     (let ended = fs\<lparr> poll_tasks := remove1 fh (poll_tasks fs) \<rparr> in
      case Mapping.lookup (poll_handles fs) fh of
        None \<Rightarrow> Some (Ok (), session, k, ended)
      | Some handle \<Rightarrow>
          (case fh_kh handle of
             None \<Rightarrow> Some (Ok (), session, k, ended)
           | Some kh \<Rightarrow>
               map_option (\<lambda>(r, session, k). (r, session, k, ended))
                 (Notifier_poll_wakeup (Device_write_vectored S device) session k kh)))"

section \<open>The handler\<close>

definition poll_attr :: "u32 \<Rightarrow> u32 \<Rightarrow> FileAttr" where
  "poll_attr uid gid =
     FileAttr_new
       \<lparr> FileAttr_ino := NodeID_ROOT, FileAttr_nlink := 1,
         FileAttr_mode := FileMode_new Regular FilePermissions_READ,
         FileAttr_uid := uid, FileAttr_gid := gid \<rparr>"

definition poll_open ::
    "extern \<Rightarrow> nat \<Rightarrow> nat \<Rightarrow> 'k os \<Rightarrow> Device \<Rightarrow> Open \<Rightarrow> Session \<Rightarrow> Request \<Rightarrow> RemainingData \<Rightarrow> 'k \<Rightarrow> PollFS \<Rightarrow>
      ('k, PollFS) served" where
  "poll_open X wakeup_interval now S device op self req remains k fs =
     (let reply_raw = device_reply S device self k req in
      if OpenOptions_access_mode (Open_options op) \<noteq> Some ReadOnly
      then answer (reply_error reply_raw EACCES) remains fs
      else
        let is_nonblock = flags_contains (OpenOptions_flags X (Open_options op)) O_NONBLOCK;
            fh = FileID (poll_next_fh fs);
            handle = \<lparr> fh_is_nonblock = is_nonblock, fh_kh = None, fh_deadline = now + wakeup_interval \<rparr>;
            fs = \<lparr> poll_handles = Mapping.update fh handle (poll_handles fs),
                   poll_next_fh = poll_next_fh fs + 1, poll_tasks = fh # poll_tasks fs \<rparr>
        in answer (reply_open (sess_config self) reply_raw fh (FOPEN_DIRECT_IO OR FOPEN_NONSEEKABLE) 0)
             remains fs)"

text \<open>A reader that does not block and comes too early is an error of the server; others sleep.\<close>

definition poll_read ::
    "nat \<Rightarrow> 'k os \<Rightarrow> Device \<Rightarrow> Read \<Rightarrow> Session \<Rightarrow> Request \<Rightarrow> RemainingData \<Rightarrow> 'k \<Rightarrow> PollFS \<Rightarrow>
      ('k, PollFS) served" where
  "poll_read now S device op self req remains k fs =
     (case Mapping.lookup (poll_handles fs) (Read_fh op) of
        None \<Rightarrow> Some (Err (Server_errno EINVAL), self, remains, k, fs)
      | Some handle \<Rightarrow>
          if fh_is_nonblock handle \<and> now < fh_deadline handle
          then Some (Err (Server_errno EAGAIN), self, remains, k, fs)
          else
            let offset = unat (Read_offset op); bufsize = unat (Read_size op);
                content = (if offset \<le> length poll_CONTENT then drop offset poll_CONTENT else [])
            in answer (reply_bytes (device_reply S device self k req)
                 (Bytes_Pointer (Bytes_Slice_u8 (take (min (length content) bufsize) content)))) remains fs)"

text \<open>
  Polling compares the deadline, and afterwards sets the handle for the notification, which succeeds
  once: the comparison and the rest are two steps, between which a thread can run.
\<close>

definition poll_check :: "nat \<Rightarrow> Poll \<Rightarrow> PollFS \<Rightarrow> bool option" where
  "poll_check now op fs =
     map_option (\<lambda>handle. fh_deadline handle \<le> now) (Mapping.lookup (poll_handles fs) (Poll_fh op))"

definition OnceLock_set :: "PollWakeupID \<Rightarrow> FileHandle \<Rightarrow> FileHandle" where
  "OnceLock_set kh handle = (if fh_kh handle = None then handle\<lparr> fh_kh := Some kh \<rparr> else handle)"

definition poll_register :: "Poll \<Rightarrow> PollFS \<Rightarrow> PollFS" where
  "poll_register op fs =
     (case Poll_kh op of
        None \<Rightarrow> fs
      | Some kh \<Rightarrow>
          fs\<lparr> poll_handles := Mapping.map_entry (Poll_fh op) (OnceLock_set kh) (poll_handles fs) \<rparr>)"

definition poll_finish ::
    "bool \<Rightarrow> 'k os \<Rightarrow> Device \<Rightarrow> Poll \<Rightarrow> Session \<Rightarrow> Request \<Rightarrow> RemainingData \<Rightarrow> 'k \<Rightarrow> PollFS \<Rightarrow>
      ('k, PollFS) served" where
  "poll_finish ready S device op self req remains k fs =
     (let reply_raw = device_reply S device self k req in
      if ready then answer (reply_poll reply_raw (Poll_events op AND POLLIN)) remains fs
      else answer (reply_poll reply_raw 0) remains (poll_register op fs))"

definition poll_handle ::
    "extern \<Rightarrow> nat \<Rightarrow> nat \<Rightarrow> u32 \<Rightarrow> u32 \<Rightarrow> 'k os \<Rightarrow> Device \<Rightarrow> ('k, PollFS) fs_handler" where
  "poll_handle X wakeup_interval now uid gid S device self req op remains k fs =
     (let reply_raw = device_reply S device self k req; reply = (\<lambda>r. answer r remains fs) in
      case op of
        Getattr op \<Rightarrow>
          reply (reply_attr (sess_config self) reply_raw (poll_attr uid gid)
            (Some \<lparr> as_secs = (- 1) div 2, subsec_nanos = 0 \<rparr>))
      | Open op \<Rightarrow> poll_open X wakeup_interval now S device op self req remains k fs
      | Read op \<Rightarrow> poll_read now S device op self req remains k fs
      | Poll op \<Rightarrow>
          (case poll_check now op fs of
             None \<Rightarrow> Some (Err (Server_errno EINVAL), self, remains, k, fs)
           | Some ready \<Rightarrow> poll_finish ready S device op self req remains k fs)
      | Release op \<Rightarrow>
          answer (reply_bytes reply_raw Bytes_Unit) remains
            (fs\<lparr> poll_handles := Mapping.delete (Release_fh op) (poll_handles fs) \<rparr>)
      | _ \<Rightarrow> reply (reply_error reply_raw ENOSYS))"

section \<open>Lemmas\<close>

text \<open>The replies to a poll request, and the notification, as the kernel reads them.\<close>

definition poll_message :: "RequestID \<Rightarrow> PollEvents \<Rightarrow> bytes" where
  "poll_message unique revents =
     msg_bytes (Reply unique None)
       (pod_enc fuse_poll_out_pod \<lparr> poll_out_revents = revents, poll_out_padding = 0 \<rparr>)"


lemma reply_poll_ok:
  assumes "dev_write_ok S V (Device_fd device)"
  obtains k' where "answer (reply_poll (device_reply S device self k req) revents) remains fs =
      Some (Ok (), self, remains, k', fs)"
    and "v_written V k' (Device_fd device) = v_written V k (Device_fd device) @
      [poll_message (InHeader_unique (req_header req)) revents]"
proof -
  let ?arg = "POD (pod_enc fuse_poll_out_pod \<lparr> poll_out_revents = revents, poll_out_padding = 0 \<rparr>)"
  have "16 + Bytes_size ?arg < 2 ^ 32" by (simp add: fuse_poll_out.enc_length pod_sizes)
  from device_reply_ok [OF assms this] obtain k' where
    "device_reply S device self k req None ?arg = Some (Ok (), self, k')"
    "v_written V k' (Device_fd device) = v_written V k (Device_fd device) @
      [msg_bytes (Reply (InHeader_unique (req_header req)) None) (Bytes_content ?arg)]" by blast
  with that show ?thesis by (simp add: reply_poll_def poll_message_def Bytes_content_def)
qed


lemma lookup_register:
  "Mapping.lookup (poll_handles fs) (Poll_fh op) = Some handle \<Longrightarrow> Poll_kh op = Some kh \<Longrightarrow>
   Mapping.lookup (poll_handles (poll_register op fs)) (Poll_fh op) = Some (OnceLock_set kh handle)"
  by (simp add: poll_register_def lookup_map_entry)

section \<open>Properties\<close>


definition poll_sample :: PollFS where
  "poll_sample =
     \<lparr> poll_handles = Mapping.update (FileID 0) \<lparr> fh_is_nonblock = True, fh_kh = None, fh_deadline = 5 \<rparr> Mapping.empty,
       poll_next_fh = 1, poll_tasks = [FileID 0] \<rparr>"

definition poll_sample_op :: Poll where
  "poll_sample_op =
     \<lparr> Poll_ino = NodeID_ROOT, Poll_fh = FileID 0, Poll_events = POLLIN, Poll_kh = Some (PollWakeupID 7) \<rparr>"


text \<open>C37: A wakeup that is lost: the handler of a poll request that finds the file not ready registers the
  handle for the notification only afterwards. When the thread of the file runs in between, it finds
  no handle and ends without a notification. The request is then answered with no events, and no
  thread is left that would notify the kernel of the file being ready.
\<close>

theorem poll_loses_wakeup:
  assumes "dev_write_ok S V (Device_fd device)"
    and "Mapping.lookup (poll_handles fs) (Poll_fh op) = Some handle" and "fh_kh handle = None"
    and "now < fh_deadline handle" and "Poll_kh op = Some kh" and "poll_tasks fs = [Poll_fh op]"
  shows "\<exists>fs1 fs2 k2.
    poll_check now op fs = Some False \<and>
    reading_completed S device (Poll_fh op) self k fs = Some (Ok (), self, k, fs1) \<and>
    poll_finish False S device op self req remains k fs1 = Some (Ok (), self, remains, k2, fs2) \<and>
    v_written V k2 (Device_fd device) = v_written V k (Device_fd device) @
      [poll_message (InHeader_unique (req_header req)) 0] \<and>
    map_option fh_kh (Mapping.lookup (poll_handles fs2) (Poll_fh op)) = Some (Some kh) \<and> poll_tasks fs2 = []"
proof -
  let ?fs1 = "fs\<lparr> poll_tasks := [] \<rparr>"
  from reply_poll_ok [OF assms(1), of self k req 0 remains "poll_register op ?fs1"] obtain k2 where
    "poll_finish False S device op self req remains k ?fs1 = Some (Ok (), self, remains, k2, poll_register op ?fs1)"
    "v_written V k2 (Device_fd device) = v_written V k (Device_fd device) @
      [poll_message (InHeader_unique (req_header req)) 0]"
    by (auto simp: poll_finish_def)
  moreover have "Mapping.lookup (poll_handles (poll_register op ?fs1)) (Poll_fh op) = Some (OnceLock_set kh handle)"
    using assms(2,5) by (simp add: lookup_register)
  moreover have "reading_completed S device (Poll_fh op) self k fs = Some (Ok (), self, k, ?fs1)"
    using assms(2,3,6) by (simp add: reading_completed_def)
  moreover have "poll_tasks (poll_register op ?fs1) = []"
    using assms(5) by (simp add: poll_register_def)
  ultimately show ?thesis
    using assms(2-4) by (intro exI [of _ ?fs1] exI [of _ "poll_register op ?fs1"])
      (auto simp: poll_check_def OnceLock_set_def)
qed

theorem poll_loses_wakeup_witness:
  "\<exists>fs1 fs2 k2.
    poll_check 3 poll_sample_op poll_sample = Some False \<and>
    reading_completed sim_os (Device_from_fd 0) (Poll_fh poll_sample_op) (Session_new KernelConfig_new) (waiting [])
      poll_sample = Some (Ok (), Session_new KernelConfig_new, waiting [], fs1) \<and>
    poll_finish False sim_os (Device_from_fd 0) poll_sample_op (Session_new KernelConfig_new)
        \<lparr> req_header = request_header 64 40 1 \<rparr> (RemainingData_Vec []) (waiting []) fs1 =
      Some (Ok (), Session_new KernelConfig_new, RemainingData_Vec [], k2, fs2) \<and>
    v_written sim_view k2 (Device_fd (Device_from_fd 0)) = v_written sim_view (waiting []) (Device_fd (Device_from_fd 0)) @
      [poll_message (InHeader_unique (req_header \<lparr> req_header = request_header 64 40 1 \<rparr>)) 0] \<and>
    map_option fh_kh (Mapping.lookup (poll_handles fs2) (Poll_fh poll_sample_op)) = Some (Some (PollWakeupID 7)) \<and>
    poll_tasks fs2 = []"
  by (rule poll_loses_wakeup [where handle = "\<lparr> fh_is_nonblock = True, fh_kh = None, fh_deadline = 5 \<rparr>"])
    (simp_all add: sim_write_ok poll_sample_def poll_sample_op_def)

text \<open>A reader that does not want to wait stops the server: the error that it should be told, to try
  again, is returned from the loop instead. The request gets no reply, and every later request stays
  unread.
\<close>

theorem poll_read_stops:
  assumes "bitflags_ok X" and "zerocopy_ok X" and "addr mod 8 = 0" and "os_ok S V"
    and "\<not> sess_exited self" and "Mapping.lookup (poll_handles fs) (Read_fh r) = Some handle"
    and "fh_is_nonblock handle" and "now < fh_deadline handle"
    and "request_on_wire X (sess_config self) n header (Read r)" and "vec_of_size n buf"
    and "v_dev V k (Device_fd device) = wire_message (sess_config self) header (Read r) [] # ms"
  shows "\<exists>buf' k'. serve X S device addr (poll_handle X interval now uid gid S device) self buf k fs =
      Some (Err (Server_errno EAGAIN), self, buf', k', fs) \<and>
    v_dev V k' (Device_fd device) = ms \<and> v_written V k' = v_written V k"
  by (rule serve_handler_fails [OF assms(1-5,9,11,10)])
    (simp add: poll_handle_def poll_read_def assms(6-8))

definition poll_sample_read :: Read where
  "poll_sample_read =
     \<lparr> Read_ino = NodeID_ROOT, Read_fh = FileID 0, Read_offset = 0, Read_size = 64,
       Read_options = OpenOptions_from_raw 0, Read_lock_owner = None \<rparr>"

end
