(* ===== verification/Host.thy ===== *)
theory Host
  imports Fs Mount
begin

text \<open>
  Access to the filesystem of the host, for the examples that pass operations on: sequences of
  statements that change a state and may fail, the functions of the C library as parameters that act on
  the state of the host, and the parts of \<open>std::fs\<close> and \<open>std::io\<close> that are built on them.
\<close>

section \<open>Actions\<close>

text \<open>
  Code that changes a state, may return an error or panic, and may not return at all. \<open>act_bind\<close> is the
  sequence of statements with \<open>?\<close>, \<open>act_errno\<close> is \<open>ok_or(errno)?\<close>, and \<open>act_finally\<close> runs a destructor
  however a block ends.
\<close>

type_synonym ('s, 'a) act = "'s \<Rightarrow> ('s, 'a) handled"

definition act_result :: "(io_error, 'a) result \<Rightarrow> ('s, 'a) act" where
  "act_result r s = Some (r, s)"

abbreviation act_ok :: "'a \<Rightarrow> ('s, 'a) act" where
  "act_ok x \<equiv> act_result (Ok x)"

abbreviation act_err :: "i32 \<Rightarrow> ('s, 'a) act" where
  "act_err errno \<equiv> act_result (Err (OsError errno))"

definition act_hang :: "('s, 'a) act" where
  "act_hang s = None"

definition act_bind :: "('s, 'a) act \<Rightarrow> ('a \<Rightarrow> ('s, 'b) act) \<Rightarrow> ('s, 'b) act" where
  "act_bind m f s =
     (case m s of
        None \<Rightarrow> None
      | Some (Ok x, s) \<Rightarrow> f x s
      | Some (Err e, s) \<Rightarrow> Some (Err e, s)
      | Some (Panic, s) \<Rightarrow> Some (Panic, s))"

definition act_errno :: "'a option \<Rightarrow> i32 \<Rightarrow> ('s, 'a) act" where
  "act_errno v errno = (case v of None \<Rightarrow> act_err errno | Some x \<Rightarrow> act_ok x)"

definition act_expect :: "'a option \<Rightarrow> ('s, 'a) act" where
  "act_expect v = (case v of None \<Rightarrow> act_result Panic | Some x \<Rightarrow> act_ok x)"

definition act_get :: "('s \<Rightarrow> 'a) \<Rightarrow> ('s, 'a) act" where
  "act_get f s = Some (Ok (f s), s)"

definition act_put :: "('s \<Rightarrow> 's) \<Rightarrow> ('s, unit) act" where
  "act_put f s = Some (Ok (), f s)"

definition act_finally :: "('s, 'a) act \<Rightarrow> ('s \<Rightarrow> 's) \<Rightarrow> ('s, 'a) act" where
  "act_finally m f s = map_option (\<lambda>(r, s). (r, f s)) (m s)"

text \<open>A value that is dropped unless the action succeeds.\<close>

definition act_on_fail :: "('s, 'a) act \<Rightarrow> ('s \<Rightarrow> 's) \<Rightarrow> ('s, 'a) act" where
  "act_on_fail m f s =
     map_option (\<lambda>(r, s). (r, case r of Ok _ \<Rightarrow> s | _ \<Rightarrow> f s)) (m s)"

text \<open>\<open>Result::map_err\<close>.\<close>

definition act_map_err :: "(io_error \<Rightarrow> io_error) \<Rightarrow> ('s, 'a) act \<Rightarrow> ('s, 'a) act" where
  "act_map_err f m s =
     map_option (\<lambda>(r, s). (case r of Ok x \<Rightarrow> Ok x | Err e \<Rightarrow> Err (f e) | Panic \<Rightarrow> Panic, s)) (m s)"

text \<open>An action on the host, in a state that has the host as its second component.\<close>

definition on_host :: "('k, 'a) act \<Rightarrow> ('p \<times> 'k, 'a) act" where
  "on_host m s = map_option (\<lambda>(r, k). (r, (fst s, k))) (m (snd s))"

text \<open>The outcome of a request that is answered, for runs in which other requests are not.\<close>

definition answered :: "('s, 'r) act \<Rightarrow> ('s, 'r option) act" where
  "answered m = act_bind m (\<lambda>x. act_ok (Some x))"

section \<open>The C library\<close>

type_synonym ('k, 'a) call = "'k \<Rightarrow> (i32, 'a) result \<times> 'k"

record libc_stat_dev = libc_stat +
  st_dev :: u64

record libc_dirent =
  d_name :: bytes
  d_ino :: u64
  d_type :: u8
  d_off :: i64

text \<open>A time of \<open>utimensat\<close>: seconds and nanoseconds.\<close>

type_synonym timespec = "i64 \<times> i64"

text \<open>A directory stream.\<close>

type_synonym dirp = nat

text \<open>
  The functions that are called, and \<open>chown\<close> of the crate \<open>rustix\<close>, with the value that they store in
  memory as their result. A directory of \<open>None\<close> is \<open>AT_FDCWD\<close>. \<open>libc_readdir\<close> returns \<open>None\<close> at the end of the stream; the results of
  \<open>libc_getxattr\<close> and \<open>libc_listxattr\<close> are the size and what is stored in the buffer.
\<close>

record 'k libc =
  libc_open :: "bytes \<Rightarrow> i32 \<Rightarrow> ('k, fd) call"
  libc_openat :: "fd \<Rightarrow> bytes \<Rightarrow> i32 \<Rightarrow> ('k, fd) call"
  libc_close :: "fd \<Rightarrow> 'k \<Rightarrow> 'k"
  libc_fstatat :: "fd \<Rightarrow> bytes \<Rightarrow> i32 \<Rightarrow> ('k, libc_stat_dev) call"
  libc_lstat :: "bytes \<Rightarrow> ('k, libc_stat_dev) call"
  libc_realpath :: "bytes \<Rightarrow> ('k, bytes) call"
  libc_readlink :: "bytes \<Rightarrow> nat \<Rightarrow> ('k, bytes) call"
  libc_readlinkat :: "fd \<Rightarrow> bytes \<Rightarrow> nat \<Rightarrow> ('k, bytes) call"
  rustix_chown :: "bytes \<Rightarrow> u32 option \<Rightarrow> u32 option \<Rightarrow> ('k, unit) call"
  libc_fchownat :: "fd \<Rightarrow> bytes \<Rightarrow> u32 \<Rightarrow> u32 \<Rightarrow> i32 \<Rightarrow> ('k, unit) call"
  libc_utimensat :: "fd option \<Rightarrow> bytes \<Rightarrow> timespec \<times> timespec \<Rightarrow> i32 \<Rightarrow> ('k, unit) call"
  libc_futimens :: "fd \<Rightarrow> timespec \<times> timespec \<Rightarrow> ('k, unit) call"
  libc_linkat :: "fd option \<Rightarrow> bytes \<Rightarrow> fd \<Rightarrow> bytes \<Rightarrow> i32 \<Rightarrow> ('k, unit) call"
  libc_mkdirat :: "fd \<Rightarrow> bytes \<Rightarrow> u32 \<Rightarrow> ('k, unit) call"
  libc_mknodat :: "fd \<Rightarrow> bytes \<Rightarrow> u32 \<Rightarrow> u64 \<Rightarrow> ('k, unit) call"
  libc_symlinkat :: "bytes \<Rightarrow> fd \<Rightarrow> bytes \<Rightarrow> ('k, unit) call"
  libc_unlinkat :: "fd \<Rightarrow> bytes \<Rightarrow> i32 \<Rightarrow> ('k, unit) call"
  libc_renameat :: "fd \<Rightarrow> bytes \<Rightarrow> fd \<Rightarrow> bytes \<Rightarrow> ('k, unit) call"
  libc_opendir :: "bytes \<Rightarrow> ('k, dirp) call"
  libc_fdopendir :: "fd \<Rightarrow> ('k, dirp) call"
  libc_dirfd :: "dirp \<Rightarrow> 'k \<Rightarrow> fd"
  libc_closedir :: "dirp \<Rightarrow> 'k \<Rightarrow> 'k"
  libc_seekdir :: "dirp \<Rightarrow> i64 \<Rightarrow> 'k \<Rightarrow> 'k"
  libc_readdir :: "dirp \<Rightarrow> ('k, libc_dirent option) call"
  libc_fsync :: "fd \<Rightarrow> ('k, unit) call"
  libc_fdatasync :: "fd \<Rightarrow> ('k, unit) call"
  libc_chmod :: "bytes \<Rightarrow> u32 \<Rightarrow> ('k, unit) call"
  libc_fchmod :: "fd \<Rightarrow> u32 \<Rightarrow> ('k, unit) call"
  libc_truncate :: "bytes \<Rightarrow> i64 \<Rightarrow> ('k, unit) call"
  libc_ftruncate :: "fd \<Rightarrow> i64 \<Rightarrow> ('k, unit) call"
  libc_flock :: "fd \<Rightarrow> i32 \<Rightarrow> ('k, unit) call"
  libc_posix_fallocate :: "fd \<Rightarrow> i64 \<Rightarrow> i64 \<Rightarrow> 'k \<Rightarrow> i32 \<times> 'k"
  libc_getxattr :: "bytes \<Rightarrow> bytes \<Rightarrow> nat \<Rightarrow> ('k, nat \<times> bytes) call"
  libc_listxattr :: "bytes \<Rightarrow> nat \<Rightarrow> ('k, nat \<times> bytes) call"
  libc_setxattr :: "bytes \<Rightarrow> bytes \<Rightarrow> bytes \<Rightarrow> i32 \<Rightarrow> ('k, unit) call"
  libc_removexattr :: "bytes \<Rightarrow> bytes \<Rightarrow> ('k, unit) call"
  libc_fstatvfs :: "fd \<Rightarrow> ('k, libc_statvfs) call"
  libc_lseek :: "fd \<Rightarrow> i64 \<Rightarrow> i32 \<Rightarrow> ('k, unit) call"
  libc_read :: "fd \<Rightarrow> nat \<Rightarrow> ('k, bytes) call"
  libc_write :: "fd \<Rightarrow> bytes \<Rightarrow> ('k, nat) call"

definition AT_EMPTY_PATH :: i32 where [libc_const]: "AT_EMPTY_PATH = 0x1000"
definition AT_SYMLINK_NOFOLLOW :: i32 where [libc_const]: "AT_SYMLINK_NOFOLLOW = 0x100"
definition AT_SYMLINK_FOLLOW :: i32 where [libc_const]: "AT_SYMLINK_FOLLOW = 0x400"
definition AT_REMOVEDIR :: i32 where [libc_const]: "AT_REMOVEDIR = 0x200"
definition UTIME_NOW :: i64 where [libc_const]: "UTIME_NOW = 0x3FFFFFFF"
definition UTIME_OMIT :: i64 where [libc_const]: "UTIME_OMIT = 0x3FFFFFFE"
definition PATH_MAX :: nat where [libc_const]: "PATH_MAX = 4096"

text \<open>The names of a directory itself and of its parent.\<close>

definition dots :: "bytes set" where
  "dots = {as_bytes ''.'', as_bytes ''..''}"

text \<open>A call, whose error is the value of \<open>errno\<close>; and \<open>CString::new\<close>, which refuses NUL.\<close>

definition syscall :: "('k, 'a) call \<Rightarrow> ('k, 'a) act" where
  "syscall call k = (let (r, k) = call k in Some (os_result r, k))"

definition cstring :: "bytes \<Rightarrow> ('k, bytes) act" where
  "cstring s = (if 0 \<in> set s then act_result (Err (CustomError InvalidInput)) else act_ok s)"

section \<open>The standard library\<close>

text \<open>Calls that the standard library makes again when they were interrupted.\<close>

partial_function (option) cvt_r ::
    "('k \<Rightarrow> (i32, 'a) result \<times> 'k) \<Rightarrow> 'k \<Rightarrow> ((io_error, 'a) result \<times> 'k) option" where
  "cvt_r call k =
     (case call k of
        (Ok x, k) \<Rightarrow> Some (Ok x, k)
      | (Err e, k) \<Rightarrow> if e = EINTR then cvt_r call k else Some (Err (OsError e), k)
      | (Panic, k) \<Rightarrow> Some (Panic, k))"

text \<open>Both filesystems that open files of the host remove a flag from the options of the request.\<close>

definition without_nofollow :: "extern \<Rightarrow> OpenOptions \<Rightarrow> OpenOptions" where
  "without_nofollow X options =
     OpenOptions_set_flags (OpenOptions_flags X options AND truncate32 X OpenFlags_all (NOT O_NOFOLLOW)) options"

definition std_open_flags :: "std_open_options \<Rightarrow> i32 option" where
  "std_open_flags opts =
     map_option (\<lambda>mode. O_CLOEXEC OR mode OR (std_custom_flags opts AND NOT O_ACCMODE))
       (if std_read opts then Some (if std_write opts then O_RDWR else O_RDONLY)
        else if std_write opts then Some O_WRONLY else None)"

definition File_open :: "'k libc \<Rightarrow> std_open_options \<Rightarrow> bytes \<Rightarrow> ('k, fd) act" where
  "File_open L opts path =
     act_bind (cstring path) (\<lambda>c_path.
     act_bind (act_errno (std_open_flags opts) EINVAL) (\<lambda>flags.
     cvt_r (libc_open L c_path flags)))"

definition File_seek :: "'k libc \<Rightarrow> fd \<Rightarrow> u64 \<Rightarrow> ('k, unit) act" where
  "File_seek L file offset = syscall (libc_lseek L file offset SEEK_SET)"

definition File_sync_all :: "'k libc \<Rightarrow> fd \<Rightarrow> ('k, unit) act" where
  "File_sync_all L file = cvt_r (libc_fsync L file)"

definition File_sync_data :: "'k libc \<Rightarrow> fd \<Rightarrow> ('k, unit) act" where
  "File_sync_data L file = cvt_r (libc_fdatasync L file)"

definition File_set_permissions :: "'k libc \<Rightarrow> fd \<Rightarrow> u32 \<Rightarrow> ('k, unit) act" where
  "File_set_permissions L file mode = cvt_r (libc_fchmod L file mode)"

definition File_set_len :: "'k libc \<Rightarrow> fd \<Rightarrow> u64 \<Rightarrow> ('k, unit) act" where
  "File_set_len L file len =
     (if unat len < 2 ^ 63 then cvt_r (libc_ftruncate L file len)
      else act_result (Err (CustomError InvalidInput)))"

text \<open>
  \<open>file.take(limit).read_to_end(&mut buf)\<close>: reads go on until the limit or the end of the file. How much
  one of them asks for is up to the library: \<open>ask\<close>, from what was read and what is left.
\<close>

type_synonym asking = "bytes \<Rightarrow> nat \<Rightarrow> nat"

partial_function (option) read_to_end ::
    "'k libc \<Rightarrow> asking \<Rightarrow> fd \<Rightarrow> nat \<Rightarrow> bytes \<Rightarrow> 'k \<Rightarrow> ((io_error, bytes) result \<times> 'k) option" where
  "read_to_end L ask file limit buf k =
     (if limit = 0 then Some (Ok buf, k)
      else
        case libc_read L file (ask buf limit) k of
          (Ok bs, k) \<Rightarrow>
            if bs = [] then Some (Ok buf, k)
            else read_to_end L ask file (limit - length bs) (buf @ bs) k
        | (Err e, k) \<Rightarrow>
            if e = EINTR then read_to_end L ask file limit buf k else Some (Err (OsError e), k)
        | (Panic, k) \<Rightarrow> Some (Panic, k))"

text \<open>\<open>Write::write_all\<close>.\<close>

partial_function (option) write_all ::
    "'k libc \<Rightarrow> fd \<Rightarrow> bytes \<Rightarrow> 'k \<Rightarrow> ((io_error, unit) result \<times> 'k) option" where
  "write_all L file buf k =
     (if buf = [] then Some (Ok (), k)
      else
        case libc_write L file buf k of
          (Ok n, k) \<Rightarrow>
            if n = 0 then Some (Err (CustomError WriteZero), k) else write_all L file (drop n buf) k
        | (Err e, k) \<Rightarrow> if e = EINTR then write_all L file buf k else Some (Err (OsError e), k)
        | (Panic, k) \<Rightarrow> Some (Panic, k))"

text \<open>
  \<open>std::io::copy\<close> from memory to a file: the data is written in pieces of a size that is up to the
  library.
\<close>

fun io_copy :: "'k libc \<Rightarrow> fd \<Rightarrow> bytes list \<Rightarrow> ('k, nat) act" where
  "io_copy L file [] = act_ok 0"
| "io_copy L file (piece # pieces) =
     act_bind (write_all L file piece) (\<lambda>_.
     act_bind (io_copy L file pieces) (\<lambda>n. act_ok (length piece + n)))"

section \<open>Lemmas\<close>

lemma act_result_eq [handler]: "act_result r s = Some (r', s') \<longleftrightarrow> r' = r \<and> s' = s"
  by (auto simp: act_result_def)

lemma act_hang_eq [handler]: "act_hang s = Some x \<longleftrightarrow> False"
  by (simp add: act_hang_def)

lemma act_bind_eq [handler]:
  "act_bind m f s = Some (r, s') \<longleftrightarrow>
     (\<exists>x t. m s = Some (Ok x, t) \<and> f x t = Some (r, s')) \<or>
     (\<exists>e. m s = Some (Err e, s') \<and> r = Err e) \<or> (m s = Some (Panic, s') \<and> r = Panic)"
  by (auto simp: act_bind_def split: option.splits result.splits prod.splits)

lemma act_errno_eq [handler]:
  "act_errno v e s = Some (r, s') \<longleftrightarrow>
     s' = s \<and> (v = None \<and> r = Err (OsError e) \<or> (\<exists>x. v = Some x \<and> r = Ok x))"
  by (cases v) (auto simp: act_errno_def handler)

lemma act_expect_eq [handler]:
  "act_expect v s = Some (r, s') \<longleftrightarrow> s' = s \<and> (v = None \<and> r = Panic \<or> (\<exists>x. v = Some x \<and> r = Ok x))"
  by (cases v) (auto simp: act_expect_def handler)

lemma act_get_eq [handler]: "act_get f s = Some (r, s') \<longleftrightarrow> r = Ok (f s) \<and> s' = s"
  by (auto simp: act_get_def)

lemma act_put_eq [handler]: "act_put f s = Some (r, s') \<longleftrightarrow> r = Ok () \<and> s' = f s"
  by (auto simp: act_put_def)

lemma act_finally_eq [handler]:
  "act_finally m f s = Some (r, s') \<longleftrightarrow> (\<exists>t. m s = Some (r, t) \<and> s' = f t)"
  by (auto simp: act_finally_def)

lemma act_on_fail_eq [handler]:
  "act_on_fail m f s = Some (r, s') \<longleftrightarrow>
     (\<exists>x. m s = Some (Ok x, s') \<and> r = Ok x) \<or> (\<exists>e t. m s = Some (Err e, t) \<and> r = Err e \<and> s' = f t) \<or>
     (\<exists>t. m s = Some (Panic, t) \<and> r = Panic \<and> s' = f t)"
  by (cases "m s"; cases "fst (the (m s))") (auto simp: act_on_fail_def)

lemma act_map_err_eq [handler]:
  "act_map_err f m s = Some (r, s') \<longleftrightarrow>
     (\<exists>x. m s = Some (Ok x, s') \<and> r = Ok x) \<or> (\<exists>e. m s = Some (Err e, s') \<and> r = Err (f e)) \<or>
     (m s = Some (Panic, s') \<and> r = Panic)"
  by (cases "m s"; cases "fst (the (m s))") (auto simp: act_map_err_def)

lemma on_host_eq [handler]:
  "on_host m s = Some (r, s') \<longleftrightarrow> m (snd s) = Some (r, snd s') \<and> fst s' = fst s"
  by (cases s') (auto simp: on_host_def)

lemma syscall_eq [handler]:
  "syscall call k = Some (r, k') \<longleftrightarrow> (\<exists>r'. call k = (r', k') \<and> r = os_result r')"
  by (auto simp: syscall_def split: prod.splits)

lemma cstring_eq [handler]:
  "cstring bs k = Some (r, k') \<longleftrightarrow>
     k' = k \<and> r = (if 0 \<in> set bs then Err (CustomError InvalidInput) else Ok bs)"
  by (auto simp: cstring_def handler)

text \<open>Laws of sequences of actions.\<close>

lemma act_bind_simps [simp]:
  "act_bind (act_result (Ok x)) f = f x"
  "act_bind (act_result (Err e)) f = act_result (Err e)"
  "act_bind (act_result Panic) f = act_result Panic"
  by (simp_all add: fun_eq_iff act_bind_def act_result_def)

lemma act_bind_state [simp]:
  "act_bind (act_get g) f s = f (g s) s"
  "act_bind (act_put h) f' s = f' () (h s)"
  by (simp_all add: act_bind_def act_get_def act_put_def)

lemma act_option_simps [simp]:
  "act_errno (Some x) e = act_ok x" "act_errno None e = (act_err e :: ('s, 'a) act)"
  "act_expect (Some x) = act_ok x" "act_expect None = act_result Panic"
  by (simp_all add: act_errno_def act_expect_def)

lemma act_drop_simps [simp]:
  "act_on_fail (act_result (Ok x)) d = act_ok x"
  "act_finally (act_result r) d' s = Some (r, d' s)"
  by (simp_all add: fun_eq_iff act_on_fail_def act_finally_def act_result_def)

lemma act_bind_run:
  "m s = Some (Ok x, t) \<Longrightarrow> act_bind m f s = f x t"
  "m s = Some (Err e, t) \<Longrightarrow> act_bind m f s = Some (Err e, t)"
  "m s = None \<Longrightarrow> act_bind m f s = None"
  by (simp_all add: act_bind_def)

lemma act_bind_assoc: "act_bind (act_bind m f) g = act_bind m (\<lambda>x. act_bind (f x) g)"
  by (auto simp: fun_eq_iff act_bind_def split: option.split result.split prod.split)

section \<open>Contents of files\<close>

text \<open>
  What is known of the calls on a file: its contents and the position at which the next call reads or
  writes. A call may transfer less than it was asked for, but not nothing before the end.
\<close>

definition write_at :: "nat \<Rightarrow> bytes \<Rightarrow> bytes \<Rightarrow> bytes" where
  "write_at p bs content =
     (if bs = [] then content
      else take p (content @ replicate (p - length content) 0) @ bs @ drop (p + length bs) content)"

definition file_io :: "'k libc \<Rightarrow> fd \<Rightarrow> ('k \<Rightarrow> bytes) \<Rightarrow> ('k \<Rightarrow> nat) \<Rightarrow> bool" where
  "file_io L file content pos \<longleftrightarrow>
     (\<forall>k off. unat off < 2 ^ 63 \<longrightarrow>
        (\<exists>k'. libc_lseek L file off SEEK_SET k = (Ok (), k') \<and> content k' = content k \<and> pos k' = unat off)) \<and>
     (\<forall>k n. \<exists>bs k'. libc_read L file n k = (Ok bs, k') \<and> length bs \<le> n \<and>
        bs = take (length bs) (drop (pos k) (content k)) \<and>
        (bs = [] \<longrightarrow> n = 0 \<or> length (content k) \<le> pos k) \<and>
        content k' = content k \<and> pos k' = pos k + length bs) \<and>
     (\<forall>k bs. bs \<noteq> [] \<longrightarrow> (\<exists>n k'. libc_write L file bs k = (Ok n, k') \<and> 0 < n \<and> n \<le> length bs \<and>
        content k' = write_at (pos k) (take n bs) (content k) \<and> pos k' = pos k + n))"

definition asks :: "asking \<Rightarrow> bool" where
  "asks ask \<longleftrightarrow> (\<forall>buf limit. 0 < limit \<longrightarrow> 0 < ask buf limit \<and> ask buf limit \<le> limit)"

lemma write_at_append:
  "write_at (p + length bs) bs' (write_at p bs content) = write_at p (bs @ bs') content"
proof -
  have "length (take p (content @ replicate (p - length content) 0)) = p" by simp
  then show ?thesis by (simp add: write_at_def drop_append take_append add.assoc add.commute add.left_commute del: length_take)
qed

lemma take_write_at [simp]: "take (length bs) (drop p (write_at p bs content)) = bs"
  by (simp add: write_at_def)

lemma File_seek_content:
  assumes "file_io L file content pos" and "unat off < 2 ^ 63"
  obtains k' where "File_seek L file off k = Some (Ok (), k')" "content k' = content k" "pos k' = unat off"
proof -
  from assms obtain k' where "libc_lseek L file off SEEK_SET k = (Ok (), k')" "content k' = content k" "pos k' = unat off"
    unfolding file_io_def by meson
  then show ?thesis using that by (simp add: File_seek_def syscall_def)
qed

text \<open>However little the calls transfer, everything up to the limit is read, and everything is written.\<close>

lemma read_to_end_content:
  assumes io: "file_io L file content pos" and ask: "asks ask"
  shows "\<exists>k'. read_to_end L ask file limit buf k = Some (Ok (buf @ take limit (drop (pos k) (content k))), k') \<and>
    content k' = content k"
proof (induction limit arbitrary: buf k rule: less_induct)
  case (less limit)
  show ?case
  proof (cases "limit = 0")
    case False
    obtain bs k1 where r: "libc_read L file (ask buf limit) k = (Ok bs, k1)" "length bs \<le> ask buf limit"
      "bs = take (length bs) (drop (pos k) (content k))" "bs = [] \<longrightarrow> ask buf limit = 0 \<or> length (content k) \<le> pos k"
      "content k1 = content k" "pos k1 = pos k + length bs"
      using io unfolding file_io_def by meson
    have ask': "0 < ask buf limit" "ask buf limit \<le> limit" using ask False by (simp_all add: asks_def)
    show ?thesis
    proof (cases "bs = []")
      case True
      with r ask' show ?thesis by (simp add: read_to_end.simps [of L ask "file" limit])
    next
      case bs: False
      with less.IH [of "limit - length bs" "buf @ bs" k1] False obtain k' where
        k': "read_to_end L ask file (limit - length bs) (buf @ bs) k1 =
          Some (Ok ((buf @ bs) @ take (limit - length bs) (drop (pos k1) (content k1))), k')" "content k' = content k1"
        by auto
      have "bs @ take (limit - length bs) (drop (length bs) xs) = take limit xs"
        if "bs = take (length bs) xs" "length bs \<le> limit" for xs
        using that by (metis append_take_drop_id le_add_diff_inverse take_add)
      from this [OF r(3)] r(2) ask' have "bs @ take (limit - length bs) (drop (pos k + length bs) (content k)) =
        take limit (drop (pos k) (content k))"
        by (simp add: add.commute)
      with k' r(1,5,6) bs False show ?thesis by (simp add: read_to_end.simps [of L ask "file" limit])
    qed
  qed (simp add: read_to_end.simps)
qed

lemma write_all_content:
  assumes io: "file_io L file content pos"
  shows "\<exists>k'. write_all L file bs k = Some (Ok (), k') \<and> content k' = write_at (pos k) bs (content k) \<and>
    pos k' = pos k + length bs"
proof (induction "length bs" arbitrary: bs k rule: less_induct)
  case less
  show ?case
  proof (cases "bs = []")
    case True
    then show ?thesis by (simp add: write_all.simps write_at_def)
  next
    case False
    obtain n k1 where w: "libc_write L file bs k = (Ok n, k1)" "0 < n" "n \<le> length bs"
      "content k1 = write_at (pos k) (take n bs) (content k)" "pos k1 = pos k + n"
      using io False unfolding file_io_def by meson
    have "length (drop n bs) < length bs" using w(2,3) by simp
    from less.hyps [OF this, of k1] obtain k' where k': "write_all L file (drop n bs) k1 = Some (Ok (), k')"
      "content k' = write_at (pos k1) (drop n bs) (content k1)" "pos k' = pos k1 + length (drop n bs)"
      by blast
    moreover have "write_at (pos k1) (drop n bs) (content k1) = write_at (pos k) bs (content k)"
      using write_at_append [of "pos k" "take n bs" "drop n bs" "content k"] w(3-5) by (simp add: min_absorb2)
    ultimately show ?thesis using w False by (simp add: write_all.simps [of L "file" bs])
  qed
qed

lemma io_copy_content:
  assumes io: "file_io L file content pos"
  shows "\<exists>k'. io_copy L file pieces k = Some (Ok (length (concat pieces)), k') \<and>
    content k' = write_at (pos k) (concat pieces) (content k) \<and> pos k' = pos k + length (concat pieces)"
proof (induction pieces arbitrary: k)
  case Nil
  then show ?case by (simp add: act_result_def write_at_def)
next
  case (Cons piece pieces)
  obtain k1 where k1: "write_all L file piece k = Some (Ok (), k1)" "content k1 = write_at (pos k) piece (content k)"
    "pos k1 = pos k + length piece"
    using write_all_content [OF io] by blast
  obtain k2 where k2: "io_copy L file pieces k1 = Some (Ok (length (concat pieces)), k2)"
    "content k2 = write_at (pos k1) (concat pieces) (content k1)" "pos k2 = pos k1 + length (concat pieces)"
    using Cons.IH by blast
  show ?case using k1 k2 write_at_append [of "pos k" piece "concat pieces" "content k"]
    by (simp add: act_bind_def act_result_def)
qed

section \<open>What actions keep\<close>

text \<open>
  A relation between the states before and after, for example that some part of the state is the same.
  A reflexive and transitive one holds of a sequence of actions when it holds of each of them.
\<close>

definition act_rel :: "('s \<Rightarrow> 's \<Rightarrow> bool) \<Rightarrow> ('s, 'a) act \<Rightarrow> bool" where
  "act_rel Q m \<longleftrightarrow> (\<forall>s r s'. m s = Some (r, s') \<longrightarrow> Q s s')"

definition call_rel :: "('k \<Rightarrow> 'k \<Rightarrow> bool) \<Rightarrow> ('k, 'a) call \<Rightarrow> bool" where
  "call_rel Q call \<longleftrightarrow> (\<forall>k. Q k (snd (call k)))"

named_theorems keeps "what actions keep of the state"

lemma act_relI: "(\<And>s r s'. m s = Some (r, s') \<Longrightarrow> Q s s') \<Longrightarrow> act_rel Q m"
  by (simp add: act_rel_def)

lemma act_relD: "act_rel Q m \<Longrightarrow> m s = Some (r, s') \<Longrightarrow> Q s s'"
  by (simp add: act_rel_def)

lemma act_rel_syscall [keeps]: "call_rel Q call \<Longrightarrow> act_rel Q (syscall call)"
  by (auto intro!: act_relI simp: handler call_rel_def) (metis snd_conv)

lemma act_rel_map_err [keeps]: "act_rel Q m \<Longrightarrow> act_rel Q (act_map_err f m)"
  by (auto intro!: act_relI simp: handler dest: act_relD)

lemma act_rel_cases [keeps]:
  "act_rel Q m \<Longrightarrow> (\<And>x. act_rel Q (f x)) \<Longrightarrow> act_rel Q (case v of None \<Rightarrow> m | Some x \<Rightarrow> f x)"
  "(\<And>x y. act_rel Q (g x y)) \<Longrightarrow> act_rel Q (case p of (x, y) \<Rightarrow> g x y)"
  "act_rel Q m \<Longrightarrow> act_rel Q m' \<Longrightarrow> act_rel Q (if b then m else m')"
  by (simp_all split: option.split prod.split)

text \<open>What holds of the result of an action that succeeds: the last one of a sequence decides.\<close>

definition act_post :: "('a \<Rightarrow> bool) \<Rightarrow> ('s, 'a) act \<Rightarrow> bool" where
  "act_post P m \<longleftrightarrow> (\<forall>s x s'. m s = Some (Ok x, s') \<longrightarrow> P x)"

named_theorems posts "what holds of the results of actions"

lemma act_post_rules [posts]:
  "act_post P (act_result (Err e))"
  "(\<And>x. act_post P (f x)) \<Longrightarrow> act_post P (act_bind m f)"
  "act_post P m' \<Longrightarrow> act_post P (act_finally m' d)"
  "act_post P m' \<Longrightarrow> (\<And>x. act_post P (f x)) \<Longrightarrow> act_post P (case v of None \<Rightarrow> m' | Some x \<Rightarrow> f x)"
  "(\<And>x y. act_post P (g x y)) \<Longrightarrow> act_post P (case p of (x, y) \<Rightarrow> g x y)"
  "act_post P m' \<Longrightarrow> act_post P m'' \<Longrightarrow> act_post P (if b then m' else m'')"
  by (auto simp: act_post_def handler split: option.splits prod.splits)

locale preorder_rel =
  fixes Q :: "'s \<Rightarrow> 's \<Rightarrow> bool"
  assumes rel_refl: "Q s s" and rel_trans: "Q s t \<Longrightarrow> Q t u \<Longrightarrow> Q s u"
begin

lemma rel_result: "act_rel Q (act_result r)"
  by (auto intro!: act_relI rel_refl simp: handler)

lemma rel_get: "act_rel Q (act_get f)"
  by (auto intro!: act_relI rel_refl simp: handler)

lemma rel_errno: "act_rel Q (act_errno v e)"
  by (auto intro!: act_relI rel_refl simp: handler)

lemma rel_expect: "act_rel Q (act_expect v)"
  by (auto intro!: act_relI rel_refl simp: handler)

lemma rel_cstring: "act_rel Q (cstring bs)"
  by (auto intro!: act_relI rel_refl simp: handler)

lemma rel_bind: "act_rel Q m \<Longrightarrow> (\<And>x. act_rel Q (f x)) \<Longrightarrow> act_rel Q (act_bind m f)"
  by (rule act_relI) (auto simp: handler dest: act_relD intro: rel_trans)

lemma rel_cvt_r:
  assumes "call_rel Q call"
  shows "act_rel Q (cvt_r call)"
proof -
  have "Q k (snd y)" if "cvt_r call k = Some y" for k y
    using that assms
  proof (induction rule: cvt_r.raw_induct [rotated, consumes 1, case_names step])
    case (step self call k y)
    from \<open>call_rel Q call\<close> have "Q k (snd (call k))" by (simp add: call_rel_def)
    with step show ?case
      by (cases y) (auto split: prod.splits result.splits if_splits intro: rel_trans)
  qed
  then show ?thesis by (fastforce intro: act_relI)
qed

lemma rel_read_to_end:
  assumes "\<And>n. call_rel Q (libc_read L file n)"
  shows "act_rel Q (read_to_end L ask file limit buf)"
proof -
  have "Q k (snd y)" if "read_to_end L ask file limit buf k = Some y" for k y
    using that assms
  proof (induction rule: read_to_end.raw_induct [rotated, consumes 1, case_names step])
    case (step self L ask f limit buf k y)
    from step.prems have "Q k (snd (libc_read L f (ask buf limit) k))" by (simp add: call_rel_def)
    with step rel_refl show ?case
      by (cases y) (auto split: prod.splits result.splits if_splits intro: rel_trans)
  qed
  then show ?thesis by (fastforce intro: act_relI)
qed

lemma rel_write_all:
  assumes "\<And>bs. call_rel Q (libc_write L file bs)"
  shows "act_rel Q (write_all L file buf)"
proof -
  have "Q k (snd y)" if "write_all L file buf k = Some y" for k y
    using that assms
  proof (induction rule: write_all.raw_induct [rotated, consumes 1, case_names step])
    case (step self L f buf k y)
    from step.prems have "Q k (snd (libc_write L f buf k))" by (simp add: call_rel_def)
    with step rel_refl show ?case
      by (cases y) (auto split: prod.splits result.splits if_splits intro: rel_trans)
  qed
  then show ?thesis by (fastforce intro: act_relI)
qed

lemma rel_io_copy:
  assumes "\<And>bs. call_rel Q (libc_write L file bs)"
  shows "act_rel Q (io_copy L file pieces)"
  by (induction pieces) (auto intro!: rel_result rel_bind rel_write_all assms)

end

end
