(* ===== verification/Nix.thy ===== *)
theory Nix
  imports Host
begin

text \<open>
  The module \<open>examples_disabled/passthrough/nix.rs\<close>: file descriptors, directory streams and functions on
  paths, each of which makes one call of the C library and turns \<open>errno\<close> into an \<open>io::Error\<close>. At the end,
  what the calls do to the descriptors of the process.
\<close>

section \<open>File descriptors\<close>

text \<open>A \<open>FileDesc\<close> is its number. Dropping it closes it, also in \<open>into_raw_fd\<close>, which consumes it.\<close>

definition FileDesc_drop :: "'k libc \<Rightarrow> fd \<Rightarrow> 'k \<Rightarrow> 'k" where
  "FileDesc_drop L self = libc_close L self"

definition FileDesc_into_raw_fd :: "'k libc \<Rightarrow> fd \<Rightarrow> 'k \<Rightarrow> fd \<times> 'k" where
  "FileDesc_into_raw_fd L self k = (self, FileDesc_drop L self k)"

definition empty_path :: "bytes \<Rightarrow> i32 \<Rightarrow> i32" where
  "empty_path path flags = (if path = [] then flags OR AT_EMPTY_PATH else flags)"

definition FileDesc_open :: "'k libc \<Rightarrow> bytes \<Rightarrow> i32 \<Rightarrow> ('k, fd) act" where
  "FileDesc_open L path flags =
     act_bind (cstring path) (\<lambda>c_path. syscall (libc_open L c_path (empty_path path flags)))"

definition FileDesc_procname :: "fd \<Rightarrow> bytes" where
  "FileDesc_procname self = as_bytes (''/proc/self/fd/'' @ format_dec self)"

definition FileDesc_openat :: "'k libc \<Rightarrow> fd \<Rightarrow> bytes \<Rightarrow> i32 \<Rightarrow> ('k, fd) act" where
  "FileDesc_openat L self path flags =
     act_bind (cstring path) (\<lambda>c_path. syscall (libc_openat L self c_path (empty_path path flags)))"

definition FileDesc_fstatat :: "'k libc \<Rightarrow> fd \<Rightarrow> bytes \<Rightarrow> i32 \<Rightarrow> ('k, libc_stat_dev) act" where
  "FileDesc_fstatat L self path flags =
     act_bind (cstring path) (\<lambda>c_path. syscall (libc_fstatat L self c_path (empty_path path flags)))"

text \<open>A buffer of one byte more than the longest path.\<close>

definition FileDesc_readlinkat :: "'k libc \<Rightarrow> fd \<Rightarrow> bytes \<Rightarrow> ('k, bytes) act" where
  "FileDesc_readlinkat L self path =
     act_bind (cstring path) (\<lambda>c_path.
     act_bind (syscall (libc_readlinkat L self c_path (PATH_MAX + 1))) (\<lambda>buf.
     if PATH_MAX + 1 \<le> length buf then act_err ENAMETOOLONG else act_ok buf))"

text \<open>The identifier that leaves the owner as it is.\<close>

definition no_owner :: u32 where
  "no_owner = 0 - 1"

definition FileDesc_fchownat ::
    "'k libc \<Rightarrow> fd \<Rightarrow> bytes \<Rightarrow> u32 option \<Rightarrow> u32 option \<Rightarrow> i32 \<Rightarrow> ('k, unit) act" where
  "FileDesc_fchownat L self name uid gid flags =
     act_bind (cstring name) (\<lambda>c_name.
     let uid = (case uid of None \<Rightarrow> no_owner | Some uid \<Rightarrow> uid);
         gid = (case gid of None \<Rightarrow> no_owner | Some gid \<Rightarrow> gid)
     in syscall (libc_fchownat L self c_name uid gid (empty_path name flags)))"

definition FileDesc_futimensat ::
    "'k libc \<Rightarrow> fd \<Rightarrow> bytes \<Rightarrow> timespec \<times> timespec \<Rightarrow> i32 \<Rightarrow> ('k, unit) act" where
  "FileDesc_futimensat L self name tv flags =
     act_bind (cstring name) (\<lambda>c_name.
     syscall (libc_utimensat L (Some self) c_name tv (empty_path name flags)))"

definition FileDesc_linkat :: "'k libc \<Rightarrow> fd \<Rightarrow> bytes \<Rightarrow> fd \<Rightarrow> bytes \<Rightarrow> i32 \<Rightarrow> ('k, unit) act" where
  "FileDesc_linkat L self name newparent newname flags =
     act_bind (cstring name) (\<lambda>c_name.
     act_bind (cstring newname) (\<lambda>c_newname.
     syscall (libc_linkat L (Some self) c_name newparent c_newname (empty_path name flags))))"

definition FileDesc_mkdirat :: "'k libc \<Rightarrow> fd \<Rightarrow> bytes \<Rightarrow> u32 \<Rightarrow> ('k, unit) act" where
  "FileDesc_mkdirat L self name mode =
     act_bind (cstring name) (\<lambda>c_name. syscall (libc_mkdirat L self c_name mode))"

definition FileDesc_mknodat :: "'k libc \<Rightarrow> fd \<Rightarrow> bytes \<Rightarrow> u32 \<Rightarrow> u64 \<Rightarrow> ('k, unit) act" where
  "FileDesc_mknodat L self name mode rdev =
     act_bind (cstring name) (\<lambda>c_name. syscall (libc_mknodat L self c_name mode rdev))"

definition FileDesc_symlinkat :: "'k libc \<Rightarrow> fd \<Rightarrow> bytes \<Rightarrow> bytes \<Rightarrow> ('k, unit) act" where
  "FileDesc_symlinkat L self name link =
     act_bind (cstring name) (\<lambda>c_name.
     act_bind (cstring link) (\<lambda>c_link. syscall (libc_symlinkat L c_link self c_name)))"

definition FileDesc_unlinkat :: "'k libc \<Rightarrow> fd \<Rightarrow> bytes \<Rightarrow> i32 \<Rightarrow> ('k, unit) act" where
  "FileDesc_unlinkat L self name flags =
     act_bind (cstring name) (\<lambda>c_name. syscall (libc_unlinkat L self c_name flags))"

definition FileDesc_renameat :: "'k libc \<Rightarrow> fd \<Rightarrow> bytes \<Rightarrow> fd option \<Rightarrow> bytes \<Rightarrow> ('k, unit) act" where
  "FileDesc_renameat L self name newparent newname =
     act_bind (cstring name) (\<lambda>c_name.
     act_bind (cstring newname) (\<lambda>c_newname.
     syscall (libc_renameat L self c_name (case newparent of None \<Rightarrow> self | Some p \<Rightarrow> p) c_newname)))"

section \<open>Directory streams\<close>

text \<open>\<open>rd_offset\<close> is the position that was asked for last.\<close>

record ReadDir =
  rd_dir :: dirp
  rd_offset :: u64
  rd_fd :: fd

text \<open>When the stream cannot be opened, the descriptor is dropped.\<close>

definition FileDesc_read_dir :: "'k libc \<Rightarrow> fd \<Rightarrow> ('k, ReadDir) act" where
  "FileDesc_read_dir L self =
     act_bind (FileDesc_openat L self (as_bytes ''.'') O_RDONLY) (\<lambda>fd.
     act_bind (act_on_fail (syscall (libc_fdopendir L fd)) (FileDesc_drop L fd)) (\<lambda>dp.
     act_ok \<lparr> rd_dir = dp, rd_offset = 0, rd_fd = fd \<rparr>))"

text \<open>The destructor closes the stream; then the field \<open>fd\<close> is dropped.\<close>

definition ReadDir_drop :: "'k libc \<Rightarrow> ReadDir \<Rightarrow> 'k \<Rightarrow> 'k" where
  "ReadDir_drop L self k = FileDesc_drop L (rd_fd self) (libc_closedir L (rd_dir self) k)"

definition ReadDir_seek :: "'k libc \<Rightarrow> ReadDir \<Rightarrow> u64 \<Rightarrow> 'k \<Rightarrow> ReadDir \<times> 'k" where
  "ReadDir_seek L self offset k =
     (if offset \<noteq> rd_offset self
      then (self\<lparr> rd_offset := offset \<rparr>, libc_seekdir L (rd_dir self) offset k)
      else (self, k))"

definition ReadDir_sync_all :: "'k libc \<Rightarrow> ReadDir \<Rightarrow> ('k, unit) act" where
  "ReadDir_sync_all L self k = syscall (libc_fsync L (libc_dirfd L (rd_dir self) k)) k"

definition ReadDir_sync_data :: "'k libc \<Rightarrow> ReadDir \<Rightarrow> ('k, unit) act" where
  "ReadDir_sync_data L self k = syscall (libc_fdatasync L (libc_dirfd L (rd_dir self) k)) k"

record nix_DirEntry =
  nde_name :: bytes
  nde_ino :: NodeID
  nde_typ :: u8
  nde_off :: u64

text \<open>\<open>next\<close> passes over the entries \<open>.\<close> and \<open>..\<close>; its result is \<open>None\<close> at the end of the stream.\<close>

partial_function (option) ReadDir_next ::
    "'k libc \<Rightarrow> ReadDir \<Rightarrow> 'k \<Rightarrow> ((io_error, nix_DirEntry option) result \<times> 'k) option" where
  "ReadDir_next L self k =
     (case libc_readdir L (rd_dir self) k of
        (Ok None, k) \<Rightarrow> Some (Ok None, k)
      | (Err errno, k) \<Rightarrow> Some (Err (OsError errno), k)
      | (Panic, k) \<Rightarrow> Some (Panic, k)
      | (Ok (Some raw_entry), k) \<Rightarrow>
          if d_name raw_entry \<in> dots then ReadDir_next L self k
          else
            (case NodeID_from_raw (d_ino raw_entry) of
               None \<Rightarrow> Some (Panic, k)
             | Some ino \<Rightarrow>
                 Some (Ok (Some \<lparr> nde_name = d_name raw_entry, nde_ino = ino, nde_typ = d_type raw_entry,
                                 nde_off = d_off raw_entry \<rparr>), k)))"

section \<open>Functions on paths and files\<close>

definition nix_chmod :: "'k libc \<Rightarrow> bytes \<Rightarrow> u32 \<Rightarrow> ('k, unit) act" where
  "nix_chmod L path mode = act_bind (cstring path) (\<lambda>c_path. syscall (libc_chmod L c_path mode))"

definition nix_fchmod :: "'k libc \<Rightarrow> fd \<Rightarrow> u32 \<Rightarrow> ('k, unit) act" where
  "nix_fchmod L fd mode = syscall (libc_fchmod L fd mode)"

definition nix_truncate :: "'k libc \<Rightarrow> bytes \<Rightarrow> i64 \<Rightarrow> ('k, unit) act" where
  "nix_truncate L path len = act_bind (cstring path) (\<lambda>c_path. syscall (libc_truncate L c_path len))"

definition nix_ftruncate :: "'k libc \<Rightarrow> fd \<Rightarrow> i64 \<Rightarrow> ('k, unit) act" where
  "nix_ftruncate L fd len = syscall (libc_ftruncate L fd len)"

definition nix_utimens :: "'k libc \<Rightarrow> bytes \<Rightarrow> timespec \<times> timespec \<Rightarrow> ('k, unit) act" where
  "nix_utimens L path tv = act_bind (cstring path) (\<lambda>c_path. syscall (libc_utimensat L None c_path tv 0))"

definition nix_futimens :: "'k libc \<Rightarrow> fd \<Rightarrow> timespec \<times> timespec \<Rightarrow> ('k, unit) act" where
  "nix_futimens L fd tv = syscall (libc_futimens L fd tv)"

definition nix_link :: "'k libc \<Rightarrow> bytes \<Rightarrow> fd \<Rightarrow> bytes \<Rightarrow> i32 \<Rightarrow> ('k, unit) act" where
  "nix_link L name parent newname flags =
     act_bind (cstring name) (\<lambda>c_name.
     act_bind (cstring newname) (\<lambda>c_newname.
     syscall (libc_linkat L None c_name parent c_newname flags)))"

definition nix_flock :: "'k libc \<Rightarrow> fd \<Rightarrow> i32 \<Rightarrow> ('k, unit) act" where
  "nix_flock L fd operation = syscall (libc_flock L fd operation)"

text \<open>\<open>posix_fallocate\<close> returns the error number.\<close>

definition nix_posix_fallocate :: "'k libc \<Rightarrow> fd \<Rightarrow> i64 \<Rightarrow> i64 \<Rightarrow> ('k, unit) act" where
  "nix_posix_fallocate L fd offset len k =
     (let (err, k) = libc_posix_fallocate L fd offset len k in
      Some (if err \<noteq> 0 then Err (OsError err) else Ok (), k))"

text \<open>
  The result is the size that the call returns and the buffer afterwards, of which the call has
  overwritten the start. Without a buffer, the call is made with an empty one.
\<close>

definition overwrite :: "bytes \<Rightarrow> bytes \<Rightarrow> bytes" where
  "overwrite bs buf = take (length buf) bs @ drop (length bs) buf"

definition nix_getxattr :: "'k libc \<Rightarrow> bytes \<Rightarrow> bytes \<Rightarrow> bytes option \<Rightarrow> ('k, nat \<times> bytes) act" where
  "nix_getxattr L path name value =
     act_bind (cstring path) (\<lambda>c_path.
     act_bind (cstring name) (\<lambda>c_name.
     let buf = (case value of None \<Rightarrow> [] | Some buf \<Rightarrow> buf) in
     act_bind (syscall (libc_getxattr L c_path c_name (length buf))) (\<lambda>(n, bs).
     act_ok (n, overwrite bs buf))))"

definition nix_listxattr :: "'k libc \<Rightarrow> bytes \<Rightarrow> bytes option \<Rightarrow> ('k, nat \<times> bytes) act" where
  "nix_listxattr L path value =
     act_bind (cstring path) (\<lambda>c_path.
     let buf = (case value of None \<Rightarrow> [] | Some buf \<Rightarrow> buf) in
     act_bind (syscall (libc_listxattr L c_path (length buf))) (\<lambda>(n, bs).
     act_ok (n, overwrite bs buf)))"

definition nix_setxattr :: "'k libc \<Rightarrow> bytes \<Rightarrow> bytes \<Rightarrow> bytes \<Rightarrow> i32 \<Rightarrow> ('k, unit) act" where
  "nix_setxattr L path name value flags =
     act_bind (cstring path) (\<lambda>c_path.
     act_bind (cstring name) (\<lambda>c_name. syscall (libc_setxattr L c_path c_name value flags)))"

definition nix_removexattr :: "'k libc \<Rightarrow> bytes \<Rightarrow> bytes \<Rightarrow> ('k, unit) act" where
  "nix_removexattr L path name =
     act_bind (cstring path) (\<lambda>c_path.
     act_bind (cstring name) (\<lambda>c_name. syscall (libc_removexattr L c_path c_name)))"

definition nix_fstatvfs :: "'k libc \<Rightarrow> fd \<Rightarrow> ('k, libc_statvfs) act" where
  "nix_fstatvfs L fd = syscall (libc_fstatvfs L fd)"

section \<open>Descriptors of the process\<close>

text \<open>
  What the manual says of the calls, as far as the descriptors that are open and the directory streams,
  with the descriptor of each, are concerned. \<open>V\<close> reads both off the state of the host. A descriptor or a
  stream that is opened is a new one, \<open>fdopendir\<close> takes the descriptor over, and \<open>closedir\<close> closes it;
  no other call has an effect on them.
\<close>

type_synonym 'k fd_view = "'k \<Rightarrow> fd set \<times> (dirp \<Rightarrow> fd option)"

definition same_fds :: "'k fd_view \<Rightarrow> 'k \<Rightarrow> 'k \<Rightarrow> bool" where
  "same_fds V k k' \<longleftrightarrow> V k' = V k"

definition opens :: "'k fd_view \<Rightarrow> ('k, fd) call \<Rightarrow> bool" where
  "opens V call \<longleftrightarrow> (\<forall>k. case call k of
     (Ok fd, k') \<Rightarrow> fd \<notin> fst (V k) \<and> V k' = (insert fd (fst (V k)), snd (V k))
   | (_, k') \<Rightarrow> V k' = V k)"

definition opens_stream :: "'k fd_view \<Rightarrow> fd \<Rightarrow> ('k, dirp) call \<Rightarrow> bool" where
  "opens_stream V fd call \<longleftrightarrow> (\<forall>k. case call k of
     (Ok dp, k') \<Rightarrow> snd (V k) dp = None \<and> V k' = (fst (V k), (snd (V k))(dp \<mapsto> fd))
   | (_, k') \<Rightarrow> V k' = V k)"

definition libc_fds :: "'k libc \<Rightarrow> 'k fd_view \<Rightarrow> bool" where
  "libc_fds L V \<longleftrightarrow>
     (\<forall>path flags. opens V (libc_open L path flags)) \<and>
     (\<forall>fd path flags. opens V (libc_openat L fd path flags)) \<and>
     (\<forall>fd. opens_stream V fd (libc_fdopendir L fd)) \<and>
     (\<forall>fd k. V (libc_close L fd k) = (fst (V k) - {fd}, snd (V k))) \<and>
     (\<forall>dp fd k. snd (V k) dp = Some fd \<longrightarrow>
        V (libc_closedir L dp k) = (fst (V k) - {fd}, (snd (V k))(dp := None))) \<and>
     (\<forall>dp off k. V (libc_seekdir L dp off k) = V k) \<and>
     (\<forall>fd off len k. V (snd (libc_posix_fallocate L fd off len k)) = V k) \<and>
     (\<forall>fd path flags. call_rel (same_fds V) (libc_fstatat L fd path flags)) \<and>
     (\<forall>path. call_rel (same_fds V) (libc_realpath L path)) \<and>
     (\<forall>fd path n. call_rel (same_fds V) (libc_readlinkat L fd path n)) \<and>
     (\<forall>fd path uid gid flags. call_rel (same_fds V) (libc_fchownat L fd path uid gid flags)) \<and>
     (\<forall>fd path tv flags. call_rel (same_fds V) (libc_utimensat L fd path tv flags)) \<and>
     (\<forall>fd tv. call_rel (same_fds V) (libc_futimens L fd tv)) \<and>
     (\<forall>fd path fd' path' flags. call_rel (same_fds V) (libc_linkat L fd path fd' path' flags)) \<and>
     (\<forall>fd path mode. call_rel (same_fds V) (libc_mkdirat L fd path mode)) \<and>
     (\<forall>fd path mode rdev. call_rel (same_fds V) (libc_mknodat L fd path mode rdev)) \<and>
     (\<forall>path fd path'. call_rel (same_fds V) (libc_symlinkat L path fd path')) \<and>
     (\<forall>fd path flags. call_rel (same_fds V) (libc_unlinkat L fd path flags)) \<and>
     (\<forall>fd path fd' path'. call_rel (same_fds V) (libc_renameat L fd path fd' path')) \<and>
     (\<forall>dp. call_rel (same_fds V) (libc_readdir L dp)) \<and>
     (\<forall>fd. call_rel (same_fds V) (libc_fsync L fd)) \<and>
     (\<forall>fd. call_rel (same_fds V) (libc_fdatasync L fd)) \<and>
     (\<forall>path mode. call_rel (same_fds V) (libc_chmod L path mode)) \<and>
     (\<forall>fd mode. call_rel (same_fds V) (libc_fchmod L fd mode)) \<and>
     (\<forall>path len. call_rel (same_fds V) (libc_truncate L path len)) \<and>
     (\<forall>fd len. call_rel (same_fds V) (libc_ftruncate L fd len)) \<and>
     (\<forall>fd oper. call_rel (same_fds V) (libc_flock L fd oper)) \<and>
     (\<forall>path name n. call_rel (same_fds V) (libc_getxattr L path name n)) \<and>
     (\<forall>path n. call_rel (same_fds V) (libc_listxattr L path n)) \<and>
     (\<forall>path name value flags. call_rel (same_fds V) (libc_setxattr L path name value flags)) \<and>
     (\<forall>path name. call_rel (same_fds V) (libc_removexattr L path name)) \<and>
     (\<forall>fd. call_rel (same_fds V) (libc_fstatvfs L fd)) \<and>
     (\<forall>fd off whence. call_rel (same_fds V) (libc_lseek L fd off whence)) \<and>
     (\<forall>fd n. call_rel (same_fds V) (libc_read L fd n)) \<and>
     (\<forall>fd bs. call_rel (same_fds V) (libc_write L fd bs))"

interpretation same_fds: preorder_rel "same_fds V" for V
  by unfold_locales (simp_all add: same_fds_def)

lemmas same_fds_rules [keeps] =
  same_fds.rel_result same_fds.rel_get same_fds.rel_errno same_fds.rel_expect same_fds.rel_cstring
  same_fds.rel_bind same_fds.rel_cvt_r same_fds.rel_read_to_end same_fds.rel_write_all same_fds.rel_io_copy

lemma libc_fds_calls:
  assumes "libc_fds L V"
  shows "call_rel (same_fds V) (libc_fstatat L fd path flags)"
    "call_rel (same_fds V) (libc_realpath L path)"
    "call_rel (same_fds V) (libc_readlinkat L fd path n)"
    "call_rel (same_fds V) (libc_fchownat L fd path uid gid flags)"
    "call_rel (same_fds V) (libc_utimensat L fdo path tv flags)"
    "call_rel (same_fds V) (libc_futimens L fd tv)"
    "call_rel (same_fds V) (libc_linkat L fdo path fd' path' flags)"
    "call_rel (same_fds V) (libc_mkdirat L fd path mode)"
    "call_rel (same_fds V) (libc_mknodat L fd path mode rdev)"
    "call_rel (same_fds V) (libc_symlinkat L path fd path')"
    "call_rel (same_fds V) (libc_unlinkat L fd path flags)"
    "call_rel (same_fds V) (libc_renameat L fd path fd' path')"
    "call_rel (same_fds V) (libc_readdir L dp)"
    "call_rel (same_fds V) (libc_fsync L fd)"
    "call_rel (same_fds V) (libc_fdatasync L fd)"
    "call_rel (same_fds V) (libc_chmod L path mode)"
    "call_rel (same_fds V) (libc_fchmod L fd mode)"
    "call_rel (same_fds V) (libc_truncate L path len)"
    "call_rel (same_fds V) (libc_ftruncate L fd len)"
    "call_rel (same_fds V) (libc_flock L fd oper)"
    "call_rel (same_fds V) (libc_getxattr L path name n)"
    "call_rel (same_fds V) (libc_listxattr L path n)"
    "call_rel (same_fds V) (libc_setxattr L path name val flags)"
    "call_rel (same_fds V) (libc_removexattr L path name)"
    "call_rel (same_fds V) (libc_fstatvfs L fd)"
    "call_rel (same_fds V) (libc_lseek L fd off flags)"
    "call_rel (same_fds V) (libc_read L fd n)"
    "call_rel (same_fds V) (libc_write L fd val)"
  using assms unfolding libc_fds_def by (simp_all del: split_paired_All)

lemma libc_fds_effects:
  assumes "libc_fds L V"
  shows "opens V (libc_open L path flags)" "opens V (libc_openat L fd path flags)"
    "opens_stream V fd (libc_fdopendir L fd)"
    "V (libc_close L fd k) = (fst (V k) - {fd}, snd (V k))"
    "snd (V k) dp = Some fd \<Longrightarrow> V (libc_closedir L dp k) = (fst (V k) - {fd}, (snd (V k))(dp := None))"
    "V (libc_seekdir L dp off k) = V k" "V (snd (libc_posix_fallocate L fd off len k)) = V k"
  using assms unfolding libc_fds_def by simp_all

lemma nix_same_fds:
  assumes "libc_fds L V"
  shows "act_rel (same_fds V) (FileDesc_fstatat L fd path flags)"
    "act_rel (same_fds V) (FileDesc_readlinkat L fd path)"
    "act_rel (same_fds V) (FileDesc_fchownat L fd path uid gid flags)"
    "act_rel (same_fds V) (FileDesc_futimensat L fd path tv flags)"
    "act_rel (same_fds V) (FileDesc_linkat L fd path fd' path' flags)"
    "act_rel (same_fds V) (FileDesc_mkdirat L fd path mode)"
    "act_rel (same_fds V) (FileDesc_mknodat L fd path mode rdev)"
    "act_rel (same_fds V) (FileDesc_symlinkat L fd path path')"
    "act_rel (same_fds V) (FileDesc_unlinkat L fd path flags)"
    "act_rel (same_fds V) (FileDesc_renameat L fd path fdo path')"
    "act_rel (same_fds V) (nix_chmod L path mode)"
    "act_rel (same_fds V) (nix_fchmod L fd mode)"
    "act_rel (same_fds V) (nix_truncate L path len)"
    "act_rel (same_fds V) (nix_ftruncate L fd len)"
    "act_rel (same_fds V) (nix_utimens L path tv)"
    "act_rel (same_fds V) (nix_futimens L fd tv)"
    "act_rel (same_fds V) (nix_link L path fd' path' flags)"
    "act_rel (same_fds V) (nix_flock L fd oper)"
    "act_rel (same_fds V) (nix_getxattr L path name buf)"
    "act_rel (same_fds V) (nix_listxattr L path buf)"
    "act_rel (same_fds V) (nix_setxattr L path name val flags)"
    "act_rel (same_fds V) (nix_removexattr L path name)"
    "act_rel (same_fds V) (nix_fstatvfs L fd)"
    "act_rel (same_fds V) (File_sync_all L fd)"
    "act_rel (same_fds V) (File_sync_data L fd)"
    "act_rel (same_fds V) (File_seek L fd pos)"
    "act_rel (same_fds V) (read_to_end L ask fd n val)"
    "act_rel (same_fds V) (io_copy L fd pieces)"
  unfolding FileDesc_fstatat_def FileDesc_readlinkat_def FileDesc_fchownat_def FileDesc_futimensat_def
    FileDesc_linkat_def FileDesc_mkdirat_def FileDesc_mknodat_def FileDesc_symlinkat_def
    FileDesc_unlinkat_def FileDesc_renameat_def nix_chmod_def nix_fchmod_def nix_truncate_def
    nix_ftruncate_def nix_utimens_def nix_futimens_def nix_link_def nix_flock_def nix_getxattr_def
    nix_listxattr_def nix_setxattr_def nix_removexattr_def nix_fstatvfs_def File_sync_all_def
    File_sync_data_def File_seek_def Let_def
  by (intro keeps libc_fds_calls [OF assms])+

lemma nix_same_fds_other:
  assumes "libc_fds L V"
  shows "act_rel (same_fds V) (nix_posix_fallocate L fd off len)"
    "act_rel (same_fds V) (ReadDir_sync_all L dir)" "act_rel (same_fds V) (ReadDir_sync_data L dir)"
    "same_fds V k (snd (ReadDir_seek L dir pos k))"
proof -
  show "act_rel (same_fds V) (nix_posix_fallocate L fd off len)"
    using libc_fds_effects(7) [OF assms, of fd off len]
    by (auto intro!: act_relI simp: nix_posix_fallocate_def same_fds_def split: prod.splits) (metis snd_conv)+
  have "act_rel (same_fds V) (syscall (libc_fsync L fd))" "act_rel (same_fds V) (syscall (libc_fdatasync L fd))" for fd
    by (intro keeps libc_fds_calls [OF assms])+
  then show "act_rel (same_fds V) (ReadDir_sync_all L dir)" "act_rel (same_fds V) (ReadDir_sync_data L dir)"
    unfolding act_rel_def ReadDir_sync_all_def ReadDir_sync_data_def by blast+
  show "same_fds V k (snd (ReadDir_seek L dir pos k))"
    by (simp add: ReadDir_seek_def same_fds_def libc_fds_effects [OF assms])
qed

lemma ReadDir_next_same_fds:
  assumes "libc_fds L V"
  shows "act_rel (same_fds V) (ReadDir_next L dir)"
proof -
  have "same_fds V k (snd y)" if "ReadDir_next L dir k = Some y" for k y
    using that assms
  proof (induction rule: ReadDir_next.raw_induct [rotated, consumes 1, case_names step])
    case (step self L dir k y)
    have "same_fds V k (snd (libc_readdir L (rd_dir dir) k))"
      using libc_fds_calls(13) [OF \<open>libc_fds L V\<close>] by (simp add: call_rel_def)
    with step show ?case
      by (cases y) (auto split: prod.splits result.splits if_splits option.splits intro: same_fds.rel_trans)
  qed
  then show ?thesis by (fastforce intro: act_relI)
qed

lemmas nix_keeps = nix_same_fds nix_same_fds_other(1,2,3) ReadDir_next_same_fds

text \<open>Opening a file, and a directory stream.\<close>

lemma FileDesc_openat_fds:
  assumes "libc_fds L V" and "FileDesc_openat L dir path flags k = Some (r, k')"
  shows "case r of Ok fd \<Rightarrow> fd \<notin> fst (V k) \<and> V k' = (insert fd (fst (V k)), snd (V k)) | _ \<Rightarrow> V k' = V k"
proof (cases "libc_openat L dir path (empty_path path flags) k")
  case (Pair x k1)
  with libc_fds_effects(2) [OF assms(1), of dir path "empty_path path flags"] assms(2) show ?thesis
    by (cases x) (auto simp: FileDesc_openat_def handler opens_def split: if_splits dest!: spec [of _ k])
qed

lemma FileDesc_open_fds:
  assumes "libc_fds L V" and "FileDesc_open L path flags k = Some (Ok fd, k')"
  shows "fd \<notin> fst (V k)" "V k' = (insert fd (fst (V k)), snd (V k))"
proof -
  from assms(2) have "libc_open L path (empty_path path flags) k = (Ok fd, k')"
    by (auto simp: FileDesc_open_def handler split: if_splits elim!: os_result.elims [OF sym])
  with libc_fds_effects(1) [OF assms(1), of path "empty_path path flags"]
  have "fd \<notin> fst (V k) \<and> V k' = (insert fd (fst (V k)), snd (V k))"
    by (auto simp: opens_def dest!: spec [of _ k])
  then show "fd \<notin> fst (V k)" "V k' = (insert fd (fst (V k)), snd (V k))" by blast+
qed

lemma File_open_fds:
  assumes L: "libc_fds L V" and "File_open L opts path k = Some (r, k')"
  shows "case r of Ok fd \<Rightarrow> fd \<notin> fst (V k) \<and> V k' = (insert fd (fst (V k)), snd (V k)) | _ \<Rightarrow> V k' = V k"
proof -
  have open_fds: "case fst y of Ok fd \<Rightarrow> fd \<notin> fst (V k) \<and> V (snd y) = (insert fd (fst (V k)), snd (V k)) | _ \<Rightarrow> V (snd y) = V k"
    if "cvt_r call k = Some y" "opens V call" for call :: "'a \<Rightarrow> (i32, fd) result \<times> 'a" and k y
    using that
  proof (induction rule: cvt_r.raw_induct [rotated, consumes 1, case_names step])
    case (step self call k y)
    from \<open>opens V call\<close> have "case call k of
       (Ok fd, k') \<Rightarrow> fd \<notin> fst (V k) \<and> V k' = (insert fd (fst (V k)), snd (V k)) | (_, k') \<Rightarrow> V k' = V k"
      by (simp add: opens_def)
    moreover obtain x k1 where "call k = (x, k1)" by fastforce
    ultimately show ?case
      using step.hyps step.IH [of call k1 y] \<open>opens V call\<close> by (cases x) (auto split: if_splits result.splits)
  qed
  show ?thesis
    using assms(2) open_fds [OF _ libc_fds_effects(1) [OF L], of path _ k "(r, k')", unfolded fst_conv snd_conv]
    by (cases "std_open_flags opts") (auto simp: File_open_def handler split: if_splits)
qed

lemma FileDesc_read_dir_fds:
  assumes "libc_fds L V" and "FileDesc_read_dir L dir k = Some (r, k')"
  shows "case r of
      Ok d \<Rightarrow> rd_fd d \<notin> fst (V k) \<and> snd (V k) (rd_dir d) = None \<and>
        V k' = (insert (rd_fd d) (fst (V k)), (snd (V k))(rd_dir d \<mapsto> rd_fd d))
    | _ \<Rightarrow> V k' = V k"
  using assms(2) unfolding FileDesc_read_dir_def act_bind_eq [of "FileDesc_openat L dir (as_bytes ''.'') O_RDONLY"]
proof (elim disjE exE conjE)
  fix fd k1
  assume op: "FileDesc_openat L dir (as_bytes ''.'') O_RDONLY k = Some (Ok fd, k1)"
    and rest: "act_bind (act_on_fail (syscall (libc_fdopendir L fd)) (FileDesc_drop L fd))
      (\<lambda>dp. act_ok \<lparr> rd_dir = dp, rd_offset = 0, rd_fd = fd \<rparr>) k1 = Some (r, k')"
  from FileDesc_openat_fds [OF assms(1) op]
  have V: "fd \<notin> fst (V k)" "V k1 = (insert fd (fst (V k)), snd (V k))" by auto
  obtain x k2 where "libc_fdopendir L fd k1 = (x, k2)" by fastforce
  with libc_fds_effects(3) [OF assms(1), of fd] rest V show ?thesis
    by (cases x)
      (auto simp: handler opens_stream_def FileDesc_drop_def libc_fds_effects(4) [OF assms(1)] dest!: spec [of _ k1])
qed (use FileDesc_openat_fds [OF assms(1)] in \<open>fastforce+\<close>)

section \<open>A simulated host\<close>

text \<open>
  A host on which all calls succeed: descriptors and streams get new numbers, one file is read and
  written one byte at a time, directories are empty, and \<open>st\<close> says which file a descriptor belongs to.
\<close>

record sim_host =
  sh_fds :: "fd list"
  sh_dirs :: "(dirp \<times> fd) list"
  sh_content :: bytes
  sh_pos :: nat

definition sim_done :: "'a \<Rightarrow> (sim_host, 'a) call" where
  "sim_done x k = (Ok x, k)"

definition sim_open :: "(sim_host, fd) call" where
  "sim_open k = (let fd = Suc (sum_list (sh_fds k)) in (Ok fd, k\<lparr> sh_fds := fd # sh_fds k \<rparr>))"

definition sim_close :: "fd \<Rightarrow> sim_host \<Rightarrow> sim_host" where
  "sim_close fd k = k\<lparr> sh_fds := removeAll fd (sh_fds k) \<rparr>"

definition sim_fdopendir :: "fd \<Rightarrow> (sim_host, dirp) call" where
  "sim_fdopendir fd k =
     (let dp = Suc (sum_list (map fst (sh_dirs k))) in (Ok dp, k\<lparr> sh_dirs := (dp, fd) # sh_dirs k \<rparr>))"

definition sim_closedir :: "dirp \<Rightarrow> sim_host \<Rightarrow> sim_host" where
  "sim_closedir dp k =
     (case map_of (sh_dirs k) dp of
        None \<Rightarrow> k
      | Some fd \<Rightarrow> (sim_close fd k)\<lparr> sh_dirs := AList.delete dp (sh_dirs k) \<rparr>)"

definition sim_libc :: "(fd \<Rightarrow> libc_stat_dev) \<Rightarrow> sim_host libc" where
  "sim_libc st =
     \<lparr> libc_open = (\<lambda>_ _. sim_open), libc_openat = (\<lambda>_ _ _. sim_open), libc_close = sim_close,
       libc_fstatat = (\<lambda>fd _ _. sim_done (st fd)), libc_lstat = (\<lambda>_. sim_done (st 0)),
       libc_realpath = sim_done, libc_readlink = (\<lambda>_ _. sim_done []),
       libc_readlinkat = (\<lambda>_ _ _. sim_done []), rustix_chown = (\<lambda>_ _ _. sim_done ()),
       libc_fchownat = (\<lambda>_ _ _ _ _. sim_done ()), libc_utimensat = (\<lambda>_ _ _ _. sim_done ()),
       libc_futimens = (\<lambda>_ _. sim_done ()), libc_linkat = (\<lambda>_ _ _ _ _. sim_done ()),
       libc_mkdirat = (\<lambda>_ _ _. sim_done ()), libc_mknodat = (\<lambda>_ _ _ _. sim_done ()),
       libc_symlinkat = (\<lambda>_ _ _. sim_done ()), libc_unlinkat = (\<lambda>_ _ _. sim_done ()),
       libc_renameat = (\<lambda>_ _ _ _. sim_done ()), libc_opendir = (\<lambda>_. sim_fdopendir 0),
       libc_fdopendir = sim_fdopendir,
       libc_dirfd = (\<lambda>dp k. case map_of (sh_dirs k) dp of None \<Rightarrow> 0 | Some fd \<Rightarrow> fd),
       libc_closedir = sim_closedir, libc_seekdir = (\<lambda>_ _ k. k), libc_readdir = (\<lambda>_. sim_done None),
       libc_fsync = (\<lambda>_. sim_done ()), libc_fdatasync = (\<lambda>_. sim_done ()),
       libc_chmod = (\<lambda>_ _. sim_done ()), libc_fchmod = (\<lambda>_ _. sim_done ()),
       libc_truncate = (\<lambda>_ _. sim_done ()), libc_ftruncate = (\<lambda>_ _. sim_done ()),
       libc_flock = (\<lambda>_ _. sim_done ()), libc_posix_fallocate = (\<lambda>_ _ _ k. (0, k)),
       libc_getxattr = (\<lambda>_ _ _. sim_done (0, [])), libc_listxattr = (\<lambda>_ _. sim_done (0, [])),
       libc_setxattr = (\<lambda>_ _ _ _. sim_done ()), libc_removexattr = (\<lambda>_ _. sim_done ()),
       libc_fstatvfs = (\<lambda>_. sim_done
         \<lparr> f_bsize = 0, f_frsize = 0, f_blocks = 0, f_bfree = 0, f_bavail = 0, f_files = 0, f_ffree = 0,
           f_namemax = 0 \<rparr>),
       libc_lseek = (\<lambda>_ off _ k. (Ok (), k\<lparr> sh_pos := unat off \<rparr>)),
       libc_read = (\<lambda>_ n k.
         let bs = take (min n 1) (drop (sh_pos k) (sh_content k))
         in (Ok bs, k\<lparr> sh_pos := sh_pos k + length bs \<rparr>)),
       libc_write = (\<lambda>_ bs k.
         let n = length (take 1 bs)
         in (Ok n, k\<lparr> sh_content := write_at (sh_pos k) (take n bs) (sh_content k), sh_pos := sh_pos k + n \<rparr>)) \<rparr>"

definition sim_fds :: "sim_host fd_view" where
  "sim_fds k = (set (sh_fds k), map_of (sh_dirs k))"

text \<open>The attributes of a regular file.\<close>

definition sim_stat :: "u64 \<Rightarrow> libc_stat_dev" where
  "sim_stat ino =
     \<lparr> st_ino = ino, st_size = 0, st_mode = S_IFREG, st_nlink = 1, st_uid = 0, st_gid = 0, st_rdev = 0,
       st_blksize = 512, st_blocks = 0, st_atime = 0, st_atime_nsec = 0, st_mtime = 0, st_mtime_nsec = 0,
       st_ctime = 0, st_ctime_nsec = 0, st_dev = 1 \<rparr>"

lemma Suc_sum_list_notin: "Suc (sum_list xs) \<notin> set xs"
  using member_le_sum_list [of "Suc (sum_list xs)" xs] by auto

lemma sim_done_fds: "call_rel (same_fds sim_fds) (sim_done x)"
  by (simp add: call_rel_def same_fds_def sim_done_def)

lemma sim_libc_fds: "libc_fds (sim_libc st) sim_fds"
proof -
  have new: "Suc (sum_list (map fst (sh_dirs k))) \<notin> fst ` set (sh_dirs k)" for k :: sim_host
    using Suc_sum_list_notin [of "map fst (sh_dirs k)"] by simp
  have "opens sim_fds sim_open"
    by (simp add: opens_def sim_open_def sim_fds_def Let_def Suc_sum_list_notin)
  moreover have "opens_stream sim_fds fd (sim_fdopendir fd)" for fd
    by (simp add: new opens_stream_def sim_fdopendir_def sim_fds_def Let_def map_of_eq_None_iff)
  moreover have "sim_fds (sim_close fd k) = (fst (sim_fds k) - {fd}, snd (sim_fds k))" for fd k
    by (simp add: sim_fds_def sim_close_def)
  moreover have "sim_fds (sim_closedir dp k) = (fst (sim_fds k) - {fd}, (snd (sim_fds k))(dp := None))"
    if "snd (sim_fds k) dp = Some fd" for dp fd k
    using that by (simp add: sim_fds_def sim_close_def sim_closedir_def AList.delete_conv')
  ultimately show ?thesis
    unfolding libc_fds_def sim_libc_def libc.simps
    by (intro conjI allI impI sim_done_fds) (simp_all add: call_rel_def same_fds_def sim_fds_def Let_def)
qed

lemma sim_file_io: "file_io (sim_libc st) fd sh_content sh_pos"
  by (auto simp: file_io_def sim_libc_def Let_def min_def Suc_le_eq)

lemma sim_calls [simp]:
  "0 \<notin> set path \<Longrightarrow> FileDesc_open (sim_libc st) path flags k =
    Some (Ok (Suc (sum_list (sh_fds k))), k\<lparr> sh_fds := Suc (sum_list (sh_fds k)) # sh_fds k \<rparr>)"
  "0 \<notin> set path \<Longrightarrow> FileDesc_openat (sim_libc st) dir path flags k =
    Some (Ok (Suc (sum_list (sh_fds k))), k\<lparr> sh_fds := Suc (sum_list (sh_fds k)) # sh_fds k \<rparr>)"
  "FileDesc_fstatat (sim_libc st) fd [] flags k = Some (Ok (st fd), k)"
  "libc_realpath (sim_libc st) path k = (Ok path, k)"
  by (simp_all add: FileDesc_open_def FileDesc_openat_def FileDesc_fstatat_def cstring_def syscall_def
      sim_libc_def sim_open_def sim_done_def Let_def)

lemma sim_stat_sel [simp]:
  "st_ino (sim_stat ino) = ino" "st_dev (sim_stat ino) = 1" "st_mode (sim_stat ino) AND S_IFMT \<noteq> S_IFLNK"
  by (simp_all add: sim_stat_def libc_const)

text \<open>Its initial state, and a first request to look up a name.\<close>

definition host0 :: sim_host where
  "host0 = \<lparr> sh_fds = [], sh_dirs = [], sh_content = [], sh_pos = 0 \<rparr>"

definition node_two :: NodeID where
  "node_two = NodeID_from_raw_unchecked 2"

definition lookup_a :: Lookup where
  "lookup_a = \<lparr> Lookup_parent = NodeID_ROOT, Lookup_name = [97] \<rparr>"

lemma node_two_simps [simp]: "NodeID_from_raw 2 = Some node_two" "NodeID_into_raw node_two = 2" "NodeID_ROOT \<noteq> node_two"
proof -
  show 1: "NodeID_from_raw 2 = Some node_two" by (simp add: NodeID_from_raw_def node_two_def)
  then show 2: "NodeID_into_raw node_two = 2" by (simp add: NodeID_from_raw_Some)
  have "NodeID_into_raw NodeID_ROOT \<noteq> NodeID_into_raw node_two" by (simp add: 2)
  then show "NodeID_ROOT \<noteq> node_two" by metis
qed

end
