(* ===== verification/Passthrough.thy ===== *)
theory Passthrough
  imports Nix
begin

text \<open>
  The filesystem \<open>examples_disabled/passthrough/main.rs\<close>, which passes every operation on to a directory
  of the host. A node of the table holds a descriptor of a file of the host, which is identified by its
  inode and device number, and the number of references that the kernel has to it. Handlers run one
  after the other, on the state of the filesystem and that of the host; one that waits for a lock of
  its own does not return.
\<close>

section \<open>The table of nodes\<close>

type_synonym SrcId = "u64 \<times> u64"

record pt_INode =
  pn_ino :: NodeID
  pn_src_id :: SrcId
  pn_is_symlink :: bool
  pn_fd :: fd
  pn_refcount :: u64

record pt_INodeTable =
  pt_map :: "(NodeID, pt_INode) mapping"
  src_to_ino :: "(SrcId, NodeID) mapping"
  pt_next_ino :: u64

definition pt_INodeTable_new :: pt_INodeTable where
  "pt_INodeTable_new = \<lparr> pt_map = Mapping.empty, src_to_ino = Mapping.empty, pt_next_ino = 1 \<rparr>"

definition INodeTable_get :: "pt_INodeTable \<Rightarrow> NodeID \<Rightarrow> pt_INode option" where
  "INodeTable_get self ino = Mapping.lookup (pt_map self) ino"

text \<open>A reference to a node is its key in the table, which stands for its lock, with its contents.\<close>

definition get_src :: "pt_INodeTable \<Rightarrow> SrcId \<Rightarrow> (NodeID \<times> pt_INode) option" where
  "get_src self src_id =
     (case Mapping.lookup (src_to_ino self) src_id of
        None \<Rightarrow> None
      | Some ino \<Rightarrow> map_option (Pair ino) (Mapping.lookup (pt_map self) ino))"

definition pt_vacant_entry :: "pt_INodeTable \<Rightarrow> NodeID option" where
  "pt_vacant_entry self = NodeID_from_raw (pt_next_ino self)"

definition VacantEntry_insert ::
    "extern \<Rightarrow> NodeID \<Rightarrow> pt_INode \<Rightarrow> pt_INodeTable \<Rightarrow> (io_error, unit) result \<times> pt_INodeTable" where
  "VacantEntry_insert X ino inode table =
     (let table = table
            \<lparr> pt_map := Mapping.update ino inode (pt_map table),
              src_to_ino := Mapping.update (pn_src_id inode) ino (src_to_ino table) \<rparr>
      in case add_assign X (pt_next_ino table) 1 of
           None \<Rightarrow> (Panic, table)
         | Some n \<Rightarrow> (Ok (), table\<lparr> pt_next_ino := n \<rparr>))"

section \<open>Handles\<close>

text \<open>A \<open>Slab\<close>: the key of a new entry is a parameter, and removing a key that is not in use panics.\<close>

type_synonym 'a HandlePool = "(nat, 'a) mapping"

definition HandlePool_get :: "'a HandlePool \<Rightarrow> FileID \<Rightarrow> 'a option" where
  "HandlePool_get self fh = Mapping.lookup self (unat (FileID_into_raw fh))"

definition HandlePool_remove :: "'a HandlePool \<Rightarrow> FileID \<Rightarrow> ('a \<times> 'a HandlePool) option" where
  "HandlePool_remove self fh =
     map_option (\<lambda>x. (x, Mapping.delete (unat (FileID_into_raw fh)) self)) (HandlePool_get self fh)"

definition HandlePool_insert :: "nat \<Rightarrow> 'a \<Rightarrow> 'a HandlePool \<Rightarrow> FileID \<times> 'a HandlePool" where
  "HandlePool_insert key entry self = (FileID (of_nat key), Mapping.update key entry self)"

record Passthrough =
  pt_inodes :: pt_INodeTable
  opened_dirs :: "ReadDir HandlePool"
  opened_files :: "fd HandlePool"
  pt_timeout :: "duration option"

type_synonym 'k pt_state = "Passthrough \<times> 'k"

section \<open>Access to the state\<close>

definition pt_node :: "NodeID \<Rightarrow> ('k pt_state, pt_INode) act" where
  "pt_node ino = act_bind (act_get (\<lambda>s. INodeTable_get (pt_inodes (fst s)) ino)) (\<lambda>v. act_errno v ENOENT)"

definition pt_file :: "FileID \<Rightarrow> ('k pt_state, fd) act" where
  "pt_file fh = act_bind (act_get (\<lambda>s. HandlePool_get (opened_files (fst s)) fh)) (\<lambda>v. act_errno v ENOENT)"

definition pt_dir :: "FileID \<Rightarrow> ('k pt_state, ReadDir) act" where
  "pt_dir fh = act_bind (act_get (\<lambda>s. HandlePool_get (opened_dirs (fst s)) fh)) (\<lambda>v. act_errno v ENOENT)"

definition put_node :: "NodeID \<Rightarrow> pt_INode \<Rightarrow> Passthrough \<Rightarrow> Passthrough" where
  "put_node ino inode self =
     self\<lparr> pt_inodes := pt_inodes self\<lparr> pt_map := Mapping.update ino inode (pt_map (pt_inodes self)) \<rparr> \<rparr>"

definition drop_fd :: "'k libc \<Rightarrow> fd \<Rightarrow> 'k pt_state \<Rightarrow> 'k pt_state" where
  "drop_fd L fd = apsnd (FileDesc_drop L fd)"

text \<open>\<open>refcount += 1\<close>, and the conversion of attributes.\<close>

definition add_ref :: "extern \<Rightarrow> NodeID \<Rightarrow> pt_INode \<Rightarrow> ('k pt_state, unit) act" where
  "add_ref X ino inode =
     act_bind (act_expect (add_assign X (pn_refcount inode) 1)) (\<lambda>refcount.
     act_put (apfst (put_node ino (inode\<lparr> pn_refcount := refcount \<rparr>))))"

definition attr_of_stat :: "extern \<Rightarrow> libc_stat_dev \<Rightarrow> (io_error, FileAttr) result" where
  "attr_of_stat X stat =
     (case FileAttr_try_from_stat X (libc_stat.truncate stat) of
        Ok attr \<Rightarrow> Ok attr | Err _ \<Rightarrow> Err (OsError EINVAL) | Panic \<Rightarrow> Panic)"

definition entry_out :: "extern \<Rightarrow> NodeID \<Rightarrow> libc_stat_dev \<Rightarrow> ('k pt_state, EntryOut) act" where
  "entry_out X ino stat =
     act_bind (act_result (attr_of_stat X stat)) (\<lambda>attr.
     act_bind (act_get (\<lambda>s. pt_timeout (fst s))) (\<lambda>timeout.
     act_ok \<lparr> EntryOut_ino = Some ino, EntryOut_attr = attr, EntryOut_generation = 0,
              EntryOut_entry_valid = timeout, EntryOut_attr_valid = timeout \<rparr>))"

section \<open>Looking up and creating nodes\<close>

definition Passthrough_new :: "extern \<Rightarrow> 'k libc \<Rightarrow> bytes \<Rightarrow> duration option \<Rightarrow> ('k, Passthrough) act" where
  "Passthrough_new X L source timeout =
     act_bind (cstring source) (\<lambda>c_source.
     act_bind (syscall (libc_realpath L c_source)) (\<lambda>source.
     act_bind (FileDesc_open L source O_PATH) (\<lambda>fd.
     act_bind (act_on_fail (FileDesc_fstatat L fd [] AT_SYMLINK_NOFOLLOW) (FileDesc_drop L fd)) (\<lambda>stat.
     act_bind (act_on_fail (act_expect (pt_vacant_entry pt_INodeTable_new)) (FileDesc_drop L fd)) (\<lambda>ino.
     let (r, inodes) = VacantEntry_insert X ino
           \<lparr> pn_ino = NodeID_ROOT, pn_src_id = (st_ino stat, st_dev stat), pn_is_symlink = False, pn_fd = fd,
             pn_refcount = (- 1) div 2 \<rparr> pt_INodeTable_new
     in act_bind (act_on_fail (act_result r) (FileDesc_drop L fd)) (\<lambda>_.
        act_ok \<lparr> pt_inodes = inodes, opened_dirs = Mapping.empty, opened_files = Mapping.empty,
                 pt_timeout = timeout \<rparr>))))))"

text \<open>
  \<open>do_lookup\<close>: the lock of the parent is held when that of the node is taken. The new descriptor is
  dropped unless it becomes that of a new node.
\<close>

definition insert_node :: "extern \<Rightarrow> NodeID \<Rightarrow> pt_INode \<Rightarrow> ('k pt_state, unit) act" where
  "insert_node X ino inode = (\<lambda>(self, k).
     let (r, inodes) = VacantEntry_insert X ino inode (pt_inodes self)
     in Some (r, (self\<lparr> pt_inodes := inodes \<rparr>, k)))"

definition lookup_src ::
    "extern \<Rightarrow> 'k libc \<Rightarrow> NodeID \<Rightarrow> fd \<Rightarrow> libc_stat_dev \<Rightarrow> ('k pt_state, EntryOut) act" where
  "lookup_src X L parent fd stat =
     (let src_id = (st_ino stat, st_dev stat); is_symlink = (st_mode stat AND S_IFMT = S_IFLNK) in
      act_bind (act_get (\<lambda>s. get_src (pt_inodes (fst s)) src_id)) (\<lambda>src.
      case src of
        Some (key, inode) \<Rightarrow>
          if key = parent then act_hang
          else act_finally
            (act_bind (add_ref X key inode) (\<lambda>_. entry_out X (pn_ino inode) stat)) (drop_fd L fd)
      | None \<Rightarrow>
          act_bind (act_get (\<lambda>s. pt_vacant_entry (pt_inodes (fst s)))) (\<lambda>vacant.
          act_bind (act_on_fail (act_expect vacant) (drop_fd L fd)) (\<lambda>ino.
          act_bind (insert_node X ino
            \<lparr> pn_ino = ino, pn_src_id = src_id, pn_is_symlink = is_symlink, pn_fd = fd, pn_refcount = 1 \<rparr>) (\<lambda>_.
          entry_out X ino stat)))))"

definition do_lookup ::
    "extern \<Rightarrow> 'k libc \<Rightarrow> NodeID \<Rightarrow> bytes \<Rightarrow> ('k pt_state, EntryOut) act" where
  "do_lookup X L parent name =
     act_bind (pt_node parent) (\<lambda>pnode.
     act_bind (on_host (FileDesc_openat L (pn_fd pnode) name (O_PATH OR O_NOFOLLOW))) (\<lambda>fd.
     act_bind (act_on_fail (on_host (FileDesc_fstatat L fd [] AT_SYMLINK_NOFOLLOW)) (drop_fd L fd)) (\<lambda>stat.
     lookup_src X L parent fd stat)))"

text \<open>The locks are released between the creation of a file and its lookup.\<close>

definition pt_make_node ::
    "extern \<Rightarrow> 'k libc \<Rightarrow> NodeID \<Rightarrow> bytes \<Rightarrow> FileMode \<Rightarrow> DeviceID option \<Rightarrow> bytes option \<Rightarrow>
      ('k pt_state, EntryOut) act" where
  "pt_make_node X L parent name mode rdev link =
     act_bind (pt_node parent) (\<lambda>pnode.
     act_bind
       (if FileMode_file_type mode = Some Directory then
          on_host (FileDesc_mkdirat L (pn_fd pnode) name (FileMode_permissions X mode))
        else if FileMode_file_type mode = Some SymbolicLink then
          act_bind (act_expect link) (\<lambda>link. on_host (FileDesc_symlinkat L (pn_fd pnode) name link))
        else
          on_host (FileDesc_mknodat L (pn_fd pnode) name (FileMode_into_raw mode)
            (case rdev of None \<Rightarrow> 0 | Some rdev \<Rightarrow> DeviceID_into_userspace_dev X rdev))) (\<lambda>_.
     do_lookup X L parent name))"

section \<open>Handlers of nodes\<close>

definition pt_lookup ::
    "extern \<Rightarrow> 'k libc \<Rightarrow> ('b, 'r) req_reply \<Rightarrow> Lookup \<Rightarrow> ('k pt_state, 'r) act" where
  "pt_lookup X L reply op =
     act_bind (do_lookup X L (Lookup_parent op) (Lookup_name op)) (\<lambda>out. act_result (reply (Reply_EntryOut out)))"

text \<open>Only the node is removed; the number that belongs to its source stays.\<close>

definition pt_forget_one :: "'k libc \<Rightarrow> NodeID \<Rightarrow> u64 \<Rightarrow> 'k pt_state \<Rightarrow> 'k pt_state" where
  "pt_forget_one L ino nlookup = (\<lambda>(self, k).
     case Mapping.lookup (pt_map (pt_inodes self)) ino of
       None \<Rightarrow> (self, k)
     | Some inode \<Rightarrow>
         let refcount = saturating_sub (pn_refcount inode) nlookup in
         if refcount = 0 then
           (self\<lparr> pt_inodes := pt_inodes self\<lparr> pt_map := Mapping.delete ino (pt_map (pt_inodes self)) \<rparr> \<rparr>,
            FileDesc_drop L (pn_fd inode) k)
         else (put_node ino (inode\<lparr> pn_refcount := refcount \<rparr>) self, k))"

fun pt_forget :: "'k libc \<Rightarrow> Forget list \<Rightarrow> ('k pt_state, unit) act" where
  "pt_forget L [] = act_ok ()"
| "pt_forget L (forget # forgets) =
     act_bind (act_result (Forget_ino forget)) (\<lambda>ino.
     act_bind (act_put (pt_forget_one L ino (Forget_nlookup forget))) (\<lambda>_. pt_forget L forgets))"

definition pt_reply_attr ::
    "extern \<Rightarrow> 'k libc \<Rightarrow> ('b, 'r) req_reply \<Rightarrow> fd \<Rightarrow> ('k pt_state, 'r) act" where
  "pt_reply_attr X L reply fd =
     act_bind (on_host (FileDesc_fstatat L fd [] AT_SYMLINK_NOFOLLOW)) (\<lambda>stat.
     act_bind (act_result (attr_of_stat X stat)) (\<lambda>attr.
     act_bind (act_get (\<lambda>s. pt_timeout (fst s))) (\<lambda>timeout.
     act_result (reply (Reply_AttrOut \<lparr> AttrOut_attr = attr, AttrOut_valid = timeout \<rparr>)))))"

definition pt_getattr ::
    "extern \<Rightarrow> 'k libc \<Rightarrow> ('b, 'r) req_reply \<Rightarrow> Getattr \<Rightarrow> ('k pt_state, 'r) act" where
  "pt_getattr X L reply op =
     act_bind (pt_node (Getattr_ino op)) (\<lambda>inode. pt_reply_attr X L reply (pn_fd inode))"

fun make_timespec :: "SetAttrTime option \<Rightarrow> timespec" where
  "make_timespec (Some Now) = (0, UTIME_NOW)"
| "make_timespec (Some (Timespec ts)) = (as_secs ts, ucast (subsec_nanos ts))"
| "make_timespec None = (0, UTIME_OMIT)"

text \<open>
  \<open>setattr\<close>: one attribute after the other, on the file when the request has a handle, and otherwise by
  the name of the descriptor of the node.
\<close>

definition set_mode :: "'k libc \<Rightarrow> fd \<Rightarrow> fd option \<Rightarrow> FileMode option \<Rightarrow> ('k pt_state, unit) act" where
  "set_mode L fd file mode =
     (case mode of
        None \<Rightarrow> act_ok ()
      | Some mode \<Rightarrow> on_host
          (case file of
             Some file \<Rightarrow> nix_fchmod L file (FileMode_into_raw mode)
           | None \<Rightarrow> nix_chmod L (FileDesc_procname fd) (FileMode_into_raw mode)))"

definition set_owner :: "'k libc \<Rightarrow> fd \<Rightarrow> Uid option \<Rightarrow> Gid option \<Rightarrow> ('k pt_state, unit) act" where
  "set_owner L fd uid gid =
     (if uid = None \<and> gid = None then act_ok ()
      else on_host (FileDesc_fchownat L fd [] uid gid AT_SYMLINK_NOFOLLOW))"

definition set_size :: "'k libc \<Rightarrow> fd \<Rightarrow> fd option \<Rightarrow> u64 option \<Rightarrow> ('k pt_state, unit) act" where
  "set_size L fd file len =
     (case len of
        None \<Rightarrow> act_ok ()
      | Some len \<Rightarrow> on_host
          (case file of
             Some file \<Rightarrow> nix_ftruncate L file len
           | None \<Rightarrow> nix_truncate L (FileDesc_procname fd) len))"

definition set_times ::
    "'k libc \<Rightarrow> fd \<Rightarrow> bool \<Rightarrow> fd option \<Rightarrow> SetAttrTime option \<Rightarrow> SetAttrTime option \<Rightarrow> ('k pt_state, unit) act" where
  "set_times L fd is_symlink file atime mtime =
     (if atime = None \<and> mtime = None then act_ok ()
      else
        let tv = (make_timespec atime, make_timespec mtime) in
        on_host
          (case file of
             Some file \<Rightarrow> nix_futimens L file tv
           | None \<Rightarrow>
               if is_symlink then
                 act_map_err (\<lambda>e. if errno_from_io_error e = Some EINVAL then OsError EPERM else e)
                   (FileDesc_futimensat L fd [] tv AT_SYMLINK_NOFOLLOW)
               else nix_utimens L (FileDesc_procname fd) tv))"

definition pt_setattr ::
    "extern \<Rightarrow> 'k libc \<Rightarrow> ('b, 'r) req_reply \<Rightarrow> Setattr \<Rightarrow> ('k pt_state, 'r) act" where
  "pt_setattr X L reply op =
     act_bind (pt_node (Setattr_ino op)) (\<lambda>inode.
     let fd = pn_fd inode in
     act_bind
       (case Setattr_fh op of
          None \<Rightarrow> act_ok None
        | Some fh \<Rightarrow> act_bind (pt_file fh) (\<lambda>file. act_ok (Some file))) (\<lambda>file.
     act_bind (set_mode L fd file (Setattr_mode op)) (\<lambda>_.
     act_bind (set_owner L fd (Setattr_uid op) (Setattr_gid op)) (\<lambda>_.
     act_bind (set_size L fd file (Setattr_size op)) (\<lambda>_.
     act_bind (set_times L fd (pn_is_symlink inode) file (Setattr_atime op) (Setattr_mtime op)) (\<lambda>_.
     pt_reply_attr X L reply fd))))))"

definition pt_readlink :: "'k libc \<Rightarrow> ('b, 'r) req_reply \<Rightarrow> Readlink \<Rightarrow> ('k pt_state, 'r) act" where
  "pt_readlink L reply op =
     act_bind (pt_node (Readlink_ino op)) (\<lambda>inode.
     act_bind (on_host (FileDesc_readlinkat L (pn_fd inode) [])) (\<lambda>link.
     act_result (reply (Reply_Raw link))))"

text \<open>\<open>link\<close>, once both locks are held: the reference is counted after the reply was sent.\<close>

definition link_source ::
    "extern \<Rightarrow> 'k libc \<Rightarrow> ('b, 'r) req_reply \<Rightarrow> Link \<Rightarrow> pt_INode \<Rightarrow> pt_INode \<Rightarrow> ('k pt_state, 'r) act" where
  "link_source X L reply op source parent =
     act_bind (on_host
       (if pn_is_symlink source then
          act_map_err
            (\<lambda>e. if errno_from_io_error e \<in> {Some ENOENT, Some EINVAL} then OsError EOPNOTSUPP else e)
            (FileDesc_linkat L (pn_fd source) [] (pn_fd parent) (Link_newname op) 0)
        else
          nix_link L (FileDesc_procname (pn_fd source)) (pn_fd parent) (Link_newname op) AT_SYMLINK_FOLLOW)) (\<lambda>_.
     act_bind (on_host (FileDesc_fstatat L (pn_fd source) [] AT_SYMLINK_NOFOLLOW)) (\<lambda>stat.
     act_bind (entry_out X (pn_ino source) stat) (\<lambda>out.
     act_bind (act_result (reply (Reply_EntryOut out))) (\<lambda>replied.
     act_bind (add_ref X (Link_ino op) source) (\<lambda>_. act_ok replied)))))"

definition pt_link ::
    "extern \<Rightarrow> 'k libc \<Rightarrow> ('b, 'r) req_reply \<Rightarrow> Link \<Rightarrow> ('k pt_state, 'r) act" where
  "pt_link X L reply op =
     act_bind (pt_node (Link_ino op)) (\<lambda>source.
     act_bind (pt_node (Link_newparent op)) (\<lambda>parent.
     if Link_newparent op = Link_ino op then act_hang else link_source X L reply op source parent))"

definition pt_mknod ::
    "extern \<Rightarrow> 'k libc \<Rightarrow> ('b, 'r) req_reply \<Rightarrow> Mknod \<Rightarrow> ('k pt_state, 'r) act" where
  "pt_mknod X L reply op =
     act_bind (pt_make_node X L (Mknod_parent op) (Mknod_name op) (Mknod_mode op) (Some (Mknod_rdev op)) None)
       (\<lambda>out. act_result (reply (Reply_EntryOut out)))"

definition pt_mkdir ::
    "extern \<Rightarrow> 'k libc \<Rightarrow> ('b, 'r) req_reply \<Rightarrow> Mkdir \<Rightarrow> ('k pt_state, 'r) act" where
  "pt_mkdir X L reply op =
     act_bind (pt_make_node X L (Mkdir_parent op) (Mkdir_name op)
         (FileMode_new Directory (Mkdir_permissions op)) None None)
       (\<lambda>out. act_result (reply (Reply_EntryOut out)))"

definition pt_symlink ::
    "extern \<Rightarrow> 'k libc \<Rightarrow> ('b, 'r) req_reply \<Rightarrow> Symlink \<Rightarrow> ('k pt_state, 'r) act" where
  "pt_symlink X L reply op =
     act_bind (pt_make_node X L (Symlink_parent op) (Symlink_name op)
         (FileMode_new SymbolicLink 0) None (Some (Symlink_link op)))
       (\<lambda>out. act_result (reply (Reply_EntryOut out)))"

definition pt_unlink :: "'k libc \<Rightarrow> ('b, 'r) req_reply \<Rightarrow> Unlink \<Rightarrow> ('k pt_state, 'r) act" where
  "pt_unlink L reply op =
     act_bind (pt_node (Unlink_parent op)) (\<lambda>parent.
     act_bind (on_host (FileDesc_unlinkat L (pn_fd parent) (Unlink_name op) 0)) (\<lambda>_.
     act_result (reply Reply_Unit)))"

definition pt_rmdir :: "'k libc \<Rightarrow> ('b, 'r) req_reply \<Rightarrow> Rmdir \<Rightarrow> ('k pt_state, 'r) act" where
  "pt_rmdir L reply op =
     act_bind (pt_node (Rmdir_parent op)) (\<lambda>parent.
     act_bind (on_host (FileDesc_unlinkat L (pn_fd parent) (Rmdir_name op) AT_REMOVEDIR)) (\<lambda>_.
     act_result (reply Reply_Unit)))"

definition pt_rename :: "'k libc \<Rightarrow> ('b, 'r) req_reply \<Rightarrow> Rename \<Rightarrow> ('k pt_state, 'r) act" where
  "pt_rename L reply op =
     (if Rename_flags op \<noteq> 0 then act_err EINVAL
      else
        act_bind (pt_node (Rename_parent op)) (\<lambda>parent.
        act_bind (pt_node (Rename_newparent op)) (\<lambda>newparent.
        act_bind (on_host
          (FileDesc_renameat L (pn_fd parent) (Rename_name op)
            (if Rename_parent op = Rename_newparent op then None else Some (pn_fd newparent))
            (Rename_newname op))) (\<lambda>_.
        act_result (reply Reply_Unit)))))"

section \<open>Handlers of directories\<close>

definition pt_opendir ::
    "nat \<Rightarrow> 'k libc \<Rightarrow> ('b, 'r) req_reply \<Rightarrow> Opendir \<Rightarrow> ('k pt_state, 'r) act" where
  "pt_opendir key L reply op =
     act_bind (pt_node (Opendir_ino op)) (\<lambda>inode.
     act_bind (on_host (FileDesc_read_dir L (pn_fd inode))) (\<lambda>dir.
     act_bind (act_put (apfst (\<lambda>self. self\<lparr> opened_dirs := snd (HandlePool_insert key dir (opened_dirs self)) \<rparr>))) (\<lambda>_.
     act_result (reply (Reply_OpenOut
       \<lparr> OpenOut_fh = FileID (of_nat key), OpenOut_open_flags = 0, OpenOut_backing_id = 0 \<rparr>)))))"

text \<open>The loop over the entries of the stream, until the buffer is full.\<close>

partial_function (option) push_stream ::
    "'k libc \<Rightarrow> 'b ReaddirOut \<Rightarrow> ReadDir \<Rightarrow> 'b \<Rightarrow> 'k \<Rightarrow> ((io_error, 'b) result \<times> 'k) option" where
  "push_stream L R dir out k =
     (case ReadDir_next L dir k of
        None \<Rightarrow> None
      | Some (Err e, k) \<Rightarrow> Some (Err e, k)
      | Some (Panic, k) \<Rightarrow> Some (Panic, k)
      | Some (Ok None, k) \<Rightarrow> Some (Ok out, k)
      | Some (Ok (Some entry), k) \<Rightarrow>
          (case ReaddirOut_push_entry R out (nde_name entry) (nde_ino entry)
                  (FileType_from_dirent_type (nde_typ entry)) (nde_off entry) of
             (full, out) \<Rightarrow> if full then Some (Ok out, k) else push_stream L R dir out k))"

definition pt_seek :: "'k libc \<Rightarrow> FileID \<Rightarrow> ReadDir \<Rightarrow> u64 \<Rightarrow> ('k pt_state, ReadDir) act" where
  "pt_seek L fh dir offset = (\<lambda>(self, k).
     let (dir, k) = ReadDir_seek L dir offset k
     in Some (Ok dir, (self\<lparr> opened_dirs := Mapping.update (unat (FileID_into_raw fh)) dir (opened_dirs self) \<rparr>, k)))"

definition pt_readdir ::
    "'k libc \<Rightarrow> 'b ReaddirOut \<Rightarrow> ('b, 'r) req_reply \<Rightarrow> Readdir \<Rightarrow> ('k pt_state, 'r) act" where
  "pt_readdir L R reply op =
     (if Readdir_mode op = ReaddirMode_Plus then act_err ENOSYS
      else
        act_bind (pt_dir (Readdir_fh op)) (\<lambda>dir.
        act_bind (pt_seek L (Readdir_fh op) dir (Readdir_offset op)) (\<lambda>dir.
        act_bind (on_host (push_stream L R dir (ReaddirOut_new R (unat (Readdir_size op))))) (\<lambda>out.
        act_result (reply (Reply_ReaddirOut out))))))"

definition pt_fsyncdir :: "'k libc \<Rightarrow> ('b, 'r) req_reply \<Rightarrow> Fsyncdir \<Rightarrow> ('k pt_state, 'r) act" where
  "pt_fsyncdir L reply op =
     act_bind (pt_dir (Fsyncdir_fh op)) (\<lambda>dir.
     act_bind (on_host (if Fsyncdir_datasync op then ReadDir_sync_data L dir else ReadDir_sync_all L dir)) (\<lambda>_.
     act_result (reply Reply_Unit)))"

text \<open>What is removed is dropped at the end of the handler.\<close>

definition pt_releasedir :: "'k libc \<Rightarrow> ('b, 'r) req_reply \<Rightarrow> Releasedir \<Rightarrow> ('k pt_state, 'r) act" where
  "pt_releasedir L reply op =
     act_bind (act_get (\<lambda>s. HandlePool_remove (opened_dirs (fst s)) (Releasedir_fh op))) (\<lambda>v.
     act_bind (act_expect v) (\<lambda>(dir, dirs).
     act_bind (act_put (apfst (\<lambda>self. self\<lparr> opened_dirs := dirs \<rparr>))) (\<lambda>_.
     act_finally (act_result (reply Reply_Unit)) (apsnd (ReadDir_drop L dir)))))"

section \<open>Handlers of files\<close>

definition pt_open ::
    "nat \<Rightarrow> extern \<Rightarrow> 'k libc \<Rightarrow> ('b, 'r) req_reply \<Rightarrow> Open \<Rightarrow> ('k pt_state, 'r) act" where
  "pt_open key X L reply op =
     act_bind (pt_node (Open_ino op)) (\<lambda>inode.
     let options = OpenOptions_into_std X (without_nofollow X (Open_options op)) in
     act_bind (on_host (File_open L options (FileDesc_procname (pn_fd inode)))) (\<lambda>file.
     act_bind (act_put (apfst (\<lambda>self. self\<lparr> opened_files := snd (HandlePool_insert key file (opened_files self)) \<rparr>))) (\<lambda>_.
     act_result (reply (Reply_OpenOut
       \<lparr> OpenOut_fh = FileID (of_nat key), OpenOut_open_flags = FOPEN_DIRECT_IO, OpenOut_backing_id = 0 \<rparr>)))))"

definition pt_read ::
    "'k libc \<Rightarrow> asking \<Rightarrow> ('b, 'r) req_reply \<Rightarrow> Read \<Rightarrow> ('k pt_state, 'r) act" where
  "pt_read L ask reply op =
     act_bind (pt_file (Read_fh op)) (\<lambda>file.
     act_bind (on_host (File_seek L file (Read_offset op))) (\<lambda>_.
     act_bind (on_host (read_to_end L ask file (unat (Read_size op)) [])) (\<lambda>buf.
     act_result (reply (Reply_Raw buf)))))"

text \<open>
  \<open>data\<close> is the outcome of reading the data of the request to its end, and \<open>pieces\<close> how \<open>io::copy\<close> splits
  what it writes.
\<close>

definition pt_write ::
    "'k libc \<Rightarrow> (bytes \<Rightarrow> bytes list) \<Rightarrow> (io_error, bytes) result \<Rightarrow> ('b, 'r) req_reply \<Rightarrow> Write \<Rightarrow>
      ('k pt_state, 'r) act" where
  "pt_write L pieces data reply op =
     act_bind (pt_file (Write_fh op)) (\<lambda>file.
     act_bind (on_host (File_seek L file (Write_offset op))) (\<lambda>_.
     act_bind (act_result data) (\<lambda>buf.
     act_bind (on_host (io_copy L file (pieces (take (unat (Write_size op)) buf)))) (\<lambda>written.
     act_result (reply (Reply_WriteOut (of_nat written)))))))"

definition pt_flush :: "'k libc \<Rightarrow> ('b, 'r) req_reply \<Rightarrow> Flush \<Rightarrow> ('k pt_state, 'r) act" where
  "pt_flush L reply op =
     act_bind (pt_file (Flush_fh op)) (\<lambda>file.
     act_bind (on_host (File_sync_all L file)) (\<lambda>_. act_result (reply Reply_Unit)))"

definition pt_fsync :: "'k libc \<Rightarrow> ('b, 'r) req_reply \<Rightarrow> Fsync \<Rightarrow> ('k pt_state, 'r) act" where
  "pt_fsync L reply op =
     act_bind (pt_file (Fsync_fh op)) (\<lambda>file.
     act_bind (on_host (if Fsync_datasync op then File_sync_data L file else File_sync_all L file)) (\<lambda>_.
     act_result (reply Reply_Unit)))"

definition pt_flock :: "'k libc \<Rightarrow> ('b, 'r) req_reply \<Rightarrow> Flock \<Rightarrow> ('k pt_state, 'r) act" where
  "pt_flock L reply op =
     act_bind (pt_file (Flock_fh op)) (\<lambda>file.
     act_bind (on_host (nix_flock L file (FlockOp_into_raw (Flock_op op)))) (\<lambda>_.
     act_result (reply Reply_Unit)))"

definition pt_fallocate :: "'k libc \<Rightarrow> ('b, 'r) req_reply \<Rightarrow> Fallocate \<Rightarrow> ('k pt_state, 'r) act" where
  "pt_fallocate L reply op =
     (if Fallocate_mode op \<noteq> 0 then act_err EOPNOTSUPP
      else
        act_bind (pt_file (Fallocate_fh op)) (\<lambda>file.
        act_bind (on_host (nix_posix_fallocate L file (Fallocate_offset op) (Fallocate_length op))) (\<lambda>_.
        act_result (reply Reply_Unit))))"

definition pt_release :: "'k libc \<Rightarrow> ('b, 'r) req_reply \<Rightarrow> Release \<Rightarrow> ('k pt_state, 'r) act" where
  "pt_release L reply op =
     act_bind (act_get (\<lambda>s. HandlePool_remove (opened_files (fst s)) (Release_fh op))) (\<lambda>v.
     act_bind (act_expect v) (\<lambda>(file, files).
     act_bind (act_put (apfst (\<lambda>self. self\<lparr> opened_files := files \<rparr>))) (\<lambda>_.
     act_finally (act_result (reply Reply_Unit)) (drop_fd L file))))"

section \<open>Extended attributes and statistics\<close>

definition pt_plain_node :: "NodeID \<Rightarrow> ('k pt_state, pt_INode) act" where
  "pt_plain_node ino =
     act_bind (pt_node ino) (\<lambda>inode. if pn_is_symlink inode then act_err EOPNOTSUPP else act_ok inode)"

definition resize_bytes :: "nat \<Rightarrow> bytes \<Rightarrow> bytes" where
  "resize_bytes n bs = take n bs @ replicate (n - length bs) 0"

definition pt_getxattr :: "'k libc \<Rightarrow> ('b, 'r) req_reply \<Rightarrow> Getxattr \<Rightarrow> ('k pt_state, 'r) act" where
  "pt_getxattr L reply op =
     act_bind (pt_plain_node (Getxattr_ino op)) (\<lambda>inode.
     if Getxattr_size op = 0 then
       act_bind (on_host (nix_getxattr L (FileDesc_procname (pn_fd inode)) (Getxattr_name op) None)) (\<lambda>(n, _).
       act_result (reply (Reply_XattrOut (of_nat n))))
     else
       act_bind (on_host (nix_getxattr L (FileDesc_procname (pn_fd inode)) (Getxattr_name op)
         (Some (replicate (unat (Getxattr_size op)) 0)))) (\<lambda>(n, buf).
       act_result (reply (Reply_Raw (resize_bytes n buf)))))"

definition pt_listxattr :: "'k libc \<Rightarrow> ('b, 'r) req_reply \<Rightarrow> Listxattr \<Rightarrow> ('k pt_state, 'r) act" where
  "pt_listxattr L reply op =
     act_bind (pt_plain_node (Listxattr_ino op)) (\<lambda>inode.
     if Listxattr_size op = 0 then
       act_bind (on_host (nix_listxattr L (FileDesc_procname (pn_fd inode)) None)) (\<lambda>(n, _).
       act_result (reply (Reply_XattrOut (of_nat n))))
     else
       act_bind (on_host (nix_listxattr L (FileDesc_procname (pn_fd inode))
         (Some (replicate (unat (Listxattr_size op)) 0)))) (\<lambda>(n, buf).
       act_result (reply (Reply_Raw (resize_bytes n buf)))))"

definition pt_setxattr :: "'k libc \<Rightarrow> ('b, 'r) req_reply \<Rightarrow> Setxattr \<Rightarrow> ('k pt_state, 'r) act" where
  "pt_setxattr L reply op =
     act_bind (pt_plain_node (Setxattr_ino op)) (\<lambda>inode.
     act_bind (on_host (nix_setxattr L (FileDesc_procname (pn_fd inode)) (Setxattr_name op) (Setxattr_value op)
       (Setxattr_flags op))) (\<lambda>_.
     act_result (reply Reply_Unit)))"

definition pt_removexattr :: "'k libc \<Rightarrow> ('b, 'r) req_reply \<Rightarrow> Removexattr \<Rightarrow> ('k pt_state, 'r) act" where
  "pt_removexattr L reply op =
     act_bind (pt_plain_node (Removexattr_ino op)) (\<lambda>inode.
     act_bind (on_host (nix_removexattr L (FileDesc_procname (pn_fd inode)) (Removexattr_name op))) (\<lambda>_.
     act_result (reply Reply_Unit)))"

definition pt_statfs :: "'k libc \<Rightarrow> ('b, 'r) req_reply \<Rightarrow> Statfs_op \<Rightarrow> ('k pt_state, 'r) act" where
  "pt_statfs L reply op =
     act_bind (pt_node (Statfs_op_ino op)) (\<lambda>inode.
     act_bind (on_host (nix_fstatvfs L (pn_fd inode))) (\<lambda>st.
     act_result (reply (Reply_StatfsOut (Statfs_try_from_statvfs st)))))"

end
