(* ===== verification/Passthrough_Inv.thy ===== *)
theory Passthrough_Inv
  imports Passthrough Runs
begin

text \<open>
  What holds of the passthrough filesystem in every state it can reach: nodes and files of the host
  correspond, and every descriptor that is open belongs to one node or handle.
\<close>

section \<open>Steps\<close>

type_synonym 'r pt_event = "Operation \<times> (io_error, 'r option) result"

text \<open>
  A request, with its outcome. The key of a new handle is one that is not in use. A request that panics
  or fails leaves the state as the handler has changed it.
\<close>

inductive pt_step ::
    "extern \<Rightarrow> 'k libc \<Rightarrow> 'b ReaddirOut \<Rightarrow> asking \<Rightarrow> (bytes \<Rightarrow> bytes list) \<Rightarrow> ('b, 'r) req_reply \<Rightarrow>
      'k pt_state \<Rightarrow> 'r pt_event \<Rightarrow> 'k pt_state \<Rightarrow> bool"
  for X L R ask pieces reply where
  pt_step_lookup: "answered (pt_lookup X L reply op) s = Some (r, s') \<Longrightarrow> pt_step X L R ask pieces reply s (Lookup op, r) s'"
| pt_step_forget: "act_bind (pt_forget L (Forgets_deref forgets)) (\<lambda>_. act_ok None) s = Some (r, s') \<Longrightarrow>
    pt_step X L R ask pieces reply s (Forget_op forgets, r) s'"
| pt_step_getattr: "answered (pt_getattr X L reply op) s = Some (r, s') \<Longrightarrow> pt_step X L R ask pieces reply s (Getattr op, r) s'"
| pt_step_setattr: "answered (pt_setattr X L reply op) s = Some (r, s') \<Longrightarrow> pt_step X L R ask pieces reply s (Setattr op, r) s'"
| pt_step_readlink: "answered (pt_readlink L reply op) s = Some (r, s') \<Longrightarrow> pt_step X L R ask pieces reply s (Readlink op, r) s'"
| pt_step_link: "answered (pt_link X L reply op) s = Some (r, s') \<Longrightarrow> pt_step X L R ask pieces reply s (Link op, r) s'"
| pt_step_mknod: "answered (pt_mknod X L reply op) s = Some (r, s') \<Longrightarrow> pt_step X L R ask pieces reply s (Mknod op, r) s'"
| pt_step_mkdir: "answered (pt_mkdir X L reply op) s = Some (r, s') \<Longrightarrow> pt_step X L R ask pieces reply s (Mkdir op, r) s'"
| pt_step_symlink: "answered (pt_symlink X L reply op) s = Some (r, s') \<Longrightarrow> pt_step X L R ask pieces reply s (Symlink op, r) s'"
| pt_step_unlink: "answered (pt_unlink L reply op) s = Some (r, s') \<Longrightarrow> pt_step X L R ask pieces reply s (Unlink op, r) s'"
| pt_step_rmdir: "answered (pt_rmdir L reply op) s = Some (r, s') \<Longrightarrow> pt_step X L R ask pieces reply s (Rmdir op, r) s'"
| pt_step_rename: "answered (pt_rename L reply op) s = Some (r, s') \<Longrightarrow> pt_step X L R ask pieces reply s (Rename op, r) s'"
| pt_step_opendir: "answered (pt_opendir key L reply op) s = Some (r, s') \<Longrightarrow>
    Mapping.lookup (opened_dirs (fst s)) key = None \<Longrightarrow> pt_step X L R ask pieces reply s (Opendir op, r) s'"
| pt_step_readdir: "answered (pt_readdir L R reply op) s = Some (r, s') \<Longrightarrow> pt_step X L R ask pieces reply s (Readdir op, r) s'"
| pt_step_fsyncdir: "answered (pt_fsyncdir L reply op) s = Some (r, s') \<Longrightarrow> pt_step X L R ask pieces reply s (Fsyncdir op, r) s'"
| pt_step_releasedir: "answered (pt_releasedir L reply op) s = Some (r, s') \<Longrightarrow> pt_step X L R ask pieces reply s (Releasedir op, r) s'"
| pt_step_open: "answered (pt_open key X L reply op) s = Some (r, s') \<Longrightarrow>
    Mapping.lookup (opened_files (fst s)) key = None \<Longrightarrow> pt_step X L R ask pieces reply s (Open op, r) s'"
| pt_step_read: "answered (pt_read L ask reply op) s = Some (r, s') \<Longrightarrow> pt_step X L R ask pieces reply s (Read op, r) s'"
| pt_step_write: "answered (pt_write L pieces data reply op) s = Some (r, s') \<Longrightarrow> pt_step X L R ask pieces reply s (Write op, r) s'"
| pt_step_flush: "answered (pt_flush L reply op) s = Some (r, s') \<Longrightarrow> pt_step X L R ask pieces reply s (Flush op, r) s'"
| pt_step_fsync: "answered (pt_fsync L reply op) s = Some (r, s') \<Longrightarrow> pt_step X L R ask pieces reply s (Fsync op, r) s'"
| pt_step_flock: "answered (pt_flock L reply op) s = Some (r, s') \<Longrightarrow> pt_step X L R ask pieces reply s (Flock op, r) s'"
| pt_step_fallocate: "answered (pt_fallocate L reply op) s = Some (r, s') \<Longrightarrow> pt_step X L R ask pieces reply s (Fallocate op, r) s'"
| pt_step_release: "answered (pt_release L reply op) s = Some (r, s') \<Longrightarrow> pt_step X L R ask pieces reply s (Release op, r) s'"
| pt_step_getxattr: "answered (pt_getxattr L reply op) s = Some (r, s') \<Longrightarrow> pt_step X L R ask pieces reply s (Getxattr op, r) s'"
| pt_step_listxattr: "answered (pt_listxattr L reply op) s = Some (r, s') \<Longrightarrow> pt_step X L R ask pieces reply s (Listxattr op, r) s'"
| pt_step_setxattr: "answered (pt_setxattr L reply op) s = Some (r, s') \<Longrightarrow> pt_step X L R ask pieces reply s (Setxattr op, r) s'"
| pt_step_removexattr: "answered (pt_removexattr L reply op) s = Some (r, s') \<Longrightarrow> pt_step X L R ask pieces reply s (Removexattr op, r) s'"
| pt_step_statfs: "answered (pt_statfs L reply op) s = Some (r, s') \<Longrightarrow> pt_step X L R ask pieces reply s (Statfs op, r) s'"

section \<open>Owners of descriptors\<close>

datatype owner = OwnNode NodeID | OwnFile nat | OwnDir nat

fun owned :: "Passthrough \<Rightarrow> owner \<Rightarrow> fd option" where
  "owned self (OwnNode ino) = map_option pn_fd (Mapping.lookup (pt_map (pt_inodes self)) ino)"
| "owned self (OwnFile key) = Mapping.lookup (opened_files self) key"
| "owned self (OwnDir key) = map_option rd_fd (Mapping.lookup (opened_dirs self) key)"

text \<open>\<open>base\<close> are the descriptors that are open for other reasons.\<close>

definition fds_inv :: "fd set \<Rightarrow> fd set \<Rightarrow> ('o \<Rightarrow> fd option) \<Rightarrow> bool" where
  "fds_inv base fds m \<longleftrightarrow> fds = base \<union> ran m \<and> base \<inter> ran m = {} \<and> inj_on m (dom m)"

lemma fds_inv_add:
  assumes inv: "fds_inv base fds m" and new: "fd \<notin> fds" and x: "m x = None"
  shows "fds_inv base (insert fd fds) (m(x \<mapsto> fd))"
proof -
  have ran: "ran (m(x \<mapsto> fd)) = insert fd (ran m)" using x by (rule ran_map_upd)
  have "m y \<noteq> Some fd" for y using inv new by (auto simp: fds_inv_def ran_def)
  with inv have "inj_on (m(x \<mapsto> fd)) (dom (m(x \<mapsto> fd)))" by (auto simp: fds_inv_def inj_on_def)
  with inv new show ?thesis by (auto simp: fds_inv_def ran)
qed

lemma fds_inv_del:
  assumes inv: "fds_inv base fds m" and x: "m x = Some fd"
  shows "fds_inv base (fds - {fd}) (m(x := None))"
proof -
  have inj: "y = x" if "m y = Some fd" for y
    using inv x that unfolding fds_inv_def by (metis domI inj_onD)
  have ran: "ran (m(x := None)) = ran m - {fd}"
    using x by (auto simp: ran_def dest: inj) (metis option.inject)
  have "fd \<in> ran m" using x by (auto simp: ran_def)
  moreover have "inj_on (m(x := None)) (dom (m(x := None)))"
    using inv by (simp add: fds_inv_def inj_on_def)
  ultimately show ?thesis using inv by (auto simp: fds_inv_def ran)
qed

section \<open>The invariant\<close>

definition pt_node_ok :: "nat \<Rightarrow> pt_INodeTable \<Rightarrow> NodeID \<Rightarrow> pt_INode \<Rightarrow> bool" where
  "pt_node_ok n t ino inode \<longleftrightarrow>
     pn_ino inode = ino \<and> Mapping.lookup (src_to_ino t) (pn_src_id inode) = Some ino \<and>
     unat (pn_refcount inode) \<le> 2 ^ 63 + n"

definition pt_table_inv :: "nat \<Rightarrow> pt_INodeTable \<Rightarrow> bool" where
  "pt_table_inv n t \<longleftrightarrow>
     (\<forall>ino inode. Mapping.lookup (pt_map t) ino = Some inode \<longrightarrow> pt_node_ok n t ino inode) \<and>
     (\<forall>src ino. Mapping.lookup (src_to_ino t) src = Some ino \<longrightarrow>
        NodeID_into_raw ino < pt_next_ino t \<and>
        (\<forall>inode. Mapping.lookup (pt_map t) ino = Some inode \<longrightarrow> pn_src_id inode = src)) \<and>
     0 < pt_next_ino t \<and> unat (pt_next_ino t) \<le> n + 2"

definition dirs_inv :: "'k fd_view \<Rightarrow> 'k pt_state \<Rightarrow> bool" where
  "dirs_inv V s \<longleftrightarrow>
     (\<forall>key dir. Mapping.lookup (opened_dirs (fst s)) key = Some dir \<longrightarrow>
        snd (V (snd s)) (rd_dir dir) = Some (rd_fd dir))"

definition pt_inv :: "fd set \<Rightarrow> 'k fd_view \<Rightarrow> nat \<Rightarrow> 'k pt_state \<Rightarrow> bool" where
  "pt_inv base V n s \<longleftrightarrow>
     pt_table_inv n (pt_inodes (fst s)) \<and> fds_inv base (fst (V (snd s))) (owned (fst s)) \<and> dirs_inv V s"

lemma pt_table_inv_mono: "pt_table_inv n t \<Longrightarrow> n \<le> n' \<Longrightarrow> pt_table_inv n' t"
  by (force simp: pt_table_inv_def pt_node_ok_def)

lemma pt_inv_Suc: "pt_inv base V n s \<Longrightarrow> pt_inv base V (Suc n) s"
  unfolding pt_inv_def using pt_table_inv_mono [of n _ "Suc n"] by simp

section \<open>Handlers that change neither the filesystem nor the descriptors\<close>

definition pt_quiet :: "'k fd_view \<Rightarrow> 'k pt_state \<Rightarrow> 'k pt_state \<Rightarrow> bool" where
  "pt_quiet V s s' \<longleftrightarrow> fst s' = fst s \<and> V (snd s') = V (snd s)"

interpretation pt_quiet: preorder_rel "pt_quiet V" for V
  by unfold_locales (simp_all add: pt_quiet_def)

lemma pt_quiet_on_host [keeps]: "act_rel (same_fds V) m \<Longrightarrow> act_rel (pt_quiet V) (on_host m)"
  by (auto intro!: act_relI simp: handler pt_quiet_def same_fds_def dest: act_relD)

lemmas pt_quiet_rules [keeps] =
  pt_quiet.rel_result pt_quiet.rel_get pt_quiet.rel_errno pt_quiet.rel_expect pt_quiet.rel_bind

lemma pt_quiet_access [keeps]:
  "act_rel (pt_quiet V) (pt_node ino)" "act_rel (pt_quiet V) (pt_file fh)" "act_rel (pt_quiet V) (pt_dir fh)"
  "act_rel (pt_quiet V) (pt_plain_node ino)" "act_rel (pt_quiet V) (entry_out X ino stat)"
  unfolding pt_node_def pt_file_def pt_dir_def pt_plain_node_def entry_out_def by (intro keeps)+

lemma push_stream_same_fds:
  assumes "libc_fds L V"
  shows "act_rel (same_fds V) (push_stream L R dir out)"
proof -
  have "same_fds V k (snd y)" if "push_stream L R dir out k = Some y" for k y
    using that assms
  proof (induction rule: push_stream.raw_induct [rotated, consumes 1, case_names step])
    case (step self L R dir out k y)
    have "same_fds V k k'" if "ReadDir_next L dir k = Some (r, k')" for r k'
      using act_relD [OF ReadDir_next_same_fds [OF \<open>libc_fds L V\<close>] that] .
    with step show ?case
      by (cases y)
        (auto split: prod.splits result.splits if_splits option.splits intro: same_fds.rel_trans)
  qed
  then show ?thesis by (fastforce intro: act_relI)
qed

lemma pt_quiet_handlers:
  assumes "libc_fds L V"
  shows "act_rel (pt_quiet V) (pt_getattr X L reply op1)" "act_rel (pt_quiet V) (pt_setattr X L reply op2)"
    "act_rel (pt_quiet V) (pt_readlink L reply op3)" "act_rel (pt_quiet V) (pt_unlink L reply op4)"
    "act_rel (pt_quiet V) (pt_rmdir L reply op5)" "act_rel (pt_quiet V) (pt_rename L reply op6)"
    "act_rel (pt_quiet V) (pt_fsyncdir L reply op7)" "act_rel (pt_quiet V) (pt_read L ask reply op8)"
    "act_rel (pt_quiet V) (pt_write L pieces data reply op9)" "act_rel (pt_quiet V) (pt_flush L reply op10)"
    "act_rel (pt_quiet V) (pt_fsync L reply op11)" "act_rel (pt_quiet V) (pt_flock L reply op12)"
    "act_rel (pt_quiet V) (pt_fallocate L reply op13)" "act_rel (pt_quiet V) (pt_getxattr L reply op14)"
    "act_rel (pt_quiet V) (pt_listxattr L reply op15)" "act_rel (pt_quiet V) (pt_setxattr L reply op16)"
    "act_rel (pt_quiet V) (pt_removexattr L reply op17)" "act_rel (pt_quiet V) (pt_statfs L reply op18)"
  unfolding pt_getattr_def pt_setattr_def pt_readlink_def pt_unlink_def pt_rmdir_def pt_rename_def
    pt_fsyncdir_def pt_read_def pt_write_def pt_flush_def pt_fsync_def pt_flock_def pt_fallocate_def
    pt_getxattr_def pt_listxattr_def pt_setxattr_def pt_removexattr_def pt_statfs_def pt_reply_attr_def
    set_mode_def set_owner_def set_size_def set_times_def Let_def
  by (intro keeps nix_keeps [OF assms])+

lemma answered_quiet: "act_rel (pt_quiet V) m \<Longrightarrow> act_rel (pt_quiet V) (answered m)"
  unfolding answered_def by (intro keeps)

lemma pt_inv_quiet:
  assumes "act_rel (pt_quiet V) m" and "answered m s = Some (r, s')" and "pt_inv base V n s"
  shows "pt_inv base V (Suc n) s'"
proof -
  have "fst s' = fst s" "V (snd s') = V (snd s)"
    using act_relD [OF answered_quiet [OF assms(1)] assms(2)] by (simp_all add: pt_quiet_def)
  with pt_inv_Suc [OF assms(3)] show ?thesis by (simp add: pt_inv_def dirs_inv_def)
qed

section \<open>Looking up\<close>

lemma pt_node_run [simp]:
  "INodeTable_get (pt_inodes (fst s)) ino = Some inode \<Longrightarrow> act_bind (pt_node ino) f s = f inode s"
  "INodeTable_get (pt_inodes (fst s)) ino = None \<Longrightarrow> act_bind (pt_node ino) f s = Some (Err (OsError ENOENT), s)"
  by (simp_all add: pt_node_def act_bind_assoc act_result_def)

lemma pt_node_eq [handler]:
  "pt_node ino s = Some (r, s') \<longleftrightarrow> s' = s \<and>
     (case INodeTable_get (pt_inodes (fst s)) ino of None \<Rightarrow> r = Err (OsError ENOENT) | Some inode \<Rightarrow> r = Ok inode)"
  by (auto simp: pt_node_def handler split: option.splits)

text \<open>What \<open>do_lookup\<close> does: nothing, one more reference to a node, or a new node.\<close>

definition node_found :: "Passthrough \<Rightarrow> NodeID \<Rightarrow> Passthrough \<Rightarrow> bool" where
  "node_found self ino self' \<longleftrightarrow> (\<exists>inode. Mapping.lookup (pt_map (pt_inodes self)) ino = Some inode \<and>
     self' = put_node ino (inode\<lparr> pn_refcount := pn_refcount inode + 1 \<rparr>) self)"

definition node_new :: "Passthrough \<Rightarrow> NodeID \<Rightarrow> fd \<Rightarrow> Passthrough \<Rightarrow> bool" where
  "node_new self ino fd self' \<longleftrightarrow> (\<exists>inode. NodeID_into_raw ino = pt_next_ino (pt_inodes self) \<and>
     get_src (pt_inodes self) (pn_src_id inode) = None \<and> pn_ino inode = ino \<and> pn_fd inode = fd \<and>
     pn_refcount inode = 1 \<and>
     self' = self\<lparr> pt_inodes :=
       \<lparr> pt_map = Mapping.update ino inode (pt_map (pt_inodes self)),
         src_to_ino = Mapping.update (pn_src_id inode) ino (src_to_ino (pt_inodes self)),
         pt_next_ino = pt_next_ino (pt_inodes self) + 1 \<rparr> \<rparr>)"

lemma add_ref_eq:
  "add_ref X ino inode s = Some (r, s') \<longleftrightarrow>
     (add_assign X (pn_refcount inode) 1 = None \<and> r = Panic \<and> s' = s) \<or>
     (add_assign X (pn_refcount inode) 1 \<noteq> None \<and> r = Ok () \<and>
       s' = (put_node ino (inode\<lparr> pn_refcount := pn_refcount inode + 1 \<rparr>) (fst s), snd s))"
  by (cases s) (auto simp: add_ref_def handler dest: add_assign_SomeD)

lemma entry_out_eq:
  "entry_out X ino stat s = Some (r, s') \<Longrightarrow> s' = s \<and> (\<forall>out. r = Ok out \<longrightarrow> EntryOut_ino out = Some ino)"
  by (auto simp: entry_out_def handler)

lemma pt_table_invD:
  assumes "pt_table_inv n t"
  shows "Mapping.lookup (pt_map t) ino = Some inode \<Longrightarrow> pt_node_ok n t ino inode"
    "Mapping.lookup (src_to_ino t) src = Some ino \<Longrightarrow> NodeID_into_raw ino < pt_next_ino t"
    "Mapping.lookup (src_to_ino t) src = Some ino \<Longrightarrow> Mapping.lookup (pt_map t) ino = Some inode \<Longrightarrow>
      pn_src_id inode = src"
    "0 < pt_next_ino t" "unat (pt_next_ino t) \<le> n + 2"
  using assms unfolding pt_table_inv_def by blast+

lemma pt_table_invI:
  assumes "\<And>ino inode. Mapping.lookup (pt_map t) ino = Some inode \<Longrightarrow> pt_node_ok n t ino inode"
    and "\<And>src ino. Mapping.lookup (src_to_ino t) src = Some ino \<Longrightarrow> NodeID_into_raw ino < pt_next_ino t"
    and "\<And>src ino inode. Mapping.lookup (src_to_ino t) src = Some ino \<Longrightarrow>
      Mapping.lookup (pt_map t) ino = Some inode \<Longrightarrow> pn_src_id inode = src"
    and "0 < pt_next_ino t" and "unat (pt_next_ino t) \<le> n + 2"
  shows "pt_table_inv n t"
  unfolding pt_table_inv_def using assms by blast

lemma get_src_Some:
  assumes "pt_table_inv n t"
  shows "get_src t src = Some (ino, inode) \<longleftrightarrow> Mapping.lookup (pt_map t) ino = Some inode \<and> pn_src_id inode = src"
  using pt_table_invD(1) [OF assms, of ino inode] pt_table_invD(3) [OF assms, of src ino inode]
  by (auto simp: get_src_def pt_node_ok_def split: option.splits)

text \<open>\<open>fd\<close> has been opened; it becomes that of a new node, or is closed again.\<close>

lemma lookup_src_cases:
  assumes "lookup_src X L parent fd stat (self, k1) = Some (r, (self', k'))"
    and inv: "pt_table_inv n (pt_inodes self)" and n: "n < 2 ^ 62"
  obtains (found) ino where "node_found self ino self'" "k' = FileDesc_drop L fd k1"
      "\<And>out. r = Ok out \<Longrightarrow> EntryOut_ino out = Some ino"
  | (new) ino where "node_new self ino fd self'" "k' = k1" "\<And>out. r = Ok out \<Longrightarrow> EntryOut_ino out = Some ino"
proof -
  let ?src = "(st_ino stat, st_dev stat)"
  show ?thesis
  proof (cases "get_src (pt_inodes self) ?src")
    case None
    obtain ino where ino: "pt_vacant_entry (pt_inodes self) = Some ino"
      "NodeID_into_raw ino = pt_next_ino (pt_inodes self)"
      using pt_table_invD(4) [OF inv]
      by (cases "NodeID_from_raw (pt_next_ino (pt_inodes self))")
        (auto simp: pt_vacant_entry_def NodeID_from_raw_None NodeID_from_raw_Some)
    let ?inode = "\<lparr> pn_ino = ino, pn_src_id = ?src, pn_is_symlink = (st_mode stat AND S_IFMT = S_IFLNK),
      pn_fd = fd, pn_refcount = 1 \<rparr>"
    let ?inodes = "\<lparr> pt_map = Mapping.update ino ?inode (pt_map (pt_inodes self)),
      src_to_ino = Mapping.update ?src ino (src_to_ino (pt_inodes self)),
      pt_next_ino = pt_next_ino (pt_inodes self) + 1 \<rparr>"
    have "add_assign X (pt_next_ino (pt_inodes self)) 1 = Some (pt_next_ino (pt_inodes self) + 1)"
      using pt_table_invD(5) [OF inv] n by (simp add: add_assign_Some)
    then have insert: "insert_node X ino ?inode (self, k1) = Some (Ok (), (self\<lparr> pt_inodes := ?inodes \<rparr>, k1))"
      by (simp add: insert_node_def VacantEntry_insert_def)
    have "entry_out X ino stat (self\<lparr> pt_inodes := ?inodes \<rparr>, k1) = Some (r, (self', k'))"
      using assms(1) ino(1) None by (simp add: lookup_src_def Let_def insert act_bind_def [of "insert_node X ino ?inode"])
    moreover have "node_new self ino fd (self\<lparr> pt_inodes := ?inodes \<rparr>)"
      unfolding node_new_def using None ino(2) by (intro exI [of _ ?inode]) simp
    ultimately show ?thesis using entry_out_eq [of X ino stat] new [of ino] by blast
  next
    case (Some x)
    then obtain ino inode where x: "get_src (pt_inodes self) ?src = Some (ino, inode)" by (cases x) auto
    then have ino: "Mapping.lookup (pt_map (pt_inodes self)) ino = Some inode" by (simp add: get_src_Some [OF inv])
    with pt_table_invD(1) [OF inv ino] n
    have ok: "add_assign X (pn_refcount inode) 1 \<noteq> None" "pn_ino inode = ino"
      by (simp_all add: pt_node_ok_def add_assign_Some)
    let ?self = "put_node ino (inode\<lparr> pn_refcount := pn_refcount inode + 1 \<rparr>) self"
    from ok have "add_ref X ino inode (self, k1) = Some (Ok (), (?self, k1))" by (simp add: add_ref_eq)
    with assms(1) x ok(2)
    have "act_finally (entry_out X ino stat) (drop_fd L fd) (?self, k1) = Some (r, (self', k'))"
      by (simp add: lookup_src_def Let_def act_finally_def act_bind_def [of "add_ref X ino inode"] act_hang_def split: if_splits)
    then obtain k2 where "entry_out X ino stat (?self, k1) = Some (r, (self', k2))" "k' = FileDesc_drop L fd k2"
      by (auto simp: act_finally_eq drop_fd_def)
    moreover have "node_found self ino ?self" using ino by (auto simp: node_found_def)
    ultimately show ?thesis using entry_out_eq [of X ino stat] found [of ino] by blast
  qed
qed

text \<open>The descriptor of a file that is opened, but cannot be examined, is closed again.\<close>

lemma open_stat_cases:
  assumes "act_bind (on_host (FileDesc_openat L dir name flags)) (\<lambda>fd.
      act_bind (act_on_fail (on_host (FileDesc_fstatat L fd [] AT_SYMLINK_NOFOLLOW)) (drop_fd L fd)) (g fd))
      (self, k) = Some (r, s')"
    and L: "libc_fds L V"
  shows "(fst s' = self \<and> V (snd s') = V k \<and> (\<forall>x. r \<noteq> Ok x)) \<or>
    (\<exists>fd stat k1. fd \<notin> fst (V k) \<and> V k1 = (insert fd (fst (V k)), snd (V k)) \<and> g fd stat (self, k1) = Some (r, s'))"
proof -
  let ?stat = "\<lambda>fd. FileDesc_fstatat L fd [] AT_SYMLINK_NOFOLLOW"
  note stat = act_relD [OF nix_same_fds(1) [OF L], unfolded same_fds_def]
  from assms(1) obtain q k1 where op: "FileDesc_openat L dir name flags k = Some (q, k1)"
    by (auto simp: handler)
  show ?thesis
  proof (cases q)
    case (Ok fd)
    with FileDesc_openat_fds [OF L op] have fd: "fd \<notin> fst (V k)" "V k1 = (insert fd (fst (V k)), snd (V k))" by auto
    from assms(1) op Ok obtain q' k2 where st: "?stat fd k1 = Some (q', k2)"
      by (auto simp: act_bind_def on_host_def act_on_fail_def split: option.splits)
    have drop: "V (FileDesc_drop L fd k2) = V k"
      using fd stat [OF st] by (simp add: FileDesc_drop_def libc_fds_effects(4) [OF L])
    show ?thesis
    proof (cases q')
      case Ok': (Ok x)
      with assms(1) op st Ok have "g fd x (self, k2) = Some (r, s')"
        by (simp add: act_bind_def on_host_def act_on_fail_def)
      with fd stat [OF st] show ?thesis by metis
    qed (use assms(1) op st Ok drop in \<open>auto simp: act_bind_def on_host_def act_on_fail_def drop_fd_def\<close>)
  qed (use assms(1) op FileDesc_openat_fds [OF L op] in \<open>auto simp: act_bind_def on_host_def\<close>)
qed

lemma do_lookup_cases:
  assumes "do_lookup X L parent name (self, k) = Some (r, (self', k'))" and L: "libc_fds L V"
    and inv: "pt_table_inv n (pt_inodes self)" and n: "n < 2 ^ 62"
  obtains (fail) "self' = self" "V k' = V k" "\<And>out. r \<noteq> Ok out"
  | (found) ino where "node_found self ino self'" "V k' = V k" "\<And>out. r = Ok out \<Longrightarrow> EntryOut_ino out = Some ino"
  | (new) ino fd where "node_new self ino fd self'" "fd \<notin> fst (V k)"
      "V k' = (insert fd (fst (V k)), snd (V k))" "\<And>out. r = Ok out \<Longrightarrow> EntryOut_ino out = Some ino"
proof -
  have close: "V (FileDesc_drop L fd k2) = V k"
    if "V k2 = (insert fd (fst (V k)), snd (V k))" "fd \<notin> fst (V k)" for fd k2
    using that by (simp add: FileDesc_drop_def libc_fds_effects(4) [OF L])
  consider (fail) "self' = self" "V k' = V k" "\<And>out. r \<noteq> Ok out"
    | (src) fd stat k1 where "lookup_src X L parent fd stat (self, k1) = Some (r, (self', k'))"
      "fd \<notin> fst (V k)" "V k1 = (insert fd (fst (V k)), snd (V k))"
  proof (cases "INodeTable_get (pt_inodes self) parent")
    case None
    with assms(1) show ?thesis by (intro that(1)) (auto simp: do_lookup_def pt_node_def handler)
  next
    case (Some pnode)
    with assms(1) have "act_bind (on_host (FileDesc_openat L (pn_fd pnode) name (O_PATH OR O_NOFOLLOW))) (\<lambda>fd.
        act_bind (act_on_fail (on_host (FileDesc_fstatat L fd [] AT_SYMLINK_NOFOLLOW)) (drop_fd L fd))
          (lookup_src X L parent fd)) (self, k) = Some (r, (self', k'))"
      by (simp add: do_lookup_def)
    from open_stat_cases [OF this L] that show ?thesis by auto
  qed
  then show ?thesis
  proof cases
    case (src fd st k1)
    from src(1) inv n show ?thesis
    proof (cases rule: lookup_src_cases)
      case f: (found ino)
      with close [OF src(3,2)] show ?thesis using found by metis
    next
      case n: (new ino)
      with src(2,3) show ?thesis using new by metis
    qed
  qed (rule fail)
qed

section \<open>Changes of the table\<close>

lemma pt_table_inv_touch:
  assumes inv: "pt_table_inv n t" and ino: "Mapping.lookup (pt_map t) ino = Some inode"
    and "unat c \<le> 2 ^ 63 + n'" and "n \<le> n'"
  shows "pt_table_inv n' (t\<lparr> pt_map := Mapping.update ino (inode\<lparr> pn_refcount := c \<rparr>) (pt_map t) \<rparr>)"
proof (rule pt_table_invI)
  fix i inode'
  assume "Mapping.lookup (pt_map (t\<lparr> pt_map := Mapping.update ino (inode\<lparr> pn_refcount := c \<rparr>) (pt_map t) \<rparr>)) i = Some inode'"
  then show "pt_node_ok n' (t\<lparr> pt_map := Mapping.update ino (inode\<lparr> pn_refcount := c \<rparr>) (pt_map t) \<rparr>) i inode'"
    using pt_table_invD(1) [OF inv, of i inode'] pt_table_invD(1) [OF inv ino] assms(3,4)
    by (auto simp: pt_node_ok_def split: if_splits)
qed (use pt_table_invD [OF inv] ino assms(4) in \<open>auto split: if_splits\<close>)

lemma pt_table_inv_remove:
  "pt_table_inv n t \<Longrightarrow> pt_table_inv n (t\<lparr> pt_map := Mapping.delete ino (pt_map t) \<rparr>)"
  by (rule pt_table_invI) (auto simp: pt_node_ok_def dest: pt_table_invD split: if_splits)

lemma pt_table_inv_unused:
  assumes "pt_table_inv n t" and "NodeID_into_raw ino = pt_next_ino t"
  shows "Mapping.lookup (pt_map t) ino = None" "Mapping.lookup (src_to_ino t) src \<noteq> Some ino"
proof -
  show 1: "Mapping.lookup (src_to_ino t) src \<noteq> Some ino" for src
    using pt_table_invD(2) [OF assms(1), of src ino] assms(2) by auto
  show "Mapping.lookup (pt_map t) ino = None"
  proof (rule ccontr)
    assume "\<not> ?thesis"
    then obtain inode where "Mapping.lookup (pt_map t) ino = Some inode" by blast
    from pt_table_invD(1) [OF assms(1) this] 1 show False by (simp add: pt_node_ok_def)
  qed
qed

lemma pt_table_inv_new:
  assumes inv: "pt_table_inv n t" and n: "n < 2 ^ 62" and ino: "NodeID_into_raw ino = pt_next_ino t"
    and src: "get_src t (pn_src_id inode) = None" and inode: "pn_ino inode = ino" "pn_refcount inode = 1"
  shows "pt_table_inv (Suc n)
    \<lparr> pt_map = Mapping.update ino inode (pt_map t), src_to_ino = Mapping.update (pn_src_id inode) ino (src_to_ino t),
      pt_next_ino = pt_next_ino t + 1 \<rparr>" (is "pt_table_inv _ ?t")
proof -
  have next1: "unat (pt_next_ino t + 1) = unat (pt_next_ino t) + 1"
    using pt_table_invD(5) [OF inv] n by (intro unat_add_1) simp
  note unused = pt_table_inv_unused [OF inv ino]
  have other: "pn_src_id inode' \<noteq> pn_src_id inode" if "Mapping.lookup (pt_map t) i = Some inode'" for i inode'
    using get_src_Some [OF inv, of "pn_src_id inode" i inode'] src that by auto
  show ?thesis
  proof (rule pt_table_invI)
    fix i inode'
    assume "Mapping.lookup (pt_map ?t) i = Some inode'"
    then show "pt_node_ok (Suc n) ?t i inode'"
      using inode pt_table_invD(1) [OF inv, of i inode'] other [of i inode']
      by (auto simp: pt_node_ok_def split: if_splits)
  next
    fix src' i
    assume i: "Mapping.lookup (src_to_ino ?t) src' = Some i"
    then show "NodeID_into_raw i < pt_next_ino ?t"
      using pt_table_invD(2) [OF inv, of src' i] ino next1 by (auto simp: word_less_nat_alt split: if_splits)
    fix inode'
    assume "Mapping.lookup (pt_map ?t) i = Some inode'"
    with i unused(2) [of src'] pt_table_invD(3) [OF inv, of src' i inode'] show "pn_src_id inode' = src'"
      by (auto split: if_splits)
  qed (use next1 pt_table_invD(5) [OF inv] in \<open>simp_all add: word_less_nat_alt\<close>)
qed

lemma owned_put_node [simp]:
  "Mapping.lookup (pt_map (pt_inodes self)) ino = Some inode \<Longrightarrow>
    owned (put_node ino (inode\<lparr> pn_refcount := c \<rparr>) self) = owned self"
proof
  fix x
  assume "Mapping.lookup (pt_map (pt_inodes self)) ino = Some inode"
  then show "owned (put_node ino (inode\<lparr> pn_refcount := c \<rparr>) self) x = owned self x"
    by (cases x) (auto simp: put_node_def)
qed

lemma put_node_sel [simp]:
  "pt_inodes (put_node ino inode self) = (pt_inodes self)\<lparr> pt_map := Mapping.update ino inode (pt_map (pt_inodes self)) \<rparr>"
  "opened_dirs (put_node ino inode self) = opened_dirs self"
  "opened_files (put_node ino inode self) = opened_files self"
  by (simp_all add: put_node_def)

lemma pt_inv_touch:
  assumes inv: "pt_inv base V n (self, k)" and ino: "Mapping.lookup (pt_map (pt_inodes self)) ino = Some inode"
    and c: "unat c \<le> 2 ^ 63 + n'" and n: "n \<le> n'" and V: "V k' = V k"
  shows "pt_inv base V n' (put_node ino (inode\<lparr> pn_refcount := c \<rparr>) self, k')"
  using inv pt_table_inv_touch [OF _ ino c n] ino V by (simp add: pt_inv_def dirs_inv_def)

lemma pt_inv_found:
  assumes inv: "pt_inv base V n (self, k)" and "node_found self ino self'" and "V k' = V k" and "n < 2 ^ 62"
  shows "pt_inv base V (Suc n) (self', k')"
proof -
  from assms(2) obtain inode where ino: "Mapping.lookup (pt_map (pt_inodes self)) ino = Some inode"
    and self': "self' = put_node ino (inode\<lparr> pn_refcount := pn_refcount inode + 1 \<rparr>) self"
    by (auto simp: node_found_def)
  have "unat (pn_refcount inode) \<le> 2 ^ 63 + n"
    using pt_table_invD(1) [OF _ ino] inv by (auto simp: pt_inv_def pt_node_ok_def)
  with assms(4) have "unat (pn_refcount inode + 1) \<le> 2 ^ 63 + Suc n" by (simp add: unat_add_1)
  with pt_inv_touch [OF inv ino] assms(3) self' show ?thesis by simp
qed

lemma pt_inv_new:
  assumes inv: "pt_inv base V n (self, k)" and new: "node_new self ino fd self'" and fd: "fd \<notin> fst (V k)"
    and V: "V k' = (insert fd (fst (V k)), snd (V k))" and n: "n < 2 ^ 62"
  shows "pt_inv base V (Suc n) (self', k')"
proof -
  from new obtain inode where ino: "NodeID_into_raw ino = pt_next_ino (pt_inodes self)"
    and src: "get_src (pt_inodes self) (pn_src_id inode) = None" and inode: "pn_ino inode = ino" "pn_refcount inode = 1"
    and fd': "pn_fd inode = fd"
    and self': "self' = self\<lparr> pt_inodes :=
       \<lparr> pt_map = Mapping.update ino inode (pt_map (pt_inodes self)),
         src_to_ino = Mapping.update (pn_src_id inode) ino (src_to_ino (pt_inodes self)),
         pt_next_ino = pt_next_ino (pt_inodes self) + 1 \<rparr> \<rparr>"
    by (auto simp: node_new_def)
  from inv have t: "pt_table_inv n (pt_inodes self)" and f: "fds_inv base (fst (V k)) (owned self)" and d: "dirs_inv V (self, k)"
    by (simp_all add: pt_inv_def)
  have "owned self' = (owned self)(OwnNode ino \<mapsto> fd)"
  proof
    fix x show "owned self' x = ((owned self)(OwnNode ino \<mapsto> fd)) x" by (cases x) (auto simp: self' fd')
  qed
  moreover have "owned self (OwnNode ino) = None" using pt_table_inv_unused(1) [OF t ino] by simp
  ultimately show ?thesis
    using pt_table_inv_new [OF t n ino src inode] fds_inv_add [OF f fd] d V
    by (simp add: pt_inv_def dirs_inv_def self')
qed

text \<open>One more reference to a node, which may be new.\<close>

definition pt_entered :: "'k fd_view \<Rightarrow> 'k pt_state \<Rightarrow> NodeID \<Rightarrow> 'k pt_state \<Rightarrow> bool" where
  "pt_entered V s ino s' \<longleftrightarrow>
     (node_found (fst s) ino (fst s') \<and> V (snd s') = V (snd s)) \<or>
     (\<exists>fd. node_new (fst s) ino fd (fst s') \<and> fd \<notin> fst (V (snd s)) \<and>
        V (snd s') = (insert fd (fst (V (snd s))), snd (V (snd s))))"

lemma pt_inv_entered:
  assumes "pt_inv base V n s" and "pt_entered V s ino s'" and "n < 2 ^ 62"
  shows "pt_inv base V (Suc n) s'"
  using assms pt_inv_found [of base V n "fst s" "snd s" ino "fst s'" "snd s'"]
    pt_inv_new [of base V n "fst s" "snd s" ino _ "fst s'" "snd s'"]
  by (auto simp: pt_entered_def)

text \<open>
  A request that is answered with an entry adds a reference to the node that the entry names. One that
  fails may have done so, too.
\<close>

definition enters ::
    "'k fd_view \<Rightarrow> (EntryOut \<Rightarrow> (io_error, 'a) result) \<Rightarrow> 'k pt_state \<Rightarrow> (io_error, 'a) result \<Rightarrow> 'k pt_state \<Rightarrow> bool" where
  "enters V reply s r s' \<longleftrightarrow>
     (pt_quiet V s s' \<and> (\<forall>x. r \<noteq> Ok x)) \<or>
     (\<exists>ino. pt_entered V s ino s' \<and> (\<forall>x. r = Ok x \<longrightarrow> (\<exists>out. EntryOut_ino out = Some ino \<and> reply out = Ok x)))"

lemma enters_bind:
  assumes "act_bind m f t = Some (r, s')" and "pt_quiet V s t" and "act_rel (pt_quiet V) m"
    and "\<And>x u. pt_quiet V s u \<Longrightarrow> m t = Some (Ok x, u) \<Longrightarrow> f x u = Some (r, s') \<Longrightarrow> enters V reply s r s'"
  shows "enters V reply s r s'"
  using assms(1,4) act_relD [OF assms(3)] pt_quiet.rel_trans [OF assms(2)] unfolding act_bind_eq
  by (fastforce simp: enters_def)

lemma enters_trans: "pt_quiet V s t \<Longrightarrow> enters V reply t r s' \<Longrightarrow> enters V reply s r s'"
  by (auto simp: enters_def pt_quiet_def pt_entered_def)

lemma enters_reply:
  assumes "act_bind m (\<lambda>out. act_result (reply out)) s = Some (r, s')"
    and "\<And>q t. m s = Some (q, t) \<Longrightarrow> enters V Ok s q t"
  shows "enters V reply s r s'"
proof -
  from assms(1) obtain q where q: "m s = Some (q, s')" "r = and_then q reply"
    by (auto simp: handler result_eqs)
  from assms(2) [OF q(1)] q(2) show ?thesis
    by (cases q) (auto simp: enters_def)
qed

lemma do_lookup_enters:
  assumes "do_lookup X L parent name s = Some (r, s')" and L: "libc_fds L V"
    and t: "pt_table_inv n (pt_inodes (fst s))" and n: "n < 2 ^ 62"
  shows "enters V Ok s r s'"
proof -
  have "do_lookup X L parent name (fst s, snd s) = Some (r, (fst s', snd s'))" using assms(1) by simp
  then show ?thesis using L t n
    by (cases rule: do_lookup_cases) (auto simp: enters_def pt_quiet_def pt_entered_def)
qed

lemma pt_make_node_enters:
  assumes "pt_make_node X L parent name mode rdev link s = Some (r, s')" and L: "libc_fds L V"
    and t: "pt_table_inv n (pt_inodes (fst s))" and n: "n < 2 ^ 62"
  shows "enters V Ok s r s'"
  using assms(1) unfolding pt_make_node_def
proof (rule enters_bind)
  fix pnode s1
  assume s1: "pt_quiet V s s1"
  assume "act_bind
       (if FileMode_file_type mode = Some Directory then
          on_host (FileDesc_mkdirat L (pn_fd pnode) name (FileMode_permissions X mode))
        else if FileMode_file_type mode = Some SymbolicLink then
          act_bind (act_expect link) (\<lambda>link. on_host (FileDesc_symlinkat L (pn_fd pnode) name link))
        else
          on_host (FileDesc_mknodat L (pn_fd pnode) name (FileMode_into_raw mode)
            (case rdev of None \<Rightarrow> 0 | Some rdev \<Rightarrow> DeviceID_into_userspace_dev X rdev)))
       (\<lambda>_. do_lookup X L parent name) s1 = Some (r, s')"
  then show "enters V Ok s r s'"
  proof (rule enters_bind [OF _ s1])
    fix x s2
    assume s2: "pt_quiet V s s2" and lookup: "do_lookup X L parent name s2 = Some (r, s')"
    have "pt_table_inv n (pt_inodes (fst s2))" using s2 t by (simp add: pt_quiet_def)
    from enters_trans [OF s2 do_lookup_enters [OF lookup L this n]] show "enters V Ok s r s'" .
  qed (intro keeps nix_keeps [OF L])
qed (rule pt_quiet.rel_refl, rule keeps)

text \<open>In \<open>link\<close>, the table is as before until the reference is counted.\<close>

lemma link_source_enters:
  assumes "link_source X L reply op source parent t = Some (r, s')" and s: "pt_quiet V s t" and L: "libc_fds L V"
    and source: "Mapping.lookup (pt_map (pt_inodes (fst s))) (Link_ino op) = Some source"
    and ok: "pn_ino source = Link_ino op" "add_assign X (pn_refcount source) 1 \<noteq> None"
  shows "enters V (\<lambda>out. reply (Reply_EntryOut out)) s r s'"
  using assms(1) s unfolding link_source_def
proof (rule enters_bind, goal_cases)
  case (2 _ s1)
  from 2(3,1) show ?case
  proof (rule enters_bind, goal_cases)
    case (2 st s2)
    from 2(3,1) show ?case
    proof (rule enters_bind, goal_cases)
      case (2 out s3)
      note out = 2(2)
      from 2(3,1) show ?case
      proof (rule enters_bind, goal_cases)
        case (2 replied s4)
        have "reply (Reply_EntryOut out) = Ok replied" "EntryOut_ino out = Some (Link_ino op)"
          using 2(2) entry_out_eq [OF out] ok(1) by (simp_all add: handler)
        moreover from 2(3) ok(2) have "r = Ok replied"
          "s' = (put_node (Link_ino op) (source\<lparr> pn_refcount := pn_refcount source + 1 \<rparr>) (fst s4), snd s4)"
          by (auto simp: act_bind_eq add_ref_eq act_result_eq)
        moreover from this 2(1) source have "pt_entered V s (Link_ino op) s'"
          by (auto simp: pt_entered_def node_found_def pt_quiet_def)
        ultimately show ?case by (auto simp: enters_def)
      qed (rule keeps)
    qed (rule keeps)
  qed (intro keeps nix_keeps [OF L])
qed (intro keeps nix_keeps [OF L])

lemma pt_link_enters:
  assumes "pt_link X L reply op s = Some (r, s')" and L: "libc_fds L V"
    and t: "pt_table_inv n (pt_inodes (fst s))" and n: "n < 2 ^ 62"
  shows "enters V (\<lambda>out. reply (Reply_EntryOut out)) s r s'"
proof (cases "INodeTable_get (pt_inodes (fst s)) (Link_ino op)")
  case (Some source)
  then have source: "Mapping.lookup (pt_map (pt_inodes (fst s))) (Link_ino op) = Some source"
    by (simp add: INodeTable_get_def)
  from pt_table_invD(1) [OF t source] n
  have ok: "pn_ino source = Link_ino op" "add_assign X (pn_refcount source) 1 \<noteq> None"
    by (simp_all add: pt_node_ok_def add_assign_Some)
  have "act_bind (pt_node (Link_newparent op)) (\<lambda>parent.
     if Link_newparent op = Link_ino op then act_hang else link_source X L reply op source parent) s = Some (r, s')"
    using assms(1) Some by (simp add: pt_link_def)
  then show ?thesis
    by (rule enters_bind [OF _ pt_quiet.rel_refl])
      (auto intro: keeps link_source_enters [OF _ _ L source ok] simp: act_hang_def split: if_splits)
qed (use assms(1) in \<open>auto simp: pt_link_def enters_def pt_quiet_def\<close>)

section \<open>Handles\<close>

lemma owned_update [simp]:
  "owned (self\<lparr> opened_files := Mapping.update key fd (opened_files self) \<rparr>) = (owned self)(OwnFile key \<mapsto> fd)"
  "owned (self\<lparr> opened_files := Mapping.delete key (opened_files self) \<rparr>) = (owned self)(OwnFile key := None)"
  "owned (self\<lparr> opened_dirs := Mapping.update key dir (opened_dirs self) \<rparr>) = (owned self)(OwnDir key \<mapsto> rd_fd dir)"
  "owned (self\<lparr> opened_dirs := Mapping.delete key (opened_dirs self) \<rparr>) = (owned self)(OwnDir key := None)"
proof -
  have "owned (self\<lparr> opened_files := Mapping.update key fd (opened_files self) \<rparr>) x = ((owned self)(OwnFile key \<mapsto> fd)) x"
    "owned (self\<lparr> opened_files := Mapping.delete key (opened_files self) \<rparr>) x = ((owned self)(OwnFile key := None)) x"
    "owned (self\<lparr> opened_dirs := Mapping.update key dir (opened_dirs self) \<rparr>) x = ((owned self)(OwnDir key \<mapsto> rd_fd dir)) x"
    "owned (self\<lparr> opened_dirs := Mapping.delete key (opened_dirs self) \<rparr>) x = ((owned self)(OwnDir key := None)) x" for x
    by (cases x; simp)+
  then show "owned (self\<lparr> opened_files := Mapping.update key fd (opened_files self) \<rparr>) = (owned self)(OwnFile key \<mapsto> fd)"
    "owned (self\<lparr> opened_files := Mapping.delete key (opened_files self) \<rparr>) = (owned self)(OwnFile key := None)"
    "owned (self\<lparr> opened_dirs := Mapping.update key dir (opened_dirs self) \<rparr>) = (owned self)(OwnDir key \<mapsto> rd_fd dir)"
    "owned (self\<lparr> opened_dirs := Mapping.delete key (opened_dirs self) \<rparr>) = (owned self)(OwnDir key := None)"
    by blast+
qed

lemma pt_inv_add_file:
  assumes "pt_inv base V n (self, k)" and "Mapping.lookup (opened_files self) key = None"
    and "fd \<notin> fst (V k)" and "V k' = (insert fd (fst (V k)), snd (V k))"
  shows "pt_inv base V n (self\<lparr> opened_files := Mapping.update key fd (opened_files self) \<rparr>, k')"
  using assms fds_inv_add [of base "fst (V k)" "owned self" fd "OwnFile key"]
  by (simp add: pt_inv_def dirs_inv_def)

lemma pt_inv_del_file:
  assumes "pt_inv base V n (self, k)" and "Mapping.lookup (opened_files self) key = Some fd"
    and "V k' = (fst (V k) - {fd}, snd (V k))"
  shows "pt_inv base V n (self\<lparr> opened_files := Mapping.delete key (opened_files self) \<rparr>, k')"
  using assms fds_inv_del [of base "fst (V k)" "owned self" "OwnFile key" fd]
  by (simp add: pt_inv_def dirs_inv_def)

lemma pt_inv_add_dir:
  assumes inv: "pt_inv base V n (self, k)" and "Mapping.lookup (opened_dirs self) key = None"
    and "rd_fd dir \<notin> fst (V k)" and new: "snd (V k) (rd_dir dir) = None"
    and V: "V k' = (insert (rd_fd dir) (fst (V k)), (snd (V k))(rd_dir dir \<mapsto> rd_fd dir))"
  shows "pt_inv base V n (self\<lparr> opened_dirs := Mapping.update key dir (opened_dirs self) \<rparr>, k')"
proof -
  have "dirs_inv V (self\<lparr> opened_dirs := Mapping.update key dir (opened_dirs self) \<rparr>, k')"
    unfolding dirs_inv_def
  proof (intro allI impI)
    fix key' dir'
    assume "Mapping.lookup (opened_dirs (fst (self\<lparr> opened_dirs := Mapping.update key dir (opened_dirs self) \<rparr>, k'))) key' = Some dir'"
    moreover have "snd (V k) (rd_dir dir') = Some (rd_fd dir')" if "Mapping.lookup (opened_dirs self) key' = Some dir'"
      using inv that by (simp add: pt_inv_def dirs_inv_def)
    ultimately show "snd (V (snd (self\<lparr> opened_dirs := Mapping.update key dir (opened_dirs self) \<rparr>, k'))) (rd_dir dir') = Some (rd_fd dir')"
      using new by (auto simp: V split: if_splits)
  qed
  with assms fds_inv_add [of base "fst (V k)" "owned self" "rd_fd dir" "OwnDir key"] show ?thesis
    by (simp add: pt_inv_def)
qed

text \<open>Two handles have different streams, since these have different descriptors.\<close>

lemma pt_inv_del_dir:
  assumes inv: "pt_inv base V n (self, k)" and key: "Mapping.lookup (opened_dirs self) key = Some dir"
    and V: "V k' = (fst (V k) - {rd_fd dir}, (snd (V k))(rd_dir dir := None))"
  shows "pt_inv base V n (self\<lparr> opened_dirs := Mapping.delete key (opened_dirs self) \<rparr>, k')"
proof -
  from inv have f: "fds_inv base (fst (V k)) (owned self)" and d: "dirs_inv V (self, k)" by (simp_all add: pt_inv_def)
  have "rd_dir dir' \<noteq> rd_dir dir" if other: "Mapping.lookup (opened_dirs self) key' = Some dir'" "key' \<noteq> key" for key' dir'
  proof
    assume "rd_dir dir' = rd_dir dir"
    with d key other(1) have "rd_fd dir' = rd_fd dir" unfolding dirs_inv_def by (metis fst_conv option.inject)
    then have "owned self (OwnDir key') = owned self (OwnDir key)" using key other(1) by simp
    with f key other show False
      unfolding fds_inv_def by (auto dest!: inj_onD [where x = "OwnDir key'" and y = "OwnDir key"])
  qed
  with d have "dirs_inv V (self\<lparr> opened_dirs := Mapping.delete key (opened_dirs self) \<rparr>, k')"
    by (auto simp: dirs_inv_def V)
  with inv key fds_inv_del [OF f, of "OwnDir key" "rd_fd dir"] show ?thesis
    by (simp add: pt_inv_def V)
qed

lemma pt_inv_seek:
  assumes "pt_inv base V n (self, k)" and key: "Mapping.lookup (opened_dirs self) key = Some dir"
    and dir': "rd_fd dir' = rd_fd dir" "rd_dir dir' = rd_dir dir" and "V k' = V k"
  shows "pt_inv base V n (self\<lparr> opened_dirs := Mapping.update key dir' (opened_dirs self) \<rparr>, k')"
proof -
  have "owned (self\<lparr> opened_dirs := Mapping.update key dir' (opened_dirs self) \<rparr>) = owned self"
    using key dir' by (auto simp: fun_upd_idem_iff)
  with assms show ?thesis by (auto simp: pt_inv_def dirs_inv_def)
qed

lemma pt_forget_one_inv:
  assumes "libc_fds L V" and inv: "pt_inv base V n s"
  shows "pt_inv base V n (pt_forget_one L ino nlookup s)"
proof (cases "Mapping.lookup (pt_map (pt_inodes (fst s))) ino")
  case (Some inode)
  obtain self k where s: "s = (self, k)" by (cases s)
  note inv = inv [unfolded s] and ino = Some [unfolded s fst_conv]
  let ?c = "saturating_sub (pn_refcount inode) nlookup"
  have "unat (pn_refcount inode) \<le> 2 ^ 63 + n"
    using pt_table_invD(1) [OF _ ino, of n] inv by (simp add: pt_inv_def pt_node_ok_def)
  then have "unat ?c \<le> 2 ^ 63 + n" by (simp add: unat_saturating_sub)
  from pt_inv_touch [OF inv ino this order_refl refl]
  have touch: "pt_inv base V n (put_node ino (inode\<lparr> pn_refcount := ?c \<rparr>) self, k)" .
  let ?self = "self\<lparr> pt_inodes := pt_inodes self\<lparr> pt_map := Mapping.delete ino (pt_map (pt_inodes self)) \<rparr> \<rparr>"
  have "owned ?self = (owned self)(OwnNode ino := None)"
  proof
    fix x show "owned ?self x = ((owned self)(OwnNode ino := None)) x" by (cases x) auto
  qed
  moreover have "fds_inv base (fst (V k) - {pn_fd inode}) ((owned self)(OwnNode ino := None))"
    using inv ino by (intro fds_inv_del) (auto simp: pt_inv_def)
  ultimately have "pt_inv base V n (?self, FileDesc_drop L (pn_fd inode) k)"
    using inv pt_table_inv_remove [of n "pt_inodes self" ino] libc_fds_effects(4) [OF assms(1)]
    by (simp add: pt_inv_def dirs_inv_def FileDesc_drop_def)
  with touch show ?thesis by (simp add: s pt_forget_one_def ino Let_def)
qed (use inv in \<open>cases s, simp add: pt_forget_one_def\<close>)

lemma pt_forget_inv:
  assumes "libc_fds L V"
  shows "pt_forget L forgets s = Some (r, s') \<Longrightarrow> pt_inv base V n s \<Longrightarrow> pt_inv base V n s'"
proof (induction forgets arbitrary: s)
  case (Cons forget forgets)
  then show ?case
    using pt_forget_one_inv [OF assms Cons.prems(2), of _ "Forget_nlookup forget"]
    by (cases "Forget_ino forget :: (io_error, NodeID) result") (auto simp: act_result_eq)
qed (simp add: handler)

text \<open>What handlers of handles keep.\<close>

definition handle_ok :: "fd set \<Rightarrow> 'k fd_view \<Rightarrow> nat \<Rightarrow> 'k pt_state \<Rightarrow> 'k pt_state \<Rightarrow> bool" where
  "handle_ok base V n s s' \<longleftrightarrow> pt_inv base V n s' \<and> pt_inodes (fst s') = pt_inodes (fst s)"

lemma handle_ok_quiet: "pt_quiet V s s' \<Longrightarrow> pt_inv base V n s \<Longrightarrow> handle_ok base V n s s'"
  by (auto simp: handle_ok_def pt_inv_def pt_quiet_def dirs_inv_def)

lemma pt_open_ok:
  assumes "pt_open key X L reply op s = Some (r, s')" and L: "libc_fds L V" and inv: "pt_inv base V n s"
    and key: "Mapping.lookup (opened_files (fst s)) key = None"
  shows "handle_ok base V n s s'"
proof (cases "INodeTable_get (pt_inodes (fst s)) (Open_ino op)")
  case None
  with assms(1) inv show ?thesis by (simp add: pt_open_def handle_ok_def)
next
  case (Some inode)
  obtain self k where s: "s = (self, k)" by (cases s)
  let ?open = "File_open L (OpenOptions_into_std X (without_nofollow X (Open_options op))) (FileDesc_procname (pn_fd inode))"
  from assms(1) Some obtain q k1 where q: "?open k = Some (q, k1)"
    by (cases "?open k") (auto simp: pt_open_def s act_bind_def [of "on_host m" for m] on_host_def)
  note fds = File_open_fds [OF L q]
  show ?thesis
  proof (cases q)
    case (Ok fd)
    with assms(1) Some q have "s' = (self\<lparr> opened_files := Mapping.update key fd (opened_files self) \<rparr>, k1)"
      by (simp add: pt_open_def s act_bind_def [of "on_host m" for m] on_host_def HandlePool_insert_def act_result_def)
    with pt_inv_add_file [OF inv [unfolded s] _ _] key fds Ok show ?thesis by (simp add: handle_ok_def s)
  qed (use assms(1) Some q fds inv in
      \<open>auto simp: pt_open_def s act_bind_def [of "on_host m" for m] on_host_def intro!: handle_ok_quiet simp: pt_quiet_def\<close>)
qed

lemma pt_opendir_ok:
  assumes "pt_opendir key L reply op s = Some (r, s')" and L: "libc_fds L V" and inv: "pt_inv base V n s"
    and key: "Mapping.lookup (opened_dirs (fst s)) key = None"
  shows "handle_ok base V n s s'"
proof (cases "INodeTable_get (pt_inodes (fst s)) (Opendir_ino op)")
  case None
  with assms(1) inv show ?thesis by (simp add: pt_opendir_def handle_ok_def)
next
  case (Some inode)
  obtain self k where s: "s = (self, k)" by (cases s)
  from assms(1) Some obtain q k1 where q: "FileDesc_read_dir L (pn_fd inode) k = Some (q, k1)"
    by (cases "FileDesc_read_dir L (pn_fd inode) k")
      (auto simp: pt_opendir_def s act_bind_def [of "on_host m" for m] on_host_def)
  note fds = FileDesc_read_dir_fds [OF L q]
  show ?thesis
  proof (cases q)
    case (Ok dir)
    with assms(1) Some q have "s' = (self\<lparr> opened_dirs := Mapping.update key dir (opened_dirs self) \<rparr>, k1)"
      by (simp add: pt_opendir_def s act_bind_def [of "on_host m" for m] on_host_def HandlePool_insert_def act_result_def)
    with pt_inv_add_dir [OF inv [unfolded s]] key fds Ok show ?thesis by (simp add: handle_ok_def s)
  qed (use assms(1) Some q fds inv in
      \<open>auto simp: pt_opendir_def s act_bind_def [of "on_host m" for m] on_host_def intro!: handle_ok_quiet simp: pt_quiet_def\<close>)
qed

lemma pt_release_ok:
  assumes "pt_release L reply op s = Some (r, s')" and L: "libc_fds L V" and inv: "pt_inv base V n s"
  shows "handle_ok base V n s s'"
proof (cases "HandlePool_get (opened_files (fst s)) (Release_fh op)")
  case (Some fd)
  let ?key = "unat (FileID_into_raw (Release_fh op))"
  obtain self k where s: "s = (self, k)" by (cases s)
  have "s' = (self\<lparr> opened_files := Mapping.delete ?key (opened_files self) \<rparr>, FileDesc_drop L fd k)"
    using assms(1) Some by (simp add: pt_release_def HandlePool_remove_def s drop_fd_def)
  moreover have "Mapping.lookup (opened_files self) ?key = Some fd" using Some by (simp add: HandlePool_get_def s)
  ultimately show ?thesis
    using pt_inv_del_file [OF inv [unfolded s]] libc_fds_effects(4) [OF L]
    by (simp add: handle_ok_def s FileDesc_drop_def)
qed (use assms(1) inv in \<open>simp add: pt_release_def HandlePool_remove_def handle_ok_def act_result_def\<close>)

lemma pt_releasedir_ok:
  assumes "pt_releasedir L reply op s = Some (r, s')" and L: "libc_fds L V" and inv: "pt_inv base V n s"
  shows "handle_ok base V n s s'"
proof (cases "HandlePool_get (opened_dirs (fst s)) (Releasedir_fh op)")
  case (Some dir)
  let ?key = "unat (FileID_into_raw (Releasedir_fh op))"
  obtain self k where s: "s = (self, k)" by (cases s)
  have s': "s' = (self\<lparr> opened_dirs := Mapping.delete ?key (opened_dirs self) \<rparr>, ReadDir_drop L dir k)"
    using assms(1) Some by (simp add: pt_releasedir_def HandlePool_remove_def s)
  have key: "Mapping.lookup (opened_dirs self) ?key = Some dir" using Some by (simp add: HandlePool_get_def s)
  with inv have "snd (V k) (rd_dir dir) = Some (rd_fd dir)" by (simp add: pt_inv_def dirs_inv_def s)
  from libc_fds_effects(5) [OF L this]
  have "V (ReadDir_drop L dir k) = (fst (V k) - {rd_fd dir}, (snd (V k))(rd_dir dir := None))"
    by (simp add: ReadDir_drop_def FileDesc_drop_def libc_fds_effects(4) [OF L])
  with pt_inv_del_dir [OF inv [unfolded s] key] s' show ?thesis by (simp add: handle_ok_def s)
qed (use assms(1) inv in \<open>simp add: pt_releasedir_def HandlePool_remove_def handle_ok_def act_result_def\<close>)

lemma pt_readdir_ok:
  assumes "pt_readdir L R reply op s = Some (r, s')" and L: "libc_fds L V" and inv: "pt_inv base V n s"
  shows "handle_ok base V n s s'"
proof (cases "Readdir_mode op = ReaddirMode_Plus \<or> HandlePool_get (opened_dirs (fst s)) (Readdir_fh op) = None")
  case True
  with assms(1) inv show ?thesis
    by (auto simp: pt_readdir_def handle_ok_def pt_dir_def act_bind_assoc act_result_def split: if_splits)
next
  case False
  then obtain dir where dir: "HandlePool_get (opened_dirs (fst s)) (Readdir_fh op) = Some dir" by auto
  let ?key = "unat (FileID_into_raw (Readdir_fh op))"
  obtain self k where s: "s = (self, k)" by (cases s)
  obtain dir' k1 where seek: "ReadDir_seek L dir (Readdir_offset op) k = (dir', k1)" by fastforce
  let ?t = "(self\<lparr> opened_dirs := Mapping.update ?key dir' (opened_dirs self) \<rparr>, k1)"
  have "rd_fd dir' = rd_fd dir" "rd_dir dir' = rd_dir dir"
    using seek by (auto simp: ReadDir_seek_def split: if_splits)
  moreover have "V k1 = V k" using nix_same_fds_other(4) [OF L, of k dir "Readdir_offset op"] seek by (simp add: same_fds_def)
  ultimately have t: "pt_inv base V n ?t"
    using dir by (intro pt_inv_seek [OF inv [unfolded s], where dir = dir]) (simp_all add: HandlePool_get_def s)
  let ?push = "on_host (push_stream L R dir' (ReaddirOut_new R (unat (Readdir_size op))))"
  have sk: "pt_seek L (Readdir_fh op) dir (Readdir_offset op) (self, k) = Some (Ok dir', ?t)"
    by (simp add: pt_seek_def seek)
  have "act_bind ?push (\<lambda>out. act_result (reply (Reply_ReaddirOut out))) ?t = Some (r, s')"
    using assms(1) False dir
    by (simp add: pt_readdir_def pt_dir_def act_bind_assoc s sk act_bind_def [of "pt_seek L fh d pos" for fh d pos])
  then have "pt_quiet V ?t s'"
    by (rule act_relD [rotated]) (intro keeps push_stream_same_fds [OF L])
  from handle_ok_quiet [OF this t] show ?thesis by (simp add: handle_ok_def s)
qed

section \<open>Steps keep the invariant\<close>

lemma answered_eq: "answered m s = Some (r, s') \<longleftrightarrow> (\<exists>q. m s = Some (q, s') \<and> r = and_then q (\<lambda>x. Ok (Some x)))"
proof -
  have "answered m s = Some (r, s') \<longleftrightarrow> (\<exists>q. m s = Some (q, s') \<and> r = and_then q (\<lambda>x. Ok (Some x)))" if "m s = Some (q, t)" for q t
    using that by (cases q) (auto simp: answered_def act_bind_def act_result_def)
  then show ?thesis by (cases "m s") (auto simp: answered_def act_bind_def)
qed

lemma answered_Ok: "answered m s = Some (Ok x, s') \<longleftrightarrow> (\<exists>y. x = Some y \<and> m s = Some (Ok y, s'))"
  by (auto simp: answered_def handler)

lemma enters_inv:
  assumes "enters V reply s r s'" and "pt_inv base V n s" and "n < 2 ^ 62"
  shows "pt_inv base V (Suc n) s'"
  using assms pt_inv_entered [of base V n s _ s'] handle_ok_quiet [of V s s' base "Suc n"] pt_inv_Suc [of base V n s]
  by (auto simp: enters_def handle_ok_def)

lemma handle_ok_inv: "handle_ok base V n s s' \<Longrightarrow> pt_inv base V (Suc n) s'"
  by (auto simp: handle_ok_def intro: pt_inv_Suc)

definition plain_reply :: "('b, 'r) req_reply \<Rightarrow> 'r \<Rightarrow> bool" where
  "plain_reply reply x \<longleftrightarrow> (\<exists>out. reply out = Ok x \<and> (\<forall>e. out \<noteq> Reply_EntryOut e))"

lemma plain_reply_result [posts]:
  "(\<And>e. out \<noteq> Reply_EntryOut e) \<Longrightarrow> act_post (plain_reply reply) (act_result (reply out))"
  by (auto simp: act_post_def act_result_def plain_reply_def)

lemma plain_replies:
  shows "act_post (plain_reply reply) (pt_getattr X L reply op1)" "act_post (plain_reply reply) (pt_setattr X L reply op2)"
    "act_post (plain_reply reply) (pt_readlink L reply op3)" "act_post (plain_reply reply) (pt_unlink L reply op4)"
    "act_post (plain_reply reply) (pt_rmdir L reply op5)" "act_post (plain_reply reply) (pt_rename L reply op6)"
    "act_post (plain_reply reply) (pt_fsyncdir L reply op7)" "act_post (plain_reply reply) (pt_read L ask reply op8)"
    "act_post (plain_reply reply) (pt_write L pieces data reply op9)" "act_post (plain_reply reply) (pt_flush L reply op10)"
    "act_post (plain_reply reply) (pt_fsync L reply op11)" "act_post (plain_reply reply) (pt_flock L reply op12)"
    "act_post (plain_reply reply) (pt_fallocate L reply op13)" "act_post (plain_reply reply) (pt_getxattr L reply op14)"
    "act_post (plain_reply reply) (pt_listxattr L reply op15)" "act_post (plain_reply reply) (pt_setxattr L reply op16)"
    "act_post (plain_reply reply) (pt_removexattr L reply op17)" "act_post (plain_reply reply) (pt_statfs L reply op18)"
    "act_post (plain_reply reply) (pt_open key X L reply op19)" "act_post (plain_reply reply) (pt_opendir key L reply op20)"
    "act_post (plain_reply reply) (pt_readdir L R reply op21)" "act_post (plain_reply reply) (pt_release L reply op22)"
    "act_post (plain_reply reply) (pt_releasedir L reply op23)"
  unfolding pt_getattr_def pt_setattr_def pt_readlink_def pt_unlink_def pt_rmdir_def pt_rename_def
    pt_fsyncdir_def pt_read_def pt_write_def pt_flush_def pt_fsync_def pt_flock_def pt_fallocate_def
    pt_getxattr_def pt_listxattr_def pt_setxattr_def pt_removexattr_def pt_statfs_def pt_reply_attr_def
    pt_open_def pt_opendir_def pt_readdir_def pt_release_def pt_releasedir_def Let_def
  by (intro posts; simp)+

text \<open>The requests by what they may change.\<close>

lemma pt_step_cases:
  assumes "pt_step X L R ask pieces reply s (op, r) s'" and L: "libc_fds L V" and inv: "pt_inv base V n s" and n: "n < 2 ^ 62"
  obtains (entry) q where "r = and_then q (\<lambda>x. Ok (Some x))" "enters V (\<lambda>out. reply (Reply_EntryOut out)) s q s'"
  | (forget) forgets where "op = Forget_op forgets"
      "act_bind (pt_forget L (Forgets_deref forgets)) (\<lambda>_. act_ok None) s = Some (r, s')"
  | (other) "handle_ok base V n s s'"
      "\<And>x. r = Ok x \<Longrightarrow> \<exists>y. x = Some y \<and> plain_reply reply y"
proof -
  have t: "pt_table_inv n (pt_inodes (fst s))" using inv by (simp add: pt_inv_def)
  have plain: "\<exists>y. x = Some y \<and> plain_reply reply y"
    if "answered m s = Some (r, s')" "act_post (plain_reply reply) m" "r = Ok x" for m x
    using that unfolding act_post_def by (metis answered_Ok)
  have handle: thesis if "answered m s = Some (r, s')" "\<And>q. m s = Some (q, s') \<Longrightarrow> handle_ok base V n s s'"
    "act_post (plain_reply reply) m" for m
    using that(1,2) answered_eq plain [OF that(1,3)] other by metis
  have quiet: thesis if "answered m s = Some (r, s')" "act_rel (pt_quiet V) m" "act_post (plain_reply reply) m" for m
    by (rule handle [OF that(1) _ that(3)]) (rule handle_ok_quiet [OF act_relD [OF that(2)] inv])
  have entry': thesis if "answered m s = Some (r, s')"
    "\<And>q. m s = Some (q, s') \<Longrightarrow> enters V (\<lambda>out. reply (Reply_EntryOut out)) s q s'" for m
    using that entry by (auto simp: answered_eq)
  note makes = enters_reply [OF _ pt_make_node_enters [OF _ L t n]]
  show thesis
    using assms(1)
  proof (cases rule: pt_step.cases)
    case (pt_step_lookup op)
    then show thesis
      by (elim entry') (auto simp: pt_lookup_def intro: enters_reply do_lookup_enters [OF _ L t n])
  next
    case (pt_step_forget forgets)
    then show thesis by (rule forget)
  next
    case (pt_step_link op)
    then show thesis by (elim entry') (rule pt_link_enters [OF _ L t n])
  next
    case (pt_step_mknod op)
    then show thesis by (elim entry') (auto simp: pt_mknod_def intro: makes)
  next
    case (pt_step_mkdir op)
    then show thesis by (elim entry') (auto simp: pt_mkdir_def intro: makes)
  next
    case (pt_step_symlink op)
    then show thesis by (elim entry') (auto simp: pt_symlink_def intro: makes)
  next
    case (pt_step_opendir key op)
    then show thesis by (elim handle) (auto intro: pt_opendir_ok [OF _ L inv] plain_replies)
  next
    case (pt_step_readdir op)
    then show thesis by (elim handle) (auto intro: pt_readdir_ok [OF _ L inv] plain_replies)
  next
    case (pt_step_releasedir op)
    then show thesis by (elim handle) (auto intro: pt_releasedir_ok [OF _ L inv] plain_replies)
  next
    case (pt_step_open key op)
    then show thesis by (elim handle) (auto intro: pt_open_ok [OF _ L inv] plain_replies)
  next
    case (pt_step_release op)
    then show thesis by (elim handle) (auto intro: pt_release_ok [OF _ L inv] plain_replies)
  qed (erule quiet, rule pt_quiet_handlers [OF L], rule plain_replies)+
qed

lemma pt_step_inv:
  assumes "pt_step X L R ask pieces reply s e s'" and L: "libc_fds L V" and inv: "pt_inv base V n s" and n: "n < 2 ^ 62"
  shows "pt_inv base V (Suc n) s'"
proof -
  have "pt_step X L R ask pieces reply s (fst e, snd e) s'" using assms(1) by simp
  then show ?thesis using L inv n
  proof (cases rule: pt_step_cases)
    case (forget forgets)
    then obtain q where "pt_forget L (Forgets_deref forgets) s = Some (q, s')" by (auto simp: handler)
    from pt_inv_Suc [OF pt_forget_inv [OF L this inv]] show ?thesis .
  qed (use enters_inv [OF _ inv n] handle_ok_inv in blast)+
qed

end
