(* ===== verification/Passthrough_Props.thy ===== *)
theory Passthrough_Props
  imports Passthrough_Inv
begin

text \<open>
  Properties of the passthrough filesystem: nodes, files of the host and descriptors correspond in every
  state it can reach, the references to nodes are counted as the protocol asks for, and data that is
  written is read back. A simulated host shows that what is assumed of the C library can hold.
\<close>

section \<open>References\<close>

text \<open>
  The specification: a number of references for every node that the kernel knows. An entry in a reply is
  one more reference, a forget request takes references back, and nothing else has an effect. A request
  that fails may leave a reference that the kernel does not know of.
\<close>

type_synonym counts = "NodeID \<Rightarrow> nat option"

definition pt_counts :: "Passthrough \<Rightarrow> counts" where
  "pt_counts self ino = map_option (\<lambda>inode. unat (pn_refcount inode)) (Mapping.lookup (pt_map (pt_inodes self)) ino)"

definition count_up :: "NodeID \<Rightarrow> counts \<Rightarrow> counts" where
  "count_up ino c = c(ino \<mapsto> Suc (case c ino of None \<Rightarrow> 0 | Some n \<Rightarrow> n))"

definition count_down :: "NodeID \<Rightarrow> nat \<Rightarrow> counts \<Rightarrow> counts" where
  "count_down ino n c =
     (case c ino of None \<Rightarrow> c | Some m \<Rightarrow> if m \<le> n then c(ino := None) else c(ino \<mapsto> m - n))"

fun counts_forget :: "Forget list \<Rightarrow> counts \<Rightarrow> counts" where
  "counts_forget [] c = c"
| "counts_forget (forget # forgets) c =
     (case Forget_ino forget :: (io_error, NodeID) result of
        Ok ino \<Rightarrow> counts_forget forgets (count_down ino (unat (Forget_nlookup forget)) c)
      | _ \<Rightarrow> c)"

text \<open>The node that a reply gives to the kernel.\<close>

fun entry_of :: "(io_error, 'b fs_reply option) result \<Rightarrow> NodeID option" where
  "entry_of (Ok (Some (Reply_EntryOut out))) = EntryOut_ino out"
| "entry_of _ = None"

fun forgets_of :: "Operation \<Rightarrow> Forget list option" where
  "forgets_of (Forget_op forgets) = Some (Forgets_deref forgets)"
| "forgets_of _ = None"

definition counts_step ::
    "Operation \<Rightarrow> (io_error, 'b fs_reply option) result \<Rightarrow> counts \<Rightarrow> counts \<Rightarrow> bool" where
  "counts_step op r c c' \<longleftrightarrow>
     (case forgets_of op of
        Some forgets \<Rightarrow> c' = counts_forget forgets c
      | None \<Rightarrow>
          (case r of
             Ok _ \<Rightarrow> c' = (case entry_of r of Some ino \<Rightarrow> count_up ino c | None \<Rightarrow> c)
           | _ \<Rightarrow> c' = c \<or> (\<exists>ino. c' = count_up ino c)))"

section \<open>Lemmas\<close>

interpretation passthrough: counted_machine "pt_step X L R ask pieces reply" "\<lambda>n s. libc_fds L V \<and> pt_inv base V n s" "2 ^ 62"
  for X L R ask pieces reply V base
  by unfold_locales (auto intro: pt_step_inv)

lemma pt_counts_touch:
  "Mapping.lookup (pt_map (pt_inodes self)) ino = Some inode \<Longrightarrow>
    pt_counts (put_node ino (inode\<lparr> pn_refcount := c \<rparr>) self) = (pt_counts self)(ino \<mapsto> unat c)"
  by (auto simp: fun_eq_iff pt_counts_def)

lemma pt_counts_entered:
  assumes inv: "pt_inv base V n s" and "n < 2 ^ 62" and "pt_entered V s ino s'"
  shows "pt_counts (fst s') = count_up ino (pt_counts (fst s))"
proof -
  have t: "pt_table_inv n (pt_inodes (fst s))" using inv by (simp add: pt_inv_def)
  consider "node_found (fst s) ino (fst s')" | fd where "node_new (fst s) ino fd (fst s')"
    using assms(3) by (auto simp: pt_entered_def)
  then show ?thesis
  proof cases
    case 1
    then obtain inode where ino: "Mapping.lookup (pt_map (pt_inodes (fst s))) ino = Some inode"
      and s': "fst s' = put_node ino (inode\<lparr> pn_refcount := pn_refcount inode + 1 \<rparr>) (fst s)"
      by (auto simp: node_found_def)
    have "unat (pn_refcount inode + 1) = Suc (unat (pn_refcount inode))"
      using pt_table_invD(1) [OF t ino] assms(2) by (simp add: pt_node_ok_def unat_add_1)
    moreover have "pt_counts (fst s) ino = Some (unat (pn_refcount inode))" using ino by (simp add: pt_counts_def)
    ultimately show ?thesis unfolding s' pt_counts_touch [OF ino] by (simp add: count_up_def)
  next
    case (2 fd)
    then obtain inode where "NodeID_into_raw ino = pt_next_ino (pt_inodes (fst s))" and one: "pn_refcount inode = 1"
      and s': "pt_map (pt_inodes (fst s')) = Mapping.update ino inode (pt_map (pt_inodes (fst s)))"
      by (auto simp: node_new_def)
    with pt_table_inv_unused(1) [OF t] have "pt_counts (fst s) ino = None" by (simp add: pt_counts_def)
    with one show ?thesis by (auto simp: fun_eq_iff pt_counts_def count_up_def s')
  qed
qed

lemma pt_counts_forget_one:
  "pt_counts (fst (pt_forget_one L ino n s)) = count_down ino (unat n) (pt_counts (fst s))"
proof (cases "Mapping.lookup (pt_map (pt_inodes (fst s))) ino")
  case (Some inode)
  let ?c = "saturating_sub (pn_refcount inode) n"
  have count: "pt_counts (fst s) ino = Some (unat (pn_refcount inode))" using Some by (simp add: pt_counts_def)
  have zero: "?c = 0 \<longleftrightarrow> unat (pn_refcount inode) \<le> unat n"
    by (simp add: unat_saturating_sub flip: unat_eq_0)
  show ?thesis
  proof (cases "?c = 0")
    case True
    with zero have "unat (pn_refcount inode) \<le> unat n" by simp
    with True count Some show ?thesis
      by (cases s) (auto simp: pt_forget_one_def count_down_def fun_eq_iff pt_counts_def)
  next
    case False
    then have "fst (pt_forget_one L ino n s) = put_node ino (inode\<lparr> pn_refcount := ?c \<rparr>) (fst s)"
      using Some by (cases s) (simp add: pt_forget_one_def Let_def)
    with pt_counts_touch [OF Some] zero False count show ?thesis by (simp add: count_down_def unat_saturating_sub)
  qed
qed (cases s, simp add: pt_forget_one_def count_down_def pt_counts_def)

lemma pt_counts_forget:
  "pt_forget L forgets s = Some (r, s') \<Longrightarrow> pt_counts (fst s') = counts_forget forgets (pt_counts (fst s))"
proof (induction forgets arbitrary: s)
  case (Cons forget forgets)
  then show ?case
    by (cases "Forget_ino forget :: (io_error, NodeID) result")
      (auto simp: act_result_eq pt_counts_forget_one simp del: split_paired_All)
qed (simp add: act_result_eq)

lemma counts_forget_None: "c ino = None \<Longrightarrow> counts_forget forgets c ino = None"
proof (induction forgets arbitrary: c)
  case (Cons forget forgets)
  have "count_down i n c ino = None" for i n
    using Cons.prems by (auto simp: count_down_def split: option.split)
  with Cons show ?case by (simp split: result.split)
qed simp

lemma entry_of_plain: "plain_reply Ok y \<Longrightarrow> entry_of (Ok (Some y)) = None"
  by (cases y) (auto simp: plain_reply_def)

inductive_cases pt_step_forgetE: "pt_step X L R ask pieces reply s (Forget_op forgets, r) s'"

lemma pt_step_counts:
  assumes "pt_step X L R ask pieces Ok s (op, r) s'" and L: "libc_fds L V" and inv: "pt_inv base V n s" and n: "n < 2 ^ 62"
  shows "counts_step op r (pt_counts (fst s)) (pt_counts (fst s'))"
proof (cases "forgets_of op")
  case (Some forgets)
  then obtain fs where op: "op = Forget_op fs" "forgets = Forgets_deref fs" by (cases op) auto
  from assms(1) obtain q where "pt_forget L forgets s = Some (q, s')"
    unfolding op by (elim pt_step_forgetE) (auto simp: handler)
  from pt_counts_forget [OF this] Some show ?thesis by (simp add: counts_step_def)
next
  case None
  from assms show ?thesis
  proof (cases rule: pt_step_cases)
    case (entry q)
    note counts = pt_counts_entered [OF inv n]
    from entry None show ?thesis
      by (cases q) (auto simp: enters_def counts_step_def pt_quiet_def dest!: counts)
  next
    case other
    then have "pt_counts (fst s') = pt_counts (fst s)" by (simp add: handle_ok_def pt_counts_def fun_eq_iff)
    with other(2) None show ?thesis
      by (cases r) (auto simp: counts_step_def dest: entry_of_plain)
  qed (use None in simp)
qed

text \<open>Numbers of nodes are not used again: all that were given out are below the next one.\<close>

abbreviation next_ino_of :: "'k pt_state \<Rightarrow> u64" where
  "next_ino_of s \<equiv> pt_next_ino (pt_inodes (fst s))"

lemma pt_entered_next:
  assumes inv: "pt_inv base V n s" and n: "n < 2 ^ 62" and "pt_entered V s ino s'"
  shows "next_ino_of s \<le> next_ino_of s'" "NodeID_into_raw ino < next_ino_of s'"
proof -
  have t: "pt_table_inv n (pt_inodes (fst s))" using inv by (simp add: pt_inv_def)
  have next1: "unat (next_ino_of s + 1) = unat (next_ino_of s) + 1"
    using pt_table_invD(5) [OF t] n by (intro unat_add_1) simp
  consider inode where "Mapping.lookup (pt_map (pt_inodes (fst s))) ino = Some inode" "next_ino_of s' = next_ino_of s"
    | "NodeID_into_raw ino = next_ino_of s" "next_ino_of s' = next_ino_of s + 1"
    using assms(3) by (auto simp: pt_entered_def node_found_def node_new_def)
  then have "next_ino_of s \<le> next_ino_of s' \<and> NodeID_into_raw ino < next_ino_of s'"
  proof cases
    case (1 inode)
    then have "Mapping.lookup (src_to_ino (pt_inodes (fst s))) (pn_src_id inode) = Some ino"
      using pt_table_invD(1) [OF t] by (simp add: pt_node_ok_def)
    with pt_table_invD(2) [OF t] 1 show ?thesis by simp
  next
    case 2
    with next1 show ?thesis by (simp add: word_le_nat_alt word_less_nat_alt)
  qed
  then show "next_ino_of s \<le> next_ino_of s'" "NodeID_into_raw ino < next_ino_of s'" by blast+
qed

lemma pt_forget_next: "pt_forget L forgets s = Some (r, s') \<Longrightarrow> next_ino_of s' = next_ino_of s"
proof (induction forgets arbitrary: s)
  case (Cons forget forgets)
  have "next_ino_of (pt_forget_one L ino n s) = next_ino_of s" for ino n
    by (cases s) (simp add: pt_forget_one_def Let_def split: option.splits)
  with Cons show ?case
    by (cases "Forget_ino forget :: (io_error, NodeID) result")
      (auto simp: act_result_eq simp del: split_paired_All)
qed (simp add: act_result_eq)

lemma pt_step_next:
  assumes "pt_step X L R ask pieces Ok s (op, r) s'" and L: "libc_fds L V" and inv: "pt_inv base V n s" and n: "n < 2 ^ 62"
  shows "next_ino_of s \<le> next_ino_of s' \<and> (\<forall>ino. entry_of r = Some ino \<longrightarrow> NodeID_into_raw ino < next_ino_of s')"
  using assms
proof (cases rule: pt_step_cases)
  case (entry q)
  then show ?thesis
    by (cases q) (auto simp: enters_def pt_quiet_def dest: pt_entered_next [OF inv n])
next
  case (forget forgets)
  then obtain q where "pt_forget L (Forgets_deref forgets) s = Some (q, s')" "entry_of r = None"
    by (auto simp: handler)
  with pt_forget_next [OF this(1)] show ?thesis by simp
next
  case other
  then have "entry_of r = None" by (cases r) (auto dest: entry_of_plain)
  with other show ?thesis by (simp add: handle_ok_def)
qed

lemma pt_step_new_node:
  assumes "pt_step X L R ask pieces Ok s (op, r) s'" and L: "libc_fds L V" and inv: "pt_inv base V n s" and n: "n < 2 ^ 62"
    and new: "pt_counts (fst s) ino = None" "pt_counts (fst s') ino \<noteq> None"
  shows "NodeID_into_raw ino = next_ino_of s"
  using assms(1-4)
proof (cases rule: pt_step_cases)
  case (entry q)
  with new show ?thesis
    by (auto simp: enters_def pt_quiet_def pt_entered_def node_found_def node_new_def pt_counts_def split: if_splits)
next
  case (forget forgets)
  then obtain q where "pt_forget L (Forgets_deref forgets) s = Some (q, s')" by (auto simp: handler)
  from pt_counts_forget [OF this] new counts_forget_None [of "pt_counts (fst s)" ino "Forgets_deref forgets"]
  show ?thesis by auto
next
  case other
  with new show ?thesis by (simp add: handle_ok_def pt_counts_def)
qed

lemma pt_run_next:
  assumes "run_of (pt_step X L R ask pieces Ok) s es s'" and "libc_fds L V" and "pt_inv base V 0 s" and "length es \<le> 2 ^ 62"
  shows "\<forall>e \<in> set es. \<forall>ino. entry_of (snd e) = Some ino \<longrightarrow> NodeID_into_raw ino < next_ino_of s'"
  using assms
proof (induction rule: run_of.induct)
  case (run_step s es s' e s'')
  then have "pt_inv base V (length es) s'" using passthrough.run_inv [OF run_step.hyps(1), where V = V and base = base] by simp
  from pt_step_next [OF _ run_step.prems(1) this, of X R ask pieces "fst e" "snd e" s''] run_step show ?case by fastforce
qed simp

text \<open>The descriptors that are open at the start belong to others.\<close>

definition root_node :: "fd \<Rightarrow> libc_stat_dev \<Rightarrow> pt_INode" where
  "root_node fd stat =
     \<lparr> pn_ino = NodeID_ROOT, pn_src_id = (st_ino stat, st_dev stat), pn_is_symlink = False, pn_fd = fd,
       pn_refcount = (- 1) div 2 \<rparr>"

definition root_only :: "fd \<Rightarrow> libc_stat_dev \<Rightarrow> duration option \<Rightarrow> Passthrough" where
  "root_only fd stat timeout =
     \<lparr> pt_inodes =
         \<lparr> pt_map = Mapping.update NodeID_ROOT (root_node fd stat) Mapping.empty,
           src_to_ino = Mapping.update (st_ino stat, st_dev stat) NodeID_ROOT Mapping.empty, pt_next_ino = 2 \<rparr>,
       opened_dirs = Mapping.empty, opened_files = Mapping.empty, pt_timeout = timeout \<rparr>"

lemma Passthrough_new_Ok:
  assumes "Passthrough_new X L source timeout k = Some (Ok self, k')"
  obtains path k1 fd k2 stat where "libc_realpath L source k = (Ok path, k1)"
    "FileDesc_open L path O_PATH k1 = Some (Ok fd, k2)"
    "FileDesc_fstatat L fd [] AT_SYMLINK_NOFOLLOW k2 = Some (Ok stat, k')" "self = root_only fd stat timeout"
proof -
  have "pt_vacant_entry pt_INodeTable_new = Some NodeID_ROOT"
    by (simp add: pt_vacant_entry_def pt_INodeTable_new_def)
  moreover have "VacantEntry_insert X NodeID_ROOT (root_node fd stat) pt_INodeTable_new =
      (Ok (), pt_inodes (root_only fd stat timeout))" for fd stat
    by (simp add: VacantEntry_insert_def pt_INodeTable_new_def root_only_def root_node_def add_assign_def)
  ultimately show ?thesis
    using assms that
    by (auto simp: Passthrough_new_def handler root_only_def root_node_def
        split: if_splits elim!: os_result.elims [OF sym])
qed

lemma root_only_inv:
  assumes "fd \<notin> base" and "V k = (insert fd base, dirs)"
  shows "pt_inv base V 0 (root_only fd stat timeout, k)"
proof -
  have "owned (root_only fd stat timeout) = [OwnNode NodeID_ROOT \<mapsto> fd]"
  proof
    fix x show "owned (root_only fd stat timeout) x = [OwnNode NodeID_ROOT \<mapsto> fd] x"
      by (cases x) (auto simp: root_only_def root_node_def)
  qed
  moreover have "pt_table_inv 0 (pt_inodes (root_only fd stat timeout))"
    by (rule pt_table_invI) (auto simp: root_only_def root_node_def pt_node_ok_def split: if_splits)
  ultimately show ?thesis
    using assms by (simp add: pt_inv_def dirs_inv_def fds_inv_def root_only_def)
qed

lemma Passthrough_new_inv:
  assumes "Passthrough_new X L source timeout k = Some (Ok self, k')" and L: "libc_fds L V"
  shows "pt_inv (fst (V k)) V 0 (self, k')"
  using assms(1)
proof (cases rule: Passthrough_new_Ok)
  case (1 path k1 fd k2 stat)
  have "V k1 = V k" using libc_fds_calls(2) [OF L, of source] 1(1) by (metis call_rel_def same_fds_def snd_conv)
  moreover have "V k' = V k2" using act_relD [OF nix_same_fds(1) [OF L] 1(3)] by (simp add: same_fds_def)
  ultimately show ?thesis
    using FileDesc_open_fds [OF L 1(2)] unfolding 1(4) by (intro root_only_inv) auto
qed

section \<open>Examples\<close>

text \<open>A host on which every descriptor belongs to another file, and the filesystem after one lookup.\<close>

definition sim_stats :: "fd \<Rightarrow> libc_stat_dev" where
  "sim_stats fd = sim_stat (of_nat fd)"

definition pt_with_a :: Passthrough where
  "pt_with_a = (root_only 1 (sim_stat 1) None)
     \<lparr> pt_inodes :=
         \<lparr> pt_map = Mapping.update node_two
             \<lparr> pn_ino = node_two, pn_src_id = (2, 1), pn_is_symlink = False, pn_fd = 2, pn_refcount = 1 \<rparr>
             (pt_map (pt_inodes (root_only 1 (sim_stat 1) None))),
           src_to_ino = Mapping.update (2, 1) node_two (src_to_ino (pt_inodes (root_only 1 (sim_stat 1) None))),
           pt_next_ino = 3 \<rparr> \<rparr>"

lemma pt_new_eq:
  "Passthrough_new X (sim_libc sim_stats) [47] None host0 =
    Some (Ok (root_only 1 (sim_stat 1) None), host0\<lparr> sh_fds := [1] \<rparr>)"
  by (simp add: Passthrough_new_def cstring_def act_bind_def syscall_def act_on_fail_def pt_vacant_entry_def
      pt_INodeTable_new_def VacantEntry_insert_def add_assign_def act_result_def root_only_def root_node_def
      host0_def sim_stats_def)

lemma attr_ok: "\<exists>attr. attr_of_stat linux_extern (sim_stat 2) = Ok attr"
  by (simp add: attr_of_stat_def sim_stat_def FileAttr_try_from_stat_def libc_stat.defs u32_try_from_u64_def
      u32_try_from_i64_def DeviceID_from_userspace_dev_def DeviceID_new_def duration_new_def linux_extern_def)

abbreviation sent :: "(unit, unit fs_reply) req_reply" where
  "sent \<equiv> Ok"

lemma lookup_a_eq:
  "\<exists>out. pt_lookup linux_extern (sim_libc sim_stats) sent lookup_a (root_only 1 (sim_stat 1) None, host0\<lparr> sh_fds := [1] \<rparr>) =
      Some (Ok (Reply_EntryOut out), (pt_with_a, host0\<lparr> sh_fds := [2, 1] \<rparr>)) \<and> EntryOut_ino out = Some node_two"
proof -
  define self where "self = root_only 1 (sim_stat 1) None"
  define k where "k = host0\<lparr> sh_fds := [2, 1] \<rparr>"
  obtain attr where attr: "attr_of_stat linux_extern (sim_stat 2) = Ok attr" using attr_ok ..
  let ?out = "\<lparr> EntryOut_ino = Some node_two, EntryOut_attr = attr, EntryOut_generation = 0,
    EntryOut_entry_valid = None, EntryOut_attr_valid = None \<rparr>"
  have self: "get_src (pt_inodes self) (2, 1) = None" "INodeTable_get (pt_inodes self) NodeID_ROOT = Some (root_node 1 (sim_stat 1))"
    "pt_vacant_entry (pt_inodes self) = Some node_two"
    by (simp_all add: self_def get_src_def root_only_def INodeTable_get_def pt_vacant_entry_def)
  have new: "insert_node linux_extern node_two
      \<lparr> pn_ino = node_two, pn_src_id = (2, 1), pn_is_symlink = False, pn_fd = 2, pn_refcount = 1 \<rparr> (self, k) =
      Some (Ok (), (pt_with_a, k))"
    by (simp add: self_def insert_node_def VacantEntry_insert_def add_assign_def pt_with_a_def) (simp add: root_only_def)
  have "pt_timeout pt_with_a = None" by (simp add: pt_with_a_def root_only_def)
  with attr self new
  have "lookup_src linux_extern (sim_libc sim_stats) NodeID_ROOT 2 (sim_stat 2) (self, k) = Some (Ok ?out, (pt_with_a, k))"
    by (simp add: lookup_src_def Let_def entry_out_def act_bind_def [of "insert_node X i n" for X i n] act_result_def)
  moreover have "on_host (FileDesc_openat (sim_libc sim_stats) fd [97] flags) (self, host0\<lparr> sh_fds := [1] \<rparr>) =
      Some (Ok 2, (self, k))" for fd flags
    by (simp add: on_host_def k_def)
  moreover have "act_on_fail (on_host (FileDesc_fstatat (sim_libc sim_stats) 2 [] flags)) d (self, k) =
      Some (Ok (sim_stat 2), (self, k))" for flags d
    by (simp add: on_host_def act_on_fail_def sim_stats_def)
  ultimately have "do_lookup linux_extern (sim_libc sim_stats) NodeID_ROOT [97] (self, host0\<lparr> sh_fds := [1] \<rparr>) =
      Some (Ok ?out, (pt_with_a, k))"
    using self(2) by (simp add: do_lookup_def del: One_nat_def) (simp add: act_bind_def del: One_nat_def)
  then show ?thesis
    by (simp add: pt_lookup_def lookup_a_def act_bind_def act_result_def self_def k_def)
qed

lemma lookup_a_step:
  "\<exists>out. pt_step linux_extern (sim_libc sim_stats) R ask pieces sent
      (root_only 1 (sim_stat 1) None, host0\<lparr> sh_fds := [1] \<rparr>) (Lookup lookup_a, Ok (Some (Reply_EntryOut out)))
      (pt_with_a, host0\<lparr> sh_fds := [2, 1] \<rparr>) \<and> EntryOut_ino out = Some node_two"
proof -
  obtain out where out: "pt_lookup linux_extern (sim_libc sim_stats) sent lookup_a (root_only 1 (sim_stat 1) None, host0\<lparr> sh_fds := [1] \<rparr>) =
      Some (Ok (Reply_EntryOut out), (pt_with_a, host0\<lparr> sh_fds := [2, 1] \<rparr>))" "EntryOut_ino out = Some node_two"
    using lookup_a_eq by blast
  from out(1) have "answered (pt_lookup linux_extern (sim_libc sim_stats) sent lookup_a)
      (root_only 1 (sim_stat 1) None, host0\<lparr> sh_fds := [1] \<rparr>) =
      Some (Ok (Some (Reply_EntryOut out)), (pt_with_a, host0\<lparr> sh_fds := [2, 1] \<rparr>))"
    by (simp add: answered_Ok)
  from pt_step_lookup [OF this] out(2) show ?thesis by blast
qed

section \<open>Properties\<close>

text \<open>C8: In every state that the filesystem reaches within 2^62 requests, in any order and with any
  arguments and answers of the host, two nodes stand for the same file only if they are the same
  node, and every descriptor that is open was open before or belongs to exactly one node or handle:
  none is leaked, closed too early or shared.
\<close>

theorem passthrough_run_invariant:
  assumes "libc_fds L V" and "Passthrough_new X L source timeout k0 = Some (Ok self0, k1)"
    and "run_of (pt_step X L R ask pieces reply) (self0, k1) es (self, k)" and "length es \<le> 2 ^ 62"
  shows "(\<forall>i j a b. INodeTable_get (pt_inodes self) i = Some a \<and> INodeTable_get (pt_inodes self) j = Some b \<longrightarrow>
      (pn_src_id a = pn_src_id b \<longleftrightarrow> i = j)) \<and>
    fst (V k) = fst (V k0) \<union> ran (owned self) \<and> fst (V k0) \<inter> ran (owned self) = {} \<and>
    inj_on (owned self) (dom (owned self))"
proof -
  have inv: "pt_inv (fst (V k0)) V (length es) (self, k)"
    using passthrough.run_inv [OF assms(3), where V = V] Passthrough_new_inv [OF assms(2,1)] assms(1,4) by blast
  then have t: "pt_table_inv (length es) (pt_inodes self)" by (simp add: pt_inv_def)
  have "pn_src_id a = pn_src_id b \<longleftrightarrow> i = j"
    if "INodeTable_get (pt_inodes self) i = Some a" "INodeTable_get (pt_inodes self) j = Some b" for i j a b
    using that pt_table_invD(1) [OF t] unfolding INodeTable_get_def pt_node_ok_def by (metis option.inject)
  moreover have "fst (V k) = fst (V k0) \<union> ran (owned self)" "fst (V k0) \<inter> ran (owned self) = {}"
    "inj_on (owned self) (dom (owned self))"
    using inv by (simp_all add: pt_inv_def fds_inv_def)
  ultimately show ?thesis by blast
qed

theorem passthrough_run_invariant_witness:
  "{2, 1} = ran (owned pt_with_a) \<and> inj_on (owned pt_with_a) (dom (owned pt_with_a))"
proof -
  obtain out where "pt_step linux_extern (sim_libc sim_stats) no_readdir (\<lambda>_ n. n) (\<lambda>bs. [bs]) sent
      (root_only 1 (sim_stat 1) None, host0\<lparr> sh_fds := [1] \<rparr>) (Lookup lookup_a, Ok (Some (Reply_EntryOut out)))
      (pt_with_a, host0\<lparr> sh_fds := [2, 1] \<rparr>)"
    using lookup_a_step by blast
  then have "run_of (pt_step linux_extern (sim_libc sim_stats) no_readdir (\<lambda>_ n. n) (\<lambda>bs. [bs]) sent)
      (root_only 1 (sim_stat 1) None, host0\<lparr> sh_fds := [1] \<rparr>) ([] @ [(Lookup lookup_a, Ok (Some (Reply_EntryOut out)))])
      (pt_with_a, host0\<lparr> sh_fds := [2, 1] \<rparr>)"
    by (rule run_step [OF run_Nil])
  from passthrough_run_invariant [OF sim_libc_fds pt_new_eq this] show ?thesis
    by (simp add: sim_fds_def host0_def)
qed

text \<open>C12: Refinement of a specification that knows nothing but the number of references to each node: a
  reply that gives an entry to the kernel adds one reference to the node that it names, a forget
  request takes references away and removes nodes that have none, and no other request that is
  answered changes anything. A node that is new has a number that no reply gave out before.
\<close>

theorem passthrough_refines_counts:
  assumes "libc_fds L V" and "Passthrough_new X L source timeout k0 = Some (Ok self0, k1)"
    and "run_of (pt_step X L R ask pieces Ok) (self0, k1) es s" and "length es < 2 ^ 62"
    and "pt_step X L R ask pieces Ok s (op, r) s'"
  shows "counts_step op r (pt_counts (fst s)) (pt_counts (fst s')) \<and>
    (\<forall>i. pt_counts (fst s) i = None \<and> pt_counts (fst s') i \<noteq> None \<longrightarrow>
      (\<forall>e \<in> set es. entry_of (snd e) \<noteq> Some i))"
proof -
  have start: "pt_inv (fst (V k0)) V 0 (self0, k1)" by (rule Passthrough_new_inv [OF assms(2,1)])
  then have inv: "pt_inv (fst (V k0)) V (length es) s"
    using passthrough.run_inv [OF assms(3), where V = V] assms(1,4) by simp
  note given = pt_run_next [OF assms(3,1) start less_imp_le [OF assms(4)]]
  have "NodeID_into_raw i = next_ino_of s" if "pt_counts (fst s) i = None" "pt_counts (fst s') i \<noteq> None" for i
    using pt_step_new_node [OF assms(5,1) inv assms(4) that] .
  with given pt_step_counts [OF assms(5,1) inv assms(4)] show ?thesis by fastforce
qed

theorem passthrough_refines_counts_witness:
  "pt_counts pt_with_a = count_up node_two (pt_counts (root_only 1 (sim_stat 1) None))"
proof -
  obtain out where "pt_step linux_extern (sim_libc sim_stats) no_readdir (\<lambda>_ n. n) (\<lambda>bs. [bs]) sent
      (root_only 1 (sim_stat 1) None, host0\<lparr> sh_fds := [1] \<rparr>) (Lookup lookup_a, Ok (Some (Reply_EntryOut out)))
      (pt_with_a, host0\<lparr> sh_fds := [2, 1] \<rparr>)" "EntryOut_ino out = Some node_two"
    using lookup_a_step by blast
  from passthrough_refines_counts [OF sim_libc_fds pt_new_eq run_Nil _ this(1)] this(2) show ?thesis
    by (simp add: counts_step_def)
qed

text \<open>C39: A lookup whose file is the directory itself, as that of \<open>.\<close> is, never returns: the lock of the node is
  taken a second time. The filesystem announces \<open>EXPORT_SUPPORT\<close>, with which the kernel sends such requests.
\<close>

theorem passthrough_lookup_self_blocks:
  assumes "INodeTable_get (pt_inodes self) (Lookup_parent op) = Some inode"
    and "get_src (pt_inodes self) (pn_src_id inode) = Some (Lookup_parent op, inode)"
    and "FileDesc_openat L (pn_fd inode) (Lookup_name op) (O_PATH OR O_NOFOLLOW) k = Some (Ok fd, k1)"
    and "FileDesc_fstatat L fd [] AT_SYMLINK_NOFOLLOW k1 = Some (Ok stat, k2)"
    and "(st_ino stat, st_dev stat) = pn_src_id inode"
  shows "pt_lookup X L reply op (self, k) = None"
proof -
  have "do_lookup X L (Lookup_parent op) (Lookup_name op) (self, k) =
      lookup_src X L (Lookup_parent op) fd stat (self, k2)"
    using assms(1,3,4) by (simp add: do_lookup_def) (simp add: act_bind_def on_host_def act_on_fail_def)
  also have "\<dots> = None" using assms(2,5) by (simp add: lookup_src_def Let_def act_hang_def)
  finally show ?thesis by (simp add: pt_lookup_def act_bind_def)
qed

theorem passthrough_lookup_self_blocks_witness:
  "pt_lookup linux_extern (sim_libc (\<lambda>_. sim_stat 1)) sent \<lparr> Lookup_parent = NodeID_ROOT, Lookup_name = [46] \<rparr>
     (root_only 1 (sim_stat 1) None, host0) = None"
  by (rule passthrough_lookup_self_blocks [where inode = "root_node 1 (sim_stat 1)" and stat = "sim_stat 1"])
    (simp_all add: INodeTable_get_def get_src_def root_only_def root_node_def)

text \<open>C23: What was written is read back: when the file takes and gives at least a byte per call, a write request
  is answered with the size of its data, however the data is split, and a read request at the same
  place then returns the data, however much each call asks for.
\<close>

theorem passthrough_write_read:
  assumes "file_io L fd content pos" and "asks ask" and "\<And>bs. concat (pieces bs) = bs"
    and "HandlePool_get (opened_files self) (Write_fh op) = Some fd" and "unat (Write_offset op) < 2 ^ 63"
    and "length bs = unat (Write_size op)"
  shows "\<exists>k' k''. pt_write L pieces (Ok bs) reply op (self, k) = Some (reply (Reply_WriteOut (Write_size op)), (self, k')) \<and>
    content k' = write_at (unat (Write_offset op)) bs (content k) \<and>
    pt_read L ask reply \<lparr> Read_ino = Write_ino op, Read_fh = Write_fh op, Read_offset = Write_offset op,
      Read_size = Write_size op, Read_options = opts, Read_lock_owner = owner \<rparr> (self, k') =
      Some (reply (Reply_Raw bs), (self, k''))"
proof -
  obtain k1 where k1: "File_seek L fd (Write_offset op) k = Some (Ok (), k1)" "content k1 = content k" "pos k1 = unat (Write_offset op)"
    by (rule File_seek_content [OF assms(1,5)])
  obtain k2 where k2: "io_copy L fd (pieces bs) k1 = Some (Ok (length bs), k2)"
    "content k2 = write_at (unat (Write_offset op)) bs (content k)"
    using io_copy_content [OF assms(1), of "pieces bs" k1] assms(3) k1(2,3) by auto
  obtain k3 where k3: "File_seek L fd (Write_offset op) k2 = Some (Ok (), k3)" "content k3 = content k2" "pos k3 = unat (Write_offset op)"
    by (rule File_seek_content [OF assms(1,5)])
  obtain k4 where k4: "read_to_end L ask fd (unat (Write_size op)) [] k3 = Some (Ok bs, k4)"
    using read_to_end_content [OF assms(1,2), of "unat (Write_size op)" "[]" k3] k2(2) k3(2,3) assms(6)
    by (metis append_Nil take_write_at)
  have "pt_write L pieces (Ok bs) reply op (self, k) = Some (reply (Reply_WriteOut (Write_size op)), (self, k2))"
    using assms(4,6) k1(1) k2(1)
    by (simp add: pt_write_def pt_file_def act_bind_assoc) (simp add: act_bind_def on_host_def act_result_def)
  moreover have "pt_read L ask reply \<lparr> Read_ino = Write_ino op, Read_fh = Write_fh op, Read_offset = Write_offset op,
      Read_size = Write_size op, Read_options = opts, Read_lock_owner = owner \<rparr> (self, k2) =
      Some (reply (Reply_Raw bs), (self, k4))"
    using assms(4) k3(1) k4
    by (simp add: pt_read_def pt_file_def act_bind_assoc) (simp add: act_bind_def on_host_def act_result_def)
  ultimately show ?thesis using k2(2) by blast
qed

theorem passthrough_write_read_witness:
  "\<exists>k' k''. pt_write (sim_libc sim_stats) (\<lambda>bs. map (\<lambda>b. [b]) bs) (Ok [1, 2, 3]) sent
      \<lparr> Write_ino = NodeID_ROOT, Write_fh = FileID 0, Write_offset = 2, Write_size = 3,
        Write_options = OpenOptions_from_raw 0, Write_lock_owner = None, Write_flags = 0 \<rparr>
      ((root_only 1 (sim_stat 1) None)\<lparr> opened_files := Mapping.update 0 5 Mapping.empty \<rparr>, host0) =
      Some (Ok (Reply_WriteOut 3), ((root_only 1 (sim_stat 1) None)\<lparr> opened_files := Mapping.update 0 5 Mapping.empty \<rparr>, k')) \<and>
    sh_content k' = [0, 0, 1, 2, 3] \<and>
    pt_read (sim_libc sim_stats) (\<lambda>_ n. n) sent
      \<lparr> Read_ino = NodeID_ROOT, Read_fh = FileID 0, Read_offset = 2, Read_size = 3,
        Read_options = OpenOptions_from_raw 0, Read_lock_owner = None \<rparr>
      ((root_only 1 (sim_stat 1) None)\<lparr> opened_files := Mapping.update 0 5 Mapping.empty \<rparr>, k') =
      Some (Ok (Reply_Raw [1, 2, 3]), ((root_only 1 (sim_stat 1) None)\<lparr> opened_files := Mapping.update 0 5 Mapping.empty \<rparr>, k''))"
proof -
  have pieces: "concat (map (\<lambda>b. [b]) bs) = bs" for bs :: bytes by (induction bs) simp_all
  have content: "write_at 2 [1, 2, 3] (sh_content host0) = [0, 0, 1, 2, 3]"
    by (simp add: write_at_def host0_def numeral_2_eq_2)
  show ?thesis
    using passthrough_write_read [OF sim_file_io [of sim_stats 5] _ pieces, where ask = "\<lambda>_ n. n" and reply = sent
        and self = "(root_only 1 (sim_stat 1) None)\<lparr> opened_files := Mapping.update 0 5 Mapping.empty \<rparr>" and bs = "[1, 2, 3]"
        and op = "\<lparr> Write_ino = NodeID_ROOT, Write_fh = FileID 0, Write_offset = 2, Write_size = 3,
          Write_options = OpenOptions_from_raw 0, Write_lock_owner = None, Write_flags = 0 \<rparr>"
        and opts = "OpenOptions_from_raw 0" and owner = None and k = host0] content
    by (simp add: asks_def HandlePool_get_def)
qed

end
