(* ===== verification/Path_Through.thy ===== *)
theory Path_Through
  imports Host
begin

text \<open>
  The filesystem \<open>examples_disabled/path_through.rs\<close>, which passes operations on to a directory of the host
  by the paths of files. A node of the table stands for a path relative to that directory.
\<close>

section \<open>Paths\<close>

text \<open>\<open>Path::join\<close> on Unix.\<close>

definition slash :: u8 where
  "slash = 47"

definition path_join :: "bytes \<Rightarrow> bytes \<Rightarrow> bytes" where
  "path_join self path =
     (if path \<noteq> [] \<and> hd path = slash then path
      else if self = [] \<or> last self = slash then self @ path
      else self @ [slash] @ path)"

text \<open>
  Paths are equal when they have the same components: repeated and trailing separators do not count, nor
  does \<open>.\<close>, except at the start. The component of a leading separator is the separator.
\<close>

fun split_slash :: "bytes \<Rightarrow> bytes list" where
  "split_slash [] = [[]]"
| "split_slash (b # bs) =
     (if b = slash then [] # split_slash bs
      else case split_slash bs of [] \<Rightarrow> [[b]] | part # parts \<Rightarrow> (b # part) # parts)"

definition path_components :: "bytes \<Rightarrow> bytes list" where
  "path_components path =
     (let parts = split_slash path; keep = (\<lambda>part. part \<noteq> [] \<and> part \<noteq> as_bytes ''.'') in
      if path \<noteq> [] \<and> hd path = slash then [slash] # filter keep parts
      else
        (if hd parts = as_bytes ''.'' then [as_bytes ''.''] else []) @ filter keep parts)"

section \<open>The standard library\<close>

definition metadata_of_stat :: "libc_stat_dev \<Rightarrow> metadata" where
  "metadata_of_stat st =
     \<lparr> md_ino = st_ino st, md_size = st_size st, md_mode = st_mode st, md_nlink = st_nlink st,
       md_uid = st_uid st, md_gid = st_gid st, md_rdev = st_rdev st, md_blksize = st_blksize st,
       md_blocks = st_blocks st, md_atime = st_atime st, md_atime_nsec = st_atime_nsec st,
       md_mtime = st_mtime st, md_mtime_nsec = st_mtime_nsec st, md_ctime = st_ctime st,
       md_ctime_nsec = st_ctime_nsec st \<rparr>"

definition canonicalize :: "'k libc \<Rightarrow> bytes \<Rightarrow> ('k, bytes) act" where
  "canonicalize L path = act_bind (cstring path) (\<lambda>c_path. syscall (libc_realpath L c_path))"

definition symlink_metadata :: "'k libc \<Rightarrow> bytes \<Rightarrow> ('k, metadata) act" where
  "symlink_metadata L path =
     act_bind (cstring path) (\<lambda>c_path.
     act_bind (syscall (libc_lstat L c_path)) (\<lambda>st. act_ok (metadata_of_stat st)))"

text \<open>\<open>read_link\<close> tries again with a larger buffer when the one before was filled.\<close>

partial_function (option) read_link_buf ::
    "'k libc \<Rightarrow> bytes \<Rightarrow> nat \<Rightarrow> 'k \<Rightarrow> ((io_error, bytes) result \<times> 'k) option" where
  "read_link_buf L c_path capacity k =
     (case libc_readlink L c_path capacity k of
        (Ok buf, k) \<Rightarrow>
          if length buf \<noteq> capacity then Some (Ok buf, k) else read_link_buf L c_path (2 * capacity) k
      | (Err e, k) \<Rightarrow> Some (Err (OsError e), k)
      | (Panic, k) \<Rightarrow> Some (Panic, k))"

definition read_link :: "'k libc \<Rightarrow> bytes \<Rightarrow> ('k, bytes) act" where
  "read_link L path = act_bind (cstring path) (\<lambda>c_path. read_link_buf L c_path 256)"

text \<open>A \<open>ReadDir\<close> ends after an error, and passes over \<open>.\<close> and \<open>..\<close>.\<close>

record std_ReadDir =
  std_dirp :: dirp
  end_of_stream :: bool

definition std_read_dir :: "'k libc \<Rightarrow> bytes \<Rightarrow> ('k, std_ReadDir) act" where
  "std_read_dir L path =
     act_bind (cstring path) (\<lambda>c_path.
     act_bind (syscall (libc_opendir L c_path)) (\<lambda>dp.
     act_ok \<lparr> std_dirp = dp, end_of_stream = False \<rparr>))"

partial_function (option) std_ReadDir_next ::
    "'k libc \<Rightarrow> std_ReadDir \<Rightarrow> 'k \<Rightarrow>
      ((io_error, libc_dirent option) result \<times> std_ReadDir \<times> 'k) option" where
  "std_ReadDir_next L self k =
     (if end_of_stream self then Some (Ok None, self, k)
      else
        case libc_readdir L (std_dirp self) k of
          (Ok None, k) \<Rightarrow> Some (Ok None, self\<lparr> end_of_stream := True \<rparr>, k)
        | (Err e, k) \<Rightarrow> Some (Err (OsError e), self\<lparr> end_of_stream := True \<rparr>, k)
        | (Panic, k) \<Rightarrow> Some (Panic, self, k)
        | (Ok (Some entry), k) \<Rightarrow>
            if d_name entry \<in> dots then std_ReadDir_next L self k else Some (Ok (Some entry), self, k))"

text \<open>
  The reader \<open>BufReader::new(data).take(limit)\<close>: the bytes of its buffer that were not consumed, and the
  limit. \<open>read\<close> is \<open>io::Read::read\<close> of the data.
\<close>

type_synonym 'd data_read = "nat \<Rightarrow> 'd \<Rightarrow> (io_error, bytes) result \<times> 'd"

record 'd buf_reader =
  br_buf :: bytes
  br_limit :: nat
  br_inner :: 'd

definition fill_buf :: "'d data_read \<Rightarrow> 'd buf_reader \<Rightarrow> (io_error, bytes) result \<times> 'd buf_reader" where
  "fill_buf read self =
     (if br_limit self = 0 then (Ok [], self)
      else if br_buf self \<noteq> [] then (Ok (take (br_limit self) (br_buf self)), self)
      else
        let (r, d) = read 8192 (br_inner self) in
        (case r of
           Ok bs \<Rightarrow> (Ok (take (br_limit self) bs), self\<lparr> br_buf := bs, br_inner := d \<rparr>)
         | Err e \<Rightarrow> (Err e, self\<lparr> br_inner := d \<rparr>)
         | Panic \<Rightarrow> (Panic, self\<lparr> br_inner := d \<rparr>)))"

section \<open>The state\<close>

record pth_INode =
  pi_ino :: NodeID
  pi_path :: bytes
  pi_refcount :: u64

record pth_INodeTable =
  pth_map :: "(NodeID, pth_INode) mapping"
  path_to_ino :: "(bytes list, NodeID) mapping"
  pth_next_ino :: u64

definition pth_INodeTable_new :: pth_INodeTable where
  "pth_INodeTable_new = \<lparr> pth_map = Mapping.empty, path_to_ino = Mapping.empty, pth_next_ino = 1 \<rparr>"

definition pth_vacant_entry :: "pth_INodeTable \<Rightarrow> NodeID option" where
  "pth_vacant_entry self = NodeID_from_raw (pth_next_ino self)"

definition pth_get :: "pth_INodeTable \<Rightarrow> NodeID \<Rightarrow> pth_INode option" where
  "pth_get self ino = Mapping.lookup (pth_map self) ino"

definition get_by_path_mut :: "pth_INodeTable \<Rightarrow> bytes \<Rightarrow> (NodeID \<times> pth_INode) option" where
  "get_by_path_mut self path =
     (case Mapping.lookup (path_to_ino self) (path_components path) of
        None \<Rightarrow> None
      | Some ino \<Rightarrow> map_option (Pair ino) (Mapping.lookup (pth_map self) ino))"

definition pth_insert ::
    "extern \<Rightarrow> NodeID \<Rightarrow> pth_INode \<Rightarrow> pth_INodeTable \<Rightarrow> (io_error, unit) result \<times> pth_INodeTable" where
  "pth_insert X ino inode table =
     (let table = table
            \<lparr> pth_map := Mapping.update ino inode (pth_map table),
              path_to_ino := Mapping.update (path_components (pi_path inode)) ino (path_to_ino table) \<rparr>
      in case add_assign X (pth_next_ino table) 1 of
           None \<Rightarrow> (Panic, table)
         | Some n \<Rightarrow> (Ok (), table\<lparr> pth_next_ino := n \<rparr>))"

record pth_DirEntry =
  pde_name :: bytes
  pde_ino :: NodeID
  pde_typ :: "FileType option"

record DirHandle =
  dh_read_dir :: std_ReadDir
  dh_last_entry :: "pth_DirEntry option"
  dh_offset :: u64

record PathThrough =
  pth_source :: bytes
  pth_inodes :: pth_INodeTable
  pth_dirs :: "(nat, DirHandle) mapping"
  pth_files :: "(nat, fd) mapping"

type_synonym 'k pth_state = "PathThrough \<times> 'k"

definition PathThrough_new :: "extern \<Rightarrow> 'k libc \<Rightarrow> bytes \<Rightarrow> ('k, PathThrough) act" where
  "PathThrough_new X L source =
     act_bind (canonicalize L source) (\<lambda>source.
     act_bind (act_expect (pth_vacant_entry pth_INodeTable_new)) (\<lambda>ino.
     let (r, inodes) = pth_insert X ino
           \<lparr> pi_ino = NodeID_ROOT, pi_path = [], pi_refcount = (- 1) div 2 \<rparr> pth_INodeTable_new
     in act_bind (act_result r) (\<lambda>_.
        act_ok \<lparr> pth_source = source, pth_inodes = inodes, pth_dirs = Mapping.empty, pth_files = Mapping.empty \<rparr>)))"

definition pth_node :: "NodeID \<Rightarrow> ('k pth_state, pth_INode) act" where
  "pth_node ino = act_bind (act_get (\<lambda>s. pth_get (pth_inodes (fst s)) ino)) (\<lambda>v. act_errno v ENOENT)"

definition pth_file :: "FileID \<Rightarrow> ('k pth_state, fd) act" where
  "pth_file fh =
     act_bind (act_get (\<lambda>s. Mapping.lookup (pth_files (fst s)) (unat (FileID_into_raw fh)))) (\<lambda>v. act_errno v EINVAL)"

text \<open>\<open>self.source.join(&inode.path)\<close>.\<close>

definition source_path :: "bytes \<Rightarrow> ('k pth_state, bytes) act" where
  "source_path path = act_get (\<lambda>s. path_join (pth_source (fst s)) path)"

section \<open>Handlers of nodes\<close>

definition pth_put_inodes :: "pth_INodeTable \<Rightarrow> ('k pth_state, unit) act" where
  "pth_put_inodes inodes = act_put (apfst (\<lambda>self. self\<lparr> pth_inodes := inodes \<rparr>))"

definition find_or_insert :: "extern \<Rightarrow> bytes \<Rightarrow> ('k pth_state, NodeID) act" where
  "find_or_insert X path =
     act_bind (act_get (\<lambda>s. pth_inodes (fst s))) (\<lambda>inodes.
     case get_by_path_mut inodes path of
       Some (key, inode) \<Rightarrow>
         act_bind (act_expect (add_assign X (pi_refcount inode) 1)) (\<lambda>refcount.
         act_bind (pth_put_inodes
           (inodes\<lparr> pth_map := Mapping.update key (inode\<lparr> pi_refcount := refcount \<rparr>) (pth_map inodes) \<rparr>)) (\<lambda>_.
         act_ok (pi_ino inode)))
     | None \<Rightarrow>
         act_bind (act_expect (pth_vacant_entry inodes)) (\<lambda>ino.
         let (r, inodes) = pth_insert X ino \<lparr> pi_ino = ino, pi_path = path, pi_refcount = 1 \<rparr> inodes in
         act_bind (pth_put_inodes inodes) (\<lambda>_.
         act_bind (act_result r) (\<lambda>_. act_ok ino))))"

definition unwrap_attr :: "(TryIntoFileAttrError, FileAttr) result \<Rightarrow> (io_error, FileAttr) result" where
  "unwrap_attr r = (case r of Ok attr \<Rightarrow> Ok attr | _ \<Rightarrow> Panic)"

definition pth_lookup ::
    "extern \<Rightarrow> 'k libc \<Rightarrow> ('b, 'r) req_reply \<Rightarrow> Lookup \<Rightarrow> ('k pth_state, 'r) act" where
  "pth_lookup X L reply op =
     act_bind (pth_node (Lookup_parent op)) (\<lambda>parent.
     let path = path_join (pi_path parent) (Lookup_name op) in
     act_bind (source_path path) (\<lambda>host_path.
     act_bind (on_host (symlink_metadata L host_path)) (\<lambda>metadata.
     act_bind (act_result (unwrap_attr (FileAttr_try_from_metadata X metadata))) (\<lambda>attr.
     act_bind (find_or_insert X path) (\<lambda>ino.
     act_result (reply (Reply_EntryOut
       \<lparr> EntryOut_ino = Some ino, EntryOut_attr = attr, EntryOut_generation = 0,
         EntryOut_entry_valid = None, EntryOut_attr_valid = None \<rparr>)))))))"

definition pth_forget_one :: "NodeID \<Rightarrow> u64 \<Rightarrow> PathThrough \<Rightarrow> PathThrough" where
  "pth_forget_one ino nlookup self =
     (let inodes = pth_inodes self in
      case Mapping.lookup (pth_map inodes) ino of
        None \<Rightarrow> self
      | Some inode \<Rightarrow>
          let refcount = saturating_sub (pi_refcount inode) nlookup in
          self\<lparr> pth_inodes := inodes\<lparr> pth_map :=
            (if refcount = 0 then Mapping.delete ino (pth_map inodes)
             else Mapping.update ino (inode\<lparr> pi_refcount := refcount \<rparr>) (pth_map inodes)) \<rparr> \<rparr>)"

fun pth_forget :: "Forget list \<Rightarrow> ('k pth_state, unit) act" where
  "pth_forget [] = act_ok ()"
| "pth_forget (forget # forgets) =
     act_bind (act_result (Forget_ino forget)) (\<lambda>ino.
     act_bind (act_put (apfst (pth_forget_one ino (Forget_nlookup forget)))) (\<lambda>_. pth_forget forgets))"

definition pth_reply_attr ::
    "extern \<Rightarrow> 'k libc \<Rightarrow> ('b, 'r) req_reply \<Rightarrow> bytes \<Rightarrow> ('k pth_state, 'r) act" where
  "pth_reply_attr X L reply path =
     act_bind (source_path path) (\<lambda>host_path.
     act_bind (on_host (symlink_metadata L host_path)) (\<lambda>metadata.
     act_bind (act_result
       (case FileAttr_try_from_metadata X metadata of
          Ok attr \<Rightarrow> Ok attr | Err _ \<Rightarrow> Err (OsError EINVAL) | Panic \<Rightarrow> Panic)) (\<lambda>attr.
     act_result (reply (Reply_AttrOut \<lparr> AttrOut_attr = attr, AttrOut_valid = None \<rparr>)))))"

definition pth_getattr ::
    "extern \<Rightarrow> 'k libc \<Rightarrow> ('b, 'r) req_reply \<Rightarrow> Getattr \<Rightarrow> ('k pth_state, 'r) act" where
  "pth_getattr X L reply op =
     act_bind (pth_node (Getattr_ino op)) (\<lambda>inode. pth_reply_attr X L reply (pi_path inode))"

definition pth_setattr ::
    "extern \<Rightarrow> 'k libc \<Rightarrow> ('b, 'r) req_reply \<Rightarrow> Setattr \<Rightarrow> ('k pth_state, 'r) act" where
  "pth_setattr X L reply op =
     act_bind (act_errno (Setattr_fh op) ENOENT) (\<lambda>fh.
     act_bind (pth_file fh) (\<lambda>file.
     act_bind (on_host (File_sync_all L file)) (\<lambda>_.
     act_bind (pth_node (Setattr_ino op)) (\<lambda>inode.
     act_bind (source_path (pi_path inode)) (\<lambda>path.
     act_bind
       (case Setattr_mode op of
          None \<Rightarrow> act_ok ()
        | Some mode \<Rightarrow> on_host (File_set_permissions L file (FileMode_permissions X mode))) (\<lambda>_.
     act_bind
       (case Setattr_size op of None \<Rightarrow> act_ok () | Some len \<Rightarrow> on_host (File_set_len L file len)) (\<lambda>_.
     act_bind
       (if Setattr_uid op = None \<and> Setattr_gid op = None then act_ok ()
        else on_host (syscall (rustix_chown L path (Setattr_uid op) (Setattr_gid op)))) (\<lambda>_.
     pth_reply_attr X L reply (pi_path inode)))))))))"

definition pth_readlink :: "'k libc \<Rightarrow> ('b, 'r) req_reply \<Rightarrow> Readlink \<Rightarrow> ('k pth_state, 'r) act" where
  "pth_readlink L reply op =
     act_bind (pth_node (Readlink_ino op)) (\<lambda>inode.
     act_bind (source_path (pi_path inode)) (\<lambda>host_path.
     act_bind (on_host (read_link L host_path)) (\<lambda>path. act_result (reply (Reply_Raw path)))))"

section \<open>Handlers of directories\<close>

definition put_dir :: "nat \<Rightarrow> DirHandle \<Rightarrow> PathThrough \<Rightarrow> PathThrough" where
  "put_dir key dir self = self\<lparr> pth_dirs := Mapping.update key dir (pth_dirs self) \<rparr>"

definition pth_opendir ::
    "nat \<Rightarrow> 'k libc \<Rightarrow> ('b, 'r) req_reply \<Rightarrow> Opendir \<Rightarrow> ('k pth_state, 'r) act" where
  "pth_opendir key L reply op =
     act_bind (pth_node (Opendir_ino op)) (\<lambda>inode.
     act_bind (source_path (pi_path inode)) (\<lambda>host_path.
     act_bind (on_host (std_read_dir L host_path)) (\<lambda>read_dir.
     act_bind (act_put (apfst (put_dir key
       \<lparr> dh_read_dir = read_dir, dh_last_entry = None, dh_offset = 1 \<rparr>))) (\<lambda>_.
     act_result (reply (Reply_OpenOut
       \<lparr> OpenOut_fh = FileID (of_nat key), OpenOut_open_flags = 0, OpenOut_backing_id = 0 \<rparr>))))))"

definition entry_type :: "u32 \<Rightarrow> FileType option" where
  "entry_type mode =
     (if mode AND S_IFMT = S_IFREG then Some Regular
      else if mode AND S_IFMT = S_IFDIR then Some Directory
      else if mode AND S_IFMT = S_IFLNK then Some SymbolicLink
      else None)"

text \<open>
  The loop over the entries of the stream. The result is the buffer with the handle, as it is left in the
  table also when the loop ends with an error. An entry that does not fit is kept for the next request.
\<close>

partial_function (option) fill_entries ::
    "extern \<Rightarrow> 'k libc \<Rightarrow> 'b ReaddirOut \<Rightarrow> bool \<Rightarrow> 'b \<Rightarrow> DirHandle \<Rightarrow> 'k \<Rightarrow>
      ((io_error, 'b) result \<times> DirHandle \<times> 'k) option" where
  "fill_entries X L R at_least_one_entry buf dir k =
     (case std_ReadDir_next L (dh_read_dir dir) k of
        None \<Rightarrow> None
      | Some (Err e, rd, k) \<Rightarrow> Some (Err e, dir\<lparr> dh_read_dir := rd \<rparr>, k)
      | Some (Panic, rd, k) \<Rightarrow> Some (Panic, dir\<lparr> dh_read_dir := rd \<rparr>, k)
      | Some (Ok None, rd, k) \<Rightarrow> Some (Ok buf, dir\<lparr> dh_read_dir := rd \<rparr>, k)
      | Some (Ok (Some entry), rd, k) \<Rightarrow>
          let dir = dir\<lparr> dh_read_dir := rd \<rparr> in
          if d_name entry \<in> dots then fill_entries X L R at_least_one_entry buf dir k
          else
            (case libc_fstatat L (libc_dirfd L (std_dirp rd) k) (d_name entry) AT_SYMLINK_NOFOLLOW k of
               (Err e, k) \<Rightarrow> Some (Err (OsError e), dir, k)
             | (Panic, k) \<Rightarrow> Some (Panic, dir, k)
             | (Ok st, k) \<Rightarrow>
                 (case NodeID_from_raw (st_ino st) of
                    None \<Rightarrow> Some (Panic, dir, k)
                  | Some ino \<Rightarrow>
                      let typ = entry_type (st_mode st) in
                      (case ReaddirOut_push_entry R buf (d_name entry) ino typ (dh_offset dir) of
                         (full, buf) \<Rightarrow>
                           if full then
                             Some
                               (if at_least_one_entry then Ok buf else Err (OsError ERANGE),
                                dir\<lparr> dh_last_entry := Some \<lparr> pde_name = d_name entry, pde_ino = ino, pde_typ = typ \<rparr> \<rparr>, k)
                           else
                             (case add_assign X (dh_offset dir) 1 of
                                None \<Rightarrow> Some (Panic, dir, k)
                              | Some n \<Rightarrow> fill_entries X L R True buf (dir\<lparr> dh_offset := n \<rparr>) k)))))"

definition read_entries ::
    "extern \<Rightarrow> 'k libc \<Rightarrow> 'b ReaddirOut \<Rightarrow> nat \<Rightarrow> DirHandle \<Rightarrow> 'k \<Rightarrow>
      ((io_error, 'b) result \<times> DirHandle \<times> 'k) option" where
  "read_entries X L R len dir k =
     (let buf = ReaddirOut_new R len in
      case dh_last_entry dir of
        None \<Rightarrow> fill_entries X L R False buf dir k
      | Some entry \<Rightarrow>
          (case ReaddirOut_push_entry R buf (pde_name entry) (pde_ino entry) (pde_typ entry) (dh_offset dir) of
             (full, buf) \<Rightarrow>
               if full then Some (Err (OsError ERANGE), dir, k)
               else
                 let dir = dir\<lparr> dh_last_entry := None \<rparr> in
                 (case add_assign X (dh_offset dir) 1 of
                    None \<Rightarrow> Some (Panic, dir, k)
                  | Some n \<Rightarrow> fill_entries X L R True buf (dir\<lparr> dh_offset := n \<rparr>) k)))"

definition pth_readdir ::
    "extern \<Rightarrow> 'k libc \<Rightarrow> 'b ReaddirOut \<Rightarrow> ('b, 'r) req_reply \<Rightarrow> Readdir \<Rightarrow> ('k pth_state, 'r) act" where
  "pth_readdir X L R reply op =
     (if Readdir_mode op = ReaddirMode_Plus then act_err ENOSYS
      else
        let key = unat (FileID_into_raw (Readdir_fh op)) in
        act_bind (act_get (\<lambda>s. Mapping.lookup (pth_dirs (fst s)) key)) (\<lambda>v.
        act_bind (act_errno v EINVAL) (\<lambda>dir.
        act_bind
          (\<lambda>(self, k).
             map_option (\<lambda>(r, dir, k). (r, (put_dir key dir self, k)))
               (read_entries X L R (unat (Readdir_size op)) dir k)) (\<lambda>buf.
        act_result (reply (Reply_ReaddirOut buf))))))"

definition pth_releasedir :: "'k libc \<Rightarrow> ('b, 'r) req_reply \<Rightarrow> Releasedir \<Rightarrow> ('k pth_state, 'r) act" where
  "pth_releasedir L reply op =
     (let key = unat (FileID_into_raw (Releasedir_fh op)) in
      act_bind (act_get (\<lambda>s. Mapping.lookup (pth_dirs (fst s)) key)) (\<lambda>v.
      act_bind (act_expect v) (\<lambda>dir.
      act_bind (act_put (apfst (\<lambda>self. self\<lparr> pth_dirs := Mapping.delete key (pth_dirs self) \<rparr>))) (\<lambda>_.
      act_finally (act_result (reply Reply_Unit)) (apsnd (libc_closedir L (std_dirp (dh_read_dir dir))))))))"

section \<open>Handlers of files\<close>

definition FileHandle_read :: "'k libc \<Rightarrow> asking \<Rightarrow> fd \<Rightarrow> u64 \<Rightarrow> nat \<Rightarrow> ('k, bytes) act" where
  "FileHandle_read L ask self offset len =
     act_bind (File_seek L self offset) (\<lambda>_. read_to_end L ask self len [])"

text \<open>The loop of \<open>write\<close>: what was written is not consumed from the reader.\<close>

partial_function (option) write_loop ::
    "extern \<Rightarrow> 'k libc \<Rightarrow> ('d \<Rightarrow> (io_error, bytes) result \<times> 'd) \<Rightarrow> fd \<Rightarrow> 'd \<Rightarrow> u64 \<Rightarrow> 'k \<Rightarrow>
      ((io_error, u64) result \<times> 'k) option" where
  "write_loop X L fill self data written k =
     (case fill data of
        (Err e, _) \<Rightarrow> Some (Err e, k)
      | (Panic, _) \<Rightarrow> Some (Panic, k)
      | (Ok chunk, data) \<Rightarrow>
          if chunk = [] then Some (Ok written, k)
          else
            (case libc_write L self chunk k of
               (Err e, k) \<Rightarrow> Some (Err (OsError e), k)
             | (Panic, k) \<Rightarrow> Some (Panic, k)
             | (Ok n, k) \<Rightarrow>
                 (case add_assign X written (of_nat n) of
                    None \<Rightarrow> Some (Panic, k)
                  | Some written \<Rightarrow> write_loop X L fill self data written k)))"

definition FileHandle_write ::
    "extern \<Rightarrow> 'k libc \<Rightarrow> ('d \<Rightarrow> (io_error, bytes) result \<times> 'd) \<Rightarrow> fd \<Rightarrow> 'd \<Rightarrow> u64 \<Rightarrow> ('k, u64) act" where
  "FileHandle_write X L fill self data offset =
     act_bind (File_seek L self offset) (\<lambda>_. write_loop X L fill self data 0)"

definition FileHandle_fsync :: "'k libc \<Rightarrow> fd \<Rightarrow> bool \<Rightarrow> ('k, unit) act" where
  "FileHandle_fsync L self datasync = (if datasync then File_sync_data L self else File_sync_all L self)"

definition pth_open ::
    "nat \<Rightarrow> extern \<Rightarrow> 'k libc \<Rightarrow> ('b, 'r) req_reply \<Rightarrow> Open \<Rightarrow> ('k pth_state, 'r) act" where
  "pth_open key X L reply op =
     act_bind (pth_node (Open_ino op)) (\<lambda>inode.
     let options = OpenOptions_into_std X (without_nofollow X (Open_options op)) in
     act_bind (source_path (pi_path inode)) (\<lambda>host_path.
     act_bind (on_host (File_open L options host_path)) (\<lambda>file.
     act_bind (act_put (apfst (\<lambda>self. self\<lparr> pth_files := Mapping.update key file (pth_files self) \<rparr>))) (\<lambda>_.
     act_result (reply (Reply_OpenOut
       \<lparr> OpenOut_fh = FileID (of_nat key), OpenOut_open_flags = FOPEN_DIRECT_IO, OpenOut_backing_id = 0 \<rparr>))))))"

definition pth_read ::
    "'k libc \<Rightarrow> asking \<Rightarrow> ('b, 'r) req_reply \<Rightarrow> Read \<Rightarrow> ('k pth_state, 'r) act" where
  "pth_read L ask reply op =
     act_bind (pth_file (Read_fh op)) (\<lambda>file.
     act_bind (on_host (FileHandle_read L ask file (Read_offset op) (unat (Read_size op)))) (\<lambda>buf.
     act_result (reply (Reply_Raw buf))))"

definition pth_write ::
    "extern \<Rightarrow> 'k libc \<Rightarrow> 'd data_read \<Rightarrow> 'd \<Rightarrow> ('b, 'r) req_reply \<Rightarrow> Write \<Rightarrow> ('k pth_state, 'r) act" where
  "pth_write X L read data reply op =
     act_bind (pth_file (Write_fh op)) (\<lambda>file.
     act_bind (on_host (FileHandle_write X L (fill_buf read) file
       \<lparr> br_buf = [], br_limit = unat (Write_size op), br_inner = data \<rparr> (Write_offset op))) (\<lambda>written.
     act_result (reply (Reply_WriteOut (ucast written)))))"

definition pth_flush :: "'k libc \<Rightarrow> ('b, 'r) req_reply \<Rightarrow> Flush \<Rightarrow> ('k pth_state, 'r) act" where
  "pth_flush L reply op =
     act_bind (pth_file (Flush_fh op)) (\<lambda>file.
     act_bind (on_host (FileHandle_fsync L file False)) (\<lambda>_. act_result (reply Reply_Unit)))"

definition pth_fsync :: "'k libc \<Rightarrow> ('b, 'r) req_reply \<Rightarrow> Fsync \<Rightarrow> ('k pth_state, 'r) act" where
  "pth_fsync L reply op =
     act_bind (pth_file (Fsync_fh op)) (\<lambda>file.
     act_bind (on_host (FileHandle_fsync L file (Fsync_datasync op))) (\<lambda>_. act_result (reply Reply_Unit)))"

definition pth_release :: "'k libc \<Rightarrow> ('b, 'r) req_reply \<Rightarrow> Release \<Rightarrow> ('k pth_state, 'r) act" where
  "pth_release L reply op =
     (let key = unat (FileID_into_raw (Release_fh op)) in
      act_bind (act_get (\<lambda>s. Mapping.lookup (pth_files (fst s)) key)) (\<lambda>v.
      act_bind (act_expect v) (\<lambda>file.
      act_bind (act_put (apfst (\<lambda>self. self\<lparr> pth_files := Mapping.delete key (pth_files self) \<rparr>))) (\<lambda>_.
      act_finally (act_result (reply Reply_Unit)) (apsnd (libc_close L file))))))"

end
