(* ===== verification/Path_Through_Props.thy ===== *)
theory Path_Through_Props
  imports Path_Through Nix Runs
begin

text \<open>
  Properties of the filesystem \<open>path_through.rs\<close>: nodes and paths correspond in every state it can reach,
  a directory is listed completely and in order however the buffers are sized, and a write of any data
  does not come to an end.
\<close>

section \<open>Steps\<close>

inductive pth_step ::
    "extern \<Rightarrow> 'k libc \<Rightarrow> 'b ReaddirOut \<Rightarrow> asking \<Rightarrow> 'd data_read \<Rightarrow> ('b, 'r) req_reply \<Rightarrow>
      'k pth_state \<Rightarrow> Operation \<times> (io_error, 'r option) result \<Rightarrow> 'k pth_state \<Rightarrow> bool"
  for X L R ask read reply where
  pth_step_lookup: "answered (pth_lookup X L reply op) s = Some (r, s') \<Longrightarrow> pth_step X L R ask read reply s (Lookup op, r) s'"
| pth_step_forget: "act_bind (pth_forget (Forgets_deref forgets)) (\<lambda>_. act_ok None) s = Some (r, s') \<Longrightarrow>
    pth_step X L R ask read reply s (Forget_op forgets, r) s'"
| pth_step_getattr: "answered (pth_getattr X L reply op) s = Some (r, s') \<Longrightarrow> pth_step X L R ask read reply s (Getattr op, r) s'"
| pth_step_setattr: "answered (pth_setattr X L reply op) s = Some (r, s') \<Longrightarrow> pth_step X L R ask read reply s (Setattr op, r) s'"
| pth_step_readlink: "answered (pth_readlink L reply op) s = Some (r, s') \<Longrightarrow> pth_step X L R ask read reply s (Readlink op, r) s'"
| pth_step_opendir: "answered (pth_opendir key L reply op) s = Some (r, s') \<Longrightarrow>
    Mapping.lookup (pth_dirs (fst s)) key = None \<Longrightarrow> pth_step X L R ask read reply s (Opendir op, r) s'"
| pth_step_readdir: "answered (pth_readdir X L R reply op) s = Some (r, s') \<Longrightarrow> pth_step X L R ask read reply s (Readdir op, r) s'"
| pth_step_releasedir: "answered (pth_releasedir L reply op) s = Some (r, s') \<Longrightarrow> pth_step X L R ask read reply s (Releasedir op, r) s'"
| pth_step_open: "answered (pth_open key X L reply op) s = Some (r, s') \<Longrightarrow>
    Mapping.lookup (pth_files (fst s)) key = None \<Longrightarrow> pth_step X L R ask read reply s (Open op, r) s'"
| pth_step_read: "answered (pth_read L ask reply op) s = Some (r, s') \<Longrightarrow> pth_step X L R ask read reply s (Read op, r) s'"
| pth_step_write: "answered (pth_write X L read data reply op) s = Some (r, s') \<Longrightarrow> pth_step X L R ask read reply s (Write op, r) s'"
| pth_step_flush: "answered (pth_flush L reply op) s = Some (r, s') \<Longrightarrow> pth_step X L R ask read reply s (Flush op, r) s'"
| pth_step_fsync: "answered (pth_fsync L reply op) s = Some (r, s') \<Longrightarrow> pth_step X L R ask read reply s (Fsync op, r) s'"
| pth_step_release: "answered (pth_release L reply op) s = Some (r, s') \<Longrightarrow> pth_step X L R ask read reply s (Release op, r) s'"

section \<open>Nodes and paths\<close>

definition pth_node_ok :: "nat \<Rightarrow> pth_INodeTable \<Rightarrow> NodeID \<Rightarrow> pth_INode \<Rightarrow> bool" where
  "pth_node_ok n t ino inode \<longleftrightarrow>
     pi_ino inode = ino \<and> Mapping.lookup (path_to_ino t) (path_components (pi_path inode)) = Some ino \<and>
     0 < pi_refcount inode \<and> unat (pi_refcount inode) \<le> 2 ^ 63 + n"

definition pth_table_inv :: "nat \<Rightarrow> pth_INodeTable \<Rightarrow> bool" where
  "pth_table_inv n t \<longleftrightarrow>
     (\<forall>ino inode. Mapping.lookup (pth_map t) ino = Some inode \<longrightarrow> pth_node_ok n t ino inode) \<and>
     (\<forall>path ino. Mapping.lookup (path_to_ino t) path = Some ino \<longrightarrow>
        NodeID_into_raw ino < pth_next_ino t \<and>
        (\<forall>inode. Mapping.lookup (pth_map t) ino = Some inode \<longrightarrow> path_components (pi_path inode) = path)) \<and>
     0 < pth_next_ino t \<and> unat (pth_next_ino t) \<le> n + 2"

lemma pth_table_invD:
  assumes "pth_table_inv n t"
  shows "Mapping.lookup (pth_map t) ino = Some inode \<Longrightarrow> pth_node_ok n t ino inode"
    "Mapping.lookup (path_to_ino t) path = Some ino \<Longrightarrow> NodeID_into_raw ino < pth_next_ino t"
    "Mapping.lookup (path_to_ino t) path = Some ino \<Longrightarrow> Mapping.lookup (pth_map t) ino = Some inode \<Longrightarrow>
      path_components (pi_path inode) = path"
    "0 < pth_next_ino t" "unat (pth_next_ino t) \<le> n + 2"
  using assms unfolding pth_table_inv_def by blast+

lemma pth_table_inv_Suc: "pth_table_inv n t \<Longrightarrow> pth_table_inv (Suc n) t"
  by (force simp: pth_table_inv_def pth_node_ok_def)

lemma pth_map_update_inv:
  assumes inv: "pth_table_inv n t" and "Mapping.lookup (pth_map t) ino = Some inode"
    and "0 < c" and "unat c \<le> 2 ^ 63 + n"
  shows "pth_table_inv n (t\<lparr> pth_map := Mapping.update ino (inode\<lparr> pi_refcount := c \<rparr>) (pth_map t) \<rparr>)"
  using assms by (auto simp: pth_table_inv_def pth_node_ok_def)

lemma pth_map_delete_inv:
  "pth_table_inv n t \<Longrightarrow> pth_table_inv n (t\<lparr> pth_map := Mapping.delete ino (pth_map t) \<rparr>)"
  by (auto simp: pth_table_inv_def pth_node_ok_def)

lemma pth_insert_inv:
  assumes inv: "pth_table_inv n t" and n: "n < 2 ^ 62" and ino: "NodeID_from_raw (pth_next_ino t) = Some ino"
    and new: "get_by_path_mut t path = None"
    and r: "pth_insert X ino \<lparr> pi_ino = ino, pi_path = path, pi_refcount = 1 \<rparr> t = (r, t')"
  shows "pth_table_inv (Suc n) t'"
proof -
  have raw: "NodeID_into_raw ino = pth_next_ino t" using ino by (simp add: NodeID_from_raw_Some)
  have next': "add_assign X (pth_next_ino t) 1 = Some (pth_next_ino t + 1)"
    using pth_table_invD(5) [OF inv] n by (simp add: add_assign_Some)
  have unat: "unat (pth_next_ino t + 1) = Suc (unat (pth_next_ino t))"
    using pth_table_invD(5) [OF inv] n by (simp add: unat_word_ariths)
  have lt: "pth_next_ino t < pth_next_ino t + 1" using unat by (simp add: word_less_nat_alt)
  have t': "t' = \<lparr> pth_map = Mapping.update ino \<lparr> pi_ino = ino, pi_path = path, pi_refcount = 1 \<rparr> (pth_map t),
      path_to_ino = Mapping.update (path_components path) ino (path_to_ino t), pth_next_ino = pth_next_ino t + 1 \<rparr>"
    using r next' by (cases t) (auto simp: pth_insert_def Let_def)
  have old: "ino' \<noteq> ino" if "Mapping.lookup (path_to_ino t) p = Some ino'" for ino' p
    using pth_table_invD(2) [OF inv that] raw by auto
  have other: "path_components (pi_path inode) \<noteq> path_components path"
    if "Mapping.lookup (pth_map t) ino' = Some inode" for ino' inode
    using pth_table_invD(1) [OF inv that] new that
    by (auto simp: pth_node_ok_def get_by_path_mut_def)
  show ?thesis
    unfolding pth_table_inv_def
  proof (intro conjI allI impI)
    fix ino' inode assume "Mapping.lookup (pth_map t') ino' = Some inode"
    then show "pth_node_ok (Suc n) t' ino' inode"
      using pth_table_invD(1) [OF inv, of ino' inode] other [of ino' inode]
      by (auto simp: t' pth_node_ok_def split: if_splits)
  next
    fix p ino' assume p: "Mapping.lookup (path_to_ino t') p = Some ino'"
    then show "NodeID_into_raw ino' < pth_next_ino t'"
      using pth_table_invD(2) [OF inv, of p ino'] raw lt by (auto simp: t' split: if_splits)
    fix inode assume "Mapping.lookup (pth_map t') ino' = Some inode"
    then show "path_components (pi_path inode) = p"
      using p pth_table_invD(3) [OF inv, of p ino' inode] old [of p ino'] by (auto simp: t' split: if_splits)
  next
    show "0 < pth_next_ino t'" using unat by (simp add: t' word_less_nat_alt)
    show "unat (pth_next_ino t') \<le> Suc n + 2" using pth_table_invD(5) [OF inv] by (simp add: t' unat)
  qed
qed

lemma find_or_insert_inv:
  assumes "find_or_insert X path s = Some (r, s')" and inv: "pth_table_inv n (pth_inodes (fst s))" and n: "n < 2 ^ 62"
  shows "pth_table_inv (Suc n) (pth_inodes (fst s'))"
proof (cases "get_by_path_mut (pth_inodes (fst s)) path")
  case None
  obtain ino where ino: "NodeID_from_raw (pth_next_ino (pth_inodes (fst s))) = Some ino"
    using pth_table_invD(4) [OF inv]
    by (cases "NodeID_from_raw (pth_next_ino (pth_inodes (fst s)))") (auto simp: NodeID_from_raw_None)
  obtain q t' where t': "pth_insert X ino \<lparr> pi_ino = ino, pi_path = path, pi_refcount = 1 \<rparr> (pth_inodes (fst s)) = (q, t')"
    by (cases "pth_insert X ino \<lparr> pi_ino = ino, pi_path = path, pi_refcount = 1 \<rparr> (pth_inodes (fst s))")
  from assms(1) None ino t' have "pth_inodes (fst s') = t'"
    by (cases q) (auto simp: find_or_insert_def pth_vacant_entry_def pth_put_inodes_def handler)
  with pth_insert_inv [OF inv n ino None t'] show ?thesis by simp
next
  case (Some x)
  then obtain ino inode where x: "get_by_path_mut (pth_inodes (fst s)) path = Some (ino, inode)" by (cases x) auto
  then have node: "Mapping.lookup (pth_map (pth_inodes (fst s))) ino = Some inode"
    by (auto simp: get_by_path_mut_def split: option.splits)
  let ?c = "pi_refcount inode"
  have c: "unat ?c \<le> 2 ^ 63 + n" using pth_table_invD(1) [OF inv node] by (simp add: pth_node_ok_def)
  then have unat: "unat (?c + 1) = Suc (unat ?c)" using n by (simp add: unat_word_ariths)
  have "add_assign X ?c 1 = Some (?c + 1)" using c n by (simp add: add_assign_Some)
  with assms(1) x have "pth_inodes (fst s') = (pth_inodes (fst s))
      \<lparr> pth_map := Mapping.update ino (inode\<lparr> pi_refcount := ?c + 1 \<rparr>) (pth_map (pth_inodes (fst s))) \<rparr>"
    by (auto simp: find_or_insert_def pth_put_inodes_def handler)
  moreover have "0 < ?c + 1" "unat (?c + 1) \<le> 2 ^ 63 + Suc n" using c unat by (simp_all add: word_less_nat_alt)
  ultimately show ?thesis using pth_map_update_inv [OF pth_table_inv_Suc [OF inv] node] by simp
qed

lemma pth_forget_one_inv:
  assumes inv: "pth_table_inv n (pth_inodes self)"
  shows "pth_table_inv n (pth_inodes (pth_forget_one ino nlookup self))"
proof (cases "Mapping.lookup (pth_map (pth_inodes self)) ino")
  case (Some inode)
  let ?c = "saturating_sub (pi_refcount inode) nlookup"
  have "unat ?c \<le> unat (pi_refcount inode)" by (simp add: saturating_sub_def word_le_nat_alt unat_sub)
  moreover have "unat (pi_refcount inode) \<le> 2 ^ 63 + n" using pth_table_invD(1) [OF inv Some] by (simp add: pth_node_ok_def)
  ultimately have "unat ?c \<le> 2 ^ 63 + n" by simp
  with pth_map_update_inv [OF inv Some, of ?c] pth_map_delete_inv [OF inv] show ?thesis
    by (auto simp: pth_forget_one_def Some Let_def word_neq_0_conv)
qed (use inv in \<open>simp add: pth_forget_one_def\<close>)

lemma pth_forget_inv:
  "pth_forget forgets s = Some (r, s') \<Longrightarrow> pth_table_inv n (pth_inodes (fst s)) \<Longrightarrow> pth_table_inv n (pth_inodes (fst s'))"
  by (induction forgets arbitrary: s) (fastforce simp: handler intro: pth_forget_one_inv)+

section \<open>Handlers that do not change the table\<close>

definition same_inodes :: "'k pth_state \<Rightarrow> 'k pth_state \<Rightarrow> bool" where
  "same_inodes s s' \<longleftrightarrow> pth_inodes (fst s') = pth_inodes (fst s)"

interpretation same_inodes: preorder_rel same_inodes
  by unfold_locales (simp_all add: same_inodes_def)

lemma same_inodes_rules:
  "act_rel same_inodes (on_host m)"
  "(\<And>self. pth_inodes (f self) = pth_inodes self) \<Longrightarrow> act_rel same_inodes (act_put (apfst f))"
  "act_rel same_inodes m' \<Longrightarrow> act_rel same_inodes (act_finally m' (apsnd g))"
  by (auto simp: act_rel_def act_put_eq act_finally_eq on_host_eq same_inodes_def)

lemmas same_inodes_keeps = same_inodes_rules act_rel_cases
  same_inodes.rel_result same_inodes.rel_get same_inodes.rel_errno same_inodes.rel_expect same_inodes.rel_bind

lemma same_inodes_access:
  "act_rel same_inodes (pth_node ino)" "act_rel same_inodes (pth_file fh)" "act_rel same_inodes (source_path path)"
  "act_rel same_inodes (pth_reply_attr X L reply path)"
  unfolding pth_node_def pth_file_def source_path_def pth_reply_attr_def
  by (intro same_inodes_keeps)+

lemma same_inodes_readdir: "act_rel same_inodes (pth_readdir X L R reply op)"
proof -
  have "act_rel same_inodes (\<lambda>(self, k).
      map_option (\<lambda>(r, dir, k). (r, (put_dir key dir self, k))) (m self k))" for key m
    by (auto intro!: act_relI simp: same_inodes_def put_dir_def)
  then show ?thesis unfolding pth_readdir_def Let_def by (intro same_inodes_keeps)
qed

lemma same_inodes_handlers:
  "act_rel same_inodes (pth_getattr X L reply op1)" "act_rel same_inodes (pth_setattr X L reply op2)"
  "act_rel same_inodes (pth_readlink L reply op3)" "act_rel same_inodes (pth_opendir key L reply op4)"
  "act_rel same_inodes (pth_releasedir L reply op5)" "act_rel same_inodes (pth_open key X L reply op6)"
  "act_rel same_inodes (pth_read L ask reply op7)" "act_rel same_inodes (pth_write X L read data reply op8)"
  "act_rel same_inodes (pth_flush L reply op9)" "act_rel same_inodes (pth_fsync L reply op10)"
  "act_rel same_inodes (pth_release L reply op11)"
  unfolding pth_getattr_def pth_setattr_def pth_readlink_def pth_opendir_def pth_releasedir_def pth_open_def
    pth_read_def pth_write_def pth_flush_def pth_fsync_def pth_release_def Let_def
  by (intro same_inodes_keeps same_inodes_access; simp add: put_dir_def)+

lemma pth_lookup_inv:
  assumes "pth_lookup X L reply op s = Some (r, s')" and inv: "pth_table_inv n (pth_inodes (fst s))" and n: "n < 2 ^ 62"
  shows "pth_table_inv (Suc n) (pth_inodes (fst s'))"
proof -
  note same = act_relD [OF same_inodes_access(1), unfolded same_inodes_def]
    act_relD [OF same_inodes_access(3), unfolded same_inodes_def]
  have "pth_table_inv (Suc n) (pth_inodes (fst t'))"
    if "find_or_insert X path t = Some (q, t')" "pth_inodes (fst t) = pth_inodes (fst s)" for path t q t'
    using find_or_insert_inv [OF that(1) _ n] inv that(2) by simp
  with assms(1) pth_table_inv_Suc [OF inv] show ?thesis
    by (cases s') (auto simp: pth_lookup_def Let_def act_bind_eq act_result_eq on_host_eq dest!: same)
qed

lemma answered_state: "answered m s = Some (r, s') \<Longrightarrow> \<exists>q. m s = Some (q, s')"
  by (auto simp: answered_def handler)

interpretation path_through: counted_machine "pth_step X L R ask read reply"
    "\<lambda>n s. pth_table_inv n (pth_inodes (fst s))" "2 ^ 62" for X L R ask read reply
proof
  fix s e s' n
  assume "pth_step X L R ask read reply s e s'" and inv: "pth_table_inv n (pth_inodes (fst s))" and n: "n < 2 ^ 62"
  moreover have same: "pth_table_inv (Suc n) (pth_inodes (fst s'))" if "act_rel same_inodes m" "answered m s = Some (r, s')" for m r
    using answered_state [OF that(2)] act_relD [OF that(1)] pth_table_inv_Suc [OF inv] unfolding same_inodes_def by metis
  ultimately show "pth_table_inv (Suc n) (pth_inodes (fst s'))"
  proof (cases rule: pth_step.cases)
    case (pth_step_lookup op r)
    from answered_state [OF pth_step_lookup(2)] show ?thesis by (elim exE) (rule pth_lookup_inv [OF _ inv n])
  next
    case (pth_step_forget forgets r)
    then obtain q where "pth_forget (Forgets_deref forgets) s = Some (q, s')" by (auto simp: act_bind_eq act_result_eq)
    then show ?thesis by (rule pth_forget_inv [OF _ pth_table_inv_Suc [OF inv]])
  qed (erule same [rotated]; rule same_inodes_handlers same_inodes_readdir)+
qed

text \<open>The filesystem before the first request.\<close>

definition pth_root_only :: "bytes \<Rightarrow> PathThrough" where
  "pth_root_only source =
     \<lparr> pth_source = source,
       pth_inodes =
         \<lparr> pth_map = Mapping.update NodeID_ROOT
             \<lparr> pi_ino = NodeID_ROOT, pi_path = [], pi_refcount = (- 1) div 2 \<rparr> Mapping.empty,
           path_to_ino = Mapping.update (path_components []) NodeID_ROOT Mapping.empty, pth_next_ino = 2 \<rparr>,
       pth_dirs = Mapping.empty, pth_files = Mapping.empty \<rparr>"

lemma PathThrough_new_eq:
  "PathThrough_new X L source = act_bind (canonicalize L source) (\<lambda>source. act_ok (pth_root_only source))"
proof -
  have "pth_vacant_entry pth_INodeTable_new = Some NodeID_ROOT"
    by (simp add: pth_vacant_entry_def pth_INodeTable_new_def)
  moreover have "pth_insert X NodeID_ROOT \<lparr> pi_ino = NodeID_ROOT, pi_path = [], pi_refcount = (- 1) div 2 \<rparr> pth_INodeTable_new =
      (Ok (), pth_inodes (pth_root_only source))" for source
    by (simp add: pth_insert_def pth_INodeTable_new_def pth_root_only_def add_assign_def)
  ultimately show ?thesis by (simp add: PathThrough_new_def) (simp add: pth_root_only_def)
qed

lemma pth_root_only_inv: "pth_table_inv 0 (pth_inodes (pth_root_only source))"
proof -
  have "pth_node_ok 0 (pth_inodes (pth_root_only source)) NodeID_ROOT
      \<lparr> pi_ino = NodeID_ROOT, pi_path = [], pi_refcount = (- 1) div 2 \<rparr>"
    by (simp add: pth_node_ok_def pth_root_only_def)
  then show ?thesis by (simp add: pth_table_inv_def pth_root_only_def)
qed

lemma PathThrough_new_inv:
  "PathThrough_new X L source k0 = Some (Ok self, k) \<Longrightarrow> pth_table_inv 0 (pth_inodes self)"
  by (auto simp: PathThrough_new_eq act_bind_eq act_result_eq intro: pth_root_only_inv)

section \<open>Listing a directory\<close>

text \<open>
  What is assumed of the buffer of entries, as the protocol has it: the entries in the order in which
  they were pushed, with their offsets. An entry that does not fit changes nothing.
\<close>

definition readdir_buffer :: "'b ReaddirOut \<Rightarrow> ('b \<Rightarrow> (pth_DirEntry \<times> u64) list) \<Rightarrow> bool" where
  "readdir_buffer R entries \<longleftrightarrow>
     (\<forall>n. entries (ReaddirOut_new R n) = []) \<and>
     (\<forall>buf name ino typ off. case ReaddirOut_push_entry R buf name ino typ off of (full, buf') \<Rightarrow>
        entries buf' =
          (if full then entries buf
           else entries buf @ [(\<lparr> pde_name = name, pde_ino = ino, pde_typ = typ \<rparr>, off)]))"

text \<open>
  And of a directory that nobody changes while it is listed: the stream gives the entries \<open>rest\<close> one
  after another, all of them with names of the directory, and for those names \<open>stat\<close> are the
  attributes, which can be read at any time.
\<close>

definition dir_stream ::
    "'k libc \<Rightarrow> dirp \<Rightarrow> bytes set \<Rightarrow> (bytes \<Rightarrow> libc_stat_dev) \<Rightarrow> ('k \<Rightarrow> libc_dirent list) \<Rightarrow> bool" where
  "dir_stream L dp names stat rest \<longleftrightarrow>
     (\<forall>k. d_name ` set (rest k) \<subseteq> names) \<and>
     (\<forall>k. \<exists>k'. libc_readdir L dp k = (Ok (case rest k of [] \<Rightarrow> None | entry # _ \<Rightarrow> Some entry), k') \<and>
        rest k' = tl (rest k)) \<and>
     (\<forall>k. \<forall>name \<in> names. \<exists>k'. libc_fstatat L (libc_dirfd L dp k) name AT_SYMLINK_NOFOLLOW k =
          (Ok (stat name), k') \<and> rest k' = rest k) \<and>
     (\<forall>name \<in> names. st_ino (stat name) \<noteq> 0)"

definition listed :: "(bytes \<Rightarrow> libc_stat_dev) \<Rightarrow> libc_dirent \<Rightarrow> pth_DirEntry" where
  "listed stat entry =
     \<lparr> pde_name = d_name entry, pde_ino = NodeID_from_raw_unchecked (st_ino (stat (d_name entry))),
       pde_typ = entry_type (st_mode (stat (d_name entry))) \<rparr>"

definition visible :: "libc_dirent list \<Rightarrow> libc_dirent list" where
  "visible es = filter (\<lambda>entry. d_name entry \<notin> dots) es"

text \<open>What a handle has yet to deliver.\<close>

definition pending :: "(bytes \<Rightarrow> libc_stat_dev) \<Rightarrow> ('k \<Rightarrow> libc_dirent list) \<Rightarrow> DirHandle \<Rightarrow> 'k \<Rightarrow> pth_DirEntry list" where
  "pending stat rest dir k =
     (case dh_last_entry dir of None \<Rightarrow> [] | Some entry \<Rightarrow> [entry]) @
     (if end_of_stream (dh_read_dir dir) then [] else map (listed stat) (visible (rest k)))"

fun numbered :: "u64 \<Rightarrow> 'e list \<Rightarrow> ('e \<times> u64) list" where
  "numbered off [] = []"
| "numbered off (e # es) = (e, off) # numbered (off + 1) es"

lemma numbered_append: "numbered off (xs @ ys) = numbered off xs @ numbered (off + of_nat (length xs)) ys"
  by (induction xs arbitrary: off) (simp_all add: add.assoc add.commute add.left_commute)

lemma dir_streamD:
  assumes "dir_stream L dp names stat rest"
  obtains k' where "libc_readdir L dp k = (Ok (case rest k of [] \<Rightarrow> None | entry # _ \<Rightarrow> Some entry), k')" "rest k' = tl (rest k)"
  using assms unfolding dir_stream_def by blast

lemma dir_stream_stat:
  assumes "dir_stream L dp names stat rest" and "name \<in> names"
  obtains k' where "libc_fstatat L (libc_dirfd L dp k) name AT_SYMLINK_NOFOLLOW k = (Ok (stat name), k')" "rest k' = rest k"
  using assms unfolding dir_stream_def by blast

lemma dir_stream_ino:
  "dir_stream L dp names stat rest \<Longrightarrow> name \<in> names \<Longrightarrow>
   NodeID_from_raw (st_ino (stat name)) = Some (NodeID_from_raw_unchecked (st_ino (stat name)))"
  by (simp add: dir_stream_def NodeID_from_raw_def)

lemma std_ReadDir_next_stream:
  assumes L: "dir_stream L (std_dirp rd) names stat rest" and "\<not> end_of_stream rd"
  shows "\<exists>k'. visible (rest k') = tl (visible (rest k)) \<and>
    std_ReadDir_next L rd k =
      (case visible (rest k) of
         [] \<Rightarrow> Some (Ok None, rd\<lparr> end_of_stream := True \<rparr>, k')
       | entry # _ \<Rightarrow> Some (Ok (Some entry), rd, k'))"
proof (induction "rest k" arbitrary: k)
  case Nil
  obtain k' where "libc_readdir L (std_dirp rd) k = (Ok None, k')" "rest k' = []"
    by (rule dir_streamD [OF L, of k]) (simp add: Nil [symmetric])
  with assms(2) Nil [symmetric] show ?case by (simp add: std_ReadDir_next.simps [of L rd k] visible_def)
next
  case (Cons entry es)
  obtain k' where k': "libc_readdir L (std_dirp rd) k = (Ok (Some entry), k')" "rest k' = es"
    by (rule dir_streamD [OF L, of k]) (simp add: Cons(2) [symmetric])
  show ?case
  proof (cases "d_name entry \<in> dots")
    case True
    with k' assms(2) have "std_ReadDir_next L rd k = std_ReadDir_next L rd k'"
      by (simp add: std_ReadDir_next.simps [of L rd k])
    moreover have "visible (rest k) = visible (rest k')" using True k'(2) Cons(2) [symmetric] by (simp add: visible_def)
    ultimately show ?thesis using Cons(1) [of k'] k'(2) by simp
  next
    case False
    with k' assms(2) Cons(2) [symmetric] show ?thesis
      by (simp add: std_ReadDir_next.simps [of L rd k] visible_def)
  qed
qed

text \<open>How a part of the entries is delivered, beginning with a given buffer.\<close>

definition does_not_fit :: "'b ReaddirOut \<Rightarrow> 'b \<Rightarrow> pth_DirEntry \<Rightarrow> u64 \<Rightarrow> bool" where
  "does_not_fit R buf e off \<longleftrightarrow> fst (ReaddirOut_push_entry R buf (pde_name e) (pde_ino e) (pde_typ e) off)"

definition delivers ::
    "'b ReaddirOut \<Rightarrow> (bytes \<Rightarrow> libc_stat_dev) \<Rightarrow> ('k \<Rightarrow> libc_dirent list) \<Rightarrow> ('b \<Rightarrow> (pth_DirEntry \<times> u64) list) \<Rightarrow> bool \<Rightarrow>
      'b \<Rightarrow> DirHandle \<Rightarrow> 'k \<Rightarrow> (io_error, 'b) result \<Rightarrow> DirHandle \<Rightarrow> 'k \<Rightarrow> bool" where
  "delivers R stat rest entries some start dir k r dir' k' \<longleftrightarrow>
     std_dirp (dh_read_dir dir') = std_dirp (dh_read_dir dir) \<and>
     (\<exists>now. pending stat rest dir k = now @ pending stat rest dir' k' \<and>
        dh_offset dir' = dh_offset dir + of_nat (length now) \<and>
        (case r of
           Ok buf \<Rightarrow> entries buf = entries start @ numbered (dh_offset dir) now \<and>
             (now = [] \<and> \<not> some \<longrightarrow> pending stat rest dir' k' = [])
         | Err e \<Rightarrow> e = OsError ERANGE \<and> now = [] \<and> \<not> some \<and>
             (\<exists>e es. pending stat rest dir k = e # es \<and> does_not_fit R start e (dh_offset dir))
         | Panic \<Rightarrow> False))"

lemma delivers_step:
  assumes "delivers R stat rest entries True buf1 dir1 k1 r dir' k'"
    and "entries buf1 = entries start @ [(e, dh_offset dir)]"
    and "pending stat rest dir k = e # pending stat rest dir1 k1" and "dh_offset dir1 = dh_offset dir + 1"
    and "std_dirp (dh_read_dir dir1) = std_dirp (dh_read_dir dir)"
  shows "delivers R stat rest entries some start dir k r dir' k'"
proof -
  from assms(1) obtain now where now: "pending stat rest dir1 k1 = now @ pending stat rest dir' k'"
    "dh_offset dir' = dh_offset dir1 + of_nat (length now)"
    "\<And>buf. r = Ok buf \<Longrightarrow> entries buf = entries start @ [(e, dh_offset dir)] @ numbered (dh_offset dir1) now"
    and r: "\<exists>buf. r = Ok buf"
    using assms(2) by (cases r) (auto simp: delivers_def)
  have "std_dirp (dh_read_dir dir') = std_dirp (dh_read_dir dir)" using assms(1,5) by (simp add: delivers_def)
  with now r assms(3,4) show ?thesis
    unfolding delivers_def by (intro conjI exI [of _ "e # now"]) (auto simp: add.assoc)
qed

lemma fill_entries_delivers:
  assumes R: "readdir_buffer R entries" and L: "dir_stream L (std_dirp (dh_read_dir dir)) names stat rest"
    and "\<not> end_of_stream (dh_read_dir dir)" and "dh_last_entry dir = None"
    and "unat (dh_offset dir) + length (visible (rest k)) < 2 ^ 64"
  shows "\<exists>r dir' k'. fill_entries X L R some buf dir k = Some (r, dir', k') \<and>
    delivers R stat rest entries some buf dir k r dir' k'"
  using assms(2-)
proof (induction "visible (rest k)" arbitrary: k dir some buf)
  case Nil
  obtain k' where "std_ReadDir_next L (dh_read_dir dir) k = Some (Ok None, (dh_read_dir dir)\<lparr> end_of_stream := True \<rparr>, k')"
    using std_ReadDir_next_stream [OF Nil.prems(1,2), of k] Nil.hyps [symmetric] by auto
  then show ?case using Nil.prems Nil.hyps [symmetric]
    by (simp add: fill_entries.simps [of X L R some buf dir k] delivers_def pending_def)
next
  case (Cons entry es)
  let ?name = "d_name entry" and ?e = "listed stat entry"
  obtain k1 where k1: "std_ReadDir_next L (dh_read_dir dir) k = Some (Ok (Some entry), dh_read_dir dir, k1)"
    "visible (rest k1) = es"
    using std_ReadDir_next_stream [OF Cons.prems(1,2), of k] Cons.hyps(2) [symmetric] by auto
  have "entry \<in> set (visible (rest k))" using Cons.hyps(2) [symmetric] by simp
  then have dots: "?name \<notin> dots" and "entry \<in> set (rest k)" by (simp_all add: visible_def)
  then have name: "?name \<in> names" using Cons.prems(1) unfolding dir_stream_def by blast
  obtain k2 where k2: "libc_fstatat L (libc_dirfd L (std_dirp (dh_read_dir dir)) k1) ?name AT_SYMLINK_NOFOLLOW k1 =
      (Ok (stat ?name), k2)" "rest k2 = rest k1"
    by (rule dir_stream_stat [OF Cons.prems(1) name, of k1])
  obtain full buf' where push: "ReaddirOut_push_entry R buf (pde_name ?e) (pde_ino ?e) (pde_typ ?e) (dh_offset dir) = (full, buf')"
    by (cases "ReaddirOut_push_entry R buf (pde_name ?e) (pde_ino ?e) (pde_typ ?e) (dh_offset dir)")
  have buf': "entries buf' = (if full then entries buf else entries buf @ [(?e, dh_offset dir)])"
    using R push unfolding readdir_buffer_def by (auto simp: listed_def split: prod.splits)
  have pend: "pending stat rest dir k = ?e # map (listed stat) es"
    using Cons.prems(2,3) Cons.hyps(2) [symmetric] by (simp add: pending_def)
  note step = fill_entries.simps [of X L R some buf dir k]
  note facts = k1(1) k2(1) dots dir_stream_ino [OF Cons.prems(1) name] push [unfolded listed_def, simplified]
  show ?case
  proof (cases full)
    case True
    then show ?thesis using buf' pend Cons.prems(2) k1(2) k2(2)
      by (simp add: step facts Let_def delivers_def)
        (use push in \<open>simp add: pending_def listed_def does_not_fit_def\<close>)
  next
    case False
    define dir1 where "dir1 = dir\<lparr> dh_offset := dh_offset dir + 1 \<rparr>"
    have len: "unat (dh_offset dir) + Suc (length es) < 2 ^ 64" using Cons.prems(4) Cons.hyps(2) [symmetric] by simp
    then have add: "add_assign X (dh_offset dir) 1 = Some (dh_offset dir + 1)" by (simp add: add_assign_Some)
    have unat: "unat (dh_offset dir + 1) = Suc (unat (dh_offset dir))" using len by (simp add: unat_word_ariths)
    have dir1: "dh_read_dir dir1 = dh_read_dir dir" "dh_last_entry dir1 = None" "dh_offset dir1 = dh_offset dir + 1"
      using Cons.prems(3) by (simp_all add: dir1_def)
    have eq: "fill_entries X L R some buf dir k = fill_entries X L R True buf' dir1 k2"
      using False by (simp add: step facts Let_def add dir1_def)
    obtain r dir' k' where r: "fill_entries X L R True buf' dir1 k2 = Some (r, dir', k')"
      "delivers R stat rest entries True buf' dir1 k2 r dir' k'"
      using Cons.hyps(1) [of k2 dir1 True buf'] Cons.prems(1,2) k1(2) k2(2) len by (auto simp: dir1 unat)
    have "pending stat rest dir k = ?e # pending stat rest dir1 k2"
      using pend Cons.prems(2) k1(2) k2(2) by (simp add: pending_def dir1)
    with r buf' False eq show ?thesis using delivers_step [of R stat rest entries buf' dir1 k2 r dir' k' buf ?e dir k some]
      by (simp add: dir1)
  qed
qed

lemma fill_entries_ended:
  assumes "end_of_stream (dh_read_dir dir)" and "dh_last_entry dir = None"
  shows "\<exists>r dir' k'. fill_entries X L R some buf dir k = Some (r, dir', k') \<and>
    delivers R stat rest entries some buf dir k r dir' k'"
  using assms by (simp add: fill_entries.simps [of X L R some buf dir k] std_ReadDir_next.simps delivers_def pending_def)

lemma read_entries_delivers:
  assumes R: "readdir_buffer R entries" and L: "dir_stream L (std_dirp (dh_read_dir dir)) names stat rest"
    and len: "unat (dh_offset dir) + length (pending stat rest dir k) < 2 ^ 64"
  shows "\<exists>r dir' k'. read_entries X L R n dir k = Some (r, dir', k') \<and>
    delivers R stat rest entries False (ReaddirOut_new R n) dir k r dir' k'"
proof -
  have fill: "\<exists>r dir' k'. fill_entries X L R some buf d k = Some (r, dir', k') \<and>
      delivers R stat rest entries some buf d k r dir' k'"
    if "dh_read_dir d = dh_read_dir dir" "dh_last_entry d = None" "unat (dh_offset d) + length (pending stat rest d k) < 2 ^ 64"
    for some buf d
    using fill_entries_ended [of d] fill_entries_delivers [OF R, of L d names stat rest k X some buf] L that
    by (cases "end_of_stream (dh_read_dir d)") (auto simp: pending_def)
  have new: "entries (ReaddirOut_new R n) = []" using R by (simp add: readdir_buffer_def)
  show ?thesis
  proof (cases "dh_last_entry dir")
    case None
    then show ?thesis using fill [of dir False "ReaddirOut_new R n"] len new by (simp add: read_entries_def)
  next
    case (Some e)
    define d where "d = dir\<lparr> dh_last_entry := None, dh_offset := dh_offset dir + 1 \<rparr>"
    have pend: "pending stat rest dir k = e # pending stat rest d k" by (simp add: pending_def Some d_def)
    obtain full buf where push: "ReaddirOut_push_entry R (ReaddirOut_new R n) (pde_name e) (pde_ino e) (pde_typ e) (dh_offset dir) = (full, buf)"
      by (cases "ReaddirOut_push_entry R (ReaddirOut_new R n) (pde_name e) (pde_ino e) (pde_typ e) (dh_offset dir)")
    have buf: "entries buf = (if full then [] else [(e, dh_offset dir)])"
      using R push new unfolding readdir_buffer_def by (auto split: prod.splits)
    show ?thesis
    proof (cases full)
      case True
      then show ?thesis using push pend by (simp add: read_entries_def Some delivers_def does_not_fit_def)
    next
      case False
      have unat: "unat (dh_offset d) = Suc (unat (dh_offset dir))" using len pend by (simp add: d_def unat_word_ariths)
      have "read_entries X L R n dir k = fill_entries X L R True buf d k"
        using push False len pend by (simp add: read_entries_def Some add_assign_Some d_def)
      moreover obtain r dir' k' where r: "fill_entries X L R True buf d k = Some (r, dir', k')"
        "delivers R stat rest entries True buf d k r dir' k'"
        using fill [of d True buf] len pend unat by (auto simp: d_def)
      ultimately show ?thesis
        using delivers_step [of R stat rest entries buf d k r dir' k' "ReaddirOut_new R n" e dir k False] pend buf False new
        by (simp add: d_def)
    qed
  qed
qed

text \<open>Requests to read a directory, one after another, and the buffers with which they are answered.\<close>

fun readdir_all ::
    "extern \<Rightarrow> 'k libc \<Rightarrow> 'b ReaddirOut \<Rightarrow> Readdir list \<Rightarrow> 'k pth_state \<Rightarrow> ('b list \<times> 'k pth_state) option" where
  "readdir_all X L R [] s = Some ([], s)"
| "readdir_all X L R (op # ops) s =
     (case pth_readdir X L R (\<lambda>out. Ok out) op s of
        Some (Ok (Reply_ReaddirOut buf), s) \<Rightarrow> map_option (apfst ((#) buf)) (readdir_all X L R ops s)
      | Some (Err e, s) \<Rightarrow> readdir_all X L R ops s
      | _ \<Rightarrow> None)"

definition plain_readdir :: "nat \<Rightarrow> Readdir \<Rightarrow> bool" where
  "plain_readdir key op \<longleftrightarrow> Readdir_mode op \<noteq> ReaddirMode_Plus \<and> unat (FileID_into_raw (Readdir_fh op)) = key"

text \<open>A buffer that is large enough for every one of the entries, if it is the first one in it.\<close>

definition roomy :: "'b ReaddirOut \<Rightarrow> pth_DirEntry list \<Rightarrow> Readdir \<Rightarrow> bool" where
  "roomy R es op \<longleftrightarrow>
     (\<forall>e \<in> set es. \<forall>off. \<not> does_not_fit R (ReaddirOut_new R (unat (Readdir_size op))) e off)"

lemma pth_readdir_eq:
  assumes "plain_readdir key op" and "Mapping.lookup (pth_dirs self) key = Some dir"
    and "read_entries X L R (unat (Readdir_size op)) dir k = Some (r, dir', k')"
  shows "pth_readdir X L R reply op (self, k) =
    act_bind (act_result r) (\<lambda>buf. act_result (reply (Reply_ReaddirOut buf))) (put_dir key dir' self, k')"
  using assms unfolding plain_readdir_def
  by (cases r) (simp_all add: pth_readdir_def Let_def, simp_all add: act_bind_def act_result_def)

lemma readdir_all_delivers:
  assumes R: "readdir_buffer R entries" and "\<forall>op \<in> set ops. plain_readdir key op"
    and "Mapping.lookup (pth_dirs self) key = Some dir" and "dir_stream L (std_dirp (dh_read_dir dir)) names stat rest"
    and "unat (dh_offset dir) + length (pending stat rest dir k) < 2 ^ 64"
  shows "\<exists>bufs s' now later. readdir_all X L R ops (self, k) = Some (bufs, s') \<and>
    pending stat rest dir k = now @ later \<and> concat (map entries bufs) = numbered (dh_offset dir) now \<and>
    ((\<exists>buf \<in> set bufs. entries buf = []) \<longrightarrow> later = []) \<and>
    ((\<forall>op \<in> set ops. roomy R (pending stat rest dir k) op) \<longrightarrow>
      min (length ops) (length (pending stat rest dir k)) \<le> length now)"
  using assms(2-)
proof (induction ops arbitrary: self dir k)
  case Nil
  show ?case
    by (intro exI [of _ "[]"] exI [of _ "(self, k)"] exI [of _ "[]"] exI [of _ "pending stat rest dir k"]) simp
next
  case (Cons op ops)
  let ?new = "ReaddirOut_new R (unat (Readdir_size op))"
  obtain r dir' k' where r: "read_entries X L R (unat (Readdir_size op)) dir k = Some (r, dir', k')"
    "delivers R stat rest entries False ?new dir k r dir' k'"
    using read_entries_delivers [OF R Cons.prems(3,4)] by blast
  then obtain now where now: "pending stat rest dir k = now @ pending stat rest dir' k'"
    "dh_offset dir' = dh_offset dir + of_nat (length now)" "std_dirp (dh_read_dir dir') = std_dirp (dh_read_dir dir)"
    and cases: "(\<exists>buf. r = Ok buf \<and> entries buf = numbered (dh_offset dir) now \<and> (now = [] \<longrightarrow> pending stat rest dir' k' = [])) \<or>
      (\<exists>e. r = Err e \<and> now = [] \<and> \<not> roomy R (pending stat rest dir k) op)"
  proof (cases r)
    case (Ok buf)
    with r(2) R that show thesis by (auto simp: delivers_def readdir_buffer_def)
  next
    case (Err e)
    obtain e' es where "pending stat rest dir k = e' # es" "does_not_fit R ?new e' (dh_offset dir)"
      using r(2) [unfolded Err delivers_def result.case] by blast
    then have "\<not> roomy R (pending stat rest dir k) op" by (auto simp: roomy_def)
    with Err r(2) that [of "[]"] show thesis by (simp add: delivers_def)
  qed (use r(2) in \<open>simp add: delivers_def\<close>)
  let ?self = "put_dir key dir' self"
  have "unat (dh_offset dir') = unat (dh_offset dir) + length now"
    using Cons.prems(4) now(1,2) by (simp add: unat_word_ariths unat_of_nat)
  with now(1) Cons.prems(4) have len: "unat (dh_offset dir') + length (pending stat rest dir' k') < 2 ^ 64" by simp
  obtain bufs s' now' later where IH: "readdir_all X L R ops (?self, k') = Some (bufs, s')"
    "pending stat rest dir' k' = now' @ later" "concat (map entries bufs) = numbered (dh_offset dir') now'"
    "(\<exists>buf \<in> set bufs. entries buf = []) \<longrightarrow> later = []"
    "(\<forall>op \<in> set ops. roomy R (pending stat rest dir' k') op) \<longrightarrow>
      min (length ops) (length (pending stat rest dir' k')) \<le> length now'"
  proof -
    have "\<forall>op \<in> set ops. plain_readdir key op" "Mapping.lookup (pth_dirs ?self) key = Some dir'"
      "dir_stream L (std_dirp (dh_read_dir dir')) names stat rest"
      using Cons.prems(1,3) now(3) by (simp_all add: put_dir_def)
    from Cons.IH [OF this len] that show thesis by blast
  qed
  have roomy: "roomy R (pending stat rest dir' k') op" if "roomy R (pending stat rest dir k) op" for op
    using that by (simp add: roomy_def now(1))
  have eq: "pth_readdir X L R (\<lambda>out. Ok out) op (self, k) =
      act_bind (act_result r) (\<lambda>buf. act_ok (Reply_ReaddirOut buf)) (?self, k')"
    using pth_readdir_eq [OF _ Cons.prems(2) r(1), of "\<lambda>out. Ok out"] Cons.prems(1) by simp
  from cases show ?case
  proof (elim disjE exE conjE)
    fix buf assume buf: "r = Ok buf" "entries buf = numbered (dh_offset dir) now"
      "now = [] \<longrightarrow> pending stat rest dir' k' = []"
    have empty: "numbered (dh_offset dir) now = [] \<longleftrightarrow> now = []" by (cases now) simp_all
    have enough: "min (length (op # ops)) (length (pending stat rest dir k)) \<le> length (now @ now')"
      if "\<forall>op \<in> set (op # ops). roomy R (pending stat rest dir k) op"
    proof (cases now)
      case Nil
      then show ?thesis using buf(3) now(1) by simp
    next
      case (Cons e es)
      have "min (length ops) (length (pending stat rest dir' k')) \<le> length now'" using IH(5) that roomy by simp
      then show ?thesis unfolding now(1) using Cons by auto
    qed
    have all: "readdir_all X L R (op # ops) (self, k) = Some (buf # bufs, s')"
      using IH(1) eq buf(1) by (simp add: act_result_def)
    show ?thesis
      using all IH(2-4) now(1,2) buf(2,3) empty enough
      by (intro exI [of _ "buf # bufs"] exI [of _ s'] exI [of _ "now @ now'"] exI [of _ later])
        (auto simp del: readdir_all.simps simp: numbered_append)
  next
    fix e assume "r = Err e" "now = []" "\<not> roomy R (pending stat rest dir k) op"
    then show ?thesis using IH now(1,2) eq by (auto simp: act_result_def)
  qed
qed

section \<open>Writing\<close>

lemma write_loop_not_Ok:
  assumes "write_loop X L fill file data written k = Some y" and "fill data = (Ok chunk, data)" and "chunk \<noteq> []"
  shows "\<nexists>n. fst y = Ok n"
  using assms
proof (induction rule: write_loop.raw_induct [rotated, consumes 1, case_names step])
  case (step self X L fill f data written k y)
  from step.prems step.hyps
  consider n k' w where "self X L fill f data w k' = Some y" | "\<nexists>n. fst y = Ok n"
    by (cases y) (auto split: prod.splits result.splits option.splits)
  then show ?case by cases (use step.IH step.prems in blast)+
qed

lemma write_loop_hangs:
  assumes "write_loop X L fill file data written k = Some y" and "fill data = (Ok chunk, data)" and "chunk \<noteq> []"
    and "file_io L file content pos" and "\<not> overflow_checks X"
  shows False
  using assms
proof (induction rule: write_loop.raw_induct [rotated, consumes 1, case_names step])
  case (step self X L fill f data written k y)
  obtain n k' where "libc_write L f chunk k = (Ok n, k')"
    using step.prems(2,3) unfolding file_io_def by meson
  with step show ?case by (simp add: add_assign_def)
qed

lemma write_loop_twice:
  assumes "fill data = (Ok chunk, data')" and "fill data' = (Ok chunk, data')" and "chunk \<noteq> []"
  shows "write_loop X L fill file data written k \<noteq> Some (Ok n, k')"
    "file_io L file content pos \<Longrightarrow> \<not> overflow_checks X \<Longrightarrow> write_loop X L fill file data written k = None"
proof -
  note not_Ok = write_loop_not_Ok [where fill = fill and data = data' and chunk = chunk, OF _ assms(2,3)]
  note hangs = write_loop_hangs [where fill = fill and data = data' and chunk = chunk, OF _ assms(2,3)]
  note step = write_loop.simps [of X L fill "file" data written k]
  show "write_loop X L fill file data written k \<noteq> Some (Ok n, k')"
    using assms(1,3) not_Ok by (fastforce simp: step split: prod.splits result.splits option.splits)
  assume io: "file_io L file content pos" "\<not> overflow_checks X"
  then obtain m k1 where "libc_write L file chunk k = (Ok m, k1)" using assms(3) unfolding file_io_def by meson
  then have eq: "write_loop X L fill file data written k = write_loop X L fill file data' (written + of_nat m) k1"
    using assms(1,3) io(2) by (simp add: step add_assign_def)
  show "write_loop X L fill file data written k = None"
    unfolding eq using hangs [OF _ io] by (cases "write_loop X L fill file data' (written + of_nat m) k1") auto
qed

text \<open>From the second chunk on, the reader returns the bytes that it has not been told were consumed.\<close>

lemma fill_buf_again:
  assumes "br_limit rd \<noteq> 0" and "br_buf rd = []" and "read 8192 (br_inner rd) = (Ok bs, d)" and "bs \<noteq> []"
  obtains rd' where "fill_buf read rd = (Ok (take (br_limit rd) bs), rd')"
    "fill_buf read rd' = (Ok (take (br_limit rd) bs), rd')"
  using assms that by (simp add: fill_buf_def)

section \<open>Examples\<close>

text \<open>The filesystem after one lookup, on a host where every path is a file.\<close>

definition pth_with_a :: PathThrough where
  "pth_with_a = (pth_root_only [47])
     \<lparr> pth_inodes :=
         \<lparr> pth_map = Mapping.update node_two \<lparr> pi_ino = node_two, pi_path = [97], pi_refcount = 1 \<rparr>
             (pth_map (pth_inodes (pth_root_only [47]))),
           path_to_ino = Mapping.update [[97]] node_two (path_to_ino (pth_inodes (pth_root_only [47]))),
           pth_next_ino = 3 \<rparr> \<rparr>"

lemma pth_new_eq: "PathThrough_new X (sim_libc st) [47] host0 = Some (Ok (pth_root_only [47]), host0)"
  by (simp add: PathThrough_new_eq canonicalize_def cstring_def syscall_def act_bind_def act_result_def)

lemma metadata_ok: "\<exists>attr. FileAttr_try_from_metadata linux_extern (metadata_of_stat (sim_stat 2)) = Ok attr"
  by (simp add: metadata_of_stat_def sim_stat_def FileAttr_try_from_metadata_def u32_try_from_u64_def
      DeviceID_from_userspace_dev_def DeviceID_new_def duration_new_def linux_extern_def)

lemma pth_lookup_a:
  "\<exists>out. pth_lookup linux_extern (sim_libc (\<lambda>_. sim_stat 2)) (\<lambda>out. Ok out) lookup_a (pth_root_only [47], host0) =
    Some (Ok (Reply_EntryOut out), (pth_with_a, host0))"
proof -
  define self where "self = pth_root_only [47]"
  obtain attr where attr: "FileAttr_try_from_metadata linux_extern (metadata_of_stat (sim_stat 2)) = Ok attr"
    using metadata_ok ..
  have parts: "path_components [] = []" "path_components [97] = [[97]]" "path_join [] [97] = [97]" "path_join [47] [97] = [47, 97]"
    by (simp_all add: path_components_def path_join_def slash_def as_bytes_def Let_def)
  have self: "pth_get (pth_inodes self) NodeID_ROOT = Some \<lparr> pi_ino = NodeID_ROOT, pi_path = [], pi_refcount = (- 1) div 2 \<rparr>"
    "get_by_path_mut (pth_inodes self) [97] = None" "pth_vacant_entry (pth_inodes self) = Some node_two" "pth_source self = [47]"
    by (simp_all add: self_def pth_root_only_def pth_get_def get_by_path_mut_def pth_vacant_entry_def parts)
  have "pth_insert linux_extern node_two \<lparr> pi_ino = node_two, pi_path = [97], pi_refcount = 1 \<rparr> (pth_inodes self) =
      (Ok (), pth_inodes pth_with_a)"
    by (simp add: self_def pth_insert_def pth_with_a_def parts pth_root_only_def add_assign_def)
  moreover have "self\<lparr> pth_inodes := pth_inodes pth_with_a \<rparr> = pth_with_a"
    by (simp add: self_def pth_with_a_def)
  ultimately have ins: "find_or_insert linux_extern [97] (self, host0) = Some (Ok node_two, (pth_with_a, host0))"
    using self(2,3) by (simp add: find_or_insert_def pth_put_inodes_def) (simp add: act_result_def)
  have stat: "symlink_metadata (sim_libc (\<lambda>_. sim_stat 2)) [47, 97] host0 = Some (Ok (metadata_of_stat (sim_stat 2)), host0)"
    by (simp add: symlink_metadata_def cstring_def syscall_def act_bind_def act_result_def sim_libc_def sim_done_def)
  show ?thesis
    using self(1,4) attr ins stat unfolding self_def [symmetric]
    by (simp add: pth_lookup_def lookup_a_def pth_node_def source_path_def act_bind_assoc Let_def parts unwrap_attr_def)
      (simp add: act_bind_def on_host_def act_result_def)
qed

text \<open>A directory of three entries, and buffers of a number of entries.\<close>

definition three_entries :: "libc_dirent list" where
  "three_entries = map (\<lambda>name. \<lparr> d_name = name, d_ino = 2, d_type = 0, d_off = 0 \<rparr>) [as_bytes ''.'', [97], [98]]"

definition dir_libc :: "sim_host libc" where
  "dir_libc = (sim_libc (\<lambda>_. sim_stat 2))
     \<lparr> libc_readdir := (\<lambda>_ k.
         (Ok (case drop (sh_pos k) three_entries of [] \<Rightarrow> None | entry # _ \<Rightarrow> Some entry),
          k\<lparr> sh_pos := Suc (sh_pos k) \<rparr>)) \<rparr>"

definition list_buffer :: "(nat \<times> (pth_DirEntry \<times> u64) list) ReaddirOut" where
  "list_buffer =
     \<lparr> ReaddirOut_new = (\<lambda>n. (n, [])),
       ReaddirOut_push_entry = (\<lambda>(n, es) name ino typ off.
         if length es < n then (False, (n, es @ [(\<lparr> pde_name = name, pde_ino = ino, pde_typ = typ \<rparr>, off)]))
         else (True, (n, es))) \<rparr>"

lemma list_buffer_laws: "readdir_buffer list_buffer snd"
  by (simp add: readdir_buffer_def list_buffer_def)

lemma dir_libc_stream:
  "dir_stream dir_libc dp (d_name ` set three_entries) (\<lambda>_. sim_stat 2) (\<lambda>k. drop (sh_pos k) three_entries)"
  by (auto simp: dir_stream_def dir_libc_def sim_libc_def sim_done_def tl_drop drop_Suc dest: in_set_dropD)

section \<open>Properties\<close>

text \<open>C22: In every state that the filesystem reaches within 2^62 requests, in any order and whatever the host
  answers, a node is stored under its own number with at least one reference, is found by its path, and
  two nodes whose paths have the same components are the same node.
\<close>

theorem path_through_run_invariant:
  assumes "PathThrough_new X L source k0 = Some (Ok self0, k1)"
    and "run_of (pth_step X L R ask read reply) (self0, k1) es (self, k)" and "length es \<le> 2 ^ 62"
    and "pth_get (pth_inodes self) i = Some a" and "pth_get (pth_inodes self) j = Some b"
  shows "pi_ino a = i \<and> 0 < pi_refcount a \<and> get_by_path_mut (pth_inodes self) (pi_path a) = Some (i, a) \<and>
    (path_components (pi_path a) = path_components (pi_path b) \<longleftrightarrow> i = j)"
proof -
  have inv: "pth_table_inv (length es) (pth_inodes self)"
    using path_through.run_inv [OF assms(2) _ assms(3)] PathThrough_new_inv [OF assms(1)] by simp
  have a: "pth_node_ok (length es) (pth_inodes self) i a" and b: "pth_node_ok (length es) (pth_inodes self) j b"
    using pth_table_invD(1) [OF inv] assms(4,5) by (simp_all add: pth_get_def)
  have "path_components (pi_path a) = path_components (pi_path b) \<longleftrightarrow> i = j"
    using a b assms(4,5) unfolding pth_node_ok_def by (metis option.inject)
  with a assms(4) show ?thesis by (simp add: pth_node_ok_def get_by_path_mut_def pth_get_def)
qed

theorem path_through_run_invariant_witness:
  "pi_ino \<lparr> pi_ino = node_two, pi_path = [97], pi_refcount = 1 \<rparr> = node_two \<and>
    get_by_path_mut (pth_inodes pth_with_a) [97] = Some (node_two, \<lparr> pi_ino = node_two, pi_path = [97], pi_refcount = 1 \<rparr>)"
proof -
  let ?step = "pth_step linux_extern (sim_libc (\<lambda>_. sim_stat 2)) no_readdir (\<lambda>_ n. n) (\<lambda>n (d :: bytes). (Ok d, [])) (\<lambda>out. Ok out)"
  obtain out where "pth_lookup linux_extern (sim_libc (\<lambda>_. sim_stat 2)) (\<lambda>out. Ok out) lookup_a (pth_root_only [47], host0) =
      Some (Ok (Reply_EntryOut out :: unit fs_reply), (pth_with_a, host0))"
    using pth_lookup_a by blast
  then have "?step (pth_root_only [47], host0) (Lookup lookup_a, Ok (Some (Reply_EntryOut out))) (pth_with_a, host0)"
    by (intro pth_step_lookup) (simp add: answered_def act_bind_def act_result_def)
  then have run: "run_of ?step (pth_root_only [47], host0) ([] @ [(Lookup lookup_a, Ok (Some (Reply_EntryOut out)))]) (pth_with_a, host0)"
    by (rule run_step [OF run_Nil])
  have node: "pth_get (pth_inodes pth_with_a) node_two = Some \<lparr> pi_ino = node_two, pi_path = [97], pi_refcount = 1 \<rparr>"
    by (simp add: pth_get_def pth_with_a_def)
  show ?thesis using path_through_run_invariant [OF pth_new_eq run _ node node] by simp
qed

text \<open>C11: Listing a directory that nobody changes meanwhile. However many requests are made on a new handle, and
  whatever the sizes of their buffers, the entries in the replies together are the first entries of the
  directory in their order, each once and with consecutive offsets from 1: no entry is lost when a
  buffer is full or too small for any. They are all the entries if there is an empty reply; and
  they are all the entries if there are no fewer requests than entries and the buffers are large
  enough for every single entry.
\<close>

theorem path_readdir_delivers_all:
  assumes "readdir_buffer R entries" and "dir_stream L dp names stat rest" and "length (rest k) < 2 ^ 63"
    and "Mapping.lookup (pth_dirs self) key =
      Some \<lparr> dh_read_dir = \<lparr> std_dirp = dp, end_of_stream = False \<rparr>, dh_last_entry = None, dh_offset = 1 \<rparr>"
    and "\<forall>op \<in> set ops. plain_readdir key op"
  shows "\<exists>bufs s' now later. readdir_all X L R ops (self, k) = Some (bufs, s') \<and>
    map (listed stat) (visible (rest k)) = now @ later \<and> concat (map entries bufs) = numbered 1 now \<and>
    ((\<exists>buf \<in> set bufs. entries buf = []) \<longrightarrow> later = []) \<and>
    ((\<forall>op \<in> set ops. roomy R (map (listed stat) (visible (rest k))) op) \<and>
      length (visible (rest k)) \<le> length ops \<longrightarrow> later = [])"
proof -
  let ?dir = "\<lparr> dh_read_dir = \<lparr> std_dirp = dp, end_of_stream = False \<rparr>, dh_last_entry = None, dh_offset = 1 \<rparr>"
  have pend: "pending stat rest ?dir k = map (listed stat) (visible (rest k))" by (simp add: pending_def)
  have "length (visible (rest k)) \<le> length (rest k)" by (simp add: visible_def)
  then have "dir_stream L (std_dirp (dh_read_dir ?dir)) names stat rest"
    "unat (dh_offset ?dir) + length (pending stat rest ?dir k) < 2 ^ 64"
    using assms(2,3) by (simp_all add: pend)
  from readdir_all_delivers [OF assms(1,5,4) this, of X] obtain bufs s' now later where
      "readdir_all X L R ops (self, k) = Some (bufs, s')"
    and es: "map (listed stat) (visible (rest k)) = now @ later" and "concat (map entries bufs) = numbered 1 now"
    and "(\<exists>buf \<in> set bufs. entries buf = []) \<longrightarrow> later = []"
    and enough: "(\<forall>op \<in> set ops. roomy R (map (listed stat) (visible (rest k))) op) \<longrightarrow>
      min (length ops) (length (map (listed stat) (visible (rest k)))) \<le> length now"
    unfolding pend DirHandle.select_convs by blast
  moreover have "length (visible (rest k)) = length now + length later"
    using arg_cong [OF es, of length] by simp
  with enough have "(\<forall>op \<in> set ops. roomy R (map (listed stat) (visible (rest k))) op) \<and>
      length (visible (rest k)) \<le> length ops \<longrightarrow> later = []" by auto
  ultimately show ?thesis by blast
qed

theorem path_readdir_delivers_all_witness:
  "\<exists>bufs s'.
    readdir_all linux_extern dir_libc list_buffer
      (map (\<lambda>n. \<lparr> Readdir_ino = NodeID_ROOT, Readdir_fh = FileID 0, Readdir_offset = 0, Readdir_size = n,
        Readdir_mode = ReaddirMode_Normal \<rparr>) [1, 5])
      (put_dir 0 \<lparr> dh_read_dir = \<lparr> std_dirp = 1, end_of_stream = False \<rparr>, dh_last_entry = None, dh_offset = 1 \<rparr>
        (pth_root_only [47]), host0) = Some (bufs, s') \<and>
    concat (map snd bufs) = numbered 1 (map (listed (\<lambda>_. sim_stat 2)) (visible three_entries))"
proof -
  let ?ops = "map (\<lambda>n. \<lparr> Readdir_ino = NodeID_ROOT, Readdir_fh = FileID 0, Readdir_offset = 0, Readdir_size = n,
    Readdir_mode = ReaddirMode_Normal \<rparr>) [1, 5]"
  let ?self = "put_dir 0 \<lparr> dh_read_dir = \<lparr> std_dirp = 1, end_of_stream = False \<rparr>, dh_last_entry = None, dh_offset = 1 \<rparr>
    (pth_root_only [47])"
  have "sh_pos host0 = 0" by (simp add: host0_def)
  then have all: "drop (sh_pos host0) three_entries = three_entries" by simp
  have "length (drop (sh_pos host0) three_entries) < 2 ^ 63" by (simp add: all) (simp add: three_entries_def)
  moreover have "Mapping.lookup (pth_dirs ?self) 0 =
      Some \<lparr> dh_read_dir = \<lparr> std_dirp = 1, end_of_stream = False \<rparr>, dh_last_entry = None, dh_offset = 1 \<rparr>"
    by (simp add: put_dir_def)
  moreover have "\<forall>op \<in> set ?ops. plain_readdir 0 op" by (simp add: plain_readdir_def)
  ultimately obtain bufs s' now later where
      all': "readdir_all linux_extern dir_libc list_buffer ?ops (?self, host0) = Some (bufs, s')"
      "map (listed (\<lambda>_. sim_stat 2)) (visible three_entries) = now @ later" "concat (map snd bufs) = numbered 1 now"
    and enough: "(\<forall>op \<in> set ?ops. roomy list_buffer (map (listed (\<lambda>_. sim_stat 2)) (visible three_entries)) op) \<and>
      length (visible three_entries) \<le> length ?ops \<longrightarrow> later = []"
    using path_readdir_delivers_all [OF list_buffer_laws dir_libc_stream [of 1], where k = host0 and key = 0
        and self = ?self and ops = ?ops and X = linux_extern]
    unfolding all by blast
  have "\<forall>op \<in> set ?ops. roomy list_buffer es op" for es
    by (simp add: roomy_def does_not_fit_def list_buffer_def)
  moreover have "length (visible three_entries) \<le> length ?ops"
    by (simp add: visible_def three_entries_def dots_def as_bytes_def)
  ultimately have "later = []" using enough by blast
  with all' show ?thesis by (intro exI [of _ bufs] exI [of _ s'] conjI) simp_all
qed

text \<open>C38: A write request with data does not succeed: as nothing is consumed from the reader, the same chunk is
  written over and over. If the file takes all that is written and sums wrap around, the handler does
  not return.
\<close>

theorem path_write_never_completes:
  assumes "Write_size op \<noteq> 0" and "read 8192 data = (Ok bs, data')" and "bs \<noteq> []"
  shows "pth_write X L read data reply op s \<noteq> Some (Ok r, s') \<and>
    (\<forall>fd content pos.
       Mapping.lookup (pth_files (fst s)) (unat (FileID_into_raw (Write_fh op))) = Some fd \<and>
       file_io L fd content pos \<and> unat (Write_offset op) < 2 ^ 63 \<and> \<not> overflow_checks X \<longrightarrow>
       pth_write X L read data reply op s = None)"
proof -
  define rd where "rd = \<lparr> br_buf = [], br_limit = unat (Write_size op), br_inner = data \<rparr>"
  have limit: "unat (Write_size op) \<noteq> 0" using assms(1) by (simp add: unat_eq_0)
  obtain rd' where rd': "fill_buf read rd = (Ok (take (unat (Write_size op)) bs), rd')"
    "fill_buf read rd' = (Ok (take (unat (Write_size op)) bs), rd')"
    using fill_buf_again [of rd read bs data'] assms limit by (auto simp: rd_def)
  let ?chunk = "take (unat (Write_size op)) bs"
  have chunk: "?chunk \<noteq> []" using limit assms(3) by simp
  note loop = write_loop_twice [where fill = "fill_buf read", OF rd' chunk]
  have "pth_write X L read data reply op s = None"
    if fd: "Mapping.lookup (pth_files (fst s)) (unat (FileID_into_raw (Write_fh op))) = Some fd"
      and io: "file_io L fd content pos" "unat (Write_offset op) < 2 ^ 63" "\<not> overflow_checks X" for fd content pos
  proof -
    obtain k' where "File_seek L fd (Write_offset op) (snd s) = Some (Ok (), k')"
      by (rule File_seek_content [OF io(1,2)])
    with loop(2) [OF io(1,3)] have "FileHandle_write X L (fill_buf read) fd rd (Write_offset op) (snd s) = None"
      by (simp add: FileHandle_write_def act_bind_def)
    with fd show ?thesis
      by (simp add: pth_write_def pth_file_def act_bind_assoc rd_def) (simp add: act_bind_def on_host_def)
  qed
  moreover have "pth_write X L read data reply op s \<noteq> Some (Ok r, s')"
    by (auto simp: loop(1) pth_write_def FileHandle_write_def act_bind_eq act_result_eq on_host_eq rd_def [symmetric])
  ultimately show ?thesis by blast
qed

theorem path_write_never_completes_witness:
  "pth_write linux_extern (sim_libc (\<lambda>_. sim_stat 2)) (\<lambda>n d. (Ok (take n d), drop n d)) [1, 2, 3] (\<lambda>out. Ok (out :: unit fs_reply))
    \<lparr> Write_ino = NodeID_ROOT, Write_fh = FileID 0, Write_offset = 0, Write_size = 3,
      Write_options = OpenOptions_from_raw 0, Write_lock_owner = None, Write_flags = 0 \<rparr>
    ((pth_root_only [47])\<lparr> pth_files := Mapping.update 0 5 Mapping.empty \<rparr>, host0) = None"
proof -
  let ?op = "\<lparr> Write_ino = NodeID_ROOT, Write_fh = FileID 0, Write_offset = 0, Write_size = 3,
      Write_options = OpenOptions_from_raw 0, Write_lock_owner = None, Write_flags = 0 \<rparr>"
  have "\<not> overflow_checks linux_extern" by (simp add: linux_extern_def)
  then show ?thesis
    using path_write_never_completes [of ?op "\<lambda>n d. (Ok (take n d), drop n d)" "[1, 2, 3]" "[1, 2, 3]" "[]" linux_extern
        "sim_libc (\<lambda>_. sim_stat 2)" "\<lambda>out. Ok (out :: unit fs_reply)"
        "((pth_root_only [47])\<lparr> pth_files := Mapping.update 0 5 Mapping.empty \<rparr>, host0)"]
      sim_file_io [of "\<lambda>_. sim_stat 2" 5]
    by simp blast
qed

end
