(* ===== verification/Spec2Isabelle.thy ===== *)
theory Spec2Isabelle
  imports Memfs_Props Hello Basic Heartbeat Heartbeat_Entry Poll_File Passthrough_Props Path_Through_Props
begin

text \<open>
  A verification development of \<open>polyfuse\<close>, a library for userspace filesystems on Linux. A
  filesystem mounts a directory, agrees with the kernel on the parameters of the connection, and
  then answers the requests that the kernel sends over \<open>/dev/fuse\<close>. The paths below are relative to
  the crate \<open>src\<close>, except where the crate \<open>crates/polyfuse-kernel\<close> is named.

  \<^bold>\<open>Parts of the program.\<close> \<open>connect\<close> (\<open>src/connect.rs\<close>) mounts the directory (\<open>src/mount.rs\<close> with
  \<open>mount/priv_mount.rs\<close> and \<open>mount/unpriv_mount.rs\<close>), which gives a \<open>Device\<close> (\<open>src/device.rs\<close>), and
  runs the handshake: it reads \<open>FUSE_INIT\<close> requests, interprets their argument and negotiates a
  \<open>KernelConfig\<close> (\<open>src/init.rs\<close>). With it a \<open>Session\<close> (\<open>src/session.rs\<close>) receives requests into a
  \<open>RequestBuf\<close> (\<open>src/buf.rs\<close>, over the pipes of \<open>src/io.rs\<close> or in memory), decodes them to an
  \<open>Operation\<close> (\<open>src/op.rs\<close>, \<open>src/op/decoder.rs\<close>), and sends replies (\<open>src/reply.rs\<close>) and
  notifications as messages (\<open>src/msg.rs\<close>) of collected bytes (\<open>src/bytes.rs\<close>). The structures on
  the wire are those of \<open>crates/polyfuse-kernel/src/lib.rs\<close>. The programs under \<open>examples\<close> are filesystems
  on top of a session; those under \<open>examples_disabled\<close> are larger ones, written against an earlier
  interface of the library.

  \<^bold>\<open>Conventions.\<close>
  \<^item> Machine integers are words of their width, with wrap-around where the code has it;
    \<open>usize\<close> is \<open>nat\<close> with its bound written out where it matters.
  \<^item> Fallible code has the outcomes \<open>Ok\<close>, \<open>Err\<close> and \<open>Panic\<close> of \<^typ>\<open>('e, 'a) result\<close>. Where a
    definition has an outer \<^typ>\<open>'a option\<close>, \<open>None\<close> stands for a loop that does not return, or
    for reading memory that was never initialised.
  \<^item> An operation of a type \<open>T\<close> is named \<open>T_operation\<close>; a field of \<open>fuse_x\<close> is \<open>x_field\<close>.
  \<^item> Code outside of the repository is a parameter. \<^typ>\<open>extern\<close> holds the functions of third-party
    crates and of the standard library that depend on the machine, with the hypotheses
    \<open>bitflags_ok\<close>, \<open>zerocopy_ok\<close> and \<open>page_size_ok\<close>, and \<open>linux_extern\<close> satisfies them. \<^typ>\<open>'k os\<close>
    holds the system calls on a state \<^typ>\<open>'k\<close> of the operating system, with the hypotheses \<open>os_ok\<close>,
    \<open>dev_write_ok\<close> and \<open>readv_bounded\<close> from the manual pages of \<open>pipe\<close>, \<open>readv\<close>, \<open>splice\<close> and
    \<open>fuse\<close>, including that the kernel refuses read buffers of less than 8192 bytes, and \<open>sim_os\<close> satisfies
    them. \<open>Mount\<close> has a record of the same kind for \<open>mount\<close>, \<open>umount\<close>,
    processes and sockets, and \<open>Host\<close> one for the functions of the C library on files, \<^typ>\<open>'k libc\<close>, with
    the hypotheses \<open>libc_fds\<close> (which calls open and close descriptors), \<open>file_io\<close> (contents of a file)
    and \<open>dir_stream\<close> (entries of a directory), which \<open>sim_libc\<close> and \<open>dir_libc\<close> satisfy. For the filesystems under
    \<open>examples_disabled\<close>, \<open>req.reply\<close> and the buffer \<open>ReaddirOut\<close> of the earlier interface are parameters.

  \<^bold>\<open>Theories.\<close>
  \<^item> \<open>Prelude\<close>: integers, byte strings, outcomes, parameters; \<open>Platform\<close>: constants of the C library
    and \<open>Duration\<close>.
  \<^item> \<open>Pod\<close>: codecs for \<open>#[repr(C)]\<close> structures. The locale \<open>plain_old_data\<close> states the laws of a
    codec, and \<open>repr_c_struct\<close> adds that the declared layout has no implicit padding.
    \<open>Abi_Request\<close> and \<open>Abi_Reply\<close> have the structures of the interface, each an interpretation;
    \<open>Abi_Const\<close> has the constants, opcodes and notification codes.
  \<^item> \<open>Types\<close> (\<open>types.rs\<close>): identifiers, device numbers, modes, attributes.
  \<^item> \<open>Init\<close> (\<open>init.rs\<close>): \<open>KernelConfig\<close>, feature flags, \<open>InitIn\<close>, \<open>InitOut\<close> and \<open>negotiate\<close>, in the
    steps of the code. What is negotiated stays within what the kernel offers and the library
    supports, negotiating again changes nothing, and the error and the panic that are possible are
    characterised.
  \<^item> \<open>Header\<close> (\<open>InHeader\<close> of \<open>buf.rs\<close>), \<open>Decoder\<close> (\<open>op/decoder.rs\<close>), \<open>Op\<close> and \<open>Op_Decode\<close>
    (\<open>op.rs\<close>): the requests and \<open>Operation::decode\<close>, one definition per arm. \<open>Op_Wire\<close> has the wire
    format of every operation as an independent reference, with the version of the protocol from which on
    the kernel has it, and what the decoder makes of it: decoding inverts the format, results are
    well-formed, truncated arguments and those of older layouts are errors, and panics are characterised.
  \<^item> \<open>Bytes\<close> (\<open>bytes.rs\<close>): the implementations of the trait \<open>Bytes\<close> as a datatype; \<open>write_bytes\<close> with
    its arrays of uninitialised slices. The locale \<open>bytes_trait\<close> is the contract of the trait: as
    many chunks as counted, of the announced size. It gives that one vectored write gets all
    chunks and that no uninitialised slice is read.
  \<^item> \<open>Msg\<close> (\<open>msg.rs\<close>) and \<open>Reply\<close> (\<open>reply.rs\<close>): messages are accepted and understood by a reader
    that makes the checks of the FUSE driver (\<open>parse_msg\<close>, \<open>kernel_attr\<close> and so on), for the
    structures of every protocol version. \<open>Dirent\<close> (\<open>DirEntryBuf\<close> of \<open>reply.rs\<close>): pushing an entry
    refines appending to a list of entries.
  \<^item> \<open>Io\<close> (\<open>io.rs\<close>, \<open>device.rs\<close>) and \<open>Buf\<close> (\<open>buf.rs\<close>): pipes with their count of bytes, the device,
    and the two kinds of request buffers, which receive the same messages.
  \<^item> \<open>Session\<close> (\<open>session.rs\<close>): the operations of a session, and \<open>session_step\<close>, an inductive
    relation with a step per operation. A run is a sequence of steps in any order, the steps being
    the atomic accesses of threads that share the session. The locale \<open>session_machine\<close> states what a
    step keeps, and its lemmas carry over to runs. \<open>thread_step\<close> adds the threads that receive
    requests, with the test whether the session has exited and the end of the read as separate steps.
  \<^item> \<open>Mount\<close> (\<open>mount.rs\<close>, \<open>mount/priv_mount.rs\<close>, \<open>mount/unpriv_mount.rs\<close>, \<open>util.rs\<close>): options and their
    encodings, the fallback to \<open>fusermount\<close>, and undoing a mount. \<open>Connect\<close> (\<open>connect.rs\<close>): the
    handshake.
  \<^item> \<open>Runs\<close>: runs of a state machine. The locale \<open>counted_machine\<close> carries an invariant of steps, which may
    depend on their number, over to runs; it is interpreted on each of the filesystems with a state below.
  \<^item> \<open>Receive\<close>: requests in wire format as a session receives them. \<open>Serve\<close>: the loop of a server with its
    \<open>main\<close> function; the locales \<open>answering\<close> and \<open>covering\<close> state what a handler does with one request and
    give what the server does with a sequence of them.
  \<^item> \<open>Basic\<close>, \<open>Hello\<close>, \<open>Heartbeat\<close>, \<open>Heartbeat_Entry\<close> and \<open>Poll_File\<close> (\<open>examples/basic.rs\<close>, \<open>hello.rs\<close>,
    \<open>heartbeat.rs\<close>, \<open>heartbeat_entry.rs\<close>, \<open>poll.rs\<close>): the handlers, and the threads beside them as steps
    that interleave. The replies are those of a specification; the names and contents that the kernel
    caches agree with the filesystem; a poll is notified when its handling ends before the file becomes
    ready, and not in the interleaving that loses it.
  \<^item> \<open>Fs\<close>: replies, handlers and locks of the disabled examples. \<open>Memfs\<close>, \<open>Memfs_Inv\<close> and \<open>Memfs_Props\<close>
    (\<open>examples_disabled/memfs.rs\<close>): the table of nodes, all handlers, an invariant between names, links and
    nodes, and the refinement of a map from names to nodes.
  \<^item> \<open>Host\<close>: actions on a state that may fail or not return, the C library as a parameter, and the parts of
    \<open>std::fs\<close> and \<open>std::io\<close> on top of it. The locale \<open>preorder_rel\<close> has the rules for what actions keep.
    \<open>Nix\<close> (\<open>examples_disabled/passthrough/nix.rs\<close>): the wrappers of system calls, and which descriptors
    they open and close.
  \<^item> \<open>Passthrough\<close>, \<open>Passthrough_Inv\<close> and \<open>Passthrough_Props\<close> (\<open>examples_disabled/passthrough/main.rs\<close>): all
    handlers. In every state nodes and files of the host correspond one to one and the open descriptors
    are those of nodes and handles; references are counted as the protocol asks for; data that is written
    is read back; looking up \<open>.\<close> blocks.
  \<^item> \<open>Path_Through\<close> and \<open>Path_Through_Props\<close> (\<open>examples_disabled/path_through.rs\<close>): all handlers. Nodes and
    paths, compared by their components, correspond; a directory is delivered in order and without gaps
    over any number of requests, and completely if there are enough; a write with data does not end.
  \<^item> This theory: the way of a request from the kernel through the session to the decoder, for both
    the case in which it works and the case in which data is lost, and the size of the buffers that
    follows from the negotiation.

  \<^bold>\<open>Loops.\<close> Loops that may not end are partial functions, without fuel: a call that does not return is
  \<open>None\<close>, and it is proved under which conditions a result is returned (\<open>Pipe_read_exact\<close>, \<open>connect_loop\<close>,
  \<open>read_to_end\<close>, \<open>write_all\<close>, \<open>fill_entries\<close>) or is not (\<open>write_loop\<close>). \<open>serve\<close>, \<open>cvt_r\<close>, \<open>ReadDir_next\<close>, \<open>push_stream\<close>
  and \<open>read_link_buf\<close> go on as long as requests or the host let them. Every other loop is a structural
  recursion or a recursion with a termination proof.

  \<^bold>\<open>Bounds.\<close> Reference counts and node numbers have 32 or 64 bits. The invariants of \<open>Memfs\<close> are stated for
  runs of up to 2^31 requests, and those of \<open>Passthrough\<close> and \<open>Path_Through\<close> for up to 2^62: within them no
  counter wraps around.

  \<^bold>\<open>Not modelled.\<close>
  \<^item> Log output (\<open>tracing\<close>), \<open>Debug\<close> and \<open>Display\<close> implementations, the unit tests, and \<open>lib.rs\<close>, which
    only exports names.
  \<^item> The memory model behind the atomic variables of a session: every access is one step.
  \<^item> Blanket implementations that only forward (\<open>Read for &mut R\<close>, \<open>Arc\<close> and the like).
  \<^item> Byte orders and platforms other than \<open>x86_64-unknown-linux-gnu\<close>, and white space beyond ASCII
    in mount options.
  \<^item> \<open>crates/polyfuse-kernel-systest\<close>, which compares the structures with the C headers of a system
    when it is built, and \<open>examples/poll_client.rs\<close>, a client that calls \<open>open\<close>, \<open>poll\<close> and \<open>read\<close> of the host
    and prints the results.
  \<^item> Parsing of the command line in the examples, and the \<open>main\<close> functions of those under
    \<open>examples_disabled\<close>, which start a daemon of the earlier version of the library.
  \<^item> Requests that the disabled examples handle at the same time: a step is a whole handler there. A
    thread that waits for a lock that it holds itself is modelled, and so is the poisoning of the mutex
    around the open directories of \<open>Memfs\<close>; that of other mutexes is not.
\<close>

section \<open>Samples\<close>

text \<open>Requests and a configuration for examples.\<close>

definition lookup_header :: InHeader where
  "lookup_header =
     \<lparr> in_header_len = 43, in_header_opcode = 1, in_header_unique = 6, in_header_nodeid = 1,
       in_header_uid = 0, in_header_gid = 0, in_header_pid = 1, in_header_total_extlen = 0,
       in_header_padding = 0 \<rparr>"

definition write_header :: InHeader where
  "write_header =
     \<lparr> in_header_len = 84, in_header_opcode = 16, in_header_unique = 6, in_header_nodeid = 1,
       in_header_uid = 0, in_header_gid = 0, in_header_pid = 1, in_header_total_extlen = 0,
       in_header_padding = 0 \<rparr>"

definition old_config :: KernelConfig where
  "old_config = KernelConfig_new\<lparr> config_minor := 8 \<rparr>"

definition sample_write :: Write where
  "sample_write =
     \<lparr> Write_ino = NodeID_ROOT, Write_fh = FileID 3, Write_offset = 0, Write_size = 20,
       Write_options = OpenOptions_from_raw 0, Write_lock_owner = None, Write_flags = 0 \<rparr>"

section \<open>Lemmas\<close>

lemma negotiated_max_write:
  assumes "page_size_ok X" and "\<not> is_Compat3 init_in" and "negotiate X config init_in = Ok config'"
  shows "MIN_MAX_WRITE \<le> config_max_write config'"
proof -
  let ?c = "negotiate_max_write X
    (negotiate_max_readahead init_in (negotiate_flags X init_in (negotiate_version init_in config)))"
  from assms(2,3) obtain b where b: "negotiate_background X ?c = Ok b"
    and c': "config' = negotiate_passthrough (negotiate_max_pages (negotiate_time_gran b))
        \<lparr> config_request_timeout := 0 \<rparr>"
    by (auto elim: negotiate_OkE)
  show ?thesis
    using negotiate_max_write_bounds [OF assms(1)] by (simp add: c' negotiate_background_Ok [OF b])
qed

section \<open>Properties across components\<close>

text \<open>C1: From the kernel to the handler: a message in the wire format of an operation that waits on the
  connection and fits the buffer is received by a session into memory and decoded to exactly that
  operation, with the header of the message, and the data that follows the argument comes first in
  what remains. This is so from version 7.9 of the protocol on for every operation that the version has,
  except that requests to create files and directories have their current layout from version 7.12 on
  only; and in version 7.8 for the operations whose request has the current layout already, but not for
  write requests.
\<close>

theorem session_receives_operation:
  assumes "bitflags_ok X" and "zerocopy_ok X" and "addr mod 8 = 0" and "os_ok S V"
    and "\<not> sess_exited s" and "op_wf X (sess_config s) op" and "wire_header op header"
    and "unat (in_header_len header) = length (wire_message (sess_config s) header op data)"
    and "data = [] \<or> has_data op"
    and "\<not> (config_minor (sess_config s) \<le> 8 \<and> wire_opcode op = FUSE_WRITE)"
    and "wire_sent (sess_config s) op"
    and "v_dev V k (Device_fd d) = wire_message (sess_config s) header op data # ms"
    and "vec_of_size n buf" and "length (wire_message (sess_config s) header op data) \<le> 40 + n"
  shows "\<exists>buf' k' stale.
    Session_recv_request S (device_conn S d) s buf k = Some (Ok True, s, buf', k') \<and>
    Session_decode X s buf' addr =
      Ok (\<lparr> req_header = header \<rparr>, op, RemainingData_Vec (data @ stale))"
proof -
  note len = arg_len_wire [OF assms(7-10)]
  have "length (wire_arg (sess_config s) op) \<le> InHeader_arg_len header"
    "InHeader_arg_len header \<le> length (wire_arg (sess_config s) op) + length data"
    by (simp_all add: len)
  from receive_and_decode [OF assms(1-8) this assms(12-14)] show ?thesis by (auto simp: len)
qed

theorem session_receives_operation_witness:
  "\<exists>buf' k' stale.
    Session_recv_request sim_os (device_conn sim_os (Device_from_fd 0)) (Session_new KernelConfig_new)
      \<lparr> buf_header = zeroed_in_header, buf_kind = BufKind_Vec sample_vec_buf \<rparr>
      \<lparr> sim_next = 0, sim_pipes = Map.empty,
        sim_dev = [wire_message KernelConfig_new lookup_header
          (Lookup \<lparr> Lookup_parent = NodeID_ROOT, Lookup_name = [97, 98] \<rparr>) []],
        sim_written = [] \<rparr> = Some (Ok True, Session_new KernelConfig_new, buf', k') \<and>
    Session_decode linux_extern (Session_new KernelConfig_new) buf' 64 =
      Ok (\<lparr> req_header = lookup_header \<rparr>, Lookup \<lparr> Lookup_parent = NodeID_ROOT, Lookup_name = [97, 98] \<rparr>,
        RemainingData_Vec ([] @ stale))"
proof (rule session_receives_operation [where V = sim_view and n = 8152 and ms = "[]"])
  let ?op = "Lookup \<lparr> Lookup_parent = NodeID_ROOT, Lookup_name = [97, 98] \<rparr>"
  let ?s = "Session_new KernelConfig_new"
  have c: "sess_config ?s = KernelConfig_new" by (simp add: Session_new_def)
  have len: "length (wire_message KernelConfig_new lookup_header ?op []) = 43"
    by (simp add: wire_message_parts cstr_def)
  show "bitflags_ok linux_extern" "zerocopy_ok linux_extern" "(64 :: nat) mod 8 = 0" by simp_all
  show "os_ok sim_os sim_view" by (rule sim_os_ok)
  show "\<not> sess_exited ?s" by (simp add: Session_new_def)
  show "op_wf linux_extern (sess_config ?s) ?op" by simp
  show "wire_header ?op lookup_header" by (simp add: wire_header_def lookup_header_def)
  show "wire_sent (sess_config ?s) ?op" unfolding c by (simp add: wire_sent_def KernelConfig_new_def abi_const)
  show "unat (in_header_len lookup_header) =
      length (wire_message (sess_config ?s) lookup_header ?op [])"
    by (simp add: c len) (simp add: lookup_header_def)
  show "length (wire_message (sess_config ?s) lookup_header ?op []) \<le> 40 + 8152" by (simp add: c len)
  show "vec_of_size 8152 \<lparr> buf_header = zeroed_in_header, buf_kind = BufKind_Vec sample_vec_buf \<rparr>"
    by (simp add: vec_of_size_def sample_vec_buf_def abi_const)
qed (simp_all add: sim_view_def Session_new_def)

text \<open>C35: For the protocol versions up to 7.8, the argument of a write request is 24 bytes long, but 40
  bytes are set apart as the argument: the operation is decoded, and the first 16 bytes of the
  data are missing from what remains.
\<close>

theorem write_compat_8_cuts_data:
  assumes "bitflags_ok X" and "zerocopy_ok X" and "addr mod 8 = 0" and "os_ok S V"
    and "\<not> sess_exited s" and "op_wf X (sess_config s) (Write w)" and "wire_header (Write w) header"
    and "unat (in_header_len header) = length (wire_message (sess_config s) header (Write w) data)"
    and "config_minor (sess_config s) \<le> 8" and "16 \<le> length data"
    and "v_dev V k (Device_fd d) = wire_message (sess_config s) header (Write w) data # ms"
    and "vec_of_size n buf" and "length (wire_message (sess_config s) header (Write w) data) \<le> 40 + n"
  shows "\<exists>buf' k' stale.
    Session_recv_request S (device_conn S d) s buf k = Some (Ok True, s, buf', k') \<and>
    Session_decode X s buf' addr =
      Ok (\<lparr> req_header = header \<rparr>, Write w, RemainingData_Vec (drop 16 data @ stale))"
proof -
  have "InHeader_opcode header = Ok FUSE_WRITE"
    using assms(7) by (simp add: wire_header_def InHeader_opcode_Ok)
  then have n: "InHeader_arg_len header = 40"
    by (simp add: InHeader_arg_len_def pod_sizes)
  have len: "length (wire_arg (sess_config s) (Write w)) = 24"
    using assms(9) by (simp add: fuse_write_in_compat_8.enc_length pod_sizes)
  have "length (wire_arg (sess_config s) (Write w)) \<le> InHeader_arg_len header"
    "InHeader_arg_len header \<le> length (wire_arg (sess_config s) (Write w)) + length data"
    using assms(10) by (simp_all only: len n)
  from receive_and_decode [OF assms(1-8) this assms(11-13)] show ?thesis
    by (simp only: len n) auto
qed

theorem write_compat_8_cuts_data_witness:
  "\<exists>buf' k' stale.
    Session_recv_request sim_os (device_conn sim_os (Device_from_fd 0)) (Session_new old_config)
      \<lparr> buf_header = zeroed_in_header, buf_kind = BufKind_Vec sample_vec_buf \<rparr>
      \<lparr> sim_next = 0, sim_pipes = Map.empty,
        sim_dev = [wire_message old_config write_header (Write sample_write) (replicate 20 7)],
        sim_written = [] \<rparr> = Some (Ok True, Session_new old_config, buf', k') \<and>
    Session_decode linux_extern (Session_new old_config) buf' 64 =
      Ok (\<lparr> req_header = write_header \<rparr>, Write sample_write,
        RemainingData_Vec (drop 16 (replicate 20 7) @ stale))"
proof (rule write_compat_8_cuts_data [where V = sim_view and n = 8152 and ms = "[]"])
  let ?s = "Session_new old_config"
  have c: "sess_config ?s = old_config" by (simp add: Session_new_def)
  have len: "length (wire_message old_config write_header (Write sample_write) (replicate 20 7)) = 84"
    by (simp add: wire_message_parts old_config_def fuse_write_in_compat_8.enc_length pod_sizes)
  show "bitflags_ok linux_extern" "zerocopy_ok linux_extern" "(64 :: nat) mod 8 = 0" by simp_all
  show "os_ok sim_os sim_view" by (rule sim_os_ok)
  show "\<not> sess_exited ?s" by (simp add: Session_new_def)
  show "op_wf linux_extern (sess_config ?s) (Write sample_write)"
    by (simp add: sample_write_def flags_contains_def)
  show "wire_header (Write sample_write) write_header"
    by (simp add: wire_header_def write_header_def sample_write_def)
  show "unat (in_header_len write_header) =
      length (wire_message (sess_config ?s) write_header (Write sample_write) (replicate 20 7))"
    by (simp add: c len) (simp add: write_header_def)
  show "length (wire_message (sess_config ?s) write_header (Write sample_write) (replicate 20 7)) \<le> 40 + 8152"
    by (simp add: c len)
  show "vec_of_size 8152 \<lparr> buf_header = zeroed_in_header, buf_kind = BufKind_Vec sample_vec_buf \<rparr>"
    by (simp add: vec_of_size_def sample_vec_buf_def abi_const)
  show "config_minor (sess_config ?s) \<le> 8" by (simp add: Session_new_def old_config_def)
qed (simp_all add: sim_view_def Session_new_def)

text \<open>The request buffers of a session that was negotiated with a kernel of ABI 7.4 or later are
  never smaller than the kernel asks for; creating one in memory succeeds, with room for the
  largest write request that was negotiated.
\<close>

theorem session_buffer_size:
  assumes "page_size_ok X" and "\<not> is_Compat3 init_in" and "negotiate X config init_in = Ok config'"
  shows "unat FUSE_MIN_READ_BUFFER \<le> Session_request_buffer_size (Session_new config') \<and>
    (if flags_contains (config_flags config') KernelFlags_SPLICE_READ
     then Session_new_request_buffer S (Session_new config') k =
       RequestBuf_new_pipe S (80 + unat (config_max_write config')) k
     else \<exists>buf. Session_new_request_buffer S (Session_new config') k = (Ok buf, k) \<and>
       vec_of_size (40 + unat (config_max_write config')) buf)"
  using negotiated_max_write [OF assms]
  by (auto simp: Session_request_buffer_size_def Session_new_request_buffer_def Session_new_def
      RequestBuf_new_vec_def vec_of_size_def MIN_MAX_WRITE_def word_le_nat_alt pod_sizes abi_const)

end
